(* ===== verification/Prelude.thy ===== *)
theory Prelude
  imports Main "HOL-Library.Char_ord" "HOL-Library.List_Lexorder" "HOL-Library.Sublist"
begin

text \<open>
  Shared ground of the development.  The first part is the effect type of every stateful
  definition: a Python method that reads and writes state and may raise is a function from a
  state to an exception or a value, with the state the method leaves behind.  The second part
  is the reasoning layer over it: equations and inversions of the combinators, and
  \<open>obeys R m\<close>, a relation between the state a method finds and the state it leaves.
\<close>

section \<open>Effects\<close>

type_synonym ('s, 'e, 'a) M = "'s \<Rightarrow> ('e + 'a) \<times> 's"

definition ret :: "'a \<Rightarrow> ('s, 'e, 'a) M" where
  "ret x = (\<lambda>s. (Inr x, s))"

definition raise :: "'e \<Rightarrow> ('s, 'e, 'a) M" where
  "raise e = (\<lambda>s. (Inl e, s))"

definition andthen :: "('s, 'e, 'a) M \<Rightarrow> ('a \<Rightarrow> ('s, 'e, 'b) M) \<Rightarrow> ('s, 'e, 'b) M" where
  "andthen m f = (\<lambda>s. case m s of (Inl e, s') \<Rightarrow> (Inl e, s') | (Inr x, s') \<Rightarrow> f x s')"

text \<open>\<open>handle m h\<close> is \<open>try: m  except e: h e\<close>; \<open>h\<close> raises again what it does not catch.\<close>

definition handle :: "('s, 'e, 'a) M \<Rightarrow> ('e \<Rightarrow> ('s, 'e, 'a) M) \<Rightarrow> ('s, 'e, 'a) M" where
  "handle m h = (\<lambda>s. case m s of (Inl e, s') \<Rightarrow> h e s' | (Inr x, s') \<Rightarrow> (Inr x, s'))"

definition gets :: "('s \<Rightarrow> 'a) \<Rightarrow> ('s, 'e, 'a) M" where
  "gets f = (\<lambda>s. (Inr (f s), s))"

definition modify :: "('s \<Rightarrow> 's) \<Rightarrow> ('s, 'e, unit) M" where
  "modify f = (\<lambda>s. (Inr (), f s))"

definition require :: "bool \<Rightarrow> 'e \<Rightarrow> ('s, 'e, unit) M" where
  "require b e = (if b then ret () else raise e)"

text \<open>A pure result that may be an exception, used inside a method.\<close>

definition lift_sum :: "'e + 'a \<Rightarrow> ('s, 'e, 'a) M" where
  "lift_sum r = (case r of Inl e \<Rightarrow> raise e | Inr x \<Rightarrow> ret x)"

text \<open>A Python \<open>for\<close> loop whose body is a method.\<close>

fun for_each :: "'x list \<Rightarrow> ('x \<Rightarrow> ('s, 'e, unit) M) \<Rightarrow> ('s, 'e, unit) M" where
  "for_each [] f = ret ()"
| "for_each (x # xs) f = andthen (f x) (\<lambda>_. for_each xs f)"

text \<open>A loop that also carries local variables.\<close>

fun fold_each :: "'x list \<Rightarrow> ('x \<Rightarrow> 'v \<Rightarrow> ('s, 'e, 'v) M) \<Rightarrow> 'v \<Rightarrow> ('s, 'e, 'v) M" where
  "fold_each [] f v = ret v"
| "fold_each (x # xs) f v = andthen (f x v) (\<lambda>v'. fold_each xs f v')"

fun sum_bind :: "'e + 'a \<Rightarrow> ('a \<Rightarrow> 'e + 'b) \<Rightarrow> 'e + 'b" where
  "sum_bind (Inl e) f = Inl e"
| "sum_bind (Inr x) f = f x"

lemma sum_bind_eq_Inr [simp]: "(sum_bind r f = Inr y) \<longleftrightarrow> (\<exists>x. r = Inr x \<and> f x = Inr y)"
  by (cases r) auto

lemma sum_bind_eq_Inl [simp]:
  "(sum_bind r f = Inl e) \<longleftrightarrow> r = Inl e \<or> (\<exists>x. r = Inr x \<and> f x = Inl e)"
  by (cases r) auto

section \<open>Evaluation and inversion\<close>

named_theorems m_defs \<open>the definitions of the effect combinators\<close>

declare ret_def [m_defs] raise_def [m_defs] andthen_def [m_defs] handle_def [m_defs]
  gets_def [m_defs] modify_def [m_defs] require_def [m_defs] lift_sum_def [m_defs]

lemma ret_apply: "ret x s = (Inr x, s)"
  by (simp add: ret_def)

lemma raise_apply: "raise e s = (Inl e, s)"
  by (simp add: raise_def)

lemma ret_eq [simp]: "(ret x s = (r, s')) \<longleftrightarrow> r = Inr x \<and> s' = s"
  by (auto simp: ret_def)

lemma raise_eq [simp]: "(raise e s = (r, s')) \<longleftrightarrow> r = Inl e \<and> s' = s"
  by (auto simp: raise_def)

lemma ret_fst_snd [simp]: "fst (ret x s) = Inr x" "snd (ret x s) = s"
  by (simp_all add: ret_def)

lemma raise_fst_snd [simp]: "fst (raise e s) = Inl e" "snd (raise e s) = s"
  by (simp_all add: raise_def)

lemma gets_apply [simp]: "gets f s = (Inr (f s), s)"
  by (simp add: gets_def)

lemma modify_apply [simp]: "modify f s = (Inr (), f s)"
  by (simp add: modify_def)

lemma require_apply [simp]: "require b e s = (if b then (Inr (), s) else (Inl e, s))"
  by (simp add: require_def)

lemma andthen_ret [simp]: "andthen (ret x) f = f x"
  by (rule ext) (simp add: andthen_def ret_def)

lemma andthen_raise [simp]: "andthen (raise e) f = raise e"
  by (rule ext) (simp add: andthen_def raise_def)

lemma handle_ret [simp]: "handle (ret x) h = ret x"
  by (rule ext) (simp add: handle_def ret_def)

lemma handle_raise [simp]: "handle (raise e) h = h e"
  by (rule ext) (simp add: handle_def raise_def)

lemma andthen_gets [simp]: "andthen (gets g) f s = f (g s) s"
  by (simp add: andthen_def)

lemma andthen_modify [simp]: "andthen (modify g) f s = f () (g s)"
  by (simp add: andthen_def)

lemma andthen_require [simp]:
  "andthen (require b e) f s = (if b then f () s else (Inl e, s))"
  by (simp add: andthen_def)

lemma lift_sum_Inr [simp]: "lift_sum (Inr x) = ret x"
  by (simp add: lift_sum_def)

lemma lift_sum_Inl [simp]: "lift_sum (Inl e) = raise e"
  by (simp add: lift_sum_def)

lemma andthen_Inr: "m s = (Inr x, s') \<Longrightarrow> andthen m f s = f x s'"
  by (simp add: andthen_def)

lemma andthen_Inl: "m s = (Inl e, s') \<Longrightarrow> andthen m f s = (Inl e, s')"
  by (simp add: andthen_def)

lemma andthen_eq_Inr:
  "(andthen m f s = (Inr y, s'')) \<longleftrightarrow> (\<exists>x s'. m s = (Inr x, s') \<and> f x s' = (Inr y, s''))"
  by (auto simp: andthen_def split: prod.splits sum.splits)

lemma andthen_eq_Inl:
  "(andthen m f s = (Inl e, s'')) \<longleftrightarrow>
     m s = (Inl e, s'') \<or> (\<exists>x s'. m s = (Inr x, s') \<and> f x s' = (Inl e, s''))"
  by (auto simp: andthen_def split: prod.splits sum.splits)

lemma andthenE [elim?]:
  assumes "andthen m f s = (Inr y, s'')"
  obtains x s' where "m s = (Inr x, s')" and "f x s' = (Inr y, s'')"
  using assms by (auto simp: andthen_eq_Inr)

lemma handle_eq_Inr:
  "(handle m h s = (Inr y, s'')) \<longleftrightarrow>
     m s = (Inr y, s'') \<or> (\<exists>e s'. m s = (Inl e, s') \<and> h e s' = (Inr y, s''))"
  by (auto simp: handle_def split: prod.splits sum.splits)

lemma handle_eq_Inl:
  "(handle m h s = (Inl e', s'')) \<longleftrightarrow> (\<exists>e s'. m s = (Inl e, s') \<and> h e s' = (Inl e', s''))"
  by (auto simp: handle_def split: prod.splits sum.splits)

lemma lift_sum_eq_Inr [simp]: "(lift_sum r s = (Inr x, s')) \<longleftrightarrow> r = Inr x \<and> s' = s"
  by (cases r) auto

lemma lift_sum_eq_Inl [simp]: "(lift_sum r s = (Inl e, s')) \<longleftrightarrow> r = Inl e \<and> s' = s"
  by (cases r) auto

section \<open>What a method does to the state\<close>

text \<open>
  \<open>obeys R m\<close>: whether \<open>m\<close> returns or raises, the state it leaves is related by \<open>R\<close> to the
  state it found.  When \<open>R\<close> is a preorder, sequencing, handling, branching and looping of
  methods that obey \<open>R\<close> obey \<open>R\<close>; the locale proves this once.
\<close>

definition obeys :: "('s \<Rightarrow> 's \<Rightarrow> bool) \<Rightarrow> ('s, 'e, 'a) M \<Rightarrow> bool" where
  "obeys R m \<longleftrightarrow> (\<forall>s. R s (snd (m s)))"

lemma obeysI: "(\<And>s r s'. m s = (r, s') \<Longrightarrow> R s s') \<Longrightarrow> obeys R m"
  by (metis obeys_def prod.collapse)

lemma obeysD: "obeys R m \<Longrightarrow> m s = (r, s') \<Longrightarrow> R s s'"
  by (auto simp: obeys_def dest: spec [of _ s])

lemma obeys_mono: "obeys R m \<Longrightarrow> (\<And>s s'. R s s' \<Longrightarrow> Q s s') \<Longrightarrow> obeys Q m"
  by (auto simp: obeys_def)

locale state_order =
  fixes R :: "'s \<Rightarrow> 's \<Rightarrow> bool"
  assumes refl: "R s s"
    and trans: "R s t \<Longrightarrow> R t u \<Longrightarrow> R s u"
begin

lemma ret_obeys: "obeys R (ret x)"
  by (simp add: obeys_def refl)

lemma raise_obeys: "obeys R (raise e)"
  by (simp add: obeys_def refl)

lemma gets_obeys: "obeys R (gets f)"
  by (simp add: obeys_def refl)

lemma require_obeys: "obeys R (require b e)"
  by (simp add: obeys_def refl)

lemma lift_sum_obeys: "obeys R (lift_sum r)"
  by (cases r) (simp_all add: obeys_def refl)

lemma andthen_obeys:
  assumes "obeys R m" and "\<And>x. obeys R (f x)"
  shows "obeys R (andthen m f)"
proof (rule obeysI)
  fix s r s'
  assume run: "andthen m f s = (r, s')"
  obtain q t where m: "m s = (q, t)" by fastforce
  then have st: "R s t" using assms(1) by (rule obeysD [rotated])
  show "R s s'"
  proof (cases q)
    case (Inl e)
    with run m st show ?thesis by (simp add: andthen_def)
  next
    case (Inr x)
    with run m have "f x t = (r, s')" by (simp add: andthen_def)
    then have "R t s'" using assms(2) by (rule obeysD [rotated])
    with st show ?thesis by (rule trans)
  qed
qed

lemma handle_obeys:
  assumes "obeys R m" and "\<And>e. obeys R (h e)"
  shows "obeys R (handle m h)"
proof (rule obeysI)
  fix s r s'
  assume run: "handle m h s = (r, s')"
  obtain q t where m: "m s = (q, t)" by fastforce
  then have st: "R s t" using assms(1) by (rule obeysD [rotated])
  show "R s s'"
  proof (cases q)
    case (Inl e)
    with run m have "h e t = (r, s')" by (simp add: handle_def)
    then have "R t s'" using assms(2) by (rule obeysD [rotated])
    with st show ?thesis by (rule trans)
  next
    case (Inr x)
    with run m st show ?thesis by (simp add: handle_def)
  qed
qed

lemma for_each_obeys: "(\<And>x. obeys R (f x)) \<Longrightarrow> obeys R (for_each xs f)"
  by (induction xs) (simp_all add: ret_obeys andthen_obeys)

lemma fold_each_obeys: "(\<And>x v. obeys R (f x v)) \<Longrightarrow> obeys R (fold_each xs f v)"
  by (induction xs arbitrary: v) (simp_all add: ret_obeys andthen_obeys)

lemma if_obeys:
  "(b \<Longrightarrow> obeys R m) \<Longrightarrow> (\<not> b \<Longrightarrow> obeys R n) \<Longrightarrow> obeys R (if b then m else n)"
  by simp

lemma case_option_obeys:
  "(x = None \<Longrightarrow> obeys R m) \<Longrightarrow> (\<And>y. x = Some y \<Longrightarrow> obeys R (f y)) \<Longrightarrow>
   obeys R (case x of None \<Rightarrow> m | Some y \<Rightarrow> f y)"
  by (cases x) auto

lemma case_prod_obeys:
  "(\<And>a b. x = (a, b) \<Longrightarrow> obeys R (f a b)) \<Longrightarrow> obeys R (case x of (a, b) \<Rightarrow> f a b)"
  by (cases x) auto

lemma case_sum_obeys:
  "(\<And>a. x = Inl a \<Longrightarrow> obeys R (f a)) \<Longrightarrow> (\<And>b. x = Inr b \<Longrightarrow> obeys R (g b)) \<Longrightarrow>
   obeys R (case x of Inl a \<Rightarrow> f a | Inr b \<Rightarrow> g b)"
  by (cases x) auto

lemma Let_obeys: "(\<And>x. x = v \<Longrightarrow> obeys R (f x)) \<Longrightarrow> obeys R (Let v f)"
  by simp

lemmas obeys_intros =
  ret_obeys raise_obeys gets_obeys require_obeys lift_sum_obeys
  andthen_obeys handle_obeys for_each_obeys fold_each_obeys
  if_obeys case_option_obeys case_prod_obeys case_sum_obeys Let_obeys

end

section \<open>What a method returns\<close>

text \<open>\<open>returns m s Q\<close>: if \<open>m\<close> started in \<open>s\<close> returns, the value and the final state satisfy \<open>Q\<close>.
  The equations compute it along the code.\<close>

definition returns :: "('s, 'e, 'a) M \<Rightarrow> 's \<Rightarrow> ('a \<Rightarrow> 's \<Rightarrow> bool) \<Rightarrow> bool" where
  "returns m s Q \<longleftrightarrow> (\<forall>x s'. m s = (Inr x, s') \<longrightarrow> Q x s')"

lemma returnsD: "returns m s Q \<Longrightarrow> m s = (Inr x, s') \<Longrightarrow> Q x s'"
  by (simp add: returns_def)

lemma returns_mono: "returns m s Q \<Longrightarrow> (\<And>x t. Q x t \<Longrightarrow> P x t) \<Longrightarrow> returns m s P"
  by (auto simp: returns_def)

lemma returns_ret [simp]: "returns (ret x) s Q = Q x s"
  by (simp add: returns_def)

lemma returns_raise [simp]: "returns (raise e) s Q"
  by (simp add: returns_def)

lemma returns_gets [simp]: "returns (gets f) s Q = Q (f s) s"
  by (simp add: returns_def)

lemma returns_modify [simp]: "returns (modify f) s Q = Q () (f s)"
  by (simp add: returns_def)

lemma returns_require [simp]: "returns (require b e) s Q = (b \<longrightarrow> Q () s)"
  by (simp add: returns_def)

lemma returns_lift_sum [simp]: "returns (lift_sum r) s Q = (\<forall>x. r = Inr x \<longrightarrow> Q x s)"
  by (auto simp: returns_def)

lemma returns_andthen [simp]:
  "returns (andthen m f) s Q = returns m s (\<lambda>x t. returns (f x) t Q)"
  by (auto simp: returns_def andthen_eq_Inr)

lemma returns_if [simp]:
  "returns (if b then m else n) s Q = ((b \<longrightarrow> returns m s Q) \<and> (\<not> b \<longrightarrow> returns n s Q))"
  by simp

lemma returns_case_option [simp]:
  "returns (case x of None \<Rightarrow> m | Some y \<Rightarrow> f y) s Q =
     ((x = None \<longrightarrow> returns m s Q) \<and> (\<forall>y. x = Some y \<longrightarrow> returns (f y) s Q))"
  by (cases x) auto

lemma returns_case_prod [simp]:
  "returns (case x of (a, b) \<Rightarrow> f a b) s Q = (\<forall>a b. x = (a, b) \<longrightarrow> returns (f a b) s Q)"
  by (cases x) auto

lemma returns_fold_each:
  assumes "I xs v s"
    and "\<And>x xs v s. I (x # xs) v s \<Longrightarrow> returns (f x v) s (\<lambda>v' t. I xs v' t)"
  shows "returns (fold_each xs f v) s (\<lambda>v' t. I [] v' t)"
  using assms(1)
proof (induction xs arbitrary: v s)
  case Nil
  then show ?case by simp
next
  case (Cons x xs)
  from assms(2) [OF Cons.prems] show ?case
    by (simp, elim returns_mono) (rule Cons.IH)
qed

text \<open>The order of a predicate: once it holds it keeps holding.\<close>

definition stable :: "('s \<Rightarrow> bool) \<Rightarrow> 's \<Rightarrow> 's \<Rightarrow> bool" where
  "stable I s s' \<longleftrightarrow> (I s \<longrightarrow> I s')"

interpretation stable: state_order "stable I" for I
  by unfold_locales (auto simp: stable_def)

section \<open>How a method ends\<close>

text \<open>\<open>ends m s Q\<close>: \<open>Q\<close> holds of the result, value or exception, and the state \<open>m\<close> leaves when it is
  started in \<open>s\<close>.  The equations compute it along the code; a call with a known effect is stepped
  over with \<open>ends_obeys\<close>.\<close>

definition ends :: "('s, 'e, 'a) M \<Rightarrow> 's \<Rightarrow> ('e + 'a \<Rightarrow> 's \<Rightarrow> bool) \<Rightarrow> bool" where
  "ends m s Q \<longleftrightarrow> (case m s of (r, s') \<Rightarrow> Q r s')"

lemma endsD: "ends m s Q \<Longrightarrow> m s = (r, s') \<Longrightarrow> Q r s'"
  by (simp add: ends_def)

lemma endsI: "(\<And>r s'. m s = (r, s') \<Longrightarrow> Q r s') \<Longrightarrow> ends m s Q"
  by (auto simp: ends_def split: prod.split)

lemma ends_mono: "ends m s Q \<Longrightarrow> (\<And>r t. Q r t \<Longrightarrow> P r t) \<Longrightarrow> ends m s P"
  by (auto simp: ends_def split: prod.splits)

lemma ends_obeys: "obeys R m \<Longrightarrow> (\<And>r t. R s t \<Longrightarrow> Q r t) \<Longrightarrow> ends m s Q"
  by (rule endsI) (blast dest: obeysD)

lemma obeys_ends: "(\<And>s. ends m s (\<lambda>_ t. R s t)) \<Longrightarrow> obeys R m"
  by (rule obeysI) (blast dest: endsD)

lemma ends_conj: "ends m s Q \<Longrightarrow> ends m s P \<Longrightarrow> ends m s (\<lambda>r t. Q r t \<and> P r t)"
  by (simp add: ends_def split: prod.splits)

lemma ends_ret [simp]: "ends (ret x) s Q = Q (Inr x) s"
  by (simp add: ends_def ret_def)

lemma ends_raise [simp]: "ends (raise e) s Q = Q (Inl e) s"
  by (simp add: ends_def raise_def)

lemma ends_gets [simp]: "ends (gets f) s Q = Q (Inr (f s)) s"
  by (simp add: ends_def)

lemma ends_modify [simp]: "ends (modify f) s Q = Q (Inr ()) (f s)"
  by (simp add: ends_def)

lemma ends_require [simp]: "ends (require b e) s Q = (if b then Q (Inr ()) s else Q (Inl e) s)"
  by (simp add: ends_def)

lemma ends_lift_sum [simp]: "ends (lift_sum r) s Q = Q r s"
  by (cases r) simp_all

lemma ends_andthen [simp]:
  "ends (andthen m f) s Q =
     ends m s (\<lambda>r t. case r of Inl e \<Rightarrow> Q (Inl e) t | Inr x \<Rightarrow> ends (f x) t Q)"
  by (auto simp: ends_def andthen_def split: prod.splits sum.splits)

lemma ends_handle [simp]:
  "ends (handle m h) s Q =
     ends m s (\<lambda>r t. case r of Inl e \<Rightarrow> ends (h e) t Q | Inr x \<Rightarrow> Q (Inr x) t)"
  by (auto simp: ends_def handle_def split: prod.splits sum.splits)

lemma ends_if [simp]:
  "ends (if b then m else n) s Q = ((b \<longrightarrow> ends m s Q) \<and> (\<not> b \<longrightarrow> ends n s Q))"
  by simp

lemma ends_case_option [simp]:
  "ends (case x of None \<Rightarrow> m | Some y \<Rightarrow> f y) s Q =
     ((x = None \<longrightarrow> ends m s Q) \<and> (\<forall>y. x = Some y \<longrightarrow> ends (f y) s Q))"
  by (cases x) auto

lemma ends_case_sum [simp]:
  "ends (case x of Inl a \<Rightarrow> f a | Inr b \<Rightarrow> g b) s Q =
     ((\<forall>a. x = Inl a \<longrightarrow> ends (f a) s Q) \<and> (\<forall>b. x = Inr b \<longrightarrow> ends (g b) s Q))"
  by (cases x) auto

lemma ends_case_prod [simp]:
  "ends (case x of (a, b) \<Rightarrow> f a b) s Q = (\<forall>a b. x = (a, b) \<longrightarrow> ends (f a b) s Q)"
  by (cases x) auto

lemma sum_allI: "(\<And>e. Q (Inl e)) \<Longrightarrow> (\<And>x. Q (Inr x)) \<Longrightarrow> Q r"
  by (cases r) auto

end
