(* ===== verification/Json.thy ===== *)
theory Json
  imports Pystr
begin

text \<open>
  JSON values as Python's \<open>json\<close> module produces them (no floats: no value the Bridge
  serialises holds one), the canonical serialisation of \<open>db/store.py\<close> (\<open>json_dumps\<close>: sorted
  keys, no spaces, non-ASCII kept) and a stored JSON column.  A Python \<open>dict\<close> is an
  association list with distinct keys.
\<close>

section \<open>Values\<close>

datatype json =
    JNull
  | JBool bool
  | JInt int
  | JStr string
  | JList "json list"
  | JObj "(string \<times> json) list"

text \<open>\<open>d.get(k)\<close>; a value that is not a \<open>dict\<close> has no keys.\<close>

fun jget :: "json \<Rightarrow> string \<Rightarrow> json option" where
  "jget (JObj kvs) k = map_of kvs k"
| "jget _ k = None"

text \<open>\<open>d.pop(k, None)\<close>.\<close>

fun jpop :: "json \<Rightarrow> string \<Rightarrow> json" where
  "jpop (JObj kvs) k = JObj (filter (\<lambda>(k', v). k' \<noteq> k) kvs)"
| "jpop j k = j"

text \<open>\<open>d[k] = v\<close>.\<close>

fun jset :: "json \<Rightarrow> string \<Rightarrow> json \<Rightarrow> json" where
  "jset (JObj kvs) k v =
     (if k \<in> fst ` set kvs
      then JObj (map (\<lambda>(k', v'). (k', if k' = k then v else v')) kvs)
      else JObj (kvs @ [(k, v)]))"
| "jset j k v = j"

definition is_jobj :: "json \<Rightarrow> bool" where
  "is_jobj j = (case j of JObj _ \<Rightarrow> True | _ \<Rightarrow> False)"

definition jstr_of :: "json option \<Rightarrow> string option" where
  "jstr_of j = (case j of Some (JStr s) \<Rightarrow> Some s | _ \<Rightarrow> None)"

definition jopt :: "string option \<Rightarrow> json" where
  "jopt x = (case x of None \<Rightarrow> JNull | Some s \<Rightarrow> JStr s)"

definition jstrs :: "string list \<Rightarrow> json" where
  "jstrs xs = JList (map JStr xs)"

lemma jstr_of_eq_Some [simp]: "jstr_of j = Some s \<longleftrightarrow> j = Some (JStr s)"
  by (auto simp: jstr_of_def split: option.splits json.splits)

lemma is_jobj_iff: "is_jobj j \<longleftrightarrow> (\<exists>kvs. j = JObj kvs)"
  by (auto simp: is_jobj_def split: json.splits)

lemma map_of_filter_neq:
  "map_of (filter (\<lambda>(k', v). k' \<noteq> k) kvs) x = (if x = k then None else map_of kvs x)"
  by (induction kvs) auto

lemma jget_jpop [simp]: "jget (jpop j k) x = (if x = k then None else jget j x)"
  by (cases j) (auto simp: map_of_filter_neq)

lemma map_of_map_upd:
  "map_of (map (\<lambda>(k', v'). (k', if k' = k then v else v')) kvs) x =
     (if x = k then map_option (\<lambda>_. v) (map_of kvs k) else map_of kvs x)"
proof (induction kvs)
  case Nil
  then show ?case by simp
next
  case (Cons kv kvs)
  then show ?case by (cases kv) auto
qed

lemma jget_jset:
  "jget (jset j k v) x = (if x = k \<and> is_jobj j then Some v else jget j x)"
proof (cases j)
  case (JObj kvs)
  show ?thesis
  proof (cases "k \<in> fst ` set kvs")
    case True
    then have "map_of kvs k \<noteq> None" by (simp add: map_of_eq_None_iff)
    with True JObj show ?thesis by (auto simp add: map_of_map_upd is_jobj_def)
  next
    case False
    then have "map_of kvs k = None" by (simp add: map_of_eq_None_iff)
    with False JObj show ?thesis by (simp add: map_add_def is_jobj_def split: option.splits)
  qed
qed (simp_all add: is_jobj_def)

section \<open>Canonical serialisation\<close>

text \<open>\<open>sort_keys=True\<close>, at every level.\<close>

fun canon :: "json \<Rightarrow> json" where
  "canon (JList xs) = JList (map canon xs)"
| "canon (JObj kvs) = JObj (sort_key fst (map (\<lambda>(k, v). (k, canon v)) kvs))"
| "canon j = j"

definition hex_digit :: "nat \<Rightarrow> char" where
  "hex_digit n = (if n < 10 then char_of (48 + n) else char_of (87 + n))"

definition escape_char :: "char \<Rightarrow> string" where
  "escape_char c =
     (let n = code c in
      if n = 34 then [backslash, CHR 0x22]
      else if n = 92 then [backslash, backslash]
      else if n = 10 then [backslash, CHR ''n'']
      else if n = 13 then [backslash, CHR ''r'']
      else if n = 9 then [backslash, CHR ''t'']
      else if n = 12 then [backslash, CHR ''f'']
      else if n = 8 then [backslash, CHR ''b'']
      else if n < 32 then [backslash, CHR ''u'', CHR ''0'', CHR ''0'', hex_digit (n div 16), hex_digit (n mod 16)]
      else [c])"

definition quote :: "string \<Rightarrow> string" where
  "quote s = CHR 0x22 # concat (map escape_char s) @ [CHR 0x22]"

fun render :: "json \<Rightarrow> string" where
  "render JNull = ''null''"
| "render (JBool b) = (if b then ''true'' else ''false'')"
| "render (JInt i) = decimal_int i"
| "render (JStr s) = quote s"
| "render (JList xs) = ''['' @ join_with '','' (map render xs) @ '']''"
| "render (JObj kvs) =
     ''{'' @ join_with '','' (map (\<lambda>(k, v). quote k @ '':'' @ render v) kvs) @ ''}''"

definition json_dumps :: "json \<Rightarrow> string" where
  "json_dumps v = render (canon v)"

section \<open>Stored columns\<close>

text \<open>
  A TEXT column that holds JSON: what \<open>json_dumps\<close> wrote, given by its value, or text that
  \<open>json.loads\<close> refuses.
\<close>

datatype jtext = JText json | JMalformed string

end
