(* ===== verification/Records.thy ===== *)
theory Records
  imports Json
begin

text \<open>
  The rows of the SQLite schema (\<open>db/schema.py\<close>) and the record classes of \<open>db/store.py\<close>:
  sessions, operations, approvals, checkpoints and audit events.  Field names carry a one-letter
  prefix for the table.  The states that the schema's CHECK clauses list are datatypes, with the
  names the code stores.
\<close>

section \<open>States and their transitions\<close>

datatype session_status = SCreated | SActive | SClosing | SClosed | SBlocked

fun session_status_name :: "session_status \<Rightarrow> string" where
  "session_status_name SCreated = ''created''"
| "session_status_name SActive = ''active''"
| "session_status_name SClosing = ''closing''"
| "session_status_name SClosed = ''closed''"
| "session_status_name SBlocked = ''blocked''"

definition SESSION_STATUSES :: "session_status list" where
  "SESSION_STATUSES = [SCreated, SActive, SClosing, SClosed, SBlocked]"

definition session_status_of :: "string \<Rightarrow> session_status option" where
  "session_status_of n = find (\<lambda>x. session_status_name x = n) SESSION_STATUSES"

fun SESSION_TRANSITIONS :: "session_status \<Rightarrow> session_status list" where
  "SESSION_TRANSITIONS SCreated = [SActive, SClosed, SBlocked]"
| "SESSION_TRANSITIONS SActive = [SClosing, SBlocked]"
| "SESSION_TRANSITIONS SClosing = [SClosed, SBlocked]"
| "SESSION_TRANSITIONS SClosed = []"
| "SESSION_TRANSITIONS SBlocked = []"

datatype op_state =
    Received | Validated | AwaitingApproval | Dispatched | Running
  | Succeeded | Failed | OpCancelled | Unknown

fun op_state_name :: "op_state \<Rightarrow> string" where
  "op_state_name Received = ''received''"
| "op_state_name Validated = ''validated''"
| "op_state_name AwaitingApproval = ''awaiting_approval''"
| "op_state_name Dispatched = ''dispatched''"
| "op_state_name Running = ''running''"
| "op_state_name Succeeded = ''succeeded''"
| "op_state_name Failed = ''failed''"
| "op_state_name OpCancelled = ''cancelled''"
| "op_state_name Unknown = ''unknown''"

definition OPERATION_STATES :: "op_state list" where
  "OPERATION_STATES = [Received, Validated, AwaitingApproval, Dispatched, Running,
     Succeeded, Failed, OpCancelled, Unknown]"

definition op_state_of :: "string \<Rightarrow> op_state option" where
  "op_state_of n = find (\<lambda>x. op_state_name x = n) OPERATION_STATES"

definition TERMINAL_OPERATION_STATES :: "op_state list" where
  "TERMINAL_OPERATION_STATES = [Succeeded, Failed, OpCancelled, Unknown]"

definition ACTIVE_MUTATION_STATES :: "op_state list" where
  "ACTIVE_MUTATION_STATES = [Received, Validated, AwaitingApproval, Dispatched, Running, Unknown]"

fun OPERATION_TRANSITIONS :: "op_state \<Rightarrow> op_state list" where
  "OPERATION_TRANSITIONS Received = [Validated, Failed, OpCancelled]"
| "OPERATION_TRANSITIONS Validated = [AwaitingApproval, Dispatched, Failed, OpCancelled]"
| "OPERATION_TRANSITIONS AwaitingApproval = [Dispatched, OpCancelled, Failed]"
| "OPERATION_TRANSITIONS Dispatched = [Running, Failed, Unknown]"
| "OPERATION_TRANSITIONS Running = [Succeeded, Failed, Unknown, OpCancelled]"
| "OPERATION_TRANSITIONS Succeeded = []"
| "OPERATION_TRANSITIONS Failed = []"
| "OPERATION_TRANSITIONS OpCancelled = []"
| "OPERATION_TRANSITIONS Unknown = [Failed, Succeeded]"

datatype approval_status = Pending | Consumed | Expired | ACancelled

fun approval_status_name :: "approval_status \<Rightarrow> string" where
  "approval_status_name Pending = ''pending''"
| "approval_status_name Consumed = ''consumed''"
| "approval_status_name Expired = ''expired''"
| "approval_status_name ACancelled = ''cancelled''"

datatype checkpoint_status = CkCreated | CkRestored

fun checkpoint_status_name :: "checkpoint_status \<Rightarrow> string" where
  "checkpoint_status_name CkCreated = ''created''"
| "checkpoint_status_name CkRestored = ''restored''"

lemma op_state_of_name [simp]: "op_state_of (op_state_name x) = Some x"
  by (cases x) (simp_all add: op_state_of_def OPERATION_STATES_def)

lemma op_state_of_Some: "op_state_of n = Some x \<Longrightarrow> n = op_state_name x"
  by (auto simp: op_state_of_def find_Some_iff)

lemma op_state_name_inj [simp]: "op_state_name x = op_state_name y \<longleftrightarrow> x = y"
  by (metis op_state_of_name option.inject)

lemma session_status_of_name [simp]: "session_status_of (session_status_name x) = Some x"
  by (cases x) (simp_all add: session_status_of_def SESSION_STATUSES_def)

lemma session_status_of_Some: "session_status_of n = Some x \<Longrightarrow> n = session_status_name x"
  by (auto simp: session_status_of_def find_Some_iff)

lemma session_status_name_inj [simp]: "session_status_name x = session_status_name y \<longleftrightarrow> x = y"
  by (metis session_status_of_name option.inject)

section \<open>Rows\<close>

record session_rec =
  s_session_id :: string
  s_project_id :: string
  s_owner_id :: string
  s_status :: session_status
  s_created_at :: string
  s_updated_at :: string
  s_closed_at :: "string option"
  s_reason :: "string option"

record operation_rec =
  o_operation_id :: string
  o_project_id :: string
  o_session_id :: "string option"
  o_owner_id :: string
  o_client_request_id :: string
  o_request_hash :: string
  o_kind :: string
  o_state :: op_state
  o_mutation :: bool
  o_input_json :: jtext
  o_result_json :: "jtext option"
  o_error_json :: "jtext option"
  o_created_at :: string
  o_updated_at :: string
  o_started_at :: "string option"
  o_finished_at :: "string option"

record approval_rec =
  a_approval_id :: string
  a_operation_id :: string
  a_project_id :: string
  a_session_id :: "string option"
  a_action :: string
  a_token_hash :: string
  a_status :: approval_status
  a_created_at :: string
  a_expires_at :: string
  a_consumed_at :: "string option"

record checkpoint_rec =
  c_checkpoint_id :: string
  c_project_id :: string
  c_session_id :: "string option"
  c_operation_id :: "string option"
  c_owner_id :: string
  c_kind :: string
  c_branch :: string
  c_head :: string
  c_ref_name :: string
  c_before_json :: jtext
  c_after_json :: "jtext option"
  c_diff_hash :: "string option"
  c_status :: checkpoint_status
  c_created_at :: string
  c_updated_at :: string

record audit_rec =
  e_event_id :: string
  e_operation_id :: "string option"
  e_project_id :: "string option"
  e_session_id :: "string option"
  e_owner_id :: string
  e_event_type :: string
  e_from_state :: "string option"
  e_to_state :: "string option"
  e_details :: jtext
  e_created_at :: string

text \<open>The tables, each in insertion order.\<close>

record dbase =
  sessions :: "session_rec list"
  operations :: "operation_rec list"
  approvals :: "approval_rec list"
  checkpoints :: "checkpoint_rec list"
  audits :: "audit_rec list"

definition empty_dbase :: dbase where
  "empty_dbase = \<lparr>sessions = [], operations = [], approvals = [], checkpoints = [], audits = []\<rparr>"

end
