(* ===== verification/Errors.thy ===== *)
theory Errors
  imports Records
begin

text \<open>
  The structured error of the tool boundary (\<open>errors.py\<close>), the envelopes every tool returns, and
  the exceptions the modelled code raises.  \<open>bridge_error\<close> is the constructor of \<open>BridgeError\<close>:
  a code outside the frozen set is a \<open>ValueError\<close>.
\<close>

section \<open>The structured error\<close>

definition ERROR_CODES :: "string list" where
  "ERROR_CODES =
     [''INVALID_REQUEST'', ''PROJECT_NOT_ALLOWED'', ''PATH_ESCAPE'', ''SENSITIVE_PATH'',
      ''FILE_NOT_FOUND'', ''FILE_TOO_LARGE'', ''BINARY_FILE'', ''COMMAND_NOT_ALLOWED'',
      ''APPROVAL_REQUIRED'', ''WORKSPACE_DIRTY'', ''BRANCH_NOT_ALLOWED'', ''SESSION_REQUIRED'',
      ''SESSION_NOT_FOUND'', ''BRIDGE_RESTARTED'', ''IDEMPOTENCY_CONFLICT'',
      ''OPERATION_NOT_FOUND'', ''OPERATION_IN_PROGRESS'', ''OPERATION_BLOCKED'',
      ''APPROVAL_INVALID'', ''APPROVAL_EXPIRED'', ''APPROVAL_ALREADY_USED'',
      ''OPERATION_NOT_CANCELABLE'', ''RECONCILE_REQUIRED'', ''CONFLICT'',
      ''BACKEND_UNAVAILABLE'', ''UNKNOWN_SIDE_EFFECT'', ''CHECKPOINT_NOT_FOUND'',
      ''CHECKPOINT_INVALID'', ''CHECKPOINT_CONFLICT'']"

record berror =
  be_code :: string
  be_message :: string
  be_details :: json
  be_retryable :: bool
  be_status :: string

definition as_payload :: "berror \<Rightarrow> json" where
  "as_payload e = JObj
     [(''code'', JStr (be_code e)), (''message'', JStr (be_message e)),
      (''details'', be_details e), (''retryable'', JBool (be_retryable e))]"

section \<open>Exceptions\<close>

text \<open>
  The exception classes the modelled code raises or catches.  \<open>Stuck\<close> is none of them: a waiting loop
  ends with it when it has not ended after the rounds the model grants it.  \<open>Cancelled\<close> is
  \<open>asyncio.CancelledError\<close>, which is not an \<open>Exception\<close>; \<open>OtherErr\<close> stands for every other
  class an external call may raise.
\<close>

datatype exn =
    BridgeErr berror
  | InvalidTransition string
  | ActiveOperationConflict operation_rec
  | ApprovalNotFound
  | ApprovalTokenMismatch
  | ApprovalAlreadyUsed
  | ApprovalExpired
  | PersistenceErr string
  | IntegrityErr
  | OperationalErr
  | JsonErr
  | ValueErr string
  | SettingsErr string
  | TypeErr string
  | OsErr
  | InvalidBearer string
  | VerificationUnavailable string
  | LifecycleErr string
  | Stuck
  | Cancelled
  | OtherErr

definition is_exception :: "exn \<Rightarrow> bool" where
  "is_exception e = (e \<noteq> Cancelled)"

definition bridge_error :: "string \<Rightarrow> string \<Rightarrow> json \<Rightarrow> bool \<Rightarrow> string \<Rightarrow> exn" where
  "bridge_error c msg details retryable status =
     (if c \<in> set ERROR_CODES
      then BridgeErr \<lparr>be_code = c, be_message = msg, be_details = details,
                      be_retryable = retryable, be_status = status\<rparr>
      else ValueErr (''unknown Bridge error code: '' @ c))"

text \<open>\<open>BridgeError(code, message)\<close> with every default.\<close>

definition rejected :: "string \<Rightarrow> string \<Rightarrow> exn" where
  "rejected c msg = bridge_error c msg (JObj []) False ''rejected''"

definition rejected_with :: "string \<Rightarrow> string \<Rightarrow> json \<Rightarrow> exn" where
  "rejected_with c msg details = bridge_error c msg details False ''rejected''"

lemma bridge_error_known:
  "c \<in> set ERROR_CODES \<Longrightarrow> bridge_error c msg d r st =
     BridgeErr \<lparr>be_code = c, be_message = msg, be_details = d, be_retryable = r, be_status = st\<rparr>"
  by (simp add: bridge_error_def)

lemma bridge_error_unknown:
  "c \<notin> set ERROR_CODES \<Longrightarrow> bridge_error c msg d r st = ValueErr (''unknown Bridge error code: '' @ c)"
  by (simp add: bridge_error_def)

text \<open>The code of a raised exception, when it is a structured one.\<close>

definition exn_code :: "exn \<Rightarrow> string option" where
  "exn_code e = (case e of BridgeErr b \<Rightarrow> Some (be_code b) | _ \<Rightarrow> None)"

lemma exn_code_simps [simp]:
  "exn_code (BridgeErr b) = Some (be_code b)"
  "exn_code (PersistenceErr m) = None" "exn_code (InvalidTransition m) = None"
  "exn_code (ValueErr m) = None" "exn_code OsErr = None" "exn_code Cancelled = None"
  "exn_code OperationalErr = None" "exn_code IntegrityErr = None"
  by (simp_all add: exn_code_def)

lemma exn_code_bridge_error:
  "exn_code (bridge_error c msg d r st) = (if c \<in> set ERROR_CODES then Some c else None)"
  by (simp add: bridge_error_def)

section \<open>Envelopes\<close>

definition success_payload ::
  "string \<Rightarrow> string option \<Rightarrow> string option \<Rightarrow> string \<Rightarrow> json \<Rightarrow> string list \<Rightarrow> bool \<Rightarrow> string \<Rightarrow> json" where
  "success_payload request_id session_id project_id operation_id data changed_files truncated status =
     JObj [(''request_id'', JStr request_id), (''session_id'', jopt session_id),
           (''project_id'', jopt project_id), (''operation_id'', JStr operation_id),
           (''status'', JStr status), (''changed_files'', jstrs changed_files),
           (''truncated'', JBool truncated), (''data'', data), (''error'', JNull)]"

definition error_payload ::
  "string \<Rightarrow> string option \<Rightarrow> string option \<Rightarrow> string \<Rightarrow> berror \<Rightarrow> json" where
  "error_payload request_id session_id project_id operation_id e =
     JObj [(''request_id'', JStr request_id), (''session_id'', jopt session_id),
           (''project_id'', jopt project_id), (''operation_id'', JStr operation_id),
           (''status'', JStr (be_status e)), (''changed_files'', JList []),
           (''truncated'', JBool False), (''data'', JObj []), (''error'', as_payload e)]"

end
