(* ===== verification/Utf8.thy ===== *)
theory Utf8
  imports Pystr
begin

text \<open>
  UTF-8 as Python's codec does it.  A text is a list of code points (a Python \<open>str\<close> may hold
  any code point, lone surrogates included), a \<open>bytes\<close> value a list of HOL characters, which
  are exactly the 256 byte values.  Encoding fails on a surrogate; strict decoding fails on the
  first malformed sequence; \<open>utf8_decode_with\<close> replaces each maximal malformed part by a given
  text, the empty one for \<open>errors="ignore"\<close> and U+FFFD for \<open>errors="replace"\<close>.
\<close>

type_synonym bytes = "char list"
type_synonym utext = "nat list"

definition byte :: "nat \<Rightarrow> char" where
  "byte n = char_of n"

definition cont :: "nat \<Rightarrow> char" where
  "cont n = byte (128 + n mod 64)"

definition utf8_char :: "nat \<Rightarrow> bytes option" where
  "utf8_char n =
     (if n < 128 then Some [byte n]
      else if n < 2048 then Some [byte (192 + n div 64), cont n]
      else if 55296 \<le> n \<and> n \<le> 57343 then None
      else if n < 65536 then Some [byte (224 + n div 4096), cont (n div 64), cont n]
      else if n < 1114112 then Some [byte (240 + n div 262144), cont (n div 4096), cont (n div 64), cont n]
      else None)"

fun utf8_encode :: "utext \<Rightarrow> bytes option" where
  "utf8_encode [] = Some []"
| "utf8_encode (n # ns) =
     (case utf8_char n of None \<Rightarrow> None
      | Some b \<Rightarrow> (case utf8_encode ns of None \<Rightarrow> None | Some bs \<Rightarrow> Some (b @ bs)))"

definition is_cont :: "char \<Rightarrow> bool" where
  "is_cont c = (128 \<le> code c \<and> code c \<le> 191)"

text \<open>The bounds of the second byte after a lead byte (they exclude overlong forms,
  surrogates and values above U+10FFFF).\<close>

definition second_ok :: "nat \<Rightarrow> char \<Rightarrow> bool" where
  "second_ok lead c =
     (let n = code c in
      if lead = 224 then 160 \<le> n \<and> n \<le> 191
      else if lead = 237 then 128 \<le> n \<and> n \<le> 159
      else if lead = 240 then 144 \<le> n \<and> n \<le> 191
      else if lead = 244 then 128 \<le> n \<and> n \<le> 143
      else 128 \<le> n \<and> n \<le> 191)"

text \<open>
  One decoding step on a non-empty input: the code point, or \<open>None\<close> for a malformed part, and
  the number of bytes it takes.
\<close>

fun utf8_step :: "char \<Rightarrow> bytes \<Rightarrow> nat option \<times> nat" where
  "utf8_step b rest =
     (let l = code b in
      if l < 128 then (Some l, 1)
      else if 194 \<le> l \<and> l \<le> 223 then
        (case rest of c1 # _ \<Rightarrow>
           (if is_cont c1 then (Some ((l - 192) * 64 + (code c1 - 128)), 2) else (None, 1))
         | [] \<Rightarrow> (None, 1))
      else if 224 \<le> l \<and> l \<le> 239 then
        (case rest of c1 # r1 \<Rightarrow>
           (if second_ok l c1 then
             (case r1 of c2 # _ \<Rightarrow>
                (if is_cont c2
                 then (Some ((l - 224) * 4096 + (code c1 - 128) * 64 + (code c2 - 128)), 3)
                 else (None, 2))
              | [] \<Rightarrow> (None, 2))
            else (None, 1))
         | [] \<Rightarrow> (None, 1))
      else if 240 \<le> l \<and> l \<le> 244 then
        (case rest of c1 # r1 \<Rightarrow>
           (if second_ok l c1 then
             (case r1 of c2 # r2 \<Rightarrow>
                (if is_cont c2 then
                  (case r2 of c3 # _ \<Rightarrow>
                     (if is_cont c3
                      then (Some ((l - 240) * 262144 + (code c1 - 128) * 4096
                                  + (code c2 - 128) * 64 + (code c3 - 128)), 4)
                      else (None, 3))
                   | [] \<Rightarrow> (None, 3))
                 else (None, 2))
              | [] \<Rightarrow> (None, 2))
            else (None, 1))
         | [] \<Rightarrow> (None, 1))
      else (None, 1))"

declare utf8_step.simps [simp del]

function utf8_decode :: "bytes \<Rightarrow> utext option" where
  "utf8_decode [] = Some []"
| "utf8_decode (b # bs) =
     (case utf8_step b bs of
        (None, k) \<Rightarrow> None
      | (Some n, k) \<Rightarrow>
          (case utf8_decode (drop (k - 1) bs) of None \<Rightarrow> None | Some ns \<Rightarrow> Some (n # ns)))"
  by pat_completeness auto
termination
  by (relation "measure length") auto

function utf8_decode_with :: "utext \<Rightarrow> bytes \<Rightarrow> utext" where
  "utf8_decode_with r [] = []"
| "utf8_decode_with r (b # bs) =
     (case utf8_step b bs of
        (None, k) \<Rightarrow> r @ utf8_decode_with r (drop (k - 1) bs)
      | (Some n, k) \<Rightarrow> n # utf8_decode_with r (drop (k - 1) bs))"
  by pat_completeness auto
termination
  by (relation "measure (\<lambda>(r, bs). length bs)") auto

section \<open>Round trip\<close>

lemma code_byte [simp]: "n < 256 \<Longrightarrow> code (byte n) = n"
  by (simp add: code_def byte_def)

lemma code_cont [simp]: "code (cont n) = 128 + n mod 64"
  by (simp add: cont_def)

lemma is_cont_cont [simp]: "is_cont (cont n)"
  by (simp add: is_cont_def)

lemma split3: "(n::nat) div 4096 * 4096 + n div 64 mod 64 * 64 + n mod 64 = n"
proof -
  have "n div 64 = n div 64 div 64 * 64 + n div 64 mod 64" by simp
  then have "n div 64 * 64 = n div 4096 * 4096 + n div 64 mod 64 * 64"
    by (simp add: div_mult2_eq [symmetric] algebra_simps)
  moreover have "n = n div 64 * 64 + n mod 64" by simp
  ultimately show ?thesis by linarith
qed

lemma split4: "(n::nat) div 262144 * 262144 + n div 4096 mod 64 * 4096 + n div 64 mod 64 * 64 + n mod 64 = n"
proof -
  have "n div 4096 = n div 4096 div 64 * 64 + n div 4096 mod 64" by simp
  then have "n div 4096 * 4096 = n div 262144 * 262144 + n div 4096 mod 64 * 4096"
    by (simp add: div_mult2_eq [symmetric] algebra_simps)
  then show ?thesis using split3 [of n] by linarith
qed

text \<open>The second byte of an encoded character is in the range its lead byte allows.\<close>

lemma second_ok_3:
  assumes "2048 \<le> n" and "n < 65536" and "\<not> (55296 \<le> n \<and> n \<le> 57343)"
  shows "second_ok (224 + n div 4096) (cont (n div 64))"
proof -
  have lt: "n div 64 mod 64 < 64" by simp
  have eq: "n div 64 = n div 4096 * 64 + n div 64 mod 64"
    using div_mult_mod_eq [of "n div 64" 64] by (simp add: div_mult2_eq [symmetric])
  have low: "n div 4096 = 0 \<Longrightarrow> 32 \<le> n div 64 mod 64"
    using eq assms(1) div_le_mono [of 2048 n 64] by simp
  have high: "n div 64 mod 64 < 32" if "n div 4096 = 13"
  proof (rule ccontr)
    assume "\<not> n div 64 mod 64 < 32"
    with that eq have "864 \<le> n div 64" by simp
    then have "55296 \<le> n" by (simp add: less_eq_div_iff_mult_less_eq)
    moreover have "n \<le> 57343"
    proof -
      have "n div 4096 < 14" using that by simp
      then have "n < 14 * 4096" by (simp only: div_less_iff_less_mult)
      then show ?thesis by simp
    qed
    ultimately show False using assms(3) by simp
  qed
  have "n div 4096 < 16" using assms(2) by (simp add: div_less_iff_less_mult)
  then show ?thesis
    using lt low high by (auto simp: second_ok_def Let_def)
qed

lemma second_ok_4:
  assumes "65536 \<le> n" and "n < 1114112"
  shows "second_ok (240 + n div 262144) (cont (n div 4096))"
proof -
  have lt: "n div 4096 mod 64 < 64" by simp
  have eq: "n div 4096 = n div 262144 * 64 + n div 4096 mod 64"
    using div_mult_mod_eq [of "n div 4096" 64] by (simp add: div_mult2_eq [symmetric])
  have low: "n div 262144 = 0 \<Longrightarrow> 16 \<le> n div 4096 mod 64"
    using eq assms(1) div_le_mono [of 65536 n 4096] by simp
  have high: "n div 262144 = 4 \<Longrightarrow> n div 4096 mod 64 < 16"
  proof -
    assume "n div 262144 = 4"
    moreover have "n div 4096 < 272" using assms(2) by (simp add: div_less_iff_less_mult)
    ultimately show ?thesis using eq by simp
  qed
  show ?thesis
    using lt low high by (auto simp: second_ok_def Let_def)
qed

text \<open>A complete encoded character decodes to itself and takes exactly its bytes.\<close>

lemma utf8_step_char:
  assumes "utf8_char n = Some (b # bs)"
  shows "utf8_step b (bs @ rest) = (Some n, Suc (length bs))"
proof -
  consider (one) "n < 128" | (two) "128 \<le> n" "n < 2048"
    | (three) "2048 \<le> n" "n < 65536" "\<not> (55296 \<le> n \<and> n \<le> 57343)"
    | (four) "65536 \<le> n" "n < 1114112"
    using assms by (auto simp: utf8_char_def split: if_splits)
  then show ?thesis
  proof cases
    case one
    with assms show ?thesis by (auto simp: utf8_char_def utf8_step.simps Let_def)
  next
    case two
    then have "n div 64 < 32" and "2 \<le> n div 64"
      by (simp_all add: div_less_iff_less_mult less_eq_div_iff_mult_less_eq)
    moreover have "n div 64 * 64 + n mod 64 = n" by simp
    ultimately show ?thesis using assms two
      by (auto simp: utf8_char_def utf8_step.simps Let_def)
  next
    case three
    then have "n div 4096 < 16" by (simp add: div_less_iff_less_mult)
    with three assms show ?thesis
      using second_ok_3 [OF three] split3 [of n]
      by (auto simp: utf8_char_def utf8_step.simps Let_def)
  next
    case four
    then have "n div 262144 < 5" by (simp add: div_less_iff_less_mult)
    with four assms show ?thesis
      using second_ok_4 [OF four] split4 [of n]
      by (auto simp: utf8_char_def utf8_step.simps Let_def)
  qed
qed

text \<open>An encoded character cut short is one malformed part.\<close>

lemma utf8_step_cut:
  assumes "utf8_char n = Some (b # bs)" and "k < length bs"
  shows "utf8_step b (take k bs) = (None, Suc k)"
proof -
  consider (two) "128 \<le> n" "n < 2048"
    | (three) "2048 \<le> n" "n < 65536" "\<not> (55296 \<le> n \<and> n \<le> 57343)"
    | (four) "65536 \<le> n" "n < 1114112"
    using assms by (auto simp: utf8_char_def split: if_splits)
  then show ?thesis
  proof cases
    case two
    then have "n div 64 < 32" and "2 \<le> n div 64"
      by (simp_all add: div_less_iff_less_mult less_eq_div_iff_mult_less_eq)
    with assms two show ?thesis by (auto simp: utf8_char_def utf8_step.simps Let_def)
  next
    case three
    then have "n div 4096 < 16" by (simp add: div_less_iff_less_mult)
    moreover have "k = 0 \<or> k = 1" using assms three by (auto simp: utf8_char_def)
    ultimately show ?thesis
      using assms three second_ok_3 [OF three]
      by (auto simp: utf8_char_def utf8_step.simps Let_def)
  next
    case four
    then have "n div 262144 < 5" by (simp add: div_less_iff_less_mult)
    moreover have "k = 0 \<or> k = 1 \<or> k = 2" using assms four by (auto simp: utf8_char_def)
    ultimately show ?thesis
      using assms four second_ok_4 [OF four]
      by (auto simp: utf8_char_def utf8_step.simps Let_def numeral_2_eq_2)
  qed
qed

lemma utf8_char_nonempty: "utf8_char n = Some bs \<Longrightarrow> bs \<noteq> []"
  by (auto simp: utf8_char_def split: if_splits)

lemma utf8_decode_char:
  assumes "utf8_char n = Some bs"
  shows "utf8_decode (bs @ rest) = map_option ((#) n) (utf8_decode rest)"
    and "utf8_decode_with r (bs @ rest) = n # utf8_decode_with r rest"
proof -
  obtain b bs' where bs: "bs = b # bs'"
    using utf8_char_nonempty [OF assms] by (cases bs) auto
  show "utf8_decode (bs @ rest) = map_option ((#) n) (utf8_decode rest)"
    using utf8_step_char [of n b bs' rest] assms bs by (simp split: option.splits)
  show "utf8_decode_with r (bs @ rest) = n # utf8_decode_with r rest"
    using utf8_step_char [of n b bs' rest] assms bs by simp
qed

lemma utf8_decode_with_cut:
  assumes "utf8_char n = Some bs" and "k < length bs"
  shows "utf8_decode_with [] (take k bs) = []"
proof (cases k)
  case 0
  then show ?thesis by simp
next
  case (Suc j)
  obtain b bs' where bs: "bs = b # bs'"
    using utf8_char_nonempty [OF assms(1)] by (cases bs) auto
  with Suc assms have "utf8_step b (take j bs') = (None, Suc j)"
    by (intro utf8_step_cut) auto
  with Suc bs show ?thesis by simp
qed

theorem utf8_decode_encode:
  "utf8_encode t = Some bs \<Longrightarrow> utf8_decode bs = Some t"
  by (induction t arbitrary: bs) (auto simp: utf8_decode_char split: option.splits)

text \<open>
  Cutting an encoding at \<open>k\<close> bytes and decoding with \<open>errors="ignore"\<close> gives the longest prefix
  of the text whose encoding has at most \<open>k\<close> bytes.
\<close>

fun fitting_prefix :: "nat \<Rightarrow> utext \<Rightarrow> utext" where
  "fitting_prefix k [] = []"
| "fitting_prefix k (n # ns) =
     (case utf8_char n of None \<Rightarrow> []
      | Some bs \<Rightarrow> if length bs \<le> k then n # fitting_prefix (k - length bs) ns else [])"

theorem utf8_decode_cut_encode:
  "utf8_encode t = Some bs \<Longrightarrow> utf8_decode_with [] (take k bs) = fitting_prefix k t"
proof (induction t arbitrary: bs k)
  case Nil
  then show ?case by simp
next
  case (Cons n ns)
  from Cons.prems obtain b bs' where b: "utf8_char n = Some b"
    and bs': "utf8_encode ns = Some bs'" and bs: "bs = b @ bs'"
    by (auto split: option.splits)
  show ?case
  proof (cases "length b \<le> k")
    case True
    then have "take k bs = b @ take (k - length b) bs'" using bs by simp
    with True b Cons.IH [OF bs'] show ?thesis by (simp add: utf8_decode_char)
  next
    case False
    then have "take k bs = take k b" using bs by simp
    with False b utf8_decode_with_cut [OF b, of k] show ?thesis by simp
  qed
qed

lemma prefix_fitting_prefix: "prefix (fitting_prefix k t) t"
  by (induction k t rule: fitting_prefix.induct) (auto split: option.splits)

lemma fitting_prefix_bound:
  "utf8_encode t = Some bs \<Longrightarrow>
     \<exists>bs'. utf8_encode (fitting_prefix k t) = Some bs' \<and> length bs' \<le> k \<and> prefix bs' bs"
proof (induction k t arbitrary: bs rule: fitting_prefix.induct)
  case (1 k)
  then show ?case by simp
next
  case (2 k n ns)
  from "2.prems" obtain b bs' where b: "utf8_char n = Some b"
    and bs': "utf8_encode ns = Some bs'" and bs: "bs = b @ bs'"
    by (auto split: option.splits)
  show ?case
  proof (cases "length b \<le> k")
    case True
    then obtain c where "utf8_encode (fitting_prefix (k - length b) ns) = Some c"
      and "length c \<le> k - length b" and "prefix c bs'"
      using "2.IH" [OF b True bs'] by blast
    with True b bs show ?thesis by simp
  next
    case False
    with b show ?thesis by simp
  qed
qed

text \<open>A Python \<open>str\<close> of this development as a text, and its UTF-8 bytes.\<close>

definition codes :: "string \<Rightarrow> utext" where
  "codes s = map code s"

definition encode_str :: "string \<Rightarrow> bytes" where
  "encode_str s = concat (map (\<lambda>c. if code c < 128 then [c] else [byte (192 + code c div 64), cont (code c)]) s)"

lemma code_lt [simp]: "code c < 256"
  by (simp add: code_def)

lemma byte_code [simp]: "byte (code c) = c"
  by (simp add: code_def byte_def)

lemma utf8_encode_codes: "utf8_encode (codes s) = Some (encode_str s)"
  by (induction s) (auto simp: codes_def encode_str_def utf8_char_def less_trans [OF code_lt])

end
