(* ===== verification/Auth.thy ===== *)
theory Auth
  imports Utf8 Errors
begin

text \<open>
  Security contexts (\<open>resource_auth.py\<close>): the principal of a request, the audit projection of a
  principal, the identity recomputed from a stored projection, and the replay keys that put a
  principal's namespace in front of the caller's request id.  The SHA-256 function of
  \<open>hashlib\<close> is a parameter: every statement holds for any function from bytes to strings.
\<close>

type_synonym sha = "bytes \<Rightarrow> string"

section \<open>Replay keys\<close>

definition REPLAY_KEY_SEPARATOR :: char where
  "REPLAY_KEY_SEPARATOR = CHR 0x1F"

definition encode_replay_key :: "string option \<Rightarrow> string \<Rightarrow> exn + string" where
  "encode_replay_key namespace client_request_id =
     (case namespace of
        None \<Rightarrow> Inr client_request_id
      | Some ns \<Rightarrow>
          if ns = [] \<or> REPLAY_KEY_SEPARATOR \<in> set ns
             \<or> REPLAY_KEY_SEPARATOR \<in> set client_request_id
          then Inl (ValueErr ''replay namespace and client request ID must not contain the separator'')
          else Inr (ns @ [REPLAY_KEY_SEPARATOR] @ client_request_id))"

definition decode_replay_key :: "string \<Rightarrow> string" where
  "decode_replay_key value =
     (case partition_at REPLAY_KEY_SEPARATOR value of
        (_, Some client_request_id) \<Rightarrow> client_request_id
      | (_, None) \<Rightarrow> value)"

lemma decode_encode_replay_key:
  "encode_replay_key (Some ns) cid = Inr k \<Longrightarrow> decode_replay_key k = cid"
  by (auto simp: encode_replay_key_def decode_replay_key_def partition_at_Some split: if_splits)

lemma decode_replay_key_plain:
  "REPLAY_KEY_SEPARATOR \<notin> set k \<Longrightarrow> decode_replay_key k = k"
  by (simp add: decode_replay_key_def partition_at_None)

lemma decode_replay_key_cases:
  "decode_replay_key k = cid \<Longrightarrow>
     k = cid \<or> (\<exists>ns. REPLAY_KEY_SEPARATOR \<notin> set ns \<and> k = ns @ [REPLAY_KEY_SEPARATOR] @ cid)"
  using partition_at_split [of REPLAY_KEY_SEPARATOR k]
  by (auto simp: decode_replay_key_def split: prod.splits option.splits)

lemma partition_encode_replay_key:
  "encode_replay_key (Some ns) cid = Inr k \<Longrightarrow> partition_at REPLAY_KEY_SEPARATOR k = (ns, Some cid)"
  by (auto simp: encode_replay_key_def partition_at_Some split: if_splits)

lemma encode_replay_key_inj:
  "encode_replay_key (Some ns) cid = Inr k \<Longrightarrow> encode_replay_key (Some ns') cid' = Inr k \<Longrightarrow>
     ns = ns' \<and> cid = cid'"
  by (auto dest!: partition_encode_replay_key)

section \<open>Principals\<close>

definition NETWORK_TRUST_AUTH_KIND :: string where "NETWORK_TRUST_AUTH_KIND = ''network-trusted''"
definition NETWORK_TRUST_AUTH_TYPE :: string where "NETWORK_TRUST_AUTH_TYPE = ''network-trusted''"
definition NETWORK_TRUST_PROFILE :: string where "NETWORK_TRUST_PROFILE = ''cloudflare-chatgpt''"
definition NETWORK_TRUST_ISSUER :: string where "NETWORK_TRUST_ISSUER = ''network-trust://cloudflare-chatgpt''"
definition NETWORK_TRUST_PRINCIPAL :: string where "NETWORK_TRUST_PRINCIPAL = ''network-chatgpt-v1''"
definition NETWORK_TRUST_REPLAY_NAMESPACE :: string where
  "NETWORK_TRUST_REPLAY_NAMESPACE = ''network-chatgpt-v1''"

lemmas network_trust_defs = NETWORK_TRUST_AUTH_KIND_def NETWORK_TRUST_AUTH_TYPE_def
  NETWORK_TRUST_PROFILE_def NETWORK_TRUST_ISSUER_def NETWORK_TRUST_PRINCIPAL_def
  NETWORK_TRUST_REPLAY_NAMESPACE_def

record oauth_principal =
  p_contract_version :: string
  p_issuer :: string
  p_resource :: string
  p_subject :: string
  p_client_id :: string
  p_scopes :: "string list"
  p_issued_at :: int
  p_expires_at :: int

datatype auth_context = OAuth oauth_principal | NetworkTrusted "string option"

definition oauth_identity_values :: "oauth_principal \<Rightarrow> string list" where
  "oauth_identity_values p =
     [p_contract_version p, p_issuer p, p_resource p, p_subject p, p_client_id p]"

definition oauth_replay_namespace :: "sha \<Rightarrow> string list \<Rightarrow> string" where
  "oauth_replay_namespace sha256 values =
     ''oauth-'' @ sha256 (encode_str (render (JList (map JStr values))))"

definition auth_replay_namespace :: "sha \<Rightarrow> auth_context \<Rightarrow> string" where
  "auth_replay_namespace sha256 who =
     (case who of
        NetworkTrusted _ \<Rightarrow> NETWORK_TRUST_REPLAY_NAMESPACE
      | OAuth p \<Rightarrow> oauth_replay_namespace sha256 (oauth_identity_values p))"

definition auth_audit_details :: "sha \<Rightarrow> auth_context \<Rightarrow> json" where
  "auth_audit_details sha256 who =
     (case who of
        NetworkTrusted resource \<Rightarrow>
          JObj ([(''auth_kind'', JStr NETWORK_TRUST_AUTH_KIND),
                 (''auth_type'', JStr NETWORK_TRUST_AUTH_TYPE),
                 (''trust_profile'', JStr NETWORK_TRUST_PROFILE),
                 (''identity_level'', JStr ''network-only''),
                 (''principal'', JStr NETWORK_TRUST_PRINCIPAL),
                 (''issuer'', JStr NETWORK_TRUST_ISSUER),
                 (''subject'', JStr NETWORK_TRUST_PRINCIPAL),
                 (''replay_namespace'', JStr NETWORK_TRUST_REPLAY_NAMESPACE)]
                @ (case resource of None \<Rightarrow> [] | Some r \<Rightarrow> [(''resource'', JStr r)]))
      | OAuth p \<Rightarrow>
          JObj [(''contract_version'', JStr (p_contract_version p)),
                (''auth_kind'', JStr ''oauth-resource-server''),
                (''auth_type'', JStr ''oauth''),
                (''replay_namespace'', JStr (auth_replay_namespace sha256 who)),
                (''issuer'', JStr (p_issuer p)), (''resource'', JStr (p_resource p)),
                (''subject'', JStr (p_subject p)), (''client_id'', JStr (p_client_id p)),
                (''scopes'', jstrs (p_scopes p)), (''issued_at'', JInt (p_issued_at p)),
                (''expires_at'', JInt (p_expires_at p))])"

text \<open>
  Stored details whose \<open>auth_kind\<close> is a list or an object (never written by
  \<open>auth_audit_details\<close>; Python would raise \<open>TypeError\<close> on the set test) count as unknown.
  \<open>details.get(key)\<close> compared with a string constant, and the five identity fields of a stored
  OAuth projection.
\<close>

definition field_is :: "json \<Rightarrow> string \<Rightarrow> string \<Rightarrow> bool" where
  "field_is details key v = (jget details key = Some (JStr v))"

definition identity_fields :: "json \<Rightarrow> string option list" where
  "identity_fields details =
     map (\<lambda>key. jstr_of (jget details key))
       [''contract_version'', ''issuer'', ''resource'', ''subject'', ''client_id'']"

definition auth_context_identity :: "sha \<Rightarrow> json \<Rightarrow> (string \<times> string) option" where
  "auth_context_identity sha256 details =
     (if \<not> is_jobj details then None
      else if field_is details ''auth_kind'' NETWORK_TRUST_AUTH_KIND then
        (if field_is details ''auth_type'' NETWORK_TRUST_AUTH_TYPE
            \<and> field_is details ''trust_profile'' NETWORK_TRUST_PROFILE
            \<and> field_is details ''principal'' NETWORK_TRUST_PRINCIPAL
            \<and> field_is details ''issuer'' NETWORK_TRUST_ISSUER
            \<and> field_is details ''subject'' NETWORK_TRUST_PRINCIPAL
            \<and> field_is details ''replay_namespace'' NETWORK_TRUST_REPLAY_NAMESPACE
            \<and> field_is details ''identity_level'' ''network-only''
         then Some (NETWORK_TRUST_AUTH_KIND, NETWORK_TRUST_REPLAY_NAMESPACE) else None)
      else if jget details ''auth_kind'' \<notin>
                {None, Some JNull, Some (JStr ''oauth-resource-server'')} then None
      else
        (let values = identity_fields details in
         if \<not> list_all (\<lambda>v. v \<noteq> None \<and> v \<noteq> Some []) values then None
         else
           (let namespace = oauth_replay_namespace sha256 (map the values);
                persisted = jget details ''replay_namespace'' in
            if persisted \<notin> {None, Some JNull} \<and> persisted \<noteq> Some (JStr namespace) then None
            else Some (''oauth-resource-server'', namespace))))"

definition auth_identity :: "sha \<Rightarrow> auth_context option \<Rightarrow> (string \<times> string) option" where
  "auth_identity sha256 who =
     (case who of None \<Rightarrow> None
      | Some p \<Rightarrow> auth_context_identity sha256 (auth_audit_details sha256 p))"

text \<open>A principal the validator can produce: the identity fields are non-empty.\<close>

definition principal_ok :: "auth_context \<Rightarrow> bool" where
  "principal_ok p =
     (case p of NetworkTrusted _ \<Rightarrow> True
      | OAuth q \<Rightarrow> list_all (\<lambda>v. v \<noteq> []) (oauth_identity_values q))"

lemma auth_identity_network [simp]:
  "auth_identity sha256 (Some (NetworkTrusted r)) =
     Some (NETWORK_TRUST_AUTH_KIND, NETWORK_TRUST_REPLAY_NAMESPACE)"
  by (simp add: auth_identity_def auth_audit_details_def auth_context_identity_def
      field_is_def is_jobj_def)

lemma auth_identity_oauth:
  "principal_ok (OAuth p) \<Longrightarrow> auth_identity sha256 (Some (OAuth p)) =
     Some (''oauth-resource-server'', auth_replay_namespace sha256 (OAuth p))"
  by (simp add: auth_identity_def auth_audit_details_def auth_context_identity_def
      field_is_def is_jobj_def principal_ok_def oauth_identity_values_def identity_fields_def
      jstr_of_def auth_replay_namespace_def network_trust_defs)

lemma auth_identity_snd:
  "principal_ok p \<Longrightarrow> \<exists>k. auth_identity sha256 (Some p) = Some (k, auth_replay_namespace sha256 p)"
  by (cases p) (auto simp: auth_identity_oauth auth_replay_namespace_def)

end
