(* ===== verification/Clock.thy ===== *)
theory Clock
  imports Pystr "HOL-Library.Product_Lexorder"
begin

text \<open>
  UTC timestamps as \<open>datetime.isoformat(timespec="milliseconds")\<close> writes them.  A clock value is
  the number of milliseconds since 1970-01-01 (the digits the format drops play no part).  The
  stored timestamps are strings, and the sources compare them as strings; \<open>iso_mono\<close> is the fact
  that makes this right: within the years of four digits the string order is the time order.
\<close>

section \<open>Calendar\<close>

definition leap :: "nat \<Rightarrow> bool" where
  "leap y = (4 dvd y \<and> (\<not> 100 dvd y \<or> 400 dvd y))"

definition days_in_year :: "nat \<Rightarrow> nat" where
  "days_in_year y = (if leap y then 366 else 365)"

definition month_lengths :: "nat \<Rightarrow> nat list" where
  "month_lengths y = [31, if leap y then 29 else 28, 31, 30, 31, 30, 31, 31, 30, 31, 30, 31]"

text \<open>The year and the day within it, counting whole years from \<open>y\<close> on.\<close>

function year_day :: "nat \<Rightarrow> nat \<Rightarrow> nat \<times> nat" where
  "year_day y d = (if d < days_in_year y then (y, d) else year_day (Suc y) (d - days_in_year y))"
  by auto
termination
  by (relation "measure snd") (auto simp: days_in_year_def)

declare year_day.simps [simp del]

text \<open>The month (from \<open>m\<close> on) and the day within it.\<close>

fun month_day :: "nat list \<Rightarrow> nat \<Rightarrow> nat \<Rightarrow> nat \<times> nat" where
  "month_day [] m d = (m, d)"
| "month_day (n # ns) m d = (if d < n then (m, d) else month_day ns (Suc m) (d - n))"

definition pad :: "nat \<Rightarrow> nat \<Rightarrow> string" where
  "pad w n = (let s = decimal n in replicate (w - length s) (CHR ''0'') @ s)"

definition iso :: "nat \<Rightarrow> string" where
  "iso t =
     (let days = t div 86400000;
          ms = t mod 86400000;
          (y, yd) = year_day 1970 days;
          (m, d) = month_day (month_lengths y) 1 yd
      in pad 4 y @ ''-'' @ pad 2 m @ ''-'' @ pad 2 (Suc d) @ ''T''
         @ pad 2 (ms div 3600000) @ '':'' @ pad 2 (ms div 60000 mod 60) @ '':''
         @ pad 2 (ms div 1000 mod 60) @ ''.'' @ pad 3 (ms mod 1000) @ ''+00:00'')"

section \<open>String order is time order\<close>

fun digits :: "nat \<Rightarrow> nat \<Rightarrow> string" where
  "digits 0 n = []"
| "digits (Suc w) n = digits w (n div 10) @ [char_of (48 + n mod 10)]"

lemma length_digits [simp]: "length (digits w n) = w"
  by (induction w n rule: digits.induct) auto

lemma char_of_48 [simp]: "char_of (48 :: nat) = CHR ''0''"
  by (simp add: char_of_def bit_iff_odd)

lemma digits_0 [simp]: "digits w 0 = replicate w (CHR ''0'')"
  by (induction w) (auto simp: replicate_append_same char_of_48)

lemma digits_decimal:
  "length (decimal n) \<le> w \<Longrightarrow> digits w n = replicate (w - length (decimal n)) (CHR ''0'') @ decimal n"
proof (induction n arbitrary: w rule: decimal.induct)
  case (1 n)
  show ?case
  proof (cases "n < 10")
    case True
    then have d: "decimal n = [char_of (48 + n)]" by (simp add: decimal.simps [of n])
    with "1.prems" obtain v where "w = Suc v" by (cases w) auto
    with d True show ?thesis by simp
  next
    case False
    then have d: "decimal n = decimal (n div 10) @ [char_of (48 + n mod 10)]"
      by (simp add: decimal.simps [of n])
    with "1.prems" obtain v where "w = Suc v" by (cases w) auto
    with d False "1.IH" [of v] "1.prems" show ?thesis by simp
  qed
qed

lemma length_decimal: "n < 10 ^ w \<Longrightarrow> 0 < w \<Longrightarrow> length (decimal n) \<le> w"
proof (induction w arbitrary: n)
  case 0
  then show ?case by simp
next
  case (Suc w)
  show ?case
  proof (cases "n < 10")
    case True
    then show ?thesis by (simp add: decimal.simps [of n])
  next
    case False
    then have "0 < w" using Suc.prems by (cases w) auto
    moreover have "n div 10 < 10 ^ w" using Suc.prems by (simp add: div_less_iff_less_mult)
    ultimately show ?thesis using Suc.IH [of "n div 10"] False by (simp add: decimal.simps [of n])
  qed
qed

lemma pad_digits: "n < 10 ^ w \<Longrightarrow> 0 < w \<Longrightarrow> pad w n = digits w n"
  by (simp add: pad_def Let_def digits_decimal [OF length_decimal])

lemma append_less_append:
  "length a = length b \<Longrightarrow> (a @ x < b @ y) \<longleftrightarrow> a < b \<or> (a = b \<and> x < (y :: string))"
  by (induction a b rule: list_induct2) auto

lemma char_less: "i < j \<Longrightarrow> j < 256 \<Longrightarrow> char_of i < (char_of (j :: nat) :: char)"
  by (simp add: less_char_def)

lemma digits_less: "i < j \<Longrightarrow> j < 10 ^ w \<Longrightarrow> digits w i < digits w j"
proof (induction w arbitrary: i j)
  case 0
  then show ?case by simp
next
  case (Suc w)
  have j: "j div 10 < 10 ^ w" using Suc.prems by (simp add: div_less_iff_less_mult)
  show ?case
  proof (cases "i div 10 = j div 10")
    case True
    then have "i mod 10 < j mod 10"
      using Suc.prems(1) by (metis div_mult_mod_eq nat_add_left_cancel_less)
    with True show ?thesis by (simp add: append_less_append char_less)
  next
    case False
    moreover have "i div 10 \<le> j div 10" using Suc.prems(1) by (simp add: div_le_mono)
    ultimately have "i div 10 < j div 10" by simp
    with Suc.IH j show ?thesis by (simp add: append_less_append)
  qed
qed

lemma year_day_bound: "year_day y d = (y', d') \<Longrightarrow> d' < days_in_year y' \<and> y \<le> y'"
proof (induction y d arbitrary: y' d' rule: year_day.induct)
  case (1 y d)
  then show ?case
    by (cases "d < days_in_year y") (auto simp: year_day.simps [of y d] dest: Suc_leD)
qed

lemma year_day_less:
  "d < e \<Longrightarrow> year_day y d = (y1, d1) \<Longrightarrow> year_day y e = (y2, d2) \<Longrightarrow> y1 < y2 \<or> (y1 = y2 \<and> d1 < d2)"
proof (induction y d arbitrary: e rule: year_day.induct)
  case (1 y d)
  show ?case
  proof (cases "d < days_in_year y")
    case True
    then have y1: "y1 = y" "d1 = d" using "1.prems" by (simp_all add: year_day.simps [of y d])
    show ?thesis
    proof (cases "e < days_in_year y")
      case True
      with y1 "1.prems" show ?thesis by (simp add: year_day.simps [of y e])
    next
      case False
      then have "Suc y \<le> y2"
        using "1.prems"(3) year_day_bound by (simp add: year_day.simps [of y e])
      with y1 show ?thesis by simp
    qed
  next
    case False
    with "1.prems" show ?thesis
      using "1.IH" [OF False, of "e - days_in_year y"]
      by (simp add: year_day.simps [of y d] year_day.simps [of y e])
  qed
qed

lemma month_day_bound:
  "d < sum_list ns \<Longrightarrow> month_day ns m d = (m', d') \<Longrightarrow>
     m \<le> m' \<and> m' < m + length ns \<and> d' < ns ! (m' - m)"
proof (induction ns m d rule: month_day.induct)
  case (1 m d)
  then show ?case by simp
next
  case (2 n ns m d)
  show ?case
  proof (cases "d < n")
    case True
    with 2 show ?thesis by auto
  next
    case False
    with 2 have "Suc m \<le> m' \<and> m' < Suc m + length ns \<and> d' < ns ! (m' - Suc m)" by auto
    then show ?thesis by (auto simp: nth_Cons')
  qed
qed

lemma month_day_ge: "month_day ns m d = (m', d') \<Longrightarrow> m \<le> m'"
  by (induction ns m d rule: month_day.induct) (auto split: if_splits)

lemma month_day_less:
  "d < e \<Longrightarrow> month_day ns m d = (m1, d1) \<Longrightarrow> month_day ns m e = (m2, d2) \<Longrightarrow>
     m1 < m2 \<or> (m1 = m2 \<and> d1 < d2)"
proof (induction ns m d arbitrary: e rule: month_day.induct)
  case (1 m d)
  then show ?case by simp
next
  case (2 n ns m d)
  show ?case
  proof (cases "d < n")
    case True
    with 2 show ?thesis by (auto split: if_splits dest: month_day_ge)
  next
    case False
    with 2 have "d - n < e - n" and "month_day ns (Suc m) (d - n) = (m1, d1)"
      and "month_day ns (Suc m) (e - n) = (m2, d2)"
      by auto
    with "2.IH" [OF False] show ?thesis by blast
  qed
qed

lemma sum_month_lengths: "sum_list (month_lengths y) = days_in_year y"
  by (simp add: month_lengths_def days_in_year_def)

lemma month_lengths_le: "i < 12 \<Longrightarrow> month_lengths y ! i \<le> 31"
  by (auto simp: month_lengths_def nth_Cons' numeral_eq_Suc)

text \<open>The calendar fields of a time, in the order the format prints them.\<close>

definition fields :: "nat \<Rightarrow> nat list" where
  "fields t =
     (let (y, yd) = year_day 1970 (t div 86400000);
          (m, d) = month_day (month_lengths y) 1 yd;
          ms = t mod 86400000
      in [y, m, Suc d, ms div 3600000, ms div 60000 mod 60, ms div 1000 mod 60, ms mod 1000])"

lemma div_mod_less:
  "a < (b :: nat) \<Longrightarrow> a div k < b div k \<or> (a div k = b div k \<and> a mod k < b mod k)"
proof -
  assume ab: "a < b"
  then have "a div k \<le> b div k" by (simp add: div_le_mono)
  moreover have "a mod k < b mod k" if "a div k = b div k"
  proof -
    have "a div k * k = b div k * k" using that by simp
    then show ?thesis using ab div_mult_mod_eq [of a k] div_mult_mod_eq [of b k] by linarith
  qed
  ultimately show ?thesis by linarith
qed

lemma hms_less:
  assumes "a < (b :: nat)"
  shows "[a div 3600000, a div 60000 mod 60, a div 1000 mod 60, a mod 1000]
       < [b div 3600000, b div 60000 mod 60, b div 1000 mod 60, b mod 1000]"
proof -
  have step: "x div 1000 div 60 = x div 60000" "x div 60000 div 60 = x div 3600000" for x :: nat
    by (simp_all add: div_mult2_eq [symmetric])
  consider "a div 1000 < b div 1000" | "a div 1000 = b div 1000" "a mod 1000 < b mod 1000"
    using div_mod_less [OF assms, of 1000] by blast
  then show ?thesis
  proof cases
    case 1
    then consider "a div 60000 < b div 60000"
      | "a div 60000 = b div 60000" "a div 1000 mod 60 < b div 1000 mod 60"
      using div_mod_less [of "a div 1000" "b div 1000" 60] step by auto
    then show ?thesis
    proof cases
      case 1
      then show ?thesis
        using div_mod_less [of "a div 60000" "b div 60000" 60] step by auto
    next
      case 2
      then have "a div 3600000 = b div 3600000" using step by metis
      with 2 show ?thesis by simp
    qed
  next
    case 2
    then have "a div 60000 = b div 60000" and "a div 3600000 = b div 3600000"
      using step by metis+
    with 2 show ?thesis by simp
  qed
qed

text \<open>The first instant of the year 10000, which \<open>datetime\<close> cannot represent.\<close>

definition TIME_LIMIT :: nat where
  "TIME_LIMIT = (\<Sum>k = 1970..<10000. days_in_year k) * 86400000"

lemma fields_less: "t < u \<Longrightarrow> fields t < fields u"
proof -
  assume tu: "t < u"
  obtain y1 d1 y2 d2 where y: "year_day 1970 (t div 86400000) = (y1, d1)"
    "year_day 1970 (u div 86400000) = (y2, d2)" by fastforce
  obtain m1 e1 m2 e2 where m: "month_day (month_lengths y1) 1 d1 = (m1, e1)"
    "month_day (month_lengths y2) 1 d2 = (m2, e2)" by fastforce
  consider "t div 86400000 < u div 86400000"
    | "t div 86400000 = u div 86400000" "t mod 86400000 < u mod 86400000"
    using div_mod_less [OF tu] by blast
  then show ?thesis
  proof cases
    case 1
    from year_day_less [OF 1 y] consider "y1 < y2" | "y1 = y2" "d1 < d2" by blast
    then show ?thesis
    proof cases
      case 1
      with y m show ?thesis by (simp add: fields_def Let_def)
    next
      case 2
      with y m show ?thesis
        using month_day_less [OF 2(2), of "month_lengths y1" 1 m1 e1 m2 e2]
        by (auto simp add: fields_def Let_def)
    qed
  next
    case 2
    with y m show ?thesis using hms_less [OF 2(2)] by (simp add: fields_def Let_def)
  qed
qed

text \<open>Every field is printed with a fixed width, followed by a separator.\<close>

definition layout :: "(nat \<times> string) list" where
  "layout = [(4, ''-''), (2, ''-''), (2, ''T''), (2, '':''), (2, '':''), (2, ''.''), (3, ''+00:00'')]"

fun stamp :: "(nat \<times> string) list \<Rightarrow> nat list \<Rightarrow> string" where
  "stamp ((w, sep) # ws) (n # ns) = digits w n @ sep @ stamp ws ns"
| "stamp _ _ = []"

lemma append_less_cancel: "(a @ x < a @ y) \<longleftrightarrow> x < (y :: string)"
  by (induction a) auto

lemma stamp_less:
  "length ns = length ws \<Longrightarrow> length ns' = length ws \<Longrightarrow> ns < ns' \<Longrightarrow>
   list_all2 (\<lambda>(w, _) n. n < 10 ^ w) ws ns' \<Longrightarrow> stamp ws ns < stamp ws ns'"
proof (induction ws ns arbitrary: ns' rule: stamp.induct)
  case (1 w sep ws n ns)
  then obtain m ms where ns': "ns' = m # ms" by (cases ns') auto
  show ?case
  proof (cases "n = m")
    case True
    with 1 ns' show ?thesis by (simp add: append_less_cancel)
  next
    case False
    with 1 ns' have "digits w n < digits w m" by (auto intro: digits_less)
    with ns' show ?thesis by (simp add: append_less_append)
  qed
qed auto

lemma year_day_start: "year_day y d = (y', d') \<Longrightarrow> (\<Sum>k = y..<y'. days_in_year k) + d' = d"
proof (induction y d arbitrary: y' d' rule: year_day.induct)
  case (1 y d)
  show ?case
  proof (cases "d < days_in_year y")
    case True
    with 1 show ?thesis by (simp add: year_day.simps [of y d])
  next
    case False
    with "1.prems" have "year_day (Suc y) (d - days_in_year y) = (y', d')"
      by (simp add: year_day.simps [of y d])
    moreover from this have "Suc y \<le> y'" by (auto dest: year_day_bound)
    ultimately show ?thesis
      using "1.IH" [OF False, of y' d'] False by (simp add: sum.atLeast_Suc_lessThan)
  qed
qed

lemma year_bound:
  assumes "t < TIME_LIMIT" and "year_day 1970 (t div 86400000) = (y, d)"
  shows "y < 10000"
proof (rule ccontr)
  assume "\<not> y < 10000"
  then have "(\<Sum>k = 1970..<10000. days_in_year k) \<le> (\<Sum>k = 1970..<y. days_in_year k)"
    by (intro sum_mono2) auto
  also have "\<dots> \<le> t div 86400000"
    using year_day_start [OF assms(2)] by simp
  finally have "TIME_LIMIT \<le> t div 86400000 * 86400000"
    unfolding TIME_LIMIT_def by (rule mult_le_mono1)
  also have "\<dots> \<le> t" by simp
  finally show False using assms(1) by simp
qed

lemma fields_bound:
  assumes "t < TIME_LIMIT"
  shows "list_all2 (\<lambda>(w, _) n. n < 10 ^ w) layout (fields t)"
proof -
  obtain y d where y: "year_day 1970 (t div 86400000) = (y, d)" by fastforce
  obtain m e where m: "month_day (month_lengths y) 1 d = (m, e)" by fastforce
  have d: "d < sum_list (month_lengths y)"
    using year_day_bound [OF y] by (simp add: sum_month_lengths)
  have "1 \<le> m" and m13: "m < 13" and "e < month_lengths y ! (m - 1)"
    using month_day_bound [OF d m] by (simp_all add: month_lengths_def)
  moreover have "month_lengths y ! (m - 1) \<le> 31"
    using m13 by (intro month_lengths_le) simp
  ultimately have "m < 13" and "e < 31" by simp_all
  moreover have "y < 10000" using year_bound [OF assms y] .
  moreover have "t mod 86400000 div 3600000 < 24"
    by (simp add: div_less_iff_less_mult)
  moreover have "k mod 60 < 100" for k :: nat
    by (rule less_trans [OF mod_less_divisor]) simp_all
  ultimately show ?thesis using y m by (simp add: layout_def fields_def Let_def)
qed

lemma iso_stamp: "t < TIME_LIMIT \<Longrightarrow> iso t = stamp layout (fields t)"
  using fields_bound [of t]
  by (auto simp: iso_def fields_def layout_def pad_digits Let_def split: prod.splits)

lemma iso_less: "t < u \<Longrightarrow> u < TIME_LIMIT \<Longrightarrow> iso t < iso u"
  using fields_less [of t u] fields_bound [of u]
  by (simp add: iso_stamp stamp_less fields_def layout_def Let_def split: prod.splits)

text \<open>The string comparison of two timestamps is the comparison of the times.\<close>

lemma iso_le_iff:
  assumes "t < TIME_LIMIT" and "u < TIME_LIMIT"
  shows "iso t \<le> iso u \<longleftrightarrow> t \<le> u"
proof (cases t u rule: linorder_cases)
  case less
  with iso_less [OF less assms(2)] show ?thesis by simp
next
  case greater
  with iso_less [OF greater assms(1)] show ?thesis by simp
qed simp

lemma iso_less_iff: "t < TIME_LIMIT \<Longrightarrow> u < TIME_LIMIT \<Longrightarrow> iso t < iso u \<longleftrightarrow> t < u"
  using iso_le_iff [of u t] by (simp add: not_le [symmetric])

lemma TIME_LIMIT_ge: "365 * 8030 * 86400000 \<le> TIME_LIMIT"
proof -
  have "(\<Sum>k = (1970::nat)..<10000. 365) \<le> (\<Sum>k = 1970..<10000. days_in_year k)"
    by (rule sum_mono) (simp add: days_in_year_def)
  then show ?thesis unfolding TIME_LIMIT_def by simp
qed

end
