(* ===== verification/Toml.thy ===== *)
theory Toml
  imports Json
begin

text \<open>
  The values \<open>tomllib\<close> returns, and what reading a TOML file can come to.  A float is \<open>m * 2 ^ e\<close>, an
  infinity or no number; comparisons with no number are false, as in Python.  A date or time is
  opaque.
\<close>

datatype pyfloat = Fin int int | PosInf | NegInf | NotANumber

datatype toml =
    TStr string
  | TInt int
  | TFloat pyfloat
  | TBool bool
  | TArr "toml list"
  | TTab "(string \<times> toml) list"
  | TDate string

datatype toml_file = Missing | Unreadable | BadToml string | Parsed "(string \<times> toml) list"

text \<open>\<open>table.get(key)\<close>.\<close>

definition tget :: "(string \<times> toml) list \<Rightarrow> string \<Rightarrow> toml option" where
  "tget t k = map_of t k"

definition tget_or :: "(string \<times> toml) list \<Rightarrow> string \<Rightarrow> toml \<Rightarrow> toml" where
  "tget_or t k d = (case tget t k of None \<Rightarrow> d | Some v \<Rightarrow> v)"

text \<open>\<open>isinstance(v, str)\<close> and \<open>isinstance(v, dict)\<close>.\<close>

definition tstr :: "toml \<Rightarrow> string option" where
  "tstr v = (case v of TStr s \<Rightarrow> Some s | _ \<Rightarrow> None)"

definition ttab :: "toml \<Rightarrow> (string \<times> toml) list option" where
  "ttab v = (case v of TTab t \<Rightarrow> Some t | _ \<Rightarrow> None)"

definition tbool :: "toml \<Rightarrow> bool option" where
  "tbool v = (case v of TBool b \<Rightarrow> Some b | _ \<Rightarrow> None)"

text \<open>\<open>isinstance(v, int)\<close>, which holds for a bool too, and the value it then has.\<close>

definition tint :: "toml \<Rightarrow> int option" where
  "tint v = (case v of TInt i \<Rightarrow> Some i | TBool b \<Rightarrow> Some (if b then 1 else 0) | _ \<Rightarrow> None)"

text \<open>\<open>float(v)\<close> of an \<open>int | float\<close>; integers are exact.\<close>

definition tfloat :: "toml \<Rightarrow> pyfloat option" where
  "tfloat v =
     (case v of TFloat f \<Rightarrow> Some f
      | _ \<Rightarrow> (case tint v of Some i \<Rightarrow> Some (Fin i 0) | None \<Rightarrow> None))"

text \<open>\<open>v <= 0\<close>.\<close>

fun not_positive :: "pyfloat \<Rightarrow> bool" where
  "not_positive (Fin m e) = (m \<le> 0)"
| "not_positive PosInf = False"
| "not_positive NegInf = True"
| "not_positive NotANumber = False"

text \<open>\<open>v == [strings]\<close>.\<close>

definition is_strings :: "toml option \<Rightarrow> string list \<Rightarrow> bool" where
  "is_strings v xs = (v = Some (TArr (map TStr xs)))"

definition strings_of :: "toml \<Rightarrow> string list option" where
  "strings_of v =
     (case v of
        TArr vs \<Rightarrow> if list_all (\<lambda>x. tstr x \<noteq> None) vs then Some (map (\<lambda>x. the (tstr x)) vs) else None
      | _ \<Rightarrow> None)"

lemma is_strings_of: "is_strings (Some v) xs \<longleftrightarrow> strings_of v = Some xs"
proof (cases v)
  case (TArr vs)
  have "(map TStr xs = vs) = (list_all (\<lambda>x. tstr x \<noteq> None) vs \<and> map (\<lambda>x. the (tstr x)) vs = xs)"
  proof (induction vs arbitrary: xs)
    case Nil
    then show ?case by auto
  next
    case (Cons a vs)
    then show ?case by (cases xs) (auto simp: tstr_def split: toml.splits)
  qed
  with TArr show ?thesis by (auto simp: is_strings_def strings_of_def)
qed (auto simp: is_strings_def strings_of_def)

end
