(* ===== verification/External.thy ===== *)
theory External
  imports Errors Auth Clock Toml
begin

text \<open>
  The outside world.  Everything a method asks of the world is recorded, newest first, in the
  state's \<open>log\<close>; an answer is a function of the calls made so far, the present one included.
  A statement that holds for every \<open>ext\<close> therefore holds for every behaviour of the clock, the
  random generators, the disk, the Git executable and every other process.
\<close>

datatype call =
    Now
  | UuidHex
  | TokenUrlsafe nat
  | TokenHex nat
  | DbBegin
  | DbCommit
  | GitRun string "string list"
  | FsCall string string
  | FsWrite string bytes
  | WorkerCall string string json
  | RunCommand "string option" string "string list" "string option"
  | LockAcquire string
  | LockRelease string
  | ValidateToken string string string string string
  | HttpGet string "string option"
  | Monotonic
  | Sleep
  | Spawn "string list"
  | PollProcess int
  | ProcessGroup int
  | KillGroup int int
  | TaskKill int

text \<open>How a child process ends.  The two outputs of one that exits are the texts the bridge decodes
  from the pipes with \<open>errors="replace"\<close>; a text with a code point above 255 is outside the
  model.\<close>

datatype proc = SpawnFailed | TimedOut | Exited int string string

text \<open>How a registered command ends; \<open>RunCommand cwd executable arguments pythonpath\<close> is its call.\<close>

datatype run_answer = RunSpawnFailed string | RunTimedOut | RunExited int bytes bytes

text \<open>What \<open>lstat\<close> finds, and how an exclusive creation ends.\<close>

datatype lstat_answer = NoEntry | StatError | RegularEntry | OtherEntry

datatype create_answer = Created | AlreadyExists | CreateFailed

text \<open>How a call of a codemcp worker ends.\<close>

datatype worker_answer =
    WorkerResult string bool | WorkerTimeout | WorkerCancelled | WorkerBridgeErr berror | WorkerFailed

text \<open>How a request to the validation endpoint ends: with a status, its headers under lower-case names and
  the JSON its body holds, with a failure the requester reports, or with any other exception.  A
  body that is no JSON is \<open>None\<close>; a JSON number that is no integer is outside the model.\<close>

record http_response =
  hr_status :: int
  hr_headers :: "(string \<times> string) list"
  hr_body :: "json option"

datatype validation_answer = Answered http_response | Unavailable string | RequestFailed

text \<open>How sending a signal to a process group ends.\<close>

datatype kill_answer = Signalled | NoSuchProcess | KillRefused

text \<open>The answers a walk over a directory gets for one entry: whether it is a symbolic link or a reparse
  point, whether it is a directory or a file, and, when it is a directory, what it lists.  A walk
  asks for each of them at most once, so a tree of answers describes a walk over a file system that
  changes meanwhile as well.\<close>

datatype entry_kind = IsDir | IsFile | IsOther | KindError

datatype node = Node (node_link: bool) (node_kind: entry_kind) (node_children: "(string \<times> node) list option")

text \<open>\<open>x_windows\<close> is \<open>os.name == "nt"\<close> and \<open>x_normcase\<close> the platform's \<open>os.path.normcase\<close>; \<open>x_lookup\<close> answers
  \<open>shutil.which\<close> and \<open>os.environ.get\<close>; \<open>x_format_g\<close> is Python's \<open>:g\<close> format of a float and \<open>x_millis\<close> its
  whole milliseconds as a \<open>timedelta\<close>.  \<open>x_darwin\<close> is \<open>sys.platform == "darwin"\<close>, \<open>x_own_group\<close> the process
  group of the bridge itself; \<open>x_http\<close> is the JSON a local endpoint answers, if it answers, \<open>x_json\<close> what
  a JSON file holds, and \<open>x_int\<close> a process id, a process group or an exit code.\<close>

record ext =
  x_time :: "call list \<Rightarrow> nat"
  x_text :: "call list \<Rightarrow> string"
  x_ok :: "call list \<Rightarrow> bool"
  x_proc :: "call list \<Rightarrow> proc"
  x_bytes :: "call list \<Rightarrow> bytes option"
  x_worker :: "call list \<Rightarrow> worker_answer"
  x_stat :: "call list \<Rightarrow> (nat \<times> nat) option"
  x_kind :: "call list \<Rightarrow> entry_kind"
  x_tree :: "call list \<Rightarrow> (string \<times> node) list option"
  x_run :: "call list \<Rightarrow> run_answer"
  x_lstat :: "call list \<Rightarrow> lstat_answer"
  x_create :: "call list \<Rightarrow> create_answer"
  x_lookup :: "call list \<Rightarrow> string option"
  x_sha256 :: sha
  x_format_g :: "pyfloat \<Rightarrow> string"
  x_millis :: "pyfloat \<Rightarrow> nat"
  x_normcase :: "string \<Rightarrow> string"
  x_windows :: bool
  x_toml :: "call list \<Rightarrow> toml_file"
  x_darwin :: bool
  x_own_group :: int
  x_validation :: "call list \<Rightarrow> validation_answer"
  x_http :: "call list \<Rightarrow> json option"
  x_json :: "call list \<Rightarrow> json option"
  x_int :: "call list \<Rightarrow> int option"
  x_kill :: "call list \<Rightarrow> kill_answer"

record io =
  log :: "call list"

text \<open>\<open>ask c\<close> performs the call \<open>c\<close> and gives the history its answer depends on.\<close>

definition ask :: "call \<Rightarrow> ('z io_scheme, exn, call list) M" where
  "ask c = (\<lambda>s. (Inr (c # log s), s\<lparr>log := c # log s\<rparr>))"

definition now_ms :: "ext \<Rightarrow> ('z io_scheme, exn, nat) M" where
  "now_ms X = andthen (ask Now) (\<lambda>h. ret (x_time X h))"

text \<open>\<open>utc_now()\<close>.\<close>

definition utc_now :: "ext \<Rightarrow> ('z io_scheme, exn, string) M" where
  "utc_now X = andthen (now_ms X) (\<lambda>t. ret (iso t))"

definition uuid4_hex :: "ext \<Rightarrow> ('z io_scheme, exn, string) M" where
  "uuid4_hex X = andthen (ask UuidHex) (\<lambda>h. ret (x_text X h))"

definition token_urlsafe :: "ext \<Rightarrow> nat \<Rightarrow> ('z io_scheme, exn, string) M" where
  "token_urlsafe X n = andthen (ask (TokenUrlsafe n)) (\<lambda>h. ret (x_text X h))"

definition token_hex :: "ext \<Rightarrow> nat \<Rightarrow> ('z io_scheme, exn, string) M" where
  "token_hex X n = andthen (ask (TokenHex n)) (\<lambda>h. ret (x_text X h))"

text \<open>\<open>hashlib.sha256(s.encode("utf-8")).hexdigest()\<close>.\<close>

definition sha256_hex :: "ext \<Rightarrow> string \<Rightarrow> string" where
  "sha256_hex X s = x_sha256 X (encode_str s)"

named_theorems io_defs \<open>the calls of the outside world\<close>

declare ask_def [io_defs] now_ms_def [io_defs] utc_now_def [io_defs] uuid4_hex_def [io_defs]
  token_urlsafe_def [io_defs] token_hex_def [io_defs]

lemma ask_apply [simp]: "ask c s = (Inr (c # log s), s\<lparr>log := c # log s\<rparr>)"
  by (simp add: ask_def)

lemma now_ms_apply [simp]:
  "now_ms X s = (Inr (x_time X (Now # log s)), s\<lparr>log := Now # log s\<rparr>)"
  by (simp add: now_ms_def andthen_def)

lemma utc_now_apply [simp]:
  "utc_now X s = (Inr (iso (x_time X (Now # log s))), s\<lparr>log := Now # log s\<rparr>)"
  by (simp add: utc_now_def andthen_def)

lemma uuid4_hex_apply [simp]:
  "uuid4_hex X s = (Inr (x_text X (UuidHex # log s)), s\<lparr>log := UuidHex # log s\<rparr>)"
  by (simp add: uuid4_hex_def andthen_def)

lemma token_urlsafe_apply [simp]:
  "token_urlsafe X n s =
     (Inr (x_text X (TokenUrlsafe n # log s)), s\<lparr>log := TokenUrlsafe n # log s\<rparr>)"
  by (simp add: token_urlsafe_def andthen_def)

lemma token_hex_apply [simp]:
  "token_hex X n s = (Inr (x_text X (TokenHex n # log s)), s\<lparr>log := TokenHex n # log s\<rparr>)"
  by (simp add: token_hex_def andthen_def)

section \<open>Predicates the outside world cannot break\<close>

text \<open>A relation between states that a longer log does not disturb.\<close>

locale log_order = state_order R for R :: "'z io_scheme \<Rightarrow> 'z io_scheme \<Rightarrow> bool" +
  assumes log_step: "R s (s\<lparr>log := c # log s\<rparr>)"
begin

lemma ask_obeys: "obeys R (ask c)"
  by (simp add: obeys_def log_step)

lemma now_ms_obeys: "obeys R (now_ms X)"
  by (simp add: obeys_def log_step)

lemma utc_now_obeys: "obeys R (utc_now X)"
  by (simp add: obeys_def log_step)

lemma uuid4_hex_obeys: "obeys R (uuid4_hex X)"
  by (simp add: obeys_def log_step)

lemma token_urlsafe_obeys: "obeys R (token_urlsafe X n)"
  by (simp add: obeys_def log_step)

lemma token_hex_obeys: "obeys R (token_hex X n)"
  by (simp add: obeys_def log_step)

lemmas io_obeys = obeys_intros ask_obeys now_ms_obeys utc_now_obeys
  uuid4_hex_obeys token_urlsafe_obeys token_hex_obeys

end

end
