(* ===== verification/Store.thy ===== *)
theory Store
  imports External
begin

text \<open>
  The SQLite store (\<open>db/store.py\<close>, class \<open>Database\<close>, over the schema of \<open>db/schema.py\<close>).  A
  statement is a function on the tables; it fails when the tables it produces break a primary
  key, a unique index, a foreign key or a CHECK clause.  A transaction that raises restores the
  tables; so does a COMMIT that fails, and a BEGIN that fails changes nothing.  A SELECT without
  ORDER BY yields rows in insertion order.  All methods run under the store's lock, so they are
  atomic with respect to each other.
\<close>

record store_st = io +
  db :: dbase
  is_open :: bool
  versions :: "nat list"

section \<open>Constraints\<close>

definition active_mutation :: "operation_rec \<Rightarrow> bool" where
  "active_mutation o' = (o_mutation o' \<and> o_state o' \<in> set ACTIVE_MUTATION_STATES)"

text \<open>The idempotency index: NULL session ids never collide.\<close>

definition idempotency_keys :: "operation_rec list \<Rightarrow> (string \<times> string option \<times> string) list" where
  "idempotency_keys os =
     map (\<lambda>o'. (o_project_id o', o_session_id o', o_client_request_id o'))
       (filter (\<lambda>o'. o_session_id o' \<noteq> None) os)"

definition constraints_ok :: "dbase \<Rightarrow> bool" where
  "constraints_ok d =
     (distinct (map s_session_id (sessions d))
      \<and> distinct (map o_operation_id (operations d))
      \<and> distinct (idempotency_keys (operations d))
      \<and> distinct (map o_project_id (filter active_mutation (operations d)))
      \<and> distinct (map a_approval_id (approvals d))
      \<and> distinct (map a_operation_id (approvals d))
      \<and> distinct (map a_token_hash (approvals d))
      \<and> list_all (\<lambda>a. a_operation_id a \<in> set (map o_operation_id (operations d))) (approvals d)
      \<and> distinct (map c_checkpoint_id (checkpoints d))
      \<and> distinct (map c_ref_name (checkpoints d))
      \<and> list_all (\<lambda>c. c_kind c \<in> {''manual'', ''mutation'', ''rollback_safety''}
                     \<and> (c_operation_id c = None
                        \<or> the (c_operation_id c) \<in> set (map o_operation_id (operations d))))
          (checkpoints d)
      \<and> distinct (map e_event_id (audits d)))"

section \<open>Statements and transactions\<close>

definition execute :: "(dbase \<Rightarrow> dbase) \<Rightarrow> ('z store_st_scheme, exn, unit) M" where
  "execute f = (\<lambda>s. let d = f (db s) in
     if constraints_ok d then (Inr (), s\<lparr>db := d\<rparr>) else (Inl IntegrityErr, s))"

definition query :: "(dbase \<Rightarrow> 'a) \<Rightarrow> ('z store_st_scheme, exn, 'a) M" where
  "query f = gets (\<lambda>s. f (db s))"

definition require_connection :: "('z store_st_scheme, exn, unit) M" where
  "require_connection =
     andthen (gets is_open) (\<lambda>b. require b (PersistenceErr ''database is not initialized''))"

definition transaction ::
  "ext \<Rightarrow> ('z store_st_scheme, exn, 'a) M \<Rightarrow> ('z store_st_scheme, exn, 'a) M" where
  "transaction X body =
     andthen require_connection (\<lambda>_.
     andthen (ask DbBegin) (\<lambda>h.
     andthen (require (x_ok X h) OperationalErr) (\<lambda>_.
     (\<lambda>s. case body s of
            (Inl e, s') \<Rightarrow> (Inl e, s'\<lparr>db := db s\<rparr>)
          | (Inr x, s') \<Rightarrow>
              (if x_ok X (DbCommit # log s')
               then (Inr x, s'\<lparr>log := DbCommit # log s'\<rparr>)
               else (Inl OperationalErr, s'\<lparr>log := DbCommit # log s', db := db s\<rparr>))))))"

definition update_where :: "('r \<Rightarrow> bool) \<Rightarrow> ('r \<Rightarrow> 'r) \<Rightarrow> 'r list \<Rightarrow> 'r list" where
  "update_where p f rows = map (\<lambda>r. if p r then f r else r) rows"

definition audit ::
  "ext \<Rightarrow> string option \<Rightarrow> string option \<Rightarrow> string option \<Rightarrow> string \<Rightarrow> string \<Rightarrow> string option
   \<Rightarrow> string option \<Rightarrow> json \<Rightarrow> ('z store_st_scheme, exn, unit) M" where
  "audit X operation_id project_id session_id owner_id event_type from_state to_state details =
     andthen (uuid4_hex X) (\<lambda>event_id.
     andthen (utc_now X) (\<lambda>now.
     execute (\<lambda>d. d\<lparr>audits := audits d @
       [\<lparr>e_event_id = event_id, e_operation_id = operation_id, e_project_id = project_id,
         e_session_id = session_id, e_owner_id = owner_id, e_event_type = event_type,
         e_from_state = from_state, e_to_state = to_state, e_details = JText details,
         e_created_at = now\<rparr>]\<rparr>)))"

section \<open>Rows\<close>

definition insert_session :: "session_rec \<Rightarrow> dbase \<Rightarrow> dbase" where
  "insert_session r d = d\<lparr>sessions := sessions d @ [r]\<rparr>"

definition insert_operation :: "operation_rec \<Rightarrow> dbase \<Rightarrow> dbase" where
  "insert_operation r d = d\<lparr>operations := operations d @ [r]\<rparr>"

definition insert_approval :: "approval_rec \<Rightarrow> dbase \<Rightarrow> dbase" where
  "insert_approval a d = d\<lparr>approvals := approvals d @ [a]\<rparr>"

definition insert_checkpoint :: "checkpoint_rec \<Rightarrow> dbase \<Rightarrow> dbase" where
  "insert_checkpoint c d = d\<lparr>checkpoints := checkpoints d @ [c]\<rparr>"

definition session_row :: "string \<Rightarrow> dbase \<Rightarrow> session_rec option" where
  "session_row sid d = find (\<lambda>r. s_session_id r = sid) (sessions d)"

definition operation_row :: "string \<Rightarrow> dbase \<Rightarrow> operation_rec option" where
  "operation_row oid d = find (\<lambda>r. o_operation_id r = oid) (operations d)"

definition checkpoint_row :: "string \<Rightarrow> dbase \<Rightarrow> checkpoint_rec option" where
  "checkpoint_row cid d = find (\<lambda>r. c_checkpoint_id r = cid) (checkpoints d)"

definition approval_row :: "string \<Rightarrow> dbase \<Rightarrow> approval_rec option" where
  "approval_row oid d = find (\<lambda>r. a_operation_id r = oid) (approvals d)"

text \<open>\<open>_operation\<close>: the record class shows the caller's request id, the row the replay key.\<close>

definition operation_of_row :: "operation_rec \<Rightarrow> operation_rec" where
  "operation_of_row r = r\<lparr>o_client_request_id := decode_replay_key (o_client_request_id r)\<rparr>"

text \<open>\<open>result = ...; assert result is not None; return result\<close>.\<close>

definition assert_some :: "'a option \<Rightarrow> ('s, exn, 'a) M" where
  "assert_some r = (case r of None \<Rightarrow> raise OtherErr | Some x \<Rightarrow> ret x)"

section \<open>Opening and closing\<close>

definition SCHEMA_VERSION :: nat where "SCHEMA_VERSION = 3"
definition MIGRATIONS :: "nat list" where "MIGRATIONS = [1, 2, 3]"

text \<open>
  One migration: BEGIN, then \<open>executescript\<close>, which commits first and creates what does not exist
  yet, then the row of \<open>schema_migrations\<close>, each of which may fail.  \<open>versions\<close> is that table.
\<close>

definition migrate :: "ext \<Rightarrow> nat \<Rightarrow> ('z store_st_scheme, exn, unit) M" where
  "migrate X version =
     andthen (ask DbBegin) (\<lambda>h1.
     andthen (require (x_ok X h1) OperationalErr) (\<lambda>_.
     andthen (ask DbCommit) (\<lambda>h2.
     andthen (require (x_ok X h2) OperationalErr) (\<lambda>_.
     andthen (utc_now X) (\<lambda>_.
     andthen (gets versions) (\<lambda>vs.
     andthen (require (version \<notin> set vs) IntegrityErr) (\<lambda>_.
     modify (\<lambda>s. s\<lparr>versions := vs @ [version]\<rparr>))))))))"

definition initialize :: "ext \<Rightarrow> ('z store_st_scheme, exn, unit) M" where
  "initialize X =
     andthen (gets is_open) (\<lambda>already.
     if already then ret ()
     else
       andthen (gets (\<lambda>s. Max (set (0 # versions s)))) (\<lambda>current.
       andthen (require (current \<le> SCHEMA_VERSION)
                  (PersistenceErr ''database schema is newer than this Bridge'')) (\<lambda>_.
       andthen (modify (\<lambda>s. s\<lparr>is_open := True\<rparr>)) (\<lambda>_.
       handle (for_each (filter (\<lambda>v. current < v) MIGRATIONS) (migrate X))
         (\<lambda>e. andthen (modify (\<lambda>s. s\<lparr>is_open := False\<rparr>)) (\<lambda>_. raise e))))))"

definition close_store :: "('z store_st_scheme, exn, unit) M" where
  "close_store = modify (\<lambda>s. s\<lparr>is_open := False\<rparr>)"

section \<open>Sessions\<close>

definition set_session :: "string \<Rightarrow> (session_rec \<Rightarrow> session_rec) \<Rightarrow> dbase \<Rightarrow> dbase" where
  "set_session sid f d = d\<lparr>sessions := update_where (\<lambda>r. s_session_id r = sid) f (sessions d)\<rparr>"

definition create_session ::
  "ext \<Rightarrow> string \<Rightarrow> string \<Rightarrow> string \<Rightarrow> json option \<Rightarrow> ('z store_st_scheme, exn, session_rec) M" where
  "create_session X session_id project_id owner_id auth_details =
     andthen (utc_now X) (\<lambda>now.
     andthen (transaction X (
       andthen (execute (insert_session
         \<lparr>s_session_id = session_id, s_project_id = project_id, s_owner_id = owner_id,
           s_status = SCreated, s_created_at = now, s_updated_at = now,
           s_closed_at = None, s_reason = None\<rparr>)) (\<lambda>_.
       andthen (audit X None (Some project_id) (Some session_id) owner_id ''session.created''
                  None (Some ''created'') (JObj [])) (\<lambda>_.
       andthen (utc_now X) (\<lambda>later.
       andthen (execute (set_session session_id
                  (\<lambda>r. r\<lparr>s_status := SActive, s_updated_at := later\<rparr>))) (\<lambda>_.
       andthen (audit X None (Some project_id) (Some session_id) owner_id ''session.activated''
                  (Some ''created'') (Some ''active'') (JObj [])) (\<lambda>_.
       andthen (case auth_details of
                  None \<Rightarrow> ret ()
                | Some details \<Rightarrow>
                    audit X None (Some project_id) (Some session_id) owner_id
                      ''auth.session.context'' None None details) (\<lambda>_.
       query (session_row session_id)))))))))
     assert_some)"

definition get_session :: "string \<Rightarrow> ('z store_st_scheme, exn, session_rec option) M" where
  "get_session session_id =
     andthen require_connection (\<lambda>_. query (session_row session_id))"

text \<open>\<open>ORDER BY created_at, event_id LIMIT 1\<close> and the parse of the row found.\<close>

definition event_order :: "audit_rec list \<Rightarrow> audit_rec list" where
  "event_order es = sort_key (\<lambda>e. (e_created_at e, e_event_id e)) es"

definition auth_event_details :: "string \<Rightarrow> audit_rec list \<Rightarrow> exn + json option" where
  "auth_event_details what es =
     (case event_order es of
        [] \<Rightarrow> Inr None
      | e # _ \<Rightarrow>
          (case e_details e of
             JMalformed _ \<Rightarrow> Inl (PersistenceErr (what @ '' auth context is malformed''))
           | JText j \<Rightarrow>
               if is_jobj j then Inr (Some j)
               else Inl (PersistenceErr (what @ '' auth context must be a JSON object''))))"

definition get_session_auth_context :: "string \<Rightarrow> ('z store_st_scheme, exn, json option) M" where
  "get_session_auth_context session_id =
     andthen require_connection (\<lambda>_.
     andthen (query (\<lambda>d. filter (\<lambda>e. e_session_id e = Some session_id
                                   \<and> e_event_type e = ''auth.session.context'') (audits d)))
       (\<lambda>es. lift_sum (auth_event_details ''session'' es)))"

definition session_update ::
  "session_status \<Rightarrow> string \<Rightarrow> string option \<Rightarrow> session_rec \<Rightarrow> session_rec \<Rightarrow> session_rec" where
  "session_update to' now reason current r =
     r\<lparr>s_status := to', s_updated_at := now,
       s_closed_at := (if to' \<in> {SClosed, SBlocked} then Some now else s_closed_at current),
       s_reason := reason\<rparr>"

definition transition_session ::
  "ext \<Rightarrow> string \<Rightarrow> string \<Rightarrow> string option \<Rightarrow> ('z store_st_scheme, exn, session_rec) M" where
  "transition_session X session_id to_state reason =
     (case session_status_of to_state of
        None \<Rightarrow> raise (InvalidTransition (''unknown session state: '' @ to_state))
      | Some to' \<Rightarrow>
          andthen (transaction X (
            andthen (query (session_row session_id)) (\<lambda>row.
            case row of
              None \<Rightarrow> raise (PersistenceErr ''session not found'')
            | Some current \<Rightarrow>
                andthen (require (to' = s_status current
                                  \<or> to' \<in> set (SESSION_TRANSITIONS (s_status current)))
                  (InvalidTransition (''invalid session transition ''
                     @ session_status_name (s_status current) @ '' -> '' @ to_state))) (\<lambda>_.
                andthen (utc_now X) (\<lambda>now.
                andthen (execute (set_session session_id (session_update to' now reason current))) (\<lambda>_.
                andthen (if to' \<noteq> s_status current then
                    audit X None (Some (s_project_id current)) (Some (s_session_id current))
                      (s_owner_id current) ''session.transition''
                      (Some (session_status_name (s_status current))) (Some to_state)
                      (case reason of
                         Some (c # cs) \<Rightarrow> JObj [(''reason'', JStr (c # cs))]
                       | _ \<Rightarrow> JObj [])
                  else ret ()) (\<lambda>_.
                query (session_row session_id))))))))
          assert_some)"

definition sessions_in :: "session_status list \<Rightarrow> dbase \<Rightarrow> session_rec list" where
  "sessions_in sts d = filter (\<lambda>r. s_status r \<in> set sts) (sessions d)"

definition close_active_sessions :: "ext \<Rightarrow> string \<Rightarrow> ('z store_st_scheme, exn, unit) M" where
  "close_active_sessions X reason =
     andthen require_connection (\<lambda>_.
     andthen (query (\<lambda>d. map s_session_id (sessions_in [SActive, SClosing] d))) (\<lambda>ids.
     for_each ids (\<lambda>sid.
       andthen (get_session sid) (\<lambda>current.
       case current of
         None \<Rightarrow> ret ()
       | Some c \<Rightarrow>
           if s_status c = SClosed then ret ()
           else andthen (if s_status c = SActive
                         then andthen (transition_session X sid ''closing'' (Some reason)) (\<lambda>_. ret ())
                         else ret ()) (\<lambda>_.
                andthen (transition_session X sid ''closed'' (Some reason)) (\<lambda>_. ret ()))))))"

definition block_active_sessions_for_project ::
  "ext \<Rightarrow> string \<Rightarrow> string \<Rightarrow> ('z store_st_scheme, exn, string list) M" where
  "block_active_sessions_for_project X project_id reason =
     andthen require_connection (\<lambda>_.
     andthen (query (\<lambda>d. map s_session_id
                (filter (\<lambda>r. s_project_id r = project_id) (sessions_in [SActive, SClosing] d)))) (\<lambda>ids.
     fold_each ids (\<lambda>sid blocked.
       andthen (get_session sid) (\<lambda>current.
       case current of
         None \<Rightarrow> ret blocked
       | Some c \<Rightarrow>
           if s_status c \<notin> {SActive, SClosing} then ret blocked
           else andthen (transition_session X sid ''blocked'' (Some reason)) (\<lambda>_.
                ret (blocked @ [sid])))) []))"

section \<open>Recovery after a restart\<close>

record recovered =
  sessions_blocked :: "string list"
  operations_cancelled :: "string list"
  operations_failed :: "string list"
  operations_unknown :: "string list"
  approvals_cancelled :: "string list"

definition nothing_recovered :: recovered where
  "nothing_recovered = \<lparr>sessions_blocked = [], operations_cancelled = [], operations_failed = [],
     operations_unknown = [], approvals_cancelled = []\<rparr>"

definition set_operation :: "string \<Rightarrow> (operation_rec \<Rightarrow> operation_rec) \<Rightarrow> dbase \<Rightarrow> dbase" where
  "set_operation oid f d = d\<lparr>operations := update_where (\<lambda>r. o_operation_id r = oid) f (operations d)\<rparr>"

definition recover_session ::
  "ext \<Rightarrow> session_rec \<Rightarrow> recovered \<Rightarrow> ('z store_st_scheme, exn, recovered) M" where
  "recover_session X row acc =
     andthen (utc_now X) (\<lambda>now1.
     andthen (utc_now X) (\<lambda>now2.
     andthen (execute (set_session (s_session_id row)
        (\<lambda>r. r\<lparr>s_status := SBlocked, s_updated_at := now1, s_closed_at := Some now2,
               s_reason := Some ''bridge_restart''\<rparr>))) (\<lambda>_.
     andthen (audit X None (Some (s_project_id row)) (Some (s_session_id row)) (s_owner_id row)
        ''session.recovered_blocked'' (Some (session_status_name (s_status row))) (Some ''blocked'')
        (JObj [(''reason'', JStr ''bridge_restart'')])) (\<lambda>_.
     ret (acc\<lparr>sessions_blocked := sessions_blocked acc @ [s_session_id row]\<rparr>)))))"

definition recovery_state :: "operation_rec \<Rightarrow> op_state" where
  "recovery_state row =
     (if o_state row = AwaitingApproval then OpCancelled
      else if o_mutation row \<and> o_state row \<in> {Dispatched, Running} then Unknown else Failed)"

definition recovery_error :: "operation_rec \<Rightarrow> json" where
  "recovery_error row =
     (if recovery_state row = Unknown
      then JObj [(''code'', JStr ''UNKNOWN_SIDE_EFFECT''),
                 (''message'', JStr ''Bridge restarted while mutation was in flight''),
                 (''retryable'', JBool False)]
      else JObj [(''code'', JStr ''BRIDGE_RESTARTED''),
                 (''message'', JStr (if o_state row = AwaitingApproval
                    then ''approval was cancelled because Bridge restarted''
                    else ''operation did not reach execution before Bridge restart'')),
                 (''retryable'', JBool True)])"

definition pending_for :: "string \<Rightarrow> approval_rec \<Rightarrow> bool" where
  "pending_for oid a = (a_operation_id a = oid \<and> a_status a = Pending)"

definition recover_approvals_of ::
  "ext \<Rightarrow> operation_rec \<Rightarrow> recovered \<Rightarrow> ('z store_st_scheme, exn, recovered) M" where
  "recover_approvals_of X row acc =
     andthen (query (\<lambda>d. filter (pending_for (o_operation_id row)) (approvals d))) (\<lambda>pending.
     andthen (execute (\<lambda>d. d\<lparr>approvals := update_where (pending_for (o_operation_id row))
                             (\<lambda>a. a\<lparr>a_status := ACancelled\<rparr>) (approvals d)\<rparr>)) (\<lambda>_.
     fold_each pending (\<lambda>a acc'.
       andthen (audit X (Some (o_operation_id row)) (Some (o_project_id row)) (o_session_id row)
          (o_owner_id row) ''approval.recovered_cancelled'' (Some ''pending'') (Some ''cancelled'')
          (JObj [(''approval_id'', JStr (a_approval_id a)), (''action'', JStr (a_action a)),
                 (''reason'', JStr ''bridge_restart'')])) (\<lambda>_.
       ret (acc'\<lparr>approvals_cancelled := approvals_cancelled acc' @ [a_approval_id a]\<rparr>))) acc))"

definition record_recovered :: "op_state \<Rightarrow> string \<Rightarrow> recovered \<Rightarrow> recovered" where
  "record_recovered to' oid acc =
     (if to' = Unknown then acc\<lparr>operations_unknown := operations_unknown acc @ [oid]\<rparr>
      else if to' = OpCancelled then acc\<lparr>operations_cancelled := operations_cancelled acc @ [oid]\<rparr>
      else acc\<lparr>operations_failed := operations_failed acc @ [oid]\<rparr>)"

definition recover_operation ::
  "ext \<Rightarrow> operation_rec \<Rightarrow> recovered \<Rightarrow> ('z store_st_scheme, exn, recovered) M" where
  "recover_operation X row acc =
     andthen (if o_state row = AwaitingApproval then recover_approvals_of X row acc else ret acc) (\<lambda>acc'.
     andthen (utc_now X) (\<lambda>now1.
     andthen (utc_now X) (\<lambda>now2.
     andthen (execute (set_operation (o_operation_id row)
        (\<lambda>r. r\<lparr>o_state := recovery_state row, o_updated_at := now1, o_finished_at := Some now2,
               o_error_json := Some (JText (recovery_error row))\<rparr>))) (\<lambda>_.
     andthen (audit X (Some (o_operation_id row)) (Some (o_project_id row)) (o_session_id row)
        (o_owner_id row) ''operation.recovered'' (Some (op_state_name (o_state row)))
        (Some (op_state_name (recovery_state row))) (recovery_error row)) (\<lambda>_.
     ret (record_recovered (recovery_state row) (o_operation_id row) acc'))))))"

text \<open>The approvals still pending whose operation no longer waits for one, with that operation.\<close>

definition orphaned_approvals :: "dbase \<Rightarrow> (approval_rec \<times> operation_rec) list" where
  "orphaned_approvals d =
     concat (map (\<lambda>a. map (\<lambda>r. (a, r))
        (filter (\<lambda>r. o_operation_id r = a_operation_id a \<and> a_status a = Pending
                   \<and> o_state r \<noteq> AwaitingApproval) (operations d))) (approvals d))"

definition recover_orphan ::
  "ext \<Rightarrow> approval_rec \<times> operation_rec \<Rightarrow> recovered \<Rightarrow> ('z store_st_scheme, exn, recovered) M" where
  "recover_orphan X row acc =
     (let (a, r) = row in
      andthen (execute (\<lambda>d. d\<lparr>approvals := update_where
          (\<lambda>x. a_approval_id x = a_approval_id a \<and> a_status x = Pending)
          (\<lambda>x. x\<lparr>a_status := ACancelled\<rparr>) (approvals d)\<rparr>)) (\<lambda>_.
      andthen (audit X (Some (a_operation_id a)) (Some (a_project_id a)) (a_session_id a)
          (o_owner_id r) ''approval.recovered_cancelled'' (Some ''pending'') (Some ''cancelled'')
          (JObj [(''reason'', JStr ''bridge_restart''), (''action'', JStr (a_action a))])) (\<lambda>_.
      ret (acc\<lparr>approvals_cancelled := approvals_cancelled acc @ [a_approval_id a]\<rparr>))))"

definition INTERRUPTED_STATES :: "op_state list" where
  "INTERRUPTED_STATES = [Received, Validated, AwaitingApproval, Dispatched, Running]"

definition recover_after_restart :: "ext \<Rightarrow> ('z store_st_scheme, exn, recovered) M" where
  "recover_after_restart X =
     transaction X (
       andthen (query (sessions_in [SActive, SClosing])) (\<lambda>ss.
       andthen (fold_each ss (recover_session X) nothing_recovered) (\<lambda>acc1.
       andthen (query (\<lambda>d. filter (\<lambda>r. o_state r \<in> set INTERRUPTED_STATES) (operations d))) (\<lambda>os.
       andthen (fold_each os (recover_operation X) acc1) (\<lambda>acc2.
       andthen (query orphaned_approvals) (\<lambda>rows.
       fold_each rows (recover_orphan X) acc2))))))"

section \<open>Operations\<close>

definition same_request :: "string \<Rightarrow> string option \<Rightarrow> string \<Rightarrow> operation_rec \<Rightarrow> bool" where
  "same_request project_id session_id client_request_id r =
     (o_project_id r = project_id \<and> o_session_id r = session_id
      \<and> o_client_request_id r = client_request_id)"

definition create_operation ::
  "ext \<Rightarrow> string \<Rightarrow> string \<Rightarrow> string option \<Rightarrow> string \<Rightarrow> string \<Rightarrow> string \<Rightarrow> string \<Rightarrow> bool \<Rightarrow> json
   \<Rightarrow> ('z store_st_scheme, exn, operation_rec \<times> bool) M" where
  "create_operation X operation_id project_id session_id owner_id client_request_id request_hash
     kind mutation input_data =
     andthen (transaction X (
       andthen (query (\<lambda>d. find (same_request project_id session_id client_request_id) (operations d)))
         (\<lambda>existing.
       case existing of
         Some r \<Rightarrow> ret (Some r, True)
       | None \<Rightarrow>
           andthen (if mutation
                    then query (\<lambda>d. find (\<lambda>r. o_project_id r = project_id \<and> active_mutation r) (operations d))
                    else ret None) (\<lambda>active.
           case active of
             Some r \<Rightarrow> raise (ActiveOperationConflict (operation_of_row r))
           | None \<Rightarrow>
               andthen (utc_now X) (\<lambda>now.
               andthen (execute (insert_operation
         \<lparr>o_operation_id = operation_id, o_project_id = project_id,
                   o_session_id = session_id, o_owner_id = owner_id,
                   o_client_request_id = client_request_id, o_request_hash = request_hash,
                   o_kind = kind, o_state = Received, o_mutation = mutation,
                   o_input_json = JText input_data, o_result_json = None, o_error_json = None,
                   o_created_at = now, o_updated_at = now, o_started_at = None,
                   o_finished_at = None\<rparr>)) (\<lambda>_.
               andthen (audit X (Some operation_id) (Some project_id) session_id owner_id
                          ''operation.created'' None (Some ''received'')
                          (JObj [(''kind'', JStr kind), (''mutation'', JBool mutation)])) (\<lambda>_.
               andthen (query (operation_row operation_id)) (\<lambda>row. ret (row, False)))))))))
     (\<lambda>(row, existing). andthen (assert_some row) (\<lambda>r. ret (operation_of_row r, existing)))"

definition get_operation :: "string \<Rightarrow> ('z store_st_scheme, exn, operation_rec option) M" where
  "get_operation operation_id =
     andthen require_connection (\<lambda>_.
     query (\<lambda>d. map_option operation_of_row (operation_row operation_id d)))"

definition get_operation_by_client_request_id ::
  "string \<Rightarrow> string option \<Rightarrow> string \<Rightarrow> ('z store_st_scheme, exn, operation_rec option) M" where
  "get_operation_by_client_request_id project_id session_id client_request_id =
     andthen require_connection (\<lambda>_.
     query (\<lambda>d. map_option operation_of_row
       (find (same_request project_id session_id client_request_id) (operations d))))"

text \<open>SQLite's LIKE with \<open>ESCAPE '\'\<close>: ASCII letters compare without case.\<close>

definition ascii_lower :: "char \<Rightarrow> char" where
  "ascii_lower c = (if 65 \<le> code c \<and> code c \<le> 90 then char_of (code c + 32) else c)"

function like :: "string \<Rightarrow> string \<Rightarrow> bool" where
  "like [] s = (s = [])"
| "like (p # ps) s =
     (if p = CHR ''%'' then like ps s \<or> (case s of [] \<Rightarrow> False | _ # t \<Rightarrow> like (p # ps) t)
      else if p = CHR ''_'' then (case s of [] \<Rightarrow> False | _ # t \<Rightarrow> like ps t)
      else if p = backslash then
        (case ps of [] \<Rightarrow> False
         | q # qs \<Rightarrow> (case s of [] \<Rightarrow> False | c # t \<Rightarrow> ascii_lower q = ascii_lower c \<and> like qs t))
      else (case s of [] \<Rightarrow> False | c # t \<Rightarrow> ascii_lower p = ascii_lower c \<and> like ps t))"
  by pat_completeness auto
termination
  by (relation "measures [\<lambda>(p, s). length p + length s]") auto

definition like_escape :: "string \<Rightarrow> string" where
  "like_escape s =
     replace_char (CHR ''_'') [backslash, CHR ''_'']
       (replace_char (CHR ''%'') [backslash, CHR ''%'']
         (replace_char backslash [backslash, backslash] s))"

definition operation_order :: "operation_rec list \<Rightarrow> operation_rec list" where
  "operation_order rs = sort_key (\<lambda>r. (o_created_at r, o_operation_id r)) rs"

definition get_operations_by_client_request_id ::
  "string \<Rightarrow> string option \<Rightarrow> string \<Rightarrow> ('z store_st_scheme, exn, operation_rec list) M" where
  "get_operations_by_client_request_id project_id session_id client_request_id =
     andthen require_connection (\<lambda>_.
     andthen (query (\<lambda>d. operation_order (filter
        (\<lambda>r. o_project_id r = project_id \<and> o_session_id r = session_id
             \<and> (o_client_request_id r = client_request_id
                \<or> like (''%'' @ [REPLAY_KEY_SEPARATOR] @ like_escape client_request_id)
                       (o_client_request_id r))) (operations d)))) (\<lambda>rows.
     ret (filter (\<lambda>r. o_client_request_id r = client_request_id) (map operation_of_row rows))))"

text \<open>A dictionary is false when it is empty.\<close>

definition error_code_of :: "json option \<Rightarrow> json" where
  "error_code_of error_data =
     (case error_data of None \<Rightarrow> JNull
      | Some e \<Rightarrow> (case jget e ''code'' of None \<Rightarrow> JNull | Some c \<Rightarrow> c))"

text \<open>The columns a transition writes, computed from the row read before.\<close>

definition transition_update ::
  "op_state \<Rightarrow> string \<Rightarrow> json option \<Rightarrow> json option \<Rightarrow> operation_rec \<Rightarrow> operation_rec \<Rightarrow> operation_rec" where
  "transition_update to' now result_data error_data current r =
     r\<lparr>o_state := to', o_updated_at := now,
       o_started_at := (if to' = Running \<and> o_started_at current = None then Some now
                        else o_started_at current),
       o_finished_at := (if to' \<in> set TERMINAL_OPERATION_STATES then Some now
                         else o_finished_at current),
       o_result_json := (case result_data of None \<Rightarrow> o_result_json current
                         | Some v \<Rightarrow> Some (JText v)),
       o_error_json := (case error_data of None \<Rightarrow> o_error_json current
                        | Some v \<Rightarrow> Some (JText v))\<rparr>"

definition transition_operation ::
  "ext \<Rightarrow> string \<Rightarrow> string \<Rightarrow> string option \<Rightarrow> json option \<Rightarrow> json option
   \<Rightarrow> ('z store_st_scheme, exn, operation_rec) M" where
  "transition_operation X operation_id to_state expected_state result_data error_data =
     (case op_state_of to_state of
        None \<Rightarrow> raise (InvalidTransition (''unknown operation state: '' @ to_state))
      | Some to' \<Rightarrow>
          andthen (transaction X (
            andthen (query (operation_row operation_id)) (\<lambda>row.
            case row of
              None \<Rightarrow> raise (PersistenceErr ''operation not found'')
            | Some current \<Rightarrow>
                andthen (require (expected_state = None
                                  \<or> expected_state = Some (op_state_name (o_state current)))
                  (InvalidTransition (''operation '' @ operation_id @ '' expected ''
                     @ the expected_state @ '', got '' @ op_state_name (o_state current)))) (\<lambda>_.
                andthen (require (to' = o_state current
                                  \<or> to' \<in> set (OPERATION_TRANSITIONS (o_state current)))
                  (InvalidTransition (''invalid operation transition ''
                     @ op_state_name (o_state current) @ '' -> '' @ to_state))) (\<lambda>_.
                andthen (utc_now X) (\<lambda>now.
                andthen (execute (set_operation operation_id
                   (transition_update to' now result_data error_data current))) (\<lambda>_.
                andthen (if to' \<noteq> o_state current then
                    audit X (Some operation_id) (Some (o_project_id current)) (o_session_id current)
                      (o_owner_id current) ''operation.transition''
                      (Some (op_state_name (o_state current))) (Some to_state)
                      (JObj [(''kind'', JStr (o_kind current)),
                             (''error_code'', error_code_of error_data)])
                  else ret ()) (\<lambda>_.
                query (operation_row operation_id)))))))))
          (\<lambda>row. andthen (assert_some row) (\<lambda>r. ret (operation_of_row r))))"

definition record_operation_auth_context ::
  "ext \<Rightarrow> string \<Rightarrow> json \<Rightarrow> ('z store_st_scheme, exn, unit) M" where
  "record_operation_auth_context X operation_id details =
     transaction X (
       andthen (query (operation_row operation_id)) (\<lambda>row.
       case row of
         None \<Rightarrow> raise (PersistenceErr ''operation not found'')
       | Some r \<Rightarrow> audit X (Some (o_operation_id r)) (Some (o_project_id r)) (o_session_id r)
                     (o_owner_id r) ''auth.context'' None None details))"

definition get_operation_auth_context :: "string \<Rightarrow> ('z store_st_scheme, exn, json option) M" where
  "get_operation_auth_context operation_id =
     andthen require_connection (\<lambda>_.
     andthen (query (\<lambda>d. filter (\<lambda>e. e_operation_id e = Some operation_id
                                   \<and> e_event_type e = ''auth.context'') (audits d)))
       (\<lambda>es. lift_sum (auth_event_details ''operation'' es)))"

section \<open>Approvals\<close>

definition set_approval :: "string \<Rightarrow> (approval_rec \<Rightarrow> approval_rec) \<Rightarrow> dbase \<Rightarrow> dbase" where
  "set_approval oid f d = d\<lparr>approvals := update_where (\<lambda>a. a_operation_id a = oid) f (approvals d)\<rparr>"

definition create_approval ::
  "ext \<Rightarrow> string \<Rightarrow> operation_rec \<Rightarrow> string \<Rightarrow> string \<Rightarrow> string \<Rightarrow> ('z store_st_scheme, exn, unit) M" where
  "create_approval X approval_id operation action token_hash expires_at =
     transaction X (
       andthen (utc_now X) (\<lambda>now.
       andthen (execute (insert_approval
         \<lparr>a_approval_id = approval_id, a_operation_id = o_operation_id operation,
           a_project_id = o_project_id operation, a_session_id = o_session_id operation,
           a_action = action, a_token_hash = token_hash, a_status = Pending,
           a_created_at = now, a_expires_at = expires_at, a_consumed_at = None\<rparr>)) (\<lambda>_.
       audit X (Some (o_operation_id operation)) (Some (o_project_id operation))
         (o_session_id operation) (o_owner_id operation) ''approval.created'' None (Some ''pending'')
         (JObj [(''approval_id'', JStr approval_id), (''action'', JStr action),
                (''expires_at'', JStr expires_at)]))))"

text \<open>The join of an approval with its operation.\<close>

definition approval_join :: "string \<Rightarrow> dbase \<Rightarrow> (approval_rec \<times> operation_rec) option" where
  "approval_join oid d =
     (case approval_row oid d of
        None \<Rightarrow> None
      | Some a \<Rightarrow> (case operation_row oid d of None \<Rightarrow> None | Some r \<Rightarrow> Some (a, r)))"

definition consume_approval ::
  "ext \<Rightarrow> string \<Rightarrow> string \<Rightarrow> string \<Rightarrow> ('z store_st_scheme, exn, operation_rec) M" where
  "consume_approval X operation_id token_hash now =
     andthen (transaction X (
       andthen (query (approval_join operation_id)) (\<lambda>row.
       case row of
         None \<Rightarrow> raise ApprovalNotFound
       | Some (a, r) \<Rightarrow>
           andthen (require (a_token_hash a = token_hash) ApprovalTokenMismatch) (\<lambda>_.
           andthen (if a_status a \<noteq> Pending
                    then (if a_status a = Expired then raise ApprovalExpired
                          else raise ApprovalAlreadyUsed)
                    else ret ()) (\<lambda>_.
           if a_expires_at a \<le> now then
             andthen (execute (set_approval operation_id (\<lambda>x. x\<lparr>a_status := Expired\<rparr>))) (\<lambda>_.
             andthen (audit X (Some operation_id) (Some (a_project_id a)) (a_session_id a)
                        (o_owner_id r) ''approval.expired'' (Some ''pending'') (Some ''expired'')
                        (JObj [])) (\<lambda>_.
             raise ApprovalExpired))
           else
             andthen (execute (set_approval operation_id
                        (\<lambda>x. x\<lparr>a_status := Consumed, a_consumed_at := Some now\<rparr>))) (\<lambda>_.
             andthen (audit X (Some operation_id) (Some (a_project_id a)) (a_session_id a)
                        (o_owner_id r) ''approval.consumed'' (Some ''pending'') (Some ''consumed'')
                        (JObj [])) (\<lambda>_.
             query (operation_row operation_id))))))))
     (\<lambda>row. andthen (assert_some row) (\<lambda>r. ret (operation_of_row r)))"

definition cancel_approval ::
  "ext \<Rightarrow> string \<Rightarrow> string \<Rightarrow> ('z store_st_scheme, exn, unit) M" where
  "cancel_approval X operation_id reason =
     transaction X (
       andthen (query (approval_join operation_id)) (\<lambda>row.
       case row of
         None \<Rightarrow> raise ApprovalNotFound
       | Some (a, r) \<Rightarrow>
           andthen (require (a_status a = Pending) ApprovalNotFound) (\<lambda>_.
           andthen (execute (set_approval operation_id (\<lambda>x. x\<lparr>a_status := ACancelled\<rparr>))) (\<lambda>_.
           audit X (Some operation_id) (Some (a_project_id a)) (a_session_id a) (o_owner_id r)
             ''approval.cancelled'' (Some ''pending'') (Some ''cancelled'')
             (JObj [(''reason'', JStr reason)])))))"

section \<open>Checkpoints\<close>

definition set_checkpoint :: "string \<Rightarrow> (checkpoint_rec \<Rightarrow> checkpoint_rec) \<Rightarrow> dbase \<Rightarrow> dbase" where
  "set_checkpoint cid f d = d\<lparr>checkpoints := update_where (\<lambda>r. c_checkpoint_id r = cid) f (checkpoints d)\<rparr>"

definition create_checkpoint ::
  "ext \<Rightarrow> string \<Rightarrow> string \<Rightarrow> string option \<Rightarrow> string option \<Rightarrow> string \<Rightarrow> string \<Rightarrow> string \<Rightarrow> string
   \<Rightarrow> string \<Rightarrow> json \<Rightarrow> ('z store_st_scheme, exn, checkpoint_rec) M" where
  "create_checkpoint X checkpoint_id project_id session_id operation_id owner_id kind branch head
     ref_name before_data =
     andthen (utc_now X) (\<lambda>now.
     andthen (transaction X (
       andthen (execute (insert_checkpoint
         \<lparr>c_checkpoint_id = checkpoint_id, c_project_id = project_id, c_session_id = session_id,
           c_operation_id = operation_id, c_owner_id = owner_id, c_kind = kind, c_branch = branch,
           c_head = head, c_ref_name = ref_name, c_before_json = JText before_data,
           c_after_json = None, c_diff_hash = None, c_status = CkCreated,
           c_created_at = now, c_updated_at = now\<rparr>)) (\<lambda>_.
       andthen (audit X operation_id (Some project_id) session_id owner_id ''checkpoint.created''
          None (Some ''created'')
          (JObj [(''checkpoint_id'', JStr checkpoint_id), (''kind'', JStr kind),
                 (''branch'', JStr branch), (''head'', JStr head), (''ref_name'', JStr ref_name)])) (\<lambda>_.
       query (checkpoint_row checkpoint_id)))))
     assert_some)"

definition finalize_checkpoint ::
  "ext \<Rightarrow> string \<Rightarrow> json \<Rightarrow> string \<Rightarrow> ('z store_st_scheme, exn, checkpoint_rec) M" where
  "finalize_checkpoint X checkpoint_id after_data diff_hash =
     andthen (transaction X (
       andthen (query (checkpoint_row checkpoint_id)) (\<lambda>row.
       case row of
         None \<Rightarrow> raise (PersistenceErr ''checkpoint not found'')
       | Some current \<Rightarrow>
           andthen (utc_now X) (\<lambda>now.
           andthen (execute (set_checkpoint checkpoint_id
              (\<lambda>r. r\<lparr>c_after_json := Some (JText after_data), c_diff_hash := Some diff_hash,
                     c_updated_at := now\<rparr>))) (\<lambda>_.
           andthen (audit X (c_operation_id current) (Some (c_project_id current))
              (c_session_id current) (c_owner_id current) ''checkpoint.finalized''
              (Some (checkpoint_status_name (c_status current)))
              (Some (checkpoint_status_name (c_status current)))
              (JObj [(''checkpoint_id'', JStr checkpoint_id),
                     (''after_head'', case jget after_data ''head'' of None \<Rightarrow> JNull | Some h \<Rightarrow> h),
                     (''diff_hash'', JStr diff_hash)])) (\<lambda>_.
           query (checkpoint_row checkpoint_id)))))))
     assert_some"

definition mark_checkpoint_restored ::
  "ext \<Rightarrow> string \<Rightarrow> ('z store_st_scheme, exn, checkpoint_rec) M" where
  "mark_checkpoint_restored X checkpoint_id =
     andthen (transaction X (
       andthen (query (checkpoint_row checkpoint_id)) (\<lambda>row.
       case row of
         None \<Rightarrow> raise (PersistenceErr ''checkpoint not found'')
       | Some current \<Rightarrow>
           andthen (utc_now X) (\<lambda>now.
           andthen (execute (set_checkpoint checkpoint_id
              (\<lambda>r. r\<lparr>c_status := CkRestored, c_updated_at := now\<rparr>))) (\<lambda>_.
           andthen (audit X (c_operation_id current) (Some (c_project_id current))
              (c_session_id current) (c_owner_id current) ''checkpoint.restored''
              (Some (checkpoint_status_name (c_status current))) (Some ''restored'')
              (JObj [(''checkpoint_id'', JStr checkpoint_id), (''head'', JStr (c_head current))])) (\<lambda>_.
           query (checkpoint_row checkpoint_id)))))))
     assert_some"

definition get_checkpoint :: "string \<Rightarrow> ('z store_st_scheme, exn, checkpoint_rec option) M" where
  "get_checkpoint checkpoint_id =
     andthen require_connection (\<lambda>_. query (checkpoint_row checkpoint_id))"

definition list_checkpoints ::
  "string option \<Rightarrow> string option \<Rightarrow> string option
   \<Rightarrow> ('z store_st_scheme, exn, checkpoint_rec list) M" where
  "list_checkpoints project_id session_id operation_id =
     andthen require_connection (\<lambda>_.
     query (\<lambda>d. sort_key (\<lambda>c. (c_created_at c, c_checkpoint_id c)) (filter
       (\<lambda>c. (project_id = None \<or> Some (c_project_id c) = project_id)
            \<and> (session_id = None \<or> c_session_id c = session_id)
            \<and> (operation_id = None \<or> c_operation_id c = operation_id)) (checkpoints d))))"

definition is_git_head :: "string \<Rightarrow> bool" where
  "is_git_head v = (length v \<in> {40, 64} \<and> list_all is_hexdigit v)"

definition is_sha256 :: "string \<Rightarrow> bool" where
  "is_sha256 v = (length v = 64 \<and> list_all is_hexdigit v)"

text \<open>The WHERE clause of the evidence query, on a joined row.\<close>

definition wip_candidate :: "string \<Rightarrow> string \<Rightarrow> dbase \<Rightarrow> checkpoint_rec \<Rightarrow> bool" where
  "wip_candidate project_id session_id d c =
     (c_project_id c = project_id \<and> c_session_id c = Some session_id
      \<and> c_kind c = ''mutation'' \<and> c_status c = CkCreated
      \<and> c_after_json c \<noteq> None \<and> c_diff_hash c \<noteq> None
      \<and> c_owner_id c = ''local-policy''
      \<and> (case c_operation_id c of None \<Rightarrow> False
         | Some oid \<Rightarrow>
             (case operation_row oid d of None \<Rightarrow> False
              | Some r \<Rightarrow> o_project_id r = c_project_id c \<and> o_session_id r = c_session_id c
                         \<and> o_owner_id r = ''local-policy'' \<and> o_mutation r \<and> o_state r = Succeeded))
      \<and> (case session_row session_id d of None \<Rightarrow> False
         | Some s \<Rightarrow> s_project_id s = c_project_id c \<and> s_owner_id s = ''local-policy''
                    \<and> s_status s = SActive))"

text \<open>The checks made in Python on one candidate; a column that does not parse is no evidence.\<close>

definition wip_evidence :: "string \<Rightarrow> string \<Rightarrow> checkpoint_rec \<Rightarrow> bool" where
  "wip_evidence branch head c =
     (case (c_before_json c, c_after_json c, c_diff_hash c) of
        (JText before, Some (JText after), Some diff_hash) \<Rightarrow>
          (case (jstr_of (jget before ''head''), jstr_of (jget after ''head''),
                 jstr_of (jget before ''branch''), jstr_of (jget after ''branch'')) of
             (Some before_head, Some after_head, Some before_branch, Some after_branch) \<Rightarrow>
               is_git_head before_head \<and> is_git_head after_head
               \<and> lower (c_head c) = lower before_head \<and> c_branch c = before_branch
               \<and> jget after ''dirty'' = Some (JBool False)
               \<and> lower before_head \<noteq> lower after_head
               \<and> after_branch = branch \<and> lower after_head = lower head
               \<and> before_branch = after_branch
               \<and> is_sha256 diff_hash
           | _ \<Rightarrow> False)
      | _ \<Rightarrow> False)"

definition find_session_wip_checkpoint ::
  "string \<Rightarrow> string \<Rightarrow> string \<Rightarrow> string \<Rightarrow> ('z store_st_scheme, exn, checkpoint_rec option) M" where
  "find_session_wip_checkpoint project_id session_id branch head =
     (if \<not> is_git_head head \<or> branch = [] then ret None
      else andthen require_connection (\<lambda>_.
           query (\<lambda>d. find (wip_evidence branch head)
             (rev (sort_key (\<lambda>c. (c_created_at c, c_checkpoint_id c))
                (filter (wip_candidate project_id session_id d) (checkpoints d)))))))"

section \<open>The audit trail\<close>

text \<open>\<open>list_audit_events\<close>: the events with their details parsed.\<close>

definition parse_event :: "audit_rec \<Rightarrow> exn + audit_rec \<times> json" where
  "parse_event e = (case e_details e of JText j \<Rightarrow> Inr (e, j) | JMalformed _ \<Rightarrow> Inl JsonErr)"

fun parse_events :: "audit_rec list \<Rightarrow> exn + (audit_rec \<times> json) list" where
  "parse_events [] = Inr []"
| "parse_events (e # es) =
     sum_bind (parse_event e) (\<lambda>p. sum_bind (parse_events es) (\<lambda>ps. Inr (p # ps)))"

definition list_audit_events ::
  "string option \<Rightarrow> ('z store_st_scheme, exn, (audit_rec \<times> json) list) M" where
  "list_audit_events operation_id =
     andthen require_connection (\<lambda>_.
     andthen (query (\<lambda>d. event_order (filter
        (\<lambda>e. operation_id = None \<or> e_operation_id e = operation_id) (audits d)))) (\<lambda>es.
     lift_sum (parse_events es)))"

end
