(* ===== verification/StoreMoves.thy ===== *)
theory StoreMoves
  imports Store
begin

text \<open>
  An abstract specification of the store: a handful of atomic moves between databases, each of
  which changes one row and writes the audit events that go with it, and the invariant that the
  moves keep.  \<open>StoreRefine\<close> shows that every method of the store performs a sequence of moves
  whatever the outside world does.
\<close>

section \<open>Tables keyed by an id\<close>

lemma find_keyed_Some: "find (\<lambda>r. key r = k) rs = Some r \<Longrightarrow> r \<in> set rs \<and> key r = k"
  by (auto simp: find_Some_iff)

lemma find_keyed_None: "find (\<lambda>r. key r = k) rs = None \<longleftrightarrow> k \<notin> key ` set rs"
  by (auto simp: find_None_iff)

lemma find_keyed_eq:
  "distinct (map key rs) \<Longrightarrow> r \<in> set rs \<Longrightarrow> find (\<lambda>x. key x = key r) rs = Some r"
  by (induction rs) auto

lemma find_keyed_append:
  "find (\<lambda>r. key r = k) (rs @ [r']) =
     (case find (\<lambda>r. key r = k) rs of Some r \<Rightarrow> Some r | None \<Rightarrow> if key r' = k then Some r' else None)"
  by (induction rs) auto

lemma map_update_where:
  "(\<And>r. g (f r) = g r) \<Longrightarrow> map g (update_where p f rs) = map g rs"
  by (simp add: update_where_def)

lemma find_update_where:
  assumes "\<And>r. key (f r) = key r"
  shows "find (\<lambda>r. key r = k) (update_where (\<lambda>r. key r = j) f rs) =
     (if k = j then map_option f (find (\<lambda>r. key r = k) rs) else find (\<lambda>r. key r = k) rs)"
  by (induction rs) (auto simp: update_where_def assms)

lemma set_update_where: "set (update_where p f rs) = (\<lambda>r. if p r then f r else r) ` set rs"
  by (simp add: update_where_def)

lemma update_where_none: "(\<And>r. r \<in> set rs \<Longrightarrow> \<not> p r) \<Longrightarrow> update_where p f rs = rs"
  by (simp add: update_where_def map_idI)

lemma update_where_cong:
  "(\<And>r. r \<in> set rs \<Longrightarrow> p r = q r) \<Longrightarrow> (\<And>r. r \<in> set rs \<Longrightarrow> p r \<Longrightarrow> f r = g r) \<Longrightarrow>
     update_where p f rs = update_where q g rs"
  by (simp add: update_where_def)

lemma update_where_last:
  "key r = k \<Longrightarrow> k \<notin> key ` set rs \<Longrightarrow> update_where (\<lambda>x. key x = k) f (rs @ [r]) = rs @ [f r]"
proof -
  assume key: "key r = k" and fresh: "k \<notin> key ` set rs"
  have "update_where (\<lambda>x. key x = k) f rs = rs"
    using fresh by (intro update_where_none) auto
  with key show ?thesis by (simp add: update_where_def)
qed

section \<open>Replaying a trail of state changes\<close>

text \<open>
  The state reached by a list of (from, to) names, starting before creation; \<open>None\<close> when a step
  does not start where the previous one ended or is not a listed transition.
\<close>

fun replay :: "('st \<Rightarrow> string) \<Rightarrow> ('st \<Rightarrow> 'st list) \<Rightarrow> 'st \<Rightarrow> 'st option
  \<Rightarrow> (string option \<times> string option) list \<Rightarrow> 'st option option" where
  "replay name nexts init cur [] = Some cur"
| "replay name nexts init None ((None, Some t) # es) =
     (if t = name init then replay name nexts init (Some init) es else None)"
| "replay name nexts init (Some a) ((Some f, Some t) # es) =
     (if f = name a
      then (case find (\<lambda>b. name b = t) (nexts a) of
              None \<Rightarrow> None
            | Some b \<Rightarrow> replay name nexts init (Some b) es)
      else None)"
| "replay name nexts init _ (_ # es) = None"

lemma replay_append:
  "replay name nexts init cur (xs @ ys) =
     (case replay name nexts init cur xs of None \<Rightarrow> None | Some c \<Rightarrow> replay name nexts init c ys)"
  by (induction name nexts init cur xs rule: replay.induct) (auto split: option.splits)

text \<open>A state machine whose states have distinct names.\<close>

locale lifecycle =
  fixes name :: "'st \<Rightarrow> string" and nexts :: "'st \<Rightarrow> 'st list" and init :: 'st
  assumes name_inj: "name a = name b \<Longrightarrow> a = b"
begin

lemma find_name: "b \<in> set xs \<Longrightarrow> find (\<lambda>x. name x = name b) xs = Some b"
  by (induction xs) (auto dest: name_inj)

lemma replay_created: "replay name nexts init None [(None, Some (name init))] = Some (Some init)"
  by simp

lemma replay_step:
  assumes "replay name nexts init None es = Some (Some a)" and "b \<in> set (nexts a)"
  shows "replay name nexts init None (es @ [(Some (name a), Some (name b))]) = Some (Some b)"
  using assms by (simp add: replay_append find_name)

text \<open>Nothing follows a state without successors.\<close>

lemma replay_final:
  assumes "replay name nexts init None (es @ fs) = Some c"
    and "replay name nexts init None es = Some (Some a)" and "nexts a = []"
  shows "fs = []"
proof (cases fs)
  case (Cons p fs')
  obtain x y where "p = (x, y)" by (cases p) auto
  with Cons assms show ?thesis
    by (cases x; cases y) (auto simp: replay_append split: if_splits)
qed simp

end

interpretation operation_life: lifecycle op_state_name OPERATION_TRANSITIONS Received
  by unfold_locales simp

interpretation session_life: lifecycle session_status_name SESSION_TRANSITIONS SCreated
  by unfold_locales simp

fun APPROVAL_TRANSITIONS :: "approval_status \<Rightarrow> approval_status list" where
  "APPROVAL_TRANSITIONS Pending = [Consumed, ACancelled]"
| "APPROVAL_TRANSITIONS _ = []"

lemma approval_status_name_inj [simp]:
  "approval_status_name a = approval_status_name b \<longleftrightarrow> a = b"
  by (cases a; cases b) auto

interpretation approval_life: lifecycle approval_status_name APPROVAL_TRANSITIONS Pending
  by unfold_locales simp

section \<open>Events\<close>

definition OPERATION_EVENTS :: "string list" where
  "OPERATION_EVENTS = [''operation.created'', ''operation.transition'', ''operation.recovered'']"

definition SESSION_EVENTS :: "string list" where
  "SESSION_EVENTS = [''session.created'', ''session.activated'', ''session.transition'',
     ''session.recovered_blocked'']"

definition APPROVAL_EVENTS :: "string list" where
  "APPROVAL_EVENTS = [''approval.created'', ''approval.consumed'', ''approval.cancelled'',
     ''approval.recovered_cancelled'', ''approval.expired'']"

definition operation_event :: "string \<Rightarrow> audit_rec \<Rightarrow> bool" where
  "operation_event oid e = (e_operation_id e = Some oid \<and> e_event_type e \<in> set OPERATION_EVENTS)"

definition session_event :: "string \<Rightarrow> audit_rec \<Rightarrow> bool" where
  "session_event sid e = (e_session_id e = Some sid \<and> e_event_type e \<in> set SESSION_EVENTS)"

definition approval_event :: "string \<Rightarrow> audit_rec \<Rightarrow> bool" where
  "approval_event oid e = (e_operation_id e = Some oid \<and> e_event_type e \<in> set APPROVAL_EVENTS)"

definition trail :: "(audit_rec \<Rightarrow> bool) \<Rightarrow> audit_rec list \<Rightarrow> (string option \<times> string option) list" where
  "trail p es = map (\<lambda>e. (e_from_state e, e_to_state e)) (filter p es)"

text \<open>Events that are not part of any trail; those that fix a session's security context are kept
  apart, because only the creation of the session may write them.\<close>

definition quiet :: "audit_rec \<Rightarrow> bool" where
  "quiet e = (e_event_type e \<notin> set OPERATION_EVENTS \<and> e_event_type e \<notin> set SESSION_EVENTS
              \<and> e_event_type e \<notin> set APPROVAL_EVENTS)"

definition session_auth_event :: "string \<Rightarrow> audit_rec \<Rightarrow> bool" where
  "session_auth_event sid e =
     (e_session_id e = Some sid \<and> e_event_type e = ''auth.session.context'')"

definition neutral :: "audit_rec \<Rightarrow> bool" where
  "neutral e = (quiet e \<and> e_event_type e \<noteq> ''auth.session.context'')"

lemma trail_append: "trail p (es @ fs) = trail p es @ trail p fs"
  by (simp add: trail_def)

lemma trail_Nil [simp]: "trail p [] = []"
  by (simp add: trail_def)

lemma trail_Cons: "trail p (e # es) = (if p e then [(e_from_state e, e_to_state e)] else []) @ trail p es"
  by (simp add: trail_def)

definition trace_of_operation :: "dbase \<Rightarrow> string \<Rightarrow> op_state option option" where
  "trace_of_operation d oid =
     replay op_state_name OPERATION_TRANSITIONS Received None (trail (operation_event oid) (audits d))"

definition trace_of_session :: "dbase \<Rightarrow> string \<Rightarrow> session_status option option" where
  "trace_of_session d sid =
     replay session_status_name SESSION_TRANSITIONS SCreated None (trail (session_event sid) (audits d))"

definition trace_of_approval :: "dbase \<Rightarrow> string \<Rightarrow> approval_status option option" where
  "trace_of_approval d oid =
     replay approval_status_name APPROVAL_TRANSITIONS Pending None (trail (approval_event oid) (audits d))"

section \<open>Moves\<close>

definition event_is ::
  "audit_rec \<Rightarrow> string option \<Rightarrow> string option \<Rightarrow> string \<Rightarrow> string option \<Rightarrow> string option \<Rightarrow> bool" where
  "event_is e oid sid ty from_state to_state =
     (e_operation_id e = oid \<and> e_session_id e = sid \<and> e_event_type e = ty
      \<and> e_from_state e = from_state \<and> e_to_state e = to_state)"

text \<open>Updates that leave the identity of a row alone.\<close>

definition session_fix :: "(session_rec \<Rightarrow> session_rec) \<Rightarrow> bool" where
  "session_fix f \<longleftrightarrow> (\<forall>r. s_session_id (f r) = s_session_id r \<and> s_project_id (f r) = s_project_id r
     \<and> s_owner_id (f r) = s_owner_id r \<and> s_created_at (f r) = s_created_at r)"

definition operation_fix :: "(operation_rec \<Rightarrow> operation_rec) \<Rightarrow> bool" where
  "operation_fix f \<longleftrightarrow> (\<forall>r. o_operation_id (f r) = o_operation_id r
     \<and> o_project_id (f r) = o_project_id r \<and> o_session_id (f r) = o_session_id r
     \<and> o_owner_id (f r) = o_owner_id r \<and> o_client_request_id (f r) = o_client_request_id r
     \<and> o_request_hash (f r) = o_request_hash r \<and> o_kind (f r) = o_kind r
     \<and> o_mutation (f r) = o_mutation r \<and> o_input_json (f r) = o_input_json r
     \<and> o_created_at (f r) = o_created_at r)"

definition approval_fix :: "(approval_rec \<Rightarrow> approval_rec) \<Rightarrow> bool" where
  "approval_fix f \<longleftrightarrow> (\<forall>a. a_approval_id (f a) = a_approval_id a
     \<and> a_operation_id (f a) = a_operation_id a \<and> a_project_id (f a) = a_project_id a
     \<and> a_session_id (f a) = a_session_id a \<and> a_action (f a) = a_action a
     \<and> a_token_hash (f a) = a_token_hash a \<and> a_expires_at (f a) = a_expires_at a)"

definition checkpoint_fix :: "(checkpoint_rec \<Rightarrow> checkpoint_rec) \<Rightarrow> bool" where
  "checkpoint_fix f \<longleftrightarrow> (\<forall>c. c_checkpoint_id (f c) = c_checkpoint_id c
     \<and> c_project_id (f c) = c_project_id c \<and> c_session_id (f c) = c_session_id c
     \<and> c_operation_id (f c) = c_operation_id c \<and> c_owner_id (f c) = c_owner_id c
     \<and> c_kind (f c) = c_kind c \<and> c_branch (f c) = c_branch c \<and> c_head (f c) = c_head c
     \<and> c_ref_name (f c) = c_ref_name c \<and> c_before_json (f c) = c_before_json c)"

lemmas row_fix_defs = session_fix_def operation_fix_def approval_fix_def checkpoint_fix_def

definition add_events :: "audit_rec list \<Rightarrow> dbase \<Rightarrow> dbase" where
  "add_events es d = d\<lparr>audits := audits d @ es\<rparr>"

inductive move :: "dbase \<Rightarrow> dbase \<Rightarrow> bool" where
  session_new:
    "s_session_id r \<notin> s_session_id ` set (sessions d) \<Longrightarrow> s_status r = SActive \<Longrightarrow>
     event_is e1 None (Some (s_session_id r)) ''session.created'' None (Some ''created'') \<Longrightarrow>
     event_is e2 None (Some (s_session_id r)) ''session.activated'' (Some ''created'') (Some ''active'') \<Longrightarrow>
     list_all (session_auth_event (s_session_id r)) es \<Longrightarrow>
     d' = add_events (e1 # e2 # es) (insert_session r d) \<Longrightarrow>
     constraints_ok d' \<Longrightarrow> move d d'"
| session_move:
    "session_row sid d = Some r \<Longrightarrow>
     event_is e None (Some sid) ty (Some (session_status_name (s_status r)))
       (Some (session_status_name st)) \<Longrightarrow>
     ty \<in> set SESSION_EVENTS \<Longrightarrow> st \<in> set (SESSION_TRANSITIONS (s_status r)) \<Longrightarrow>
     session_fix f \<Longrightarrow> (\<And>x. s_status (f x) = st) \<Longrightarrow>
     d' = add_events [e] (set_session sid f d) \<Longrightarrow> constraints_ok d' \<Longrightarrow> move d d'"
| session_touch:
    "session_row sid d = Some r \<Longrightarrow> session_fix f \<Longrightarrow> (\<And>x. s_status (f x) = s_status r) \<Longrightarrow>
     d' = set_session sid f d \<Longrightarrow> constraints_ok d' \<Longrightarrow> move d d'"
| operation_new:
    "o_operation_id r \<notin> o_operation_id ` set (operations d) \<Longrightarrow> o_state r = Received \<Longrightarrow>
     event_is e (Some (o_operation_id r)) (o_session_id r) ''operation.created'' None (Some ''received'') \<Longrightarrow>
     d' = add_events [e] (insert_operation r d) \<Longrightarrow>
     constraints_ok d' \<Longrightarrow> move d d'"
| operation_move:
    "operation_row oid d = Some r \<Longrightarrow>
     event_is e (Some oid) (o_session_id r) ty (Some (op_state_name (o_state r)))
       (Some (op_state_name st)) \<Longrightarrow>
     ty \<in> set OPERATION_EVENTS \<Longrightarrow> st \<in> set (OPERATION_TRANSITIONS (o_state r)) \<Longrightarrow>
     operation_fix f \<Longrightarrow> (\<And>x. o_state (f x) = st) \<Longrightarrow>
     d' = add_events [e] (set_operation oid f d) \<Longrightarrow> constraints_ok d' \<Longrightarrow> move d d'"
| operation_touch:
    "operation_row oid d = Some r \<Longrightarrow> operation_fix f \<Longrightarrow> (\<And>x. o_state (f x) = o_state r) \<Longrightarrow>
     d' = set_operation oid f d \<Longrightarrow> constraints_ok d' \<Longrightarrow> move d d'"
| approval_new:
    "a_operation_id a \<notin> a_operation_id ` set (approvals d) \<Longrightarrow> a_status a = Pending \<Longrightarrow>
     event_is e (Some (a_operation_id a)) sid ''approval.created'' None (Some ''pending'') \<Longrightarrow>
     d' = add_events [e] (insert_approval a d) \<Longrightarrow>
     constraints_ok d' \<Longrightarrow> move d d'"
| approval_move:
    "approval_row oid d = Some a \<Longrightarrow>
     event_is e (Some oid) sid ty (Some ''pending'') (Some (approval_status_name st)) \<Longrightarrow>
     ty \<in> set APPROVAL_EVENTS \<Longrightarrow> a_status a = Pending \<Longrightarrow> st \<in> {Consumed, ACancelled} \<Longrightarrow>
     approval_fix f \<Longrightarrow> (\<And>x. a_status (f x) = st) \<Longrightarrow>
     d' = add_events [e] (set_approval oid f d) \<Longrightarrow> constraints_ok d' \<Longrightarrow> move d d'"
| checkpoint_new:
    "c_checkpoint_id c \<notin> c_checkpoint_id ` set (checkpoints d) \<Longrightarrow> c_status c = CkCreated \<Longrightarrow>
     c_after_json c = None \<Longrightarrow> neutral e \<Longrightarrow>
     d' = add_events [e] (insert_checkpoint c d) \<Longrightarrow>
     constraints_ok d' \<Longrightarrow> move d d'"
| checkpoint_move:
    "checkpoint_row cid d = Some c \<Longrightarrow> checkpoint_fix f \<Longrightarrow>
     (\<And>x. c_status x = CkRestored \<Longrightarrow> c_status (f x) = CkRestored) \<Longrightarrow> neutral e \<Longrightarrow>
     d' = add_events [e] (set_checkpoint cid f d) \<Longrightarrow> constraints_ok d' \<Longrightarrow> move d d'"
| event_only:
    "neutral e \<Longrightarrow> d' = add_events [e] d \<Longrightarrow> constraints_ok d' \<Longrightarrow> move d d'"

definition moves :: "dbase \<Rightarrow> dbase \<Rightarrow> bool" where
  "moves = move\<^sup>*\<^sup>*"

lemma moves_refl [simp]: "moves d d"
  by (simp add: moves_def)

lemma moves_trans: "moves d d' \<Longrightarrow> moves d' d'' \<Longrightarrow> moves d d''"
  unfolding moves_def by (rule rtranclp_trans)

lemma move_moves: "move d d' \<Longrightarrow> moves d d'"
  unfolding moves_def by (rule r_into_rtranclp)

text \<open>The moves as introduction rules.\<close>

lemmas move_intros =
  move_moves [OF move.session_move [OF _ _ _ _ _ _ refl]]
  move_moves [OF move.session_touch [OF _ _ _ refl]]
  move_moves [OF move.operation_move [OF _ _ _ _ _ _ refl]]
  move_moves [OF move.operation_touch [OF _ _ _ refl]]
  move_moves [OF move.approval_move [OF _ _ _ _ _ _ _ refl]]
  move_moves [OF move.checkpoint_move [OF _ _ _ _ refl]]

lemmas insert_intros =
  move_moves [OF move.session_new [OF _ _ _ _ _ refl]]
  move_moves [OF move.operation_new [OF _ _ _ refl]]
  move_moves [OF move.approval_new [OF _ _ _ refl]]
  move_moves [OF move.checkpoint_new [OF _ _ _ _ refl]]

lemmas event_intros = move_moves [OF move.event_only [OF _ refl]]

lemma moves_induct [consumes 1, case_names refl step]:
  "moves d d' \<Longrightarrow> P d \<Longrightarrow> (\<And>x y. moves d x \<Longrightarrow> move x y \<Longrightarrow> P x \<Longrightarrow> P y) \<Longrightarrow> P d'"
  unfolding moves_def by (rule rtranclp_induct)

lemma move_constraints: "move d d' \<Longrightarrow> constraints_ok d'"
  by (erule move.cases) auto

lemma moves_constraints: "moves d d' \<Longrightarrow> constraints_ok d \<Longrightarrow> constraints_ok d'"
  by (induction rule: moves_induct) (auto dest: move_constraints)

section \<open>The invariant\<close>

definition operations_tracked :: "dbase \<Rightarrow> bool" where
  "operations_tracked d \<longleftrightarrow>
     (\<forall>oid. trace_of_operation d oid = Some (map_option o_state (operation_row oid d)))"

definition sessions_tracked :: "dbase \<Rightarrow> bool" where
  "sessions_tracked d \<longleftrightarrow>
     (\<forall>sid. trace_of_session d sid = Some (map_option s_status (session_row sid d)))"

definition approvals_tracked :: "dbase \<Rightarrow> bool" where
  "approvals_tracked d \<longleftrightarrow>
     (\<forall>oid. trace_of_approval d oid = Some (map_option a_status (approval_row oid d)))"

lemma add_events_simps [simp]:
  "sessions (add_events es d) = sessions d" "operations (add_events es d) = operations d"
  "approvals (add_events es d) = approvals d" "checkpoints (add_events es d) = checkpoints d"
  "audits (add_events es d) = audits d @ es"
  by (simp_all add: add_events_def)

lemma insert_row_simps [simp]:
  "sessions (insert_session r d) = sessions d @ [r]" "operations (insert_session r d) = operations d"
  "approvals (insert_session r d) = approvals d" "checkpoints (insert_session r d) = checkpoints d"
  "audits (insert_session r d) = audits d"
  "operations (insert_operation p d) = operations d @ [p]" "sessions (insert_operation p d) = sessions d"
  "approvals (insert_operation p d) = approvals d" "checkpoints (insert_operation p d) = checkpoints d"
  "audits (insert_operation p d) = audits d"
  "approvals (insert_approval a d) = approvals d @ [a]" "sessions (insert_approval a d) = sessions d"
  "operations (insert_approval a d) = operations d" "checkpoints (insert_approval a d) = checkpoints d"
  "audits (insert_approval a d) = audits d"
  "checkpoints (insert_checkpoint c d) = checkpoints d @ [c]" "sessions (insert_checkpoint c d) = sessions d"
  "operations (insert_checkpoint c d) = operations d" "approvals (insert_checkpoint c d) = approvals d"
  "audits (insert_checkpoint c d) = audits d"
  by (simp_all add: insert_session_def insert_operation_def insert_approval_def insert_checkpoint_def)

lemma set_row_simps [simp]:
  "sessions (set_session sid f d) = update_where (\<lambda>r. s_session_id r = sid) f (sessions d)"
  "operations (set_session sid f d) = operations d" "approvals (set_session sid f d) = approvals d"
  "checkpoints (set_session sid f d) = checkpoints d" "audits (set_session sid f d) = audits d"
  "operations (set_operation oid g d) = update_where (\<lambda>r. o_operation_id r = oid) g (operations d)"
  "sessions (set_operation oid g d) = sessions d" "approvals (set_operation oid g d) = approvals d"
  "checkpoints (set_operation oid g d) = checkpoints d" "audits (set_operation oid g d) = audits d"
  "approvals (set_approval oid h d) = update_where (\<lambda>r. a_operation_id r = oid) h (approvals d)"
  "sessions (set_approval oid h d) = sessions d" "operations (set_approval oid h d) = operations d"
  "checkpoints (set_approval oid h d) = checkpoints d" "audits (set_approval oid h d) = audits d"
  "checkpoints (set_checkpoint cid k d) = update_where (\<lambda>r. c_checkpoint_id r = cid) k (checkpoints d)"
  "sessions (set_checkpoint cid k d) = sessions d" "operations (set_checkpoint cid k d) = operations d"
  "approvals (set_checkpoint cid k d) = approvals d" "audits (set_checkpoint cid k d) = audits d"
  by (simp_all add: set_session_def set_operation_def set_approval_def set_checkpoint_def)

lemma session_row_set:
  "session_fix f \<Longrightarrow> session_row k (add_events es (set_session sid f d)) =
     (if k = sid then map_option f (session_row k d) else session_row k d)"
  by (simp add: session_row_def find_update_where session_fix_def)

lemma operation_row_set:
  "operation_fix f \<Longrightarrow> operation_row k (add_events es (set_operation oid f d)) =
     (if k = oid then map_option f (operation_row k d) else operation_row k d)"
  by (simp add: operation_row_def find_update_where operation_fix_def)

lemma approval_row_set:
  "approval_fix f \<Longrightarrow> approval_row k (add_events es (set_approval oid f d)) =
     (if k = oid then map_option f (approval_row k d) else approval_row k d)"
  by (simp add: approval_row_def find_update_where approval_fix_def)

lemma add_events_Nil [simp]: "add_events [] d = d"
  by (simp add: add_events_def)

lemmas rows_set = session_row_set operation_row_set approval_row_set
  session_row_set [where es = "[]", simplified] operation_row_set [where es = "[]", simplified]
  approval_row_set [where es = "[]", simplified]

text \<open>Which events count for which table.\<close>

lemmas event_kinds = operation_event_def session_event_def approval_event_def quiet_def event_is_def

lemma event_types_disjoint:
  "ty \<in> set OPERATION_EVENTS \<Longrightarrow> ty \<notin> set SESSION_EVENTS \<and> ty \<notin> set APPROVAL_EVENTS"
  "ty \<in> set SESSION_EVENTS \<Longrightarrow> ty \<notin> set OPERATION_EVENTS \<and> ty \<notin> set APPROVAL_EVENTS"
  "ty \<in> set APPROVAL_EVENTS \<Longrightarrow> ty \<notin> set OPERATION_EVENTS \<and> ty \<notin> set SESSION_EVENTS"
  by (auto simp: OPERATION_EVENTS_def SESSION_EVENTS_def APPROVAL_EVENTS_def)

lemma event_type_mem [simp]:
  "''session.created'' \<in> set SESSION_EVENTS" "''session.activated'' \<in> set SESSION_EVENTS"
  "''session.transition'' \<in> set SESSION_EVENTS"
  "''session.recovered_blocked'' \<in> set SESSION_EVENTS"
  "''operation.created'' \<in> set OPERATION_EVENTS" "''operation.transition'' \<in> set OPERATION_EVENTS"
  "''operation.recovered'' \<in> set OPERATION_EVENTS" "''approval.created'' \<in> set APPROVAL_EVENTS"
  "''approval.consumed'' \<in> set APPROVAL_EVENTS" "''approval.cancelled'' \<in> set APPROVAL_EVENTS"
  "''approval.recovered_cancelled'' \<in> set APPROVAL_EVENTS"
  by (simp_all add: OPERATION_EVENTS_def SESSION_EVENTS_def APPROVAL_EVENTS_def)

lemma trail_quiet:
  assumes "list_all quiet es"
  shows "trail (operation_event i) es = []" and "trail (session_event i) es = []"
    and "trail (approval_event i) es = []"
  using assms by (induction es) (auto simp: trail_Cons event_kinds)

lemma quiet_neutral: "neutral e \<Longrightarrow> quiet e"
  by (simp add: neutral_def)

lemma quiet_session_auth: "session_auth_event i e \<Longrightarrow> quiet e"
  by (simp add: session_auth_event_def quiet_def OPERATION_EVENTS_def SESSION_EVENTS_def
      APPROVAL_EVENTS_def)

text \<open>The trail one event adds: none, or its pair when it belongs to the row.\<close>

lemma trail_event:
  "event_is e oid sid ty fr t \<Longrightarrow> ty \<in> set OPERATION_EVENTS \<Longrightarrow>
     trail (operation_event i) [e] = (if oid = Some i then [(fr, t)] else [])
     \<and> trail (session_event i) [e] = [] \<and> trail (approval_event i) [e] = []"
  "event_is e oid sid ty fr t \<Longrightarrow> ty \<in> set SESSION_EVENTS \<Longrightarrow>
     trail (session_event i) [e] = (if sid = Some i then [(fr, t)] else [])
     \<and> trail (operation_event i) [e] = [] \<and> trail (approval_event i) [e] = []"
  "event_is e oid sid ty fr t \<Longrightarrow> ty \<in> set APPROVAL_EVENTS \<Longrightarrow>
     trail (approval_event i) [e] = (if oid = Some i then [(fr, t)] else [])
     \<and> trail (operation_event i) [e] = [] \<and> trail (session_event i) [e] = []"
  by (auto simp: trail_Cons event_kinds dest: event_types_disjoint)

lemma operations_same:
  "operations_tracked d \<Longrightarrow> operations d' = operations d \<Longrightarrow>
   (\<And>i. trail (operation_event i) (audits d') = trail (operation_event i) (audits d)) \<Longrightarrow>
   operations_tracked d'"
  by (simp add: operations_tracked_def trace_of_operation_def operation_row_def)

lemma sessions_same:
  "sessions_tracked d \<Longrightarrow> sessions d' = sessions d \<Longrightarrow>
   (\<And>i. trail (session_event i) (audits d') = trail (session_event i) (audits d)) \<Longrightarrow>
   sessions_tracked d'"
  by (simp add: sessions_tracked_def trace_of_session_def session_row_def)

lemma approvals_same:
  "approvals_tracked d \<Longrightarrow> approvals d' = approvals d \<Longrightarrow>
   (\<And>i. trail (approval_event i) (audits d') = trail (approval_event i) (audits d)) \<Longrightarrow>
   approvals_tracked d'"
  by (simp add: approvals_tracked_def trace_of_approval_def approval_row_def)

lemma session_new_trail:
  assumes "event_is e1 None (Some k) ''session.created'' None (Some ''created'')"
    and "event_is e2 None (Some k) ''session.activated'' (Some ''created'') (Some ''active'')"
    and "list_all (session_auth_event k) es"
  shows "trail (operation_event i) (e1 # e2 # es) = []" "trail (approval_event i) (e1 # e2 # es) = []"
    "trail (session_event i) (e1 # e2 # es) =
       (if i = k then [(None, Some ''created''), (Some ''created'', Some ''active'')] else [])"
proof -
  have split: "trail p (e1 # e2 # es) = trail p [e1] @ trail p [e2] @ trail p es" for p
    by (simp add: trail_Cons)
  show "trail (operation_event i) (e1 # e2 # es) = []" "trail (approval_event i) (e1 # e2 # es) = []"
    "trail (session_event i) (e1 # e2 # es) =
       (if i = k then [(None, Some ''created''), (Some ''created'', Some ''active'')] else [])"
    unfolding split
    using trail_event(2) [OF assms(1)] trail_event(2) [OF assms(2)] trail_quiet [OF list.pred_mono_strong [OF assms(3) quiet_session_auth]]
    by auto
qed

lemma operations_tracked_move:
  assumes "move d d'" and "operations_tracked d"
  shows "operations_tracked d'"
proof -
  note tr = assms(2) [unfolded operations_tracked_def trace_of_operation_def, rule_format]
  from assms(1) show ?thesis
  proof cases
    case (operation_new r e)
    have fresh: "operation_row (o_operation_id r) d = None"
      using operation_new by (simp add: operation_row_def find_keyed_None)
    show ?thesis
      unfolding operations_tracked_def
    proof
      fix i
      show "trace_of_operation d' i = Some (map_option o_state (operation_row i d'))"
        using operation_new tr [of i] fresh operation_life.replay_created
        by (auto simp: trace_of_operation_def trail_append trail_event replay_append
            operation_row_def find_keyed_append split: option.splits)
    qed
  next
    case (operation_move oid r e ty st f)
    show ?thesis
      unfolding operations_tracked_def
    proof
      fix i
      show "trace_of_operation d' i = Some (map_option o_state (operation_row i d'))"
        using operation_move tr [of i]
          operation_life.replay_step [of "trail (operation_event oid) (audits d)" "o_state r" st]
        by (cases "i = oid") (simp_all add: trace_of_operation_def trail_append trail_event rows_set)
    qed
  next
    case (operation_touch oid r f)
    then show ?thesis using tr
      by (auto simp: operations_tracked_def trace_of_operation_def rows_set)
  qed (auto intro!: operations_same [OF assms(2)]
      simp: trail_append trail_event trail_quiet quiet_neutral session_new_trail)
qed

lemma sessions_tracked_move:
  assumes "move d d'" and "sessions_tracked d"
  shows "sessions_tracked d'"
proof -
  note tr = assms(2) [unfolded sessions_tracked_def trace_of_session_def, rule_format]
  from assms(1) show ?thesis
  proof cases
    case (session_new r e1 e2 es)
    have fresh: "session_row (s_session_id r) d = None"
      using session_new by (simp add: session_row_def find_keyed_None)
    show ?thesis
      unfolding sessions_tracked_def
    proof
      fix i
      show "trace_of_session d' i = Some (map_option s_status (session_row i d'))"
        using session_new tr [of i] fresh
        by (auto simp: trace_of_session_def trail_append session_new_trail replay_append
            session_row_def find_keyed_append split: option.splits)
    qed
  next
    case (session_move sid r e ty st f)
    show ?thesis
      unfolding sessions_tracked_def
    proof
      fix i
      show "trace_of_session d' i = Some (map_option s_status (session_row i d'))"
        using session_move tr [of i]
          session_life.replay_step [of "trail (session_event sid) (audits d)" "s_status r" st]
        by (cases "i = sid") (simp_all add: trace_of_session_def trail_append trail_event rows_set)
    qed
  next
    case (session_touch sid r f)
    then show ?thesis using tr
      by (auto simp: sessions_tracked_def trace_of_session_def rows_set)
  qed (auto intro!: sessions_same [OF assms(2)] simp: trail_append trail_event trail_quiet quiet_neutral)
qed

lemma approvals_tracked_move:
  assumes "move d d'" and "approvals_tracked d"
  shows "approvals_tracked d'"
proof -
  note tr = assms(2) [unfolded approvals_tracked_def trace_of_approval_def, rule_format]
  from assms(1) show ?thesis
  proof cases
    case (approval_new a e sid)
    have fresh: "approval_row (a_operation_id a) d = None"
      using approval_new by (simp add: approval_row_def find_keyed_None)
    show ?thesis
      unfolding approvals_tracked_def
    proof
      fix i
      show "trace_of_approval d' i = Some (map_option a_status (approval_row i d'))"
        using approval_new tr [of i] fresh
        by (auto simp: trace_of_approval_def trail_append trail_event replay_append
            approval_row_def find_keyed_append split: option.splits)
    qed
  next
    case (approval_move oid a e sid ty st f)
    then have st: "st \<in> set (APPROVAL_TRANSITIONS (a_status a))" by auto
    show ?thesis
      unfolding approvals_tracked_def
    proof
      fix i
      show "trace_of_approval d' i = Some (map_option a_status (approval_row i d'))"
        using approval_move tr [of i]
          approval_life.replay_step [OF _ st, of "trail (approval_event oid) (audits d)"]
        by (cases "i = oid") (simp_all add: trace_of_approval_def trail_append trail_event rows_set)
    qed
  qed (auto intro!: approvals_same [OF assms(2)]
      simp: trail_append trail_event trail_quiet quiet_neutral session_new_trail)
qed

text \<open>The events that fix a session's security context: there are none before the session
  exists, and none is added afterwards.\<close>

definition contexts_tracked :: "dbase \<Rightarrow> bool" where
  "contexts_tracked d \<longleftrightarrow>
     (\<forall>k. k \<notin> s_session_id ` set (sessions d) \<longrightarrow> filter (session_auth_event k) (audits d) = [])"

lemma not_session_auth_event:
  "neutral e \<Longrightarrow> \<not> session_auth_event k e"
  "event_is e oid sid ty fr t \<Longrightarrow> ty \<in> set OPERATION_EVENTS \<Longrightarrow> \<not> session_auth_event k e"
  "event_is e oid sid ty fr t \<Longrightarrow> ty \<in> set SESSION_EVENTS \<Longrightarrow> \<not> session_auth_event k e"
  "event_is e oid sid ty fr t \<Longrightarrow> ty \<in> set APPROVAL_EVENTS \<Longrightarrow> \<not> session_auth_event k e"
  by (auto simp: session_auth_event_def neutral_def event_is_def OPERATION_EVENTS_def
      SESSION_EVENTS_def APPROVAL_EVENTS_def)

lemma filter_session_auth_other:
  "list_all (session_auth_event i) es \<Longrightarrow> filter (session_auth_event k) es = (if k = i then es else [])"
  by (induction es) (auto simp: session_auth_event_def)

lemma session_ids_set [simp]:
  "session_fix f \<Longrightarrow> s_session_id ` set (update_where p f rs) = s_session_id ` set rs"
  using map_update_where [of s_session_id f p rs]
  by (metis list.set_map session_fix_def)

lemma session_context_fixed:
  assumes "move d d'" and "k \<in> s_session_id ` set (sessions d)"
  shows "k \<in> s_session_id ` set (sessions d')
    \<and> filter (session_auth_event k) (audits d') = filter (session_auth_event k) (audits d)"
  using assms
proof cases
  case (session_new r e1 e2 es)
  then have "k \<noteq> s_session_id r" using assms(2) by metis
  with session_new assms(2) show ?thesis
    by (simp add: not_session_auth_event filter_session_auth_other)
qed (auto simp: not_session_auth_event)

lemma contexts_tracked_move:
  assumes "move d d'" and "contexts_tracked d"
  shows "contexts_tracked d'"
  unfolding contexts_tracked_def
proof (intro allI impI)
  fix k
  assume k: "k \<notin> s_session_id ` set (sessions d')"
  then have "k \<notin> s_session_id ` set (sessions d)"
    using session_context_fixed [OF assms(1)] by blast
  with assms(2) have none: "filter (session_auth_event k) (audits d) = []"
    by (simp add: contexts_tracked_def)
  from assms(1) show "filter (session_auth_event k) (audits d') = []"
  proof cases
    case (session_new r e1 e2 es)
    then have "k \<noteq> s_session_id r" using k by auto
    with session_new none show ?thesis
      by (simp add: not_session_auth_event filter_session_auth_other)
  qed (use none in \<open>simp_all add: not_session_auth_event\<close>)
qed

definition store_inv :: "dbase \<Rightarrow> bool" where
  "store_inv d \<longleftrightarrow>
     constraints_ok d \<and> operations_tracked d \<and> sessions_tracked d \<and> approvals_tracked d
     \<and> contexts_tracked d"

theorem store_inv_moves: "moves d d' \<Longrightarrow> store_inv d \<Longrightarrow> store_inv d'"
proof (induction rule: moves_induct)
  case (step x y)
  then show ?case
    using operations_tracked_move sessions_tracked_move approvals_tracked_move move_constraints
      contexts_tracked_move
    by (auto simp: store_inv_def)
qed simp

lemma store_inv_empty: "store_inv empty_dbase"
  by (simp add: store_inv_def constraints_ok_def empty_dbase_def idempotency_keys_def
      operations_tracked_def sessions_tracked_def approvals_tracked_def trace_of_operation_def
      trace_of_session_def trace_of_approval_def operation_row_def session_row_def approval_row_def contexts_tracked_def)

end
