(* ===== verification/StoreRefine.thy ===== *)
theory StoreRefine
  imports StoreMoves
begin

text \<open>
  The store refines its specification: every method of \<open>Database\<close>, whether it returns or raises
  and whatever the clock, the random generators and the disk do, takes the tables through a
  sequence of the moves of \<open>StoreMoves\<close>.
\<close>

section \<open>Running statements\<close>

lemma returns_query [simp]: "returns (query f) s Q = Q (f (db s)) s"
  by (simp add: query_def)

lemma returns_execute [simp]:
  "returns (execute f) s Q = (constraints_ok (f (db s)) \<longrightarrow> Q () (s\<lparr>db := f (db s)\<rparr>))"
  by (simp add: returns_def execute_def Let_def)

lemma returns_ask [simp]: "returns (ask c) s Q = Q (c # log s) (s\<lparr>log := c # log s\<rparr>)"
  by (simp add: returns_def)

lemma returns_utc_now [simp]:
  "returns (utc_now X) s Q = Q (iso (x_time X (Now # log s))) (s\<lparr>log := Now # log s\<rparr>)"
  by (simp add: returns_def)

lemma returns_uuid4_hex [simp]:
  "returns (uuid4_hex X) s Q = Q (x_text X (UuidHex # log s)) (s\<lparr>log := UuidHex # log s\<rparr>)"
  by (simp add: returns_def)

definition audit_entry ::
  "ext \<Rightarrow> call list \<Rightarrow> string option \<Rightarrow> string option \<Rightarrow> string option \<Rightarrow> string \<Rightarrow> string
   \<Rightarrow> string option \<Rightarrow> string option \<Rightarrow> json \<Rightarrow> audit_rec" where
  "audit_entry X l oid pid sid owner ty fr t details =
     \<lparr>e_event_id = x_text X (UuidHex # l), e_operation_id = oid, e_project_id = pid,
       e_session_id = sid, e_owner_id = owner, e_event_type = ty, e_from_state = fr,
       e_to_state = t, e_details = JText details,
       e_created_at = iso (x_time X (Now # UuidHex # l))\<rparr>"

lemma event_is_audit_entry [simp]: "event_is (audit_entry X l oid pid sid owner ty fr t dt) oid sid ty fr t"
  by (simp add: event_is_def audit_entry_def)

lemma audit_entry_type [simp]: "e_event_type (audit_entry X l oid pid sid owner ty fr t dt) = ty"
  by (simp add: audit_entry_def)

lemma returns_audit [simp]:
  "returns (audit X oid pid sid owner ty fr t dt) s Q =
     (constraints_ok (add_events [audit_entry X (log s) oid pid sid owner ty fr t dt] (db s)) \<longrightarrow>
      Q () (s\<lparr>log := Now # UuidHex # log s,
              db := add_events [audit_entry X (log s) oid pid sid owner ty fr t dt] (db s)\<rparr>))"
  by (simp add: audit_def add_events_def audit_entry_def)

lemma returns_assert_some [simp]: "returns (assert_some r) s Q = (\<forall>x. r = Some x \<longrightarrow> Q x s)"
  by (cases r) (simp_all add: assert_some_def)

section \<open>Transactions\<close>

lemma transaction_cases:
  assumes "transaction X body s = (r, s')"
  obtains (unchanged) "db s' = db s"
    | (committed) x l s2 where "r = Inr x" "body (s\<lparr>log := l\<rparr>) = (Inr x, s2)" "db s' = db s2"
  using assms
  by (cases "body (s\<lparr>log := DbBegin # log s\<rparr>)")
    (auto simp: transaction_def require_connection_def andthen_def split: if_splits sum.splits)

definition by_moves :: "'z store_st_scheme \<Rightarrow> 'z store_st_scheme \<Rightarrow> bool" where
  "by_moves s s' \<longleftrightarrow> (constraints_ok (db s) \<longrightarrow> moves (db s) (db s'))"

interpretation store_order: log_order "by_moves :: 'z store_st_scheme \<Rightarrow> 'z store_st_scheme \<Rightarrow> bool"
  by unfold_locales (auto simp: by_moves_def intro: moves_trans dest: moves_constraints)

lemma query_obeys: "obeys by_moves (query f)"
  by (simp add: query_def store_order.gets_obeys)

lemma require_connection_obeys: "obeys by_moves require_connection"
  by (simp add: require_connection_def store_order.andthen_obeys store_order.gets_obeys
      store_order.require_obeys)

lemma assert_some_obeys: "obeys by_moves (assert_some r)"
  by (cases r) (simp_all add: assert_some_def store_order.ret_obeys store_order.raise_obeys)

lemma same_db_obeys: "(\<And>s. db (snd (m s)) = db s) \<Longrightarrow> obeys by_moves m"
  by (simp add: obeys_def by_moves_def)

text \<open>A transaction obeys the specification when its body, run to its end, does.\<close>

lemma transaction_obeys:
  assumes "\<And>s. constraints_ok (db s) \<Longrightarrow> returns body s (\<lambda>_ t. moves (db s) (db t))"
  shows "obeys by_moves (transaction X body)"
proof (rule obeysI)
  fix s r s'
  assume "transaction X body s = (r, s')"
  then show "by_moves s s'"
  proof (cases rule: transaction_cases)
    case unchanged
    then show ?thesis by (simp add: by_moves_def)
  next
    case (committed x l s2)
    show ?thesis
      unfolding by_moves_def
    proof
      assume "constraints_ok (db s)"
      then have "returns body (s\<lparr>log := l\<rparr>) (\<lambda>_ t. moves (db (s\<lparr>log := l\<rparr>)) (db t))"
        by (intro assms) simp
      with committed show "moves (db s) (db s')" by (auto dest: returnsD)
    qed
  qed
qed

lemmas store_obeys = store_order.io_obeys query_obeys require_connection_obeys assert_some_obeys

section \<open>Sessions\<close>

lemma session_row_id: "session_row k d = Some r \<Longrightarrow> s_session_id r = k"
  by (auto simp: session_row_def dest: find_keyed_Some)

lemma operation_row_id: "operation_row k d = Some r \<Longrightarrow> o_operation_id r = k"
  by (auto simp: operation_row_def dest: find_keyed_Some)

lemma approval_row_id: "approval_row k d = Some a \<Longrightarrow> a_operation_id a = k"
  by (auto simp: approval_row_def dest: find_keyed_Some)

lemma checkpoint_row_id: "checkpoint_row k d = Some c \<Longrightarrow> c_checkpoint_id c = k"
  by (auto simp: checkpoint_row_def dest: find_keyed_Some)

lemma fresh_insert:
  "constraints_ok (insert_session r d) \<Longrightarrow> s_session_id r \<notin> s_session_id ` set (sessions d)"
  "constraints_ok (insert_operation q d) \<Longrightarrow> o_operation_id q \<notin> o_operation_id ` set (operations d)"
  "constraints_ok (insert_approval a d) \<Longrightarrow> a_operation_id a \<notin> a_operation_id ` set (approvals d)"
  "constraints_ok (insert_checkpoint c d) \<Longrightarrow> c_checkpoint_id c \<notin> c_checkpoint_id ` set (checkpoints d)"
  by (simp_all add: constraints_ok_def)

lemma add_events_add_events [simp]: "add_events fs (add_events es d) = add_events (es @ fs) d"
  by (simp add: add_events_def)

text \<open>Inserting a session and activating it is one move.\<close>

lemma session_created_moves:
  assumes "constraints_ok (insert_session r d)" and "s_session_id r = k"
    and "s_session_id (f r) = k" and "s_status (f r) = SActive"
    and "event_is e1 None (Some k) ''session.created'' None (Some ''created'')"
    and "event_is e2 None (Some k) ''session.activated'' (Some ''created'') (Some ''active'')"
    and "list_all (session_auth_event k) es"
    and "constraints_ok (add_events (e2 # es) (set_session k f (add_events [e1] (insert_session r d))))"
  shows "moves d (add_events (e2 # es) (set_session k f (add_events [e1] (insert_session r d))))"
proof -
  have fresh: "k \<notin> s_session_id ` set (sessions d)"
    using fresh_insert(1) [OF assms(1)] assms(2) by simp
  then have "add_events (e2 # es) (set_session k f (add_events [e1] (insert_session r d)))
      = add_events (e1 # e2 # es) (insert_session (f r) d)"
    using assms(2) by (simp add: set_session_def add_events_def insert_session_def
        update_where_last [where key = s_session_id])
  with assms fresh show ?thesis by (simp add: insert_intros(1))
qed

lemma create_session_obeys: "obeys by_moves (create_session X sid pid owner details)"
  unfolding create_session_def
  by (intro store_obeys transaction_obeys)
    (cases details; auto simp: session_auth_event_def audit_entry_def [of X _ _ _ "Some sid" _ "''auth.session.context''"]
      intro!: session_created_moves)

lemma get_session_obeys: "obeys by_moves (get_session sid)"
  unfolding get_session_def by (intro store_obeys)

lemma get_session_auth_context_obeys: "obeys by_moves (get_session_auth_context sid)"
  unfolding get_session_auth_context_def by (intro store_obeys)

lemma transition_session_obeys: "obeys by_moves (transition_session X sid st reason)"
proof (cases "session_status_of st")
  case None
  then show ?thesis by (simp add: transition_session_def store_order.raise_obeys)
next
  case (Some to')
  then have st: "st = session_status_name to'" by (rule session_status_of_Some)
  show ?thesis
    unfolding transition_session_def Some option.case
    apply (intro store_obeys transaction_obeys)
    apply (simp add: st session_row_id split del: if_split)
    by (intro allI impI conjI; ((rule move_intros(2), assumption, (simp add: session_fix_def session_update_def)+)
        | (rule move_intros(1), assumption, rule event_is_audit_entry, (simp add: session_fix_def session_update_def)+)))
qed

lemma close_active_sessions_obeys: "obeys by_moves (close_active_sessions X reason)"
  unfolding close_active_sessions_def
  by (intro store_obeys get_session_obeys transition_session_obeys)

lemma block_active_sessions_obeys:
  "obeys by_moves (block_active_sessions_for_project X pid reason)"
  unfolding block_active_sessions_for_project_def
  by (intro store_obeys get_session_obeys transition_session_obeys)

section \<open>Recovery\<close>

text \<open>Updating the first row a filter selects, so that it is selected no longer.\<close>

lemma filter_update_head:
  "distinct (map key xs) \<Longrightarrow> filter P xs = r # rest \<Longrightarrow> \<not> P (f r) \<Longrightarrow>
     filter P (update_where (\<lambda>x. key x = key r) f xs) = rest"
proof (induction xs)
  case Nil
  then show ?case by simp
next
  case (Cons x xs)
  show ?case
  proof (cases "P x")
    case True
    then have "x = r" and rest: "rest = filter P xs" using Cons.prems(2) by simp_all
    moreover have "update_where (\<lambda>x. key x = key r) f xs = xs"
      using Cons.prems(1) \<open>x = r\<close> by (intro update_where_none) (auto simp: image_iff)
    ultimately show ?thesis using Cons.prems(3) by (simp add: update_where_def)
  next
    case False
    then have "filter P xs = r # rest" using Cons.prems(2) by simp
    moreover from this have "r \<in> set xs" by (metis filter_is_subset list.set_intros(1) subsetD)
    then have "key x \<noteq> key r" using Cons.prems(1) by (auto simp: image_iff)
    ultimately show ?thesis using Cons.IH Cons.prems(1,3) False by (simp add: update_where_def)
  qed
qed

lemma filter_head: "filter P xs = r # rest \<Longrightarrow> r \<in> set xs \<and> P r"
  by (auto simp: filter_eq_Cons_iff)

lemma row_of_mem:
  "constraints_ok d \<Longrightarrow> r \<in> set (sessions d) \<Longrightarrow> session_row (s_session_id r) d = Some r"
  "constraints_ok d \<Longrightarrow> q \<in> set (operations d) \<Longrightarrow> operation_row (o_operation_id q) d = Some q"
  "constraints_ok d \<Longrightarrow> a \<in> set (approvals d) \<Longrightarrow> approval_row (a_operation_id a) d = Some a"
  by (simp_all add: session_row_def operation_row_def approval_row_def find_keyed_eq constraints_ok_def)

lemma recover_sessions:
  fixes s0 :: "'z store_st_scheme"
  assumes "constraints_ok (db s0)"
  shows "returns (fold_each (sessions_in [SActive, SClosing] (db s0)) (recover_session X) acc) s0
     (\<lambda>_ t. moves (db s0) (db t) \<and> constraints_ok (db t) \<and> operations (db t) = operations (db s0)
        \<and> approvals (db t) = approvals (db s0) \<and> sessions_in [SActive, SClosing] (db t) = [])"
proof -
  define I where "I rows (v :: recovered) t \<longleftrightarrow>
      moves (db s0) (db t) \<and> constraints_ok (db t) \<and> operations (db t) = operations (db s0)
      \<and> approvals (db t) = approvals (db s0) \<and> sessions_in [SActive, SClosing] (db t) = rows"
    for rows v and t :: "'z store_st_scheme"
  have step: "returns (recover_session X r v) s (\<lambda>v' t. I rows v' t)" if "I (r # rows) v s" for r rows v s
  proof -
    from that have inv: "moves (db s0) (db s)" "constraints_ok (db s)"
      "filter (\<lambda>x. s_status x \<in> set [SActive, SClosing]) (sessions (db s)) = r # rows"
      by (simp_all only: I_def sessions_in_def)
    note r = filter_head [OF inv(3)]
    then have row: "session_row (s_session_id r) (db s) = Some r"
      using row_of_mem(1) inv(2) by blast
    have dist: "distinct (map s_session_id (sessions (db s)))"
      using inv(2) by (simp add: constraints_ok_def)
    have "SBlocked \<in> set (SESSION_TRANSITIONS (s_status r))" using r by auto
    then have "moves (db s) (add_events [audit_entry X l None (Some (s_project_id r))
          (Some (s_session_id r)) (s_owner_id r) ''session.recovered_blocked''
          (Some (session_status_name (s_status r))) (Some ''blocked'') dt]
          (set_session (s_session_id r) (\<lambda>x. x\<lparr>s_status := SBlocked, s_updated_at := t1,
             s_closed_at := Some t2, s_reason := Some ''bridge_restart''\<rparr>) (db s)))"
      if "constraints_ok (add_events [audit_entry X l None (Some (s_project_id r))
          (Some (s_session_id r)) (s_owner_id r) ''session.recovered_blocked''
          (Some (session_status_name (s_status r))) (Some ''blocked'') dt]
          (set_session (s_session_id r) (\<lambda>x. x\<lparr>s_status := SBlocked, s_updated_at := t1,
             s_closed_at := Some t2, s_reason := Some ''bridge_restart''\<rparr>) (db s)))" for l dt t1 t2
      using that row by (intro move_intros(1) [where st = SBlocked])
        (auto simp: session_fix_def intro: event_is_audit_entry)
    moreover have "filter (\<lambda>x. s_status x \<in> set [SActive, SClosing])
        (update_where (\<lambda>x. s_session_id x = s_session_id r) (\<lambda>x. x\<lparr>s_status := SBlocked,
           s_updated_at := t1, s_closed_at := Some t2, s_reason := Some ''bridge_restart''\<rparr>)
           (sessions (db s))) = rows" for t1 t2
      by (rule filter_update_head [OF dist inv(3)]) simp
    ultimately show ?thesis
      using that inv(1) by (auto simp: recover_session_def I_def sessions_in_def intro: moves_trans)
  qed
  have "I (sessions_in [SActive, SClosing] (db s0)) acc s0" using assms by (simp add: I_def)
  from returns_fold_each [where I = I, OF this step] show ?thesis by (simp add: I_def)
qed

lemma pending_approvals_of:
  assumes "constraints_ok d"
  shows "filter (pending_for oid) (approvals d) =
     (case approval_row oid d of None \<Rightarrow> [] | Some a \<Rightarrow> if a_status a = Pending then [a] else [])"
proof -
  have "distinct (map a_operation_id xs) \<Longrightarrow> filter (pending_for oid) xs =
     (case find (\<lambda>a. a_operation_id a = oid) xs of None \<Rightarrow> []
      | Some a \<Rightarrow> if a_status a = Pending then [a] else [])" for xs
  proof (induction xs)
    case (Cons x xs)
    show ?case
    proof (cases "a_operation_id x = oid")
      case True
      with Cons.prems have "oid \<notin> a_operation_id ` set xs" by simp
      then have "filter (pending_for oid) xs = []"
        by (auto simp: filter_empty_conv pending_for_def)
      with True show ?thesis by (simp add: pending_for_def [of oid x])
    next
      case False
      with Cons show ?thesis by (simp add: pending_for_def [of oid x])
    qed
  qed simp
  with assms show ?thesis by (simp add: constraints_ok_def approval_row_def)
qed

lemma cancel_pending_of:
  assumes "constraints_ok d" and "approval_row oid d = Some a" and "a_status a = Pending"
  shows "update_where (pending_for oid) f (approvals d) =
     update_where (\<lambda>x. a_operation_id x = oid) f (approvals d)"
proof (rule update_where_cong)
  fix x assume x: "x \<in> set (approvals d)"
  show "pending_for oid x = (a_operation_id x = oid)"
    using row_of_mem(3) [OF assms(1) x] assms(2,3) by (auto simp: pending_for_def)
qed simp

lemma recover_approvals_of_returns:
  assumes ok: "constraints_ok (db s)"
  shows "returns (recover_approvals_of X r acc) s (\<lambda>_ t. moves (db s) (db t) \<and> constraints_ok (db t)
     \<and> operations (db t) = operations (db s) \<and> sessions (db t) = sessions (db s))"
proof (cases "filter (pending_for (o_operation_id r)) (approvals (db s)) = []")
  case True
  then have "update_where (pending_for (o_operation_id r)) f (approvals (db s)) = approvals (db s)" for f
    by (intro update_where_none) (auto simp: filter_empty_conv)
  with True show ?thesis by (simp add: recover_approvals_of_def)
next
  case False
  then obtain a where a: "approval_row (o_operation_id r) (db s) = Some a" "a_status a = Pending"
    and filt: "filter (pending_for (o_operation_id r)) (approvals (db s)) = [a]"
    using pending_approvals_of [OF ok, of "o_operation_id r"] by (auto split: option.splits if_splits)
  let ?d = "set_approval (o_operation_id r) (\<lambda>a. a\<lparr>a_status := ACancelled\<rparr>) (db s)"
  have upd: "(db s)\<lparr>approvals := update_where (pending_for (o_operation_id r))
      (\<lambda>a. a\<lparr>a_status := ACancelled\<rparr>) (approvals (db s))\<rparr> = ?d"
    by (simp add: cancel_pending_of [OF ok a] set_approval_def)
  have "moves (db s) (add_events [e] ?d)"
    if "event_is e (Some (o_operation_id r)) sid ''approval.recovered_cancelled'' (Some ''pending'')
          (Some ''cancelled'')" and "constraints_ok (add_events [e] ?d)" for e sid
    using that a by (intro move_intros(5) [where st = ACancelled]) (auto simp: approval_fix_def)
  with filt show ?thesis
    by (auto simp: recover_approvals_of_def upd intro: event_is_audit_entry)
qed

lemma recovery_state_next:
  "o_state r \<in> set INTERRUPTED_STATES \<Longrightarrow> recovery_state r \<in> set (OPERATION_TRANSITIONS (o_state r))"
  by (auto simp: INTERRUPTED_STATES_def recovery_state_def)

lemma recovery_state_settled: "recovery_state r \<notin> set INTERRUPTED_STATES"
  by (auto simp: INTERRUPTED_STATES_def recovery_state_def)

text \<open>Retiring the first interrupted operation.\<close>

lemma retire_operation:
  assumes ok: "constraints_ok d"
    and head: "filter (\<lambda>r. o_state r \<in> set INTERRUPTED_STATES) (operations d) = r # rows"
    and f: "operation_fix f" "\<And>x. o_state (f x) = recovery_state r"
    and e: "event_is e (Some (o_operation_id r)) (o_session_id r) ''operation.recovered''
       (Some (op_state_name (o_state r))) (Some (op_state_name (recovery_state r)))"
    and ok': "constraints_ok (add_events [e] (set_operation (o_operation_id r) f d))"
  shows "moves d (add_events [e] (set_operation (o_operation_id r) f d))"
    and "filter (\<lambda>r. o_state r \<in> set INTERRUPTED_STATES)
       (update_where (\<lambda>x. o_operation_id x = o_operation_id r) f (operations d)) = rows"
    and "map_option o_state (operation_row k (add_events [e] (set_operation (o_operation_id r) f d))) =
       (if k = o_operation_id r then Some (recovery_state r) else map_option o_state (operation_row k d))"
proof -
  note r = filter_head [OF head]
  then have row: "operation_row (o_operation_id r) d = Some r" using row_of_mem(2) ok by blast
  show "moves d (add_events [e] (set_operation (o_operation_id r) f d))"
    using row e f ok' r recovery_state_next by (intro move_intros(3)) auto
  have "distinct (map o_operation_id (operations d))" using ok by (simp add: constraints_ok_def)
  then show "filter (\<lambda>r. o_state r \<in> set INTERRUPTED_STATES)
      (update_where (\<lambda>x. o_operation_id x = o_operation_id r) f (operations d)) = rows"
    using head by (rule filter_update_head) (simp add: f recovery_state_settled)
  show "map_option o_state (operation_row k (add_events [e] (set_operation (o_operation_id r) f d))) =
      (if k = o_operation_id r then Some (recovery_state r) else map_option o_state (operation_row k d))"
    using row f by (simp add: rows_set)
qed

lemma recover_operations:
  fixes s0 :: "'z store_st_scheme"
  assumes "constraints_ok (db s0)"
  shows "returns (fold_each (filter (\<lambda>r. o_state r \<in> set INTERRUPTED_STATES) (operations (db s0)))
       (recover_operation X) acc) s0
     (\<lambda>_ t. moves (db s0) (db t) \<and> constraints_ok (db t) \<and> sessions (db t) = sessions (db s0)
        \<and> filter (\<lambda>r. o_state r \<in> set INTERRUPTED_STATES) (operations (db t)) = []
        \<and> (\<forall>k. map_option o_state (operation_row k (db t)) =
              map_option (\<lambda>r. if o_state r \<in> set INTERRUPTED_STATES then recovery_state r else o_state r)
                (operation_row k (db s0))))"
proof -
  define I where "I rows (v :: recovered) t \<longleftrightarrow>
      moves (db s0) (db t) \<and> constraints_ok (db t) \<and> sessions (db t) = sessions (db s0)
      \<and> filter (\<lambda>r. o_state r \<in> set INTERRUPTED_STATES) (operations (db t)) = rows
      \<and> set rows \<subseteq> set (operations (db s0))
      \<and> (\<forall>k. map_option o_state (operation_row k (db t)) =
            map_option (\<lambda>r. if o_state r \<in> set INTERRUPTED_STATES \<and> r \<notin> set rows
                            then recovery_state r else o_state r) (operation_row k (db s0)))"
    for rows v and t :: "'z store_st_scheme"
  have step: "returns (recover_operation X r v) s (\<lambda>v' t. I rows v' t)" if I: "I (r # rows) v s" for r rows v s
  proof -
    have pre: "returns (if o_state r = AwaitingApproval then recover_approvals_of X r v else ret v) s
      (\<lambda>_ t. moves (db s) (db t) \<and> constraints_ok (db t)
         \<and> operations (db t) = operations (db s) \<and> sessions (db t) = sessions (db s))"
      using recover_approvals_of_returns [of s X r v] I by (simp add: I_def)
    have rest: "returns (andthen (utc_now X) (\<lambda>now1.
       andthen (utc_now X) (\<lambda>now2.
       andthen (execute (set_operation (o_operation_id r)
          (\<lambda>q. q\<lparr>o_state := recovery_state r, o_updated_at := now1, o_finished_at := Some now2,
                 o_error_json := Some (JText (recovery_error r))\<rparr>))) (\<lambda>_.
       andthen (audit X (Some (o_operation_id r)) (Some (o_project_id r)) (o_session_id r)
          (o_owner_id r) ''operation.recovered'' (Some (op_state_name (o_state r)))
          (Some (op_state_name (recovery_state r))) (recovery_error r)) (\<lambda>_.
       ret w))))) t (\<lambda>v' t. I rows v' t)"
      if t: "moves (db s) (db t)" "constraints_ok (db t)" "operations (db t) = operations (db s)"
        "sessions (db t) = sessions (db s)" for t :: "'z store_st_scheme" and w
    proof -
      have head: "filter (\<lambda>r. o_state r \<in> set INTERRUPTED_STATES) (operations (db t)) = r # rows"
        and r0: "r \<in> set (operations (db s0))" "set rows \<subseteq> set (operations (db s0))"
        and to_t: "moves (db s0) (db t)" and ses: "sessions (db t) = sessions (db s0)"
        and old: "\<And>k. map_option o_state (operation_row k (db t)) =
            map_option (\<lambda>q. if o_state q \<in> set INTERRUPTED_STATES \<and> q \<notin> set (r # rows)
                            then recovery_state q else o_state q) (operation_row k (db s0))"
        using I t by (auto simp: I_def operation_row_def intro: moves_trans)
      note retire = retire_operation [OF t(2) head]
      have distinct: "r \<notin> set rows"
      proof -
        have "distinct (filter (\<lambda>r. o_state r \<in> set INTERRUPTED_STATES) (operations (db t)))"
          using t(2) by (simp add: constraints_ok_def distinct_map)
        with head show ?thesis by simp
      qed
      have row0: "operation_row (o_operation_id r) (db s0) = Some r"
        using row_of_mem(2) [OF assms r0(1)] .
      have other: "q \<noteq> r" if "operation_row k (db s0) = Some q" "k \<noteq> o_operation_id r" for k q
        using that operation_row_id by blast
      have next_state: "(\<forall>k. map_option o_state (operation_row k d') =
            map_option (\<lambda>q. if o_state q \<in> set INTERRUPTED_STATES \<and> q \<notin> set rows
                            then recovery_state q else o_state q) (operation_row k (db s0)))"
        if "\<And>k. map_option o_state (operation_row k d') = (if k = o_operation_id r
              then Some (recovery_state r) else map_option o_state (operation_row k (db t)))" for d'
      proof
        fix k
        show "map_option o_state (operation_row k d') =
            map_option (\<lambda>q. if o_state q \<in> set INTERRUPTED_STATES \<and> q \<notin> set rows
                            then recovery_state q else o_state q) (operation_row k (db s0))"
        proof (cases "k = o_operation_id r")
          case True
          with that [of k] row0 distinct filter_head [OF head] show ?thesis by simp
        next
          case False
          with that [of k] old [of k] other [of k] show ?thesis
            by (cases "operation_row k (db s0)") auto
        qed
      qed
      have final: "I rows v' (t\<lparr>log := l, db := add_events [e] (set_operation (o_operation_id r) f (db t))\<rparr>)"
        if f: "operation_fix f" "\<And>x. o_state (f x) = recovery_state r"
          and e: "event_is e (Some (o_operation_id r)) (o_session_id r) ''operation.recovered''
            (Some (op_state_name (o_state r))) (Some (op_state_name (recovery_state r)))"
          and ok': "constraints_ok (add_events [e] (set_operation (o_operation_id r) f (db t)))"
        for v' l e f
        unfolding I_def
        using retire(2) [OF f e ok'] next_state [OF retire(3) [OF f e ok']]
          moves_trans [OF to_t retire(1) [OF f e ok']] ses r0 ok'
        by simp
      show ?thesis
        by (simp del: add_events_simps set_row_simps, intro impI, rule final)
          (simp_all add: operation_fix_def)
    qed
    show ?thesis
      unfolding recover_operation_def returns_andthen
      by (rule returns_mono [OF pre]) (use rest in \<open>simp add: returns_andthen\<close>)
  qed
  have "I (filter (\<lambda>r. o_state r \<in> set INTERRUPTED_STATES) (operations (db s0))) acc s0"
  proof -
    have "q \<in> set (operations (db s0))" if "operation_row k (db s0) = Some q" for k q
      using that by (auto simp: operation_row_def dest: find_keyed_Some)
    then have "map_option o_state (operation_row k (db s0)) =
      map_option (\<lambda>q. if o_state q \<in> set INTERRUPTED_STATES
          \<and> q \<notin> set (filter (\<lambda>r. o_state r \<in> set INTERRUPTED_STATES) (operations (db s0)))
        then recovery_state q else o_state q) (operation_row k (db s0))" for k
      by (cases "operation_row k (db s0)") simp_all
    with assms show ?thesis unfolding I_def by auto
  qed
  from returns_fold_each [where I = I, OF this step] show ?thesis
  proof (rule returns_mono)
    fix x t
    assume "I [] x t"
    note I = this [unfolded I_def]
    show "moves (db s0) (db t) \<and> constraints_ok (db t) \<and> sessions (db t) = sessions (db s0)
        \<and> filter (\<lambda>r. o_state r \<in> set INTERRUPTED_STATES) (operations (db t)) = []
        \<and> (\<forall>k. map_option o_state (operation_row k (db t)) =
              map_option (\<lambda>r. if o_state r \<in> set INTERRUPTED_STATES then recovery_state r else o_state r)
                (operation_row k (db s0)))"
      using I by simp
  qed
qed

text \<open>Once no operation waits for an approval, the orphans are all the pending approvals.\<close>

lemma orphans_pending:
  assumes ok: "constraints_ok d"
    and settled: "filter (\<lambda>r. o_state r \<in> set INTERRUPTED_STATES) (operations d) = []"
  shows "map fst (orphaned_approvals d) = filter (\<lambda>a. a_status a = Pending) (approvals d)"
proof -
  have none: "o_state r \<noteq> AwaitingApproval" if "r \<in> set (operations d)" for r
    using settled that by (auto simp: filter_empty_conv INTERRUPTED_STATES_def)
  have row: "\<exists>r. filter (\<lambda>r. o_operation_id r = a_operation_id a \<and> a_status a = Pending
       \<and> o_state r \<noteq> AwaitingApproval) (operations d) = (if a_status a = Pending then [r] else [])"
    if "a \<in> set (approvals d)" for a
  proof -
    from ok that obtain r where r: "r \<in> set (operations d)" "o_operation_id r = a_operation_id a"
      by (fastforce simp: constraints_ok_def list_all_iff)
    have "filter (\<lambda>x. o_operation_id x = o_operation_id r) xs = [r]"
      if "distinct (map o_operation_id xs)" "r \<in> set xs" for xs
      using that
    proof (induction xs)
      case (Cons x xs)
      then show ?case by (auto simp: filter_empty_conv image_iff)
    qed simp
    from this [of "operations d"] ok r have "filter (\<lambda>x. o_operation_id x = a_operation_id a) (operations d) = [r]"
      by (simp add: constraints_ok_def)
    moreover have "filter (\<lambda>r. o_operation_id r = a_operation_id a \<and> a_status a = Pending
         \<and> o_state r \<noteq> AwaitingApproval) (operations d)
       = (if a_status a = Pending then filter (\<lambda>x. o_operation_id x = a_operation_id a) (operations d) else [])"
      using none by (auto intro: filter_cong)
    ultimately show ?thesis by auto
  qed
  have "map fst (concat (map (\<lambda>a. map (\<lambda>r. (a, r))
        (filter (\<lambda>r. o_operation_id r = a_operation_id a \<and> a_status a = Pending
                   \<and> o_state r \<noteq> AwaitingApproval) (operations d))) as))
      = filter (\<lambda>a. a_status a = Pending) as"
    if "set as \<subseteq> set (approvals d)" for as
    using that
  proof (induction as)
    case (Cons a as)
    then obtain r where "filter (\<lambda>r. o_operation_id r = a_operation_id a \<and> a_status a = Pending
       \<and> o_state r \<noteq> AwaitingApproval) (operations d) = (if a_status a = Pending then [r] else [])"
      using row by fastforce
    with Cons show ?case by (cases "a_status a = Pending") simp_all
  qed simp
  from this [of "approvals d"] show ?thesis by (simp add: orphaned_approvals_def)
qed

lemma recover_orphans:
  fixes s0 :: "'z store_st_scheme"
  assumes ok: "constraints_ok (db s0)"
    and rows: "map fst rows = filter (\<lambda>a. a_status a = Pending) (approvals (db s0))"
  shows "returns (fold_each rows (recover_orphan X) acc) s0
     (\<lambda>_ t. moves (db s0) (db t) \<and> constraints_ok (db t) \<and> sessions (db t) = sessions (db s0)
        \<and> operations (db t) = operations (db s0)
        \<and> filter (\<lambda>a. a_status a = Pending) (approvals (db t)) = [])"
proof -
  define I where "I rs (v :: recovered) t \<longleftrightarrow>
      moves (db s0) (db t) \<and> constraints_ok (db t) \<and> sessions (db t) = sessions (db s0)
      \<and> operations (db t) = operations (db s0)
      \<and> filter (\<lambda>a. a_status a = Pending) (approvals (db t)) = map fst rs"
    for rs :: "(approval_rec \<times> operation_rec) list" and v and t :: "'z store_st_scheme"
  have step: "returns (recover_orphan X p v) s (\<lambda>v' t. I rs v' t)" if I: "I (p # rs) v s" for p rs v s
  proof -
    obtain a r where p: "p = (a, r)" by (cases p)
    note inv = I [unfolded I_def p]
    have head: "filter (\<lambda>a. a_status a = Pending) (approvals (db s)) = a # map fst rs"
      and oks: "constraints_ok (db s)" using inv by simp_all
    note a = filter_head [OF head]
    have row: "approval_row (a_operation_id a) (db s) = Some a"
      using row_of_mem(3) oks a by blast
    have dist: "distinct (map a_operation_id (approvals (db s)))"
      "distinct (map a_approval_id (approvals (db s)))"
      using oks by (simp_all add: constraints_ok_def)
    let ?f = "\<lambda>x. x\<lparr>a_status := ACancelled\<rparr>"
    have "update_where (\<lambda>x. a_approval_id x = a_approval_id a \<and> a_status x = Pending) ?f (approvals (db s))
        = update_where (\<lambda>x. a_operation_id x = a_operation_id a) ?f (approvals (db s))"
      using a dist by (intro update_where_cong) (auto simp: distinct_map dest: inj_onD)
    then have upd: "(db s)\<lparr>approvals := update_where
        (\<lambda>x. a_approval_id x = a_approval_id a \<and> a_status x = Pending) ?f (approvals (db s))\<rparr>
        = set_approval (a_operation_id a) ?f (db s)" by (simp add: set_approval_def)
    have rest: "filter (\<lambda>a. a_status a = Pending)
        (update_where (\<lambda>x. a_operation_id x = a_operation_id a) ?f (approvals (db s))) = map fst rs"
      using dist(1) head by (rule filter_update_head) simp
    have "moves (db s) (add_events [e] (set_approval (a_operation_id a) ?f (db s)))"
      if "event_is e (Some (a_operation_id a)) sid ''approval.recovered_cancelled'' (Some ''pending'')
            (Some ''cancelled'')" "constraints_ok (add_events [e] (set_approval (a_operation_id a) ?f (db s)))"
      for e sid
      using that row a by (intro move_intros(5) [where st = ACancelled]) (auto simp: approval_fix_def)
    note mv = moves_trans [OF conjunct1 [OF inv] this [OF event_is_audit_entry]]
    show ?thesis
      using inv mv by (simp add: recover_orphan_def p upd I_def rest)
  qed
  have "I rows acc s0" using ok rows by (simp add: I_def)
  from returns_fold_each [where I = I, OF this step] show ?thesis
  proof (rule returns_mono)
    fix x t
    assume "I [] x t"
    then show "moves (db s0) (db t) \<and> constraints_ok (db t) \<and> sessions (db t) = sessions (db s0)
        \<and> operations (db t) = operations (db s0)
        \<and> filter (\<lambda>a. a_status a = Pending) (approvals (db t)) = []"
      unfolding I_def by simp
  qed
qed

text \<open>What recovery leaves behind.\<close>

definition recovered_from :: "dbase \<Rightarrow> dbase \<Rightarrow> bool" where
  "recovered_from d d' \<longleftrightarrow>
     sessions_in [SActive, SClosing] d' = []
     \<and> filter (\<lambda>r. o_state r \<in> set INTERRUPTED_STATES) (operations d') = []
     \<and> filter (\<lambda>a. a_status a = Pending) (approvals d') = []
     \<and> (\<forall>k. map_option o_state (operation_row k d') =
           map_option (\<lambda>r. if o_state r \<in> set INTERRUPTED_STATES then recovery_state r else o_state r)
             (operation_row k d))"

lemma recover_body_returns:
  fixes s :: "'z store_st_scheme"
  assumes ok: "constraints_ok (db s)"
  shows "returns (andthen (query (sessions_in [SActive, SClosing])) (\<lambda>ss.
       andthen (fold_each ss (recover_session X) nothing_recovered) (\<lambda>acc1.
       andthen (query (\<lambda>d. filter (\<lambda>r. o_state r \<in> set INTERRUPTED_STATES) (operations d))) (\<lambda>os.
       andthen (fold_each os (recover_operation X) acc1) (\<lambda>acc2.
       andthen (query orphaned_approvals) (\<lambda>rows.
       fold_each rows (recover_orphan X) acc2)))))) s
     (\<lambda>_ t. moves (db s) (db t) \<and> recovered_from (db s) (db t))"
proof (simp only: returns_andthen returns_query, rule returns_mono [OF recover_sessions [OF ok]],
    elim conjE, rule returns_mono [OF recover_operations], assumption, elim conjE,
    rule returns_mono [OF recover_orphans], assumption)
  fix t1 t2 :: "'z store_st_scheme"
  assume "constraints_ok (db t2)"
    and "filter (\<lambda>r. o_state r \<in> set INTERRUPTED_STATES) (operations (db t2)) = []"
  then show "map fst (orphaned_approvals (db t2)) = filter (\<lambda>a. a_status a = Pending) (approvals (db t2))"
    by (rule orphans_pending)
qed (auto simp: recovered_from_def operation_row_def sessions_in_def intro: moves_trans)

lemma recover_after_restart_obeys: "obeys by_moves (recover_after_restart X)"
  unfolding recover_after_restart_def
  by (rule transaction_obeys, rule returns_mono [OF recover_body_returns]) auto

section \<open>Operations\<close>

lemma new_operation_moves:
  "constraints_ok (insert_operation r d) \<Longrightarrow> o_state r = Received \<Longrightarrow>
   event_is e (Some (o_operation_id r)) (o_session_id r) ''operation.created'' None (Some ''received'') \<Longrightarrow>
   constraints_ok (add_events [e] (insert_operation r d)) \<Longrightarrow>
   moves d (add_events [e] (insert_operation r d))"
  using fresh_insert(2) by (intro insert_intros(2)) auto

lemma create_operation_obeys:
  "obeys by_moves (create_operation X oid pid sid owner cid hash kind mutation input)"
  unfolding create_operation_def
  by (intro store_obeys transaction_obeys)
    (auto intro!: new_operation_moves intro: event_is_audit_entry)

lemma get_operation_obeys: "obeys by_moves (get_operation oid)"
  unfolding get_operation_def by (intro store_obeys)

lemma get_operation_by_client_request_id_obeys:
  "obeys by_moves (get_operation_by_client_request_id pid sid cid)"
  unfolding get_operation_by_client_request_id_def by (intro store_obeys)

lemma get_operations_by_client_request_id_obeys:
  "obeys by_moves (get_operations_by_client_request_id pid sid cid)"
  unfolding get_operations_by_client_request_id_def by (intro store_obeys)

lemma transition_operation_obeys:
  "obeys by_moves (transition_operation X oid st expected result error)"
proof (cases "op_state_of st")
  case None
  then show ?thesis by (simp add: transition_operation_def store_order.raise_obeys)
next
  case (Some to')
  then have st: "st = op_state_name to'" by (rule op_state_of_Some)
  show ?thesis
    unfolding transition_operation_def Some option.case
    apply (intro store_obeys transaction_obeys)
    apply (simp add: st operation_row_id split del: if_split)
    by (intro allI impI conjI; ((rule move_intros(4), assumption, (simp add: operation_fix_def transition_update_def)+)
        | (rule move_intros(3), assumption, rule event_is_audit_entry, (simp add: operation_fix_def transition_update_def)+)))
qed

lemma neutral_types:
  "e_event_type e \<in> {''auth.context'', ''checkpoint.created'', ''checkpoint.finalized'',
     ''checkpoint.restored''} \<Longrightarrow> neutral e"
  by (auto simp: neutral_def quiet_def OPERATION_EVENTS_def SESSION_EVENTS_def APPROVAL_EVENTS_def)

lemma record_operation_auth_context_obeys:
  "obeys by_moves (record_operation_auth_context X oid details)"
  unfolding record_operation_auth_context_def
  by (intro transaction_obeys) (auto intro!: event_intros neutral_types)

lemma get_operation_auth_context_obeys: "obeys by_moves (get_operation_auth_context oid)"
  unfolding get_operation_auth_context_def by (intro store_obeys)

section \<open>Approvals\<close>

lemma create_approval_obeys: "obeys by_moves (create_approval X aid r action hash expires)"
  unfolding create_approval_def
proof (intro transaction_obeys, simp, intro impI)
  fix s :: "'z store_st_scheme"
  let ?a = "\<lparr>a_approval_id = aid, a_operation_id = o_operation_id r, a_project_id = o_project_id r,
      a_session_id = o_session_id r, a_action = action, a_token_hash = hash, a_status = Pending,
      a_created_at = Clock.iso (x_time X (Now # log s)), a_expires_at = expires, a_consumed_at = None\<rparr>"
  let ?e = "audit_entry X (Now # log s) (Some (o_operation_id r)) (Some (o_project_id r))
      (o_session_id r) (o_owner_id r) ''approval.created'' None (Some ''pending'')
      (JObj [(''approval_id'', JStr aid), (''action'', JStr action), (''expires_at'', JStr expires)])"
  assume "constraints_ok (insert_approval ?a (db s))"
    and ok: "constraints_ok (add_events [?e] (insert_approval ?a (db s)))"
  from fresh_insert(3) [OF this(1)] ok show "moves (db s) (add_events [?e] (insert_approval ?a (db s)))"
    by (intro insert_intros(3)) (simp_all, rule event_is_audit_entry)
qed

lemma approval_join_Some:
  "approval_join oid d = Some (a, r) \<Longrightarrow> approval_row oid d = Some a \<and> operation_row oid d = Some r"
  by (auto simp: approval_join_def split: option.splits)

lemma consume_approval_obeys: "obeys by_moves (consume_approval X oid hash now)"
  unfolding consume_approval_def
  by (intro store_obeys transaction_obeys)
    (auto simp: approval_fix_def dest!: approval_join_Some
      intro!: move_intros(5) [where st = Consumed] intro: event_is_audit_entry)

lemma cancel_approval_obeys: "obeys by_moves (cancel_approval X oid reason)"
  unfolding cancel_approval_def
  by (intro transaction_obeys)
    (auto simp: approval_fix_def dest!: approval_join_Some
      intro!: move_intros(5) [where st = ACancelled] intro: event_is_audit_entry)

section \<open>Checkpoints\<close>

lemma create_checkpoint_obeys:
  "obeys by_moves (create_checkpoint X cid pid sid oid owner kind branch head ref before)"
  unfolding create_checkpoint_def
  by (intro store_obeys transaction_obeys)
    (auto intro!: insert_intros(4) neutral_types dest: fresh_insert(4))

lemma finalize_checkpoint_obeys: "obeys by_moves (finalize_checkpoint X cid after hash)"
  unfolding finalize_checkpoint_def
  by (intro store_obeys transaction_obeys)
    (auto intro!: move_intros(6) neutral_types simp: checkpoint_fix_def)

lemma mark_checkpoint_restored_obeys: "obeys by_moves (mark_checkpoint_restored X cid)"
  unfolding mark_checkpoint_restored_def
  by (intro store_obeys transaction_obeys)
    (auto intro!: move_intros(6) neutral_types simp: checkpoint_fix_def)

lemma get_checkpoint_obeys: "obeys by_moves (get_checkpoint cid)"
  unfolding get_checkpoint_def by (intro store_obeys)

lemma list_checkpoints_obeys: "obeys by_moves (list_checkpoints pid sid oid)"
  unfolding list_checkpoints_def by (intro store_obeys)

lemma find_session_wip_checkpoint_obeys:
  "obeys by_moves (find_session_wip_checkpoint pid sid branch head)"
  unfolding find_session_wip_checkpoint_def by (intro store_obeys)

lemma list_audit_events_obeys: "obeys by_moves (list_audit_events oid)"
  unfolding list_audit_events_def by (intro store_obeys)

section \<open>Opening and closing\<close>

lemma modify_same_db: "(\<And>s. db (f s) = db s) \<Longrightarrow> obeys by_moves (modify f)"
  by (simp add: obeys_def by_moves_def)

lemma migrate_obeys: "obeys by_moves (migrate X v)"
  unfolding migrate_def by (intro store_obeys modify_same_db) simp

lemma initialize_obeys: "obeys by_moves (initialize X)"
  unfolding initialize_def by (intro store_obeys modify_same_db migrate_obeys) simp_all

lemma close_store_obeys: "obeys by_moves close_store"
  unfolding close_store_def by (intro modify_same_db) simp

lemmas store_methods_obey =
  create_session_obeys get_session_obeys get_session_auth_context_obeys transition_session_obeys
  close_active_sessions_obeys block_active_sessions_obeys recover_after_restart_obeys
  create_operation_obeys get_operation_obeys get_operation_by_client_request_id_obeys
  get_operations_by_client_request_id_obeys transition_operation_obeys
  record_operation_auth_context_obeys get_operation_auth_context_obeys create_approval_obeys
  consume_approval_obeys cancel_approval_obeys create_checkpoint_obeys finalize_checkpoint_obeys
  mark_checkpoint_restored_obeys get_checkpoint_obeys list_checkpoints_obeys
  find_session_wip_checkpoint_obeys list_audit_events_obeys initialize_obeys close_store_obeys

end
