(* ===== verification/StoreSafety.thy ===== *)
theory StoreSafety
  imports StoreRefine
begin

text \<open>
  What the store guarantees in every state its methods can reach, for every behaviour of the
  outside world: the safety properties of operations, sessions and approvals, read off the moves
  of \<open>StoreMoves\<close>.
\<close>

section \<open>Reachable states\<close>

datatype store_op =
    DoInitialize
  | DoClose
  | DoCreateSession string string string "json option"
  | DoTransitionSession string string "string option"
  | DoCloseActiveSessions string
  | DoBlockSessions string string
  | DoRecover
  | DoCreateOperation string string "string option" string string string string bool json
  | DoTransitionOperation string string "string option" "json option" "json option"
  | DoRecordAuth string json
  | DoCreateApproval string operation_rec string string string
  | DoConsumeApproval string string string
  | DoCancelApproval string string
  | DoCreateCheckpoint string string "string option" "string option" string string string string string json
  | DoFinalizeCheckpoint string json string
  | DoMarkRestored string

definition no_result :: "('s, exn, 'a) M \<Rightarrow> ('s, exn, unit) M" where
  "no_result m = andthen m (\<lambda>_. ret ())"

fun run_store :: "ext \<Rightarrow> store_op \<Rightarrow> ('z store_st_scheme, exn, unit) M" where
  "run_store X DoInitialize = initialize X"
| "run_store X DoClose = close_store"
| "run_store X (DoCreateSession a b c d) = no_result (create_session X a b c d)"
| "run_store X (DoTransitionSession a b c) = no_result (transition_session X a b c)"
| "run_store X (DoCloseActiveSessions a) = close_active_sessions X a"
| "run_store X (DoBlockSessions a b) = no_result (block_active_sessions_for_project X a b)"
| "run_store X DoRecover = no_result (recover_after_restart X)"
| "run_store X (DoCreateOperation a b c d e f g h i) = no_result (create_operation X a b c d e f g h i)"
| "run_store X (DoTransitionOperation a b c d e) = no_result (transition_operation X a b c d e)"
| "run_store X (DoRecordAuth a b) = record_operation_auth_context X a b"
| "run_store X (DoCreateApproval a b c d e) = create_approval X a b c d e"
| "run_store X (DoConsumeApproval a b c) = no_result (consume_approval X a b c)"
| "run_store X (DoCancelApproval a b) = cancel_approval X a b"
| "run_store X (DoCreateCheckpoint a b c d e f g h i j) = no_result (create_checkpoint X a b c d e f g h i j)"
| "run_store X (DoFinalizeCheckpoint a b c) = no_result (finalize_checkpoint X a b c)"
| "run_store X (DoMarkRestored a) = no_result (mark_checkpoint_restored X a)"

lemma run_store_obeys: "obeys by_moves (run_store X p)"
  by (cases p) (simp_all add: no_result_def store_methods_obey store_order.andthen_obeys
      store_order.ret_obeys)

text \<open>A run: any methods in any order, each returning or raising.\<close>

fun run_all :: "ext \<Rightarrow> store_op list \<Rightarrow> 'z store_st_scheme \<Rightarrow> 'z store_st_scheme" where
  "run_all X [] s = s"
| "run_all X (p # ps) s = run_all X ps (snd (run_store X p s))"

inductive reachable :: "ext \<Rightarrow> store_st \<Rightarrow> bool" for X where
  start: "db s = empty_dbase \<Longrightarrow> reachable X s"
| step: "reachable X s \<Longrightarrow> run_store X p s = (r, s') \<Longrightarrow> reachable X s'"

inductive_cases reachable_cases: "reachable X s"

lemma run_all_moves: "constraints_ok (db s) \<Longrightarrow> moves (db s) (db (run_all X ps s))"
proof (induction ps arbitrary: s)
  case (Cons p ps)
  have "by_moves s (snd (run_store X p s))"
    using run_store_obeys by (rule obeysD [OF _ prod.collapse [symmetric]])
  with Cons.prems have "moves (db s) (db (snd (run_store X p s)))" by (simp add: by_moves_def)
  with Cons show ?case by (auto intro: moves_trans dest: moves_constraints)
qed simp

lemma reachable_inv: "reachable X s \<Longrightarrow> store_inv (db s)"
proof (induction rule: reachable.induct)
  case (start s)
  then show ?case by (simp add: store_inv_empty)
next
  case (step s p r s')
  then show ?case
    using obeysD [OF run_store_obeys step.hyps(2)] store_inv_moves
    by (auto simp: by_moves_def store_inv_def)
qed

lemma run_all_reachable: "reachable X s \<Longrightarrow> reachable X (run_all X ps s)"
proof (induction ps arbitrary: s)
  case (Cons p ps)
  from reachable.step [OF Cons.prems prod.collapse [symmetric]] Cons.IH show ?case by simp
qed simp

section \<open>How rows evolve\<close>

definition op_reaches :: "op_state \<Rightarrow> op_state \<Rightarrow> bool" where
  "op_reaches a b \<longleftrightarrow> (\<lambda>x y. y \<in> set (OPERATION_TRANSITIONS x))\<^sup>*\<^sup>* a b"

definition session_reaches :: "session_status \<Rightarrow> session_status \<Rightarrow> bool" where
  "session_reaches a b \<longleftrightarrow> (\<lambda>x y. y \<in> set (SESSION_TRANSITIONS x))\<^sup>*\<^sup>* a b"

definition same_operation :: "operation_rec \<Rightarrow> operation_rec \<Rightarrow> bool" where
  "same_operation r q \<longleftrightarrow> o_operation_id q = o_operation_id r
     \<and> o_project_id q = o_project_id r \<and> o_session_id q = o_session_id r
     \<and> o_owner_id q = o_owner_id r \<and> o_client_request_id q = o_client_request_id r
     \<and> o_request_hash q = o_request_hash r \<and> o_kind q = o_kind r
     \<and> o_mutation q = o_mutation r \<and> o_input_json q = o_input_json r
     \<and> o_created_at q = o_created_at r"

lemma operation_row_insert:
  "operation_row k (add_events es (insert_operation r d)) =
     (case operation_row k d of Some q \<Rightarrow> Some q
      | None \<Rightarrow> if o_operation_id r = k then Some r else None)"
  by (simp add: operation_row_def find_keyed_append)

lemma operation_row_frame:
  "operation_row k (add_events es d) = operation_row k d"
  "operation_row k (set_session i f d) = operation_row k d"
  "operation_row k (set_approval i g d) = operation_row k d"
  "operation_row k (set_checkpoint i h d) = operation_row k d"
  "operation_row k (insert_session a d) = operation_row k d"
  "operation_row k (insert_approval b d) = operation_row k d"
  "operation_row k (insert_checkpoint c d) = operation_row k d"
  by (simp_all add: operation_row_def)

lemma operation_evolves_move:
  assumes "move d d'" and "operation_row k d = Some r"
  shows "\<exists>q. operation_row k d' = Some q \<and> same_operation r q
           \<and> (o_state q = o_state r \<or> o_state q \<in> set (OPERATION_TRANSITIONS (o_state r)))"
  using assms
proof cases
  case (operation_new p e)
  then show ?thesis using assms(2) by (simp add: operation_row_insert same_operation_def)
next
  case (operation_move oid p e ty st f)
  then show ?thesis using assms(2)
    by (auto simp: rows_set operation_fix_def same_operation_def)
next
  case (operation_touch oid p f)
  then show ?thesis using assms(2)
    by (auto simp: rows_set operation_fix_def same_operation_def)
qed (simp_all add: operation_row_frame same_operation_def)

lemma operation_evolves:
  "moves d d' \<Longrightarrow> operation_row k d = Some r \<Longrightarrow>
     \<exists>q. operation_row k d' = Some q \<and> same_operation r q \<and> op_reaches (o_state r) (o_state q)"
proof (induction rule: moves_induct)
  case refl
  then show ?case by (simp add: same_operation_def op_reaches_def)
next
  case (step x y)
  then obtain q where q: "operation_row k x = Some q" "same_operation r q"
      "op_reaches (o_state r) (o_state q)" by blast
  from operation_evolves_move [OF step.hyps(2) q(1)] obtain p where p: "operation_row k y = Some p"
      "same_operation q p" "o_state p = o_state q \<or> o_state p \<in> set (OPERATION_TRANSITIONS (o_state q))"
    by blast
  with q show ?case
    by (auto simp: same_operation_def op_reaches_def intro: rtranclp.rtrancl_into_rtrancl)
qed

lemma op_reaches_final: "op_reaches a b \<Longrightarrow> OPERATION_TRANSITIONS a = [] \<Longrightarrow> b = a"
  unfolding op_reaches_def by (auto elim: converse_rtranclpE)

lemma session_row_insert:
  "session_row k (add_events es (insert_session r d)) =
     (case session_row k d of Some q \<Rightarrow> Some q
      | None \<Rightarrow> if s_session_id r = k then Some r else None)"
  by (simp add: session_row_def find_keyed_append)

lemma session_row_frame:
  "session_row k (add_events es d) = session_row k d"
  "session_row k (set_operation i f d) = session_row k d"
  "session_row k (set_approval i g d) = session_row k d"
  "session_row k (set_checkpoint i h d) = session_row k d"
  "session_row k (insert_operation a d) = session_row k d"
  "session_row k (insert_approval b d) = session_row k d"
  "session_row k (insert_checkpoint c d) = session_row k d"
  by (simp_all add: session_row_def)

lemma session_evolves:
  "moves d d' \<Longrightarrow> session_row k d = Some r \<Longrightarrow>
     \<exists>q. session_row k d' = Some q \<and> s_project_id q = s_project_id r \<and> s_owner_id q = s_owner_id r
       \<and> session_reaches (s_status r) (s_status q)"
proof (induction rule: moves_induct)
  case refl
  then show ?case by (simp add: session_reaches_def)
next
  case (step x y)
  then obtain q where q: "session_row k x = Some q" "s_project_id q = s_project_id r"
      "s_owner_id q = s_owner_id r" "session_reaches (s_status r) (s_status q)" by blast
  from step.hyps(2) q(1) have "\<exists>p. session_row k y = Some p \<and> s_project_id p = s_project_id q
      \<and> s_owner_id p = s_owner_id q
      \<and> (s_status p = s_status q \<or> s_status p \<in> set (SESSION_TRANSITIONS (s_status q)))"
  proof cases
    case (session_new p e1 e2 es)
    then show ?thesis using q(1) by (simp add: session_row_insert)
  qed (auto simp: rows_set session_row_frame session_fix_def)
  with q show ?case
    by (auto simp: session_reaches_def intro: rtranclp.rtrancl_into_rtrancl)
qed

lemma session_reaches_final: "session_reaches a b \<Longrightarrow> SESSION_TRANSITIONS a = [] \<Longrightarrow> b = a"
  unfolding session_reaches_def by (auto elim: converse_rtranclpE)

lemma approval_row_insert:
  "approval_row k (add_events es (insert_approval r d)) =
     (case approval_row k d of Some q \<Rightarrow> Some q
      | None \<Rightarrow> if a_operation_id r = k then Some r else None)"
  by (simp add: approval_row_def find_keyed_append)

lemma approval_row_frame:
  "approval_row k (add_events es d) = approval_row k d"
  "approval_row k (set_session i f d) = approval_row k d"
  "approval_row k (set_operation i g d) = approval_row k d"
  "approval_row k (set_checkpoint i h d) = approval_row k d"
  "approval_row k (insert_session a d) = approval_row k d"
  "approval_row k (insert_operation b d) = approval_row k d"
  "approval_row k (insert_checkpoint c d) = approval_row k d"
  by (simp_all add: approval_row_def)

lemma approval_evolves_move:
  assumes "move d d'" and "approval_row k d = Some a"
  shows "\<exists>b. approval_row k d' = Some b \<and> a_token_hash b = a_token_hash a
       \<and> a_expires_at b = a_expires_at a \<and> (a_status a \<noteq> Pending \<longrightarrow> a_status b = a_status a)"
  using assms
proof cases
  case (approval_new p e sid)
  then show ?thesis using assms(2) by (simp add: approval_row_insert)
qed (auto simp: rows_set approval_row_frame approval_fix_def)

lemma approval_evolves:
  "moves d d' \<Longrightarrow> approval_row k d = Some a \<Longrightarrow>
     \<exists>b. approval_row k d' = Some b \<and> a_token_hash b = a_token_hash a
       \<and> a_expires_at b = a_expires_at a \<and> (a_status a \<noteq> Pending \<longrightarrow> a_status b = a_status a)"
proof (induction rule: moves_induct)
  case (step x y)
  then obtain b where b: "approval_row k x = Some b" "a_token_hash b = a_token_hash a"
    "a_expires_at b = a_expires_at a" "a_status a \<noteq> Pending \<longrightarrow> a_status b = a_status a" by blast
  from approval_evolves_move [OF step.hyps(2) b(1)] b show ?case by auto
qed simp

lemma replay_approval_status:
  "replay approval_status_name APPROVAL_TRANSITIONS Pending cur es = Some (Some st) \<Longrightarrow>
     cur \<noteq> Some Expired \<Longrightarrow> st \<noteq> Expired"
proof (induction approval_status_name APPROVAL_TRANSITIONS Pending cur es rule: replay.induct)
  case (3 a f t es)
  then show ?case by (cases a) (auto split: if_splits)
qed (auto split: if_splits)

lemma approval_never_expired:
  "store_inv d \<Longrightarrow> approval_row k d = Some a \<Longrightarrow> a_status a \<noteq> Expired"
  by (auto simp: store_inv_def approvals_tracked_def trace_of_approval_def
      dest!: spec [of _ k] dest: replay_approval_status)

section \<open>The properties\<close>

text \<open>
  A small world for the witnesses: the clock stands still, every random text is fresh because its
  length is the number of calls made so far, every commit succeeds, and no process can be started.
\<close>

definition demo_ext :: ext where
  "demo_ext = \<lparr>x_time = (\<lambda>h. 0), x_text = map (\<lambda>_. CHR ''i''), x_ok = (\<lambda>h. True),
     x_proc = (\<lambda>h. SpawnFailed), x_bytes = (\<lambda>h. None), x_worker = (\<lambda>h. WorkerFailed),
     x_stat = (\<lambda>h. None), x_kind = (\<lambda>h. IsFile), x_tree = (\<lambda>h. None),
     x_run = (\<lambda>h. RunTimedOut), x_lstat = (\<lambda>h. NoEntry), x_create = (\<lambda>h. Created),
     x_lookup = (\<lambda>h. None), x_sha256 = (\<lambda>b. replicate 64 (CHR ''0'')),
     x_format_g = (\<lambda>f. ''5''), x_millis = (\<lambda>f. 1000), x_normcase = (\<lambda>p. p),
     x_windows = False, x_toml = (\<lambda>h. Missing),
     x_darwin = False, x_own_group = 2, x_validation = (\<lambda>h. RequestFailed), x_http = (\<lambda>h. None),
     x_json = (\<lambda>h. None), x_int = (\<lambda>h. None),
     x_kill = (\<lambda>h. Signalled)\<rparr>"

definition demo_start :: store_st where
  "demo_start = \<lparr>log = [], db = empty_dbase, is_open = False, versions = []\<rparr>"

definition demo_op :: "string \<Rightarrow> string \<Rightarrow> bool \<Rightarrow> store_op" where
  "demo_op oid cid mutation =
     DoCreateOperation oid ''p'' None ''local-policy'' cid ''h'' ''k'' mutation (JObj [])"

lemma demo_start_reachable: "reachable demo_ext (run_all demo_ext ps demo_start)"
  by (intro run_all_reachable reachable.start) (simp add: demo_start_def)

lemma one_active:
  assumes "constraints_ok d"
  shows "length (filter (\<lambda>r. o_project_id r = p \<and> active_mutation r) (operations d)) \<le> 1"
proof -
  have "distinct (map o_project_id (filter active_mutation rs)) \<Longrightarrow>
      length (filter (\<lambda>r. o_project_id r = p \<and> active_mutation r) rs) \<le> 1" for rs
  proof (induction rs)
    case (Cons r rs)
    show ?case
    proof (cases "o_project_id r = p \<and> active_mutation r")
      case True
      with Cons.prems have "filter (\<lambda>r. o_project_id r = p \<and> active_mutation r) rs = []"
        by (auto simp: filter_empty_conv image_iff)
      with True show ?thesis by simp
    next
      case False
      with Cons show ?thesis by (auto split: if_splits)
    qed
  qed simp
  with assms show ?thesis by (simp add: constraints_ok_def)
qed


text \<open>C6: The audit trail replays: in every reachable state, following the recorded
  (from, to) states of an operation, of a session or of an approval from its creation is possible,
  takes only listed transitions, and ends in the state stored in its row; an id without a row
  has no trail.\<close>

theorem audit_trail_replays:
  assumes "reachable X s"
  shows "trace_of_operation (db s) oid = Some (map_option o_state (operation_row oid (db s)))
    \<and> trace_of_session (db s) sid = Some (map_option s_status (session_row sid (db s)))
    \<and> trace_of_approval (db s) oid = Some (map_option a_status (approval_row oid (db s)))"
  using reachable_inv [OF assms]
  by (simp add: store_inv_def operations_tracked_def sessions_tracked_def approvals_tracked_def)

text \<open>C7: Whatever methods run later, an operation keeps its identity, its input and its
  kind, its state moves along the transition table, and a state without successors is final.\<close>

theorem operation_lifecycle:
  assumes "reachable X s" and "operation_row oid (db s) = Some r"
  shows "\<exists>q. operation_row oid (db (run_all X ps s)) = Some q \<and> same_operation r q
    \<and> op_reaches (o_state r) (o_state q)
    \<and> (o_state r \<in> {Succeeded, Failed, OpCancelled} \<longrightarrow> o_state q = o_state r)"
proof -
  have "constraints_ok (db s)" using reachable_inv [OF assms(1)] by (simp add: store_inv_def)
  from operation_evolves [OF run_all_moves [OF this, of X ps] assms(2)] obtain q where
    q: "operation_row oid (db (run_all X ps s)) = Some q" "same_operation r q"
      "op_reaches (o_state r) (o_state q)" by blast
  with op_reaches_final [OF q(3)] show ?thesis by auto
qed

text \<open>C23: A closed or blocked session stays closed or blocked, and a session never changes
  project or owner.\<close>

theorem session_lifecycle:
  assumes "reachable X s" and "session_row sid (db s) = Some r"
  shows "\<exists>q. session_row sid (db (run_all X ps s)) = Some q
    \<and> s_project_id q = s_project_id r \<and> s_owner_id q = s_owner_id r
    \<and> session_reaches (s_status r) (s_status q)
    \<and> (s_status r \<in> {SClosed, SBlocked} \<longrightarrow> s_status q = s_status r)"
proof -
  have "constraints_ok (db s)" using reachable_inv [OF assms(1)] by (simp add: store_inv_def)
  from session_evolves [OF run_all_moves [OF this, of X ps] assms(2)] obtain q where
    q: "session_row sid (db (run_all X ps s)) = Some q" "s_project_id q = s_project_id r"
      "s_owner_id q = s_owner_id r" "session_reaches (s_status r) (s_status q)" by blast
  with session_reaches_final [OF q(4)] show ?thesis by auto
qed

text \<open>C24: Once an approval is consumed or cancelled it stays so and keeps its token, and no
  approval is ever stored as expired: the update of \<open>consume_approval\<close> that would store it is
  rolled back by the exception raised right after it.\<close>

theorem approval_lifecycle:
  assumes "reachable X s" and "approval_row oid (db s) = Some a"
  shows "\<exists>b. approval_row oid (db (run_all X ps s)) = Some b \<and> a_token_hash b = a_token_hash a
    \<and> a_status b \<noteq> Expired \<and> (a_status a \<noteq> Pending \<longrightarrow> a_status b = a_status a)"
proof -
  have "constraints_ok (db s)" using reachable_inv [OF assms(1)] by (simp add: store_inv_def)
  from approval_evolves [OF run_all_moves [OF this, of X ps] assms(2)]
  obtain b where "approval_row oid (db (run_all X ps s)) = Some b" "a_token_hash b = a_token_hash a"
    "a_status a \<noteq> Pending \<longrightarrow> a_status b = a_status a" by blast
  moreover have "store_inv (db (run_all X ps s))"
    using reachable_inv [OF run_all_reachable [OF assms(1)]] .
  ultimately show ?thesis using approval_never_expired by blast
qed

section \<open>Witnesses\<close>

lemmas store_eval = m_defs execute_def query_def require_connection_def transaction_def audit_def
  initialize_def migrate_def ask_def no_result_def demo_start_def demo_op_def demo_ext_def
  create_operation_def MIGRATIONS_def SCHEMA_VERSION_def empty_dbase_def constraints_ok_def
  idempotency_keys_def insert_operation_def insert_session_def insert_approval_def
  insert_checkpoint_def operation_row_def session_row_def approval_row_def checkpoint_row_def
  approval_join_def assert_some_def operation_of_row_def active_mutation_def
  ACTIVE_MUTATION_STATES_def same_request_def update_where_def set_session_def set_operation_def
  set_approval_def set_checkpoint_def transition_update_def session_update_def

definition demo_ops :: "store_op list" where
  "demo_ops = [DoInitialize, demo_op ''o1'' ''c1'' True, demo_op ''o2'' ''c2'' True]"


theorem audit_trail_replays_witness:
  "trace_of_operation (db (run_all demo_ext demo_ops demo_start)) ''o1'' = Some (Some Received)"
proof -
  have "map_option o_state (operation_row ''o1'' (db (run_all demo_ext demo_ops demo_start))) = Some Received"
    by (simp add: store_eval demo_ops_def)
  with audit_trail_replays [OF demo_start_reachable, of demo_ops "''o1''"] show ?thesis by simp
qed

definition demo_finish :: "store_op list" where
  "demo_finish = [DoTransitionOperation ''o1'' ''cancelled'' None None None]"

theorem operation_lifecycle_witness:
  "\<exists>q. operation_row ''o1'' (db (run_all demo_ext demo_finish (run_all demo_ext demo_ops demo_start)))
     = Some q \<and> op_reaches Received (o_state q)"
proof -
  obtain r where r: "operation_row ''o1'' (db (run_all demo_ext demo_ops demo_start)) = Some r"
    and "o_state r = Received"
    by (simp add: store_eval demo_ops_def)
  with operation_lifecycle [OF demo_start_reachable r, of demo_finish] show ?thesis by auto
qed

definition demo_session :: "store_op list" where
  "demo_session = [DoInitialize, DoCreateSession ''s1'' ''p'' ''local-policy'' None,
     DoBlockSessions ''p'' ''gone'']"

theorem session_lifecycle_witness:
  "\<exists>q. session_row ''s1'' (db (run_all demo_ext [DoTransitionSession ''s1'' ''active'' None]
     (run_all demo_ext demo_session demo_start))) = Some q \<and> s_status q = SBlocked"
proof -
  obtain r where r: "session_row ''s1'' (db (run_all demo_ext demo_session demo_start)) = Some r"
    and "s_status r = SBlocked"
    by (simp add: store_eval demo_session_def create_session_def block_active_sessions_for_project_def
        sessions_in_def get_session_def transition_session_def session_status_of_def SESSION_STATUSES_def)
  with session_lifecycle [OF demo_start_reachable r, of
      "[DoTransitionSession ''s1'' ''active'' None]"]
  show ?thesis by auto
qed

definition demo_row :: operation_rec where
  "demo_row = \<lparr>o_operation_id = ''o1'', o_project_id = ''p'', o_session_id = None,
     o_owner_id = ''local-policy'', o_client_request_id = ''c1'', o_request_hash = ''h'',
     o_kind = ''k'', o_state = Received, o_mutation = True, o_input_json = JText (JObj []),
     o_result_json = None, o_error_json = None, o_created_at = iso 0, o_updated_at = iso 0,
     o_started_at = None, o_finished_at = None\<rparr>"

definition demo_approval :: "store_op list" where
  "demo_approval = [DoInitialize, demo_op ''o1'' ''c1'' True,
     DoCreateApproval ''a1'' demo_row ''act'' ''tok'' (iso 5), DoConsumeApproval ''o1'' ''tok'' (iso 2)]"

lemma iso_5_2: "\<not> iso 5 \<le> iso 2"
  using iso_less [of 2 5] TIME_LIMIT_ge by simp

theorem approval_lifecycle_witness:
  "\<exists>b. approval_row ''o1'' (db (run_all demo_ext [DoCancelApproval ''o1'' ''late'']
     (run_all demo_ext demo_approval demo_start))) = Some b \<and> a_status b = Consumed"
proof -
  obtain a where a: "approval_row ''o1'' (db (run_all demo_ext demo_approval demo_start)) = Some a"
    and "a_status a = Consumed"
    by (simp add: store_eval demo_approval_def create_approval_def consume_approval_def demo_row_def
        iso_5_2)
  with approval_lifecycle [OF demo_start_reachable a, of "[DoCancelApproval ''o1'' ''late'']"]
  show ?thesis by auto
qed

end
