(* ===== verification/StoreSpec.thy ===== *)
theory StoreSpec
  imports StoreSafety
begin

text \<open>
  Functional behaviour of the store's methods: what each returns or raises and what it leaves in
  the tables, on every branch.
\<close>

section \<open>Transactions all or nothing\<close>

lemma transaction_error_db: "transaction X body s = (Inl e, s') \<Longrightarrow> db s' = db s"
  by (erule transaction_cases) auto

lemma transaction_success:
  assumes "transaction X body s = (Inr x, s')"
  obtains l s2 where "is_open s" "body (s\<lparr>log := l\<rparr>) = (Inr x, s2)" "db s' = db s2"
  using assms
  by (cases "body (s\<lparr>log := DbBegin # log s\<rparr>)")
    (auto simp: transaction_def require_connection_def andthen_def split: if_splits sum.splits)

text \<open>An error of the transaction is an error of its body, or of opening or committing it.\<close>

definition db_failure :: "exn \<Rightarrow> bool" where
  "db_failure e = (e = OperationalErr \<or> e = PersistenceErr ''database is not initialized'')"

lemma transaction_error:
  assumes "transaction X body s = (Inl e, s')"
  shows "db_failure e \<or> (\<exists>l s2. body (s\<lparr>log := l\<rparr>) = (Inl e, s2))"
  using assms
  by (cases "body (s\<lparr>log := DbBegin # log s\<rparr>)")
    (auto simp: transaction_def require_connection_def andthen_def db_failure_def
      split: if_splits sum.splits)

text \<open>\<open>raises m s E\<close>: if \<open>m\<close> started in \<open>s\<close> raises, the exception satisfies \<open>E\<close>.\<close>

definition raises :: "('s, 'e, 'a) M \<Rightarrow> 's \<Rightarrow> ('e \<Rightarrow> bool) \<Rightarrow> bool" where
  "raises m s E \<longleftrightarrow> (\<forall>e s'. m s = (Inl e, s') \<longrightarrow> E e)"

lemma raisesD: "raises m s E \<Longrightarrow> m s = (Inl e, s') \<Longrightarrow> E e"
  by (simp add: raises_def)

lemma raises_simps [simp]:
  "raises (ret x) s E" "raises (raise e) s E = E e" "raises (gets f) s E" "raises (query g) s' E'"
  "raises (require b e) s E = (b \<or> E e)" "raises (ask c) t E''"
  "raises (utc_now X) t E''" "raises (uuid4_hex X) t E''"
  by (auto simp: raises_def query_def)

lemma raises_andthen [simp]:
  "raises (andthen m f) s E = (raises m s E \<and> returns m s (\<lambda>x t. raises (f x) t E))"
  by (auto simp: raises_def returns_def andthen_eq_Inl)

lemma raises_if [simp]:
  "raises (if b then m else n) s E = ((b \<longrightarrow> raises m s E) \<and> (\<not> b \<longrightarrow> raises n s E))"
  by simp

lemma raises_case_option [simp]:
  "raises (case x of None \<Rightarrow> m | Some y \<Rightarrow> f y) s E =
     ((x = None \<longrightarrow> raises m s E) \<and> (\<forall>y. x = Some y \<longrightarrow> raises (f y) s E))"
  by (cases x) auto

lemma raises_case_prod [simp]:
  "raises (case x of (a, b) \<Rightarrow> f a b) s E = (\<forall>a b. x = (a, b) \<longrightarrow> raises (f a b) s E)"
  by (cases x) auto

lemma raises_execute [simp]: "raises (execute f) s E = (\<not> constraints_ok (f (db s)) \<longrightarrow> E IntegrityErr)"
  by (simp add: raises_def execute_def Let_def)

lemma raises_audit [simp]:
  "raises (audit X oid pid sid owner ty fr t dt) s E =
     (\<not> constraints_ok (add_events [audit_entry X (log s) oid pid sid owner ty fr t dt] (db s))
      \<longrightarrow> E IntegrityErr)"
  by (simp add: audit_def add_events_def audit_entry_def)

lemma transaction_raises:
  assumes "\<And>l. raises body (s\<lparr>log := l\<rparr>) E" and "\<And>e. db_failure e \<Longrightarrow> E e"
  shows "raises (transaction X body) s E"
  unfolding raises_def
proof (intro allI impI)
  fix e s'
  assume "transaction X body s = (Inl e, s')"
  then show "E e" using transaction_error assms raisesD by metis
qed

lemma transaction_returns:
  assumes "\<And>l. is_open s \<Longrightarrow> returns body (s\<lparr>log := l\<rparr>) (\<lambda>x t. Q x (db t))"
  shows "returns (transaction X body) s (\<lambda>x t. Q x (db t))"
  unfolding returns_def
proof (intro allI impI)
  fix x s'
  assume "transaction X body s = (Inr x, s')"
  then obtain l s2 where "is_open s" "body (s\<lparr>log := l\<rparr>) = (Inr x, s2)" "db s' = db s2"
    by (rule transaction_success)
  then show "Q x (db s')" using assms returnsD by metis
qed

text \<open>A transaction followed by a computation on its result that touches no row: an error
  leaves the tables alone when the computation cannot fail.\<close>

lemma raises_assert_some [simp]: "raises (assert_some r) s E = (r = None \<longrightarrow> E OtherErr)"
  by (cases r) (simp_all add: assert_some_def)

lemma transaction_then_fails:
  assumes run: "andthen (transaction X body) f s = (Inl e, s')"
    and result: "\<And>l. returns body (s\<lparr>log := l\<rparr>) (\<lambda>x t. P x)"
    and total: "\<And>x t. P x \<Longrightarrow> raises (f x) t (\<lambda>_. False)"
    and error: "\<And>l. raises body (s\<lparr>log := l\<rparr>) E"
  shows "db s' = db s \<and> (db_failure e \<or> E e)"
proof -
  have "transaction X body s = (Inl e, s')"
  proof (rule ccontr)
    assume "transaction X body s \<noteq> (Inl e, s')"
    with run obtain x t where tx: "transaction X body s = (Inr x, t)" and f: "f x t = (Inl e, s')"
      by (auto simp: andthen_eq_Inl)
    from tx obtain l s2 where "body (s\<lparr>log := l\<rparr>) = (Inr x, s2)" by (rule transaction_success)
    with result have "P x" by (blast dest: returnsD)
    from raisesD [OF total [OF this] f] show False .
  qed
  then have "db s' = db s" and "db_failure e \<or> (\<exists>l s2. body (s\<lparr>log := l\<rparr>) = (Inl e, s2))"
    by (rule transaction_error_db, rule transaction_error)
  with error show ?thesis by (blast dest: raisesD)
qed

section \<open>Creating an operation\<close>

definition the_new_operation ::
  "string \<Rightarrow> string \<Rightarrow> string option \<Rightarrow> string \<Rightarrow> string \<Rightarrow> string \<Rightarrow> string \<Rightarrow> bool \<Rightarrow> json \<Rightarrow> string
   \<Rightarrow> operation_rec" where
  "the_new_operation oid pid sid owner cid hash kind mutation input now =
     \<lparr>o_operation_id = oid, o_project_id = pid, o_session_id = sid, o_owner_id = owner,
       o_client_request_id = cid, o_request_hash = hash, o_kind = kind, o_state = Received,
       o_mutation = mutation, o_input_json = JText input, o_result_json = None,
       o_error_json = None, o_created_at = now, o_updated_at = now, o_started_at = None,
       o_finished_at = None\<rparr>"

lemma find_same_request:
  "find (same_request pid sid cid) rs = Some r \<Longrightarrow> r \<in> set rs \<and> same_request pid sid cid r"
  by (auto simp: find_Some_iff)

lemma operation_row_new:
  assumes "constraints_ok (insert_operation r d)"
  shows "operation_row (o_operation_id r) (add_events es (insert_operation r d)) = Some r"
proof -
  have "operation_row (o_operation_id r) d = None"
    using fresh_insert(2) [OF assms] by (simp add: operation_row_def find_keyed_None)
  then show ?thesis by (simp add: operation_row_insert)
qed

lemma new_operation_row:
  "constraints_ok (insert_operation (the_new_operation oid pid sid owner cid hash kind mutation input now) d) \<Longrightarrow>
   operation_row oid (add_events es (insert_operation
       (the_new_operation oid pid sid owner cid hash kind mutation input now) d)) =
     Some (the_new_operation oid pid sid owner cid hash kind mutation input now)"
  using operation_row_new [where r = "the_new_operation oid pid sid owner cid hash kind mutation input now"]
  by (simp add: the_new_operation_def)

text \<open>What a successful call means, for a replay and for a new operation.\<close>

definition created ::
  "string \<Rightarrow> string \<Rightarrow> string option \<Rightarrow> string \<Rightarrow> string \<Rightarrow> string \<Rightarrow> string \<Rightarrow> bool \<Rightarrow> json
   \<Rightarrow> dbase \<Rightarrow> operation_rec \<Rightarrow> bool \<Rightarrow> dbase \<Rightarrow> bool" where
  "created oid pid sid owner cid hash kind mutation input d q replayed d' \<longleftrightarrow>
     (if replayed
      then d' = d \<and> (\<exists>r \<in> set (operations d). same_request pid sid cid r \<and> q = operation_of_row r)
      else (\<forall>r \<in> set (operations d). \<not> same_request pid sid cid r)
        \<and> (mutation \<longrightarrow> (\<forall>r \<in> set (operations d). \<not> (o_project_id r = pid \<and> active_mutation r)))
        \<and> (\<exists>now e. event_is e (Some oid) sid ''operation.created'' None (Some ''received'')
             \<and> d' = add_events [e] (insert_operation
                 (the_new_operation oid pid sid owner cid hash kind mutation input now) d)
             \<and> q = operation_of_row (the_new_operation oid pid sid owner cid hash kind mutation input now)))"

lemma create_operation_returns:
  "returns (create_operation X oid pid sid owner cid hash kind mutation input) s
     (\<lambda>(q, replayed) t. created oid pid sid owner cid hash kind mutation input (db s) q replayed (db t))"
  unfolding create_operation_def returns_andthen the_new_operation_def [symmetric]
  by (rule returns_mono, rule transaction_returns [where Q = "\<lambda>(row, replayed) d.
        \<exists>r. row = Some r \<and> created oid pid sid owner cid hash kind mutation input (db s)
          (operation_of_row r) replayed d"])
    (auto simp: created_def new_operation_row find_None_iff dest!: find_same_request
      intro: event_is_audit_entry)

definition conflict_of :: "string \<Rightarrow> string option \<Rightarrow> string \<Rightarrow> bool \<Rightarrow> dbase \<Rightarrow> exn \<Rightarrow> bool" where
  "conflict_of pid sid cid mutation d e \<longleftrightarrow>
     mutation \<and> (\<forall>r \<in> set (operations d). \<not> same_request pid sid cid r)
     \<and> (\<exists>r \<in> set (operations d). o_project_id r = pid \<and> active_mutation r
           \<and> e = ActiveOperationConflict (operation_of_row r))"

lemma create_operation_fails:
  assumes "create_operation X oid pid sid owner cid hash kind mutation input s = (Inl e, s')"
  shows "db s' = db s \<and> (db_failure e \<or> e = IntegrityErr \<or> conflict_of pid sid cid mutation (db s) e)"
proof -
  have "db s' = db s \<and> (db_failure e \<or> (e = IntegrityErr \<or> conflict_of pid sid cid mutation (db s) e))"
    using assms unfolding create_operation_def the_new_operation_def [symmetric]
    by (rule transaction_then_fails [where P = "\<lambda>x. fst x \<noteq> None"])
      (auto simp: new_operation_row conflict_of_def find_None_iff find_Some_iff split: prod.splits)
  then show ?thesis by simp
qed

text \<open>C25: \<open>create_operation\<close>, on every branch.  A call that returns either replays the row
  stored under the same project, session and request key and changes nothing, or adds exactly
  the new row, in state received, with its audit event, and then no row had that key and, for a
  mutation, no mutation of the project was active.  A call that raises changes nothing, and
  raises the conflict error only when a mutation finds an active one and no row has the key.\<close>

theorem create_operation_outcome:
  assumes "create_operation X oid pid sid owner cid hash kind mutation input s = (r, s')"
  shows "case r of
      Inr (q, replayed) \<Rightarrow>
        created oid pid sid owner cid hash kind mutation input (db s) q replayed (db s')
    | Inl e \<Rightarrow> db s' = db s
        \<and> (db_failure e \<or> e = IntegrityErr \<or> conflict_of pid sid cid mutation (db s) e)"
proof (cases r)
  case (Inl e)
  with assms have "create_operation X oid pid sid owner cid hash kind mutation input s = (Inl e, s')"
    by simp
  from create_operation_fails [OF this] Inl show ?thesis by simp
next
  case (Inr x)
  with assms have "create_operation X oid pid sid owner cid hash kind mutation input s = (Inr x, s')"
    by simp
  from returnsD [OF create_operation_returns this] Inr show ?thesis by (cases x) simp
qed

section \<open>Moving an operation\<close>

definition may_move :: "op_state \<Rightarrow> string option \<Rightarrow> operation_rec \<Rightarrow> bool" where
  "may_move to' expected r \<longleftrightarrow>
     (expected = None \<or> expected = Some (op_state_name (o_state r)))
     \<and> (to' = o_state r \<or> to' \<in> set (OPERATION_TRANSITIONS (o_state r)))"

lemma operation_row_transition:
  "operation_row oid d = Some r \<Longrightarrow>
     operation_row oid (add_events es (set_operation oid (transition_update to' now result error r) d))
       = Some (transition_update to' now result error r r)"
  by (simp add: operation_row_def find_update_where transition_update_def)

lemmas operation_row_transition' = operation_row_transition [where es = "[]", simplified]

lemma transition_operation_returns:
  "returns (transition_operation X oid (op_state_name to') expected result error) s
     (\<lambda>q t. \<exists>r now. operation_row oid (db s) = Some r \<and> may_move to' expected r
        \<and> q = operation_of_row (transition_update to' now result error r r)
        \<and> operation_row oid (db t) = Some (transition_update to' now result error r r))"
  unfolding transition_operation_def op_state_of_name option.case returns_andthen
  by (rule returns_mono, rule transaction_returns [where Q = "\<lambda>row d.
        \<exists>r now. operation_row oid (db s) = Some r \<and> may_move to' expected r
          \<and> row = Some (transition_update to' now result error r r) \<and> operation_row oid d = row"])
    (auto simp: may_move_def operation_row_transition operation_row_transition')

definition move_refused :: "string \<Rightarrow> op_state \<Rightarrow> string option \<Rightarrow> dbase \<Rightarrow> exn \<Rightarrow> bool" where
  "move_refused oid to' expected d e \<longleftrightarrow>
     (case operation_row oid d of
        None \<Rightarrow> e = PersistenceErr ''operation not found''
      | Some r \<Rightarrow> \<not> may_move to' expected r \<and> (\<exists>msg. e = InvalidTransition msg))"

lemma transition_operation_fails:
  assumes "transition_operation X oid (op_state_name to') expected result error s = (Inl e, s')"
  shows "db s' = db s \<and> (db_failure e \<or> (e = IntegrityErr \<or> move_refused oid to' expected (db s) e))"
  using assms unfolding transition_operation_def op_state_of_name option.case
  by (rule transaction_then_fails [where P = "\<lambda>x. x \<noteq> None"])
    (auto simp: move_refused_def may_move_def operation_row_transition operation_row_transition'
      split: option.splits)

text \<open>\<open>transition_operation\<close>, on every branch: it returns only for a stored operation whose
  state is the expected one and has the requested state as itself or as a listed successor, and
  then exactly the columns of \<open>transition_update\<close> change; otherwise it raises, names the reason,
  and leaves the tables alone.\<close>

theorem transition_operation_outcome:
  assumes "transition_operation X oid (op_state_name to') expected result error s = (r, s')"
  shows "case r of
      Inr q \<Rightarrow> \<exists>row now. operation_row oid (db s) = Some row \<and> may_move to' expected row
        \<and> q = operation_of_row (transition_update to' now result error row row)
        \<and> operation_row oid (db s') = Some (transition_update to' now result error row row)
    | Inl e \<Rightarrow> db s' = db s \<and> (db_failure e \<or> e = IntegrityErr \<or> move_refused oid to' expected (db s) e)"
proof (cases r)
  case (Inl e)
  with assms have "transition_operation X oid (op_state_name to') expected result error s = (Inl e, s')"
    by simp
  from transition_operation_fails [OF this] Inl show ?thesis by simp
next
  case (Inr q)
  with assms have "transition_operation X oid (op_state_name to') expected result error s = (Inr q, s')"
    by simp
  from returnsD [OF transition_operation_returns this] Inr show ?thesis by simp
qed

section \<open>Consuming an approval\<close>

definition consumed :: "string \<Rightarrow> approval_rec \<Rightarrow> approval_rec" where
  "consumed now a = a\<lparr>a_status := Consumed, a_consumed_at := Some now\<rparr>"

definition usable :: "string \<Rightarrow> string \<Rightarrow> approval_rec \<Rightarrow> bool" where
  "usable hash now a \<longleftrightarrow> a_token_hash a = hash \<and> a_status a = Pending \<and> now < a_expires_at a"

text \<open>The reason for a refusal, in the order the code checks.\<close>

definition approval_refusal :: "string \<Rightarrow> string \<Rightarrow> string \<Rightarrow> dbase \<Rightarrow> exn option" where
  "approval_refusal oid hash now d =
     (case approval_join oid d of
        None \<Rightarrow> Some ApprovalNotFound
      | Some (a, r) \<Rightarrow>
          if a_token_hash a \<noteq> hash then Some ApprovalTokenMismatch
          else if a_status a = Expired then Some ApprovalExpired
          else if a_status a \<noteq> Pending then Some ApprovalAlreadyUsed
          else if a_expires_at a \<le> now then Some ApprovalExpired
          else None)"

lemma approval_row_consume:
  "approval_row oid d = Some a \<Longrightarrow>
     approval_row oid (add_events es (set_approval oid (\<lambda>x. x\<lparr>a_status := Consumed, a_consumed_at := Some now\<rparr>) d))
       = Some (consumed now a)"
  by (simp add: approval_row_def find_update_where consumed_def)

lemma consume_approval_returns:
  "returns (consume_approval X oid hash now) s
     (\<lambda>q t. \<exists>a r. approval_join oid (db s) = Some (a, r) \<and> usable hash now a
        \<and> q = operation_of_row r
        \<and> approval_row oid (db t) = Some (consumed now a) \<and> operations (db t) = operations (db s))"
  unfolding consume_approval_def returns_andthen
  by (rule returns_mono, rule transaction_returns [where Q = "\<lambda>row d.
        \<exists>a r. approval_join oid (db s) = Some (a, r) \<and> usable hash now a
          \<and> row = Some r
          \<and> approval_row oid d = Some (consumed now a) \<and> operations d = operations (db s)"])
    (auto simp: usable_def operation_row_frame not_le approval_row_consume
      dest: approval_join_Some)

lemma consume_approval_fails:
  assumes "consume_approval X oid hash now s = (Inl e, s')"
  shows "db s' = db s \<and> (db_failure e \<or> (e = IntegrityErr \<or> approval_refusal oid hash now (db s) = Some e))"
  using assms unfolding consume_approval_def
  by (rule transaction_then_fails [where P = "\<lambda>x. x \<noteq> None"])
    (auto simp: approval_refusal_def operation_row_frame dest!: approval_join_Some split: option.splits)

text \<open>\<open>consume_approval\<close>, on every branch: it returns the operation of the approval only
  when the token hash is the stored one, the approval is pending and its expiry lies in the
  future, and then the approval is stored as consumed; every refusal leaves the tables exactly as
  they were, the refusal of an expired approval included, and is the first failing check.\<close>

theorem consume_approval_outcome:
  assumes "consume_approval X oid hash now s = (r, s')"
  shows "case r of
      Inr q \<Rightarrow> \<exists>a row. approval_join oid (db s) = Some (a, row) \<and> usable hash now a
        \<and> q = operation_of_row row \<and> approval_row oid (db s') = Some (consumed now a)
        \<and> operations (db s') = operations (db s)
    | Inl e \<Rightarrow> db s' = db s
        \<and> (db_failure e \<or> e = IntegrityErr \<or> approval_refusal oid hash now (db s) = Some e)"
proof (cases r)
  case (Inl e)
  with assms have "consume_approval X oid hash now s = (Inl e, s')" by simp
  from consume_approval_fails [OF this] Inl show ?thesis by simp
next
  case (Inr q)
  with assms have "consume_approval X oid hash now s = (Inr q, s')" by simp
  from returnsD [OF consume_approval_returns this] Inr show ?thesis by auto
qed

section \<open>Recovery\<close>

lemma recover_after_restart_returns:
  "constraints_ok (db s) \<Longrightarrow>
     returns (recover_after_restart X) s (\<lambda>_ t. recovered_from (db s) (db t))"
  unfolding recover_after_restart_def
  by (rule transaction_returns [where Q = "\<lambda>_ d. recovered_from (db s) d"])
    (rule returns_mono [OF recover_body_returns], auto)

text \<open>After a successful recovery no session is active or closing, no operation is short of
  a final state other than unknown, and no approval is pending; an interrupted operation is
  cancelled when it was waiting for an approval, unknown when it was a mutation already
  dispatched or running, failed otherwise, and every other operation keeps its state.  A failed
  recovery changes nothing.\<close>

theorem recovery_outcome:
  assumes "reachable X s" and "recover_after_restart X s = (r, s')"
  shows "case r of
      Inr _ \<Rightarrow> (\<forall>q \<in> set (sessions (db s')). s_status q \<notin> {SActive, SClosing})
        \<and> (\<forall>q \<in> set (operations (db s')). o_state q \<in> set TERMINAL_OPERATION_STATES)
        \<and> (\<forall>a \<in> set (approvals (db s')). a_status a \<noteq> Pending)
        \<and> (\<forall>oid. map_option o_state (operation_row oid (db s')) =
             map_option (\<lambda>q. if o_state q \<in> set INTERRUPTED_STATES then recovery_state q else o_state q)
               (operation_row oid (db s)))
    | Inl _ \<Rightarrow> db s' = db s"
proof (cases r)
  case (Inl e)
  with assms(2) show ?thesis by (simp add: recover_after_restart_def transaction_error_db)
next
  case (Inr acc)
  have "constraints_ok (db s)" using reachable_inv [OF assms(1)] by (simp add: store_inv_def)
  from returnsD [OF recover_after_restart_returns [OF this] assms(2) [unfolded Inr]]
  have rec: "recovered_from (db s) (db s')" .
  have final: "st \<in> set TERMINAL_OPERATION_STATES" if "st \<notin> set INTERRUPTED_STATES" for st
    using that by (cases st) (auto simp: INTERRUPTED_STATES_def TERMINAL_OPERATION_STATES_def)
  from rec final Inr show ?thesis
    by (auto simp: recovered_from_def sessions_in_def filter_empty_conv)
qed

section \<open>Finding the variants of a request id\<close>

lemma replace_char_Cons: "replace_char c r (x # xs) = (if x = c then r else [x]) @ replace_char c r xs"
  by (simp add: replace_char_def)

lemma replace_char_append: "replace_char c r (xs @ ys) = replace_char c r xs @ replace_char c r ys"
  by (simp add: replace_char_def)

lemma replace_char_Nil [simp]: "replace_char c r [] = []"
  by (simp add: replace_char_def)

lemma like_escape_Cons:
  "like_escape (c # cs) =
     (if c \<in> {CHR ''%'', CHR ''_'', backslash} then [backslash, c] else [c]) @ like_escape cs"
  by (auto simp: like_escape_def replace_char_Cons replace_char_append backslash_def)

text \<open>An escaped text matches itself, and a leading percent sign skips any text.\<close>

lemma like_escape_self: "like (like_escape cid) cid"
proof (induction cid)
  case Nil
  then show ?case by (simp add: like_escape_def)
next
  case (Cons c cs)
  then show ?case by (auto simp: like_escape_Cons backslash_def)
qed

lemma like_percent: "like p t \<Longrightarrow> like (CHR ''%'' # p) (ns @ t)"
  by (induction ns) (cases t; auto)+

lemma like_variant: "like (''%'' @ [REPLAY_KEY_SEPARATOR] @ like_escape cid) (ns @ [REPLAY_KEY_SEPARATOR] @ cid)"
proof -
  have "like ([REPLAY_KEY_SEPARATOR] @ like_escape cid) ([REPLAY_KEY_SEPARATOR] @ cid)"
    using like_escape_self by (simp add: REPLAY_KEY_SEPARATOR_def backslash_def)
  from like_percent [OF this, of ns] show ?thesis by (simp only: append.simps)
qed

declare like.simps [simp del]

text \<open>The query for the namespace variants of a request id prefilters with LIKE on an escaped
  pattern and filters again in Python; together they return exactly the operations of the project
  and session whose caller-visible request id is the given one, whatever characters the id
  contains, ordered by creation time and id.\<close>

theorem request_variants_exact:
  "get_operations_by_client_request_id pid sid cid s =
     (if is_open s
      then (Inr (map operation_of_row (operation_order (filter
             (\<lambda>r. o_project_id r = pid \<and> o_session_id r = sid
                  \<and> decode_replay_key (o_client_request_id r) = cid) (operations (db s))))), s)
      else (Inl (PersistenceErr ''database is not initialized''), s))"
proof -
  have exact: "(o_client_request_id (operation_of_row r) = cid \<and>
       (o_client_request_id r = cid \<or> like (''%'' @ [REPLAY_KEY_SEPARATOR] @ like_escape cid) (o_client_request_id r)))
     = (decode_replay_key (o_client_request_id r) = cid)" for r
  proof -
    have "o_client_request_id r = cid
        \<or> like (''%'' @ [REPLAY_KEY_SEPARATOR] @ like_escape cid) (o_client_request_id r)"
      if "decode_replay_key (o_client_request_id r) = cid"
      using decode_replay_key_cases [OF that] like_variant by metis
    then show ?thesis by (auto simp: operation_of_row_def)
  qed
  have "filter (\<lambda>r. o_client_request_id r = cid) (map operation_of_row (operation_order (filter
        (\<lambda>r. o_project_id r = pid \<and> o_session_id r = sid
             \<and> (o_client_request_id r = cid
                \<or> like (''%'' @ [REPLAY_KEY_SEPARATOR] @ like_escape cid)
                       (o_client_request_id r))) (operations (db s)))))
    = map operation_of_row (operation_order (filter
             (\<lambda>r. o_project_id r = pid \<and> o_session_id r = sid
                  \<and> decode_replay_key (o_client_request_id r) = cid) (operations (db s))))"
    unfolding operation_order_def filter_map comp_def filter_sort filter_filter
    using exact by (metis (no_types, lifting))
  then show ?thesis
    by (simp add: get_operations_by_client_request_id_def require_connection_def query_def andthen_def)
qed

section \<open>Evidence of a session's work in progress\<close>

lemma find_rev_sorted:
  assumes "find P (rev (sort_key f xs)) = Some x"
  shows "x \<in> set xs \<and> P x \<and> (\<forall>y \<in> set xs. P y \<longrightarrow> f y \<le> f x)"
proof -
  obtain i where i: "i < length xs" "P (rev (sort_key f xs) ! i)" "x = rev (sort_key f xs) ! i"
    "\<And>j. j < i \<Longrightarrow> \<not> P (rev (sort_key f xs) ! j)"
    using assms by (auto simp: find_Some_iff)
  have mem: "x \<in> set xs"
    using i(1,3) by (metis length_rev length_sort nth_mem set_rev set_sort)
  have "f y \<le> f x" if "y \<in> set xs" "P y" for y
  proof -
    from that(1) obtain j where j: "j < length xs" "y = rev (sort_key f xs) ! j"
      by (metis in_set_conv_nth length_rev length_sort set_rev set_sort)
    with that(2) i(4) have "i \<le> j" by (meson not_le)
    have "sorted (rev (map f (rev (sort_key f xs))))" by (simp add: rev_map [symmetric])
    then have "\<forall>a b. a \<le> b \<longrightarrow> b < length xs \<longrightarrow> map f (rev (sort_key f xs)) ! b \<le> map f (rev (sort_key f xs)) ! a"
      by (simp add: sorted_rev_iff_nth_mono)
    with \<open>i \<le> j\<close> j i show ?thesis by simp
  qed
  with mem i show ?thesis by simp
qed

lemma wip_evidenceD:
  "wip_evidence branch head c \<Longrightarrow> \<exists>before after bh ah.
     c_before_json c = JText before \<and> c_after_json c = Some (JText after)
     \<and> jget before ''head'' = Some (JStr bh) \<and> jget after ''head'' = Some (JStr ah)
     \<and> lower (c_head c) = lower bh \<and> lower ah = lower head \<and> lower bh \<noteq> lower ah
     \<and> c_branch c = branch \<and> jget after ''branch'' = Some (JStr branch)
     \<and> jget after ''dirty'' = Some (JBool False)"
  by (auto simp: wip_evidence_def split: jtext.splits option.splits)

text \<open>Evidence for amending a session's work in progress.  A checkpoint found for a session,
  a branch and a head was made by a succeeded mutation of that project and session, of a session
  that is still active, and both belong to the local policy; its recorded state after the
  mutation is clean, on that branch and at that head, and the mutation moved the head; among all
  checkpoints with these qualities it is the latest.  When none is found there is none.\<close>

theorem wip_checkpoint_evidence:
  assumes "find_session_wip_checkpoint pid sid branch head s = (Inr res, s')"
    and "is_git_head head" and "branch \<noteq> []"
  shows "s' = s \<and> (case res of
      None \<Rightarrow> \<forall>c \<in> set (checkpoints (db s)). \<not> (wip_candidate pid sid (db s) c \<and> wip_evidence branch head c)
    | Some c \<Rightarrow> c \<in> set (checkpoints (db s))
        \<and> (\<exists>oid r ses before after bh ah. c_operation_id c = Some oid
            \<and> operation_row oid (db s) = Some r \<and> o_state r = Succeeded \<and> o_mutation r
            \<and> o_project_id r = pid \<and> o_session_id r = Some sid \<and> o_owner_id r = ''local-policy''
            \<and> session_row sid (db s) = Some ses \<and> s_status ses = SActive \<and> s_project_id ses = pid
            \<and> c_before_json c = JText before \<and> c_after_json c = Some (JText after)
            \<and> jget before ''head'' = Some (JStr bh) \<and> jget after ''head'' = Some (JStr ah)
            \<and> lower (c_head c) = lower bh \<and> lower ah = lower head \<and> lower bh \<noteq> lower ah
            \<and> c_branch c = branch \<and> jget after ''dirty'' = Some (JBool False))
        \<and> (\<forall>c' \<in> set (checkpoints (db s)).
              wip_candidate pid sid (db s) c' \<and> wip_evidence branch head c' \<longrightarrow>
              (c_created_at c', c_checkpoint_id c') \<le> (c_created_at c, c_checkpoint_id c)))"
proof -
  let ?rows = "filter (wip_candidate pid sid (db s)) (checkpoints (db s))"
  let ?key = "\<lambda>c. (c_created_at c, c_checkpoint_id c)"
  have res: "s' = s" "res = find (wip_evidence branch head) (rev (sort_key ?key ?rows))"
    using assms by (auto simp: find_session_wip_checkpoint_def require_connection_def query_def
        andthen_def split: if_splits)
  show ?thesis
  proof (cases res)
    case None
    with res(2) have "find (wip_evidence branch head) (rev (sort_key ?key ?rows)) = None" by simp
    with None res(1) show ?thesis by (auto simp: find_None_iff)
  next
    case (Some c)
    with res have c: "c \<in> set ?rows" "wip_evidence branch head c"
      and latest: "\<forall>y \<in> set ?rows. wip_evidence branch head y \<longrightarrow> ?key y \<le> ?key c"
      using find_rev_sorted [of "wip_evidence branch head" ?key ?rows c] by simp_all
    from c(1) have cand: "wip_candidate pid sid (db s) c" "c \<in> set (checkpoints (db s))" by simp_all
    then obtain oid r ses where "c_operation_id c = Some oid" "operation_row oid (db s) = Some r"
      "o_state r = Succeeded" "o_mutation r" "o_project_id r = pid" "o_session_id r = Some sid"
      "o_owner_id r = ''local-policy''" "session_row sid (db s) = Some ses" "s_status ses = SActive"
      "s_project_id ses = pid"
      by (auto simp: wip_candidate_def split: option.splits)
    with wip_evidenceD [OF c(2)] cand(2) latest Some res(1) show ?thesis by auto
  qed
qed

section \<open>Witnesses\<close>

definition one_op :: store_st where
  "one_op = run_all demo_ext [DoInitialize, demo_op ''o1'' ''c1'' True] demo_start"

theorem create_operation_outcome_witness:
  "\<exists>e. fst (create_operation demo_ext ''o2'' ''p'' None ''local-policy'' ''c2'' ''h'' ''k'' True (JObj []) one_op)
        = Inl e \<and> conflict_of ''p'' None ''c2'' True (db one_op) e"
proof -
  obtain e s' where run: "create_operation demo_ext ''o2'' ''p'' None ''local-policy'' ''c2'' ''h'' ''k''
      True (JObj []) one_op = (Inl e, s')" and "\<not> db_failure e" "e \<noteq> IntegrityErr"
    by (simp add: store_eval one_op_def db_failure_def)
  with create_operation_outcome [OF run] show ?thesis by simp
qed

theorem transition_operation_outcome_witness:
  "\<exists>q s'. transition_operation demo_ext ''o1'' (op_state_name Validated) None None None one_op = (Inr q, s')
     \<and> o_state q = Validated"
proof -
  obtain q s' where run: "transition_operation demo_ext ''o1'' (op_state_name Validated) None None None one_op
      = (Inr q, s')"
    by (simp add: store_eval one_op_def transition_operation_def op_state_of_def OPERATION_STATES_def)
  from transition_operation_outcome [OF run]
  show ?thesis using run by (auto simp: operation_of_row_def transition_update_def)
qed

definition waiting :: store_st where
  "waiting = run_all demo_ext [DoInitialize, demo_op ''o1'' ''c1'' True,
     DoCreateApproval ''a1'' demo_row ''act'' ''tok'' (iso 2)] demo_start"

theorem consume_approval_outcome_witness:
  "\<exists>s'. consume_approval demo_ext ''o1'' ''tok'' (iso 5) waiting = (Inl ApprovalExpired, s')
     \<and> db s' = db waiting"
proof -
  have "iso 2 \<le> iso 5" using iso_le_iff [of 2 5] TIME_LIMIT_ge by simp
  then obtain s' where run: "consume_approval demo_ext ''o1'' ''tok'' (iso 5) waiting = (Inl ApprovalExpired, s')"
    by (simp add: store_eval waiting_def create_approval_def consume_approval_def demo_row_def)
  from consume_approval_outcome [OF run] run show ?thesis by auto
qed

theorem recovery_outcome_witness:
  "\<exists>acc s'. recover_after_restart demo_ext one_op = (Inr acc, s')
     \<and> (\<forall>q \<in> set (operations (db s')). o_state q \<in> set TERMINAL_OPERATION_STATES)"
proof -
  obtain acc s' where run: "recover_after_restart demo_ext one_op = (Inr acc, s')"
    by (simp add: store_eval one_op_def recover_after_restart_def sessions_in_def recover_operation_def
        INTERRUPTED_STATES_def orphaned_approvals_def recovery_state_def recovery_error_def)
  have "reachable demo_ext one_op" unfolding one_op_def by (rule demo_start_reachable)
  from recovery_outcome [OF this run] run show ?thesis by auto
qed

definition demo_head :: "char \<Rightarrow> string" where
  "demo_head c = replicate 40 c"

definition demo_checkpoint :: checkpoint_rec where
  "demo_checkpoint = \<lparr>c_checkpoint_id = ''k'', c_project_id = ''p'', c_session_id = Some ''s'',
     c_operation_id = Some ''o'', c_owner_id = ''local-policy'', c_kind = ''mutation'',
     c_branch = ''wip'', c_head = demo_head (CHR ''a''), c_ref_name = ''r'',
     c_before_json = JText (JObj [(''head'', JStr (demo_head (CHR ''a''))), (''branch'', JStr ''wip'')]),
     c_after_json = Some (JText (JObj [(''head'', JStr (demo_head (CHR ''b''))), (''branch'', JStr ''wip''),
        (''dirty'', JBool False)])),
     c_diff_hash = Some (replicate 64 (CHR ''0'')), c_status = CkCreated, c_created_at = ''t'', c_updated_at = ''t''\<rparr>"

definition demo_wip :: store_st where
  "demo_wip = \<lparr>log = [], db = \<lparr>sessions = [\<lparr>s_session_id = ''s'', s_project_id = ''p'',
       s_owner_id = ''local-policy'', s_status = SActive, s_created_at = ''t'', s_updated_at = ''t'',
       s_closed_at = None, s_reason = None\<rparr>],
     operations = [demo_row\<lparr>o_operation_id := ''o'', o_session_id := Some ''s'', o_state := Succeeded\<rparr>],
     approvals = [], checkpoints = [demo_checkpoint], audits = []\<rparr>, is_open = True, versions = [1, 2, 3]\<rparr>"

lemma demo_wip_found:
  "find_session_wip_checkpoint ''p'' ''s'' ''wip'' (demo_head (CHR ''b'')) demo_wip = (Inr (Some demo_checkpoint), demo_wip)"
  by (simp add: find_session_wip_checkpoint_def demo_wip_def demo_checkpoint_def demo_head_def
      is_git_head_def is_hexdigit_def is_digit_def code_def is_sha256_def require_connection_def query_def
      andthen_def wip_candidate_def wip_evidence_def demo_row_def operation_row_def session_row_def
      lower_def lower_char_def list_all_iff jstr_of_def)

theorem wip_checkpoint_evidence_witness:
  "\<exists>oid r. c_operation_id demo_checkpoint = Some oid \<and> operation_row oid (db demo_wip) = Some r
     \<and> o_state r = Succeeded \<and> o_mutation r"
proof -
  have "is_git_head (demo_head (CHR ''b''))"
    by (simp add: is_git_head_def demo_head_def is_hexdigit_def is_digit_def code_def list_all_iff)
  from wip_checkpoint_evidence [OF demo_wip_found this] show ?thesis by auto
qed

end
