(* ===== verification/Services.thy ===== *)
theory Services
  imports StoreSpec
begin

text \<open>
  The services over the store: the operation state machine with idempotent replay
  (\<open>operation_service.py\<close>), one-time approvals (\<open>approval_service.py\<close>) and sessions with
  their ownership checks (\<open>session_service.py\<close>).  The principal of the current request, a context
  variable in the source, is the argument \<open>who\<close>.
\<close>

section \<open>Columns that hold JSON\<close>

text \<open>\<open>result_data\<close> and \<open>error_data\<close>: JSON \<open>null\<close> reads as \<open>None\<close>.\<close>

definition json_column :: "jtext option \<Rightarrow> exn + json option" where
  "json_column c =
     (case c of
        None \<Rightarrow> Inr None
      | Some (JMalformed _) \<Rightarrow> Inl JsonErr
      | Some (JText j) \<Rightarrow> Inr (if j = JNull then None else Some j))"

definition truthy :: "json \<Rightarrow> bool" where
  "truthy j =
     (j \<notin> {JNull, JBool False, JInt 0, JStr [], JList [], JObj []})"

section \<open>Request identity\<close>

definition request_hash :: "ext \<Rightarrow> json \<Rightarrow> string" where
  "request_hash X v = sha256_hex X (json_dumps v)"

definition request_id_ok :: "string \<Rightarrow> bool" where
  "request_id_ok s =
     (case s of [] \<Rightarrow> False
      | c # cs \<Rightarrow> is_alnum c \<and> length cs \<le> 127
                  \<and> list_all (\<lambda>x. is_alnum x \<or> x \<in> set ''_.:-'') cs)"

definition request_hash_ok :: "string \<Rightarrow> bool" where
  "request_hash_ok s = (length s = 64 \<and> list_all is_hexdigit s)"

section \<open>Payloads\<close>

text \<open>\<open>_persistable_payload\<close>: the payload without \<open>error.details.approval_token\<close>.\<close>

definition persistable_payload :: "json \<Rightarrow> json" where
  "persistable_payload payload =
     (case jget payload ''error'' of
        Some (JObj err) \<Rightarrow>
          (case jget (JObj err) ''details'' of
             Some (JObj d) \<Rightarrow>
               jset payload ''error''
                 (jset (JObj err) ''details'' (jpop (JObj d) ''approval_token''))
           | _ \<Rightarrow> payload)
      | _ \<Rightarrow> payload)"

definition unknown_payload :: "operation_rec \<Rightarrow> json" where
  "unknown_payload r =
     error_payload (o_client_request_id r) (o_session_id r) (Some (o_project_id r)) (o_operation_id r)
       \<lparr>be_code = ''UNKNOWN_SIDE_EFFECT'',
         be_message = ''mutation outcome is unknown and requires reconciliation'',
         be_details = JObj [(''operation_id'', JStr (o_operation_id r))],
         be_retryable = False, be_status = ''unknown''\<rparr>"

definition error_from_record :: "operation_rec \<Rightarrow> json option \<Rightarrow> json" where
  "error_from_record r error_data =
     (let err = (case error_data of
                   Some e \<Rightarrow> if truthy e then e else
                     JObj [(''code'', JStr ''BACKEND_UNAVAILABLE''), (''message'', JStr ''operation failed''),
                           (''details'', JObj []), (''retryable'', JBool False)]
                 | None \<Rightarrow>
                     JObj [(''code'', JStr ''BACKEND_UNAVAILABLE''), (''message'', JStr ''operation failed''),
                           (''details'', JObj []), (''retryable'', JBool False)])
      in JObj [(''request_id'', JStr (o_client_request_id r)), (''session_id'', jopt (o_session_id r)),
               (''project_id'', JStr (o_project_id r)), (''operation_id'', JStr (o_operation_id r)),
               (''status'', JStr (op_state_name (o_state r))), (''changed_files'', JList []),
               (''truncated'', JBool False), (''data'', JObj []), (''error'', err)])"

definition operation_payload :: "operation_rec \<Rightarrow> exn + json" where
  "operation_payload r =
     sum_bind (json_column (o_result_json r)) (\<lambda>res.
     case res of
       Some j \<Rightarrow> Inr j
     | None \<Rightarrow>
         sum_bind (json_column (o_error_json r)) (\<lambda>err.
         case err of
           Some e \<Rightarrow> Inr (error_from_record r (Some e))
         | None \<Rightarrow> Inr (JObj [(''operation_id'', JStr (o_operation_id r)),
              (''project_id'', JStr (o_project_id r)), (''session_id'', jopt (o_session_id r)),
              (''status'', JStr (op_state_name (o_state r))), (''data'', JObj []), (''error'', JNull)])))"

section \<open>Starting an operation\<close>

definition identity_of :: "ext \<Rightarrow> json option \<Rightarrow> (string \<times> string) option" where
  "identity_of X details =
     (case details of None \<Rightarrow> None | Some d \<Rightarrow> auth_context_identity (x_sha256 X) d)"

text \<open>The loop over the candidates of the compatibility lookup: the first one that has no usable
  identity or an OAuth one.\<close>

fun legacy_lookup ::
  "ext \<Rightarrow> operation_rec list \<Rightarrow> ('z store_st_scheme, exn, operation_rec option) M" where
  "legacy_lookup X [] = ret None"
| "legacy_lookup X (c # cs) =
     andthen (get_operation_auth_context (o_operation_id c)) (\<lambda>details.
     case identity_of X details of
       None \<Rightarrow> ret (Some c)
     | Some (k, _) \<Rightarrow> if k = ''oauth-resource-server'' then ret (Some c) else legacy_lookup X cs)"

definition is_oauth :: "auth_context option \<Rightarrow> bool" where
  "is_oauth who = (case who of Some (OAuth _) \<Rightarrow> True | _ \<Rightarrow> False)"

text \<open>What a repeated request gets: the stored result, the unknown outcome, the stored error, or
  the news that the operation is still running.\<close>

definition replay_existing ::
  "ext \<Rightarrow> auth_context option \<Rightarrow> string \<Rightarrow> operation_rec \<Rightarrow> json option
   \<Rightarrow> exn + (operation_rec \<times> json option)" where
  "replay_existing X who canonical record stored_auth =
     (let current_auth = map_option (auth_audit_details (x_sha256 X)) who in
      if identity_of X stored_auth \<noteq> identity_of X current_auth then
        Inl (rejected_with ''IDEMPOTENCY_CONFLICT''
          ''client_request_id is bound to a different authenticated identity''
          (JObj [(''operation_id'', JStr (o_operation_id record))]))
      else if o_request_hash record \<noteq> canonical then
        Inl (rejected_with ''IDEMPOTENCY_CONFLICT''
          ''client_request_id was already used with a different request_hash''
          (JObj [(''operation_id'', JStr (o_operation_id record))]))
      else
        sum_bind (json_column (o_result_json record)) (\<lambda>res.
        case res of
          Some j \<Rightarrow> Inr (record, Some j)
        | None \<Rightarrow>
            if o_state record = Unknown then Inr (record, Some (unknown_payload record))
            else
              sum_bind (if o_state record \<in> {Failed, OpCancelled}
                        then json_column (o_error_json record) else Inr None) (\<lambda>err.
              case err of
                Some e \<Rightarrow> Inr (record, Some (error_from_record record (Some e)))
              | None \<Rightarrow>
                  Inl (bridge_error ''OPERATION_IN_PROGRESS''
                    ''the operation for this client_request_id is still active''
                    (JObj [(''operation_id'', JStr (o_operation_id record)),
                           (''state'', JStr (op_state_name (o_state record)))]) True ''running''))))"

definition check_request ::
  "ext \<Rightarrow> bool \<Rightarrow> string \<Rightarrow> string \<Rightarrow> json \<Rightarrow> exn + string" where
  "check_request X mutation cid supplied input =
     (if mutation \<and> cid = [] then
        Inl (rejected ''INVALID_REQUEST'' ''client_request_id is required for mutation operations'')
      else if \<not> request_id_ok cid then
        Inl (rejected ''INVALID_REQUEST'' ''client_request_id has an invalid format'')
      else if \<not> request_hash_ok supplied then
        Inl (rejected ''INVALID_REQUEST'' ''request_hash must be a SHA-256 hex digest'')
      else if lower supplied \<noteq> request_hash X input then
        Inl (rejected_with ''INVALID_REQUEST''
          ''request_hash does not match the canonical operation input''
          (JObj [(''field'', JStr ''request_hash'')]))
      else Inr (request_hash X input))"

text \<open>\<open>except ActiveOperationConflict\<close>.\<close>

definition blocked_error :: "exn \<Rightarrow> exn" where
  "blocked_error e =
     (case e of
        ActiveOperationConflict r \<Rightarrow>
          rejected_with ''OPERATION_BLOCKED'' ''another mutation operation blocks this project''
            (JObj [(''operation_id'', JStr (o_operation_id r)),
                   (''state'', JStr (op_state_name (o_state r)))])
      | _ \<Rightarrow> e)"

text \<open>The record a request speaks of, and whether it existed: the one stored under the scoped key, an
  older one found by the compatibility lookup, or a new one.\<close>

definition obtain_record ::
  "ext \<Rightarrow> auth_context option \<Rightarrow> string \<Rightarrow> string \<Rightarrow> string option \<Rightarrow> string \<Rightarrow> bool \<Rightarrow> string
   \<Rightarrow> string \<Rightarrow> string \<Rightarrow> json \<Rightarrow> ('z store_st_scheme, exn, operation_rec \<times> bool) M" where
  "obtain_record X who operation_id project_id session_id kind mutation cid key canonical input =
     andthen (get_operation_by_client_request_id project_id session_id key) (\<lambda>scoped.
     andthen (if scoped = None \<and> is_oauth who
              then andthen (get_operations_by_client_request_id project_id session_id cid) (legacy_lookup X)
              else ret None) (\<lambda>legacy.
     handle
        (case scoped of
           Some r \<Rightarrow> ret (r, True)
         | None \<Rightarrow>
             (case legacy of
                Some r \<Rightarrow> ret (r, True)
              | None \<Rightarrow> create_operation X operation_id project_id session_id ''local-policy'' key
                          canonical kind mutation input))
        (\<lambda>e. raise (blocked_error e))))"

text \<open>A repeated request is answered from its record; a first one is bound to the security context
  and validated.\<close>

definition settle ::
  "ext \<Rightarrow> auth_context option \<Rightarrow> string \<Rightarrow> operation_rec \<Rightarrow> bool
   \<Rightarrow> ('z store_st_scheme, exn, operation_rec \<times> json option) M" where
  "settle X who canonical record existing =
     andthen (get_operation_auth_context (o_operation_id record)) (\<lambda>stored_auth.
     if existing then lift_sum (replay_existing X who canonical record stored_auth)
     else
       andthen (case who of
                  None \<Rightarrow> ret ()
                | Some p \<Rightarrow> record_operation_auth_context X (o_operation_id record)
                              (auth_audit_details (x_sha256 X) p)) (\<lambda>_.
       andthen (transition_operation X (o_operation_id record) ''validated'' (Some ''received'') None None)
         (\<lambda>r. ret (r, None))))"

definition start ::
  "ext \<Rightarrow> auth_context option \<Rightarrow> string \<Rightarrow> string \<Rightarrow> string option \<Rightarrow> string \<Rightarrow> bool \<Rightarrow> string
   \<Rightarrow> string \<Rightarrow> json \<Rightarrow> ('z store_st_scheme, exn, operation_rec \<times> json option) M" where
  "start X who operation_id project_id session_id kind mutation cid supplied input =
     andthen (lift_sum (check_request X mutation cid supplied input)) (\<lambda>canonical.
     andthen (lift_sum (encode_replay_key (map_option (auth_replay_namespace (x_sha256 X)) who) cid)) (\<lambda>key.
     andthen (obtain_record X who operation_id project_id session_id kind mutation cid key canonical input)
       (\<lambda>(record, existing). settle X who canonical record existing)))"

definition dispatch ::
  "ext \<Rightarrow> string \<Rightarrow> string \<Rightarrow> ('z store_st_scheme, exn, operation_rec) M" where
  "dispatch X operation_id from_state =
     andthen (transition_operation X operation_id ''dispatched'' (Some from_state) None None) (\<lambda>r.
     transition_operation X operation_id ''running'' (Some (op_state_name (o_state r))) None None)"

definition await_approval ::
  "ext \<Rightarrow> string \<Rightarrow> json \<Rightarrow> ('z store_st_scheme, exn, operation_rec) M" where
  "await_approval X operation_id error_data =
     transition_operation X operation_id ''awaiting_approval'' (Some ''validated'') None
       (Some (case jget (persistable_payload (JObj [(''error'', error_data)])) ''error'' of
                Some e \<Rightarrow> e | None \<Rightarrow> JObj []))"

definition finish ::
  "ext \<Rightarrow> string \<Rightarrow> string \<Rightarrow> json \<Rightarrow> ('z store_st_scheme, exn, operation_rec) M" where
  "finish X operation_id state payload =
     transition_operation X operation_id state None (Some (persistable_payload payload))
       (case jget payload ''error'' of
          Some (JObj e) \<Rightarrow> jget (persistable_payload (JObj [(''error'', JObj e)])) ''error''
        | _ \<Rightarrow> None)"

definition the_operation :: "string \<Rightarrow> ('z store_st_scheme, exn, operation_rec) M" where
  "the_operation operation_id =
     andthen (get_operation operation_id) (\<lambda>r.
     case r of None \<Rightarrow> raise (rejected ''OPERATION_NOT_FOUND'' ''operation_id is not known'')
     | Some x \<Rightarrow> ret x)"

section \<open>Approvals\<close>

definition token_hash :: "ext \<Rightarrow> string \<Rightarrow> string" where
  "token_hash X token = sha256_hex X token"

record approval_grant =
  g_approval_id :: string
  g_token :: string
  g_expires_at :: string

text \<open>\<open>ttl\<close> is the configured life time in milliseconds.\<close>

definition issue ::
  "ext \<Rightarrow> nat \<Rightarrow> operation_rec \<Rightarrow> string \<Rightarrow> ('z store_st_scheme, exn, approval_grant) M" where
  "issue X ttl operation action =
     andthen (token_urlsafe X 32) (\<lambda>token.
     andthen (now_ms X) (\<lambda>t.
     andthen (token_hex X 16) (\<lambda>approval_id.
     andthen (create_approval X approval_id operation action (token_hash X token) (iso (t + ttl))) (\<lambda>_.
     ret \<lparr>g_approval_id = approval_id, g_token = token, g_expires_at = iso (t + ttl)\<rparr>))))"

definition approval_error :: "exn \<Rightarrow> exn" where
  "approval_error e =
     (if e = ApprovalNotFound then rejected ''APPROVAL_INVALID'' ''approval does not exist''
      else if e = ApprovalTokenMismatch then rejected ''APPROVAL_INVALID'' ''approval token is invalid''
      else if e = ApprovalExpired then rejected ''APPROVAL_EXPIRED'' ''approval has expired''
      else if e = ApprovalAlreadyUsed then rejected ''APPROVAL_ALREADY_USED'' ''approval is no longer pending''
      else e)"

definition consume ::
  "ext \<Rightarrow> string \<Rightarrow> string \<Rightarrow> ('z store_st_scheme, exn, operation_rec) M" where
  "consume X operation_id token =
     andthen (require (token \<noteq> [] \<and> length token \<le> 256)
       (rejected ''APPROVAL_INVALID'' ''approval token is invalid'')) (\<lambda>_.
     andthen (now_ms X) (\<lambda>t.
     handle (consume_approval X operation_id (token_hash X token) (iso t))
       (\<lambda>e. raise (approval_error e))))"

definition cancel_pending ::
  "ext \<Rightarrow> string \<Rightarrow> string \<Rightarrow> ('z store_st_scheme, exn, unit) M" where
  "cancel_pending X operation_id reason =
     handle (cancel_approval X operation_id reason)
       (\<lambda>e. raise (if e = ApprovalNotFound
                   then rejected ''OPERATION_NOT_CANCELABLE'' ''operation has no pending approval'' else e))"

section \<open>Sessions\<close>

definition LOCAL_OWNER_ID :: string where
  "LOCAL_OWNER_ID = ''local-policy''"

definition session_create ::
  "ext \<Rightarrow> auth_context option \<Rightarrow> string \<Rightarrow> ('z store_st_scheme, exn, session_rec) M" where
  "session_create X who project_id =
     andthen (uuid4_hex X) (\<lambda>sid.
     create_session X sid project_id LOCAL_OWNER_ID (map_option (auth_audit_details (x_sha256 X)) who))"

definition auth_contexts_match ::
  "ext \<Rightarrow> string \<Rightarrow> string \<Rightarrow> ('z store_st_scheme, exn, bool) M" where
  "auth_contexts_match X first second =
     andthen (get_session_auth_context first) (\<lambda>d1.
     andthen (get_session_auth_context second) (\<lambda>d2.
     ret (if d1 = None \<or> d2 = None then d1 = None \<and> d2 = None
          else identity_of X d1 \<noteq> None \<and> identity_of X d1 = identity_of X d2)))"

definition current_context_matches ::
  "ext \<Rightarrow> auth_context option \<Rightarrow> string \<Rightarrow> ('z store_st_scheme, exn, bool) M" where
  "current_context_matches X who session_id =
     andthen (get_session_auth_context session_id) (\<lambda>stored.
     ret (case stored of
            None \<Rightarrow> who = None
          | Some _ \<Rightarrow> who \<noteq> None \<and> identity_of X stored \<noteq> None
                      \<and> identity_of X stored = auth_identity (x_sha256 X) who))"

definition require_active ::
  "ext \<Rightarrow> auth_context option \<Rightarrow> string \<Rightarrow> string option \<Rightarrow> ('z store_st_scheme, exn, session_rec) M" where
  "require_active X who project_id session_id =
     (case session_id of
        None \<Rightarrow> raise (rejected ''SESSION_REQUIRED'' ''session_id is required for this operation'')
      | Some sid \<Rightarrow>
          if sid = [] then raise (rejected ''SESSION_REQUIRED'' ''session_id is required for this operation'')
          else
            andthen (get_session sid) (\<lambda>found.
            case found of
              None \<Rightarrow> raise (rejected_with ''SESSION_NOT_FOUND'' ''session_id is not active for this project''
                        (JObj [(''project_id'', JStr project_id)]))
            | Some session \<Rightarrow>
                if s_project_id session \<noteq> project_id
                then raise (rejected_with ''SESSION_NOT_FOUND'' ''session_id is not active for this project''
                        (JObj [(''project_id'', JStr project_id)]))
                else if s_owner_id session \<noteq> LOCAL_OWNER_ID \<or> s_status session \<noteq> SActive
                then raise (rejected_with ''SESSION_NOT_FOUND'' ''session_id is not active''
                        (JObj [(''project_id'', JStr project_id),
                               (''status'', JStr (session_status_name (s_status session)))]))
                else
                  andthen (current_context_matches X who (s_session_id session)) (\<lambda>ok.
                  if ok then ret session
                  else raise (rejected_with ''SESSION_NOT_FOUND''
                         ''session_id is not available to this security context''
                         (JObj [(''project_id'', JStr project_id)])))))"

end
