(* ===== verification/ServiceSpec.thy ===== *)
theory ServiceSpec
  imports Services
begin

text \<open>
  What the services guarantee: replay is bound to the request hash and to the security identity,
  plaintext approval tokens are never stored, an approval is usable exactly during its life time
  with exactly its token, and a session is handed out only to its own security context.
\<close>

section \<open>Reading methods\<close>

lemma returns_require_connection [simp]:
  "returns require_connection s Q = (is_open s \<longrightarrow> Q () s)"
  by (simp add: require_connection_def)

lemma returns_handle_raise [simp]: "returns (handle m (\<lambda>e. raise (f e))) s Q = returns m s Q"
  by (auto simp: returns_def handle_eq_Inr)

lemma returns_conjI: "returns m s P \<Longrightarrow> returns m s Q \<Longrightarrow> returns m s (\<lambda>x t. P x t \<and> Q x t)"
  by (simp add: returns_def)

definition stored_auth_details :: "dbase \<Rightarrow> string \<Rightarrow> exn + json option" where
  "stored_auth_details d oid = auth_event_details ''operation''
     (filter (\<lambda>e. e_operation_id e = Some oid \<and> e_event_type e = ''auth.context'') (audits d))"

definition session_auth_details :: "dbase \<Rightarrow> string \<Rightarrow> exn + json option" where
  "session_auth_details d sid = auth_event_details ''session''
     (filter (\<lambda>e. e_session_id e = Some sid \<and> e_event_type e = ''auth.session.context'') (audits d))"

lemma returns_get_operation_auth_context [simp]:
  "returns (get_operation_auth_context oid) s Q =
     (is_open s \<longrightarrow> (\<forall>x. stored_auth_details (db s) oid = Inr x \<longrightarrow> Q x s))"
  by (simp add: get_operation_auth_context_def stored_auth_details_def)

lemma returns_get_session_auth_context [simp]:
  "returns (get_session_auth_context sid) s Q =
     (is_open s \<longrightarrow> (\<forall>x. session_auth_details (db s) sid = Inr x \<longrightarrow> Q x s))"
  by (simp add: get_session_auth_context_def session_auth_details_def)

lemma returns_get_by_request_id [simp]:
  "returns (get_operation_by_client_request_id pid sid cid) s Q =
     (is_open s \<longrightarrow> Q (map_option operation_of_row (find (same_request pid sid cid) (operations (db s)))) s)"
  by (simp add: get_operation_by_client_request_id_def)

lemma returns_legacy_lookup:
  "returns (legacy_lookup X cs) s (\<lambda>r t. t = s \<and> (\<forall>c. r = Some c \<longrightarrow> c \<in> set cs))"
proof (induction cs)
  case (Cons c cs)
  show ?case
    by (auto intro: returns_mono [OF Cons] split: prod.splits)
qed simp

lemma returns_request_variants:
  "returns (get_operations_by_client_request_id pid sid cid) s (\<lambda>cs t. t = s \<and> (\<forall>c \<in> set cs.
     \<exists>r \<in> set (operations (db s)). c = operation_of_row r \<and> o_project_id r = pid \<and> o_session_id r = sid
       \<and> decode_replay_key (o_client_request_id r) = cid))"
  by (auto simp: returns_def get_operations_by_client_request_id_def require_connection_def query_def
      andthen_def operation_order_def operation_of_row_def split: if_splits)

section \<open>Idempotent start\<close>

lemma request_id_no_separator: "request_id_ok cid \<Longrightarrow> REPLAY_KEY_SEPARATOR \<notin> set cid"
  by (auto simp: request_id_ok_def REPLAY_KEY_SEPARATOR_def is_alnum_def is_digit_def is_alpha_def
      code_def list_all_iff split: list.splits)

lemma decode_encoded:
  "encode_replay_key ns cid = Inr key \<Longrightarrow> request_id_ok cid \<Longrightarrow> decode_replay_key key = cid"
  using decode_encode_replay_key [of "the ns" cid key]
  by (cases ns) (simp_all add: encode_replay_key_def decode_replay_key_plain request_id_no_separator)

lemma operation_of_row_fields [simp]:
  "o_operation_id (operation_of_row r) = o_operation_id r"
  "o_project_id (operation_of_row r) = o_project_id r"
  "o_session_id (operation_of_row r) = o_session_id r"
  "o_request_hash (operation_of_row r) = o_request_hash r"
  "o_state (operation_of_row r) = o_state r"
  "o_result_json (operation_of_row r) = o_result_json r"
  "o_error_json (operation_of_row r) = o_error_json r"
  "o_mutation (operation_of_row r) = o_mutation r"
  "o_kind (operation_of_row r) = o_kind r"
  "o_client_request_id (operation_of_row r) = decode_replay_key (o_client_request_id r)"
  by (simp_all add: operation_of_row_def)

lemma replay_existing_returns:
  "replay_existing X who canonical record stored = Inr (q, p) \<Longrightarrow>
     q = record \<and> p \<noteq> None \<and> o_request_hash record = canonical
     \<and> identity_of X stored = identity_of X (map_option (auth_audit_details (x_sha256 X)) who)"
  by (auto simp: replay_existing_def Let_def split: if_splits option.splits)

text \<open>The stored row a replay speaks of.\<close>

definition replays ::
  "ext \<Rightarrow> auth_context option \<Rightarrow> string \<Rightarrow> string option \<Rightarrow> string \<Rightarrow> json \<Rightarrow> dbase \<Rightarrow> operation_rec \<Rightarrow> bool" where
  "replays X who pid sid cid input d q \<longleftrightarrow>
     (\<exists>r \<in> set (operations d). q = operation_of_row r \<and> o_project_id r = pid \<and> o_session_id r = sid
        \<and> decode_replay_key (o_client_request_id r) = cid \<and> o_request_hash r = request_hash X input
        \<and> (\<exists>details. stored_auth_details d (o_operation_id r) = Inr details
             \<and> identity_of X details = identity_of X (map_option (auth_audit_details (x_sha256 X)) who)))"

definition candidate ::
  "string \<Rightarrow> string option \<Rightarrow> string \<Rightarrow> dbase \<Rightarrow> operation_rec \<Rightarrow> bool" where
  "candidate pid sid cid d q \<longleftrightarrow>
     (\<exists>r \<in> set (operations d). q = operation_of_row r \<and> o_project_id r = pid \<and> o_session_id r = sid
        \<and> decode_replay_key (o_client_request_id r) = cid)"

lemma check_request_Inr:
  "check_request X mutation cid supplied input = Inr h \<Longrightarrow>
     h = request_hash X input \<and> lower supplied = h \<and> request_id_ok cid"
  by (auto simp: check_request_def split: if_splits)

definition new_start ::
  "ext \<Rightarrow> string \<Rightarrow> string \<Rightarrow> string option \<Rightarrow> string \<Rightarrow> bool \<Rightarrow> string \<Rightarrow> json \<Rightarrow> dbase \<Rightarrow> operation_rec \<Rightarrow> bool" where
  "new_start X oid pid sid kind mutation key input d q \<longleftrightarrow>
     (\<forall>r \<in> set (operations d). \<not> same_request pid sid key r)
     \<and> (mutation \<longrightarrow> (\<forall>r \<in> set (operations d). \<not> (o_project_id r = pid \<and> active_mutation r)))
     \<and> o_operation_id q = oid \<and> o_project_id q = pid \<and> o_session_id q = sid
     \<and> o_kind q = kind \<and> o_mutation q = mutation \<and> o_request_hash q = request_hash X input
     \<and> o_state q = Validated"

lemma record_auth_operations:
  "returns (record_operation_auth_context X oid details) s (\<lambda>_ t. operations (db t) = operations (db s))"
  unfolding record_operation_auth_context_def
  by (rule transaction_returns [where Q = "\<lambda>_ d. operations d = operations (db s)"]) auto

lemma legacy_returns:
  "returns (if scoped = None \<and> is_oauth who
            then andthen (get_operations_by_client_request_id pid sid cid) (legacy_lookup X) else ret None) s
     (\<lambda>r t. t = s \<and> (\<forall>c. r = Some c \<longrightarrow> candidate pid sid cid (db s) c))"
  using returns_mono [OF returns_request_variants [of pid sid cid s]]
  by (auto simp: candidate_def intro!: returns_mono [OF returns_legacy_lookup]
      returns_mono [OF returns_request_variants [of pid sid cid s]])

lemma found_candidate:
  assumes "find (same_request pid sid key) (operations d) = Some r" and "decode_replay_key key = cid"
  shows "candidate pid sid cid d (operation_of_row r)"
  using find_same_request [OF assms(1)] assms(2) by (auto simp: candidate_def same_request_def)

lemma record_returns:
  assumes "decode_replay_key key = cid" and "\<And>c. legacy = Some c \<Longrightarrow> candidate pid sid cid (db s) c"
  shows "returns (case map_option operation_of_row (find (same_request pid sid key) (operations (db s))) of
           Some r \<Rightarrow> ret (r, True)
         | None \<Rightarrow>
             (case legacy of
                Some r \<Rightarrow> ret (r, True)
              | None \<Rightarrow> create_operation X oid pid sid owner key hash kind mutation input)) s
     (\<lambda>p t. case p of (record, existing) \<Rightarrow>
        if existing then db t = db s \<and> candidate pid sid cid (db s) record
        else created oid pid sid owner key hash kind mutation input (db s) record False (db t))"
proof (cases "find (same_request pid sid key) (operations (db s))")
  case (Some r)
  with found_candidate [OF this assms(1)] show ?thesis by simp
next
  case None
  show ?thesis
  proof (cases legacy)
    case (Some c)
    with None assms(2) show ?thesis by simp
  next
    case legacy: None
    have none: "\<forall>r \<in> set (operations (db s)). \<not> same_request pid sid key r"
      using None by (auto simp: find_None_iff)
    show ?thesis
      unfolding None legacy option.case option.map
      by (rule returns_mono [OF create_operation_returns])
        (use none in \<open>auto simp: created_def\<close>)
  qed
qed

lemma validate_returns:
  assumes "created oid pid sid owner key (request_hash X input) kind mutation input d record False d1"
    and ok: "constraints_ok d1" and same: "operations (db s) = operations d1"
  shows "returns (transition_operation X (o_operation_id record) ''validated'' (Some ''received'') None None) s
     (\<lambda>q _. new_start X oid pid sid kind mutation key input d q)"
proof -
  let ?new = "the_new_operation oid pid sid owner key (request_hash X input) kind mutation input"
  from assms(1) obtain now e where new: "d1 = add_events [e] (insert_operation (?new now) d)"
    "record = operation_of_row (?new now)"
    and pre: "\<forall>r \<in> set (operations d). \<not> same_request pid sid key r"
    "mutation \<longrightarrow> (\<forall>r \<in> set (operations d). \<not> (o_project_id r = pid \<and> active_mutation r))"
    by (auto simp: created_def)
  have "?new now \<in> set (operations d1)" by (simp add: new)
  from row_of_mem(2) [OF ok this] same have row: "operation_row oid (db s) = Some (?new now)"
    by (simp add: the_new_operation_def operation_row_def)
  have oid: "o_operation_id record = oid" by (simp add: new the_new_operation_def)
  show ?thesis
    unfolding oid
    by (rule returns_mono [OF transition_operation_returns [of X oid Validated, unfolded op_state_name.simps]])
      (use row pre in \<open>auto simp: new_start_def transition_update_def the_new_operation_def\<close>)
qed

lemma obeys_returns: "obeys R m \<Longrightarrow> returns m s (\<lambda>_ t. R s t)"
  by (auto simp: returns_def dest: obeysD)

lemma record_obeys:
  "obeys by_moves (case scoped of Some r \<Rightarrow> ret (r, True)
     | None \<Rightarrow> (case legacy of Some r \<Rightarrow> ret (r, True)
         | None \<Rightarrow> create_operation X oid pid sid owner key hash kind mutation input))"
  by (cases scoped; cases legacy) (simp_all add: store_order.ret_obeys create_operation_obeys)

definition obtained ::
  "string \<Rightarrow> string \<Rightarrow> string option \<Rightarrow> string \<Rightarrow> bool \<Rightarrow> string \<Rightarrow> string \<Rightarrow> string \<Rightarrow> json
   \<Rightarrow> dbase \<Rightarrow> operation_rec \<times> bool \<Rightarrow> dbase \<Rightarrow> bool" where
  "obtained oid pid sid kind mutation cid key hash input d p d' \<longleftrightarrow>
     (case p of (record, existing) \<Rightarrow>
        if existing then d' = d \<and> candidate pid sid cid d record
        else constraints_ok d'
             \<and> created oid pid sid ''local-policy'' key hash kind mutation input d record False d')"

lemma obtain_record_returns:
  assumes ok: "constraints_ok (db s)" and dec: "decode_replay_key key = cid"
  shows "returns (obtain_record X who oid pid sid kind mutation cid key hash input) s
     (\<lambda>p t. obtained oid pid sid kind mutation cid key hash input (db s) p (db t))"
  unfolding obtain_record_def returns_andthen returns_handle_raise returns_get_by_request_id
proof (intro impI, rule returns_mono [OF legacy_returns], elim conjE, hypsubst)
  fix legacy
  assume leg: "\<forall>c. legacy = Some c \<longrightarrow> candidate pid sid cid (db s) c"
  show "returns (case map_option operation_of_row (find (same_request pid sid key) (operations (db s))) of
       Some r \<Rightarrow> ret (r, True)
     | None \<Rightarrow> (case legacy of Some r \<Rightarrow> ret (r, True)
         | None \<Rightarrow> create_operation X oid pid sid ''local-policy'' key hash kind mutation input)) s
     (\<lambda>p t. obtained oid pid sid kind mutation cid key hash input (db s) p (db t))"
    by (rule returns_mono [OF returns_conjI [OF record_returns [OF dec] obeys_returns [OF record_obeys]]])
      (use leg ok in \<open>auto simp: obtained_def by_moves_def dest: moves_constraints\<close>)
qed

lemma settle_returns:
  assumes "obtained oid pid sid kind mutation cid key (request_hash X input) input d (record, existing) (db s)"
  shows "returns (settle X who (request_hash X input) record existing) s
     (\<lambda>q t. case snd q of
          Some _ \<Rightarrow> db t = d \<and> replays X who pid sid cid input d (fst q)
        | None \<Rightarrow> new_start X oid pid sid kind mutation key input d (fst q))"
proof (cases existing)
  case True
  with assms show ?thesis
    by (fastforce simp: settle_def obtained_def candidate_def replays_def dest!: replay_existing_returns)
next
  case False
  with assms have new: "created oid pid sid ''local-policy'' key (request_hash X input) kind mutation input
      d record False (db s)" and ok: "constraints_ok (db s)"
    by (simp_all add: obtained_def)
  have auth: "returns (case who of None \<Rightarrow> ret ()
                | Some p \<Rightarrow> record_operation_auth_context X (o_operation_id record)
                              (auth_audit_details (x_sha256 X) p)) s
     (\<lambda>_ t. operations (db t) = operations (db s))"
    by (cases who) (simp_all add: record_auth_operations)
  show ?thesis
    unfolding settle_def using False
    by (simp del: returns_case_option, intro impI, elim exE, intro returns_mono [OF auth])
      (auto intro: returns_mono [OF validate_returns [OF new ok]])
qed

lemma start_returns:
  assumes ok: "constraints_ok (db s)"
  shows "returns (start X who oid pid sid kind mutation cid supplied input) s
     (\<lambda>q t. lower supplied = request_hash X input
        \<and> (case snd q of
             Some _ \<Rightarrow> db t = db s \<and> replays X who pid sid cid input (db s) (fst q)
           | None \<Rightarrow> \<exists>key. encode_replay_key (map_option (auth_replay_namespace (x_sha256 X)) who) cid = Inr key
                      \<and> new_start X oid pid sid kind mutation key input (db s) (fst q)))"
  unfolding start_def returns_andthen returns_lift_sum returns_case_prod
proof (intro allI impI)
  fix canonical key
  assume "check_request X mutation cid supplied input = Inr canonical"
    and key: "encode_replay_key (map_option (auth_replay_namespace (x_sha256 X)) who) cid = Inr key"
  note c = check_request_Inr [OF this(1)]
  have dec: "decode_replay_key key = cid" using decode_encoded [OF key] c by simp
  show "returns (obtain_record X who oid pid sid kind mutation cid key canonical input) s
     (\<lambda>p t. \<forall>record existing. p = (record, existing) \<longrightarrow>
        returns (settle X who canonical record existing) t
     (\<lambda>q t. lower supplied = request_hash X input
        \<and> (case snd q of
             Some _ \<Rightarrow> db t = db s \<and> replays X who pid sid cid input (db s) (fst q)
           | None \<Rightarrow> \<exists>key. encode_replay_key (map_option (auth_replay_namespace (x_sha256 X)) who) cid = Inr key
                      \<and> new_start X oid pid sid kind mutation key input (db s) (fst q))))"
    by (rule returns_mono [OF obtain_record_returns [OF ok dec]], intro allI impI, hypsubst)
      (use c key in \<open>auto intro!: returns_mono [OF settle_returns] split: option.splits\<close>)
qed

text \<open>Idempotent start.  A call of \<open>start\<close> that returns was given the hash of its canonical
  input.  If it returns a payload it changed nothing, and the payload belongs to a stored
  operation of the same project and session, with the same visible request id and the same
  input hash, recorded under the same security identity.  If it returns no payload the operation
  is new and validated: no stored operation has its scoped key, and for a mutation no other
  mutation of the project is active.\<close>

theorem start_outcome:
  assumes "constraints_ok (db s)"
    and "start X who oid pid sid kind mutation cid supplied input s = (Inr (q, payload), s')"
  shows "lower supplied = request_hash X input
    \<and> (case payload of
         Some _ \<Rightarrow> db s' = db s \<and> replays X who pid sid cid input (db s) q
       | None \<Rightarrow> \<exists>key. encode_replay_key (map_option (auth_replay_namespace (x_sha256 X)) who) cid = Inr key
                  \<and> new_start X oid pid sid kind mutation key input (db s) q)"
  using returnsD [OF start_returns [OF assms(1)] assms(2)] by (simp split: option.splits)

section \<open>Plaintext tokens are never stored\<close>

definition holds_token :: "json \<Rightarrow> bool" where
  "holds_token payload \<longleftrightarrow>
     (case jget payload ''error'' of
        Some err \<Rightarrow> is_jobj err \<and>
          (case jget err ''details'' of
             Some d \<Rightarrow> jget d ''approval_token'' \<noteq> None
           | None \<Rightarrow> False)
      | None \<Rightarrow> False)"

lemma is_jobj_jset [simp]: "is_jobj (jset j k v) = is_jobj j"
  by (cases j) (auto simp: is_jobj_def)

lemma is_jobj_JObj [simp]: "is_jobj (JObj kvs)"
  by (simp add: is_jobj_def)

declare jget.simps(1) [simp del] jset.simps(1) [simp del] jpop.simps(1) [simp del]

lemma jget_is_jobj: "jget j k = Some v \<Longrightarrow> is_jobj j"
  by (cases j) (auto simp: is_jobj_def)

lemma persistable_no_token: "\<not> holds_token (persistable_payload payload)"
proof (cases "jget payload ''error''")
  case (Some err)
  note isobj = jget_is_jobj [OF Some]
  show ?thesis
  proof (cases err)
    case (JObj kvs)
    show ?thesis
    proof (cases "jget (JObj kvs) ''details''")
      case None
      with Some JObj show ?thesis by (simp add: persistable_payload_def holds_token_def)
    next
      case d: (Some d)
      show ?thesis
      proof (cases d)
        case (JObj ds)
        with Some d \<open>err = JObj kvs\<close> isobj show ?thesis
          by (simp add: persistable_payload_def holds_token_def jget_jset)
      qed (use Some d JObj in \<open>simp_all add: persistable_payload_def holds_token_def\<close>)
    qed
  qed (use Some in \<open>simp_all add: persistable_payload_def holds_token_def is_jobj_def\<close>)
qed (simp add: persistable_payload_def holds_token_def)

lemma persistable_keeps: "k \<noteq> ''error'' \<Longrightarrow> jget (persistable_payload payload) k = jget payload k"
  by (simp add: persistable_payload_def jget_jset split: option.splits json.splits)

lemma persistable_error:
  "jget payload ''error'' = Some err \<Longrightarrow>
     \<exists>e. jget (persistable_payload payload) ''error'' = Some e
       \<and> jget e ''code'' = jget err ''code'' \<and> jget e ''message'' = jget err ''message''"
  by (cases err)
    (auto simp: persistable_payload_def jget_jset jget_is_jobj split: option.splits json.splits)

lemma op_state_of_finish:
  "transition_operation X oid st expected res err s = (Inr q, s') \<Longrightarrow> \<exists>to'. st = op_state_name to'"
  by (cases "op_state_of st") (auto simp: transition_operation_def dest: op_state_of_Some)

text \<open>C26: \<open>finish\<close> stores the payload it is given with every key but \<open>error\<close> unchanged and with the
  error's code and message, and neither the stored result nor the stored error holds the
  plaintext approval token, whatever the payload held.\<close>

theorem finish_persists_no_token:
  assumes "finish X oid state payload s = (Inr q, s')"
  shows "\<exists>row j. operation_row oid (db s') = Some row \<and> o_result_json row = Some (JText j)
    \<and> \<not> holds_token j
    \<and> (\<forall>k. k \<noteq> ''error'' \<longrightarrow> jget j k = jget payload k)
    \<and> (\<forall>err. jget payload ''error'' = Some err \<longrightarrow>
         (\<exists>e. jget j ''error'' = Some e \<and> jget e ''code'' = jget err ''code''))
    \<and> (\<forall>kvs. jget payload ''error'' = Some (JObj kvs) \<longrightarrow>
         (\<exists>e. o_error_json row = Some (JText e) \<and> \<not> holds_token (JObj [(''error'', e)])))"
proof -
  from assms obtain to' where st: "state = op_state_name to'"
    unfolding finish_def using op_state_of_finish by blast
  let ?err = "case jget payload ''error'' of
      Some (JObj e) \<Rightarrow> jget (persistable_payload (JObj [(''error'', JObj e)])) ''error'' | _ \<Rightarrow> None"
  from returnsD [OF transition_operation_returns assms [unfolded finish_def st]]
  obtain r now where row: "operation_row oid (db s') =
      Some (transition_update to' now (Some (persistable_payload payload)) ?err r r)" by blast
  have err: "\<exists>e. ?err = Some e \<and> \<not> holds_token (JObj [(''error'', e)])"
    if "jget payload ''error'' = Some (JObj kvs)" for kvs
  proof -
    from persistable_error [of "JObj [(''error'', JObj kvs)]" "JObj kvs"] obtain e where
      e: "jget (persistable_payload (JObj [(''error'', JObj kvs)])) ''error'' = Some e"
      by (auto simp: jget.simps)
    moreover have "\<not> holds_token (JObj [(''error'', e)])"
      using persistable_no_token [of "JObj [(''error'', JObj kvs)]"] e by (simp add: holds_token_def jget.simps)
    ultimately show ?thesis using that by simp
  qed
  show ?thesis
  proof (intro exI conjI)
    show "operation_row oid (db s') =
      Some (transition_update to' now (Some (persistable_payload payload)) ?err r r)" by (rule row)
    show "o_result_json (transition_update to' now (Some (persistable_payload payload)) ?err r r)
      = Some (JText (persistable_payload payload))" by (simp add: transition_update_def)
  qed (use persistable_no_token persistable_keeps persistable_error err in
      \<open>fastforce simp: transition_update_def split: option.splits\<close>)+
qed

section \<open>Approvals: one token, one use, one life time\<close>

lemma approval_row_new:
  assumes "constraints_ok (insert_approval a d)"
  shows "approval_row (a_operation_id a) (add_events es (insert_approval a d)) = Some a"
proof -
  have "approval_row (a_operation_id a) d = None"
    using fresh_insert(3) [OF assms] by (simp add: approval_row_def find_keyed_None)
  then show ?thesis by (simp add: approval_row_insert)
qed

lemma create_approval_returns:
  "returns (create_approval X aid r action hash expires) s
     (\<lambda>_ t. \<exists>a. approval_row (o_operation_id r) (db t) = Some a \<and> a_token_hash a = hash
        \<and> a_expires_at a = expires \<and> a_status a = Pending)"
proof -
  have row: "\<exists>a. approval_row (o_operation_id r) (add_events es (insert_approval
      \<lparr>a_approval_id = aid, a_operation_id = o_operation_id r, a_project_id = p, a_session_id = ses,
        a_action = action, a_token_hash = hash, a_status = Pending, a_created_at = now,
        a_expires_at = expires, a_consumed_at = None\<rparr> d)) = Some a
      \<and> a_token_hash a = hash \<and> a_expires_at a = expires \<and> a_status a = Pending"
    if "constraints_ok (insert_approval
      \<lparr>a_approval_id = aid, a_operation_id = o_operation_id r, a_project_id = p, a_session_id = ses,
        a_action = action, a_token_hash = hash, a_status = Pending, a_created_at = now,
        a_expires_at = expires, a_consumed_at = None\<rparr> d)" for es p ses now d
    using approval_row_new [OF that] by simp
  show ?thesis
    unfolding create_approval_def
    by (rule transaction_returns [where Q = "\<lambda>_ d. \<exists>a. approval_row (o_operation_id r) d = Some a
        \<and> a_token_hash a = hash \<and> a_expires_at a = expires \<and> a_status a = Pending"])
      (auto intro!: row)
qed

definition issue_time :: "ext \<Rightarrow> 'z store_st_scheme \<Rightarrow> nat" where
  "issue_time X s = x_time X (Now # TokenUrlsafe 32 # log s)"

definition consume_time :: "ext \<Rightarrow> 'z store_st_scheme \<Rightarrow> nat" where
  "consume_time X s = x_time X (Now # log s)"

lemma returns_now_ms [simp]:
  "returns (now_ms X) s Q = Q (x_time X (Now # log s)) (s\<lparr>log := Now # log s\<rparr>)"
  by (simp add: returns_def)

lemma returns_token_urlsafe [simp]:
  "returns (token_urlsafe X n) s Q = Q (x_text X (TokenUrlsafe n # log s)) (s\<lparr>log := TokenUrlsafe n # log s\<rparr>)"
  by (simp add: returns_def)

lemma returns_token_hex [simp]:
  "returns (token_hex X n) s Q = Q (x_text X (TokenHex n # log s)) (s\<lparr>log := TokenHex n # log s\<rparr>)"
  by (simp add: returns_def)

lemma issue_returns:
  "returns (issue X ttl r action) s
     (\<lambda>g t. \<exists>a. approval_row (o_operation_id r) (db t) = Some a
        \<and> a_token_hash a = token_hash X (g_token g)
        \<and> a_expires_at a = iso (issue_time X s + ttl) \<and> a_status a = Pending)"
  unfolding issue_def
  by (simp add: issue_time_def) (rule returns_mono [OF create_approval_returns], auto)

lemma consume_returns:
  "returns (consume X oid token) s
     (\<lambda>q t. \<exists>a. approval_row oid (db s) = Some a \<and> a_token_hash a = token_hash X token
        \<and> a_status a = Pending \<and> iso (consume_time X s) < a_expires_at a
        \<and> approval_row oid (db t) = Some (consumed (iso (consume_time X s)) a))"
  unfolding consume_def
  by (simp add: consume_time_def, intro impI)
    (rule returns_mono [OF consume_approval_returns], auto simp: usable_def dest: approval_join_Some)

lemma issue_obeys: "obeys by_moves (issue X ttl r action)"
  unfolding issue_def by (intro store_obeys create_approval_obeys)

lemma consume_obeys: "obeys by_moves (consume X oid token)"
  unfolding consume_def by (intro store_obeys consume_approval_obeys)

text \<open>C8: An approval that was issued can be consumed only with a token of the same hash, only
  before its life time has passed, and only once: whatever store methods run between the issue
  and the use, and whatever runs after it, no second use of any token for that operation
  succeeds.\<close>

theorem approval_one_use:
  assumes "constraints_ok (db s)" and "issue X ttl r action s = (Inr g, s1)"
    and "s2 = run_all X ps s1" and "consume X (o_operation_id r) token s2 = (Inr q, s3)"
    and "issue_time X s + ttl < TIME_LIMIT" and "consume_time X s2 < TIME_LIMIT"
  shows "token_hash X token = token_hash X (g_token g)
    \<and> consume_time X s2 < issue_time X s + ttl
    \<and> (\<forall>ps' token' q' s'. consume X (o_operation_id r) token' (run_all X ps' s3) \<noteq> (Inr q', s'))"
proof -
  let ?oid = "o_operation_id r"
  have ok1: "constraints_ok (db s1)"
    using obeysD [OF issue_obeys assms(2)] assms(1) by (auto simp: by_moves_def dest: moves_constraints)
  have ok2: "constraints_ok (db s2)"
    using run_all_moves [OF ok1] assms(3) by (auto dest: moves_constraints [OF _ ok1])
  have ok3: "constraints_ok (db s3)"
    using obeysD [OF consume_obeys assms(4)] ok2 by (auto simp: by_moves_def dest: moves_constraints)
  from returnsD [OF issue_returns assms(2)] obtain a where a: "approval_row ?oid (db s1) = Some a"
    "a_token_hash a = token_hash X (g_token g)" "a_expires_at a = iso (issue_time X s + ttl)" by auto
  from approval_evolves [OF run_all_moves [OF ok1] a(1), of X ps] obtain b where
    b: "approval_row ?oid (db s2) = Some b" "a_token_hash b = a_token_hash a"
      "a_expires_at b = a_expires_at a" using assms(3) by auto
  from returnsD [OF consume_returns assms(4)] b(1) have
    use: "a_token_hash b = token_hash X token" "iso (consume_time X s2) < a_expires_at b"
      "approval_row ?oid (db s3) = Some (consumed (iso (consume_time X s2)) b)" by auto
  have "consume X ?oid token' (run_all X ps' s3) \<noteq> (Inr q', s')" for ps' token' q' s'
  proof
    assume again: "consume X ?oid token' (run_all X ps' s3) = (Inr q', s')"
    from approval_evolves [OF run_all_moves [OF ok3] use(3), of X ps'] obtain c where
      "approval_row ?oid (db (run_all X ps' s3)) = Some c" "a_status c = Consumed"
      by (auto simp: consumed_def)
    with returnsD [OF consume_returns again] show False by auto
  qed
  moreover have "consume_time X s2 < issue_time X s + ttl"
    using use(2) b(3) a(3) assms(5,6) by (simp add: iso_less_iff)
  ultimately show ?thesis using use(1) a(2) b(2) by simp
qed

section \<open>Sessions belong to a security context\<close>

lemma returns_get_session [simp]:
  "returns (get_session sid) s Q = (is_open s \<longrightarrow> Q (session_row sid (db s)) s)"
  by (simp add: get_session_def)

text \<open>What \<open>require_active\<close> has checked when it returns a session.\<close>

definition usable_by ::
  "ext \<Rightarrow> auth_context option \<Rightarrow> string \<Rightarrow> string \<Rightarrow> dbase \<Rightarrow> session_rec \<Rightarrow> bool" where
  "usable_by X who pid sid d ses \<longleftrightarrow>
     session_row sid d = Some ses \<and> s_project_id ses = pid \<and> s_owner_id ses = LOCAL_OWNER_ID
     \<and> s_status ses = SActive
     \<and> (\<exists>details. session_auth_details d sid = Inr details
          \<and> (case details of
               None \<Rightarrow> who = None
             | Some j \<Rightarrow> who \<noteq> None \<and> auth_context_identity (x_sha256 X) j \<noteq> None
                 \<and> auth_context_identity (x_sha256 X) j = auth_identity (x_sha256 X) who))"

lemma require_active_returns:
  "returns (require_active X who pid sid) s
     (\<lambda>ses t. t = s \<and> (\<exists>k. sid = Some k \<and> k \<noteq> [] \<and> usable_by X who pid k (db s) ses))"
  unfolding require_active_def
  by (auto simp: current_context_matches_def usable_by_def identity_of_def dest: session_row_id
      split: option.splits)

lemma session_auth_details_alt:
  "session_auth_details d sid = auth_event_details ''session'' (filter (session_auth_event sid) (audits d))"
  by (simp add: session_auth_details_def session_auth_event_def [abs_def])

lemma session_context_moves:
  "moves d d' \<Longrightarrow> k \<in> s_session_id ` set (sessions d) \<Longrightarrow>
     k \<in> s_session_id ` set (sessions d')
     \<and> filter (session_auth_event k) (audits d') = filter (session_auth_event k) (audits d)"
proof (induction rule: moves_induct)
  case (step x y)
  then show ?case using session_context_fixed [OF step.hyps(2), of k] by simp
qed simp

lemma session_auth_audit_entry:
  "session_auth_event sid (audit_entry X l oid p (Some sid') owner ty fr t dt)
     \<longleftrightarrow> sid' = sid \<and> ty = ''auth.session.context''"
  by (auto simp: session_auth_event_def audit_entry_def)

lemma audit_entry_details: "e_details (audit_entry X l oid p sid owner ty fr t dt) = JText dt"
  by (simp add: audit_entry_def)

lemma create_session_context:
  "returns (create_session X sid pid owner details) s
     (\<lambda>ses t. s_session_id ses = sid \<and> s_project_id ses = pid \<and> session_row sid (db t) = Some ses
        \<and> sid \<in> s_session_id ` set (sessions (db t)) \<and> sid \<notin> s_session_id ` set (sessions (db s))
        \<and> (\<exists>es. filter (session_auth_event sid) (audits (db t))
                = filter (session_auth_event sid) (audits (db s)) @ es
              \<and> map e_details es = (case details of None \<Rightarrow> [] | Some j \<Rightarrow> [JText j])))"
proof -
  let ?r = "\<lambda>now. \<lparr>s_session_id = sid, s_project_id = pid, s_owner_id = owner, s_status = SCreated,
      s_created_at = now, s_updated_at = now, s_closed_at = None, s_reason = None\<rparr>"
  let ?f = "\<lambda>later r. r\<lparr>s_status := SActive, s_updated_at := later\<rparr>"
  have fresh: "sid \<notin> s_session_id ` set (sessions d)"
    if "constraints_ok (insert_session (?r now) d)" for now d
    using fresh_insert(1) [OF that] by simp
  have ids: "sid \<in> s_session_id ` set (update_where p (?f later) (rs @ [?r now]))" for p later rs now
    by (simp add: update_where_def)
  have row: "session_row sid (set_session sid (?f later) (add_events es' (insert_session (?r now) d)))
      = Some (?f later (?r now))"
    if "constraints_ok (insert_session (?r now) d)" for es' later now d
  proof -
    have "session_row sid d = None"
      using fresh [OF that] by (simp add: session_row_def find_keyed_None)
    then show ?thesis
      using session_row_insert [of sid es' "?r now" d]
      by (simp add: session_row_def find_update_where)
  qed
  show ?thesis
    unfolding create_session_def returns_andthen
    by (simp, rule returns_mono, rule transaction_returns [where Q = "\<lambda>row d. (\<exists>later now. row = Some (?f later (?r now))) \<and> session_row sid d = row
          \<and> sid \<in> s_session_id ` set (sessions d) \<and> sid \<notin> s_session_id ` set (sessions (db s))
          \<and> (\<exists>es. filter (session_auth_event sid) (audits d) = filter (session_auth_event sid) (audits (db s)) @ es
                \<and> map e_details es = (case details of None \<Rightarrow> [] | Some j \<Rightarrow> [JText j]))"])
      ((cases details; auto simp: row ids session_row_frame session_auth_audit_entry audit_entry_details fresh), auto)
qed

text \<open>C27: A session belongs to the security context that created it.  Whatever store methods run
  after its creation, \<open>require_active\<close> hands it out only for its own project, only while it is
  active, and only to a request whose security identity is the creator's; a session created
  without a principal is never handed to a principal, nor the other way round.\<close>

theorem session_security_context:
  assumes "store_inv (db s)" and "session_create X who pid s = (Inr ses, s1)"
    and "require_active X who' pid' (Some (s_session_id ses)) (run_all X ps s1) = (Inr ses', s2)"
  shows "pid' = pid \<and> s_status ses' = SActive \<and> (who' = None \<longleftrightarrow> who = None)
    \<and> auth_identity (x_sha256 X) who' = auth_identity (x_sha256 X) who"
proof -
  let ?k = "s_session_id ses"
  let ?det = "map_option (auth_audit_details (x_sha256 X)) who"
  have ok: "constraints_ok (db s)" and tracked: "contexts_tracked (db s)"
    using assms(1) by (simp_all add: store_inv_def)
  from assms(2) obtain l sid where create: "create_session X sid pid LOCAL_OWNER_ID ?det (s\<lparr>log := l\<rparr>) = (Inr ses, s1)"
    by (auto simp: session_create_def andthen_eq_Inr)
  from returnsD [OF create_session_context create] tracked obtain es where
    ses: "?k = sid" "s_project_id ses = pid" "session_row ?k (db s1) = Some ses" "?k \<in> s_session_id ` set (sessions (db s1))"
    and ctx: "filter (session_auth_event ?k) (audits (db s1)) = es"
      "map e_details es = (case ?det of None \<Rightarrow> [] | Some j \<Rightarrow> [JText j])"
    by (auto simp: contexts_tracked_def)
  have ok1: "constraints_ok (db s1)"
    using obeysD [OF create_session_obeys create] ok by (auto simp: by_moves_def dest: moves_constraints)
  note mv = run_all_moves [OF ok1, of X ps]
  have "session_auth_details (db (run_all X ps s1)) ?k = Inr ?det"
    using session_context_moves [OF mv ses(4)] ctx
    by (cases who) (auto simp: session_auth_details_alt auth_event_details_def event_order_def
        auth_audit_details_def split: auth_context.splits)
  moreover from session_evolves [OF mv ses(3)] ses(2) obtain r where
    "session_row ?k (db (run_all X ps s1)) = Some r" "s_project_id r = pid" by auto
  ultimately show ?thesis
    using returnsD [OF require_active_returns assms(3)]
    by (cases who) (auto simp: usable_by_def auth_identity_def)
qed

section \<open>Witnesses\<close>

definition demo_open :: store_st where
  "demo_open = run_all demo_ext [DoInitialize] demo_start"

lemma demo_open_inv: "store_inv (db demo_open)"
  unfolding demo_open_def by (rule reachable_inv [OF demo_start_reachable])

lemma one_op_inv: "store_inv (db one_op)"
  unfolding one_op_def by (rule reachable_inv [OF demo_start_reachable])

lemmas service_eval = store_eval start_def check_request_def rejected_def request_id_ok_def is_alnum_def
  is_digit_def is_alpha_def is_hexdigit_def code_def request_hash_ok_def request_hash_def sha256_hex_def
  lower_def lower_char_def encode_replay_key_def obtain_record_def settle_def is_oauth_def
  get_operation_by_client_request_id_def get_operation_auth_context_def auth_event_details_def
  event_order_def transition_operation_def op_state_of_def OPERATION_STATES_def finish_def
  persistable_payload_def

lemma zeros_hex [simp]:
  "list_all is_hexdigit (replicate n CHR ''0'')"
  "lower (replicate n CHR ''0'') = replicate n CHR ''0''"
  by (simp_all add: list_all_iff is_hexdigit_def is_digit_def code_def lower_def lower_char_def)

theorem start_outcome_witness:
  "\<exists>q s' key. start demo_ext None ''o1'' ''p'' None ''k'' True ''r1'' (replicate 64 (CHR ''0'')) (JObj [])
        demo_open = (Inr (q, None), s')
     \<and> new_start demo_ext ''o1'' ''p'' None ''k'' True key (JObj []) (db demo_open) q"
proof -
  obtain q s' where run: "start demo_ext None ''o1'' ''p'' None ''k'' True ''r1''
      (replicate 64 (CHR ''0'')) (JObj []) demo_open = (Inr (q, None), s')"
    by (simp add: service_eval demo_open_def)
  have "constraints_ok (db demo_open)" using demo_open_inv by (simp add: store_inv_def)
  from start_outcome [OF this run] run show ?thesis by auto
qed

definition demo_secret :: json where
  "demo_secret = JObj [(''status'', JStr ''rejected''),
     (''error'', JObj [(''code'', JStr ''APPROVAL_REQUIRED''),
                       (''details'', JObj [(''approval_token'', JStr ''tok'')])])]"

lemma demo_payload:
  "persistable_payload demo_secret = JObj [(''status'', JStr ''rejected''),
     (''error'', JObj [(''code'', JStr ''APPROVAL_REQUIRED''), (''details'', JObj [])])]"
  "jget demo_secret ''error'' = Some (JObj [(''code'', JStr ''APPROVAL_REQUIRED''),
     (''details'', JObj [(''approval_token'', JStr ''tok'')])])"
  "persistable_payload (JObj [(''error'', JObj [(''code'', JStr ''APPROVAL_REQUIRED''),
     (''details'', JObj [(''approval_token'', JStr ''tok'')])])])
   = JObj [(''error'', JObj [(''code'', JStr ''APPROVAL_REQUIRED''), (''details'', JObj [])])]"
  "jget (JObj [(''error'', e)]) ''error'' = Some e"
  by (simp_all add: persistable_payload_def demo_secret_def jget.simps jset.simps jpop.simps)

theorem finish_persists_no_token_witness:
  "\<exists>q s' row j. finish demo_ext ''o1'' ''cancelled'' demo_secret one_op = (Inr q, s')
     \<and> operation_row ''o1'' (db s') = Some row \<and> o_result_json row = Some (JText j)
     \<and> \<not> holds_token j \<and> holds_token demo_secret"
proof -
  obtain q s' where run: "finish demo_ext ''o1'' ''cancelled'' demo_secret one_op = (Inr q, s')"
    by (simp add: finish_def demo_payload transition_operation_def op_state_of_def OPERATION_STATES_def
        store_eval one_op_def)
  have "holds_token demo_secret"
    by (simp add: holds_token_def demo_secret_def jget.simps)
  with finish_persists_no_token [OF run] run show ?thesis by blast
qed

theorem approval_one_use_witness:
  "\<exists>g s1 q s3. issue demo_ext 1000 demo_row ''act'' one_op = (Inr g, s1)
     \<and> consume demo_ext ''o1'' (g_token g) s1 = (Inr q, s3)
     \<and> (\<forall>q' s'. consume demo_ext ''o1'' (g_token g) s3 \<noteq> (Inr q', s'))"
proof -
  have lim: "0 < TIME_LIMIT" "1000 < TIME_LIMIT" using TIME_LIMIT_ge by simp_all
  then have late: "\<not> iso 1000 \<le> iso 0" by (simp add: iso_le_iff)
  have "constraints_ok (db one_op)"
    using one_op_inv by (simp add: store_inv_def)
  moreover obtain g s1 q s3 where run: "issue demo_ext 1000 demo_row ''act'' one_op = (Inr g, s1)"
    "consume demo_ext ''o1'' (g_token g) s1 = (Inr q, s3)" and oid: "o_operation_id demo_row = ''o1''"
    by (simp add: service_eval one_op_def demo_row_def issue_def consume_def create_approval_def
        consume_approval_def token_hash_def late)
  moreover have "issue_time demo_ext one_op + 1000 < TIME_LIMIT" "consume_time demo_ext s1 < TIME_LIMIT"
    using lim by (simp_all add: issue_time_def consume_time_def demo_ext_def)
  ultimately have "\<forall>ps' token' q' s'. consume demo_ext ''o1'' token' (run_all demo_ext ps' s3) \<noteq> (Inr q', s')"
    using approval_one_use [of one_op demo_ext 1000 demo_row "''act''" g s1 s1 "[]" "g_token g" q s3] by simp
  then have "\<forall>q' s'. consume demo_ext ''o1'' (g_token g) (run_all demo_ext [] s3) \<noteq> (Inr q', s')" by blast
  with run show ?thesis by auto
qed

theorem session_security_context_witness:
  "\<exists>ses s1 ses' s2. session_create demo_ext (Some (NetworkTrusted None)) ''p'' demo_open = (Inr ses, s1)
     \<and> require_active demo_ext (Some (NetworkTrusted None)) ''p'' (Some (s_session_id ses)) s1 = (Inr ses', s2)
     \<and> s_status ses' = SActive"
proof -
  define ses where "ses = \<lparr>s_session_id = ''iiiiiiiiii'', s_project_id = ''p'',
    s_owner_id = ''local-policy'', s_status = SActive, s_created_at = iso 0, s_updated_at = iso 0,
    s_closed_at = None, s_reason = None\<rparr>"
  note eval = demo_open_def service_eval session_create_def create_session_def require_active_def
    LOCAL_OWNER_ID_def get_session_def current_context_matches_def get_session_auth_context_def
    auth_audit_details_def is_jobj_def identity_of_def auth_context_identity_def field_is_def
    network_trust_defs jget.simps
  obtain s1 where run: "session_create demo_ext (Some (NetworkTrusted None)) ''p'' demo_open = (Inr ses, s1)"
    and s1: "s1 = snd (session_create demo_ext (Some (NetworkTrusted None)) ''p'' demo_open)"
    by (simp add: eval ses_def)
  obtain ses' s2 where run2: "require_active demo_ext (Some (NetworkTrusted None)) ''p''
      (Some (s_session_id ses)) s1 = (Inr ses', s2)"
    by (simp add: s1 eval ses_def auth_contexts_match_def)
  from session_security_context [OF demo_open_inv run, of _ _ "[]"] run2
  have "s_status ses' = SActive" by simp
  with run run2 show ?thesis by blast
qed

end
