(* ===== verification/Paths.thy ===== *)
theory Paths
  imports Pystr
begin

text \<open>
  Names and paths: \<open>fnmatch.fnmatchcase\<close>, the parts of a \<open>PurePosixPath\<close>, the sensitive-path
  filter of \<open>project_registry.py\<close>, and \<open>normalize_relative_path\<close> and \<open>to_wsl_path\<close> of
  \<open>settings.py\<close>.
\<close>

section \<open>Shell patterns\<close>

text \<open>A pattern is a sequence of stars and character classes; a class is a list of ranges, possibly
  negated.\<close>

datatype glob = Star | Class bool "(char \<times> char) list"

fun in_ranges :: "(char \<times> char) list \<Rightarrow> char \<Rightarrow> bool" where
  "in_ranges [] c = False"
| "in_ranges ((a, b) # rs) c = ((a \<le> c \<and> c \<le> b) \<or> in_ranges rs c)"

fun glob_match :: "glob list \<Rightarrow> string \<Rightarrow> bool" where
  "glob_match [] s = (s = [])"
| "glob_match (Star # g) [] = glob_match g []"
| "glob_match (Star # g) (c # cs) = (glob_match g (c # cs) \<or> glob_match (Star # g) cs)"
| "glob_match (Class neg rs # g) [] = False"
| "glob_match (Class neg rs # g) (c # cs) = (in_ranges rs c \<noteq> neg \<and> glob_match g cs)"

text \<open>The first place of \<open>c\<close> in \<open>s\<close> at or after \<open>k\<close>.\<close>

definition find_from :: "char \<Rightarrow> nat \<Rightarrow> string \<Rightarrow> nat option" where
  "find_from c k s =
     (let n = length (takeWhile (\<lambda>x. x \<noteq> c) (drop k s)) in
      if k + n < length s then Some (k + n) else None)"

lemma find_from_bound: "find_from c k s = Some n \<Longrightarrow> k \<le> n \<and> n < length s"
  by (auto simp: find_from_def Let_def split: if_splits)

text \<open>The end of the set that opens before \<open>rest\<close>: a leading \<open>!\<close> and a closing bracket right
  after it belong to the set.\<close>

definition set_end :: "string \<Rightarrow> nat option" where
  "set_end rest =
     (let a = (if take 1 rest = ''!'' then 1 else 0);
          b = (if take 1 (drop a rest) = '']'' then a + 1 else a)
      in find_from (CHR '']'') b rest)"

text \<open>The set cut at the hyphens that mean a range; a hyphen at the end is a member.\<close>

function dash_chunks :: "string \<Rightarrow> nat \<Rightarrow> string list" where
  "dash_chunks s k =
     (case find_from (CHR ''-'') k s of
        None \<Rightarrow> [s]
      | Some p \<Rightarrow>
          if drop (p + 1) s = [] then [take p s @ ''-'']
          else take p s # dash_chunks (drop (p + 1) s) 2)"
  by pat_completeness auto
termination
  by (relation "measure (\<lambda>(s, k). length s)") (auto dest: find_from_bound)

declare dash_chunks.simps [simp del]

text \<open>Empty ranges are removed from the right.\<close>

fun merge_chunks :: "string list \<Rightarrow> string list" where
  "merge_chunks [] = []"
| "merge_chunks (c # cs) =
     (case merge_chunks cs of
        [] \<Rightarrow> [c]
      | d # ds \<Rightarrow> if last c > hd d then (butlast c @ tl d) # ds else c # d # ds)"

fun chunk_ranges :: "string list \<Rightarrow> (char \<times> char) list" where
  "chunk_ranges [] = []"
| "chunk_ranges [c] = map (\<lambda>x. (x, x)) c"
| "chunk_ranges (c # d # ds) = map (\<lambda>x. (x, x)) c @ (last c, hd d) # chunk_ranges (d # ds)"

definition set_class :: "string \<Rightarrow> glob" where
  "set_class stuff =
     (let chunks = (if CHR ''-'' \<in> set stuff
                    then merge_chunks (dash_chunks stuff (if take 1 stuff = ''!'' then 2 else 1))
                    else [stuff])
      in case chunks of
           (x # xs) # cs \<Rightarrow> if x = CHR ''!'' then Class True (chunk_ranges (xs # cs))
                             else Class False (chunk_ranges chunks)
         | _ \<Rightarrow> Class False [])"

function glob_of :: "string \<Rightarrow> glob list" where
  "glob_of [] = []"
| "glob_of (c # cs) =
     (if c = CHR ''*'' then Star # glob_of cs
      else if c = CHR ''?'' then Class True [] # glob_of cs
      else if c = CHR ''['' then
        (case set_end cs of
           None \<Rightarrow> Class False [(c, c)] # glob_of cs
         | Some j \<Rightarrow> set_class (take j cs) # glob_of (drop (j + 1) cs))
      else Class False [(c, c)] # glob_of cs)"
  by pat_completeness auto
termination
  by (relation "measure length") auto

definition fnmatchcase :: "string \<Rightarrow> string \<Rightarrow> bool" where
  "fnmatchcase name pat = glob_match (glob_of pat) name"

lemma glob_literal: "glob_match (map (\<lambda>c. Class False [(c, c)]) p @ g) s
    \<longleftrightarrow> (\<exists>t. s = p @ t \<and> glob_match g t)"
proof (induction p arbitrary: s)
  case Nil
  then show ?case by simp
next
  case (Cons c p)
  then show ?case by (cases s) auto
qed

lemma glob_star: "glob_match (Star # g) s \<longleftrightarrow> (\<exists>u t. s = u @ t \<and> glob_match g t)"
proof (induction s)
  case Nil
  then show ?case by simp
next
  case (Cons c s)
  show ?case
  proof
    assume "glob_match (Star # g) (c # s)"
    then show "\<exists>u t. c # s = u @ t \<and> glob_match g t"
      using Cons by (auto intro: exI [of _ "[]"]) (metis append_Cons)
  next
    assume "\<exists>u t. c # s = u @ t \<and> glob_match g t"
    then show "glob_match (Star # g) (c # s)" using Cons by (auto simp: Cons_eq_append_conv)
  qed
qed

definition plain :: "string \<Rightarrow> bool" where
  "plain p \<longleftrightarrow> (\<forall>c \<in> set p. c \<noteq> CHR ''*'' \<and> c \<noteq> CHR ''?'' \<and> c \<noteq> CHR ''['')"

lemma glob_of_plain: "plain p \<Longrightarrow> glob_of (p @ q) = map (\<lambda>c. Class False [(c, c)]) p @ glob_of q"
  by (induction p) (auto simp: plain_def)

lemma glob_of_star: "glob_of (CHR ''*'' # q) = Star # glob_of q"
  by simp

text \<open>A pattern without wildcards matches itself; \<open>*p\<close> matches what ends in \<open>p\<close>; \<open>*p*\<close> what
  contains \<open>p\<close>; \<open>p*\<close> what starts with \<open>p\<close>.\<close>

lemma fnmatch_plain: "plain p \<Longrightarrow> fnmatchcase s p \<longleftrightarrow> s = p"
  using glob_of_plain [of p "[]"] glob_literal [of p "[]" s] by (simp add: fnmatchcase_def)

lemma fnmatch_suffix: "plain p \<Longrightarrow> fnmatchcase s (CHR ''*'' # p) \<longleftrightarrow> suffix p s"
  using glob_of_plain [of p "[]"] glob_literal [of p "[]"]
  by (auto simp: fnmatchcase_def glob_star suffix_def simp del: glob_match.simps(2,3))

lemma fnmatch_prefix: "plain p \<Longrightarrow> fnmatchcase s (p @ ''*'') \<longleftrightarrow> prefix p s"
  by (auto simp: fnmatchcase_def glob_of_plain glob_literal glob_star prefix_def
      simp del: glob_match.simps(2,3))

lemma fnmatch_infix: "plain p \<Longrightarrow> fnmatchcase s (CHR ''*'' # p @ ''*'') \<longleftrightarrow> (\<exists>u t. s = u @ p @ t)"
  by (auto simp: fnmatchcase_def glob_of_plain glob_literal glob_star
      simp del: glob_match.simps(2,3))

section \<open>Parts of a path\<close>

text \<open>\<open>PurePosixPath(s).parts\<close>: the root, kept double when there are exactly two slashes, and the
  components that are neither empty nor a dot.\<close>

definition posix_root :: "string \<Rightarrow> string list" where
  "posix_root s =
     (if take 2 s = ''//'' \<and> take 3 s \<noteq> ''///'' then [''//'']
      else if take 1 s = ''/'' then [''/''] else [])"

definition posix_parts :: "string \<Rightarrow> string list" where
  "posix_parts s = posix_root s @ filter (\<lambda>w. w \<noteq> [] \<and> w \<noteq> ''.'') (split_on (CHR ''/'') s)"

section \<open>Sensitive paths\<close>

definition SENSITIVE_NAMES :: "string list" where
  "SENSITIVE_NAMES = [''.git'', ''.codemcp'', ''id_rsa'', ''id_ed25519'', ''credentials'', ''password'',
     ''passwd'', ''secret'', ''secrets'', ''token'']"

definition SENSITIVE_SUFFIXES :: "string list" where
  "SENSITIVE_SUFFIXES = [''.pem'', ''.key'', ''.p12'', ''.pfx'', ''.crt'', ''.cer'']"

definition SENSITIVE_GLOBS :: "string list" where
  "SENSITIVE_GLOBS = SENSITIVE_NAMES @ [''*.env'', ''*.env.*''] @ map (\<lambda>x. CHR ''*'' # x) SENSITIVE_SUFFIXES"

definition is_sensitive :: "string \<Rightarrow> bool" where
  "is_sensitive p = list_ex (\<lambda>part. list_ex (fnmatchcase (lower part)) SENSITIVE_GLOBS) (posix_parts p)"

section \<open>Relative paths\<close>

definition to_slashes :: "string \<Rightarrow> string" where
  "to_slashes s = map (\<lambda>c. if c = backslash then CHR ''/'' else c) s"

text \<open>\<open>PureWindowsPath(value).drive\<close> is a letter and a colon, or a share that starts with two
  separators; the second case starts with a slash once backslashes are turned.\<close>

definition has_drive :: "string \<Rightarrow> bool" where
  "has_drive s = (take 1 (drop 1 s) = '':'' \<and> take 1 (to_slashes s) \<noteq> ''/'')"

text \<open>\<open>normalize_relative_path\<close>; \<open>Inl\<close> is the message of the \<open>SettingsError\<close>.\<close>

definition normalize_relative_path :: "string \<Rightarrow> string + string" where
  "normalize_relative_path value =
     (if value = [] \<or> nul \<in> set value then Inl ''path must be a non-empty string''
      else if take 1 (to_slashes value) = ''/'' \<or> has_drive value then Inl ''path must be relative''
      else
        (let parts = filter (\<lambda>p. p \<noteq> [] \<and> p \<noteq> ''.'') (posix_parts (to_slashes value)) in
         if ''..'' \<in> set parts then Inl ''path must not escape the project root''
         else Inr (let r = join_with ''/'' parts in if r = [] then ''.'' else r)))"

text \<open>\<open>str.isalpha\<close> below code point 256.\<close>

definition py_isalpha :: "char \<Rightarrow> bool" where
  "py_isalpha c =
     (is_alpha c \<or> code c \<in> {170, 181, 186} \<or> (192 \<le> code c \<and> code c \<noteq> 215 \<and> code c \<noteq> 247))"

definition to_wsl_path :: "string \<Rightarrow> string" where
  "to_wsl_path value =
     (case value of
        d # c # rest \<Rightarrow>
          if c = CHR '':'' \<and> py_isalpha d
          then ''/mnt/'' @ [lower_char d] @ ''/'' @ dropWhile (\<lambda>x. x = CHR ''/'') (to_slashes rest)
          else if take 1 value = ''/'' then value else to_slashes value
      | _ \<Rightarrow> if take 1 value = ''/'' then value else to_slashes value)"


section \<open>What the filters guarantee\<close>

lemma sensitive_names_plain: "p \<in> set SENSITIVE_NAMES \<Longrightarrow> plain p"
  by (auto simp: SENSITIVE_NAMES_def plain_def)

lemma sensitive_suffixes_plain: "p \<in> set SENSITIVE_SUFFIXES \<Longrightarrow> plain p"
  by (auto simp: SENSITIVE_SUFFIXES_def plain_def)

lemma env_globs:
  "fnmatchcase s ''*.env'' \<longleftrightarrow> suffix ''.env'' s"
  "fnmatchcase s ''*.env.*'' \<longleftrightarrow> (\<exists>u t. s = u @ ''.env.'' @ t)"
  using fnmatch_suffix [of "''.env''" s] fnmatch_infix [of "''.env.''" s] by (simp_all add: plain_def)

text \<open>The sensitive-path filter, in closed form.  A path is sensitive exactly when one of its
  components, in lower case, is one of the reserved names, ends in \<open>.env\<close>, contains \<open>.env.\<close>, or
  ends in one of the key and certificate suffixes.\<close>

theorem is_sensitive_iff:
  "is_sensitive p \<longleftrightarrow>
     (\<exists>part \<in> set (posix_parts p). lower part \<in> set SENSITIVE_NAMES \<or> suffix ''.env'' (lower part)
        \<or> (\<exists>u t. lower part = u @ ''.env.'' @ t) \<or> (\<exists>x \<in> set SENSITIVE_SUFFIXES. suffix x (lower part)))"
proof -
  have names: "list_ex (fnmatchcase s) SENSITIVE_NAMES \<longleftrightarrow> s \<in> set SENSITIVE_NAMES" for s
    by (auto simp: list_ex_iff fnmatch_plain [OF sensitive_names_plain])
  have suffixes: "list_ex (fnmatchcase s) (map (\<lambda>x. CHR ''*'' # x) SENSITIVE_SUFFIXES)
      \<longleftrightarrow> (\<exists>x \<in> set SENSITIVE_SUFFIXES. suffix x s)" for s
    by (auto simp: list_ex_iff fnmatch_suffix [OF sensitive_suffixes_plain])
  have "list_ex (fnmatchcase s) SENSITIVE_GLOBS \<longleftrightarrow> s \<in> set SENSITIVE_NAMES \<or> suffix ''.env'' s
      \<or> (\<exists>u t. s = u @ ''.env.'' @ t) \<or> (\<exists>x \<in> set SENSITIVE_SUFFIXES. suffix x s)" for s
    by (simp add: SENSITIVE_GLOBS_def names suffixes env_globs)
  then show ?thesis by (auto simp: is_sensitive_def list_ex_iff)
qed

lemma to_slashes_idem [simp]: "backslash \<notin> set s \<Longrightarrow> to_slashes s = s"
  by (induction s) (auto simp: to_slashes_def)

lemma backslash_to_slashes [simp]: "backslash \<notin> set (to_slashes s)"
  by (auto simp: to_slashes_def backslash_def)

lemma nul_to_slashes [simp]: "nul \<in> set (to_slashes s) \<longleftrightarrow> nul \<in> set s"
  by (auto simp: to_slashes_def nul_def backslash_def)

lemma posix_root_relative: "take 1 s \<noteq> ''/'' \<Longrightarrow> posix_root s = []"
  by (cases s; cases "tl s") (auto simp: posix_root_def)

lemma posix_parts_relative:
  "take 1 s \<noteq> ''/'' \<Longrightarrow> posix_parts s = filter (\<lambda>w. w \<noteq> [] \<and> w \<noteq> ''.'') (split_on (CHR ''/'') s)"
  by (simp add: posix_parts_def posix_root_relative)

lemma posix_parts_join:
  assumes "\<forall>w \<in> set ps. w \<noteq> [] \<and> w \<noteq> ''.'' \<and> CHR ''/'' \<notin> set w"
  shows "posix_parts (join_with ''/'' ps) = ps"
proof (cases ps)
  case Nil
  then show ?thesis by (simp add: posix_parts_def posix_root_def)
next
  case (Cons w ws)
  with assms obtain c cs where w: "w = c # cs" "c \<noteq> CHR ''/''" by (cases w) auto
  then have "take 1 (join_with ''/'' ps) \<noteq> ''/''" using Cons by simp
  with assms Cons show ?thesis
    by (simp add: posix_parts_relative split_on_join filter_id_conv)
qed

lemma dot_parts: "posix_parts ''.'' = []"
  by (simp add: posix_parts_def posix_root_def)

lemma join_with_eq_Nil: "\<forall>w \<in> set ps. w \<noteq> [] \<Longrightarrow> join_with ''/'' ps = [] \<longleftrightarrow> ps = []"
  by (cases "(''/'', ps)" rule: join_with.cases) auto

lemma normalize_result:
  "(case normalize_relative_path v of
      Inl m \<Rightarrow> v = [] \<or> nul \<in> set v \<or> take 1 (to_slashes v) = ''/'' \<or> has_drive v
               \<or> ''..'' \<in> set (split_on (CHR ''/'') (to_slashes v))
    | Inr r \<Rightarrow> v \<noteq> [] \<and> nul \<notin> set v \<and> take 1 (to_slashes v) \<noteq> ''/'' \<and> \<not> has_drive v
               \<and> r \<noteq> [] \<and> nul \<notin> set r \<and> backslash \<notin> set r \<and> take 1 r \<noteq> ''/''
               \<and> posix_parts r = filter (\<lambda>w. w \<noteq> [] \<and> w \<noteq> ''.'') (split_on (CHR ''/'') (to_slashes v))
               \<and> ''..'' \<notin> set (posix_parts r)
               \<and> normalize_relative_path r =
                   (if has_drive r then Inl ''path must be relative'' else Inr r))"
proof -
  let ?w = "to_slashes v"
  define ps where "ps = filter (\<lambda>w. w \<noteq> [] \<and> w \<noteq> ''.'') (split_on (CHR ''/'') ?w)"
  have ps: "\<forall>w \<in> set ps. w \<noteq> [] \<and> w \<noteq> ''.'' \<and> CHR ''/'' \<notin> set w"
    by (auto simp: ps_def dest: split_on_sep_free)
  have sub: "set w \<subseteq> set ?w" if "w \<in> set ps" for w
    using that set_split_on by (auto simp: ps_def)
  show ?thesis
  proof (cases "v = [] \<or> nul \<in> set v \<or> take 1 ?w = ''/'' \<or> has_drive v")
    case True
    then show ?thesis by (auto simp: normalize_relative_path_def)
  next
    case False
    then have parts: "posix_parts ?w = ps" by (simp add: posix_parts_relative ps_def)
    have same: "filter (\<lambda>p. p \<noteq> [] \<and> p \<noteq> ''.'') ps = ps" using ps by (simp add: filter_id_conv)
    show ?thesis
    proof (cases "''..'' \<in> set ps")
      case True
      with False show ?thesis
        by (simp add: normalize_relative_path_def parts same) (auto simp: ps_def)
    next
      case nodots: False
      define r where "r = (if ps = [] then ''.'' else join_with ''/'' ps)"
      have r_join: "(let r = join_with ''/'' ps in if r = [] then ''.'' else r) = r"
        using ps join_with_eq_Nil [of ps] by (simp add: r_def)
      have res: "normalize_relative_path v = Inr r"
        using False nodots by (simp add: normalize_relative_path_def parts same r_join)
      have in_r: "set r \<subseteq> {CHR ''.'', CHR ''/''} \<union> set ?w"
        using set_join_with [of "''/''" ps] sub by (auto simp: r_def)
      then have clean: "nul \<notin> set r" "backslash \<notin> set r"
        using False nul_to_slashes [of v] backslash_to_slashes [of v]
        by (auto simp: nul_def backslash_def)
      have parts_r: "posix_parts r = ps"
        using posix_parts_join [OF ps] dot_parts by (simp add: r_def)
      have ne: "r \<noteq> []" using ps join_with_eq_Nil [of ps] by (auto simp: r_def)
      have rel: "take 1 r \<noteq> ''/''"
      proof (cases ps)
        case (Cons w ws)
        with ps obtain c cs where "w = c # cs" "c \<noteq> CHR ''/''" by (cases w) auto
        with Cons show ?thesis by (simp add: r_def)
      qed (simp add: r_def)
      have "normalize_relative_path r = (if has_drive r then Inl ''path must be relative'' else Inr r)"
        using ne clean rel nodots by (simp add: normalize_relative_path_def parts_r same r_join)
      with res ne clean rel nodots parts_r False show ?thesis by (simp add: ps_def)
    qed
  qed
qed

text \<open>\<open>normalize_relative_path\<close>, on every input.  It refuses exactly the empty string, a NUL, a
  rooted or drive path and a \<open>..\<close> component; otherwise the result has no backslash and no NUL, is
  not rooted, keeps the components in order without the empty ones and the dots, and normalises
  to itself unless dropping a leading dot has uncovered a drive, in which case a second
  normalisation refuses it.\<close>

theorem normalize_outcome:
  "(case normalize_relative_path v of
      Inl m \<Rightarrow> v = [] \<or> nul \<in> set v \<or> take 1 (to_slashes v) = ''/'' \<or> has_drive v
               \<or> ''..'' \<in> set (split_on (CHR ''/'') (to_slashes v))
    | Inr r \<Rightarrow> v \<noteq> [] \<and> nul \<notin> set v \<and> take 1 (to_slashes v) \<noteq> ''/'' \<and> \<not> has_drive v
               \<and> r \<noteq> [] \<and> nul \<notin> set r \<and> backslash \<notin> set r \<and> take 1 r \<noteq> ''/''
               \<and> posix_parts r = filter (\<lambda>w. w \<noteq> [] \<and> w \<noteq> ''.'') (split_on (CHR ''/'') (to_slashes v))
               \<and> ''..'' \<notin> set (posix_parts r)
               \<and> normalize_relative_path r =
                   (if has_drive r then Inl ''path must be relative'' else Inr r))"
  by (rule normalize_result)

text \<open>The drive check looks at the raw text: a leading dot component hides a drive from it.\<close>

lemma drive_behind_dot: "normalize_relative_path ''./C:x'' = Inr ''C:x''"
  by (simp add: normalize_relative_path_def has_drive_def to_slashes_def posix_parts_def posix_root_def
      nul_def backslash_def)

end
