(* ===== verification/Git.thy ===== *)
theory Git
  imports External Utf8 Paths "HOL-Library.AList"
begin

text \<open>
  \<open>git_guard.py\<close>: the fixed Git commands of the bridge, the parsers of their outputs, and the
  guarded mutations of a worktree (write, move, delete, commit, amend).  Every command and every
  file access is a call of the outside world, recorded in the log of the state.
\<close>

section \<open>Data\<close>

record git_status =
  gs_branch :: string
  gs_head :: string
  gs_dirty :: bool
  gs_files :: "string list"

record git_snapshot = git_status +
  sn_hashes :: "(string \<times> string) list"

definition as_data :: "git_snapshot \<Rightarrow> json" where
  "as_data q = JObj [(''branch'', JStr (gs_branch q)), (''head'', JStr (gs_head q)),
     (''dirty'', JBool (gs_dirty q)), (''changed_files'', jstrs (gs_files q)),
     (''file_hashes'', JObj (map (\<lambda>(k, v). (k, JStr v)) (sn_hashes q)))]"

datatype commit_mode = Create | AmendSessionWip

definition CHECKPOINT_REF_PREFIX :: string where
  "CHECKPOINT_REF_PREFIX = ''refs/codemcp-remote/checkpoints/''"

text \<open>\<open>_CHECKPOINT_REF_PATTERN\<close>, \<open>_HEAD_PATTERN\<close> and \<open>_SESSION_ID_PATTERN\<close>, as full matches.\<close>

definition checkpoint_ref_ok :: "string \<Rightarrow> bool" where
  "checkpoint_ref_ok r =
     (let k = length CHECKPOINT_REF_PREFIX in
      take k r = CHECKPOINT_REF_PREFIX \<and> length (drop k r) = 32 \<and> list_all is_lower_hexdigit (drop k r))"

definition head_ok :: "string \<Rightarrow> bool" where
  "head_ok h = (40 \<le> length h \<and> length h \<le> 64 \<and> list_all is_hexdigit h)"

definition session_id_ok :: "string \<Rightarrow> bool" where
  "session_id_ok s =
     (case s of [] \<Rightarrow> False
      | c # cs \<Rightarrow> is_alnum c \<and> length cs \<le> 127
                  \<and> list_all (\<lambda>x. is_alnum x \<or> x \<in> set ''_.:-'') cs)"

definition SESSION_FOOTER_PREFIX :: string where
  "SESSION_FOOTER_PREFIX = ''Codemcp-Remote-Session: ''"

definition EXPECTED_REF_PREFIXES :: "string list" where
  "EXPECTED_REF_PREFIXES = [''refs/heads/'', ''refs/remotes/'', ''refs/tags/'']"

text \<open>\<open>_truncate_text\<close>: at most \<open>k\<close> bytes of the encoding, decoded again without the cut character.\<close>

definition truncate_text :: "string \<Rightarrow> nat \<Rightarrow> string \<times> bool" where
  "truncate_text value k =
     (if length (encode_str value) \<le> k then (value, False)
      else (map char_of (utf8_decode_with [] (take k (encode_str value))), True))"

section \<open>Running Git\<close>

definition git_run :: "ext \<Rightarrow> string \<Rightarrow> string list \<Rightarrow> ('z io_scheme, exn, string) M" where
  "git_run X root args =
     andthen (ask (GitRun root args)) (\<lambda>h.
     case x_proc X h of
       SpawnFailed \<Rightarrow> raise (bridge_error ''BACKEND_UNAVAILABLE''
         ''Git is not available for the registered project'' (JObj [(''project_id'', JNull)]) True ''failed'')
     | TimedOut \<Rightarrow> raise (bridge_error ''BACKEND_UNAVAILABLE'' ''Git command timed out''
         (JObj [(''command'', jstrs (''git'' # args))]) True ''failed'')
     | Exited rc out err \<Rightarrow>
         if rc \<noteq> 0 then raise (bridge_error ''BACKEND_UNAVAILABLE'' ''Git command failed''
           (JObj [(''command'', jstrs (''git'' # args)), (''returncode'', JInt rc),
                  (''stderr'', JStr (fst (truncate_text err 2000)))]) False ''failed'')
         else ret out)"

section \<open>Reading the state of the worktree\<close>

text \<open>The loop of \<open>status\<close> over the NUL-separated entries; a rename or copy carries a second one.\<close>

fun porcelain_paths :: "string list \<Rightarrow> string list" where
  "porcelain_paths [] = []"
| "porcelain_paths (e # es) =
     (if length e < 3 then porcelain_paths es
      else if CHR ''R'' \<in> set (take 2 e) \<or> CHR ''C'' \<in> set (take 2 e) then
        (case es of
           [] \<Rightarrow> [drop 3 e]
         | r # rs \<Rightarrow> drop 3 e # (if r \<noteq> [] then r # porcelain_paths rs else porcelain_paths rs))
      else drop 3 e # porcelain_paths es)"

definition git_status :: "ext \<Rightarrow> string \<Rightarrow> ('z io_scheme, exn, git_status) M" where
  "git_status X root =
     andthen (git_run X root [''rev-parse'', ''--abbrev-ref'', ''HEAD'']) (\<lambda>branch.
     andthen (git_run X root [''rev-parse'', ''HEAD'']) (\<lambda>head.
     andthen (git_run X root [''status'', ''--porcelain=v1'', ''--untracked-files=all'', ''-z'']) (\<lambda>porcelain.
     let changed = porcelain_paths (split_on nul porcelain) in
     ret \<lparr>gs_branch = strip branch, gs_head = strip head, gs_dirty = changed \<noteq> [], gs_files = changed\<rparr>)))"

text \<open>The loop of \<open>snapshot\<close> over the entries of \<open>ls-tree\<close>; a dict update keeps the first place.\<close>

fun tree_hashes :: "string list \<Rightarrow> (string \<times> string) list \<Rightarrow> (string \<times> string) list" where
  "tree_hashes [] acc = acc"
| "tree_hashes (e # es) acc =
     (case partition_at (CHR 0x09) e of
        (header, Some path) \<Rightarrow>
          (case words header of
             [_, kind, h] \<Rightarrow> tree_hashes es (if kind = ''blob'' then AList.update path h acc else acc)
           | _ \<Rightarrow> tree_hashes es acc)
      | (_, None) \<Rightarrow> tree_hashes es acc)"

definition git_snapshot :: "ext \<Rightarrow> string \<Rightarrow> ('z io_scheme, exn, git_snapshot) M" where
  "git_snapshot X root =
     andthen (git_status X root) (\<lambda>q.
     andthen (git_run X root [''ls-tree'', ''-r'', ''-z'', ''--full-tree'', ''HEAD'']) (\<lambda>tree.
     ret \<lparr>gs_branch = gs_branch q, gs_head = gs_head q, gs_dirty = gs_dirty q, gs_files = gs_files q,
          sn_hashes = tree_hashes (split_on nul tree) []\<rparr>))"


text \<open>\<open>Path(p).resolve(strict=False)\<close> is an answer of the file system.\<close>

definition real_path :: "ext \<Rightarrow> string \<Rightarrow> ('z io_scheme, exn, string) M" where
  "real_path X p = andthen (ask (FsCall ''resolve'' p)) (\<lambda>h. ret (x_text X h))"

definition require_worktree_root :: "ext \<Rightarrow> string \<Rightarrow> ('z io_scheme, exn, unit) M" where
  "require_worktree_root X root =
     andthen (git_run X root [''rev-parse'', ''--show-toplevel'']) (\<lambda>top.
     andthen (real_path X (strip top)) (\<lambda>actual.
     andthen (real_path X root) (\<lambda>expected.
     require (x_normcase X actual = x_normcase X expected)
       (rejected_with ''PROJECT_NOT_ALLOWED'' ''registered project root must be the Git worktree root''
         (JObj [(''expected_root'', JStr expected), (''actual_root'', JStr actual)])))))"

definition diff_hash :: "ext \<Rightarrow> string \<Rightarrow> string" where
  "diff_hash X diff = sha256_hex X diff"

section \<open>Checks\<close>

definition require_checkpoint_ref :: "string \<Rightarrow> ('s, exn, unit) M" where
  "require_checkpoint_ref r =
     require (checkpoint_ref_ok r) (rejected ''CHECKPOINT_INVALID'' ''checkpoint ref is not Bridge-owned'')"

definition require_head :: "string \<Rightarrow> ('s, exn, unit) M" where
  "require_head h =
     require (head_ok h) (rejected ''CHECKPOINT_INVALID'' ''checkpoint head is not a Git commit'')"

definition reject_sensitive_names :: "string list \<Rightarrow> ('s, exn, unit) M" where
  "reject_sensitive_names names =
     (let sensitive = filter is_sensitive names in
      require (sensitive = [])
        (rejected_with ''SENSITIVE_PATH'' ''diff includes sensitive paths and is not exposed''
          (JObj [(''paths'', jstrs sensitive)])))"

section \<open>Checkpoint refs\<close>

definition create_checkpoint_ref :: "ext \<Rightarrow> string \<Rightarrow> string \<Rightarrow> string \<Rightarrow> ('z io_scheme, exn, unit) M" where
  "create_checkpoint_ref X root ref_name head =
     andthen (require_checkpoint_ref ref_name) (\<lambda>_.
     andthen (require_head head) (\<lambda>_.
     andthen (git_run X root [''update-ref'', ''--no-deref'', ref_name, head]) (\<lambda>_. ret ())))"

definition delete_checkpoint_ref :: "ext \<Rightarrow> string \<Rightarrow> string \<Rightarrow> ('z io_scheme, exn, unit) M" where
  "delete_checkpoint_ref X root ref_name =
     andthen (require_checkpoint_ref ref_name) (\<lambda>_.
     andthen (git_run X root [''update-ref'', ''--no-deref'', ''-d'', ref_name]) (\<lambda>_. ret ()))"

definition resolve_checkpoint_ref :: "ext \<Rightarrow> string \<Rightarrow> string \<Rightarrow> ('z io_scheme, exn, string) M" where
  "resolve_checkpoint_ref X root ref_name =
     andthen (require_checkpoint_ref ref_name) (\<lambda>_.
     andthen (git_run X root [''rev-parse'', ''--verify'', ref_name @ ''^{commit}'']) (\<lambda>out.
     andthen (require_head (strip out)) (\<lambda>_. ret (strip out))))"

definition reset_to_checkpoint :: "ext \<Rightarrow> string \<Rightarrow> string \<Rightarrow> ('z io_scheme, exn, unit) M" where
  "reset_to_checkpoint X root ref_name =
     andthen (require_checkpoint_ref ref_name) (\<lambda>_.
     andthen (git_run X root [''reset'', ''--hard'', ref_name]) (\<lambda>_. ret ()))"

section \<open>The session footer\<close>

definition session_footer :: "string \<Rightarrow> exn + string" where
  "session_footer sid =
     (if session_id_ok sid then Inr (SESSION_FOOTER_PREFIX @ sid)
      else Inl (rejected ''INVALID_REQUEST'' ''session_id cannot be encoded in a Git commit footer''))"

definition parse_session_footer :: "string \<Rightarrow> string option" where
  "parse_session_footer message =
     (let normalized = rstrip_by (\<lambda>c. c = cr \<or> c = lf) message;
          lines = splitlines normalized;
          footers = filter (\<lambda>l. starts_with l SESSION_FOOTER_PREFIX) lines
      in if normalized = [] then None
         else case footers of
                [f] \<Rightarrow>
                  if last lines \<noteq> f then None
                  else let sid = drop (length SESSION_FOOTER_PREFIX) f in
                       if session_id_ok sid then Some sid else None
              | _ \<Rightarrow> None)"

definition read_session_footer :: "ext \<Rightarrow> string \<Rightarrow> string \<Rightarrow> ('z io_scheme, exn, string option) M" where
  "read_session_footer X root head =
     andthen (require_head head) (\<lambda>_.
     andthen (git_run X root [''show'', ''--no-patch'', ''--no-notes'', ''--format=%B'', head]) (\<lambda>message.
     ret (parse_session_footer message)))"

definition has_session_footer ::
  "ext \<Rightarrow> string \<Rightarrow> string \<Rightarrow> string \<Rightarrow> ('z io_scheme, exn, bool) M" where
  "has_session_footer X root head sid =
     andthen (lift_sum (session_footer sid)) (\<lambda>expected.
     andthen (read_session_footer X root head) (\<lambda>actual.
     ret (actual = Some (drop (length SESSION_FOOTER_PREFIX) expected))))"

section \<open>Shared refs\<close>

fun shared_refs :: "string option \<Rightarrow> string list \<Rightarrow> exn + string list" where
  "shared_refs current [] = Inr []"
| "shared_refs current (r # rs) =
     (if starts_with r CHECKPOINT_REF_PREFIX then shared_refs current rs
      else if \<not> list_ex (starts_with r) EXPECTED_REF_PREFIXES then
        Inl (bridge_error ''BACKEND_UNAVAILABLE'' ''Git ref inspection returned an unexpected ref''
               (JObj []) False ''failed'')
      else if Some r = current then shared_refs current rs
      else sum_bind (shared_refs current rs) (\<lambda>xs. Inr (r # xs)))"

definition branch_ok :: "string \<Rightarrow> bool" where
  "branch_ok b = (b \<noteq> [] \<and> list_all (\<lambda>c. c \<noteq> nul \<and> c \<noteq> cr \<and> c \<noteq> lf) b)"

definition shared_refs_containing_head ::
  "ext \<Rightarrow> string \<Rightarrow> string \<Rightarrow> string \<Rightarrow> ('z io_scheme, exn, string list) M" where
  "shared_refs_containing_head X root head branch =
     andthen (require_head head) (\<lambda>_.
     andthen (require (branch_ok branch) (rejected ''CHECKPOINT_INVALID'' ''Git branch is not valid'')) (\<lambda>_.
     andthen (git_run X root [''for-each-ref'', ''--format=%(refname)'', ''--contains'', head,
                ''refs/heads'', ''refs/remotes'', ''refs/tags'']) (\<lambda>output.
     lift_sum (shared_refs (if branch = ''HEAD'' then None else Some (''refs/heads/'' @ branch))
       (filter (\<lambda>l. l \<noteq> []) (map strip (splitlines output)))))))"

definition has_shared_refs_containing_head ::
  "ext \<Rightarrow> string \<Rightarrow> string \<Rightarrow> string \<Rightarrow> ('z io_scheme, exn, bool) M" where
  "has_shared_refs_containing_head X root head branch =
     andthen (shared_refs_containing_head X root head branch) (\<lambda>rs. ret (rs \<noteq> []))"


section \<open>Commits\<close>

definition verify_amend_target ::
  "ext \<Rightarrow> string \<Rightarrow> string \<Rightarrow> string option \<Rightarrow> ('z io_scheme, exn, unit) M" where
  "verify_amend_target X root expected_head expected_branch =
     andthen (git_status X root) (\<lambda>q.
     if lower (gs_head q) \<noteq> lower expected_head
        \<or> (expected_branch \<noteq> None \<and> expected_branch \<noteq> Some (gs_branch q))
     then raise (rejected_with ''CONFLICT'' ''Git branch or HEAD changed before the session WIP amend started''
            (JObj [(''expected_branch'', jopt expected_branch), (''actual_branch'', JStr (gs_branch q)),
                   (''expected_head'', JStr expected_head), (''actual_head'', JStr (gs_head q))]))
     else
       andthen (shared_refs_containing_head X root (gs_head q) (gs_branch q)) (\<lambda>shared.
       require (shared = [])
         (rejected_with ''CONFLICT'' ''session WIP amend is blocked by locally observable shared refs''
           (JObj [(''shared_refs'', jstrs shared), (''head'', JStr (gs_head q))]))))"

definition validate_commit_paths :: "string list \<Rightarrow> exn + string list" where
  "validate_commit_paths paths =
     (if paths = [] \<or> list_ex (\<lambda>p. p = [] \<or> nul \<in> set p) paths
      then Inl (rejected ''INVALID_REQUEST'' ''at least one valid commit path is required'')
      else Inr paths)"

definition description_ok :: "string \<Rightarrow> bool" where
  "description_ok d =
     (d \<noteq> [] \<and> length d \<le> 500 \<and> list_all (\<lambda>c. c \<noteq> cr \<and> c \<noteq> lf \<and> c \<noteq> nul) d)"

definition wip_message :: "string \<Rightarrow> string \<Rightarrow> string" where
  "wip_message d footer = ''wip: '' @ d @ [lf, lf] @ footer"

definition commit_arguments ::
  "string list \<Rightarrow> commit_mode \<Rightarrow> string option \<Rightarrow> string option \<Rightarrow> exn + string list" where
  "commit_arguments paths mode description session_id =
     sum_bind (validate_commit_paths paths) (\<lambda>ps.
     case mode of
       Create \<Rightarrow>
         (case (description, session_id) of
            (Some d, Some sid) \<Rightarrow>
              if \<not> description_ok d
              then Inl (rejected ''INVALID_REQUEST'' ''description and session_id are required'')
              else sum_bind (session_footer sid) (\<lambda>footer.
                Inr ([''commit'', ''-m'', wip_message d footer, ''--only'', ''--''] @ ps))
          | _ \<Rightarrow> Inl (rejected ''INVALID_REQUEST'' ''description and session_id are required''))
     | AmendSessionWip \<Rightarrow>
         Inr ([''commit'', ''--amend'', ''--no-edit'', ''--allow-empty'', ''--only'', ''--''] @ ps))"

text \<open>\<open>except BridgeError as exc: raise BridgeError("UNKNOWN_SIDE_EFFECT", ...)\<close>.\<close>

definition unknown_outcome :: "string \<Rightarrow> (string \<times> json) list \<Rightarrow> exn \<Rightarrow> exn" where
  "unknown_outcome message details e =
     (case e of
        BridgeErr b \<Rightarrow> bridge_error ''UNKNOWN_SIDE_EFFECT'' message
          (JObj (details @ [(''cause'', JStr (be_code b))])) False ''unknown''
      | _ \<Rightarrow> e)"

text \<open>The amend check, the commit and the check of the new baseline, which every mutation ends
  with.\<close>

definition run_commit ::
  "ext \<Rightarrow> string \<Rightarrow> commit_mode option \<Rightarrow> string \<Rightarrow> string option \<Rightarrow> string list
   \<Rightarrow> ('z io_scheme, exn, git_status) M" where
  "run_commit X root mode expected_head expected_branch args =
     andthen (if mode = Some AmendSessionWip then verify_amend_target X root expected_head expected_branch
              else ret ()) (\<lambda>_.
     andthen (git_run X root args) (\<lambda>_.
     git_status X root))"

definition new_baseline :: "string \<Rightarrow> string option \<Rightarrow> git_status \<Rightarrow> ('s, exn, string) M" where
  "new_baseline message previous final =
     (if gs_dirty final \<or> (previous \<noteq> None \<and> map_option lower previous = Some (lower (gs_head final)))
      then raise (rejected_with ''CONFLICT'' message
             (JObj [(''expected_previous_head'', jopt previous), (''actual_head'', JStr (gs_head final)),
                    (''changed_files'', jstrs (gs_files final))]))
      else ret (gs_head final))"

definition commit_paths ::
  "ext \<Rightarrow> string \<Rightarrow> string list \<Rightarrow> commit_mode \<Rightarrow> string option \<Rightarrow> string option
   \<Rightarrow> string option \<Rightarrow> string option \<Rightarrow> ('z io_scheme, exn, string) M" where
  "commit_paths X root paths mode description session_id expected_head expected_branch =
     andthen (lift_sum (commit_arguments paths mode description session_id)) (\<lambda>args.
     andthen (case expected_head of None \<Rightarrow> ret () | Some h \<Rightarrow> require_head h) (\<lambda>_.
     andthen (git_status X root) (\<lambda>before.
     andthen (require (expected_head = None \<or> map_option lower expected_head = Some (lower (gs_head before)))
       (rejected_with ''CONFLICT'' ''Git HEAD changed before the WIP commit started''
         (JObj [(''expected_head'', jopt expected_head), (''actual_head'', JStr (gs_head before))]))) (\<lambda>_.
     handle
       (andthen (run_commit X root (Some mode)
                   (case expected_head of Some h \<Rightarrow> h | None \<Rightarrow> gs_head before) expected_branch args)
         (new_baseline ''WIP commit did not finalize to a new clean Git baseline'' expected_head))
       (\<lambda>e. raise (unknown_outcome ''WIP commit outcome is unknown and requires reconciliation'' [] e))))))"

definition create_wip_commit ::
  "ext \<Rightarrow> string \<Rightarrow> string list \<Rightarrow> string \<Rightarrow> string \<Rightarrow> string option \<Rightarrow> string option
   \<Rightarrow> ('z io_scheme, exn, string) M" where
  "create_wip_commit X root paths description session_id expected_head expected_branch =
     commit_paths X root paths Create (Some description) (Some session_id) expected_head expected_branch"

section \<open>Guarded mutations of files\<close>

text \<open>The check every mutation starts with: the expected commit and a clean worktree.\<close>

definition require_baseline ::
  "ext \<Rightarrow> string \<Rightarrow> string \<Rightarrow> string \<Rightarrow> string \<Rightarrow> ('z io_scheme, exn, git_status) M" where
  "require_baseline X root expected_head moved unclean =
     andthen (git_status X root) (\<lambda>before.
     andthen (require (lower (gs_head before) = lower expected_head)
       (rejected_with ''CONFLICT'' moved
         (JObj [(''expected_head'', JStr expected_head), (''actual_head'', JStr (gs_head before))]))) (\<lambda>_.
     andthen (require (\<not> gs_dirty before)
       (rejected_with ''WORKSPACE_DIRTY'' unclean (JObj [(''changed_files'', jstrs (gs_files before))]))) (\<lambda>_.
     ret before)))"

text \<open>\<open>sorted(set(changed) - expected)\<close>.\<close>

definition unexpected_paths :: "string list \<Rightarrow> string list \<Rightarrow> string list" where
  "unexpected_paths changed expected = sort (remdups (filter (\<lambda>p. p \<notin> set expected) changed))"

definition require_isolated ::
  "string \<Rightarrow> string \<Rightarrow> string list \<Rightarrow> git_status \<Rightarrow> ('s, exn, unit) M" where
  "require_isolated message expected_head expected q =
     require (lower (gs_head q) = lower expected_head \<and> unexpected_paths (gs_files q) expected = [])
       (rejected_with ''CONFLICT'' message
         (JObj [(''expected_head'', JStr expected_head), (''actual_head'', JStr (gs_head q)),
                (''unexpected_changed_files'', jstrs (unexpected_paths (gs_files q) expected))]))"

definition move_tracked_file ::
  "ext \<Rightarrow> string \<Rightarrow> string \<Rightarrow> string \<Rightarrow> string \<Rightarrow> string option \<Rightarrow> commit_mode \<Rightarrow> string option
   \<Rightarrow> string option \<Rightarrow> ('z io_scheme, exn, string) M" where
  "move_tracked_file X root source destination expected_head description mode session_id expected_branch =
     andthen (require_head expected_head) (\<lambda>_.
     andthen (lift_sum (commit_arguments [source, destination] mode description session_id)) (\<lambda>args.
     andthen (require_baseline X root expected_head ''Git HEAD changed before the file move started''
                ''file move requires a clean workspace'') (\<lambda>_.
     andthen (handle (andthen (git_run X root [''mv'', ''--'', source, destination]) (\<lambda>_. ret ()))
       (\<lambda>e. raise (case e of BridgeErr b \<Rightarrow>
               bridge_error ''CONFLICT'' ''Git could not move the tracked source file''
                 (JObj [(''source_path'', JStr source), (''destination_path'', JStr destination)]) False ''failed''
             | _ \<Rightarrow> e))) (\<lambda>_.
     handle
       (andthen (git_status X root) (\<lambda>staged.
        andthen (require_isolated ''Git state changed concurrently while moving the file'' expected_head
                   [source, destination] staged) (\<lambda>_.
        andthen (run_commit X root (Some mode) expected_head expected_branch args)
          (new_baseline ''file move did not finalize to a new clean Git baseline'' (Some expected_head)))))
       (\<lambda>e. raise (unknown_outcome ''file move changed the worktree but could not be safely finalized''
              [(''source_path'', JStr source), (''destination_path'', JStr destination)] e))))))"

definition delete_tracked_file ::
  "ext \<Rightarrow> string \<Rightarrow> string \<Rightarrow> string \<Rightarrow> string option \<Rightarrow> commit_mode \<Rightarrow> string option
   \<Rightarrow> string option \<Rightarrow> ('z io_scheme, exn, string) M" where
  "delete_tracked_file X root path expected_head description mode session_id expected_branch =
     andthen (require_head expected_head) (\<lambda>_.
     andthen (lift_sum (commit_arguments [path] mode description session_id)) (\<lambda>args.
     andthen (require_baseline X root expected_head ''Git HEAD changed before the file delete started''
                ''file delete requires a clean workspace'') (\<lambda>_.
     andthen (handle (andthen (git_run X root [''rm'', ''--'', path]) (\<lambda>_. ret ()))
       (\<lambda>e. raise (case e of BridgeErr b \<Rightarrow>
               bridge_error ''CONFLICT'' ''Git could not delete the tracked source file''
                 (JObj [(''path'', JStr path)]) False ''failed''
             | _ \<Rightarrow> e))) (\<lambda>_.
     handle
       (andthen (git_status X root) (\<lambda>staged.
        andthen (require_isolated ''Git state changed concurrently while deleting the file'' expected_head
                   [path] staged) (\<lambda>_.
        andthen (run_commit X root (Some mode) expected_head expected_branch args)
          (new_baseline ''file delete did not finalize to a new clean Git baseline'' (Some expected_head)))))
       (\<lambda>e. raise (unknown_outcome ''file delete changed the worktree but could not be safely finalized''
              [(''path'', JStr path)] e))))))"


text \<open>Questions and actions on a path: the answer, and whether the action succeeded.\<close>

definition fs_ask :: "ext \<Rightarrow> string \<Rightarrow> string \<Rightarrow> ('z io_scheme, exn, bool) M" where
  "fs_ask X what p = andthen (ask (FsCall what p)) (\<lambda>h. ret (x_ok X h))"

text \<open>\<open>mkstemp\<close>, the write with its flush and \<open>fsync\<close>, and \<open>os.replace\<close>.  An error removes the
  temporary file, if there is one, and is an \<open>OSError\<close>.\<close>

definition write_atomically :: "ext \<Rightarrow> string \<Rightarrow> bytes \<Rightarrow> ('z io_scheme, exn, unit) M" where
  "write_atomically X target content =
     andthen (ask (FsCall ''mkstemp'' target)) (\<lambda>h.
     if \<not> x_ok X h then raise OsErr
     else
       andthen (ask (FsWrite (x_text X h) content)) (\<lambda>w.
       andthen (if x_ok X w then fs_ask X ''replace'' target else ret False) (\<lambda>ok.
       if ok then ret ()
       else andthen (fs_ask X ''unlink'' (x_text X h)) (\<lambda>_. raise OsErr))))"

definition project_path :: "string \<Rightarrow> string \<Rightarrow> string" where
  "project_path root path = root @ ''/'' @ path"

text \<open>The checks on the target, and whether it already holds the content.\<close>

definition target_holds ::
  "ext \<Rightarrow> string \<Rightarrow> string \<Rightarrow> bytes \<Rightarrow> bool option \<Rightarrow> ('z io_scheme, exn, bool) M" where
  "target_holds X target path content require_exists =
     andthen (if require_exists = Some True
              then andthen (fs_ask X ''is_file'' target) (\<lambda>b. require b
                (rejected_with ''FILE_NOT_FOUND'' ''a regular file is required'' (JObj [(''path'', JStr path)])))
              else ret ()) (\<lambda>_.
     andthen (if require_exists = Some False
              then andthen (fs_ask X ''exists'' target) (\<lambda>b. require (\<not> b)
                (rejected_with ''CONFLICT'' ''file already exists'' (JObj [(''path'', JStr path)])))
              else ret ()) (\<lambda>_.
     andthen (fs_ask X ''exists'' target) (\<lambda>there.
     andthen (if there
              then andthen (fs_ask X ''is_file'' target) (\<lambda>b. require b
                (rejected_with ''CONFLICT'' ''target path is not a regular file'' (JObj [(''path'', JStr path)])))
              else ret ()) (\<lambda>_.
     andthen (fs_ask X ''exists'' target) (\<lambda>there2.
     if there2
     then andthen (ask (FsCall ''read_bytes'' target)) (\<lambda>h.
          case x_bytes X h of
            None \<Rightarrow> raise (bridge_error ''BACKEND_UNAVAILABLE''
                      ''target file could not be read before mutation'' (JObj [(''path'', JStr path)]) True ''failed'')
          | Some b \<Rightarrow> ret (b = content))
     else ret False)))))"

definition commit_new_content ::
  "ext \<Rightarrow> string \<Rightarrow> string \<Rightarrow> string \<Rightarrow> commit_mode option \<Rightarrow> string option \<Rightarrow> string list
   \<Rightarrow> ('z io_scheme, exn, string) M" where
  "commit_new_content X root path expected_head mode expected_branch args =
     andthen (git_status X root) (\<lambda>written.
     andthen (require_isolated ''Git state changed concurrently while writing the file'' expected_head
                [path] written) (\<lambda>_.
     if \<not> gs_dirty written then ret (gs_head written)
     else
       andthen (require (path \<in> set (gs_files written))
         (rejected_with ''CONFLICT'' ''target file mutation was not isolated to the expected path''
           (JObj [(''path'', JStr path), (''changed_files'', jstrs (gs_files written))]))) (\<lambda>_.
       andthen (git_run X root [''add'', ''--'', path]) (\<lambda>_.
       andthen (run_commit X root mode expected_head expected_branch args)
         (new_baseline ''file mutation did not finalize to a new clean Git baseline'' (Some expected_head))))))"

definition file_commit_arguments ::
  "string \<Rightarrow> commit_mode option \<Rightarrow> string \<Rightarrow> string option \<Rightarrow> exn + string list" where
  "file_commit_arguments path mode description session_id =
     (case mode of
        None \<Rightarrow>
          if session_id \<noteq> None
          then Inl (rejected ''INVALID_REQUEST'' ''session_id requires an explicit commit_mode'')
          else sum_bind (validate_commit_paths [path]) (\<lambda>ps.
            Inr ([''commit'', ''-m'', ''wip: '' @ description, ''--only'', ''--''] @ ps))
      | Some m \<Rightarrow> commit_arguments [path] m (Some description) session_id)"

definition commit_file_bytes ::
  "ext \<Rightarrow> string \<Rightarrow> string \<Rightarrow> bytes \<Rightarrow> string \<Rightarrow> string \<Rightarrow> bool option \<Rightarrow> commit_mode option
   \<Rightarrow> string option \<Rightarrow> string option \<Rightarrow> ('z io_scheme, exn, string) M" where
  "commit_file_bytes X root path content expected_head description require_exists mode session_id
       expected_branch =
     andthen (require_head expected_head) (\<lambda>_.
     andthen (lift_sum (file_commit_arguments path mode description session_id)) (\<lambda>args.
     andthen (require_baseline X root expected_head ''Git HEAD changed before the file mutation started''
                ''file mutation requires a clean workspace'') (\<lambda>before.
     andthen (target_holds X (project_path root path) path content require_exists) (\<lambda>same.
     if same then ret (gs_head before)
     else
       andthen (handle (write_atomically X (project_path root path) content)
         (\<lambda>e. raise (if e = OsErr
            then bridge_error ''UNKNOWN_SIDE_EFFECT''
              ''file write outcome is unknown and requires reconciliation''
              (JObj [(''path'', JStr path)]) False ''unknown'' else e))) (\<lambda>_.
       handle (commit_new_content X root path expected_head mode expected_branch args)
         (\<lambda>e. raise (unknown_outcome
            ''file mutation changed the worktree but could not be safely finalized''
            [(''path'', JStr path)] e)))))))"

section \<open>Diffs\<close>

definition diff_names :: "string \<Rightarrow> string list" where
  "diff_names out = filter (\<lambda>n. n \<noteq> []) (split_on nul out)"

definition git_diff :: "ext \<Rightarrow> nat \<Rightarrow> string \<Rightarrow> ('z io_scheme, exn, string \<times> bool) M" where
  "git_diff X max_output root =
     andthen (git_status X root) (\<lambda>q.
     andthen (reject_sensitive_names (gs_files q)) (\<lambda>_.
     andthen (git_run X root [''diff'', ''--no-ext-diff'', ''--no-renames'', ''--name-only'', ''-z'',
                ''HEAD'', ''--'']) (\<lambda>names.
     andthen (reject_sensitive_names (diff_names names)) (\<lambda>_.
     andthen (git_run X root [''diff'', ''--no-ext-diff'', ''--no-renames'', ''--unified=3'', ''HEAD'',
                ''--'']) (\<lambda>out.
     ret (truncate_text out max_output))))))"

definition diff_names_from :: "ext \<Rightarrow> string \<Rightarrow> string \<Rightarrow> ('z io_scheme, exn, string list) M" where
  "diff_names_from X root ref_name =
     andthen (require_checkpoint_ref ref_name) (\<lambda>_.
     andthen (git_status X root) (\<lambda>q.
     andthen (reject_sensitive_names (gs_files q)) (\<lambda>_.
     andthen (git_run X root [''diff'', ''--no-ext-diff'', ''--no-renames'', ''--name-only'', ''-z'',
                ref_name, ''--'']) (\<lambda>names.
     andthen (reject_sensitive_names (diff_names names)) (\<lambda>_.
     ret (diff_names names))))))"

definition diff_names_between ::
  "ext \<Rightarrow> string \<Rightarrow> string \<Rightarrow> string \<Rightarrow> ('z io_scheme, exn, string list) M" where
  "diff_names_between X root ref_name head =
     andthen (require_checkpoint_ref ref_name) (\<lambda>_.
     andthen (require_head head) (\<lambda>_.
     andthen (git_run X root [''diff'', ''--no-ext-diff'', ''--no-renames'', ''--name-only'', ''-z'',
                ref_name, head, ''--'']) (\<lambda>names.
     andthen (reject_sensitive_names (diff_names names)) (\<lambda>_.
     ret (diff_names names)))))"

definition diff_from :: "ext \<Rightarrow> nat \<Rightarrow> string \<Rightarrow> string \<Rightarrow> ('z io_scheme, exn, string \<times> bool) M" where
  "diff_from X max_output root ref_name =
     andthen (require_checkpoint_ref ref_name) (\<lambda>_.
     andthen (diff_names_from X root ref_name) (\<lambda>_.
     andthen (git_run X root [''diff'', ''--no-ext-diff'', ''--no-renames'', ''--unified=3'', ref_name,
                ''--'']) (\<lambda>out.
     ret (truncate_text out max_output))))"

definition diff_between ::
  "ext \<Rightarrow> nat \<Rightarrow> string \<Rightarrow> string \<Rightarrow> string \<Rightarrow> ('z io_scheme, exn, string \<times> bool) M" where
  "diff_between X max_output root ref_name head =
     andthen (require_checkpoint_ref ref_name) (\<lambda>_.
     andthen (require_head head) (\<lambda>_.
     andthen (diff_names_between X root ref_name head) (\<lambda>_.
     andthen (git_run X root [''diff'', ''--no-ext-diff'', ''--no-renames'', ''--unified=3'', ref_name,
                head, ''--'']) (\<lambda>out.
     ret (truncate_text out max_output)))))"

end
