(* ===== verification/GitSpec.thy ===== *)
theory GitSpec
  imports Git StoreSpec
begin

text \<open>
  What the Git layer promises: inspection runs no command that writes, the parsers invert the
  formats Git prints, an amend is only ever run right after its target has been checked, a failed
  mutation that is not reported as unknown has touched nothing, and a successful one ends on a
  clean new commit.
\<close>

section \<open>Calls that only look\<close>

definition READ_COMMANDS :: "string list" where
  "READ_COMMANDS = [''rev-parse'', ''status'', ''ls-tree'', ''diff'', ''show'', ''for-each-ref'']"

definition READ_QUESTIONS :: "string list" where
  "READ_QUESTIONS = [''resolve'', ''is_file'', ''exists'', ''read_bytes'']"

fun read_call :: "call \<Rightarrow> bool" where
  "read_call (GitRun root (cmd # args)) = (cmd \<in> set READ_COMMANDS)"
| "read_call (FsCall what p) = (what \<in> set READ_QUESTIONS)"
| "read_call c = False"

lemma read_calls [simp]:
  "read_call (GitRun root (''rev-parse'' # args))" "read_call (GitRun root (''status'' # args))"
  "read_call (GitRun root (''ls-tree'' # args))" "read_call (GitRun root (''diff'' # args))"
  "read_call (GitRun root (''show'' # args))" "read_call (GitRun root (''for-each-ref'' # args))"
  "read_call (FsCall ''resolve'' p)" "read_call (FsCall ''is_file'' p)"
  "read_call (FsCall ''exists'' p)" "read_call (FsCall ''read_bytes'' p)"
  by (simp_all add: READ_COMMANDS_def READ_QUESTIONS_def)

declare read_call.simps [simp del]

text \<open>A preorder on states that the calls satisfying \<open>P\<close>, the inspecting ones among them, respect.\<close>

locale call_order = state_order R for R :: "'z io_scheme \<Rightarrow> 'z io_scheme \<Rightarrow> bool" +
  fixes P :: "call \<Rightarrow> bool"
  assumes call_step: "P c \<Longrightarrow> R s (s\<lparr>log := c # log s\<rparr>)"
    and reads: "read_call c \<Longrightarrow> P c"
begin

lemma asked_obeys: "P c \<Longrightarrow> obeys R (ask c)"
  by (simp add: obeys_def call_step)

lemma git_run_obeys: "P (GitRun root args) \<Longrightarrow> obeys R (git_run X root args)"
  unfolding git_run_def
  by (intro andthen_obeys asked_obeys)
    (auto split: proc.splits intro: raise_obeys ret_obeys)

lemma fs_ask_obeys: "P (FsCall what p) \<Longrightarrow> obeys R (fs_ask X what p)"
  unfolding fs_ask_def by (intro andthen_obeys asked_obeys ret_obeys)

lemma git_status_obeys: "obeys R (git_status X root)"
  unfolding git_status_def by (intro obeys_intros git_run_obeys reads) simp_all

lemma git_snapshot_obeys: "obeys R (git_snapshot X root)"
  unfolding git_snapshot_def by (intro obeys_intros git_run_obeys git_status_obeys reads) simp_all

lemma require_worktree_root_obeys: "obeys R (require_worktree_root X root)"
  unfolding require_worktree_root_def real_path_def
  by (intro obeys_intros git_run_obeys asked_obeys reads) simp_all

lemmas check_obeys = obeys_intros git_run_obeys git_status_obeys git_snapshot_obeys reads

lemma resolve_checkpoint_ref_obeys: "obeys R (resolve_checkpoint_ref X root r)"
  unfolding resolve_checkpoint_ref_def require_checkpoint_ref_def require_head_def
  by (intro check_obeys) simp_all

lemma has_session_footer_obeys: "obeys R (has_session_footer X root h sid)"
  unfolding has_session_footer_def read_session_footer_def require_head_def
  by (intro check_obeys) simp_all

lemma shared_refs_containing_head_obeys: "obeys R (shared_refs_containing_head X root h b)"
  unfolding shared_refs_containing_head_def require_head_def by (intro check_obeys) simp_all

lemma verify_amend_target_obeys: "obeys R (verify_amend_target X root h b)"
  unfolding verify_amend_target_def
  by (intro check_obeys shared_refs_containing_head_obeys)

lemma reject_sensitive_names_obeys: "obeys R (reject_sensitive_names ns)"
  unfolding reject_sensitive_names_def Let_def by (intro obeys_intros)

lemma git_diff_obeys: "obeys R (git_diff X k root)"
  unfolding git_diff_def by (intro check_obeys reject_sensitive_names_obeys) simp_all

lemma diff_names_from_obeys: "obeys R (diff_names_from X root r)"
  unfolding diff_names_from_def require_checkpoint_ref_def
  by (intro check_obeys reject_sensitive_names_obeys) simp_all

lemma diff_names_between_obeys: "obeys R (diff_names_between X root r h)"
  unfolding diff_names_between_def require_checkpoint_ref_def require_head_def
  by (intro check_obeys reject_sensitive_names_obeys) simp_all

lemma diff_from_obeys: "obeys R (diff_from X k root r)"
  unfolding diff_from_def require_checkpoint_ref_def
  by (intro check_obeys diff_names_from_obeys) simp_all

lemma diff_between_obeys: "obeys R (diff_between X k root r h)"
  unfolding diff_between_def require_checkpoint_ref_def require_head_def
  by (intro check_obeys diff_names_between_obeys) simp_all

lemma require_baseline_obeys: "obeys R (require_baseline X root h moved unclean)"
  unfolding require_baseline_def by (intro check_obeys)

lemma target_holds_obeys: "obeys R (target_holds X target path content ex)"
  unfolding target_holds_def
  by (intro check_obeys fs_ask_obeys asked_obeys) simp_all

lemma new_baseline_obeys: "obeys R (new_baseline m h q)"
  unfolding new_baseline_def by (intro check_obeys)

lemma require_isolated_obeys: "obeys R (require_isolated m h ps q)"
  unfolding require_isolated_def by (intro check_obeys)

end

text \<open>The states \<open>m\<close> leads to when it only makes calls satisfying \<open>P\<close>.\<close>

definition adds :: "(call \<Rightarrow> bool) \<Rightarrow> 'z io_scheme \<Rightarrow> 'z io_scheme \<Rightarrow> bool" where
  "adds P s s' \<longleftrightarrow> (\<exists>cs. s' = s\<lparr>log := cs @ log s\<rparr> \<and> (\<forall>c \<in> set cs. P c))"

interpretation looks: call_order "adds read_call" read_call
proof
  fix s t u :: "'z io_scheme" and c
  show "adds read_call s s"
    unfolding adds_def by (rule exI [of _ "[]"]) simp
  show "adds read_call s t \<Longrightarrow> adds read_call t u \<Longrightarrow> adds read_call s u"
    unfolding adds_def by (elim exE conjE, rule_tac x = "csa @ cs" in exI) auto
  show "read_call c \<Longrightarrow> adds read_call s (s\<lparr>log := c # log s\<rparr>)"
    unfolding adds_def by (rule exI [of _ "[c]"]) simp
qed

text \<open>What no call at all can break, no Git command can.\<close>

sublocale log_order \<subseteq> git_calls: call_order R "\<lambda>_. True"
  by unfold_locales (simp_all add: log_step)


section \<open>Inspection\<close>

text \<open>Inspection never writes.  Whatever Git answers, the status, snapshot, diff, footer and
  shared-ref queries, the check of the worktree root and the check of an amend target leave the
  state as it was except for a log of commands out of \<open>READ_COMMANDS\<close>.\<close>

theorem inspection_is_read_only:
  "obeys (adds read_call) (git_status X root)
   \<and> obeys (adds read_call) (git_snapshot X root)
   \<and> obeys (adds read_call) (require_worktree_root X root)
   \<and> obeys (adds read_call) (resolve_checkpoint_ref X root r)
   \<and> obeys (adds read_call) (has_session_footer X root h sid)
   \<and> obeys (adds read_call) (shared_refs_containing_head X root h b)
   \<and> obeys (adds read_call) (verify_amend_target X root h b')
   \<and> obeys (adds read_call) (git_diff X k root)
   \<and> obeys (adds read_call) (diff_from X k root r)
   \<and> obeys (adds read_call) (diff_between X k root r h)"
  by (intro conjI looks.git_status_obeys looks.git_snapshot_obeys looks.require_worktree_root_obeys
      looks.resolve_checkpoint_ref_obeys looks.has_session_footer_obeys
      looks.shared_refs_containing_head_obeys looks.verify_amend_target_obeys looks.git_diff_obeys
      looks.diff_from_obeys looks.diff_between_obeys)

section \<open>The status format\<close>

text \<open>One change as \<open>git status --porcelain=v1 -z\<close> prints it: two status letters, a space, the path,
  and for a rename or copy the path it came from.\<close>

record change =
  ch_x :: char
  ch_y :: char
  ch_path :: string
  ch_from :: "string option"

definition change_ok :: "change \<Rightarrow> bool" where
  "change_ok c \<longleftrightarrow> ch_x c \<noteq> nul \<and> ch_y c \<noteq> nul \<and> ch_path c \<noteq> [] \<and> nul \<notin> set (ch_path c)
     \<and> (case ch_from c of
          None \<Rightarrow> {CHR ''R'', CHR ''C''} \<inter> {ch_x c, ch_y c} = {}
        | Some p \<Rightarrow> {CHR ''R'', CHR ''C''} \<inter> {ch_x c, ch_y c} \<noteq> {} \<and> p \<noteq> [] \<and> nul \<notin> set p)"

definition change_entries :: "change \<Rightarrow> string list" where
  "change_entries c = ([ch_x c, ch_y c, CHR '' ''] @ ch_path c)
     # (case ch_from c of None \<Rightarrow> [] | Some p \<Rightarrow> [p])"

definition change_paths :: "change \<Rightarrow> string list" where
  "change_paths c = ch_path c # (case ch_from c of None \<Rightarrow> [] | Some p \<Rightarrow> [p])"

definition print_changes :: "change list \<Rightarrow> string" where
  "print_changes cs = concat (map (\<lambda>e. e @ [nul]) (concat (map change_entries cs)))"

lemma split_on_terminated:
  "\<forall>w \<in> set ws. c \<notin> set w \<Longrightarrow> split_on c (concat (map (\<lambda>w. w @ [c]) ws)) = ws @ [[]]"
  by (induction ws) (simp_all add: split_on_append_sep)

lemma change_entries_clean: "change_ok c \<Longrightarrow> \<forall>w \<in> set (change_entries c). nul \<notin> set w"
  by (auto simp: change_ok_def change_entries_def nul_def split: option.splits)

lemma porcelain_paths_changes:
  "\<forall>c \<in> set cs. change_ok c \<Longrightarrow>
     porcelain_paths (concat (map change_entries cs) @ [[]]) = concat (map change_paths cs)"
proof (induction cs)
  case Nil
  then show ?case by simp
next
  case (Cons c cs)
  then have ok: "change_ok c" by simp
  show ?case
  proof (cases "ch_from c")
    case None
    with ok Cons show ?thesis
      by (cases "ch_path c") (auto simp: change_ok_def change_entries_def change_paths_def)
  next
    case (Some p)
    with ok Cons show ?thesis
      by (cases "ch_path c") (auto simp: change_ok_def change_entries_def change_paths_def)
  qed
qed

lemma status_parse:
  assumes "\<forall>c \<in> set cs. change_ok c"
  shows "porcelain_paths (split_on nul (print_changes cs)) = concat (map change_paths cs)"
proof -
  have "\<forall>w \<in> set (concat (map change_entries cs)). nul \<notin> set w"
    using assms change_entries_clean by auto
  then show ?thesis
    using porcelain_paths_changes [OF assms] by (simp add: print_changes_def split_on_terminated)
qed

lemma strip_line: "strip s = s \<Longrightarrow> strip (s @ [lf]) = s"
  by (simp add: strip_def rstrip_by_def is_space_def code_def lf_def)

definition answers :: "ext \<Rightarrow> call \<Rightarrow> 'z io_scheme \<Rightarrow> string \<Rightarrow> bool" where
  "answers X c s out \<longleftrightarrow> (\<exists>err. x_proc X (c # log s) = Exited 0 out err)"

lemma git_run_answers:
  "answers X (GitRun root args) s out \<Longrightarrow>
     git_run X root args s = (Inr out, s\<lparr>log := GitRun root args # log s\<rparr>)"
  by (auto simp: answers_def git_run_def andthen_def ret_apply)

text \<open>C31: \<open>status\<close> reads back what Git prints.  When the three commands succeed and print a branch, a
  commit and a list of changes, the result has exactly that branch and commit, is dirty exactly
  when there is a change, and lists the path of every change, and for a rename or copy the path
  it came from, in order.\<close>

theorem git_status_reads:
  assumes "answers X (GitRun root [''rev-parse'', ''--abbrev-ref'', ''HEAD'']) s (branch @ [lf])"
    and "answers X (GitRun root [''rev-parse'', ''HEAD''])
           (snd (git_run X root [''rev-parse'', ''--abbrev-ref'', ''HEAD''] s)) (head @ [lf])"
    and "answers X (GitRun root [''status'', ''--porcelain=v1'', ''--untracked-files=all'', ''-z''])
           (snd (git_run X root [''rev-parse'', ''HEAD'']
             (snd (git_run X root [''rev-parse'', ''--abbrev-ref'', ''HEAD''] s)))) (print_changes cs)"
    and "strip branch = branch" and "strip head = head" and "\<forall>c \<in> set cs. change_ok c"
  shows "fst (git_status X root s) =
           Inr \<lparr>gs_branch = branch, gs_head = head, gs_dirty = (cs \<noteq> []),
                gs_files = concat (map change_paths cs)\<rparr>"
proof -
  note r1 = git_run_answers [OF assms(1)]
  note r2 = git_run_answers [OF assms(2) [unfolded r1 snd_conv]]
  note r3 = git_run_answers [OF assms(3) [unfolded r1 snd_conv, unfolded r2 snd_conv]]
  have "concat (map change_paths cs) \<noteq> [] \<longleftrightarrow> cs \<noteq> []" by (cases cs) (auto simp: change_paths_def)
  then show ?thesis using r3 [simplified]
    by (simp add: git_status_def andthen_def r1 r2 ret_apply status_parse [OF assms(6)] strip_line assms(4,5)
        Let_def)
qed

section \<open>The session footer\<close>

lemma session_id_no_break:
  assumes "session_id_ok sid"
  shows "sid \<noteq> []" and "\<forall>c \<in> set sid. \<not> is_line_break c \<and> c \<noteq> cr \<and> c \<noteq> lf"
proof -
  have chars: "is_alnum c \<or> c \<in> set ''_.:-'' \<Longrightarrow> \<not> is_line_break c \<and> c \<noteq> cr \<and> c \<noteq> lf" for c
    by (auto simp: is_alnum_def is_digit_def is_alpha_def is_line_break_def code_def cr_def lf_def Let_def)
  show "sid \<noteq> []" using assms by (auto simp: session_id_ok_def)
  show "\<forall>c \<in> set sid. \<not> is_line_break c \<and> c \<noteq> cr \<and> c \<noteq> lf"
    using assms chars by (auto simp: session_id_ok_def list_all_iff split: list.splits)
qed


lemma splitlines_no_break:
  "\<forall>c \<in> set w. \<not> is_line_break c \<and> c \<noteq> cr \<Longrightarrow> splitlines_from acc w
     = (if acc = [] \<and> w = [] then [] else [rev acc @ w])"
  by (induction w arbitrary: acc) auto

lemma splitlines_last:
  assumes "w \<noteq> []" and "\<forall>c \<in> set w. \<not> is_line_break c \<and> c \<noteq> cr \<and> c \<noteq> lf"
  shows "\<exists>ls. splitlines_from acc (u @ lf # w) = ls @ [w]"
proof -
  have w: "splitlines_from [] w = [w]" using assms splitlines_no_break [of w "[]"] by simp
  have lf: "is_line_break lf" "lf \<noteq> cr" by (simp_all add: is_line_break_def lf_def cr_def code_def)
  have step: "\<exists>ls. a # xs = ls @ [w]" if "\<exists>ls. xs = ls @ [w]" for a xs
    using that by (metis append_Cons)
  show ?thesis
  proof (induction u arbitrary: acc rule: length_induct)
    case (1 u)
    show ?case
    proof (cases u)
      case Nil
      then show ?thesis by (simp add: lf w)
    next
      case (Cons x xs)
      have IH: "\<exists>ls. splitlines_from a (v @ lf # w) = ls @ [w]" if "length v < Suc (length xs)" for a v
        using 1 that by (simp add: Cons)
      consider (crlf) ys where "x = cr" "xs = lf # ys" | (final) "x = cr" "xs = []"
        | (cr) y ys where "x = cr" "xs = y # ys" "y \<noteq> lf" | (other) "x \<noteq> cr"
        by (cases xs) auto
      then show ?thesis
      proof cases
        case crlf
        then show ?thesis using step [OF IH [of ys "[]"]] by (simp add: Cons)
      next
        case final
        then show ?thesis by (simp add: Cons w)
      next
        case cr
        then have "splitlines_from acc (u @ lf # w) = rev acc # splitlines_from [] (xs @ lf # w)"
          by (simp only: Cons append_Cons splitlines_from.simps(2) [of acc] list.case simp_thms if_True if_False)
        then show ?thesis using step [OF IH [of xs "[]"]] by simp
      next
        case other
        then show ?thesis using step [OF IH [of xs "[]"]] IH [of xs "x # acc"] by (simp add: Cons)
      qed
    qed
  qed
qed

lemma splitlines_break:
  "\<forall>c \<in> set u. \<not> is_line_break c \<and> c \<noteq> cr \<Longrightarrow>
     splitlines_from acc (u @ lf # v) = (rev acc @ u) # splitlines_from [] v"
  by (induction u arbitrary: acc) (auto simp: is_line_break_def lf_def cr_def code_def)

lemma footer_parts:
  assumes "session_footer sid = Inr f"
  shows "session_id_ok sid" and "f = SESSION_FOOTER_PREFIX @ sid"
  using assms by (auto simp: session_footer_def split: if_splits)

lemma footer_clean:
  assumes "session_footer sid = Inr f"
  shows "f \<noteq> []" and "\<forall>c \<in> set f. \<not> is_line_break c \<and> c \<noteq> cr \<and> c \<noteq> lf"
  using session_id_no_break [OF footer_parts(1) [OF assms]] footer_parts(2) [OF assms]
  by (auto simp: SESSION_FOOTER_PREFIX_def is_line_break_def cr_def lf_def code_def)

lemma rstrip_message:
  assumes "session_footer sid = Inr f" and "\<forall>c \<in> set tail. c = cr \<or> c = lf"
  shows "rstrip_by (\<lambda>c. c = cr \<or> c = lf) (m @ f @ tail) = m @ f"
proof -
  have tail: "dropWhile (\<lambda>c. c = cr \<or> c = lf) (rev tail @ x) = dropWhile (\<lambda>c. c = cr \<or> c = lf) x" for x
    using assms(2) by (simp add: dropWhile_append)
  obtain c g where g: "rev f = c # g" using footer_clean(1) [OF assms(1)] by (cases "rev f") auto
  then have "c \<in> set f" by (metis list.set_intros(1) set_rev)
  then have "c \<noteq> cr \<and> c \<noteq> lf" using footer_clean(2) [OF assms(1)] by blast
  then have "dropWhile (\<lambda>c. c = cr \<or> c = lf) (rev f @ rev m) = rev f @ rev m" using g by simp
  then show ?thesis by (simp add: rstrip_by_def tail)
qed

lemma parse_own_footer:
  assumes "session_footer sid = Inr f" and "\<forall>c \<in> set tail. c = cr \<or> c = lf"
    and "splitlines (m @ f) = ls @ [f]"
  shows "parse_session_footer (m @ f @ tail)
    = (if filter (\<lambda>l. starts_with l SESSION_FOOTER_PREFIX) ls = [] then Some sid else None)"
proof -
  have f: "starts_with f SESSION_FOOTER_PREFIX" "drop (length SESSION_FOOTER_PREFIX) f = sid"
    by (simp_all add: footer_parts(2) [OF assms(1)] starts_with_def)
  have ne: "m @ f \<noteq> []" using footer_clean(1) [OF assms(1)] by simp
  have footers: "filter (\<lambda>l. starts_with l SESSION_FOOTER_PREFIX) (ls @ [f])
      = filter (\<lambda>l. starts_with l SESSION_FOOTER_PREFIX) ls @ [f]" using f(1) by simp
  show ?thesis
    unfolding parse_session_footer_def Let_def rstrip_message [OF assms(1,2)] assms(3) footers
    using ne f footer_parts(1) [OF assms(1)]
    by (cases "filter (\<lambda>l. starts_with l SESSION_FOOTER_PREFIX) ls") (simp_all split: list.splits)
qed

text \<open>A commit message names its session.  The message the bridge writes for a session is read
  back, whatever line ends Git adds, as that session or as none, never as another one, for every
  description it accepts; it is that session whenever the description has none of Python's line
  boundaries.\<close>

theorem footer_names_its_session:
  assumes "session_footer sid = Inr f" and "description_ok d" and "\<forall>c \<in> set tail. c = cr \<or> c = lf"
  shows "parse_session_footer (wip_message d f @ tail) \<in> {None, Some sid}
    \<and> (list_all (\<lambda>c. \<not> is_line_break c) d \<longrightarrow> parse_session_footer (wip_message d f @ tail) = Some sid)"
proof
  define m where "m = ''wip: '' @ d @ [lf, lf]"
  have msg: "wip_message d f @ tail = m @ f @ tail" by (simp add: wip_message_def m_def)
  note fc = footer_clean [OF assms(1)]
  have m_f: "m @ f = (''wip: '' @ d @ [lf]) @ lf # f" by (simp add: m_def)
  obtain ls where "splitlines (m @ f) = ls @ [f]"
    using splitlines_last [OF fc, of "[]" "''wip: '' @ d @ [lf]"] unfolding splitlines_def m_f by blast
  from parse_own_footer [OF assms(1,3) this]
  show "parse_session_footer (wip_message d f @ tail) \<in> {None, Some sid}"
    unfolding msg by (simp split: if_splits)
  show "list_all (\<lambda>c. \<not> is_line_break c) d \<longrightarrow> parse_session_footer (wip_message d f @ tail) = Some sid"
  proof
    assume d: "list_all (\<lambda>c. \<not> is_line_break c) d"
    then have "c \<noteq> cr" if "c \<in> set d" for c
      using that by (auto simp: list_all_iff is_line_break_def cr_def code_def)
    moreover have "\<not> is_line_break c \<and> c \<noteq> cr" if "c \<in> set ''wip: ''" for c
      using that by (auto simp: is_line_break_def cr_def code_def)
    ultimately have "\<forall>c \<in> set (''wip: '' @ d). \<not> is_line_break c \<and> c \<noteq> cr"
      using d by (auto simp: list_all_iff)
    from splitlines_break [OF this, of "[]" "lf # f"]
    have "splitlines_from [] (m @ f) = (''wip: '' @ d) # splitlines_from [] (lf # f)"
      by (simp add: m_def)
    also have "splitlines_from [] (lf # f) = [[], f]"
      using splitlines_break [of "[]" "[]" f] splitlines_no_break [of f "[]"] fc by simp
    finally have "splitlines (m @ f) = [''wip: '' @ d, []] @ [f]" by (simp add: splitlines_def)
    from parse_own_footer [OF assms(1,3) this]
    show "parse_session_footer (wip_message d f @ tail) = Some sid"
      unfolding msg by (simp add: starts_with_def SESSION_FOOTER_PREFIX_def)
  qed
qed


section \<open>Errors of the Git layer are structured\<close>

definition bridge_only :: "('s, exn, 'a) M \<Rightarrow> bool" where
  "bridge_only m \<longleftrightarrow> (\<forall>s e s'. m s = (Inl e, s') \<longrightarrow> (\<exists>b. e = BridgeErr b))"

lemma bridge_onlyD: "bridge_only m \<Longrightarrow> m s = (Inl e, s') \<Longrightarrow> \<exists>b. e = BridgeErr b"
  by (auto simp: bridge_only_def)

lemma bridge_only_intros:
  "bridge_only (ret x)" "bridge_only (ask a)"
  "c \<in> set ERROR_CODES \<Longrightarrow> bridge_only (raise (bridge_error c msg d r st))"
  "c \<in> set ERROR_CODES \<Longrightarrow> bridge_only (require b (bridge_error c msg d r st))"
  "(\<And>e. v = Inl e \<Longrightarrow> \<exists>b. e = BridgeErr b) \<Longrightarrow> bridge_only (lift_sum v)"
  by (auto simp: bridge_only_def bridge_error_def require_def split: if_splits)

lemma bridge_only_andthen:
  "bridge_only m \<Longrightarrow> (\<And>x. bridge_only (f x)) \<Longrightarrow> bridge_only (andthen m f)"
  unfolding bridge_only_def andthen_eq_Inl by blast

lemma bridge_only_if: "(b \<Longrightarrow> bridge_only m) \<Longrightarrow> (\<not> b \<Longrightarrow> bridge_only n) \<Longrightarrow> bridge_only (if b then m else n)"
  by simp

lemma git_codes [simp]:
  "''BACKEND_UNAVAILABLE'' \<in> set ERROR_CODES" "''CHECKPOINT_INVALID'' \<in> set ERROR_CODES"
  "''CONFLICT'' \<in> set ERROR_CODES" "''UNKNOWN_SIDE_EFFECT'' \<in> set ERROR_CODES"
  "''WORKSPACE_DIRTY'' \<in> set ERROR_CODES" "''FILE_NOT_FOUND'' \<in> set ERROR_CODES"
  "''INVALID_REQUEST'' \<in> set ERROR_CODES" "''SENSITIVE_PATH'' \<in> set ERROR_CODES"
  "''PROJECT_NOT_ALLOWED'' \<in> set ERROR_CODES" "''CHECKPOINT_CONFLICT'' \<in> set ERROR_CODES"
  "''CHECKPOINT_NOT_FOUND'' \<in> set ERROR_CODES"
  by (simp_all add: ERROR_CODES_def)

lemma git_run_bridge: "bridge_only (git_run X root args)"
  unfolding git_run_def
  by (intro bridge_only_andthen bridge_only_intros) (auto split: proc.splits intro: bridge_only_intros)

lemma git_status_bridge: "bridge_only (git_status X root)"
  unfolding git_status_def Let_def by (intro bridge_only_andthen bridge_only_intros git_run_bridge)

lemma shared_refs_bridge: "shared_refs c rs = Inl e \<Longrightarrow> \<exists>b. e = BridgeErr b"
  by (induction c rs rule: shared_refs.induct) (auto simp: bridge_error_def split: if_splits)

lemma shared_refs_containing_head_bridge: "bridge_only (shared_refs_containing_head X root h b)"
  unfolding shared_refs_containing_head_def require_head_def rejected_def
  by (intro bridge_only_andthen bridge_only_intros git_run_bridge git_codes) (rule shared_refs_bridge)

lemma verify_amend_target_bridge: "bridge_only (verify_amend_target X root h b)"
  unfolding verify_amend_target_def rejected_with_def
  by (intro bridge_only_andthen bridge_only_intros bridge_only_if git_status_bridge
      shared_refs_containing_head_bridge git_codes)

lemma run_commit_bridge: "bridge_only (run_commit X root mode h b args)"
  unfolding run_commit_def
  by (intro bridge_only_andthen bridge_only_intros bridge_only_if git_status_bridge git_run_bridge
      verify_amend_target_bridge)

lemma new_baseline_bridge: "bridge_only (new_baseline msg h q)"
  unfolding new_baseline_def rejected_with_def by (intro bridge_only_intros bridge_only_if git_codes)

lemma require_isolated_bridge: "bridge_only (require_isolated msg h ps q)"
  unfolding require_isolated_def rejected_with_def by (intro bridge_only_intros git_codes)

lemma commit_new_content_bridge: "bridge_only (commit_new_content X root path h mode b args)"
  unfolding commit_new_content_def rejected_with_def
  by (intro bridge_only_andthen bridge_only_intros bridge_only_if git_status_bridge git_run_bridge
      run_commit_bridge new_baseline_bridge require_isolated_bridge git_codes)

text \<open>A handler that reports a structured error as an unknown side effect.\<close>

lemma unknown_outcome_code:
  "bridge_only m \<Longrightarrow> handle m (\<lambda>e. raise (unknown_outcome msg d e)) s = (Inl e, s')
     \<Longrightarrow> exn_code e = Some ''UNKNOWN_SIDE_EFFECT''"
  by (auto simp: handle_eq_Inl unknown_outcome_def exn_code_bridge_error dest: bridge_onlyD)

section \<open>Mutations of the worktree\<close>

text \<open>The four mutations the Git layer offers, with their arguments.\<close>

datatype git_mutation =
    CommitPaths "string list" commit_mode "string option" "string option" "string option" "string option"
  | WriteFile string bytes string string "bool option" "commit_mode option" "string option" "string option"
  | MoveFile string string string "string option" commit_mode "string option" "string option"
  | DeleteFile string string "string option" commit_mode "string option" "string option"

fun mutate :: "ext \<Rightarrow> string \<Rightarrow> git_mutation \<Rightarrow> ('z io_scheme, exn, string) M" where
  "mutate X root (CommitPaths ps mode d sid h b) = commit_paths X root ps mode d sid h b"
| "mutate X root (WriteFile p c h d ex mode sid b) = commit_file_bytes X root p c h d ex mode sid b"
| "mutate X root (MoveFile p q h d mode sid b) = move_tracked_file X root p q h d mode sid b"
| "mutate X root (DeleteFile p h d mode sid b) = delete_tracked_file X root p h d mode sid b"

text \<open>How a mutation may fail: reported as unknown; after calls that only look; or with a conflict,
  when the only other call was the refused \<open>git mv\<close> or \<open>git rm\<close>.\<close>

definition contained :: "string \<Rightarrow> 'z io_scheme \<Rightarrow> exn \<Rightarrow> 'z io_scheme \<Rightarrow> bool" where
  "contained root s e s' \<longleftrightarrow>
     exn_code e = Some ''UNKNOWN_SIDE_EFFECT''
     \<or> adds read_call s s'
     \<or> (exn_code e = Some ''CONFLICT''
        \<and> (\<exists>t cmd args. adds read_call s t \<and> cmd \<in> {''mv'', ''rm''}
              \<and> s' = t\<lparr>log := GitRun root (cmd # args) # log t\<rparr>))"

lemma contained_prefix: "adds read_call s t \<Longrightarrow> contained root t e s' \<Longrightarrow> contained root s e s'"
  unfolding contained_def using looks.trans by blast

definition safe_errors :: "string \<Rightarrow> ('z io_scheme, exn, 'a) M \<Rightarrow> bool" where
  "safe_errors root m \<longleftrightarrow> (\<forall>s e s'. m s = (Inl e, s') \<longrightarrow> contained root s e s')"

lemma safe_errorsI: "(\<And>s e s'. m s = (Inl e, s') \<Longrightarrow> contained root s e s') \<Longrightarrow> safe_errors root m"
  by (simp add: safe_errors_def)

lemma safe_errors_reads: "obeys (adds read_call) m \<Longrightarrow> safe_errors root m"
  by (auto simp: safe_errors_def contained_def dest: obeysD)

lemma safe_errors_andthen:
  assumes "obeys (adds read_call) m" and "\<And>x. safe_errors root (f x)"
  shows "safe_errors root (andthen m f)"
proof (rule safe_errorsI)
  fix s e s' assume "andthen m f s = (Inl e, s')"
  then consider "m s = (Inl e, s')" | x t where "m s = (Inr x, t)" "f x t = (Inl e, s')"
    by (auto simp: andthen_eq_Inl)
  then show "contained root s e s'"
  proof cases
    case 1
    then show ?thesis using obeysD [OF assms(1)] by (auto simp: contained_def)
  next
    case 2
    then have "adds read_call s t" "contained root t e s'"
      using obeysD [OF assms(1)] assms(2) by (auto simp: safe_errors_def)
    then show ?thesis by (rule contained_prefix)
  qed
qed

lemma safe_errors_if:
  "(b \<Longrightarrow> safe_errors root m) \<Longrightarrow> (\<not> b \<Longrightarrow> safe_errors root n) \<Longrightarrow> safe_errors root (if b then m else n)"
  by simp

lemma safe_errors_unknown:
  "bridge_only m \<Longrightarrow> safe_errors root (handle m (\<lambda>e. raise (unknown_outcome msg d e)))"
  by (rule safe_errorsI) (auto simp: contained_def dest: unknown_outcome_code)

text \<open>Sequencing a step that can only fail with a contained error and a tail that reports unknown.\<close>

lemma safe_errors_then_unknown:
  assumes "safe_errors root m"
    and "\<And>x s e s'. f x s = (Inl e, s') \<Longrightarrow> exn_code e = Some ''UNKNOWN_SIDE_EFFECT''"
  shows "safe_errors root (andthen m f)"
  using assms by (auto simp: safe_errors_def contained_def andthen_eq_Inl)

lemma write_atomically_errors:
  "write_atomically X target content s = (Inl e, s') \<Longrightarrow> e = OsErr"
  unfolding write_atomically_def fs_ask_def
  by (auto simp: andthen_def ret_apply raise_apply split: if_splits prod.splits)

lemma write_reported:
  "safe_errors root (handle (write_atomically X target content)
     (\<lambda>e. raise (if e = OsErr then bridge_error ''UNKNOWN_SIDE_EFFECT'' msg d False st else e)))"
  by (rule safe_errorsI)
    (auto simp: handle_eq_Inl contained_def exn_code_bridge_error dest: write_atomically_errors)

lemma refused_step:
  assumes "cmd \<in> {''mv'', ''rm''}"
  shows "safe_errors root (handle (andthen (git_run X root (cmd # args)) (\<lambda>_. ret ()))
     (\<lambda>e. raise (case e of BridgeErr b \<Rightarrow> bridge_error ''CONFLICT'' msg d False st | _ \<Rightarrow> e)))"
proof (rule safe_errorsI)
  fix s e s'
  assume "handle (andthen (git_run X root (cmd # args)) (\<lambda>_. ret ()))
     (\<lambda>e. raise (case e of BridgeErr b \<Rightarrow> bridge_error ''CONFLICT'' msg d False st | _ \<Rightarrow> e)) s = (Inl e, s')"
  then obtain e0 where run: "git_run X root (cmd # args) s = (Inl e0, s')"
    and e: "e = (case e0 of BridgeErr b \<Rightarrow> bridge_error ''CONFLICT'' msg d False st | _ \<Rightarrow> e0)"
    by (auto simp: handle_eq_Inl andthen_eq_Inl)
  obtain b where "e0 = BridgeErr b" using bridge_onlyD [OF git_run_bridge run] by blast
  moreover have "s' = s\<lparr>log := GitRun root (cmd # args) # log s\<rparr>"
    using run by (auto simp: git_run_def andthen_eq_Inl split: proc.splits if_splits)
  ultimately show "contained root s e s'"
    using assms looks.refl [of s] e by (auto simp: contained_def exn_code_bridge_error)
qed

lemmas reads_first = safe_errors_andthen looks.obeys_intros looks.git_status_obeys
  looks.require_baseline_obeys looks.target_holds_obeys

lemma commit_paths_errors: "safe_errors root (commit_paths X root ps mode d sid h b)"
  unfolding commit_paths_def require_head_def
  by (intro safe_errors_andthen looks.obeys_intros looks.git_status_obeys safe_errors_unknown
      bridge_only_andthen run_commit_bridge new_baseline_bridge)

lemma commit_file_bytes_errors:
  "safe_errors root (commit_file_bytes X root p c h d ex mode sid b)"
  unfolding commit_file_bytes_def require_head_def
  by (intro safe_errors_andthen looks.obeys_intros looks.require_baseline_obeys looks.target_holds_obeys
      safe_errors_if safe_errors_reads safe_errors_then_unknown write_reported)
    (rule unknown_outcome_code [OF commit_new_content_bridge])

lemma tracked_tail_bridge:
  "bridge_only (andthen (git_status X root) (\<lambda>staged. andthen (require_isolated m h ps staged) (\<lambda>_.
     andthen (run_commit X root mode h b args) (new_baseline msg h'))))"
  by (intro bridge_only_andthen git_status_bridge require_isolated_bridge run_commit_bridge
      new_baseline_bridge)

lemma move_tracked_file_errors: "safe_errors root (move_tracked_file X root p q h d mode sid b)"
  unfolding move_tracked_file_def require_head_def
  by (intro safe_errors_andthen looks.obeys_intros looks.require_baseline_obeys
      safe_errors_then_unknown refused_step)
    (auto intro: unknown_outcome_code [OF tracked_tail_bridge])

lemma delete_tracked_file_errors: "safe_errors root (delete_tracked_file X root p h d mode sid b)"
  unfolding delete_tracked_file_def require_head_def
  by (intro safe_errors_andthen looks.obeys_intros looks.require_baseline_obeys
      safe_errors_then_unknown refused_step)
    (auto intro: unknown_outcome_code [OF tracked_tail_bridge])



section \<open>A successful mutation ends on a clean commit\<close>

fun expected_head_of :: "git_mutation \<Rightarrow> string option" where
  "expected_head_of (CommitPaths ps mode d sid h b) = h"
| "expected_head_of (WriteFile p c h d ex mode sid b) = Some h"
| "expected_head_of (MoveFile p q h d mode sid b) = Some h"
| "expected_head_of (DeleteFile p h d mode sid b) = Some h"

fun expected_branch_of :: "git_mutation \<Rightarrow> string option" where
  "expected_branch_of (CommitPaths ps mode d sid h b) = b"
| "expected_branch_of (WriteFile p c h d ex mode sid b) = b"
| "expected_branch_of (MoveFile p q h d mode sid b) = b"
| "expected_branch_of (DeleteFile p h d mode sid b) = b"

text \<open>The last thing done was a status, which found the commit \<open>h\<close> and nothing changed.\<close>

definition clean_at :: "ext \<Rightarrow> string \<Rightarrow> string \<Rightarrow> 'z io_scheme \<Rightarrow> bool" where
  "clean_at X root h s' \<longleftrightarrow>
     (\<exists>s q. git_status X root s = (Inr q, s') \<and> gs_head q = h \<and> \<not> gs_dirty q)"

definition moved_on :: "string option \<Rightarrow> string \<Rightarrow> bool" where
  "moved_on previous h \<longleftrightarrow> (case previous of None \<Rightarrow> True | Some p \<Rightarrow> lower h \<noteq> lower p)"

lemma new_baseline_Inr:
  "new_baseline msg previous q s = (Inr h, s') \<Longrightarrow>
     s' = s \<and> h = gs_head q \<and> \<not> gs_dirty q \<and> moved_on previous h"
  by (cases previous) (auto simp: new_baseline_def moved_on_def raise_apply ret_apply split: if_splits)

lemma committed:
  assumes "andthen (run_commit X root mode h b args) (new_baseline msg previous) s = (Inr r, s')"
  shows "clean_at X root r s' \<and> moved_on previous r"
  using assms
  by (fastforce simp: andthen_eq_Inr run_commit_def clean_at_def dest: new_baseline_Inr)

lemma committed_handled:
  assumes "handle (andthen (run_commit X root mode h b args) (new_baseline msg previous)) (\<lambda>e. raise (f e)) s
    = (Inr r, s')"
  shows "clean_at X root r s' \<and> moved_on previous r"
  using assms by (auto simp: handle_eq_Inr dest: committed)

lemma tracked_tail_handled:
  assumes "handle (andthen (git_status X root) (\<lambda>staged. andthen (require_isolated m h ps staged) (\<lambda>_.
     andthen (run_commit X root mode h b args) (new_baseline msg previous)))) (\<lambda>e. raise (f e)) s = (Inr r, s')"
  shows "clean_at X root r s' \<and> moved_on previous r"
proof -
  from assms obtain t where "andthen (run_commit X root mode h b args) (new_baseline msg previous) t = (Inr r, s')"
    by (auto simp: handle_eq_Inr andthen_eq_Inr [of "git_status X root"]
        andthen_eq_Inr [of "require_isolated m' h' ps' q'" for m' h' ps' q'])
  then show ?thesis by (rule committed)
qed

lemma require_isolated_Inr:
  "require_isolated msg h ps q s = (r, s') \<Longrightarrow> r = Inr u \<Longrightarrow> s' = s \<and> lower (gs_head q) = lower h"
  by (auto simp: require_isolated_def split: if_splits)

lemma commit_new_content_Inr:
  assumes "commit_new_content X root p h mode b args s = (Inr r, s')"
  shows "clean_at X root r s' \<and> (moved_on (Some h) r \<or> lower r = lower h)"
proof -
  from assms obtain q t where q: "git_status X root s = (Inr q, t)"
    and iso: "lower (gs_head q) = lower h"
    and rest: "(if \<not> gs_dirty q then ret (gs_head q)
       else andthen (require (p \<in> set (gs_files q))
         (rejected_with ''CONFLICT'' ''target file mutation was not isolated to the expected path''
           (JObj [(''path'', JStr p), (''changed_files'', jstrs (gs_files q))]))) (\<lambda>_.
       andthen (git_run X root [''add'', ''--'', p]) (\<lambda>_.
       andthen (run_commit X root mode h b args)
         (new_baseline ''file mutation did not finalize to a new clean Git baseline'' (Some h))))) t
       = (Inr r, s')"
    by (auto simp: commit_new_content_def andthen_eq_Inr dest: require_isolated_Inr)
  show ?thesis
  proof (cases "gs_dirty q")
    case False
    with rest q iso show ?thesis by (auto simp: clean_at_def)
  next
    case True
    with rest obtain t2 where "andthen (run_commit X root mode h b args)
         (new_baseline ''file mutation did not finalize to a new clean Git baseline'' (Some h)) t2 = (Inr r, s')"
      by (auto simp: andthen_eq_Inr split: if_splits)
    from committed [OF this] show ?thesis by simp
  qed
qed


section \<open>Amending only what has been checked\<close>

text \<open>In \<open>s\<close> the amend target has just been checked: a status found the expected commit and branch, and
  the query for other refs that contain it, which ended in \<open>s\<close>, found none.\<close>

definition amend_checked ::
  "ext \<Rightarrow> string \<Rightarrow> string option \<Rightarrow> string option \<Rightarrow> 'z io_scheme \<Rightarrow> bool" where
  "amend_checked X root h b s \<longleftrightarrow>
     (\<exists>s0 q s1. git_status X root s0 = (Inr q, s1)
        \<and> (h = None \<or> map_option lower h = Some (lower (gs_head q)))
        \<and> (b = None \<or> b = Some (gs_branch q))
        \<and> shared_refs_containing_head X root (gs_head q) (gs_branch q) s1 = (Inr [], s))"

definition amend_call :: "string \<Rightarrow> call \<Rightarrow> bool" where
  "amend_call root c \<longleftrightarrow> (\<exists>args. c = GitRun root (''commit'' # ''--amend'' # args))"

text \<open>Every amend among the new calls was made in a state where the check had just succeeded.\<close>

definition amends_checked ::
  "ext \<Rightarrow> string \<Rightarrow> string option \<Rightarrow> string option \<Rightarrow> 'z io_scheme \<Rightarrow> 'z io_scheme \<Rightarrow> bool" where
  "amends_checked X root h b s s' \<longleftrightarrow>
     (\<exists>cs. s' = s\<lparr>log := cs @ log s\<rparr>
        \<and> (\<forall>post c pre. cs = post @ c # pre \<and> amend_call root c
              \<longrightarrow> amend_checked X root h b (s\<lparr>log := pre @ log s\<rparr>)))"

lemma amends_checked_trans:
  assumes "amends_checked X root h b s t" and "amends_checked X root h b t u"
  shows "amends_checked X root h b s u"
proof -
  from assms(1) obtain cs where t: "t = s\<lparr>log := cs @ log s\<rparr>"
    and cs: "\<And>post c pre. cs = post @ c # pre \<Longrightarrow> amend_call root c \<Longrightarrow>
               amend_checked X root h b (s\<lparr>log := pre @ log s\<rparr>)"
    unfolding amends_checked_def by blast
  from assms(2) obtain ds where u: "u = t\<lparr>log := ds @ log t\<rparr>"
    and ds: "\<And>post c pre. ds = post @ c # pre \<Longrightarrow> amend_call root c \<Longrightarrow>
               amend_checked X root h b (t\<lparr>log := pre @ log t\<rparr>)"
    unfolding amends_checked_def by blast
  show ?thesis
    unfolding amends_checked_def
  proof (intro exI conjI allI impI)
    show "u = s\<lparr>log := (ds @ cs) @ log s\<rparr>" using t u by simp
    fix post c pre
    assume "ds @ cs = post @ c # pre \<and> amend_call root c"
    then have eq: "ds @ cs = post @ c # pre" and amend: "amend_call root c" by auto
    from eq obtain vs where "(ds = post @ vs \<and> vs @ cs = c # pre) \<or> (ds @ vs = post \<and> cs = vs @ c # pre)"
      by (auto simp: append_eq_append_conv2)
    then consider us where "ds = post @ c # us" "pre = us @ cs" | us where "cs = us @ c # pre"
      by (cases vs) auto
    then show "amend_checked X root h b (s\<lparr>log := pre @ log s\<rparr>)"
    proof cases
      case 1
      with ds [OF 1(1) amend] t show ?thesis by simp
    next
      case 2
      then show ?thesis using cs amend by blast
    qed
  qed
qed

interpretation amends: call_order "amends_checked X root h b" "\<lambda>c. \<not> amend_call root c" for X root h b
proof
  fix s t u :: "'z io_scheme" and c
  show "amends_checked X root h b s s"
    unfolding amends_checked_def by (rule exI [of _ "[]"]) simp
  show "amends_checked X root h b s t \<Longrightarrow> amends_checked X root h b t u \<Longrightarrow> amends_checked X root h b s u"
    by (rule amends_checked_trans)
  show "\<not> amend_call root c \<Longrightarrow> amends_checked X root h b s (s\<lparr>log := c # log s\<rparr>)"
    unfolding amends_checked_def by (rule exI [of _ "[c]"]) (auto simp: Cons_eq_append_conv)
  show "read_call c \<Longrightarrow> \<not> amend_call root c"
    by (auto simp: amend_call_def read_call.simps READ_COMMANDS_def)
qed

lemma verify_amend_target_checks:
  assumes "verify_amend_target X root e b s = (Inr u, s')" and "h = None \<or> map_option lower h = Some (lower e)"
  shows "amend_checked X root h b s'"
  using assms
  by (fastforce simp: verify_amend_target_def amend_checked_def andthen_eq_Inr split: if_splits)

lemma amend_call_cases [simp]:
  "amend_call root (GitRun root (c # a # args)) \<longleftrightarrow> c = ''commit'' \<and> a = ''--amend''"
  "\<not> amend_call root (FsCall w p)" "\<not> amend_call root (FsWrite p bs)"
  by (auto simp: amend_call_def)

lemma git_run_step: "snd (git_run X root args s) = s\<lparr>log := GitRun root args # log s\<rparr>"
  by (simp add: git_run_def andthen_def ret_apply raise_apply split: proc.splits)

lemma run_commit_amends:
  assumes "h = None \<or> map_option lower h = Some (lower e)"
    and "mode = Some AmendSessionWip \<or> \<not> amend_call root (GitRun root args)"
  shows "obeys (amends_checked X root h b) (run_commit X root mode e b args)"
proof (cases "mode = Some AmendSessionWip")
  case False
  with assms(2) show ?thesis
    unfolding run_commit_def
    by (intro amends.obeys_intros amends.git_run_obeys amends.git_status_obeys amends.verify_amend_target_obeys) simp_all
next
  case True
  show ?thesis
  proof (rule obeysI)
    fix s :: "'z io_scheme" and r s'
    assume run: "run_commit X root mode e b args s = (r, s')"
    obtain v t where v: "verify_amend_target X root e b s = (v, t)" by fastforce
    have st: "amends_checked X root h b s t" by (rule obeysD [OF amends.verify_amend_target_obeys v])
    show "amends_checked X root h b s s'"
    proof (cases v)
      case (Inl er)
      with run v True st show ?thesis by (simp add: run_commit_def andthen_def)
    next
      case (Inr u)
      have checked: "amend_checked X root h b t"
        by (rule verify_amend_target_checks [OF v [unfolded Inr] assms(1)])
      have step: "amends_checked X root h b t (snd (git_run X root args t))"
        unfolding amends_checked_def git_run_step
        by (rule exI [of _ "[GitRun root args]"]) (auto simp: Cons_eq_append_conv checked)
      obtain w t2 where w: "git_run X root args t = (w, t2)" by fastforce
      have "amends_checked X root h b t2 s'"
        using run v Inr True w obeysD [OF amends.git_status_obeys [of X root h b], of X root t2]
        by (cases w) (auto simp: run_commit_def andthen_def amends.refl)
      with st step w show ?thesis by (auto intro: amends.trans)
    qed
  qed
qed

lemma commit_arguments_amend:
  "commit_arguments ps mode d sid = Inr args \<Longrightarrow>
     Some mode = Some AmendSessionWip \<or> \<not> amend_call root (GitRun root args)"
  by (cases mode; cases d; cases sid) (auto simp: commit_arguments_def split: if_splits)

lemma file_commit_arguments_amend:
  "file_commit_arguments p mode d sid = Inr args \<Longrightarrow>
     mode = Some AmendSessionWip \<or> \<not> amend_call root (GitRun root args)"
  by (auto simp: file_commit_arguments_def split: option.splits if_splits dest: commit_arguments_amend)

lemma lift_sum_amends:
  "(\<And>x. v = Inr x \<Longrightarrow> obeys (amends_checked X root h b) (f x)) \<Longrightarrow>
     obeys (amends_checked X root h b) (andthen (lift_sum v) f)"
  by (cases v) (simp_all add: amends.raise_obeys)

lemma require_amends:
  "(c \<Longrightarrow> obeys (amends_checked X root h b) (f ())) \<Longrightarrow>
     obeys (amends_checked X root h b) (andthen (require c e) f)"
  by (cases c) (auto simp: obeys_def amends.refl)

lemmas amends_intros = amends.obeys_intros amends.git_run_obeys amends.git_status_obeys
  amends.new_baseline_obeys amends.require_isolated_obeys amends.require_baseline_obeys
  amends.target_holds_obeys

lemma write_atomically_amends:
  "obeys (amends_checked X root h b) (write_atomically X target content)"
  unfolding write_atomically_def by (intro amends_intros amends.asked_obeys amends.fs_ask_obeys) simp_all

lemma commit_paths_amends:
  "obeys (amends_checked X root h b) (commit_paths X root ps mode d sid h b)"
proof -
  have "obeys (amends_checked X root h b)
      (run_commit X root (Some mode) (case h of None \<Rightarrow> gs_head q | Some h \<Rightarrow> h) b args)"
    if "commit_arguments ps mode d sid = Inr args" for q args
    by (cases h) (simp_all add: run_commit_amends [OF _ commit_arguments_amend [OF that]])
  then show ?thesis
    unfolding commit_paths_def require_head_def by (intro lift_sum_amends amends_intros)
qed

lemma commit_new_content_amends:
  assumes "mode = Some AmendSessionWip \<or> \<not> amend_call root (GitRun root args)"
  shows "obeys (amends_checked X root (Some h) b) (commit_new_content X root p h mode b args)"
  unfolding commit_new_content_def
  by (intro amends_intros run_commit_amends assms) simp_all

lemma commit_file_bytes_amends:
  "obeys (amends_checked X root (Some h) b) (commit_file_bytes X root p c h d ex mode sid b)"
  unfolding commit_file_bytes_def require_head_def
  by (intro require_amends lift_sum_amends amends_intros write_atomically_amends
      commit_new_content_amends file_commit_arguments_amend)

lemma move_tracked_file_amends:
  "obeys (amends_checked X root (Some h) b) (move_tracked_file X root p q h d mode sid b)"
  unfolding move_tracked_file_def require_head_def
  by (intro require_amends lift_sum_amends amends_intros run_commit_amends commit_arguments_amend) simp_all

lemma delete_tracked_file_amends:
  "obeys (amends_checked X root (Some h) b) (delete_tracked_file X root p h d mode sid b)"
  unfolding delete_tracked_file_def require_head_def
  by (intro require_amends lift_sum_amends amends_intros run_commit_amends commit_arguments_amend) simp_all

text \<open>C29: no unchecked amend.  Whenever a commit, write, move or delete runs \<open>git commit --amend\<close>, in
  whatever way it ends, the call before it in the log belongs to a check that has just succeeded:
  a status that found the expected commit and branch, followed by a query that found no other
  branch, remote branch or tag that contains that commit.\<close>

theorem amend_only_when_checked:
  assumes "mutate X root m s = (r, s')"
    and "log s' = post @ c # pre @ log s" and "amend_call root c"
  shows "amend_checked X root (expected_head_of m) (expected_branch_of m) (s\<lparr>log := pre @ log s\<rparr>)"
proof -
  have "obeys (amends_checked X root (expected_head_of m) (expected_branch_of m))
      (mutate X root m :: ('z io_scheme, exn, string) M)"
    by (cases m) (simp_all add: commit_paths_amends commit_file_bytes_amends move_tracked_file_amends
        delete_tracked_file_amends)
  from obeysD [OF this assms(1)] obtain cs where "s' = s\<lparr>log := cs @ log s\<rparr>"
    and "\<forall>post c pre. cs = post @ c # pre \<and> amend_call root c \<longrightarrow>
           amend_checked X root (expected_head_of m) (expected_branch_of m) (s\<lparr>log := pre @ log s\<rparr>)"
    unfolding amends_checked_def by blast
  with assms(2,3) show ?thesis by auto
qed

section \<open>Witnesses\<close>

text \<open>A small repository: branch \<open>main\<close> at a commit of forty \<open>a\<close>, at one of forty \<open>b\<close> once something has
  been committed; after \<open>git rm\<close> and until the commit the file \<open>f\<close> is deleted.\<close>

definition ran :: "string \<Rightarrow> call list \<Rightarrow> bool" where
  "ran cmd h = list_ex (\<lambda>c. case c of GitRun r (x # xs) \<Rightarrow> x = cmd | _ \<Rightarrow> False) h"

definition demo_answer :: "call list \<Rightarrow> string" where
  "demo_answer h =
     (case h of
        GitRun r args # t \<Rightarrow>
          if args = [''rev-parse'', ''--abbrev-ref'', ''HEAD''] then ''main'' @ [lf]
          else if args = [''rev-parse'', ''HEAD'']
            then replicate 40 (if ran ''commit'' t then CHR ''b'' else CHR ''a'') @ [lf]
          else if ran ''status'' h \<and> take 1 args = [''status''] \<and> ran ''rm'' t \<and> \<not> ran ''commit'' t
            then ''D  f'' @ [nul]
          else if take 1 args = [''for-each-ref''] then ''refs/heads/main'' @ [lf]
          else []
      | _ \<Rightarrow> [])"

definition demo_git :: ext where
  "demo_git = demo_ext\<lparr>x_proc := \<lambda>h. Exited 0 (demo_answer h) []\<rparr>"

definition quiet :: io where "quiet = \<lparr>log = []\<rparr>"

lemma demo_git_run: "git_run demo_git root args s
    = (Inr (demo_answer (GitRun root args # log s)), s\<lparr>log := GitRun root args # log s\<rparr>)"
  by (simp add: git_run_def demo_git_def andthen_def ret_apply)

lemma strip_head: "strip (replicate 40 CHR ''a'' @ [lf]) = replicate 40 CHR ''a''"
  "strip (replicate 40 CHR ''b'' @ [lf]) = replicate 40 CHR ''b''"
  by (simp_all add: strip_line strip_def lstrip_by_def rstrip_by_def is_space_def code_def lf_def
      numeral_eq_Suc)

lemmas git_eval = demo_git_run git_status_def demo_answer_def ran_def strip_head delete_tracked_file_def
  commit_arguments_def validate_commit_paths_def require_baseline_def require_isolated_def
  run_commit_def verify_amend_target_def shared_refs_containing_head_def unexpected_paths_def
  new_baseline_def require_head_def head_ok_def is_hexdigit_def is_digit_def code_def andthen_def
  handle_def ret_apply raise_apply lower_def lower_char_def branch_ok_def nul_def cr_def lf_def
  splitlines_def is_line_break_def strip_def lstrip_by_def rstrip_by_def is_space_def
  EXPECTED_REF_PREFIXES_def CHECKPOINT_REF_PREFIX_def starts_with_def list_all_iff quiet_def

definition demo_delete :: git_mutation where
  "demo_delete = DeleteFile ''f'' (replicate 40 (CHR ''a'')) None AmendSessionWip None (Some ''main'')"

lemma demo_delete_run:
  "\<exists>s' post pre c. mutate demo_git ''r'' demo_delete quiet = (Inr (replicate 40 (CHR ''b'')), s')
     \<and> log s' = post @ c # pre @ log quiet \<and> amend_call ''r'' c"
proof -
  obtain s' where run: "mutate demo_git ''r'' demo_delete quiet = (Inr (replicate 40 (CHR ''b'')), s')"
    and "\<exists>a b c call rest. log s' = [a, b, c, call] @ rest \<and> amend_call ''r'' call"
    by (simp add: git_eval demo_delete_def amend_call_def)
  then obtain post c rest where "log s' = post @ c # rest" "amend_call ''r'' c" by (metis append_Cons append_Nil)
  with run show ?thesis by (simp add: quiet_def) blast
qed

theorem git_status_reads_witness:
  "fst (git_status demo_git ''r'' (quiet\<lparr>log := [GitRun ''r'' [''rm'', ''--'', ''f'']]\<rparr>))
     = Inr \<lparr>gs_branch = ''main'', gs_head = replicate 40 (CHR ''a''), gs_dirty = True, gs_files = [''f'']\<rparr>"
proof -
  let ?c = "\<lparr>ch_x = CHR ''D'', ch_y = CHR '' '', ch_path = ''f'', ch_from = None\<rparr>"
  let ?s = "quiet\<lparr>log := [GitRun ''r'' [''rm'', ''--'', ''f'']]\<rparr>"
  have main: "strip ''main'' = ''main''"
    by (simp add: strip_def lstrip_by_def rstrip_by_def is_space_def code_def)
  have head: "strip (replicate 40 CHR ''a'') = replicate 40 CHR ''a''"
    by (simp add: strip_def lstrip_by_def rstrip_by_def is_space_def code_def numeral_eq_Suc)
  have printed: "print_changes [?c] = ''D  f'' @ [nul]"
    by (simp add: print_changes_def change_entries_def)
  have ok: "\<forall>c \<in> set [?c]. change_ok c" by (simp add: change_ok_def nul_def)
  have proc: "x_proc demo_git h = Exited 0 (demo_answer h) []" for h by (simp add: demo_git_def)
  have "fst (git_status demo_git ''r'' ?s) = Inr \<lparr>gs_branch = ''main'', gs_head = replicate 40 (CHR ''a''),
      gs_dirty = ([?c] \<noteq> []), gs_files = concat (map change_paths [?c])\<rparr>"
    by (rule git_status_reads [OF _ _ _ main head ok])
      (simp_all add: answers_def proc demo_git_run printed demo_answer_def ran_def)
  then show ?thesis by (simp add: change_paths_def)
qed

theorem footer_names_its_session_witness:
  "\<exists>f. session_footer ''s1'' = Inr f \<and> parse_session_footer (wip_message ''fix'' f @ [lf]) = Some ''s1''"
proof -
  have f: "session_footer ''s1'' = Inr (SESSION_FOOTER_PREFIX @ ''s1'')"
    by (simp add: session_footer_def session_id_ok_def is_alnum_def is_digit_def is_alpha_def code_def)
  have "description_ok ''fix''" "list_all (\<lambda>c. \<not> is_line_break c) ''fix''"
    by (simp_all add: description_ok_def cr_def lf_def nul_def is_line_break_def code_def)
  with footer_names_its_session [OF f, of "''fix''" "[lf]"] f show ?thesis by auto
qed



theorem amend_only_when_checked_witness:
  "\<exists>s' post c pre. mutate demo_git ''r'' demo_delete quiet = (Inr (replicate 40 (CHR ''b'')), s')
     \<and> log s' = post @ c # pre @ log quiet \<and> amend_call ''r'' c
     \<and> amend_checked demo_git ''r'' (Some (replicate 40 (CHR ''a''))) (Some ''main'') (quiet\<lparr>log := pre @ log quiet\<rparr>)"
proof -
  obtain s' post pre c where "mutate demo_git ''r'' demo_delete quiet = (Inr (replicate 40 (CHR ''b'')), s')"
    and "log s' = post @ c # pre @ log quiet" and "amend_call ''r'' c"
    using demo_delete_run by blast
  with amend_only_when_checked [OF this] show ?thesis by (auto simp: demo_delete_def)
qed

section \<open>Bounded text\<close>

lemma fitting_prefix_maximal:
  "utf8_encode u = Some bs \<Longrightarrow> prefix u t \<Longrightarrow> length bs \<le> k \<Longrightarrow> prefix u (fitting_prefix k t)"
proof (induction u arbitrary: t bs k)
  case Nil
  then show ?case by simp
next
  case (Cons n u)
  then obtain b bs' where "utf8_char n = Some b" "utf8_encode u = Some bs'" "bs = b @ bs'"
    by (auto split: option.splits)
  moreover from Cons.prems obtain t' where "t = n # t'" "prefix u t'" by (cases t) auto
  ultimately show ?case using Cons.IH [of bs' t' "k - length b"] Cons.prems by auto
qed

lemma map_char_of_codes [simp]: "map char_of (codes s) = s"
  by (simp add: codes_def code_def comp_def)

lemma prefix_codes: "prefix t (codes v) \<Longrightarrow> \<exists>u. t = codes u \<and> prefix u v"
  by (auto simp: prefix_def codes_def map_eq_append_conv)

text \<open>Bounded text is cut at a character and no earlier than needed.  What \<open>_truncate_text\<close>
  returns starts the given text and takes at most \<open>k\<close> bytes, the flag says whether anything is
  missing, and every other such start of the text is a start of the result.\<close>

theorem truncate_text_bounded:
  "case truncate_text v k of (t, missing) \<Rightarrow>
     prefix t v \<and> length (encode_str t) \<le> k \<and> (missing \<longleftrightarrow> t \<noteq> v)
     \<and> (\<forall>u. prefix u v \<and> length (encode_str u) \<le> k \<longrightarrow> prefix u t)"
proof (cases "length (encode_str v) \<le> k")
  case True
  then show ?thesis by (simp add: truncate_text_def)
next
  case False
  have cut: "utf8_decode_with [] (take k (encode_str v)) = fitting_prefix k (codes v)"
    by (rule utf8_decode_cut_encode [OF utf8_encode_codes])
  obtain t where t: "fitting_prefix k (codes v) = codes t" "prefix t v"
    using prefix_codes [OF prefix_fitting_prefix] by blast
  have short: "length (encode_str t) \<le> k"
    using fitting_prefix_bound [OF utf8_encode_codes [of v], of k] t utf8_encode_codes [of t] by auto
  have max: "prefix u t" if "prefix u v" "length (encode_str u) \<le> k" for u
  proof -
    have "prefix (codes u) (codes v)" using that(1) by (auto simp: prefix_def codes_def)
    with fitting_prefix_maximal [OF utf8_encode_codes this that(2)] t obtain w where "codes t = codes u @ w"
      by (auto simp: prefix_def)
    then have "map char_of (codes t) = map char_of (codes u) @ map char_of w" by simp
    then show ?thesis by (simp add: prefix_def)
  qed
  have "truncate_text v k = (t, True)" using False by (simp add: truncate_text_def cut t)
  with t short max False show ?thesis by auto
qed

theorem truncate_text_bounded_witness:
  "truncate_text ''ab'' 1 = (''a'', True) \<and> prefix ''a'' (fst (truncate_text ''ab'' 1))"
proof -
  have "encode_str ''ab'' = ''ab''" "encode_str ''a'' = ''a''" by (simp_all add: encode_str_def code_def)
  moreover have "char_of (97 :: nat) = CHR ''a''"
    using char_of_char [of "CHR ''a''", where 'a = nat] by simp
  moreover from calculation have "truncate_text ''ab'' 1 = (''a'', True)"
    by (simp add: truncate_text_def utf8_decode_with.simps utf8_step.simps code_def Let_def)
  ultimately show ?thesis using truncate_text_bounded [of "''ab''" 1] by auto
qed

end
