(* ===== verification/Profiles.thy ===== *)
theory Profiles
  imports External Paths
begin

text \<open>
  \<open>security_defaults.py\<close>, \<open>project_profiles.py\<close>, \<open>project_detection.py\<close> and
  \<open>project_resolution.py\<close>: the defaults of a command, the built-in command catalogs, and the
  choice of a catalog for a project.
\<close>

section \<open>Defaults\<close>

definition DEFAULT_ALLOWED_BRANCHES :: "string list" where
  "DEFAULT_ALLOWED_BRANCHES = [''develop'', ''develop/*'', ''codex/*'', ''feature/*'']"

definition DEFAULT_REQUIRE_CLEAN_WORKSPACE :: bool where
  "DEFAULT_REQUIRE_CLEAN_WORKSPACE = True"

definition COMMAND_TIMEOUT_SECONDS :: "(string \<times> int) list" where
  "COMMAND_TIMEOUT_SECONDS = [(''doctor'', 60), (''compile'', 600), (''format'', 300), (''lint'', 300),
     (''test'', 900), (''verify'', 1200), (''build'', 900), (''bootstrap'', 1200), (''install'', 1200),
     (''destructive'', 300), (''deploy'', 1200)]"

definition AUTO_APPROVAL_KINDS :: "string list" where
  "AUTO_APPROVAL_KINDS = [''doctor'', ''compile'', ''format'', ''lint'', ''test'', ''verify'', ''build'']"

definition default_command_timeout_seconds :: "string \<Rightarrow> pyfloat" where
  "default_command_timeout_seconds kind =
     (case map_of COMMAND_TIMEOUT_SECONDS kind of Some t \<Rightarrow> Fin t 0 | None \<Rightarrow> Fin 60 0)"

definition default_command_approval :: "string \<Rightarrow> string" where
  "default_command_approval kind =
     (if kind \<in> set AUTO_APPROVAL_KINDS then ''not-required'' else ''required'')"

section \<open>Commands and catalogs\<close>

record command_spec =
  cs_command_id :: string
  cs_kind :: string
  cs_argv :: "string list"
  cs_timeout_seconds :: pyfloat
  cs_approval :: string

text \<open>A dict of commands keeps the order of insertion.\<close>

type_synonym commands = "(string \<times> command_spec) list"

definition profile_command :: "string \<Rightarrow> string \<Rightarrow> string list \<Rightarrow> command_spec" where
  "profile_command command_id kind argv =
     \<lparr>cs_command_id = command_id, cs_kind = kind, cs_argv = argv,
      cs_timeout_seconds = default_command_timeout_seconds kind,
      cs_approval = default_command_approval kind\<rparr>"

definition catalog :: "command_spec list \<Rightarrow> commands" where
  "catalog cs = map (\<lambda>c. (cs_command_id c, c)) cs"

definition BUILTIN_PROFILES :: "(string \<times> commands) list" where
  "BUILTIN_PROFILES =
    [(''generic'', []),
     (''java-maven'', catalog
       [profile_command ''doctor'' ''doctor'' [''mvn'', ''--version''],
        profile_command ''compile'' ''compile'' [''mvn'', ''-DskipTests'', ''compile''],
        profile_command ''test'' ''test'' [''mvn'', ''test''],
        profile_command ''verify'' ''verify'' [''mvn'', ''verify''],
        profile_command ''build'' ''build'' [''mvn'', ''-DskipTests'', ''package'']]),
     (''java-gradle'', catalog
       [profile_command ''doctor'' ''doctor'' [''./gradlew'', ''--version''],
        profile_command ''compile'' ''compile'' [''./gradlew'', ''classes''],
        profile_command ''test'' ''test'' [''./gradlew'', ''test''],
        profile_command ''verify'' ''verify'' [''./gradlew'', ''check''],
        profile_command ''build'' ''build'' [''./gradlew'', ''build'']]),
     (''node-npm'', catalog
       [profile_command ''doctor'' ''doctor'' [''npm'', ''--version''],
        profile_command ''test'' ''test'' [''npm'', ''test''],
        profile_command ''build'' ''build'' [''npm'', ''run'', ''build'']]),
     (''node-pnpm'', catalog
       [profile_command ''doctor'' ''doctor'' [''pnpm'', ''--version''],
        profile_command ''test'' ''test'' [''pnpm'', ''test''],
        profile_command ''build'' ''build'' [''pnpm'', ''build'']]),
     (''python'', catalog
       [profile_command ''doctor'' ''doctor'' [''python'', ''--version''],
        profile_command ''compile'' ''compile'' [''python'', ''-m'', ''compileall'', ''.''],
        profile_command ''test'' ''test'' [''python'', ''-m'', ''pytest''],
        profile_command ''build'' ''build'' [''python'', ''-m'', ''build'']]),
     (''codemcp-remote'', catalog
       [profile_command ''format'' ''format'' [''uv'', ''run'', ''--project'', ''bridge'', ''ruff'',
          ''format'', ''--check'', ''bridge/src'', ''bridge/tests'', ''tests/integration''],
        profile_command ''test'' ''test'' [''uv'', ''run'', ''--project'', ''bridge'', ''pytest'', ''-q'',
          ''bridge/tests'', ''tests/integration''],
        profile_command ''security-audit'' ''verify'' [''pwsh'', ''-NoLogo'', ''-NoProfile'',
          ''-NonInteractive'', ''-File'', ''scripts/validate-open-source-security.ps1''],
        profile_command ''artifact-audit'' ''verify'' [''pwsh'', ''-NoLogo'', ''-NoProfile'',
          ''-NonInteractive'', ''-File'', ''scripts/validate-open-source-security.ps1'',
          ''-RequireArtifact'']]),
     (''go'', catalog
       [profile_command ''doctor'' ''doctor'' [''go'', ''version''],
        profile_command ''compile'' ''compile'' [''go'', ''test'', ''-run'', ''^$'', ''./...''],
        profile_command ''test'' ''test'' [''go'', ''test'', ''./...''],
        profile_command ''verify'' ''verify'' [''go'', ''vet'', ''./...''],
        profile_command ''build'' ''build'' [''go'', ''build'', ''./...'']]),
     (''rust'', catalog
       [profile_command ''doctor'' ''doctor'' [''cargo'', ''--version''],
        profile_command ''compile'' ''compile'' [''cargo'', ''check''],
        profile_command ''test'' ''test'' [''cargo'', ''test''],
        profile_command ''verify'' ''verify'' [''cargo'', ''check'', ''--all-targets''],
        profile_command ''build'' ''build'' [''cargo'', ''build'']])]"

definition SUPPORTED_PROFILE_IDS :: "string list" where
  "SUPPORTED_PROFILE_IDS = map fst BUILTIN_PROFILES"

definition get_builtin_profile :: "string \<Rightarrow> commands option" where
  "get_builtin_profile profile_id = map_of BUILTIN_PROFILES profile_id"

section \<open>Detection\<close>

definition PROFILE_MARKERS :: "(string \<times> string list) list" where
  "PROFILE_MARKERS =
    [(''java-maven'', [''pom.xml'']),
     (''java-gradle'', [''gradlew'', ''gradlew.bat'', ''build.gradle'', ''build.gradle.kts'']),
     (''node-npm'', [''package-lock.json'']),
     (''node-pnpm'', [''pnpm-lock.yaml'']),
     (''python'', [''pyproject.toml'']),
     (''go'', [''go.mod'']),
     (''rust'', [''Cargo.toml''])]"

definition REQUIRED_PROFILE_MARKERS :: "(string \<times> string list) list" where
  "REQUIRED_PROFILE_MARKERS =
    [(''codemcp-remote'', [''bridge/pyproject.toml'', ''scripts/windows_entrypoint.py'', ''codemcp.toml''])]"

record project_detection =
  d_profile_id :: "string option"
  d_candidates :: "string list"
  d_evidence :: "(string \<times> string list) list"
  d_ambiguous :: bool

text \<open>\<open>_is_regular_marker\<close>: \<open>lstat\<close> says regular file; an error or a link says no.\<close>

definition is_regular_marker :: "ext \<Rightarrow> string \<Rightarrow> ('z io_scheme, exn, bool) M" where
  "is_regular_marker X p = andthen (ask (FsCall ''lstat_regular'' p)) (\<lambda>h. ret (x_ok X h))"

definition join_path :: "string \<Rightarrow> string \<Rightarrow> string" where
  "join_path base p = base @ ''/'' @ p"

fun present_markers :: "ext \<Rightarrow> string \<Rightarrow> string list \<Rightarrow> ('z io_scheme, exn, string list) M" where
  "present_markers X root [] = ret []"
| "present_markers X root (m # ms) =
     andthen (is_regular_marker X (join_path root m)) (\<lambda>b.
     andthen (present_markers X root ms) (\<lambda>rest. ret (if b then m # rest else rest)))"

text \<open>The two loops: a profile is found when some, or for the second table all, of its markers are
  there.\<close>

fun find_profiles ::
  "ext \<Rightarrow> string \<Rightarrow> bool \<Rightarrow> (string \<times> string list) list \<Rightarrow> (string \<times> string list) list
   \<Rightarrow> ('z io_scheme, exn, (string \<times> string list) list) M" where
  "find_profiles X root need_all [] found = ret found"
| "find_profiles X root need_all ((profile_id, markers) # rest) found =
     andthen (present_markers X root markers) (\<lambda>matches.
     find_profiles X root need_all rest
       (if (if need_all then length matches = length markers else matches \<noteq> [])
        then found @ [(profile_id, matches)] else found))"

definition detection_of :: "(string \<times> string list) list \<Rightarrow> project_detection" where
  "detection_of found =
     (let candidates = sort (map fst found) in
      \<lparr>d_profile_id = (if length candidates = 1 then Some (hd candidates) else None),
       d_candidates = candidates,
       d_evidence = map (\<lambda>c. (c, the (map_of found c))) candidates,
       d_ambiguous = (length candidates > 1)\<rparr>)"

definition detect_project_profile :: "ext \<Rightarrow> string \<Rightarrow> ('z io_scheme, exn, project_detection) M" where
  "detect_project_profile X root =
     andthen (find_profiles X root False PROFILE_MARKERS []) (\<lambda>found.
     andthen (find_profiles X root True REQUIRED_PROFILE_MARKERS found) (\<lambda>all.
     ret (detection_of all)))"

section \<open>Resolution\<close>

record profile_resolution =
  r_profile :: "(string \<times> commands) option"
  r_source :: string
  r_detection :: project_detection

definition resolve_project_profile ::
  "ext \<Rightarrow> string \<Rightarrow> string option \<Rightarrow> ('z io_scheme, exn, profile_resolution) M" where
  "resolve_project_profile X root explicit_profile =
     andthen (detect_project_profile X root) (\<lambda>d.
     case explicit_profile of
       Some p \<Rightarrow>
         (case get_builtin_profile p of
            None \<Rightarrow> raise (ValueErr (''unsupported built-in profile: '' @ p))
          | Some cs \<Rightarrow> ret \<lparr>r_profile = Some (p, cs), r_source = ''explicit'', r_detection = d\<rparr>)
     | None \<Rightarrow>
         (case d_profile_id d of
            None \<Rightarrow> ret \<lparr>r_profile = None, r_source = ''none'', r_detection = d\<rparr>
          | Some p \<Rightarrow>
              (case get_builtin_profile p of
                 None \<Rightarrow> raise (ValueErr (''detected unsupported built-in profile: '' @ p))
               | Some cs \<Rightarrow> ret \<lparr>r_profile = Some (p, cs), r_source = ''detected'', r_detection = d\<rparr>)))"

end
