(* ===== verification/Settings.thy ===== *)
theory Settings
  imports Profiles "HOL-Library.AList"
begin

text \<open>
  \<open>settings.py\<close>: reading and validating the two TOML files.  A table is an association list in the
  order of the file; reading a file, expanding and resolving a path are calls of the outside world.
\<close>

section \<open>Data\<close>

record project_spec =
  p_project_id :: string
  p_root :: string
  p_allowed_branches :: "string list"
  p_require_clean_workspace :: bool
  p_codemcp_config :: string
  p_commands :: commands
  p_profile :: "string option"
  p_profile_source :: string

record server_settings =
  sv_host :: string
  sv_port :: int
  sv_path :: string
  sv_transport :: string

record storage_settings =
  st_data_dir :: string
  st_sqlite_file :: string
  st_log_dir :: string

record policy_settings =
  po_allow_arbitrary_paths :: bool
  po_allow_arbitrary_commands :: bool
  po_allow_model_calls :: bool
  po_require_clean_workspace :: bool
  po_max_file_bytes :: int
  po_max_result_bytes :: int
  po_mutation_lock :: string
  po_approval_ttl_seconds :: pyfloat

record codemcp_settings =
  cm_worker_mode :: string
  cm_wsl_distribution :: string
  cm_wsl_python :: "string option"
  cm_startup_timeout_seconds :: pyfloat
  cm_worker_timeout_seconds :: pyfloat
  cm_shutdown_timeout_seconds :: pyfloat

record bridge_settings =
  bs_repository_root :: string
  bs_bridge_config_path :: string
  bs_projects_config_path :: string
  bs_server :: server_settings
  bs_storage :: storage_settings
  bs_policy :: policy_settings
  bs_codemcp :: codemcp_settings
  bs_projects :: "(string \<times> project_spec) list"

type_synonym ttable = "(string \<times> toml) list"

section \<open>Small validators\<close>

definition project_id_ok :: "string \<Rightarrow> bool" where
  "project_id_ok s =
     (case s of [] \<Rightarrow> False
      | c # cs \<Rightarrow> is_alnum c \<and> length cs \<le> 63 \<and> list_all (\<lambda>x. is_alnum x \<or> x \<in> set ''_.-'') cs)"

definition profile_id_ok :: "string \<Rightarrow> bool" where
  "profile_id_ok s =
     (let ok = (\<lambda>c. is_digit c \<or> (97 \<le> code c \<and> code c \<le> 122)) in
      case s of [] \<Rightarrow> False | c # cs \<Rightarrow> ok c \<and> length cs \<le> 63 \<and> list_all (\<lambda>x. ok x \<or> x = CHR ''-'') cs)"

text \<open>\<open>repr\<close> of a text without quotes or escapes.\<close>

definition py_quote :: "string \<Rightarrow> string" where
  "py_quote s = CHR 0x27 # s @ [CHR 0x27]"

text \<open>A list or dict looked up in a set raises \<open>TypeError\<close>.\<close>

definition unhashable :: "toml \<Rightarrow> bool" where
  "unhashable v = (case v of TArr _ \<Rightarrow> True | TTab _ \<Rightarrow> True | _ \<Rightarrow> False)"

definition as_mapping :: "toml \<Rightarrow> string \<Rightarrow> exn + ttable" where
  "as_mapping v name =
     (case ttab v of Some t \<Rightarrow> Inr t | None \<Rightarrow> Inl (SettingsErr (name @ '' must be a TOML table'')))"

definition read_toml :: "ext \<Rightarrow> string \<Rightarrow> ('z io_scheme, exn, ttable) M" where
  "read_toml X path =
     andthen (ask (FsCall ''load_toml'' path)) (\<lambda>h.
     case x_toml X h of
       Parsed t \<Rightarrow> ret t
     | BadToml m \<Rightarrow> raise (SettingsErr (''invalid TOML configuration: '' @ path @ '': '' @ m))
     | _ \<Rightarrow> raise (SettingsErr (''cannot read configuration: '' @ path)))"

text \<open>\<open>Path.expanduser\<close>, \<open>Path.is_absolute\<close> and \<open>Path.resolve\<close> answer for the platform.\<close>

definition fs_text :: "ext \<Rightarrow> string \<Rightarrow> string \<Rightarrow> ('z io_scheme, exn, string) M" where
  "fs_text X what p = andthen (ask (FsCall what p)) (\<lambda>h. ret (x_text X h))"

definition resolve_config_path ::
  "ext \<Rightarrow> string \<Rightarrow> toml option \<Rightarrow> string \<Rightarrow> ('z io_scheme, exn, string) M" where
  "resolve_config_path X base v name =
     (case v of
        Some (TStr s) \<Rightarrow>
          if strip s = [] then raise (SettingsErr (name @ '' must be a non-empty path''))
          else
            andthen (fs_text X ''expanduser'' s) (\<lambda>candidate.
            andthen (ask (FsCall ''is_absolute'' candidate)) (\<lambda>h.
            fs_text X ''resolve'' (if x_ok X h then candidate else join_path base candidate)))
      | _ \<Rightarrow> raise (SettingsErr (name @ '' must be a non-empty path'')))"

text \<open>\<open>PureWindowsPath(s).is_absolute()\<close>: a drive letter with a root, or a share.\<close>

definition win_absolute :: "string \<Rightarrow> bool" where
  "win_absolute s =
     (let t = to_slashes s; parts = split_on (CHR ''/'') t in
      if take 2 t = ''//'' then
        (if lower (take 8 t) = ''//?/unc/''
         then length parts \<ge> 7 \<or> (length parts = 6 \<and> last parts \<noteq> [])
         else length parts \<ge> 5
              \<or> (length parts = 4 \<and> last parts \<noteq> [] \<and> parts ! 2 \<notin> {[], ''?'', ''.'', ''?.''}))
      else take 1 (drop 1 t) = '':'' \<and> take 1 (drop 2 t) = ''/'' \<and> take 1 t \<noteq> ''/'')"

text \<open>\<open>Path(s).parts\<close> of the platform, as far as the test for \<open>..\<close> goes.\<close>

definition platform_parts :: "ext \<Rightarrow> string \<Rightarrow> string list" where
  "platform_parts X s = posix_parts (if x_windows X then to_slashes s else s)"

definition relative_config_path :: "ext \<Rightarrow> toml \<Rightarrow> string \<Rightarrow> exn + string" where
  "relative_config_path X v name =
     (case tstr v of
        None \<Rightarrow> Inl (SettingsErr (name @ '' must be a non-empty relative path''))
      | Some s \<Rightarrow>
          if strip s = [] then Inl (SettingsErr (name @ '' must be a non-empty relative path''))
          else if take 1 s = ''/'' \<or> win_absolute s then Inl (SettingsErr (name @ '' must be relative''))
          else if ''..'' \<in> set (platform_parts X s) then Inl (SettingsErr (name @ '' must not contain '' @ py_quote ''..''))
          else Inr s)"

section \<open>Commands\<close>

definition parse_command :: "string \<Rightarrow> toml \<Rightarrow> exn + command_spec" where
  "parse_command command_id v =
     (let where_is = ''commands.'' @ command_id in
      case ttab v of
        None \<Rightarrow> Inl (SettingsErr (where_is @ '' must be a TOML table''))
      | Some raw \<Rightarrow>
          (case (case tget raw ''argv'' of Some a \<Rightarrow> strings_of a | None \<Rightarrow> None) of
             None \<Rightarrow> Inl (SettingsErr (where_is @ ''.argv must be a non-empty string list''))
           | Some argv \<Rightarrow>
               if argv = [] then Inl (SettingsErr (where_is @ ''.argv must be a non-empty string list''))
               else
                 (case (case tget raw ''kind'' of Some k \<Rightarrow> tstr k | None \<Rightarrow> None) of
                    None \<Rightarrow> Inl (SettingsErr (where_is @ ''.kind must be a non-empty string''))
                  | Some kind \<Rightarrow>
                      if kind = [] then Inl (SettingsErr (where_is @ ''.kind must be a non-empty string''))
                      else
                        (let default_approval = default_command_approval kind;
                             approval = tget_or raw ''approval'' (TStr default_approval) in
                         if unhashable approval then Inl (TypeErr ''unhashable type'')
                         else case tstr approval of
                           None \<Rightarrow> Inl (SettingsErr (where_is @ ''.approval must be '' @ py_quote ''not-required'' @ '' or '' @ py_quote ''required''))
                         | Some a \<Rightarrow>
                             if a \<noteq> ''not-required'' \<and> a \<noteq> ''required''
                             then Inl (SettingsErr (where_is @ ''.approval must be '' @ py_quote ''not-required'' @ '' or '' @ py_quote ''required''))
                             else if default_approval = ''required'' \<and> a \<noteq> ''required''
                             then Inl (SettingsErr (where_is @ ''.approval cannot disable required approval for kind '' @ py_quote kind))
                             else
                               (let t = tget_or raw ''timeout_seconds'' (TFloat (default_command_timeout_seconds kind)) in
                                case (if tbool t \<noteq> None then None else tfloat t) of
                                  None \<Rightarrow> Inl (SettingsErr (where_is @ ''.timeout_seconds must be positive''))
                                | Some f \<Rightarrow>
                                    if not_positive f
                                    then Inl (SettingsErr (where_is @ ''.timeout_seconds must be positive''))
                                    else Inr \<lparr>cs_command_id = command_id, cs_kind = kind, cs_argv = argv,
                                              cs_timeout_seconds = f, cs_approval = a\<rparr>)))))"

fun parse_commands :: "ttable \<Rightarrow> exn + commands" where
  "parse_commands [] = Inr []"
| "parse_commands ((k, v) # rest) =
     sum_bind (parse_command k v) (\<lambda>c. sum_bind (parse_commands rest) (\<lambda>cs. Inr ((k, c) # cs)))"

text \<open>\<open>{**profile_commands, **explicit_commands}\<close>.\<close>

fun merge_commands :: "commands \<Rightarrow> commands \<Rightarrow> commands" where
  "merge_commands base [] = base"
| "merge_commands base ((k, c) # rest) = merge_commands (AList.update k c base) rest"

section \<open>Projects\<close>

definition explicit_profile_of :: "string \<Rightarrow> ttable \<Rightarrow> exn + string option" where
  "explicit_profile_of where_is raw =
     (case tget raw ''profile'' of
        None \<Rightarrow> Inr None
      | Some v \<Rightarrow>
          (case tstr v of
             None \<Rightarrow> Inl (SettingsErr (where_is @ ''.profile must be a lowercase profile identifier''))
           | Some p \<Rightarrow>
               if \<not> profile_id_ok p
               then Inl (SettingsErr (where_is @ ''.profile must be a lowercase profile identifier''))
               else if p \<notin> set SUPPORTED_PROFILE_IDS
               then Inl (SettingsErr (where_is @ ''.profile is not a supported built-in profile: '' @ p))
               else Inr (Some p)))"

definition branches_of :: "string \<Rightarrow> ttable \<Rightarrow> exn + string list" where
  "branches_of where_is raw =
     (case strings_of (tget_or raw ''allowed_branches'' (TArr (map TStr DEFAULT_ALLOWED_BRANCHES))) of
        None \<Rightarrow> Inl (SettingsErr (where_is @ ''.allowed_branches must be a non-empty string list''))
      | Some bs \<Rightarrow>
          if bs = [] \<or> [] \<in> set bs
          then Inl (SettingsErr (where_is @ ''.allowed_branches must be a non-empty string list''))
          else Inr bs)"

text \<open>\<open>_apply_profile_root_command_defaults\<close>: the test command of a Python project with a
  \<open>run_tests.sh\<close>.  The script is read twice, the second time ignoring what is not UTF-8.  The answer
  to \<open>read_text\<close> is the decoded text; \<open>Path.read_text\<close> opens in text mode, which turns every
  carriage return and every pair with a line feed into a line feed, as the two \<open>replace\<close> calls of
  the source do again.\<close>

definition unittest_command :: string where
  "unittest_command = ''python -m unittest discover -s tests -v''"

definition is_unittest_line :: "string \<Rightarrow> bool" where
  "is_unittest_line line =
     (line = unittest_command
      \<or> (starts_with line ''PYTHONPATH='' \<and> ends_with line (CHR '' '' # unittest_command)))"

text \<open>Text mode, and \<open>s.replace("\r\n", "\n").replace("\r", "\n")\<close>.\<close>

fun universal_newlines :: "string \<Rightarrow> string" where
  "universal_newlines [] = []"
| "universal_newlines (c # cs) =
     (if c = cr then lf # (if take 1 cs = [lf] then universal_newlines (drop 1 cs) else universal_newlines cs)
      else c # universal_newlines cs)"

definition apply_profile_root_command_defaults ::
  "ext \<Rightarrow> string \<Rightarrow> string option \<Rightarrow> commands \<Rightarrow> ('z io_scheme, exn, commands) M" where
  "apply_profile_root_command_defaults X root profile_id cs =
     (if profile_id \<noteq> Some ''python'' then ret cs
      else
        (case map_of cs ''test'' of
           None \<Rightarrow> ret cs
         | Some existing \<Rightarrow>
             andthen (is_regular_marker X (join_path root ''run_tests.sh'')) (\<lambda>b.
             if \<not> b then ret cs
             else
               andthen (ask (FsCall ''read_text'' (join_path root ''run_tests.sh''))) (\<lambda>h.
               case x_bytes X h of
                 None \<Rightarrow> ret cs
               | Some text \<Rightarrow>
                   (let lines = map strip (splitlines (universal_newlines (universal_newlines text)));
                        set_test = (\<lambda>argv. AList.update ''test''
                          \<lparr>cs_command_id = ''test'', cs_kind = ''test'', cs_argv = argv,
                           cs_timeout_seconds = cs_timeout_seconds existing,
                           cs_approval = cs_approval existing\<rparr> cs) in
                    if list_ex is_unittest_line lines
                    then ret (set_test [''python'', ''-m'', ''unittest'', ''discover'', ''-s'', ''tests'', ''-v''])
                    else
                      andthen (ask (FsCall ''read_text_ignore'' (join_path root ''run_tests.sh''))) (\<lambda>h2.
                      case x_bytes X h2 of
                        None \<Rightarrow> raise OsErr
                      | Some text2 \<Rightarrow>
                          if cr \<notin> set (universal_newlines text2) then ret (set_test [''/bin/sh'', ''./run_tests.sh'']) else ret cs))))))"

definition parse_project ::
  "ext \<Rightarrow> string \<Rightarrow> string \<Rightarrow> toml \<Rightarrow> ('z io_scheme, exn, project_spec) M" where
  "parse_project X base project_id v =
     (let where_is = ''projects.'' @ project_id in
      andthen (require (project_id_ok project_id)
        (SettingsErr (''invalid project_id: '' @ py_quote project_id))) (\<lambda>_.
      andthen (lift_sum (as_mapping v where_is)) (\<lambda>raw.
      andthen (resolve_config_path X base (tget raw ''root'') (where_is @ ''.root'')) (\<lambda>root.
      andthen (lift_sum (branches_of where_is raw)) (\<lambda>branches.
      andthen (lift_sum (relative_config_path X (tget_or raw ''codemcp_config'' (TStr ''codemcp.toml''))
                 (where_is @ ''.codemcp_config''))) (\<lambda>config_name.
      andthen (lift_sum (explicit_profile_of where_is raw)) (\<lambda>explicit.
      andthen (resolve_project_profile X root explicit) (\<lambda>resolution.
      andthen (apply_profile_root_command_defaults X root (map_option fst (r_profile resolution))
                 (case r_profile resolution of None \<Rightarrow> [] | Some (_, cs) \<Rightarrow> cs)) (\<lambda>profile_commands.
      andthen (lift_sum (as_mapping (tget_or raw ''commands'' (TTab [])) (where_is @ ''.commands''))) (\<lambda>commands_raw.
      andthen (lift_sum (parse_commands commands_raw)) (\<lambda>explicit_commands.
      andthen (lift_sum (case tbool (tget_or raw ''require_clean_workspace'' (TBool DEFAULT_REQUIRE_CLEAN_WORKSPACE)) of
                 None \<Rightarrow> Inl (SettingsErr (where_is @ ''.require_clean_workspace must be boolean''))
               | Some b \<Rightarrow> Inr b)) (\<lambda>clean.
      ret \<lparr>p_project_id = project_id, p_root = root, p_allowed_branches = branches,
           p_require_clean_workspace = clean, p_codemcp_config = join_path root config_name,
           p_commands = merge_commands profile_commands explicit_commands,
           p_profile = map_option fst (r_profile resolution), p_profile_source = r_source resolution\<rparr>))))))))))))"

fun parse_projects ::
  "ext \<Rightarrow> string \<Rightarrow> ttable \<Rightarrow> ('z io_scheme, exn, (string \<times> project_spec) list) M" where
  "parse_projects X base [] = ret []"
| "parse_projects X base ((k, v) # rest) =
     andthen (parse_project X base k v) (\<lambda>p.
     andthen (parse_projects X base rest) (\<lambda>ps. ret ((k, p) # ps)))"

text \<open>\<open>load_projects\<close>: the path is expanded and resolved, and the directory it is in is the base.\<close>

definition load_projects :: "ext \<Rightarrow> string \<Rightarrow> ('z io_scheme, exn, (string \<times> project_spec) list) M" where
  "load_projects X config_path =
     andthen (fs_text X ''expanduser'' config_path) (\<lambda>p.
     andthen (fs_text X ''resolve'' p) (\<lambda>path.
     andthen (fs_text X ''parent'' path) (\<lambda>base.
     andthen (read_toml X path) (\<lambda>t.
     andthen (lift_sum (as_mapping (tget_or t ''projects'' (TTab [])) ''projects'')) (\<lambda>raw.
     parse_projects X base raw)))))"

section \<open>The bridge file\<close>

definition settings_error :: "string \<Rightarrow> exn + 'a" where
  "settings_error m = Inl (SettingsErr m)"

definition server_of :: "ttable \<Rightarrow> exn + server_settings" where
  "server_of raw =
     (if tget_or raw ''host'' (TStr ''127.0.0.1'') \<noteq> TStr ''127.0.0.1''
      then settings_error ''server.host must be 127.0.0.1''
      else case tstr (tget_or raw ''path'' (TStr ''/mcp'')) of
        None \<Rightarrow> settings_error (''server.path must start with '' @ py_quote ''/'')
      | Some path \<Rightarrow>
          if \<not> starts_with path ''/'' then settings_error (''server.path must start with '' @ py_quote ''/'')
          else if tget_or raw ''transport'' (TStr ''streamable-http'') \<noteq> TStr ''streamable-http''
          then settings_error ''server.transport must be streamable-http in Phase 4''
          else case tint (tget_or raw ''port'' (TInt 46200)) of
            None \<Rightarrow> settings_error ''server.port must be between 1 and 65535''
          | Some port \<Rightarrow>
              if \<not> (1 \<le> port \<and> port \<le> 65535)
              then settings_error ''server.port must be between 1 and 65535''
              else Inr \<lparr>sv_host = ''127.0.0.1'', sv_port = port,
                        sv_path = (let p = rstrip_by (\<lambda>c. c = CHR ''/'') path in if p = [] then ''/'' else p),
                        sv_transport = ''streamable-http''\<rparr>)"

fun policy_bools :: "ttable \<Rightarrow> string list \<Rightarrow> exn + bool list" where
  "policy_bools raw [] = Inr []"
| "policy_bools raw (k # ks) =
     (case (case tget raw k of Some v \<Rightarrow> tbool v | None \<Rightarrow> None) of
        None \<Rightarrow> settings_error (''policy.'' @ k @ '' must be boolean'')
      | Some b \<Rightarrow> sum_bind (policy_bools raw ks) (\<lambda>bs. Inr (b # bs)))"

definition positive_int :: "string \<Rightarrow> toml \<Rightarrow> exn + int" where
  "positive_int name v =
     (case tint v of
        None \<Rightarrow> settings_error (name @ '' must be positive'')
      | Some i \<Rightarrow> if i \<le> 0 then settings_error (name @ '' must be positive'') else Inr i)"

definition positive_float :: "string \<Rightarrow> toml \<Rightarrow> exn + pyfloat" where
  "positive_float name v =
     (case tfloat v of
        None \<Rightarrow> settings_error (name @ '' must be positive'')
      | Some f \<Rightarrow> if not_positive f then settings_error (name @ '' must be positive'') else Inr f)"

definition POLICY_BOOL_KEYS :: "string list" where
  "POLICY_BOOL_KEYS = [''allow_arbitrary_paths'', ''allow_arbitrary_commands'', ''allow_model_calls'',
     ''require_clean_workspace'']"

definition policy_of :: "ttable \<Rightarrow> exn + policy_settings" where
  "policy_of raw =
     sum_bind (policy_bools raw POLICY_BOOL_KEYS) (\<lambda>bs.
     if True \<in> set (take 3 bs)
     then settings_error (''policy.allow_arbitrary_paths, policy.allow_arbitrary_commands, and ''
            @ ''policy.allow_model_calls must remain false in Phase 4'')
     else if tget_or raw ''mutation_lock'' (TStr ''per-project'') \<noteq> TStr ''per-project''
     then settings_error ''policy.mutation_lock must be per-project in Phase 4''
     else
       sum_bind (positive_float ''policy.approval_ttl_seconds'' (tget_or raw ''approval_ttl_seconds'' (TInt 300))) (\<lambda>ttl.
       sum_bind (positive_int ''policy.max_file_bytes'' (tget_or raw ''max_file_bytes'' (TInt 1048576))) (\<lambda>file_bytes.
       sum_bind (positive_int ''policy.max_result_bytes'' (tget_or raw ''max_result_bytes'' (TInt 262144))) (\<lambda>result_bytes.
       Inr \<lparr>po_allow_arbitrary_paths = bs ! 0, po_allow_arbitrary_commands = bs ! 1,
            po_allow_model_calls = bs ! 2, po_require_clean_workspace = bs ! 3,
            po_max_file_bytes = file_bytes, po_max_result_bytes = result_bytes,
            po_mutation_lock = ''per-project'', po_approval_ttl_seconds = ttl\<rparr>))))"

definition codemcp_of :: "ttable \<Rightarrow> exn + codemcp_settings" where
  "codemcp_of raw =
     (let mode = tget_or raw ''worker_mode'' (TStr ''local'') in
      if unhashable mode then Inl (TypeErr ''unhashable type'')
      else case tstr mode of
        None \<Rightarrow> settings_error (''codemcp.worker_mode must be '' @ py_quote ''wsl2'' @ '' or '' @ py_quote ''local'')
      | Some worker_mode \<Rightarrow>
          if worker_mode \<noteq> ''wsl2'' \<and> worker_mode \<noteq> ''local''
          then settings_error (''codemcp.worker_mode must be '' @ py_quote ''wsl2'' @ '' or '' @ py_quote ''local'')
          else case tstr (tget_or raw ''wsl_distribution'' (TStr ''Ubuntu'')) of
            None \<Rightarrow> settings_error ''codemcp.wsl_distribution must be a non-empty string''
          | Some distribution \<Rightarrow>
              if distribution = [] then settings_error ''codemcp.wsl_distribution must be a non-empty string''
              else
                sum_bind (case tget raw ''wsl_python'' of
                            None \<Rightarrow> Inr None
                          | Some v \<Rightarrow>
                              (case tstr v of
                                 None \<Rightarrow> settings_error ''codemcp.wsl_python must be a string or empty''
                               | Some s \<Rightarrow> Inr (if s = [] then None else Some s))) (\<lambda>python.
                sum_bind (positive_float ''codemcp.startup_timeout_seconds'' (tget_or raw ''startup_timeout_seconds'' (TInt 30))) (\<lambda>startup.
                sum_bind (positive_float ''codemcp.worker_timeout_seconds'' (tget_or raw ''worker_timeout_seconds'' (TInt 60))) (\<lambda>worker.
                sum_bind (positive_float ''codemcp.shutdown_timeout_seconds'' (tget_or raw ''shutdown_timeout_seconds'' (TInt 5))) (\<lambda>shutdown.
                Inr \<lparr>cm_worker_mode = worker_mode, cm_wsl_distribution = distribution, cm_wsl_python = python,
                     cm_startup_timeout_seconds = startup, cm_worker_timeout_seconds = worker,
                     cm_shutdown_timeout_seconds = shutdown\<rparr>)))))"

definition section_of :: "ttable \<Rightarrow> string \<Rightarrow> exn + ttable" where
  "section_of t name = as_mapping (tget_or t name (TTab [])) name"

definition load_settings :: "ext \<Rightarrow> string \<Rightarrow> string \<Rightarrow> ('z io_scheme, exn, bridge_settings) M" where
  "load_settings X bridge_config_path projects_config_path =
     andthen (fs_text X ''expanduser'' bridge_config_path) (\<lambda>b.
     andthen (fs_text X ''resolve'' b) (\<lambda>bridge_path.
     andthen (fs_text X ''expanduser'' projects_config_path) (\<lambda>p.
     andthen (fs_text X ''resolve'' p) (\<lambda>projects_path.
     andthen (fs_text X ''parent'' bridge_path) (\<lambda>config_dir.
     andthen (fs_text X ''parent'' config_dir) (\<lambda>repository_root.
     andthen (read_toml X bridge_path) (\<lambda>raw.
     andthen (lift_sum (section_of raw ''server'')) (\<lambda>server_raw.
     andthen (lift_sum (section_of raw ''storage'')) (\<lambda>storage_raw.
     andthen (lift_sum (section_of raw ''policy'')) (\<lambda>policy_raw.
     andthen (lift_sum (section_of raw ''codemcp'')) (\<lambda>codemcp_raw.
     andthen (lift_sum (server_of server_raw)) (\<lambda>server.
     andthen (resolve_config_path X repository_root (Some (tget_or storage_raw ''data_dir'' (TStr ''.local''))) ''storage.data_dir'') (\<lambda>data_dir.
     andthen (resolve_config_path X repository_root (Some (tget_or storage_raw ''sqlite_file'' (TStr ''.local/bridge.sqlite3''))) ''storage.sqlite_file'') (\<lambda>sqlite_file.
     andthen (resolve_config_path X repository_root (Some (tget_or storage_raw ''log_dir'' (TStr ''.local/logs''))) ''storage.log_dir'') (\<lambda>log_dir.
     andthen (lift_sum (policy_of policy_raw)) (\<lambda>policy.
     andthen (lift_sum (codemcp_of codemcp_raw)) (\<lambda>codemcp.
     andthen (load_projects X projects_path) (\<lambda>projects.
     ret \<lparr>bs_repository_root = repository_root, bs_bridge_config_path = bridge_path,
          bs_projects_config_path = projects_path, bs_server = server,
          bs_storage = \<lparr>st_data_dir = data_dir, st_sqlite_file = sqlite_file, st_log_dir = log_dir\<rparr>,
          bs_policy = policy, bs_codemcp = codemcp, bs_projects = projects\<rparr>))))))))))))))))))"

end
