(* ===== verification/SettingsSpec.thy ===== *)
theory SettingsSpec
  imports Settings StoreSafety
begin

text \<open>
  What a configuration that has been accepted is known to satisfy, and where the validation stops:
  the built-in catalogs and explicit commands never run a risky kind without approval, the server
  binds to the loopback address only, and a profile is detected only when it is the only candidate.
\<close>

section \<open>Commands\<close>

definition command_ok :: "string \<Rightarrow> command_spec \<Rightarrow> bool" where
  "command_ok k c \<longleftrightarrow> cs_command_id c = k \<and> cs_argv c \<noteq> [] \<and> cs_kind c \<noteq> []
     \<and> cs_approval c \<in> {''not-required'', ''required''}
     \<and> (cs_kind c \<in> set AUTO_APPROVAL_KINDS \<or> cs_approval c = ''required'')
     \<and> \<not> not_positive (cs_timeout_seconds c)"

definition commands_ok :: "commands \<Rightarrow> bool" where
  "commands_ok cs \<longleftrightarrow> (\<forall>(k, c) \<in> set cs. command_ok k c)"

lemma parse_command_ok: "parse_command k v = Inr c \<Longrightarrow> command_ok k c"
  by (auto simp: parse_command_def command_ok_def default_command_approval_def Let_def
      split: option.splits if_splits)

lemma parse_commands_ok: "parse_commands t = Inr cs \<Longrightarrow> commands_ok cs"
  by (induction t arbitrary: cs rule: parse_commands.induct)
    (auto simp: commands_ok_def dest: parse_command_ok)

lemma update_set: "x \<in> set (AList.update k c cs) \<Longrightarrow> x = (k, c) \<or> x \<in> set cs"
  by (induction cs) (auto split: if_splits)

lemma update_ok: "commands_ok cs \<Longrightarrow> command_ok k c \<Longrightarrow> commands_ok (AList.update k c cs)"
  by (auto simp: commands_ok_def dest!: update_set)

lemma merge_commands_ok: "commands_ok a \<Longrightarrow> commands_ok b \<Longrightarrow> commands_ok (merge_commands a b)"
proof (induction a b rule: merge_commands.induct)
  case (2 base k c rest)
  then have "command_ok k c" "commands_ok rest" by (auto simp: commands_ok_def)
  with 2 update_ok show ?case by simp
qed simp

lemma profile_command_ok: "argv \<noteq> [] \<Longrightarrow> kind \<noteq> [] \<Longrightarrow>
    command_ok k (profile_command k kind argv)"
  by (auto simp: profile_command_def command_ok_def default_command_approval_def
      default_command_timeout_seconds_def COMMAND_TIMEOUT_SECONDS_def split: option.splits if_splits)

lemma builtin_profiles_ok: "get_builtin_profile p = Some cs \<Longrightarrow> commands_ok cs"
  unfolding get_builtin_profile_def BUILTIN_PROFILES_def catalog_def commands_ok_def
  by (auto simp: profile_command_ok profile_command_def [THEN arg_cong, of cs_command_id] split: if_splits)

section \<open>Projects\<close>

definition profile_ok :: "project_spec \<Rightarrow> bool" where
  "profile_ok p \<longleftrightarrow>
     (case p_profile p of
        None \<Rightarrow> p_profile_source p = ''none''
      | Some i \<Rightarrow> i \<in> set SUPPORTED_PROFILE_IDS \<and> p_profile_source p \<in> {''explicit'', ''detected''})"

definition project_ok :: "string \<Rightarrow> project_spec \<Rightarrow> bool" where
  "project_ok k p \<longleftrightarrow> p_project_id p = k \<and> project_id_ok k
     \<and> p_allowed_branches p \<noteq> [] \<and> [] \<notin> set (p_allowed_branches p)
     \<and> commands_ok (p_commands p) \<and> profile_ok p
     \<and> (\<exists>name. p_codemcp_config p = join_path (p_root p) name \<and> \<not> starts_with name ''/'')"

lemma returns_any: "(\<And>x t. Q x t) \<Longrightarrow> returns m s Q"
  by (simp add: returns_def)

lemma test_command_ok:
  assumes "commands_ok cs" and "map_of cs ''test'' = Some e" and "argv \<noteq> []"
  shows "commands_ok (AList.update ''test'' \<lparr>cs_command_id = ''test'', cs_kind = ''test'', cs_argv = argv,
      cs_timeout_seconds = cs_timeout_seconds e, cs_approval = cs_approval e\<rparr> cs)"
proof -
  have "command_ok ''test'' e" using assms(1) map_of_SomeD [OF assms(2)] by (auto simp: commands_ok_def)
  then show ?thesis using assms by (auto simp: command_ok_def AUTO_APPROVAL_KINDS_def intro!: update_ok)
qed

lemma root_defaults_ok:
  "commands_ok cs \<Longrightarrow>
     returns (apply_profile_root_command_defaults X root pid cs) s (\<lambda>cs' _. commands_ok cs')"
  unfolding apply_profile_root_command_defaults_def is_regular_marker_def Let_def
  by (simp add: test_command_ok)

definition resolution_ok :: "profile_resolution \<Rightarrow> bool" where
  "resolution_ok r \<longleftrightarrow>
     (case r_profile r of
        None \<Rightarrow> r_source r = ''none''
      | Some (i, cs) \<Rightarrow> commands_ok cs \<and> i \<in> set SUPPORTED_PROFILE_IDS
          \<and> r_source r \<in> {''explicit'', ''detected''})"

lemma builtin_supported: "get_builtin_profile i = Some cs \<Longrightarrow> i \<in> set SUPPORTED_PROFILE_IDS"
  by (force simp: get_builtin_profile_def SUPPORTED_PROFILE_IDS_def dest: map_of_SomeD)

lemma resolve_profile_ok:
  "returns (resolve_project_profile X root explicit) s (\<lambda>r _. resolution_ok r)"
  unfolding resolve_project_profile_def returns_andthen
  by (rule returns_any, cases explicit)
    (auto simp: resolution_ok_def builtin_profiles_ok builtin_supported)

lemma relative_config_ok: "relative_config_path X v name = Inr r \<Longrightarrow> \<not> starts_with r ''/''"
  by (cases r) (auto simp: relative_config_path_def starts_with_def split: option.splits if_splits)

lemma branches_ok: "branches_of w raw = Inr bs \<Longrightarrow> bs \<noteq> [] \<and> [] \<notin> set bs"
  by (auto simp: branches_of_def split: option.splits if_splits)

lemma parse_project_ok: "returns (parse_project X base k v) s (\<lambda>p _. project_ok k p)"
proof -
  have tail: "returns (resolve_project_profile X root explicit) t (\<lambda>r t.
      returns (apply_profile_root_command_defaults X root (map_option fst (r_profile r))
        (case r_profile r of None \<Rightarrow> [] | Some (_, cs) \<Rightarrow> cs)) t (\<lambda>pc t. resolution_ok r \<and> commands_ok pc))"
    for root explicit t
    by (rule returns_mono [OF resolve_profile_ok])
      (auto intro!: returns_mono [OF root_defaults_ok] simp: resolution_ok_def commands_ok_def split: option.splits)
  show ?thesis
    unfolding parse_project_def Let_def returns_andthen returns_require returns_lift_sum
    by (intro impI allI, rule returns_any, intro impI allI, rule returns_mono [OF tail], erule returns_mono)
      (auto simp: project_ok_def profile_ok_def resolution_ok_def merge_commands_ok parse_commands_ok
        branches_ok relative_config_ok split: option.splits dest: branches_ok relative_config_ok)
qed

lemma parse_projects_ok:
  "returns (parse_projects X base t) s (\<lambda>ps _. \<forall>(k, p) \<in> set ps. project_ok k p)"
proof (induction t arbitrary: s)
  case Nil
  then show ?case by simp
next
  case (Cons kv t)
  obtain k v where kv: "kv = (k, v)" by fastforce
  show ?case
    unfolding kv parse_projects.simps returns_andthen
    by (rule returns_mono [OF parse_project_ok], rule returns_mono [OF Cons.IH]) simp
qed

lemma load_projects_returns:
  "returns (load_projects X path) s (\<lambda>ps _. \<forall>(k, p) \<in> set ps. project_ok k p)"
  unfolding load_projects_def returns_andthen returns_lift_sum
  by (intro returns_any impI allI parse_projects_ok)

text \<open>C32: every project of an accepted configuration is well formed.  Its id is the key of its table and
  has the required form, it has at least one branch pattern and none is empty, its profile is a
  built-in one with a source that says where it comes from, its \<open>codemcp.toml\<close> is named relative to
  its root, and each of its commands, built-in or explicit, has an argument vector, an identifier
  equal to its key, a time limit that is not below or equal to zero, and needs approval unless its
  kind is one of the low-risk kinds.\<close>

theorem loaded_projects_ok:
  assumes "load_projects X path s = (Inr ps, s')"
  shows "\<forall>(k, p) \<in> set ps. project_ok k p"
  using load_projects_returns assms by (rule returnsD)

section \<open>The bridge file\<close>

definition settings_ok :: "bridge_settings \<Rightarrow> bool" where
  "settings_ok S \<longleftrightarrow>
     sv_host (bs_server S) = ''127.0.0.1'' \<and> sv_transport (bs_server S) = ''streamable-http''
     \<and> 1 \<le> sv_port (bs_server S) \<and> sv_port (bs_server S) \<le> 65535
     \<and> \<not> po_allow_arbitrary_paths (bs_policy S) \<and> \<not> po_allow_arbitrary_commands (bs_policy S)
     \<and> \<not> po_allow_model_calls (bs_policy S) \<and> po_mutation_lock (bs_policy S) = ''per-project''
     \<and> 0 < po_max_file_bytes (bs_policy S) \<and> 0 < po_max_result_bytes (bs_policy S)
     \<and> \<not> not_positive (po_approval_ttl_seconds (bs_policy S))
     \<and> cm_worker_mode (bs_codemcp S) \<in> {''local'', ''wsl2''}
     \<and> cm_wsl_distribution (bs_codemcp S) \<noteq> [] \<and> cm_wsl_python (bs_codemcp S) \<noteq> Some []
     \<and> \<not> not_positive (cm_worker_timeout_seconds (bs_codemcp S))
     \<and> (\<forall>(k, p) \<in> set (bs_projects S). project_ok k p)"

lemma server_ok:
  "server_of raw = Inr v \<Longrightarrow> sv_host v = ''127.0.0.1'' \<and> sv_transport v = ''streamable-http''
     \<and> 1 \<le> sv_port v \<and> sv_port v \<le> 65535"
  by (auto simp: server_of_def settings_error_def split: option.splits if_splits)

lemma positive_int_ok: "positive_int name v = Inr i \<Longrightarrow> 0 < i"
  by (auto simp: positive_int_def settings_error_def split: option.splits if_splits)

lemma positive_float_ok: "positive_float name v = Inr f \<Longrightarrow> \<not> not_positive f"
  by (auto simp: positive_float_def settings_error_def split: option.splits if_splits)

lemma policy_bools_length: "policy_bools raw ks = Inr bs \<Longrightarrow> length bs = length ks"
  by (induction ks arbitrary: bs) (auto simp: settings_error_def split: option.splits)

lemma policy_ok:
  assumes "policy_of raw = Inr v"
  shows "\<not> po_allow_arbitrary_paths v \<and> \<not> po_allow_arbitrary_commands v \<and> \<not> po_allow_model_calls v
     \<and> po_mutation_lock v = ''per-project'' \<and> 0 < po_max_file_bytes v \<and> 0 < po_max_result_bytes v
     \<and> \<not> not_positive (po_approval_ttl_seconds v)"
proof -
  from assms obtain bs ttl fb rb n1 n2 n3 w1 w2 w3 where bools: "policy_bools raw POLICY_BOOL_KEYS = Inr bs"
    and none: "True \<notin> set (take 3 bs)" and v: "v = \<lparr>po_allow_arbitrary_paths = bs ! 0,
      po_allow_arbitrary_commands = bs ! 1, po_allow_model_calls = bs ! 2, po_require_clean_workspace = bs ! 3,
      po_max_file_bytes = fb, po_max_result_bytes = rb, po_mutation_lock = ''per-project'',
      po_approval_ttl_seconds = ttl\<rparr>" and "positive_int n1 w1 = Inr fb" "positive_int n2 w2 = Inr rb"
      "positive_float n3 w3 = Inr ttl"
    by (auto simp: policy_of_def settings_error_def split: if_splits)
  moreover note positive_int_ok [OF this(4)] positive_int_ok [OF this(5)] positive_float_ok [OF this(6)]
  moreover obtain a b c d where "bs = [a, b, c, d]"
    using policy_bools_length [OF bools] by (auto simp: POLICY_BOOL_KEYS_def length_Suc_conv)
  ultimately show ?thesis by simp
qed

lemma codemcp_ok:
  "codemcp_of raw = Inr v \<Longrightarrow> cm_worker_mode v \<in> {''local'', ''wsl2''} \<and> cm_wsl_distribution v \<noteq> []
     \<and> cm_wsl_python v \<noteq> Some [] \<and> \<not> not_positive (cm_worker_timeout_seconds v)"
  by (auto simp: codemcp_of_def settings_error_def Let_def split: option.splits if_splits
      dest: positive_float_ok)

text \<open>C33: accepted settings are confined.  The server binds to the loopback address on a valid port
  over the one supported transport, the three switches for arbitrary paths, arbitrary commands and
  model calls are off, the byte limits are positive, no time limit is below or equal to zero, the
  worker mode is one of the two known ones, and every project is well formed.\<close>

theorem loaded_settings_ok:
  assumes "load_settings X bridge_path projects_path s = (Inr S, s')"
  shows "settings_ok S"
proof -
  have "(\<exists>r. server_of r = Inr (bs_server S)) \<and> (\<exists>r. policy_of r = Inr (bs_policy S))
      \<and> (\<exists>r. codemcp_of r = Inr (bs_codemcp S))
      \<and> (\<exists>path t. load_projects X path t = (Inr (bs_projects S), s'))"
    using assms by (clarsimp simp: load_settings_def andthen_eq_Inr) blast
  then show ?thesis
    using server_ok policy_ok codemcp_ok returnsD [OF load_projects_returns] unfolding settings_ok_def by blast
qed

text \<open>Not a number passes the test for positive numbers, and a boolean passes for a port.\<close>

lemma nan_is_positive: "positive_float name (TFloat NotANumber) = Inr NotANumber"
  by (simp add: positive_float_def tfloat_def)

lemma true_is_a_port: "\<exists>v. server_of [(''port'', TBool True)] = Inr v \<and> sv_port v = 1"
  by (simp add: server_of_def tget_or_def tget_def tstr_def tint_def starts_with_def)

text \<open>The test that keeps a script with carriage returns from being run by \<open>/bin/sh\<close> never fails:
  text mode has removed them.\<close>

lemma no_carriage_returns: "cr \<notin> set (universal_newlines s)"
  by (induction s rule: universal_newlines.induct) (auto simp: cr_def lf_def)

section \<open>Choosing a profile\<close>

lemma present_markers_total:
  "\<exists>r s'. present_markers X root ms s = (Inr r, s') \<and> set r \<subseteq> set ms"
proof (induction ms arbitrary: s)
  case Nil
  then show ?case by (simp add: ret_apply)
next
  case (Cons m ms)
  obtain r s' where "present_markers X root ms (s\<lparr>log := FsCall ''lstat_regular'' (join_path root m) # log s\<rparr>) = (Inr r, s')"
    "set r \<subseteq> set ms" using Cons by blast
  then show ?case by (auto simp: is_regular_marker_def andthen_def ret_apply)
qed

lemma find_profiles_total:
  "\<exists>r s'. find_profiles X root b tbl found s = (Inr r, s')
     \<and> fst ` set r \<subseteq> fst ` set tbl \<union> fst ` set found"
proof (induction tbl arbitrary: found s)
  case Nil
  then show ?case by (simp add: ret_apply)
next
  case (Cons pm tbl)
  obtain p ms where pm: "pm = (p, ms)" by fastforce
  obtain matches t where m: "present_markers X root ms s = (Inr matches, t)"
    using present_markers_total by blast
  let ?found = "if (if b then length matches = length ms else matches \<noteq> []) then found @ [(p, matches)] else found"
  obtain r s' where "find_profiles X root b tbl ?found t = (Inr r, s')"
    "fst ` set r \<subseteq> fst ` set tbl \<union> fst ` set ?found" using Cons by blast
  with m pm show ?case by (auto simp: andthen_def split: if_splits)
qed

definition detectable :: "string set" where
  "detectable = set (map fst (PROFILE_MARKERS @ REQUIRED_PROFILE_MARKERS))"

lemma detectable_supported: "p \<in> detectable \<Longrightarrow> \<exists>cs. get_builtin_profile p = Some cs"
  by (auto simp: detectable_def PROFILE_MARKERS_def REQUIRED_PROFILE_MARKERS_def get_builtin_profile_def
      BUILTIN_PROFILES_def)

definition detection_ok :: "project_detection \<Rightarrow> bool" where
  "detection_ok d \<longleftrightarrow> set (d_candidates d) \<subseteq> detectable
     \<and> (d_ambiguous d \<longleftrightarrow> 1 < length (d_candidates d))
     \<and> d_profile_id d = (case d_candidates d of [p] \<Rightarrow> Some p | _ \<Rightarrow> None)"

lemma detect_total:
  "\<exists>d s'. detect_project_profile X root s = (Inr d, s') \<and> detection_ok d"
proof -
  obtain r t where r: "find_profiles X root False PROFILE_MARKERS [] s = (Inr r, t)"
    "fst ` set r \<subseteq> fst ` set PROFILE_MARKERS" using find_profiles_total [of X root False PROFILE_MARKERS "[]" s] by auto
  obtain q u where q: "find_profiles X root True REQUIRED_PROFILE_MARKERS r t = (Inr q, u)"
    "fst ` set q \<subseteq> fst ` set REQUIRED_PROFILE_MARKERS \<union> fst ` set r"
    using find_profiles_total by blast
  have "fst ` set q \<subseteq> detectable"
    using r(2) q(2) unfolding detectable_def set_map set_append image_Un by blast
  then have "detection_ok (detection_of q)"
    by (auto simp: detection_ok_def detection_of_def Let_def length_Suc_conv split: list.splits)
  with r q show ?thesis by (auto simp: detect_project_profile_def andthen_def ret_apply)
qed

text \<open>The choice of a profile never fails and never guesses.  For a supported explicit profile, or
  none, resolution returns: the explicit profile when there is one; otherwise the detected profile
  when exactly one is a candidate, and no profile when there are none or several.\<close>

theorem profile_resolution_total:
  assumes "e = None \<or> (\<exists>p \<in> set SUPPORTED_PROFILE_IDS. e = Some p)"
  shows "\<exists>r s'. resolve_project_profile X root e s = (Inr r, s')
    \<and> map_option fst (r_profile r)
        = (case e of Some p \<Rightarrow> Some p
           | None \<Rightarrow> (case d_candidates (r_detection r) of [p] \<Rightarrow> Some p | _ \<Rightarrow> None))
    \<and> r_source r = (case e of Some p \<Rightarrow> ''explicit''
           | None \<Rightarrow> (case d_candidates (r_detection r) of [p] \<Rightarrow> ''detected'' | _ \<Rightarrow> ''none''))"
proof -
  obtain d t where d: "detect_project_profile X root s = (Inr d, t)" "detection_ok d"
    using detect_total by blast
  show ?thesis
  proof (cases e)
    case (Some p)
    with assms obtain cs where "get_builtin_profile p = Some cs"
      by (force simp: SUPPORTED_PROFILE_IDS_def get_builtin_profile_def map_of_eq_None_iff dest: weak_map_of_SomeI)
    with Some d show ?thesis by (simp add: resolve_project_profile_def andthen_def ret_apply)
  next
    case None
    show ?thesis
    proof (cases "d_profile_id d")
      case None': None
      with None d show ?thesis
        by (auto simp: resolve_project_profile_def andthen_def ret_apply detection_ok_def split: list.splits)
    next
      case (Some p)
      with d have c: "d_candidates d = [p]" by (auto simp: detection_ok_def split: list.splits)
      with d obtain cs where "get_builtin_profile p = Some cs"
        using detectable_supported by (auto simp: detection_ok_def)
      with Some None d c show ?thesis by (simp add: resolve_project_profile_def andthen_def ret_apply)
    qed
  qed
qed

section \<open>Witnesses\<close>

definition demo_toml :: ttable where
  "demo_toml = [(''policy'', TTab (map (\<lambda>k. (k, TBool False)) POLICY_BOOL_KEYS)),
     (''projects'', TTab [(''p1'', TTab [(''root'', TStr ''/r''), (''profile'', TStr ''go''),
        (''commands'', TTab [(''ship'', TTab [(''argv'', TArr [TStr ''x'']), (''kind'', TStr ''deploy'')])])])])]"

definition demo_config :: ext where
  "demo_config = demo_ext\<lparr>x_ok := \<lambda>h. False, x_text := \<lambda>h. ''t'', x_toml := \<lambda>h. Parsed demo_toml\<rparr>"

lemma demo_profile: "\<exists>d s'. resolve_project_profile X root (Some ''go'') s
    = (Inr \<lparr>r_profile = Some (''go'', the (get_builtin_profile ''go'')), r_source = ''explicit'', r_detection = d\<rparr>, s')"
proof -
  obtain d s' where "detect_project_profile X root s = (Inr d, s')"
    using detect_total by blast
  then show ?thesis
    by (simp add: resolve_project_profile_def andthen_def ret_apply get_builtin_profile_def BUILTIN_PROFILES_def)
qed

lemmas settings_eval = load_projects_def fs_text_def read_toml_def section_of_def as_mapping_def
  ttab_def tget_or_def tget_def tstr_def tbool_def tint_def tfloat_def strings_of_def parse_project_def
  project_id_ok_def profile_id_ok_def is_alnum_def is_digit_def is_alpha_def code_def
  resolve_config_path_def strip_def lstrip_by_def rstrip_by_def is_space_def branches_of_def
  DEFAULT_ALLOWED_BRANCHES_def relative_config_path_def win_absolute_def to_slashes_def backslash_def
  platform_parts_def posix_parts_def posix_root_def explicit_profile_of_def SUPPORTED_PROFILE_IDS_def
  BUILTIN_PROFILES_def apply_profile_root_command_defaults_def parse_command_def
  default_command_approval_def AUTO_APPROVAL_KINDS_def unhashable_def default_command_timeout_seconds_def
  COMMAND_TIMEOUT_SECONDS_def DEFAULT_REQUIRE_CLEAN_WORKSPACE_def andthen_def ret_apply

lemma demo_parse: "\<exists>p s'. parse_project demo_config base ''p1'' (TTab [(''root'', TStr ''/r''), (''profile'', TStr ''go''),
    (''commands'', TTab [(''ship'', TTab [(''argv'', TArr [TStr ''x'']), (''kind'', TStr ''deploy'')])])]) t = (Inr p, s')"
proof -
  obtain d and u :: "string \<Rightarrow> 'a io_scheme \<Rightarrow> 'a io_scheme" where
    r: "\<And>root s. resolve_project_profile demo_config root (Some ''go'') s
        = (Inr \<lparr>r_profile = Some (''go'', the (get_builtin_profile ''go'')), r_source = ''explicit'',
                r_detection = d root s\<rparr>, u root s)"
    using demo_profile [of demo_config] by metis
  have no: "x_ok demo_config h = False" for h by (simp add: demo_config_def)
  show ?thesis by (simp add: settings_eval r no)
qed

lemma demo_toml_read: "x_toml demo_config h = Parsed demo_toml"
  by (simp add: demo_config_def)

lemma demo_load: "\<exists>p s'. load_projects demo_config path s = (Inr [(''p1'', p)], s')"
proof -
  obtain p and u :: "string \<Rightarrow> 'a io_scheme \<Rightarrow> 'a io_scheme" where
    "\<And>base t. parse_project demo_config base ''p1'' (TTab [(''root'', TStr ''/r''), (''profile'', TStr ''go''),
      (''commands'', TTab [(''ship'', TTab [(''argv'', TArr [TStr ''x'']), (''kind'', TStr ''deploy'')])])]) t
      = (Inr (p base t), u base t)"
    using demo_parse by metis
  then show ?thesis
    by (simp add: load_projects_def fs_text_def read_toml_def as_mapping_def ttab_def tget_or_def tget_def
        demo_toml_read demo_toml_def andthen_def ret_apply)
qed

theorem loaded_projects_ok_witness:
  "\<exists>ps s'. load_projects demo_config ''f'' (\<lparr>log = []\<rparr> :: io) = (Inr ps, s') \<and> map fst ps = [''p1'']
     \<and> (\<forall>(k, p) \<in> set ps. project_ok k p)"
proof -
  obtain ps and s' :: io where "load_projects demo_config ''f'' \<lparr>log = []\<rparr> = (Inr ps, s')" "map fst ps = [''p1'']"
    using demo_load [of "''f''" "\<lparr>log = []\<rparr> :: io"] by auto
  with loaded_projects_ok [OF this(1)] show ?thesis by (intro exI conjI)
qed

theorem loaded_settings_ok_witness:
  "\<exists>S s'. load_settings demo_config ''b'' ''f'' (\<lparr>log = []\<rparr> :: io) = (Inr S, s') \<and> settings_ok S"
proof -
  have no: "x_ok demo_config h = False" for h by (simp add: demo_config_def)
  obtain p and u :: "string \<Rightarrow> io \<Rightarrow> io" where
    load: "\<And>path t. load_projects demo_config path t = (Inr [(''p1'', p path t)], u path t)"
    using demo_load by metis
  have sections: "section_of demo_toml ''server'' = Inr []" "section_of demo_toml ''storage'' = Inr []"
    "section_of demo_toml ''policy'' = Inr (map (\<lambda>k. (k, TBool False)) POLICY_BOOL_KEYS)"
    "section_of demo_toml ''codemcp'' = Inr []"
    by (simp_all add: section_of_def as_mapping_def demo_toml_def tget_or_def tget_def ttab_def)
  note get = tget_or_def tget_def tstr_def tint_def tfloat_def tbool_def
  have server: "\<exists>v. server_of [] = Inr v" by (simp add: server_of_def get starts_with_def)
  have policy: "\<exists>v. policy_of (map (\<lambda>k. (k, TBool False)) POLICY_BOOL_KEYS) = Inr v"
    by (simp add: policy_of_def POLICY_BOOL_KEYS_def get positive_int_def positive_float_def)
  have codemcp: "\<exists>v. codemcp_of [] = Inr v"
    by (simp add: codemcp_of_def get unhashable_def positive_float_def)
  have strips: "strip ''.local'' \<noteq> []" "strip ''.local/bridge.sqlite3'' \<noteq> []" "strip ''.local/logs'' \<noteq> []"
    by (simp_all add: strip_def lstrip_by_def rstrip_by_def is_space_def code_def)
  obtain sv po cm where vs: "server_of [] = Inr sv" "codemcp_of [] = Inr cm"
    "policy_of (map (\<lambda>k. (k, TBool False)) POLICY_BOOL_KEYS) = Inr po"
    using server policy codemcp by blast
  have texts: "x_text demo_config h = ''t''" for h by (simp add: demo_config_def)
  have fs: "fs_text demo_config w p t = (Inr ''t'', t\<lparr>log := FsCall w p # log t\<rparr>)"
    for w p and t :: io by (simp add: fs_text_def andthen_def ret_apply texts)
  have toml: "read_toml demo_config p t = (Inr demo_toml, t\<lparr>log := FsCall ''load_toml'' p # log t\<rparr>)"
    for p and t :: io by (simp add: read_toml_def demo_toml_read andthen_def ret_apply)
  have path: "resolve_config_path demo_config base (Some (TStr v)) name t =
      (Inr ''t'', t\<lparr>log := FsCall ''resolve'' (join_path base ''t'') # FsCall ''is_absolute'' ''t''
                        # FsCall ''expanduser'' v # log t\<rparr>)"
    if "strip v \<noteq> []" for base v name and t :: io
    using that by (simp add: resolve_config_path_def fs no andthen_def)
  obtain S and s' :: io where run: "load_settings demo_config ''b'' ''f'' \<lparr>log = []\<rparr> = (Inr S, s')"
    unfolding load_settings_def
    by (simp add: andthen_eq_Inr load vs sections strips fs toml path tget_or_def tget_def Let_def)
  from loaded_settings_ok [OF run] run show ?thesis by blast
qed

theorem profile_resolution_total_witness:
  "\<exists>r s'. resolve_project_profile demo_ext ''r'' (Some ''go'') (\<lparr>log = []\<rparr> :: io) = (Inr r, s')
     \<and> map_option fst (r_profile r) = Some ''go''"
proof -
  have "''go'' \<in> set SUPPORTED_PROFILE_IDS" by (simp add: SUPPORTED_PROFILE_IDS_def BUILTIN_PROFILES_def)
  then have "Some ''go'' = None \<or> (\<exists>p \<in> set SUPPORTED_PROFILE_IDS. Some ''go'' = Some p)" by blast
  from profile_resolution_total [OF this, of demo_ext "''r''" "\<lparr>log = []\<rparr> :: io"] show ?thesis by auto
qed

end
