(* ===== verification/Calls.thy ===== *)
theory Calls
  imports Services GitSpec
begin

text \<open>
  Claims about the calls a method makes, whatever it does to the tables.  An order on states that
  looks at the log only and allows the calls of the store is respected by every method of the store
  and of the services over it; the locale proves this once, method by method, for the claims about
  Git refs and about the mutation lock.
\<close>

fun store_call :: "call \<Rightarrow> bool" where
  "store_call Now = True"
| "store_call UuidHex = True"
| "store_call (TokenUrlsafe n) = True"
| "store_call (TokenHex n) = True"
| "store_call DbBegin = True"
| "store_call DbCommit = True"
| "store_call c = False"

text \<open>The contract between the store and the services: an order on states that every method of the store
  respects, and that every call satisfying \<open>P\<close> respects.\<close>

locale bridge_order = call_order R P
  for R :: "'z store_st_scheme \<Rightarrow> 'z store_st_scheme \<Rightarrow> bool" and P +
  assumes answers_obey: "obeys R (now_ms X)" "obeys R (utc_now X)" "obeys R (uuid4_hex X)"
    "obeys R (token_urlsafe X n)" "obeys R (token_hex X n)"
    and create_session_law: "\<And>X sid pid owner details.
      obeys R (create_session X sid pid owner details)"
    and get_session_law: "\<And>sid.
      obeys R (get_session sid)"
    and get_session_auth_context_law: "\<And>sid.
      obeys R (get_session_auth_context sid)"
    and transition_session_law: "\<And>X sid st reason.
      obeys R (transition_session X sid st reason)"
    and close_active_sessions_law: "\<And>X reason.
      obeys R (close_active_sessions X reason)"
    and block_active_sessions_law: "\<And>X pid reason.
      obeys R (block_active_sessions_for_project X pid reason)"
    and recover_after_restart_law: "\<And>X.
      obeys R (recover_after_restart X)"
    and create_operation_law: "\<And>X oid pid sid owner cid hash kind mutation input.
      obeys R (create_operation X oid pid sid owner cid hash kind mutation input)"
    and get_operation_law: "\<And>oid.
      obeys R (get_operation oid)"
    and get_operation_by_client_request_id_law: "\<And>pid sid cid.
      obeys R (get_operation_by_client_request_id pid sid cid)"
    and get_operations_by_client_request_id_law: "\<And>pid sid cid.
      obeys R (get_operations_by_client_request_id pid sid cid)"
    and transition_operation_law: "\<And>X oid st expected result error.
      obeys R (transition_operation X oid st expected result error)"
    and record_operation_auth_context_law: "\<And>X oid details.
      obeys R (record_operation_auth_context X oid details)"
    and get_operation_auth_context_law: "\<And>oid.
      obeys R (get_operation_auth_context oid)"
    and create_approval_law: "\<And>X aid r action hash expires.
      obeys R (create_approval X aid r action hash expires)"
    and consume_approval_law: "\<And>X oid hash now.
      obeys R (consume_approval X oid hash now)"
    and cancel_approval_law: "\<And>X oid reason.
      obeys R (cancel_approval X oid reason)"
    and create_checkpoint_law: "\<And>X cid pid sid oid owner kind branch head ref before.
      obeys R (create_checkpoint X cid pid sid oid owner kind branch head ref before)"
    and finalize_checkpoint_law: "\<And>X cid after hash.
      obeys R (finalize_checkpoint X cid after hash)"
    and mark_checkpoint_restored_law: "\<And>X cid.
      obeys R (mark_checkpoint_restored X cid)"
    and get_checkpoint_law: "\<And>cid.
      obeys R (get_checkpoint cid)"
    and list_checkpoints_law: "\<And>pid sid oid.
      obeys R (list_checkpoints pid sid oid)"
    and find_session_wip_checkpoint_law: "\<And>pid sid branch head.
      obeys R (find_session_wip_checkpoint pid sid branch head)"
    and list_audit_events_law: "\<And>oid.
      obeys R (list_audit_events oid)"
begin

lemmas store_laws = answers_obey create_session_law
  get_session_law
  get_session_auth_context_law
  transition_session_law
  close_active_sessions_law
  block_active_sessions_law
  recover_after_restart_law
  create_operation_law
  get_operation_law
  get_operation_by_client_request_id_law
  get_operations_by_client_request_id_law
  transition_operation_law
  record_operation_auth_context_law
  get_operation_auth_context_law
  create_approval_law
  consume_approval_law
  cancel_approval_law
  create_checkpoint_law
  finalize_checkpoint_law
  mark_checkpoint_restored_law
  get_checkpoint_law
  list_checkpoints_law
  find_session_wip_checkpoint_law
  list_audit_events_law

lemmas service_intros = obeys_intros store_laws

lemma legacy_lookup_obeys: "obeys R (legacy_lookup X cs)"
  by (induction cs) (auto intro!: service_intros split: prod.splits)

lemma start_obeys:
  "obeys R (start X who oid pid sid kind mutation cid supplied input)"
  unfolding start_def obtain_record_def settle_def
  by (intro service_intros legacy_lookup_obeys)

lemma operation_service_obeys:
  "obeys R (dispatch X oid fr)" "obeys R (await_approval X oid e)" "obeys R (finish X oid st payload)"
  "obeys R (the_operation oid)"
  unfolding dispatch_def await_approval_def finish_def the_operation_def
  by (intro service_intros)+

lemma approval_service_obeys:
  "obeys R (issue X ttl r action)" "obeys R (consume X oid token)" "obeys R (cancel_pending X oid reason)"
  unfolding issue_def consume_def cancel_pending_def by (intro service_intros)+

lemma session_service_obeys:
  "obeys R (session_create X who pid)" "obeys R (auth_contexts_match X a b)"
  "obeys R (current_context_matches X who a)" "obeys R (require_active X who pid sid)"
  unfolding session_create_def auth_contexts_match_def current_context_matches_def require_active_def
  by (intro service_intros)+

lemmas service_obeys = start_obeys operation_service_obeys approval_service_obeys
  session_service_obeys

end

text \<open>An order that looks at the log and at what the bridge keeps beside the store.\<close>

locale call_log_order = call_order R P
  for R :: "'z store_st_scheme \<Rightarrow> 'z store_st_scheme \<Rightarrow> bool" and P +
  assumes same_log: "log t = log s \<Longrightarrow> store_st.more t = store_st.more s \<Longrightarrow> R s t"
    and store_calls: "store_call c \<Longrightarrow> P c"
begin

lemma store_asked_logs: "store_call c \<Longrightarrow> obeys R (ask c)"
  by (simp add: asked_obeys store_calls)

lemma answer_logs:
  "obeys R (now_ms X)" "obeys R (utc_now X)" "obeys R (uuid4_hex X)" "obeys R (token_urlsafe X n)"
  "obeys R (token_hex X n)"
  by (simp_all add: obeys_def call_step store_calls)

lemma query_logs: "obeys R (query f)"
  unfolding query_def by (rule gets_obeys)

lemma modify_logs:
  "(\<And>s. log (f s) = log s) \<Longrightarrow> (\<And>s. store_st.more (f s) = store_st.more s) \<Longrightarrow> obeys R (modify f)"
  by (simp add: obeys_def same_log)

lemma execute_logs: "obeys R (execute f)"
  by (simp add: obeys_def execute_def Let_def same_log)

lemma require_connection_logs: "obeys R require_connection"
  unfolding require_connection_def by (intro obeys_intros)

lemma assert_some_logs: "obeys R (assert_some r)"
  unfolding assert_some_def by (intro obeys_intros)

lemma then_same_log: "R s t \<Longrightarrow> log u = log t \<Longrightarrow> store_st.more u = store_st.more t \<Longrightarrow> R s u"
  using trans same_log by blast

lemma transaction_logs:
  assumes "obeys R body"
  shows "obeys R (transaction X body)"
proof (rule obeysI)
  fix s r s'
  assume run: "transaction X body s = (r, s')"
  let ?b = "s\<lparr>log := DbBegin # log s\<rparr>"
  have first: "R s ?b" by (simp add: call_step store_calls)
  obtain q t where body: "body ?b = (q, t)" by fastforce
  with assms first have st: "R s t" using obeysD trans by metis
  have last: "R s (t\<lparr>log := DbCommit # log t\<rparr>)"
    using st call_step [of DbCommit t] trans by (simp add: store_calls)
  have "s' = s \<or> (\<exists>u \<in> {?b, t, t\<lparr>log := DbCommit # log t\<rparr>}. log s' = log u \<and> store_st.more s' = store_st.more u)"
    using run body by (cases q) (auto simp: transaction_def require_connection_def andthen_def
        split: if_splits)
  with first st last show "R s s'" using then_same_log refl by blast
qed

lemmas call_intros = obeys_intros answer_logs query_logs execute_logs require_connection_logs
  assert_some_logs transaction_logs

lemma audit_logs: "obeys R (audit X oid pid sid owner ty fr t dt)"
  unfolding audit_def by (intro call_intros)

lemma create_session_logs: "obeys R (create_session X sid pid owner details)"
  unfolding create_session_def by (intro call_intros audit_logs)

lemma get_session_logs: "obeys R (get_session sid)"
  unfolding get_session_def by (intro call_intros)

lemma get_session_auth_context_logs: "obeys R (get_session_auth_context sid)"
  unfolding get_session_auth_context_def by (intro call_intros)

lemma transition_session_logs: "obeys R (transition_session X sid st reason)"
  unfolding transition_session_def by (intro call_intros audit_logs)

lemma close_active_sessions_logs: "obeys R (close_active_sessions X reason)"
  unfolding close_active_sessions_def
  by (intro call_intros get_session_logs transition_session_logs)

lemma block_active_sessions_logs: "obeys R (block_active_sessions_for_project X pid reason)"
  unfolding block_active_sessions_for_project_def
  by (intro call_intros get_session_logs transition_session_logs)

lemma recover_after_restart_logs: "obeys R (recover_after_restart X)"
  unfolding recover_after_restart_def recover_session_def recover_operation_def recover_orphan_def
    recover_approvals_of_def
  by (intro call_intros audit_logs)

lemma create_operation_logs:
  "obeys R (create_operation X oid pid sid owner cid hash kind mutation input)"
  unfolding create_operation_def by (intro call_intros audit_logs)

lemma get_operation_logs: "obeys R (get_operation oid)"
  unfolding get_operation_def by (intro call_intros)

lemma get_operation_by_client_request_id_logs:
  "obeys R (get_operation_by_client_request_id pid sid cid)"
  unfolding get_operation_by_client_request_id_def by (intro call_intros)

lemma get_operations_by_client_request_id_logs:
  "obeys R (get_operations_by_client_request_id pid sid cid)"
  unfolding get_operations_by_client_request_id_def by (intro call_intros)

lemma transition_operation_logs:
  "obeys R (transition_operation X oid st expected result error)"
  unfolding transition_operation_def by (intro call_intros audit_logs)

lemma record_operation_auth_context_logs: "obeys R (record_operation_auth_context X oid details)"
  unfolding record_operation_auth_context_def by (intro call_intros audit_logs)

lemma get_operation_auth_context_logs: "obeys R (get_operation_auth_context oid)"
  unfolding get_operation_auth_context_def by (intro call_intros)

lemma create_approval_logs: "obeys R (create_approval X aid r action hash expires)"
  unfolding create_approval_def by (intro call_intros audit_logs)

lemma consume_approval_logs: "obeys R (consume_approval X oid hash now)"
  unfolding consume_approval_def by (intro call_intros audit_logs)

lemma cancel_approval_logs: "obeys R (cancel_approval X oid reason)"
  unfolding cancel_approval_def by (intro call_intros audit_logs)

lemma create_checkpoint_logs:
  "obeys R (create_checkpoint X cid pid sid oid owner kind branch head ref before)"
  unfolding create_checkpoint_def by (intro call_intros audit_logs)

lemma finalize_checkpoint_logs: "obeys R (finalize_checkpoint X cid after hash)"
  unfolding finalize_checkpoint_def by (intro call_intros audit_logs)

lemma mark_checkpoint_restored_logs: "obeys R (mark_checkpoint_restored X cid)"
  unfolding mark_checkpoint_restored_def by (intro call_intros audit_logs)

lemma get_checkpoint_logs: "obeys R (get_checkpoint cid)"
  unfolding get_checkpoint_def by (intro call_intros)

lemma list_checkpoints_logs: "obeys R (list_checkpoints pid sid oid)"
  unfolding list_checkpoints_def by (intro call_intros)

lemma find_session_wip_checkpoint_logs: "obeys R (find_session_wip_checkpoint pid sid branch head)"
  unfolding find_session_wip_checkpoint_def by (intro call_intros)

lemma list_audit_events_logs: "obeys R (list_audit_events oid)"
  unfolding list_audit_events_def by (intro call_intros)

lemmas db_logs = answer_logs create_session_logs get_session_logs get_session_auth_context_logs
  transition_session_logs close_active_sessions_logs block_active_sessions_logs
  recover_after_restart_logs create_operation_logs get_operation_logs
  get_operation_by_client_request_id_logs get_operations_by_client_request_id_logs
  transition_operation_logs record_operation_auth_context_logs get_operation_auth_context_logs
  create_approval_logs consume_approval_logs cancel_approval_logs create_checkpoint_logs
  finalize_checkpoint_logs mark_checkpoint_restored_logs get_checkpoint_logs
  list_checkpoints_logs find_session_wip_checkpoint_logs list_audit_events_logs

lemma initialize_logs: "obeys R (initialize X)"
  unfolding initialize_def migrate_def
  by (intro call_intros store_asked_logs modify_logs) simp_all

lemma close_store_logs: "obeys R close_store"
  unfolding close_store_def by (rule modify_logs) simp_all

lemma is_bridge_order: "bridge_order R P"
  by unfold_locales (rule db_logs)+

end

sublocale call_log_order \<subseteq> bridge_order R P
  by (rule is_bridge_order)

text \<open>The order of the specification of the store.\<close>

interpretation moves: bridge_order by_moves "\<lambda>_. True"
  by unfold_locales (intro store_order.io_obeys create_session_obeys get_session_obeys
      get_session_auth_context_obeys transition_session_obeys close_active_sessions_obeys
      block_active_sessions_obeys recover_after_restart_obeys create_operation_obeys
      get_operation_obeys get_operation_by_client_request_id_obeys
      get_operations_by_client_request_id_obeys transition_operation_obeys
      record_operation_auth_context_obeys get_operation_auth_context_obeys create_approval_obeys
      consume_approval_obeys cancel_approval_obeys create_checkpoint_obeys
      finalize_checkpoint_obeys mark_checkpoint_restored_obeys get_checkpoint_obeys
      list_checkpoints_obeys find_session_wip_checkpoint_obeys list_audit_events_obeys)+

end
