(* ===== verification/Checkpoints.thy ===== *)
theory Checkpoints
  imports Calls Settings
begin

text \<open>
  \<open>checkpoint_service.py\<close>: checkpoints kept as a row of the store and a Git ref of the bridge, and the
  choice between a new WIP commit and an amend of the session's own one.  The service runs on the
  state of the store, whose log also records its Git commands.
\<close>

definition validate_expected_head :: "string \<Rightarrow> ('s, exn, unit) M" where
  "validate_expected_head head =
     require (length head \<in> {40, 64} \<and> list_all is_hexdigit head)
       (rejected_with ''INVALID_REQUEST'' ''expected_head must be a Git commit hash''
         (JObj [(''field'', JStr ''expected_head'')]))"

definition ref_name_of :: "string \<Rightarrow> string" where
  "ref_name_of checkpoint_id = CHECKPOINT_REF_PREFIX @ checkpoint_id"

text \<open>\<open>except Exception: try: delete except BridgeError: pass; raise\<close>.\<close>

definition cleanup_ref :: "ext \<Rightarrow> string \<Rightarrow> string \<Rightarrow> exn \<Rightarrow> ('z io_scheme, exn, 'a) M" where
  "cleanup_ref X root ref_name e =
     (if is_exception e
      then andthen
             (handle (delete_checkpoint_ref X root ref_name)
               (\<lambda>d. case d of BridgeErr _ \<Rightarrow> ret () | _ \<Rightarrow> raise d))
             (\<lambda>_. raise e)
      else raise e)"

definition checkpoint_create ::
  "ext \<Rightarrow> project_spec \<Rightarrow> string option \<Rightarrow> string option \<Rightarrow> string
   \<Rightarrow> ('z store_st_scheme, exn, checkpoint_rec) M" where
  "checkpoint_create X project session_id operation_id kind =
     andthen (require (kind \<in> {''manual'', ''mutation'', ''rollback_safety''})
       (rejected ''INVALID_REQUEST'' ''invalid checkpoint kind'')) (\<lambda>_.
     andthen (require_worktree_root X (p_root project)) (\<lambda>_.
     andthen (git_snapshot X (p_root project)) (\<lambda>snapshot.
     andthen (require (\<not> gs_dirty snapshot)
       (rejected_with ''WORKSPACE_DIRTY'' ''checkpoint requires a clean workspace''
         (JObj [(''changed_files'', jstrs (gs_files snapshot))]))) (\<lambda>_.
     andthen (uuid4_hex X) (\<lambda>checkpoint_id.
     andthen (create_checkpoint_ref X (p_root project) (ref_name_of checkpoint_id) (gs_head snapshot)) (\<lambda>_.
     handle
       (create_checkpoint X checkpoint_id (p_project_id project) session_id operation_id ''local-policy'' kind
          (gs_branch snapshot) (gs_head snapshot) (ref_name_of checkpoint_id) (as_data snapshot))
       (cleanup_ref X (p_root project) (ref_name_of checkpoint_id))))))))"

definition conflict_details :: "checkpoint_rec \<Rightarrow> string option \<Rightarrow> string \<Rightarrow> git_snapshot \<Rightarrow> json" where
  "conflict_details ck expected_branch expected_head q =
     JObj [(''checkpoint_id'', JStr (c_checkpoint_id ck)), (''expected_after_branch'', jopt expected_branch),
           (''actual_after_branch'', JStr (gs_branch q)), (''expected_after_head'', JStr expected_head),
           (''actual_after_head'', JStr (gs_head q))]"

definition at_expected :: "string \<Rightarrow> string option \<Rightarrow> git_snapshot \<Rightarrow> bool" where
  "at_expected expected_head expected_branch q =
     (lower (gs_head q) = lower expected_head
      \<and> (expected_branch = None \<or> expected_branch = Some (gs_branch q)))"

definition after_data :: "git_snapshot \<Rightarrow> string list \<Rightarrow> bool \<Rightarrow> json" where
  "after_data q changed truncated =
     jset (jset (as_data q) ''changed_files'' (jstrs changed)) ''diff_truncated'' (JBool truncated)"

definition checkpoint_finalize ::
  "ext \<Rightarrow> nat \<Rightarrow> project_spec \<Rightarrow> checkpoint_rec \<Rightarrow> string option \<Rightarrow> string option
   \<Rightarrow> ('z store_st_scheme, exn, checkpoint_rec) M" where
  "checkpoint_finalize X max_output project ck expected_head expected_branch =
     andthen (case expected_head of None \<Rightarrow> ret () | Some h \<Rightarrow> validate_expected_head h) (\<lambda>_.
     andthen (require (case expected_branch of None \<Rightarrow> True | Some b \<Rightarrow> branch_ok b)
       (rejected ''CHECKPOINT_INVALID'' ''expected Git branch is not valid'')) (\<lambda>_.
     andthen (git_snapshot X (p_root project)) (\<lambda>after.
     case expected_head of
       None \<Rightarrow>
         andthen (diff_names_from X (p_root project) (c_ref_name ck)) (\<lambda>changed.
         andthen (diff_from X max_output (p_root project) (c_ref_name ck)) (\<lambda>(diff, truncated).
         finalize_checkpoint X (c_checkpoint_id ck) (after_data after changed truncated) (diff_hash X diff)))
     | Some h \<Rightarrow>
         andthen (require (at_expected h expected_branch after)
           (rejected_with ''CHECKPOINT_CONFLICT'' ''Git state changed before checkpoint finalization''
             (conflict_details ck expected_branch h after))) (\<lambda>_.
         andthen (diff_names_between X (p_root project) (c_ref_name ck) h) (\<lambda>changed.
         andthen (diff_between X max_output (p_root project) (c_ref_name ck) h) (\<lambda>(diff, truncated).
         andthen (git_snapshot X (p_root project)) (\<lambda>confirmed.
         andthen (require (at_expected h expected_branch confirmed)
           (rejected_with ''CHECKPOINT_CONFLICT'' ''Git state changed during checkpoint finalization''
             (conflict_details ck expected_branch h confirmed))) (\<lambda>_.
         finalize_checkpoint X (c_checkpoint_id ck) (after_data confirmed changed truncated)
           (diff_hash X diff)))))))))"

text \<open>The evidence for an amend, in the order it is looked at; every missing fact gives \<open>Create\<close>.\<close>

definition amend_evidence ::
  "ext \<Rightarrow> project_spec \<Rightarrow> string \<Rightarrow> checkpoint_rec \<Rightarrow> ('z store_st_scheme, exn, commit_mode) M" where
  "amend_evidence X project session_id ck =
     andthen (git_status X (p_root project)) (\<lambda>current.
     if gs_dirty current then ret Create
     else if gs_branch current \<noteq> c_branch ck then ret Create
     else if lower (gs_head current) \<noteq> lower (c_head ck) then ret Create
     else
       andthen (find_session_wip_checkpoint (p_project_id project) session_id (gs_branch current) (gs_head current)) (\<lambda>candidate.
       if candidate = None then ret Create
       else
         andthen (has_session_footer X (p_root project) (gs_head current) session_id) (\<lambda>footer.
         if \<not> footer then ret Create
         else
           andthen (shared_refs_containing_head X (p_root project) (gs_head current) (gs_branch current)) (\<lambda>shared.
           ret (if shared \<noteq> [] then Create else AmendSessionWip)))))"

definition determine_commit_mode ::
  "ext \<Rightarrow> project_spec \<Rightarrow> string option \<Rightarrow> checkpoint_rec \<Rightarrow> ('z store_st_scheme, exn, commit_mode) M" where
  "determine_commit_mode X project session_id ck =
     (case session_id of
        None \<Rightarrow> ret Create
      | Some sid \<Rightarrow>
          if sid = [] \<or> c_project_id ck \<noteq> p_project_id project \<or> c_session_id ck \<noteq> Some sid
             \<or> c_kind ck \<noteq> ''mutation''
          then ret Create
          else handle (amend_evidence X project sid ck)
                 (\<lambda>e. if is_exception e then ret Create else raise e))"

definition verify_ref :: "ext \<Rightarrow> project_spec \<Rightarrow> checkpoint_rec \<Rightarrow> ('z io_scheme, exn, unit) M" where
  "verify_ref X project ck =
     andthen (handle (resolve_checkpoint_ref X (p_root project) (c_ref_name ck))
       (\<lambda>e. raise (case e of
          BridgeErr _ \<Rightarrow> rejected_with ''CHECKPOINT_INVALID'' ''checkpoint ref is missing or invalid''
            (JObj [(''checkpoint_id'', JStr (c_checkpoint_id ck))])
        | _ \<Rightarrow> e))) (\<lambda>resolved.
     require (lower resolved = lower (c_head ck))
       (rejected_with ''CHECKPOINT_INVALID'' ''checkpoint ref no longer points to its recorded commit''
         (JObj [(''checkpoint_id'', JStr (c_checkpoint_id ck)), (''recorded_head'', JStr (c_head ck)),
                (''actual_head'', JStr resolved)])))"

definition get_for_session ::
  "string \<Rightarrow> string \<Rightarrow> string \<Rightarrow> ('z store_st_scheme, exn, checkpoint_rec) M" where
  "get_for_session checkpoint_id project_id session_id =
     andthen (get_checkpoint checkpoint_id) (\<lambda>found.
     case found of
       None \<Rightarrow> raise (rejected_with ''CHECKPOINT_NOT_FOUND''
                  ''checkpoint_id is not available to this project session''
                  (JObj [(''checkpoint_id'', JStr checkpoint_id)]))
     | Some ck \<Rightarrow>
         if c_owner_id ck \<noteq> ''local-policy'' \<or> c_project_id ck \<noteq> project_id
            \<or> c_session_id ck \<noteq> Some session_id
         then raise (rejected_with ''CHECKPOINT_NOT_FOUND''
                  ''checkpoint_id is not available to this project session''
                  (JObj [(''checkpoint_id'', JStr checkpoint_id)]))
         else ret ck)"

section \<open>Summaries\<close>

text \<open>\<open>before_data\<close> and \<open>after_data\<close>; an empty column reads as no value.\<close>

definition before_data :: "checkpoint_rec \<Rightarrow> exn + json" where
  "before_data ck = (case c_before_json ck of JText j \<Rightarrow> Inr j | JMalformed _ \<Rightarrow> Inl JsonErr)"

definition after_column :: "checkpoint_rec \<Rightarrow> exn + json option" where
  "after_column ck =
     (case c_after_json ck of
        None \<Rightarrow> Inr None
      | Some (JMalformed t) \<Rightarrow> if t = [] then Inr None else Inl JsonErr
      | Some (JText j) \<Rightarrow> Inr (if j = JNull then None else Some j))"

text \<open>\<open>len(v)\<close>.\<close>

fun py_len :: "json \<Rightarrow> exn + int" where
  "py_len (JStr s) = Inr (int (length s))"
| "py_len (JList xs) = Inr (int (length xs))"
| "py_len (JObj kvs) = Inr (int (length kvs))"
| "py_len _ = Inl (TypeErr ''object has no len()'')"

definition jget_or :: "json \<Rightarrow> json \<Rightarrow> string \<Rightarrow> json" where
  "jget_or d j k = (case jget j k of None \<Rightarrow> d | Some v \<Rightarrow> v)"

text \<open>What a summary shows of one side; a value that is no dict has no \<open>get\<close>.\<close>

definition side_summary :: "json \<Rightarrow> exn + json" where
  "side_summary j =
     (if \<not> is_jobj j then Inl OtherErr
      else sum_bind (py_len (jget_or (JObj []) j ''file_hashes'')) (\<lambda>n.
        Inr (JObj [(''branch'', jget_or JNull j ''branch''), (''head'', jget_or JNull j ''head''),
                   (''dirty'', jget_or JNull j ''dirty''),
                   (''changed_files'', jget_or (JList []) j ''changed_files''),
                   (''file_hash_count'', JInt n)])))"

definition summary :: "checkpoint_rec \<Rightarrow> exn + json" where
  "summary ck =
     sum_bind (before_data ck) (\<lambda>before.
     sum_bind (after_column ck) (\<lambda>after.
     sum_bind (side_summary before) (\<lambda>b.
     let result = [(''checkpoint_id'', JStr (c_checkpoint_id ck)), (''kind'', JStr (c_kind ck)),
                   (''status'', JStr (checkpoint_status_name (c_status ck))),
                   (''branch'', JStr (c_branch ck)), (''ref_name'', JStr (c_ref_name ck)),
                   (''before'', b), (''diff_hash'', jopt (c_diff_hash ck))]
     in case after of
          None \<Rightarrow> Inr (JObj result)
        | Some a \<Rightarrow>
            sum_bind (side_summary a) (\<lambda>s.
            Inr (JObj (result @ [(''after'', s),
              (''diff_truncated'', JBool (truthy (jget_or (JBool False) a ''diff_truncated'')))]))))))"

fun summaries :: "checkpoint_rec list \<Rightarrow> exn + json list" where
  "summaries [] = Inr []"
| "summaries (ck # cks) =
     sum_bind (summary ck) (\<lambda>j. sum_bind (summaries cks) (\<lambda>js. Inr (j # js)))"

definition for_operation :: "string \<Rightarrow> ('z store_st_scheme, exn, json list) M" where
  "for_operation operation_id =
     andthen (list_checkpoints None None (Some operation_id)) (\<lambda>cks. lift_sum (summaries cks))"

definition mark_restored :: "ext \<Rightarrow> string \<Rightarrow> ('z store_st_scheme, exn, checkpoint_rec) M" where
  "mark_restored X checkpoint_id = mark_checkpoint_restored X checkpoint_id"

end
