(* ===== verification/CheckpointSpec.thy ===== *)
theory CheckpointSpec
  imports Checkpoints
begin

text \<open>
  What the checkpoint service promises: a failed creation leaves no ref behind unless Git refuses to
  delete it, a commit mode is always chosen and an amend only with complete evidence, and the state
  recorded at the end of an operation is the one Git showed.
\<close>

section \<open>The service respects the orders of the store and of Git\<close>

context bridge_order
begin

lemma determine_commit_mode_obeys: "obeys R (determine_commit_mode X project sid ck)"
  unfolding determine_commit_mode_def amend_evidence_def
  by (intro service_intros git_status_obeys has_session_footer_obeys shared_refs_containing_head_obeys)

lemma verify_ref_obeys: "obeys R (verify_ref X project ck)"
  unfolding verify_ref_def by (intro service_intros resolve_checkpoint_ref_obeys)

lemma get_for_session_obeys: "obeys R (get_for_session cid pid sid)"
  unfolding get_for_session_def by (intro service_intros)

lemma checkpoint_finalize_obeys: "obeys R (checkpoint_finalize X k project ck h b)"
  unfolding checkpoint_finalize_def validate_expected_head_def
  by (intro service_intros git_snapshot_obeys diff_names_from_obeys diff_from_obeys
      diff_names_between_obeys diff_between_obeys)

lemma for_operation_obeys: "obeys R (for_operation oid)"
  unfolding for_operation_def by (intro service_intros)

lemma mark_restored_obeys: "obeys R (mark_restored X cid)"
  unfolding mark_restored_def by (intro service_intros)

lemma checkpoint_create_obeys:
  assumes "\<And>args. P (GitRun (p_root project) (''update-ref'' # args))"
  shows "obeys R (checkpoint_create X project sid oid kind)"
  unfolding checkpoint_create_def cleanup_ref_def create_checkpoint_ref_def delete_checkpoint_ref_def
    require_checkpoint_ref_def require_head_def
  by (intro service_intros git_snapshot_obeys require_worktree_root_obeys)
    (auto split: exn.split intro!: service_intros git_run_obeys assms)

end

section \<open>Refs of the bridge\<close>

text \<open>The refs that the successful \<open>update-ref\<close> commands of a history leave in a repository.\<close>

definition succeeded :: "ext \<Rightarrow> call list \<Rightarrow> bool" where
  "succeeded X h = (case x_proc X h of Exited rc out err \<Rightarrow> rc = 0 | _ \<Rightarrow> False)"

fun ref_effect :: "string \<Rightarrow> call \<Rightarrow> string set \<Rightarrow> string set" where
  "ref_effect root (GitRun r [cmd, flag, a, b]) refs =
     (if r = root \<and> cmd = ''update-ref'' then (if a = ''-d'' then refs - {b} else insert a refs) else refs)"
| "ref_effect root c refs = refs"

fun refs_left :: "ext \<Rightarrow> string \<Rightarrow> call list \<Rightarrow> string set" where
  "refs_left X root [] = {}"
| "refs_left X root (c # h) =
     (if succeeded X (c # h) then ref_effect root c (refs_left X root h) else refs_left X root h)"

definition ref_call :: "string \<Rightarrow> call \<Rightarrow> bool" where
  "ref_call root c \<longleftrightarrow> (\<exists>args. c = GitRun root (''update-ref'' # args))"

definition same_refs :: "ext \<Rightarrow> string \<Rightarrow> 'z io_scheme \<Rightarrow> 'z io_scheme \<Rightarrow> bool" where
  "same_refs X root s t \<longleftrightarrow> refs_left X root (log t) = refs_left X root (log s)"

lemma ref_effect_other: "\<not> ref_call root c \<Longrightarrow> ref_effect root c refs = refs"
  by (induction root c refs rule: ref_effect.induct) (auto simp: ref_call_def)

lemma read_no_ref_call: "read_call c \<Longrightarrow> \<not> ref_call root c"
  by (auto simp: ref_call_def read_call.simps READ_COMMANDS_def)

interpretation refs: call_log_order "same_refs X root" "\<lambda>c. \<not> ref_call root c" for X root
proof
  fix c
  show "store_call c \<Longrightarrow> \<not> ref_call root c" by (cases c) (auto simp: ref_call_def)
qed (auto simp: same_refs_def ref_effect_other read_no_ref_call)

lemma git_run_cases:
  "git_run X root args s = (r, s') \<Longrightarrow>
     s' = s\<lparr>log := GitRun root args # log s\<rparr> \<and>
     (case r of Inr out \<Rightarrow> succeeded X (log s') | Inl e \<Rightarrow> \<not> succeeded X (log s') \<and> (\<exists>b. e = BridgeErr b))"
  by (auto simp: git_run_def andthen_def succeeded_def bridge_error_known raise_def ret_def
      split: proc.splits if_splits)

lemma create_ref_cases:
  assumes "create_checkpoint_ref X root r h s = (q, s')"
  shows "case q of
      Inr _ \<Rightarrow> checkpoint_ref_ok r \<and> head_ok h \<and> refs_left X root (log s') = insert r (refs_left X root (log s))
    | Inl e \<Rightarrow> same_refs X root s s'"
proof -
  have not_d: "checkpoint_ref_ok r \<Longrightarrow> r \<noteq> ''-d''"
    by (auto simp: checkpoint_ref_ok_def CHECKPOINT_REF_PREFIX_def Let_def)
  show ?thesis
    using assms not_d unfolding create_checkpoint_ref_def require_checkpoint_ref_def require_head_def
    by (auto simp: andthen_def same_refs_def split: if_splits sum.splits prod.splits dest!: git_run_cases)
qed

section \<open>Creating a checkpoint\<close>

text \<open>The command that takes a ref back.\<close>

definition take_back :: "string \<Rightarrow> string \<Rightarrow> call" where
  "take_back root r = GitRun root [''update-ref'', ''--no-deref'', ''-d'', r]"

lemma delete_ref_cases:
  assumes "delete_checkpoint_ref X root r s = (q, s')" and "checkpoint_ref_ok r"
  shows "log s' = take_back root r # log s \<and>
    (case q of Inr _ \<Rightarrow> refs_left X root (log s') = refs_left X root (log s) - {r}
     | Inl e \<Rightarrow> \<not> succeeded X (log s') \<and> (\<exists>b. e = BridgeErr b))"
  using assms unfolding delete_checkpoint_ref_def require_checkpoint_ref_def
  by (auto simp: andthen_def take_back_def split: if_splits sum.splits prod.splits dest!: git_run_cases)

lemma cleanup_ref_cases:
  assumes "cleanup_ref X root r e s = (q, s')" and "checkpoint_ref_ok r" and "is_exception e"
  shows "q = Inl e \<and> log s' = take_back root r # log s
    \<and> (refs_left X root (log s') = refs_left X root (log s) - {r} \<or> \<not> succeeded X (log s'))"
  using assms(1,3) unfolding cleanup_ref_def
  by (auto simp: andthen_eq_Inl andthen_eq_Inr handle_eq_Inr handle_eq_Inl split: sum.splits
      dest!: delete_ref_cases [OF _ assms(2)])
    (cases q; auto simp: andthen_eq_Inl andthen_eq_Inr handle_eq_Inr handle_eq_Inl
      dest!: delete_ref_cases [OF _ assms(2)])+

definition new_checkpoint ::
  "string \<Rightarrow> string \<Rightarrow> string option \<Rightarrow> string option \<Rightarrow> string \<Rightarrow> string \<Rightarrow> string \<Rightarrow> string
   \<Rightarrow> string \<Rightarrow> json \<Rightarrow> string \<Rightarrow> checkpoint_rec" where
  "new_checkpoint cid pid sid oid owner kind branch head ref before now =
     \<lparr>c_checkpoint_id = cid, c_project_id = pid, c_session_id = sid, c_operation_id = oid,
      c_owner_id = owner, c_kind = kind, c_branch = branch, c_head = head, c_ref_name = ref,
      c_before_json = JText before, c_after_json = None, c_diff_hash = None, c_status = CkCreated,
      c_created_at = now, c_updated_at = now\<rparr>"

lemma new_checkpoint_row:
  assumes "constraints_ok (insert_checkpoint r d)"
  shows "checkpoint_row (c_checkpoint_id r) (add_events es (insert_checkpoint r d)) = Some r"
proof -
  have "find (\<lambda>c. c_checkpoint_id c = c_checkpoint_id r) (checkpoints d) = None"
    using fresh_insert(4) [OF assms] by (simp add: find_keyed_None)
  then show ?thesis by (simp add: checkpoint_row_def insert_checkpoint_def add_events_def find_keyed_append)
qed

lemma new_checkpoint_found:
  "constraints_ok (insert_checkpoint (new_checkpoint cid pid sid oid owner kind branch head ref before now) d) \<Longrightarrow>
   checkpoint_row cid (add_events es (insert_checkpoint
       (new_checkpoint cid pid sid oid owner kind branch head ref before now) d)) =
     Some (new_checkpoint cid pid sid oid owner kind branch head ref before now)"
  using new_checkpoint_row [where r = "new_checkpoint cid pid sid oid owner kind branch head ref before now"]
  by (simp add: new_checkpoint_def)

lemma create_checkpoint_returns:
  "returns (create_checkpoint X cid pid sid oid owner kind branch head ref before) s
     (\<lambda>ck t. \<exists>now. ck = new_checkpoint cid pid sid oid owner kind branch head ref before now
        \<and> checkpoints (db t) = checkpoints (db s) @ [ck])"
  unfolding create_checkpoint_def returns_andthen new_checkpoint_def [symmetric]
  by (simp, rule returns_mono, rule transaction_returns [where Q = "\<lambda>row d. \<exists>now ck.
       row = Some ck \<and> ck = new_checkpoint cid pid sid oid owner kind branch head ref before now
        \<and> checkpoints d = checkpoints (db s) @ [ck]"])
    (auto simp: new_checkpoint_found)

lemma create_checkpoint_fails:
  assumes "create_checkpoint X cid pid sid oid owner kind branch head ref before s = (Inl e, s')"
  shows "db s' = db s \<and> is_exception e"
proof -
  let ?s = "s\<lparr>log := Now # log s\<rparr>"
  from assms have "db s' = db ?s \<and> (db_failure e \<or> e = IntegrityErr)"
    unfolding create_checkpoint_def new_checkpoint_def [symmetric]
    by (simp only: andthen_Inr [OF utc_now_apply])
      (erule transaction_then_fails [where P = "\<lambda>x. x \<noteq> None"],
       auto simp: new_checkpoint_found)
  then show ?thesis by (auto simp: is_exception_def db_failure_def)
qed

text \<open>The four steps before the ref is made.\<close>

definition checkpoint_baseline ::
  "ext \<Rightarrow> project_spec \<Rightarrow> string \<Rightarrow> ('z store_st_scheme, exn, git_snapshot \<times> string) M" where
  "checkpoint_baseline X project kind =
     andthen (require (kind \<in> {''manual'', ''mutation'', ''rollback_safety''})
       (rejected ''INVALID_REQUEST'' ''invalid checkpoint kind'')) (\<lambda>_.
     andthen (require_worktree_root X (p_root project)) (\<lambda>_.
     andthen (git_snapshot X (p_root project)) (\<lambda>snapshot.
     andthen (require (\<not> gs_dirty snapshot)
       (rejected_with ''WORKSPACE_DIRTY'' ''checkpoint requires a clean workspace''
         (JObj [(''changed_files'', jstrs (gs_files snapshot))]))) (\<lambda>_.
     andthen (uuid4_hex X) (\<lambda>checkpoint_id. ret (snapshot, checkpoint_id))))))"

lemma andthen_assoc: "andthen (andthen m f) g = andthen m (\<lambda>x. andthen (f x) g)"
  by (rule ext) (auto simp: andthen_def split: prod.splits sum.splits)

lemma checkpoint_create_baseline:
  "checkpoint_create X project sid oid kind =
     andthen (checkpoint_baseline X project kind) (\<lambda>(q, cid).
     andthen (create_checkpoint_ref X (p_root project) (ref_name_of cid) (gs_head q)) (\<lambda>_.
     handle
       (create_checkpoint X cid (p_project_id project) sid oid ''local-policy'' kind
          (gs_branch q) (gs_head q) (ref_name_of cid) (as_data q))
       (cleanup_ref X (p_root project) (ref_name_of cid))))"
  by (simp add: checkpoint_create_def checkpoint_baseline_def andthen_assoc)

lemma checkpoint_baseline_refs: "obeys (same_refs X root) (checkpoint_baseline X project kind)"
  unfolding checkpoint_baseline_def
  by (intro refs.service_intros refs.git_snapshot_obeys refs.require_worktree_root_obeys)

definition same_db :: "'z store_st_scheme \<Rightarrow> 'z store_st_scheme \<Rightarrow> bool" where
  "same_db s t \<longleftrightarrow> db t = db s"

interpretation same_db: log_order same_db
  by unfold_locales (auto simp: same_db_def)

lemma checkpoint_baseline_db: "obeys same_db (checkpoint_baseline X project kind)"
  unfolding checkpoint_baseline_def
  by (intro same_db.io_obeys same_db.git_calls.git_snapshot_obeys
      same_db.git_calls.require_worktree_root_obeys)

lemma checkpoint_baseline_clean:
  "returns (checkpoint_baseline X project kind) s
     (\<lambda>(q, cid) t. \<not> gs_dirty q \<and> kind \<in> {''manual'', ''mutation'', ''rollback_safety''})"
  by (simp add: checkpoint_baseline_def) (simp add: returns_def)

lemma create_ref_db: "obeys same_db (create_checkpoint_ref X root r h)"
  unfolding create_checkpoint_ref_def require_checkpoint_ref_def require_head_def
  by (intro same_db.io_obeys same_db.git_calls.git_run_obeys) simp

lemma cleanup_ref_db: "obeys same_db (cleanup_ref X root r e)"
  unfolding cleanup_ref_def delete_checkpoint_ref_def require_checkpoint_ref_def
  by (auto intro!: same_db.io_obeys same_db.git_calls.git_run_obeys split: exn.split)

text \<open>What is stored when a checkpoint has been made, and what a failure leaves behind.\<close>

definition checkpoint_made ::
  "ext \<Rightarrow> project_spec \<Rightarrow> string option \<Rightarrow> string option \<Rightarrow> string \<Rightarrow> 'z store_st_scheme
   \<Rightarrow> checkpoint_rec \<Rightarrow> 'z store_st_scheme \<Rightarrow> bool" where
  "checkpoint_made X project sid oid kind s ck s' \<longleftrightarrow>
     checkpoints (db s') = checkpoints (db s) @ [ck]
     \<and> refs_left X (p_root project) (log s') = insert (c_ref_name ck) (refs_left X (p_root project) (log s))
     \<and> checkpoint_ref_ok (c_ref_name ck) \<and> c_ref_name ck = ref_name_of (c_checkpoint_id ck)
     \<and> head_ok (c_head ck) \<and> c_project_id ck = p_project_id project \<and> c_session_id ck = sid
     \<and> c_operation_id ck = oid \<and> c_kind ck = kind \<and> c_status ck = CkCreated \<and> c_after_json ck = None
     \<and> (\<exists>q. c_before_json ck = JText (as_data q) \<and> gs_head q = c_head ck \<and> gs_branch q = c_branch ck
          \<and> \<not> gs_dirty q)"

definition nothing_made :: "ext \<Rightarrow> project_spec \<Rightarrow> 'z store_st_scheme \<Rightarrow> 'z store_st_scheme \<Rightarrow> bool" where
  "nothing_made X project s s' \<longleftrightarrow>
     db s' = db s
     \<and> (refs_left X (p_root project) (log s') \<subseteq> refs_left X (p_root project) (log s)
        \<or> (\<exists>r h. log s' = take_back (p_root project) r # h \<and> \<not> succeeded X (log s')))"

lemma checkpoint_step_cases:
  assumes run: "handle
       (create_checkpoint X cid (p_project_id project) sid oid ''local-policy'' kind
          (gs_branch q) (gs_head q) (ref_name_of cid) (as_data q))
       (cleanup_ref X (p_root project) (ref_name_of cid)) s = (r, s')"
    and ref: "checkpoint_ref_ok (ref_name_of cid)"
    and refs: "refs_left X (p_root project) (log s) = insert (ref_name_of cid) R"
    and q: "\<not> gs_dirty q" "head_ok (gs_head q)"
  shows "case r of
      Inr ck \<Rightarrow> checkpoints (db s') = checkpoints (db s) @ [ck]
        \<and> (\<exists>now. ck = new_checkpoint cid (p_project_id project) sid oid ''local-policy'' kind
             (gs_branch q) (gs_head q) (ref_name_of cid) (as_data q) now)
        \<and> refs_left X (p_root project) (log s') = insert (ref_name_of cid) R
    | Inl e \<Rightarrow> db s' = db s
        \<and> (refs_left X (p_root project) (log s') \<subseteq> R
           \<or> (\<exists>h. log s' = take_back (p_root project) (ref_name_of cid) # h \<and> \<not> succeeded X (log s')))"
proof -
  let ?m = "create_checkpoint X cid (p_project_id project) sid oid ''local-policy'' kind
          (gs_branch q) (gs_head q) (ref_name_of cid) (as_data q)"
  obtain v t where m: "?m s = (v, t)" by fastforce
  have "obeys (same_refs X (p_root project)) ?m" by (rule refs.create_checkpoint_logs)
  from obeysD [OF this m] refs have same: "refs_left X (p_root project) (log t) = insert (ref_name_of cid) R"
    by (simp add: same_refs_def)
  show ?thesis
  proof (cases v)
    case (Inr ck)
    with m returnsD [OF create_checkpoint_returns] have "\<exists>now. ck = new_checkpoint cid (p_project_id project) sid
        oid ''local-policy'' kind (gs_branch q) (gs_head q) (ref_name_of cid) (as_data q) now
        \<and> checkpoints (db t) = checkpoints (db s) @ [ck]" by blast
    with run m Inr same show ?thesis by (auto simp: handle_def)
  next
    case (Inl e)
    with m create_checkpoint_fails have e: "db t = db s" "is_exception e" by blast+
    have clean: "cleanup_ref X (p_root project) (ref_name_of cid) e t = (r, s')"
      using run m Inl by (simp add: handle_def)
    from cleanup_ref_cases [OF clean ref e(2)] same have r: "r = Inl e"
      and "refs_left X (p_root project) (log s') \<subseteq> R
        \<or> (\<exists>h. log s' = take_back (p_root project) (ref_name_of cid) # h \<and> \<not> succeeded X (log s'))"
      by blast+
    with obeysD [OF cleanup_ref_db clean] e(1) show ?thesis by (simp add: same_db_def)
  qed
qed

text \<open>C35: \<open>CheckpointService.create\<close>.  A call that returns has stored exactly one new row, for the
  project, session, operation and kind it was asked for, whose head and branch are those of the clean
  worktree it recorded, and has made exactly one ref, the one of the row, in the bridge's own name
  space.  A call that raises has stored nothing and has left no ref behind, unless the last thing it
  did was a deletion of the ref that Git refused.\<close>

theorem checkpoint_create_outcome:
  "case checkpoint_create X project sid oid kind s of
     (Inr ck, s') \<Rightarrow> checkpoint_made X project sid oid kind s ck s'
   | (Inl e, s') \<Rightarrow> nothing_made X project s s'"
proof -
  let ?root = "p_root project"
  obtain r s' where run: "checkpoint_create X project sid oid kind s = (r, s')" by fastforce
  obtain v t where base: "checkpoint_baseline X project kind s = (v, t)" by fastforce
  have "obeys (same_refs X ?root) (checkpoint_baseline X project kind)" by (rule checkpoint_baseline_refs)
  from obeysD [OF this base] obeysD [OF checkpoint_baseline_db base]
  have t: "refs_left X ?root (log t) = refs_left X ?root (log s)" "db t = db s"
    by (simp_all add: same_refs_def same_db_def)
  show ?thesis
  proof (cases v)
    case (Inl e)
    with run base t show ?thesis
      by (auto simp: checkpoint_create_baseline andthen_Inl nothing_made_def)
  next
    case (Inr v')
    obtain q cid where v: "v = Inr (q, cid)" using Inr by (cases v') auto
    have clean: "\<not> gs_dirty q"
      using returnsD [OF checkpoint_baseline_clean base [unfolded v]] by simp
    have rest: "andthen (create_checkpoint_ref X ?root (ref_name_of cid) (gs_head q)) (\<lambda>_.
       handle (create_checkpoint X cid (p_project_id project) sid oid ''local-policy'' kind
            (gs_branch q) (gs_head q) (ref_name_of cid) (as_data q))
         (cleanup_ref X ?root (ref_name_of cid))) t = (r, s')"
      using run base v by (simp add: checkpoint_create_baseline andthen_Inr [where s = s])
    obtain w u where made: "create_checkpoint_ref X ?root (ref_name_of cid) (gs_head q) t = (w, u)"
      by fastforce
    have u: "db u = db s" using obeysD [OF create_ref_db made] t by (simp add: same_db_def)
    show ?thesis
    proof (cases w)
      case (Inl e)
      with create_ref_cases [OF made] have "refs_left X ?root (log u) = refs_left X ?root (log t)"
        by (simp add: same_refs_def)
      from rest made Inl have "r = Inl e" "s' = u" by (simp_all add: andthen_Inl [where s = t])
      with \<open>refs_left X ?root (log u) = refs_left X ?root (log t)\<close> u t show ?thesis
        unfolding run nothing_made_def by simp
    next
      case (Inr y)
      have ref: "checkpoint_ref_ok (ref_name_of cid)" and head: "head_ok (gs_head q)"
        and refs: "refs_left X ?root (log u) = insert (ref_name_of cid) (refs_left X ?root (log s))"
        using create_ref_cases [OF made] Inr t by auto
      have "handle
         (create_checkpoint X cid (p_project_id project) sid oid ''local-policy'' kind
            (gs_branch q) (gs_head q) (ref_name_of cid) (as_data q))
         (cleanup_ref X (p_root project) (ref_name_of cid)) u = (r, s')"
        using rest made Inr by (simp add: andthen_Inr [where s = t])
      note step = checkpoint_step_cases [OF this ref refs clean head]
      show ?thesis
      proof (cases r)
        case (Inl e)
        with step u show ?thesis unfolding run nothing_made_def by (simp, blast)
      next
        case (Inr ck)
        with step u obtain now where "checkpoints (db s') = checkpoints (db s) @ [ck]"
          and ck: "ck = new_checkpoint cid (p_project_id project) sid oid ''local-policy'' kind
             (gs_branch q) (gs_head q) (ref_name_of cid) (as_data q) now"
          and "refs_left X ?root (log s') = insert (ref_name_of cid) (refs_left X ?root (log s))"
          by auto
        with ref head clean have "checkpoint_made X project sid oid kind s ck s'"
          unfolding checkpoint_made_def by (simp add: new_checkpoint_def) blast
        with Inr show ?thesis unfolding run by simp
      qed
    qed
  qed
qed

section \<open>Choosing the commit mode\<close>

lemma bridge_only_raises: "bridge_only m \<Longrightarrow> raises m s is_exception"
  unfolding bridge_only_def raises_def is_exception_def by blast

lemma has_session_footer_bridge: "bridge_only (has_session_footer X root h sid)"
  unfolding has_session_footer_def read_session_footer_def require_head_def rejected_def session_footer_def
  by (intro bridge_only_andthen bridge_only_intros git_run_bridge git_codes)
    (auto simp: bridge_error_known split: if_splits)

lemma find_session_wip_fails: "raises (find_session_wip_checkpoint pid sid branch head) s is_exception"
  by (simp add: find_session_wip_checkpoint_def require_connection_def is_exception_def)

lemma amend_evidence_exceptions: "raises (amend_evidence X project sid ck) s is_exception"
  unfolding amend_evidence_def raises_andthen raises_if raises_simps
  by (simp add: bridge_only_raises git_status_bridge find_session_wip_fails has_session_footer_bridge
      shared_refs_containing_head_bridge returns_def)

lemma find_session_wip_looks: "obeys (adds read_call) (find_session_wip_checkpoint pid sid branch head)"
  unfolding find_session_wip_checkpoint_def require_connection_def query_def
  by (intro looks.obeys_intros)

lemma amend_evidence_looks: "obeys (adds read_call) (amend_evidence X project sid ck)"
  unfolding amend_evidence_def
  by (intro looks.obeys_intros looks.git_status_obeys find_session_wip_looks
      looks.has_session_footer_obeys looks.shared_refs_containing_head_obeys)

lemma determine_commit_mode_looks: "obeys (adds read_call) (determine_commit_mode X project sid ck)"
  unfolding determine_commit_mode_def by (intro looks.obeys_intros amend_evidence_looks)

lemma determine_commit_mode_returns:
  "\<exists>mode s'. determine_commit_mode X project sid ck s = (Inr mode, s')"
proof (cases "determine_commit_mode X project sid ck s")
  case (Pair r s')
  have "raises (determine_commit_mode X project sid ck) s (\<lambda>_. False)"
    unfolding determine_commit_mode_def raises_case_option raises_if
    by (auto simp: raises_def handle_eq_Inl dest: raisesD [OF amend_evidence_exceptions])
  with Pair show ?thesis by (cases r) (auto simp: raises_def)
qed

text \<open>Git answered \<open>out\<close> to a command given after \<open>s\<close> and up to \<open>s'\<close>.\<close>

definition reported :: "ext \<Rightarrow> string \<Rightarrow> string list \<Rightarrow> 'z io_scheme \<Rightarrow> 'z io_scheme \<Rightarrow> string \<Rightarrow> bool" where
  "reported X root args s s' out \<longleftrightarrow>
     (\<exists>post pre. log s' = post @ GitRun root args # pre @ log s
        \<and> (\<exists>err. x_proc X (GitRun root args # pre @ log s) = Exited 0 out err))"

lemma git_run_reported:
  assumes "git_run X root args t = (Inr out, t')" "adds P s t" "adds Q t' s'"
  shows "reported X root args s s' out"
  using assms unfolding reported_def adds_def git_run_def
  by (fastforce simp: andthen_def raise_def ret_def split: proc.splits if_splits)

text \<open>The evidence: the candidate row, the footer of the head commit, and no ref of someone else on it.\<close>

definition amend_justified ::
  "ext \<Rightarrow> project_spec \<Rightarrow> string \<Rightarrow> checkpoint_rec \<Rightarrow> 'z store_st_scheme \<Rightarrow> 'z store_st_scheme \<Rightarrow> bool" where
  "amend_justified X project sid ck s s' \<longleftrightarrow>
     (\<exists>head c msg refs.
        lower head = lower (c_head ck)
        \<and> c \<in> set (checkpoints (db s)) \<and> wip_candidate (p_project_id project) sid (db s) c
        \<and> wip_evidence (c_branch ck) head c
        \<and> reported X (p_root project) [''show'', ''--no-patch'', ''--no-notes'', ''--format=%B'', head] s s' msg
        \<and> parse_session_footer msg = Some sid
        \<and> reported X (p_root project) [''for-each-ref'', ''--format=%(refname)'', ''--contains'', head,
                ''refs/heads'', ''refs/remotes'', ''refs/tags''] s s' refs
        \<and> shared_refs (if c_branch ck = ''HEAD'' then None else Some (''refs/heads/'' @ c_branch ck))
            (filter (\<lambda>l. l \<noteq> []) (map strip (splitlines refs))) = Inr [])"

lemma find_in: "find p xs = Some x \<Longrightarrow> x \<in> set xs \<and> p x"
  by (induction xs) (auto split: if_splits)

lemma find_session_wip_Some:
  assumes "find_session_wip_checkpoint pid sid branch head s = (Inr (Some c), t)"
  shows "t = s \<and> c \<in> set (checkpoints (db s)) \<and> wip_candidate pid sid (db s) c \<and> wip_evidence branch head c"
  using assms
  by (auto simp: find_session_wip_checkpoint_def andthen_eq_Inr require_connection_def query_def
      split: if_splits dest!: find_in)

lemma footer_reported:
  assumes "has_session_footer X root head sid t = (Inr True, t')" and "adds P s t" "adds Q t' s'"
  shows "\<exists>msg. reported X root [''show'', ''--no-patch'', ''--no-notes'', ''--format=%B'', head] s s' msg
    \<and> parse_session_footer msg = Some sid"
  using assms(1)
  by (auto dest!: git_run_reported [OF _ assms(2,3)] simp: has_session_footer_def read_session_footer_def require_head_def andthen_eq_Inr
      session_footer_def split: if_splits)

lemma shared_reported:
  assumes "shared_refs_containing_head X root head branch t = (Inr rs, t')" and "adds P s t" "adds Q t' s'"
  shows "\<exists>refs. reported X root [''for-each-ref'', ''--format=%(refname)'', ''--contains'', head,
                ''refs/heads'', ''refs/remotes'', ''refs/tags''] s s' refs
    \<and> shared_refs (if branch = ''HEAD'' then None else Some (''refs/heads/'' @ branch))
        (filter (\<lambda>l. l \<noteq> []) (map strip (splitlines refs))) = Inr rs"
  using assms(1)
  by (auto dest!: git_run_reported [OF _ assms(2,3)] simp: shared_refs_containing_head_def require_head_def andthen_eq_Inr split: if_splits)

lemma amend_evidence_justified:
  assumes run: "amend_evidence X project sid ck s = (Inr AmendSessionWip, s')"
  shows "amend_justified X project sid ck s s'"
proof -
  let ?root = "p_root project"
  from run obtain q t1 c t2 t3 where q: "git_status X ?root s = (Inr q, t1)"
    and br: "gs_branch q = c_branch ck" and hd: "lower (gs_head q) = lower (c_head ck)"
    and c: "find_session_wip_checkpoint (p_project_id project) sid (gs_branch q) (gs_head q) t1
        = (Inr (Some c), t2)"
    and f: "has_session_footer X ?root (gs_head q) sid t2 = (Inr True, t3)"
    and sh: "shared_refs_containing_head X ?root (gs_head q) (gs_branch q) t3 = (Inr [], s')"
    unfolding amend_evidence_def by (auto simp: andthen_eq_Inr split: if_splits)
  have a1: "adds read_call s t1" using looks.git_status_obeys q by (rule obeysD)
  have a2: "adds read_call t2 t3" using looks.has_session_footer_obeys f by (rule obeysD)
  have a3: "adds read_call t3 s'" using looks.shared_refs_containing_head_obeys sh by (rule obeysD)
  have db: "db t1 = db s" using a1 by (auto simp: adds_def)
  from find_session_wip_Some [OF c] have t2: "t2 = t1" by simp
  have a12: "adds read_call s t3" using a1 a2 t2 looks.trans by blast
  have a0: "adds read_call s' s'" by (rule looks.refl)
  have "adds read_call s t2" using a1 t2 by simp
  from footer_reported [OF f this a3] obtain msg where
    "reported X ?root [''show'', ''--no-patch'', ''--no-notes'', ''--format=%B'', gs_head q] s s' msg"
    "parse_session_footer msg = Some sid" by blast
  with shared_reported [OF sh a12 a0] find_session_wip_Some [OF c] br hd db
  show ?thesis unfolding amend_justified_def
    by (rule_tac exI [of _ "gs_head q"], rule_tac exI [of _ c], rule_tac exI [of _ msg]) auto
qed


section \<open>Recording the end state\<close>

definition finalized :: "json \<Rightarrow> string \<Rightarrow> string \<Rightarrow> checkpoint_rec \<Rightarrow> checkpoint_rec" where
  "finalized after hash now r = r\<lparr>c_after_json := Some (JText after), c_diff_hash := Some hash, c_updated_at := now\<rparr>"

lemma finalized_eta:
  "(\<lambda>r. r\<lparr>c_after_json := Some (JText after), c_diff_hash := Some hash, c_updated_at := now\<rparr>) =
     finalized after hash now"
  by (rule ext) (simp add: finalized_def)

lemma checkpoint_row_finalized:
  "checkpoint_row cid d = Some r \<Longrightarrow>
     checkpoint_row cid (add_events es (set_checkpoint cid (finalized after hash now) d))
       = Some (finalized after hash now r)"
  by (simp add: checkpoint_row_def find_update_where [where key = c_checkpoint_id] finalized_def)

lemma finalize_checkpoint_returns:
  "returns (finalize_checkpoint X cid after hash) s
     (\<lambda>ck t. \<exists>r now. checkpoint_row cid (db s) = Some r \<and> ck = finalized after hash now r
        \<and> checkpoint_row cid (db t) = Some ck)"
  unfolding finalize_checkpoint_def returns_andthen finalized_eta
  by (rule returns_mono, rule transaction_returns [where Q = "\<lambda>row d. \<exists>r now ck.
        row = Some ck \<and> checkpoint_row cid (db s) = Some r \<and> ck = finalized after hash now r
        \<and> checkpoint_row cid d = Some ck"])
    (auto simp: checkpoint_row_finalized)

lemma finalize_checkpoint_fails:
  assumes "finalize_checkpoint X cid after hash s = (Inl e, s')"
  shows "db s' = db s"
proof -
  have "db s' = db s \<and> (db_failure e \<or> True)"
    using assms unfolding finalize_checkpoint_def finalized_eta
    by (rule transaction_then_fails [where P = "\<lambda>x. x \<noteq> None"]) (auto simp: checkpoint_row_finalized)
  then show ?thesis by simp
qed

lemma same_db_after: "obeys same_db m \<Longrightarrow> m s = (r, s') \<Longrightarrow> db s' = db s"
  using obeysD [of same_db m s r s'] by (simp add: same_db_def)

lemma no_sensitive_names:
  "returns (reject_sensitive_names ns) s Q \<longleftrightarrow> (list_all (\<lambda>n. \<not> is_sensitive n) ns \<longrightarrow> Q () s)"
  by (auto simp: reject_sensitive_names_def Let_def filter_empty_conv list_all_iff)

lemma returns_clean: "returns m s (\<lambda>_ _. True)"
  by (simp add: returns_def)

lemma diff_names_clean:
  "returns (diff_names_from X root r) s (\<lambda>ns t. list_all (\<lambda>n. \<not> is_sensitive n) ns)"
  "returns (diff_names_between X root r h) s (\<lambda>ns t. list_all (\<lambda>n. \<not> is_sensitive n) ns)"
  unfolding diff_names_from_def diff_names_between_def returns_andthen no_sensitive_names returns_ret
  by (rule returns_mono [OF returns_clean], simp add: returns_clean)+

text \<open>What the recorded state must satisfy.\<close>

definition end_state ::
  "ext \<Rightarrow> nat \<Rightarrow> string option \<Rightarrow> string option \<Rightarrow> checkpoint_rec \<Rightarrow> checkpoint_rec \<Rightarrow> bool" where
  "end_state X k expected_head expected_branch r ck \<longleftrightarrow>
     (\<exists>after names truncated diff now.
        ck = finalized (after_data after names truncated) (diff_hash X diff) now r
        \<and> list_all (\<lambda>n. \<not> is_sensitive n) names
        \<and> (case expected_head of None \<Rightarrow> True | Some h \<Rightarrow> at_expected h expected_branch after))"

lemma end_stateI:
  "list_all (\<lambda>n. \<not> is_sensitive n) names \<Longrightarrow>
   (case h of None \<Rightarrow> True | Some h \<Rightarrow> at_expected h b after) \<Longrightarrow>
   end_state X k h b r (finalized (after_data after names truncated) (diff_hash X diff) now r)"
  unfolding end_state_def by blast

lemma finalize_row:
  assumes "finalize_checkpoint X cid after hash s = (Inr ck, s')"
  shows "\<exists>r now. checkpoint_row cid (db s) = Some r \<and> ck = finalized after hash now r
     \<and> checkpoint_row cid (db s') = Some ck"
  using returnsD [OF finalize_checkpoint_returns assms] .

lemma validate_same_db: "obeys same_db (validate_expected_head h)"
  unfolding validate_expected_head_def by (rule same_db.require_obeys)

lemma names_step:
  "diff_names_from X root r s = (Inr ns, t) \<Longrightarrow> db t = db s \<and> list_all (\<lambda>n. \<not> is_sensitive n) ns"
  "diff_names_between X root r h s = (Inr ns, t) \<Longrightarrow> db t = db s \<and> list_all (\<lambda>n. \<not> is_sensitive n) ns"
  using returnsD [OF diff_names_clean(1)] returnsD [OF diff_names_clean(2)]
    same_db_after [OF same_db.git_calls.diff_names_from_obeys]
    same_db_after [OF same_db.git_calls.diff_names_between_obeys] by fast+

lemmas git_steps = same_db_after [OF same_db.git_calls.git_snapshot_obeys]
  same_db_after [OF same_db.git_calls.diff_from_obeys]
  same_db_after [OF same_db.git_calls.diff_between_obeys] same_db_after [OF validate_same_db]

lemma checkpoint_finalize_returns:
  assumes "checkpoint_finalize X k project ck h b s = (Inr ck', s')"
  shows "\<exists>r. checkpoint_row (c_checkpoint_id ck) (db s) = Some r
        \<and> end_state X k h b r ck' \<and> checkpoint_row (c_checkpoint_id ck) (db s') = Some ck'"
  using assms unfolding checkpoint_finalize_def
  by (auto simp: andthen_eq_Inr split: option.splits if_splits prod.splits
      dest!: finalize_row names_step git_steps intro!: end_stateI)

text \<open>A method that leaves the tables alone when it raises.\<close>

definition fails_clean :: "('z store_st_scheme, 'e, 'a) M \<Rightarrow> bool" where
  "fails_clean m \<longleftrightarrow> (\<forall>s e s'. m s = (Inl e, s') \<longrightarrow> db s' = db s)"

lemma fails_cleanD: "fails_clean m \<Longrightarrow> m s = (Inl e, s') \<Longrightarrow> db s' = db s"
  by (simp add: fails_clean_def)

lemma fails_clean_same_db: "obeys same_db m \<Longrightarrow> fails_clean m"
  unfolding fails_clean_def using same_db_after by blast

lemma fails_clean_andthen:
  assumes "obeys same_db m" and "\<And>x. fails_clean (f x)"
  shows "fails_clean (andthen m f)"
  unfolding fails_clean_def andthen_eq_Inl
  using same_db_after [OF assms(1)] fails_cleanD [OF assms(2)] by metis

lemma fails_clean_case:
  "fails_clean m \<Longrightarrow> (\<And>y. fails_clean (f y)) \<Longrightarrow> fails_clean (case x of None \<Rightarrow> m | Some y \<Rightarrow> f y)"
  "(\<And>a b. fails_clean (g a b)) \<Longrightarrow> fails_clean (case z of (a, b) \<Rightarrow> g a b)"
  by (cases x; simp) (cases z; simp)

lemma finalize_checkpoint_clean: "fails_clean (finalize_checkpoint X cid after hash)"
  unfolding fails_clean_def using finalize_checkpoint_fails by blast

lemma checkpoint_finalize_clean: "fails_clean (checkpoint_finalize X k project ck h b)"
  unfolding checkpoint_finalize_def
  by (intro fails_clean_andthen fails_clean_case finalize_checkpoint_clean same_db.obeys_intros
      validate_same_db same_db.git_calls.git_snapshot_obeys same_db.git_calls.diff_from_obeys
      same_db.git_calls.diff_between_obeys same_db.git_calls.diff_names_from_obeys
      same_db.git_calls.diff_names_between_obeys)


section \<open>Witnesses\<close>

definition wip_answer :: "string list \<Rightarrow> string" where
  "wip_answer args =
     (if args = [''rev-parse'', ''--abbrev-ref'', ''HEAD''] then ''wip''
      else if args = [''rev-parse'', ''HEAD''] then demo_head (CHR ''b'')
      else if take 1 args = [''show''] then SESSION_FOOTER_PREFIX @ ''s''
      else if take 1 args = [''for-each-ref''] then ''refs/heads/wip''
      else [])"

definition wip_git :: ext where
  "wip_git = demo_ext\<lparr>x_proc := \<lambda>h. case h of GitRun r args # t \<Rightarrow> Exited 0 (wip_answer args) [] | _ \<Rightarrow> TimedOut\<rparr>"

definition wip_project :: project_spec where
  "wip_project = \<lparr>p_project_id = ''p'', p_root = ''r'', p_allowed_branches = [''*''],
     p_require_clean_workspace = True, p_codemcp_config = ''codemcp.toml'', p_commands = [],
     p_profile = None, p_profile_source = ''none''\<rparr>"

definition wip_now :: checkpoint_rec where
  "wip_now = demo_checkpoint\<lparr>c_checkpoint_id := ''k2'', c_head := demo_head (CHR ''b'')\<rparr>"

lemma wip_git_run: "git_run wip_git root args s
    = (Inr (wip_answer args), s\<lparr>log := GitRun root args # log s\<rparr>)"
  by (simp add: git_run_def wip_git_def andthen_def ret_apply)

lemma wip_found: "find_session_wip_checkpoint ''p'' ''s'' ''wip'' (demo_head (CHR ''b'')) (demo_wip\<lparr>log := l\<rparr>)
    = (Inr (Some demo_checkpoint), demo_wip\<lparr>log := l\<rparr>)"
  using demo_wip_found
  by (auto simp: find_session_wip_checkpoint_def require_connection_def query_def andthen_def split: if_splits)

lemma strip_words: "strip ''wip'' = ''wip''" "strip (demo_head (CHR ''b'')) = demo_head (CHR ''b'')"
  "strip ''refs/heads/wip'' = ''refs/heads/wip''"
  by (simp_all add: strip_def lstrip_by_def rstrip_by_def is_space_def code_def demo_head_def numeral_eq_Suc)

lemma wip_footer: "parse_session_footer (SESSION_FOOTER_PREFIX @ ''s'') = Some ''s''"
  by (simp add: parse_session_footer_def SESSION_FOOTER_PREFIX_def rstrip_by_def cr_def lf_def
      splitlines_def is_line_break_def code_def starts_with_def session_id_ok_def is_alnum_def
      is_digit_def is_alpha_def Let_def)

lemma wip_head: "head_ok (demo_head (CHR ''b''))"
  by (simp add: head_ok_def demo_head_def is_hexdigit_def is_digit_def code_def list_all_iff)

lemma wip_amends: "\<exists>s'. determine_commit_mode wip_git wip_project (Some ''s'') wip_now demo_wip
    = (Inr AmendSessionWip, s')"
proof -
  let ?b = "demo_head (CHR ''b'')"
  have status: "\<exists>l. git_status wip_git ''r'' demo_wip
      = (Inr \<lparr>gs_branch = ''wip'', gs_head = ?b, gs_dirty = False, gs_files = []\<rparr>, demo_wip\<lparr>log := l\<rparr>)"
    by (simp add: git_status_def wip_git_run wip_answer_def andthen_def ret_apply strip_words nul_def)
      (rule exI, simp add: demo_wip_def)
  have footer: "\<exists>l'. has_session_footer wip_git ''r'' ?b ''s'' (demo_wip\<lparr>log := l\<rparr>) = (Inr True, demo_wip\<lparr>log := l'\<rparr>)" for l
    by (simp add: has_session_footer_def read_session_footer_def wip_git_run wip_answer_def andthen_def
        ret_apply require_head_def wip_head wip_footer session_footer_def session_id_ok_def is_alnum_def
        is_digit_def is_alpha_def code_def) (rule exI, simp add: demo_wip_def)
  have shared: "\<exists>l'. shared_refs_containing_head wip_git ''r'' ?b ''wip'' (demo_wip\<lparr>log := l\<rparr>) = (Inr [], demo_wip\<lparr>log := l'\<rparr>)" for l
    by (simp add: shared_refs_containing_head_def wip_git_run wip_answer_def andthen_def ret_apply
        require_head_def wip_head branch_ok_def nul_def cr_def lf_def splitlines_def is_line_break_def
        code_def strip_words EXPECTED_REF_PREFIXES_def CHECKPOINT_REF_PREFIX_def starts_with_def)
      (rule exI, simp add: demo_wip_def)
  obtain l where 1: "git_status wip_git ''r'' demo_wip
      = (Inr \<lparr>gs_branch = ''wip'', gs_head = ?b, gs_dirty = False, gs_files = []\<rparr>, demo_wip\<lparr>log := l\<rparr>)"
    using status by blast
  obtain l2 where 2: "has_session_footer wip_git ''r'' ?b ''s'' (demo_wip\<lparr>log := l\<rparr>) = (Inr True, demo_wip\<lparr>log := l2\<rparr>)"
    using footer by blast
  obtain l3 where 3: "shared_refs_containing_head wip_git ''r'' ?b ''wip'' (demo_wip\<lparr>log := l2\<rparr>) = (Inr [], demo_wip\<lparr>log := l3\<rparr>)"
    using shared by blast
  have "amend_evidence wip_git wip_project ''s'' wip_now demo_wip = (Inr AmendSessionWip, demo_wip\<lparr>log := l3\<rparr>)"
    by (simp add: amend_evidence_def andthen_def ret_apply wip_project_def wip_now_def demo_checkpoint_def 1 2 3
        wip_found [unfolded demo_checkpoint_def])
  then show ?thesis
    by (simp add: determine_commit_mode_def handle_def)
      (simp add: wip_project_def wip_now_def demo_checkpoint_def)
qed


end
