(* ===== verification/Registry.thy ===== *)
theory Registry
  imports Settings Store Git "HOL-Library.Multiset"
begin

text \<open>
  \<open>project_registry.py\<close>: the registered projects, their reload when the project file changes, the
  authorization of paths inside a project, and the two walks over a directory that leave out
  sensitive and linked entries.  A path is its text with slashes; \<open>resolve\<close>, \<open>stat\<close> and the tests on
  entries are answers of the file system.
\<close>

section \<open>State\<close>

text \<open>\<open>ProjectRegistryFingerprint\<close>: modification time and size.\<close>

type_synonym fingerprint = "nat \<times> nat"

type_synonym projects = "(string \<times> project_spec) list"

record registry_st =
  rg_projects :: projects
  rg_generation :: nat
  rg_last_status :: string
  rg_last_error :: "string option"
  rg_last_error_code :: "string option"
  rg_failed :: "fingerprint option"
  rg_fingerprint :: "fingerprint option"

text \<open>The state of the bridge: the store, the registry, whether the service has started, and the
  project each codemcp worker was made for.\<close>

record bridge_st = store_st +
  registry :: registry_st
  started :: bool
  workers :: projects

section \<open>Reloading the project file\<close>

definition projects_config_fingerprint :: "ext \<Rightarrow> string \<Rightarrow> ('z io_scheme, exn, fingerprint) M" where
  "projects_config_fingerprint X path =
     andthen (ask (FsCall ''stat'' path)) (\<lambda>h.
     case x_stat X h of
       None \<Rightarrow> raise (SettingsErr (''cannot stat project configuration: '' @ path))
     | Some f \<Rightarrow> ret f)"

text \<open>\<open>try: v = m  except SettingsError as exc\<close>: the message, or the value.\<close>

definition try_settings :: "('s, exn, 'a) M \<Rightarrow> ('s, exn, string + 'a) M" where
  "try_settings m =
     handle (andthen m (\<lambda>x. ret (Inr x)))
       (\<lambda>e. case e of SettingsErr msg \<Rightarrow> ret (Inl msg) | _ \<Rightarrow> raise e)"

definition registry_init :: "ext \<Rightarrow> string \<Rightarrow> projects \<Rightarrow> ('z io_scheme, exn, registry_st) M" where
  "registry_init X path projects =
     andthen (try_settings (projects_config_fingerprint X path)) (\<lambda>r.
     ret (case r of
       Inr f \<Rightarrow> \<lparr>rg_projects = projects, rg_generation = 1, rg_last_status = ''initial'',
                 rg_last_error = None, rg_last_error_code = None, rg_failed = None,
                 rg_fingerprint = Some f\<rparr>
     | Inl msg \<Rightarrow> \<lparr>rg_projects = projects, rg_generation = 1, rg_last_status = ''failed'',
                 rg_last_error = Some msg, rg_last_error_code = Some ''projects_config_unavailable'',
                 rg_failed = None, rg_fingerprint = None\<rparr>))"

definition note_failure :: "string \<Rightarrow> string \<Rightarrow> registry_st \<Rightarrow> registry_st" where
  "note_failure msg c r =
     r\<lparr>rg_last_status := ''failed'', rg_last_error := Some msg, rg_last_error_code := Some c\<rparr>"

text \<open>Recording a failure and \<open>return False\<close>.\<close>

definition reload_failed :: "(registry_st \<Rightarrow> registry_st) \<Rightarrow> ('z bridge_st_scheme, exn, bool) M" where
  "reload_failed f = andthen (modify (\<lambda>s. s\<lparr>registry := f (registry s)\<rparr>)) (\<lambda>_. ret False)"

definition seen :: "fingerprint \<Rightarrow> registry_st \<Rightarrow> bool" where
  "seen f r = (rg_fingerprint r = Some f \<or> rg_failed r = Some f)"

text \<open>The loop over the ids that stay: the first whose resolved root differs.\<close>

fun changed_root ::
  "ext \<Rightarrow> projects \<Rightarrow> projects \<Rightarrow> ('z io_scheme, exn, string option) M" where
  "changed_root X [] candidate = ret None"
| "changed_root X ((pid, current) # rest) candidate =
     (case map_of candidate pid of
        None \<Rightarrow> changed_root X rest candidate
      | Some new \<Rightarrow>
          andthen (real_path X (p_root current)) (\<lambda>current_root.
          andthen (real_path X (p_root new)) (\<lambda>candidate_root.
          if current_root \<noteq> candidate_root then ret (Some pid) else changed_root X rest candidate)))"

definition install :: "projects \<Rightarrow> fingerprint \<Rightarrow> registry_st \<Rightarrow> registry_st" where
  "install candidate f r =
     r\<lparr>rg_projects := candidate, rg_fingerprint := Some f, rg_failed := None,
       rg_generation := rg_generation r + 1, rg_last_status := ''ok'', rg_last_error := None,
       rg_last_error_code := None\<rparr>"

text \<open>What follows the comparison of the roots, and the whole of the reload.\<close>

definition reload_with ::
  "ext \<Rightarrow> string \<Rightarrow> fingerprint \<Rightarrow> projects \<Rightarrow> string option \<Rightarrow> ('z bridge_st_scheme, exn, bool) M" where
  "reload_with X path observed candidate changed =
     (case changed of
        Some pid \<Rightarrow> reload_failed (\<lambda>r. note_failure
            (''project root change requires remove then add: '' @ pid)
            ''project_root_change_requires_remove_add'' (r\<lparr>rg_failed := Some observed\<rparr>))
      | None \<Rightarrow>
          andthen (try_settings (projects_config_fingerprint X path)) (\<lambda>again.
          case again of
            Inl msg \<Rightarrow> reload_failed (note_failure msg ''projects_config_unavailable'')
          | Inr verified \<Rightarrow>
              if verified \<noteq> observed
              then reload_failed (note_failure ''project configuration changed during reload''
                     ''projects_config_changed_during_reload'')
              else andthen (modify (\<lambda>s. s\<lparr>registry := install candidate verified (registry s)\<rparr>))
                     (\<lambda>_. ret True)))"

definition reload :: "ext \<Rightarrow> string \<Rightarrow> fingerprint \<Rightarrow> ('z bridge_st_scheme, exn, bool) M" where
  "reload X path observed =
     andthen (try_settings (load_projects X path)) (\<lambda>loaded.
     case loaded of
       Inl msg \<Rightarrow> reload_failed (\<lambda>r. note_failure msg ''projects_config_invalid'' (r\<lparr>rg_failed := Some observed\<rparr>))
     | Inr candidate \<Rightarrow>
         andthen (gets (\<lambda>s. rg_projects (registry s))) (\<lambda>current.
         andthen (changed_root X current candidate) (\<lambda>changed.
         reload_with X path observed candidate changed)))"

definition refresh_if_changed :: "ext \<Rightarrow> string \<Rightarrow> ('z bridge_st_scheme, exn, bool) M" where
  "refresh_if_changed X path =
     andthen (try_settings (projects_config_fingerprint X path)) (\<lambda>first.
     case first of
       Inl msg \<Rightarrow> reload_failed (note_failure msg ''projects_config_unavailable'')
     | Inr f \<Rightarrow>
         andthen (gets (\<lambda>s. seen f (registry s))) (\<lambda>known.
         if known then ret False
         else
           andthen (try_settings (projects_config_fingerprint X path)) (\<lambda>second.
           case second of
             Inl msg \<Rightarrow> reload_failed (note_failure msg ''projects_config_unavailable'')
           | Inr observed \<Rightarrow>
               andthen (gets (\<lambda>s. seen observed (registry s))) (\<lambda>known2.
               if known2 then ret False else reload X path observed))))"

definition get_project :: "string \<Rightarrow> ('z bridge_st_scheme, exn, project_spec) M" where
  "get_project project_id =
     andthen (gets (\<lambda>s. map_of (rg_projects (registry s)) project_id)) (\<lambda>found.
     case found of
       None \<Rightarrow> raise (rejected_with ''PROJECT_NOT_ALLOWED'' ''project_id is not registered''
                  (JObj [(''project_id'', JStr project_id)]))
     | Some p \<Rightarrow> ret p)"

section \<open>Authorizing a path\<close>

text \<open>\<open>root == p or root in p.parents\<close>.\<close>

definition within :: "string \<Rightarrow> string \<Rightarrow> bool" where
  "within root p = prefix (posix_parts root) (posix_parts p)"

text \<open>\<open>any(_is_reparse_point(item) for item in _iter_existing_components(...))\<close>, below \<open>current\<close>.\<close>

fun link_below :: "ext \<Rightarrow> string \<Rightarrow> string list \<Rightarrow> ('z io_scheme, exn, bool) M" where
  "link_below X current [] = ret False"
| "link_below X current (part # rest) =
     (let here = join_path current part in
      andthen (fs_ask X ''exists'' here) (\<lambda>e.
      andthen (if e then ret True else fs_ask X ''is_symlink'' here) (\<lambda>present.
      andthen (if present then fs_ask X ''is_reparse_point'' here else ret False) (\<lambda>link.
      if link then ret True else link_below X here rest))))"

definition link_on_path :: "ext \<Rightarrow> string \<Rightarrow> string list \<Rightarrow> ('z io_scheme, exn, bool) M" where
  "link_on_path X root parts =
     andthen (fs_ask X ''is_reparse_point'' root) (\<lambda>link.
     if link then ret True else link_below X root parts)"

text \<open>The candidate path and its normal form.\<close>

definition candidate_path ::
  "string \<Rightarrow> string option \<Rightarrow> bool \<Rightarrow> bool \<Rightarrow> exn + string \<times> string" where
  "candidate_path root relative_path allow_root reject_sensitive =
     (if relative_path = None \<or> relative_path = Some [] \<or> relative_path = Some ''.'' then
        (if allow_root then Inr (root, ''.'')
         else Inl (rejected_with ''INVALID_REQUEST'' ''path is required'' (JObj [(''field'', JStr ''path'')])))
      else
        (case normalize_relative_path (the relative_path) of
           Inl msg \<Rightarrow> Inl (rejected ''PATH_ESCAPE'' msg)
         | Inr normalized \<Rightarrow>
             if reject_sensitive \<and> is_sensitive normalized
             then Inl (rejected_with ''SENSITIVE_PATH'' ''access to sensitive paths is denied''
                    (JObj [(''path'', JStr normalized)]))
             else Inr (if normalized = ''.'' then root else join_path root normalized, normalized)))"

definition resolve_path ::
  "ext \<Rightarrow> string \<Rightarrow> string option \<Rightarrow> bool \<Rightarrow> bool
   \<Rightarrow> ('z bridge_st_scheme, exn, project_spec \<times> string \<times> string) M" where
  "resolve_path X project_id relative_path allow_root reject_sensitive =
     andthen (get_project project_id) (\<lambda>project.
     andthen (lift_sum (candidate_path (p_root project) relative_path allow_root reject_sensitive))
       (\<lambda>(candidate, normalized).
     andthen (real_path X (p_root project)) (\<lambda>root.
     andthen (real_path X candidate) (\<lambda>resolved.
     andthen (require (within root resolved)
       (rejected ''PATH_ESCAPE'' ''path escapes the registered project root'')) (\<lambda>_.
     andthen (link_on_path X (p_root project) (posix_parts normalized)) (\<lambda>link.
     andthen (require (\<not> link)
       (rejected ''PATH_ESCAPE'' ''symlink or reparse-point paths are denied'')) (\<lambda>_.
     ret (project, candidate, normalized))))))))"

definition worker_path :: "ext \<Rightarrow> bridge_settings \<Rightarrow> string \<Rightarrow> string" where
  "worker_path X settings path =
     (if x_windows X \<and> cm_worker_mode (bs_codemcp settings) = ''wsl2'' then to_wsl_path path else path)"

text \<open>\<open>relative_to\<close> of the resolved paths; a path that is not below the root is a \<open>ValueError\<close>.\<close>

definition relative_path :: "ext \<Rightarrow> project_spec \<Rightarrow> string \<Rightarrow> ('z io_scheme, exn, string) M" where
  "relative_path X project path =
     andthen (real_path X path) (\<lambda>resolved.
     andthen (real_path X (p_root project)) (\<lambda>root.
     if within root resolved
     then ret (let rest = drop (length (posix_parts root)) (posix_parts resolved) in
               if rest = [] then ''.'' else join_with ''/'' rest)
     else raise (ValueErr ''path is not in the subpath of the root'')))"

section \<open>Walking a directory\<close>

text \<open>The name of a child relative to the project root; the root itself is the empty text.\<close>

definition child_of :: "string \<Rightarrow> string \<Rightarrow> string" where
  "child_of base name = (if base = [] then name else join_path base name)"

definition by_name :: "(string \<times> node) list \<Rightarrow> (string \<times> node) list" where
  "by_name entries = sort_key (\<lambda>(name, _). lower name) entries"

text \<open>\<open>sorted(..., reverse=True)\<close> keeps the order of equal keys.\<close>

definition by_name_reverse :: "(string \<times> node) list \<Rightarrow> (string \<times> node) list" where
  "by_name_reverse entries = rev (by_name (rev entries))"

lemma by_name_set [simp]: "set (by_name es) = set es"
  by (simp add: by_name_def)

lemma by_name_reverse_set [simp]: "set (by_name_reverse es) = set es"
  by (simp add: by_name_reverse_def)

text \<open>The size of what a list of entries holds.\<close>

fun node_weight :: "node \<Rightarrow> nat" where
  "node_weight (Node l k c) =
     Suc (case c of None \<Rightarrow> 0 | Some es \<Rightarrow> sum_list (map (\<lambda>(n, x). node_weight x) es))"

definition weight :: "(string \<times> node) list \<Rightarrow> nat" where
  "weight es = sum_list (map (\<lambda>(n, x). node_weight x) es)"

lemma weight_simps [simp]:
  "weight [] = 0" "weight ((n, x) # es) = node_weight x + weight es" "weight (xs @ ys) = weight xs + weight ys"
  by (simp_all add: weight_def)

lemma node_weight_children [simp]:
  "node_weight (Node l k None) = 1" "node_weight (Node l k (Some es)) = Suc (weight es)"
  by (simp_all add: node_weight.simps weight_def)

lemma node_weight_pos [simp]: "0 < node_weight x"
  by (cases x) (simp add: node_weight.simps)

declare node_weight.simps [simp del]

lemma weight_mset: "weight es = (\<Sum>(n, x)\<in>#mset es. node_weight x)"
  by (induction es) auto

lemma weight_permuted: "mset xs = mset ys \<Longrightarrow> weight xs = weight ys"
  by (simp add: weight_mset)

lemma weight_by_name [simp]: "weight (by_name es) = weight es" "weight (by_name_reverse es) = weight es"
  by (auto simp: by_name_def by_name_reverse_def intro: weight_permuted)

lemma weight_rev [simp]: "weight (rev es) = weight es"
  by (rule weight_permuted) simp

text \<open>\<open>_safe_search_paths\<close>: the roots of a search under a directory, and whether something below it
  has been left out.\<close>

function (sequential)
  search_dir :: "string \<Rightarrow> string \<Rightarrow> (string \<times> node) list option \<Rightarrow> string list \<times> bool" and
  search_entries :: "string \<Rightarrow> string \<Rightarrow> (string \<times> node) list \<Rightarrow> string list \<times> bool" where
  "search_dir base target None = ([], True)"
| "search_dir base target (Some entries) =
     (case search_entries base target (by_name entries) of
        (safe, excluded) \<Rightarrow> if \<not> excluded then ([target], False) else (safe, True))"
| "search_entries base target [] = ([], False)"
| "search_entries base target ((name, Node link kind children) # rest) =
     (case search_entries base target rest of (safe, excluded) \<Rightarrow>
        if lower name = ''.git'' then (safe, excluded)
        else if link \<or> is_sensitive (child_of base name) then (safe, True)
        else (case kind of
                IsDir \<Rightarrow>
                  (case search_dir (child_of base name) (join_path target name) children of
                     (child_paths, child_excluded) \<Rightarrow> (child_paths @ safe, child_excluded \<or> excluded))
              | IsFile \<Rightarrow> (join_path target name # safe, excluded)
              | _ \<Rightarrow> (safe, True)))"
  by pat_completeness auto
termination
  by (relation "measure (\<lambda>x. case x of
        Inl (base, target, es) \<Rightarrow> (case es of None \<Rightarrow> 0 | Some l \<Rightarrow> 2 * weight l + 1)
      | Inr (base, target, l) \<Rightarrow> 2 * weight l)") (auto split: option.split)

text \<open>The part of a path below the project root, as text.\<close>

definition lexical_relative :: "string \<Rightarrow> string \<Rightarrow> string" where
  "lexical_relative root p = join_with ''/'' (drop (length (posix_parts root)) (posix_parts p))"

definition path_kind :: "ext \<Rightarrow> string \<Rightarrow> ('z io_scheme, exn, entry_kind) M" where
  "path_kind X p = andthen (ask (FsCall ''kind'' p)) (\<lambda>h. ret (x_kind X h))"

definition safe_search_paths :: "ext \<Rightarrow> project_spec \<Rightarrow> string \<Rightarrow> ('z io_scheme, exn, string list) M" where
  "safe_search_paths X project target =
     andthen (path_kind X target) (\<lambda>kind.
     if kind = KindError then ret []
     else if kind \<noteq> IsDir then ret [target]
     else
       andthen (ask (FsCall ''iterdir'' target)) (\<lambda>h.
       ret (case search_dir (lexical_relative (p_root project) target) target (x_tree X h) of
              (paths, excluded) \<Rightarrow> if excluded then paths else [target])))"

text \<open>\<open>safe_directory_tree\<close>: the loop over the stack, whose top is the head of the list; an element
  holds the name, the path relative to the target and the entry.\<close>

definition hidden :: "string \<Rightarrow> bool" where
  "hidden name = (take 1 name = ''.'' \<or> name = ''__pycache__'')"

definition visit_order :: "(string \<times> node) list \<Rightarrow> (string \<times> node) list" where
  "visit_order entries = rev (by_name_reverse entries)"

definition push :: "string \<Rightarrow> (string \<times> node) list \<Rightarrow> (string \<times> string \<times> node) list" where
  "push up entries = map (\<lambda>(name, x). (name, child_of up name, x)) (visit_order entries)"

fun item_weight :: "string \<times> string \<times> node \<Rightarrow> nat" where
  "item_weight (name, rel, x) = node_weight x"

lemma push_weight: "sum_list (map item_weight (push up es)) = weight es"
proof -
  have "sum_list (map item_weight (map (\<lambda>(name, x). (name, child_of up name, x)) xs)) = weight xs" for xs
    by (induction xs) auto
  then show ?thesis by (simp add: push_def visit_order_def)
qed

function (sequential) walk ::
  "nat \<Rightarrow> string \<Rightarrow> (string \<times> string \<times> node) list \<Rightarrow> (string \<times> bool) list \<Rightarrow> (string \<times> bool) list \<times> bool" where
  "walk max_entries base [] entries = (entries, False)"
| "walk max_entries base ((name, rel, Node link kind children) # stack) entries =
     (if hidden name then walk max_entries base stack entries
      else if link \<or> is_sensitive (child_of base rel) then walk max_entries base stack entries
      else if kind \<noteq> IsDir \<and> kind \<noteq> IsFile then walk max_entries base stack entries
      else if max_entries \<le> length entries then (entries, True)
      else if kind \<noteq> IsDir then walk max_entries base stack (entries @ [(rel, False)])
      else (case children of
              None \<Rightarrow> walk max_entries base stack (entries @ [(rel, True)])
            | Some nested \<Rightarrow> walk max_entries base (push rel nested @ stack) (entries @ [(rel, True)])))"
  by pat_completeness auto
termination
  by (relation "measure (\<lambda>(k, base, stack, entries). sum_list (map item_weight stack))")
    (auto simp: push_weight intro: le_imp_less_Suc)

definition safe_directory_tree ::
  "ext \<Rightarrow> project_spec \<Rightarrow> string \<Rightarrow> nat \<Rightarrow> ('z io_scheme, exn, (string \<times> bool) list \<times> bool) M" where
  "safe_directory_tree X project target max_entries =
     andthen (require (max_entries > 0) (ValueErr ''max_entries must be positive'')) (\<lambda>_.
     andthen (ask (FsCall ''iterdir'' target)) (\<lambda>h.
     case x_tree X h of
       None \<Rightarrow>
         andthen (relative_path X project target) (\<lambda>rel.
         raise (rejected_with ''BACKEND_UNAVAILABLE'' ''directory could not be listed''
           (JObj [(''path'', JStr rel)])))
     | Some children \<Rightarrow>
         ret (walk max_entries (lexical_relative (p_root project) target) (push [] children) [])))"

end
