(* ===== verification/Policy.thy ===== *)
theory Policy
  imports Registry Services
begin

text \<open>
  \<open>policy_engine.py\<close>, \<open>generated_codemcp.py\<close> and \<open>project_readiness.py\<close>: the checks a request passes before
  it touches a project, the configuration the bridge writes for codemcp and takes back, and the
  report on whether a project is ready for development.
\<close>

section \<open>Policy\<close>

definition require_allowed_branch :: "project_spec \<Rightarrow> string \<Rightarrow> ('s, exn, unit) M" where
  "require_allowed_branch project branch =
     require (list_ex (fnmatchcase branch) (p_allowed_branches project))
       (rejected_with ''BRANCH_NOT_ALLOWED'' ''current branch is not allowed for this project''
         (JObj [(''project_id'', JStr (p_project_id project)), (''branch'', JStr branch)]))"

definition inspect_project :: "ext \<Rightarrow> project_spec \<Rightarrow> bool \<Rightarrow> ('z io_scheme, exn, git_status) M" where
  "inspect_project X project enforce_branch =
     andthen (fs_ask X ''is_dir'' (p_root project)) (\<lambda>d.
     andthen (require d (rejected_with ''PROJECT_NOT_ALLOWED'' ''registered project root does not exist''
       (JObj [(''project_id'', JStr (p_project_id project))]))) (\<lambda>_.
     andthen (require_worktree_root X (p_root project)) (\<lambda>_.
     andthen (git_status X (p_root project)) (\<lambda>status.
     andthen (if enforce_branch then require_allowed_branch project (gs_branch status) else ret ()) (\<lambda>_.
     ret status)))))"

definition require_clean_workspace :: "bridge_settings \<Rightarrow> project_spec \<Rightarrow> git_status \<Rightarrow> ('s, exn, git_status) M" where
  "require_clean_workspace S project status =
     andthen (require (\<not> ((po_require_clean_workspace (bs_policy S) \<or> p_require_clean_workspace project)
                          \<and> gs_dirty status))
       (rejected_with ''WORKSPACE_DIRTY'' ''mutation requires a clean workspace''
         (JObj [(''changed_files'', jstrs (gs_files status))]))) (\<lambda>_. ret status)"

definition require_mutation_preconditions ::
  "ext \<Rightarrow> bridge_settings \<Rightarrow> project_spec \<Rightarrow> bool \<Rightarrow> ('z io_scheme, exn, git_status) M" where
  "require_mutation_preconditions X S project enforce_branch =
     andthen (inspect_project X project enforce_branch) (require_clean_workspace S project)"

text \<open>\<open>config.get("commands", {}).get(command_id, {}).get("command")\<close>, where a value that is no table has
  nothing.\<close>

definition configured_argv :: "ttable \<Rightarrow> string \<Rightarrow> toml option" where
  "configured_argv config command_id =
     (case tget_or config ''commands'' (TTab []) of
        TTab commands \<Rightarrow>
          (case tget_or commands command_id (TTab []) of TTab configured \<Rightarrow> tget configured ''command'' | _ \<Rightarrow> None)
      | _ \<Rightarrow> None)"

text \<open>\<open>can_generate_codemcp_config\<close>.\<close>

definition GENERATED_CONFIG_NAME :: string where
  "GENERATED_CONFIG_NAME = ''codemcp.toml''"

definition can_generate_codemcp_config :: "project_spec \<Rightarrow> bool" where
  "can_generate_codemcp_config project =
     (p_profile project \<noteq> None \<and> p_profile project \<noteq> Some ''generic''
      \<and> p_profile_source project \<in> {''detected'', ''explicit''}
      \<and> p_commands project \<noteq> []
      \<and> p_codemcp_config project = join_path (p_root project) GENERATED_CONFIG_NAME)"

definition unverified :: "command_spec \<Rightarrow> exn" where
  "unverified c = rejected_with ''COMMAND_NOT_ALLOWED'' ''project codemcp configuration cannot be verified''
     (JObj [(''command_id'', JStr (cs_command_id c))])"

text \<open>The path of the configuration as the registry resolves it; \<open>relative_to\<close> raises a \<open>ValueError\<close>.\<close>

definition config_path :: "ext \<Rightarrow> project_spec \<Rightarrow> command_spec \<Rightarrow> ('z bridge_st_scheme, exn, string) M" where
  "config_path X project c =
     (if \<not> within (p_root project) (p_codemcp_config project) then raise (unverified c)
      else
        andthen (handle
          (resolve_path X (p_project_id project) (Some (lexical_relative (p_root project) (p_codemcp_config project)))
             False False)
          (\<lambda>e. raise (case e of ValueErr _ \<Rightarrow> unverified c | OsErr \<Rightarrow> unverified c | _ \<Rightarrow> e)))
        (\<lambda>(_, path, _). ret path))"

definition verify_codemcp_command ::
  "ext \<Rightarrow> project_spec \<Rightarrow> command_spec \<Rightarrow> ('z bridge_st_scheme, exn, unit) M" where
  "verify_codemcp_command X project c =
     andthen (ask (FsCall ''lstat'' (p_codemcp_config project))) (\<lambda>h.
     if x_lstat X h = NoEntry \<and> can_generate_codemcp_config project then ret ()
     else
       andthen (config_path X project c) (\<lambda>path.
       andthen (ask (FsCall ''load_toml'' path)) (\<lambda>h'.
       case x_toml X h' of
         Parsed config \<Rightarrow>
           require (is_strings (configured_argv config (cs_command_id c)) (cs_argv c))
             (rejected_with ''COMMAND_NOT_ALLOWED'' ''registered command does not match codemcp.toml''
               (JObj [(''command_id'', JStr (cs_command_id c))]))
       | _ \<Rightarrow> raise (unverified c))))"

definition arbitrary_refused :: "bridge_settings \<Rightarrow> ('s, exn, unit) M" where
  "arbitrary_refused S =
     require (\<not> po_allow_arbitrary_commands (bs_policy S))
       (rejected ''COMMAND_NOT_ALLOWED'' ''arbitrary commands are disabled by policy'')"

definition approval_settled :: "bool \<Rightarrow> string \<Rightarrow> command_spec \<Rightarrow> ('s, exn, unit) M" where
  "approval_settled require_approval command_id c =
     require (\<not> (require_approval \<and> cs_approval c = ''required''))
       (rejected_with ''APPROVAL_REQUIRED'' ''the registered command requires explicit approval''
         (JObj [(''command_id'', JStr command_id)]))"

definition registered_command ::
  "ext \<Rightarrow> bridge_settings \<Rightarrow> project_spec \<Rightarrow> string \<Rightarrow> bool \<Rightarrow> ('z bridge_st_scheme, exn, command_spec) M" where
  "registered_command X S project command_id require_approval =
     andthen (arbitrary_refused S) (\<lambda>_.
     case map_of (p_commands project) command_id of
       None \<Rightarrow> raise (rejected_with ''COMMAND_NOT_ALLOWED'' ''command_id is not registered for this project''
                  (JObj [(''command_id'', JStr command_id)]))
     | Some c \<Rightarrow>
         andthen (approval_settled require_approval command_id c) (\<lambda>_.
         andthen (verify_codemcp_command X project c) (\<lambda>_. ret c)))"

definition command_of_kind ::
  "ext \<Rightarrow> bridge_settings \<Rightarrow> project_spec \<Rightarrow> string \<Rightarrow> string \<Rightarrow> bool
   \<Rightarrow> ('z bridge_st_scheme, exn, command_spec) M" where
  "command_of_kind X S project command_id expected_kind require_approval =
     andthen (arbitrary_refused S) (\<lambda>_.
     let refused = rejected_with ''COMMAND_NOT_ALLOWED'' ''command_id is not registered for this operation''
           (JObj [(''command_id'', JStr command_id), (''expected_kind'', JStr expected_kind)])
     in case map_of (p_commands project) command_id of
          None \<Rightarrow> raise refused
        | Some c \<Rightarrow>
            if cs_kind c \<noteq> expected_kind then raise refused
            else
              andthen (approval_settled require_approval command_id c) (\<lambda>_.
              andthen (verify_codemcp_command X project c) (\<lambda>_. ret c)))"

definition validate_file_size :: "ext \<Rightarrow> bridge_settings \<Rightarrow> string \<Rightarrow> ('z io_scheme, exn, nat) M" where
  "validate_file_size X S path =
     andthen (ask (FsCall ''stat'' path)) (\<lambda>h.
     case x_stat X h of
       None \<Rightarrow> raise (rejected ''FILE_NOT_FOUND'' ''file does not exist'')
     | Some (_, bytes_of_file) \<Rightarrow>
         if int bytes_of_file > po_max_file_bytes (bs_policy S)
         then raise (rejected_with ''FILE_TOO_LARGE'' ''file exceeds the configured size limit''
                (JObj [(''max_file_bytes'', JInt (po_max_file_bytes (bs_policy S)))]))
         else ret bytes_of_file)"

definition require_text_file :: "ext \<Rightarrow> string \<Rightarrow> ('z io_scheme, exn, unit) M" where
  "require_text_file X path =
     andthen (ask (FsCall ''read_sample'' path)) (\<lambda>h.
     case x_bytes X h of
       None \<Rightarrow> raise (rejected ''FILE_NOT_FOUND'' ''file cannot be read'')
     | Some content \<Rightarrow>
         require (nul \<notin> set (take 4096 content))
           (rejected ''BINARY_FILE'' ''binary files are not exposed by the Bridge''))"

definition require_regular_file :: "ext \<Rightarrow> string \<Rightarrow> ('z io_scheme, exn, unit) M" where
  "require_regular_file X path =
     andthen (fs_ask X ''exists'' path) (\<lambda>e.
     andthen (if e then fs_ask X ''is_file'' path else ret False) (\<lambda>f.
     require f (rejected ''FILE_NOT_FOUND'' ''a regular file is required'')))"

definition validate_pattern :: "string \<Rightarrow> ('s, exn, unit) M" where
  "validate_pattern pattern =
     require (pattern \<noteq> [] \<and> length pattern \<le> 500)
       (rejected ''INVALID_REQUEST'' ''pattern must be 1-500 characters'')"

section \<open>The generated configuration\<close>

definition GENERATED_HEADER :: string where
  "GENERATED_HEADER = ''# Generated temporarily by codemcp Bridge from the resolved project profile.''"

definition command_lines :: "string \<times> command_spec \<Rightarrow> string list" where
  "command_lines = (\<lambda>(command_id, c).
     [''[commands.'' @ quote command_id @ '']'',
      ''command = ['' @ join_with '', '' (map quote (cs_argv c)) @ '']'',
      ''doc = '' @ quote (''Bridge-resolved '' @ cs_kind c @ '' command''),
      []])"

definition render_generated_codemcp_config :: "project_spec \<Rightarrow> exn + string" where
  "render_generated_codemcp_config project =
     (if \<not> can_generate_codemcp_config project
      then Inl (ValueErr ''project is not eligible for generated codemcp configuration'')
      else Inr (join_with [lf]
        ([GENERATED_HEADER, []] @ concat (map command_lines (sort_key fst (p_commands project))))))"

definition generated_config_sha256 :: "ext \<Rightarrow> project_spec \<Rightarrow> exn + string" where
  "generated_config_sha256 X project =
     sum_bind (render_generated_codemcp_config project) (\<lambda>t. Inr (sha256_hex X t))"

definition config_detail :: json where
  "config_detail = JObj [(''path'', JStr GENERATED_CONFIG_NAME)]"

definition config_refused :: "string \<Rightarrow> exn" where
  "config_refused msg = rejected_with ''COMMAND_NOT_ALLOWED'' msg config_detail"

definition verify_existing_config ::
  "ext \<Rightarrow> string \<Rightarrow> command_spec option \<Rightarrow> ('z io_scheme, exn, unit) M" where
  "verify_existing_config X path wanted =
     (let unverified = rejected_with ''COMMAND_NOT_ALLOWED''
            ''project codemcp configuration cannot be verified during operation preparation''
            (case wanted of None \<Rightarrow> config_detail
             | Some c \<Rightarrow> jset config_detail ''command_id'' (JStr (cs_command_id c)))
      in
      andthen (ask (FsCall ''lstat'' path)) (\<lambda>h.
      case x_lstat X h of
        OtherEntry \<Rightarrow> raise (config_refused ''project codemcp configuration must be a regular file'')
      | RegularEntry \<Rightarrow>
          andthen (ask (FsCall ''load_toml'' path)) (\<lambda>h'.
          case x_toml X h' of
            Parsed config \<Rightarrow>
              (case wanted of
                 None \<Rightarrow> ret ()
               | Some c \<Rightarrow>
                   require (is_strings (configured_argv config (cs_command_id c)) (cs_argv c))
                     (rejected_with ''COMMAND_NOT_ALLOWED''
                       ''project codemcp configuration changed before command execution''
                       (JObj [(''command_id'', JStr (cs_command_id c))])))
          | _ \<Rightarrow> raise unverified)
      | _ \<Rightarrow> raise unverified))"

text \<open>\<open>finally\<close>: the file the bridge made is taken away again, if it still holds what was written.\<close>

definition config_unknown :: "string \<Rightarrow> exn" where
  "config_unknown msg = bridge_error ''UNKNOWN_SIDE_EFFECT'' msg config_detail False ''unknown''"

definition take_config_back :: "ext \<Rightarrow> string \<Rightarrow> string \<Rightarrow> ('z io_scheme, exn, unit) M" where
  "take_config_back X path expected_digest =
     andthen (ask (FsCall ''read_bytes'' path)) (\<lambda>h.
     case x_bytes X h of
       None \<Rightarrow> raise (config_unknown ''generated codemcp configuration disappeared before cleanup'')
     | Some current \<Rightarrow>
         if x_sha256 X current \<noteq> expected_digest
         then raise (config_unknown ''generated codemcp configuration changed during command execution'')
         else
           andthen (fs_ask X ''unlink'' path) (\<lambda>ok.
           require ok (config_unknown ''generated codemcp configuration could not be removed'')))"

text \<open>\<open>with materialize_generated_codemcp_config(project, command) as lease: body\<close>.\<close>

definition with_generated_config ::
  "ext \<Rightarrow> project_spec \<Rightarrow> command_spec option \<Rightarrow> (bool \<Rightarrow> string \<Rightarrow> ('z io_scheme, exn, 'a) M)
   \<Rightarrow> ('z io_scheme, exn, 'a) M" where
  "with_generated_config X project wanted body =
     (let path = p_codemcp_config project in
      andthen (ask (FsCall ''lstat'' path)) (\<lambda>h.
      case x_lstat X h of
        StatError \<Rightarrow> raise (config_refused ''project codemcp configuration cannot be inspected'')
      | NoEntry \<Rightarrow>
          andthen (require (can_generate_codemcp_config project)
            (rejected ''COMMAND_NOT_ALLOWED''
              ''project codemcp configuration is missing and cannot be generated'')) (\<lambda>_.
          andthen (lift_sum (render_generated_codemcp_config project)) (\<lambda>content.
          andthen (ask (FsWrite path (encode_str content))) (\<lambda>h'.
          case x_create X h' of
            AlreadyExists \<Rightarrow> raise (config_refused
              ''project codemcp configuration appeared during command preparation'')
          | CreateFailed \<Rightarrow> raise (config_refused
              ''generated codemcp configuration could not be materialized'')
          | Created \<Rightarrow>
              andthen
                (handle (body True path)
                  (\<lambda>e. andthen (take_config_back X path (sha256_hex X content)) (\<lambda>_. raise e)))
                (\<lambda>x. andthen (take_config_back X path (sha256_hex X content)) (\<lambda>_. ret x)))))
      | _ \<Rightarrow> andthen (verify_existing_config X path wanted) (\<lambda>_. body False path)))"

section \<open>Readiness\<close>

record readiness =
  rd_profile_id :: "string option"
  rd_profile_source :: string
  rd_candidates :: "string list"
  rd_ambiguous :: bool
  rd_available :: "string list"
  rd_matched :: "string list"
  rd_missing :: "string list"
  rd_mismatched :: "string list"
  rd_config_exists :: bool
  rd_config_valid :: bool
  rd_config_source :: string
  rd_config_ready :: bool
  rd_development_ready :: bool
  rd_issues :: "string list"

text \<open>\<open>_load_codemcp_commands\<close>: exists, valid, the table of the commands.\<close>

definition commands_of_file :: "toml_file \<Rightarrow> bool \<times> bool \<times> ttable" where
  "commands_of_file f =
     (case f of
        Missing \<Rightarrow> (False, False, [])
      | Parsed config \<Rightarrow>
          (case tget_or config ''commands'' (TTab []) of TTab cs \<Rightarrow> (True, True, cs) | _ \<Rightarrow> (True, False, []))
      | _ \<Rightarrow> (True, False, []))"

datatype alignment = Matched | MissingCommand | Mismatched

definition alignment_of :: "project_spec \<Rightarrow> ttable \<Rightarrow> string \<Rightarrow> alignment" where
  "alignment_of project configured_commands command_id =
     (case tget configured_commands command_id of
        None \<Rightarrow> MissingCommand
      | Some (TTab configured) \<Rightarrow>
          if is_strings (tget configured ''command'') (cs_argv (the (map_of (p_commands project) command_id)))
          then Matched else Mismatched
      | Some _ \<Rightarrow> Mismatched)"

definition aligned :: "project_spec \<Rightarrow> ttable \<Rightarrow> alignment \<Rightarrow> string list" where
  "aligned project configured_commands a =
     filter (\<lambda>command_id. alignment_of project configured_commands command_id = a)
       (sort (map fst (p_commands project)))"

definition has_quality_gate :: "project_spec \<Rightarrow> bool" where
  "has_quality_gate project = list_ex (\<lambda>(_, c). cs_kind c \<in> {''test'', ''verify''}) (p_commands project)"

definition config_issues :: "bool \<Rightarrow> bool \<Rightarrow> bool \<Rightarrow> string list \<Rightarrow> string list \<Rightarrow> string list" where
  "config_issues exists valid generated missing mismatched =
     (if \<not> exists \<and> \<not> generated then [''codemcp configuration file is missing'']
      else if exists \<and> \<not> valid then [''codemcp configuration file is invalid'']
      else if exists then
        (if missing \<noteq> [] then [''codemcp configuration is missing commands: '' @ join_with '', '' missing] else [])
        @ (if mismatched \<noteq> [] then
             [''codemcp command argv does not match resolved commands: '' @ join_with '', '' mismatched] else [])
      else [])"

definition readiness_of :: "project_spec \<Rightarrow> project_detection \<Rightarrow> toml_file \<Rightarrow> readiness" where
  "readiness_of project detection config_file =
     (let available = sort (map fst (p_commands project));
          (exists, valid, configured) = commands_of_file config_file;
          generated = (\<not> exists \<and> can_generate_codemcp_config project);
          matched = (if generated then available else if valid then aligned project configured Matched else []);
          missing = (if \<not> generated \<and> valid then aligned project configured MissingCommand else []);
          mismatched = (if \<not> generated \<and> valid then aligned project configured Mismatched else []);
          undecided = (d_ambiguous detection \<and> p_profile_source project = ''none'');
          ready = (generated \<or> (exists \<and> valid \<and> missing = [] \<and> mismatched = []))
      in \<lparr>rd_profile_id = p_profile project, rd_profile_source = p_profile_source project,
          rd_candidates = d_candidates detection, rd_ambiguous = d_ambiguous detection,
          rd_available = available, rd_matched = matched, rd_missing = missing, rd_mismatched = mismatched,
          rd_config_exists = exists, rd_config_valid = valid,
          rd_config_source = (if generated then ''generated'' else if exists \<and> valid then ''project''
            else if exists then ''invalid'' else ''missing''),
          rd_config_ready = ready,
          rd_development_ready =
            (available \<noteq> [] \<and> has_quality_gate project \<and> ready \<and> \<not> undecided),
          rd_issues =
            (if undecided then [''project metadata is ambiguous; set an explicit profile''] else [])
            @ (if available = [] then [''no development commands were resolved''] else [])
            @ (if available \<noteq> [] \<and> \<not> has_quality_gate project
               then [''no test or verify command is available''] else [])
            @ config_issues exists valid generated missing mismatched\<rparr>)"

definition inspect_development_readiness :: "ext \<Rightarrow> project_spec \<Rightarrow> ('z io_scheme, exn, readiness) M" where
  "inspect_development_readiness X project =
     andthen (detect_project_profile X (p_root project)) (\<lambda>detection.
     andthen (ask (FsCall ''load_toml'' (p_codemcp_config project))) (\<lambda>h.
     ret (readiness_of project detection (x_toml X h))))"

end
