(* ===== verification/Runner.thy ===== *)
theory Runner
  imports Registry
begin

text \<open>
  \<open>command_runner.py\<close>, \<open>worker_manager.py\<close> and \<open>codemcp_adapter.py\<close>: running a registered command with a
  fixed argument vector, and calling a codemcp tool on the worker of a project.  Starting, killing
  and talking to a process are calls of the outside world; a decoded output with a code point above
  255 is outside the model.
\<close>

section \<open>Registered commands\<close>

record command_run_result =
  cr_text :: string
  cr_is_error :: bool
  cr_truncated :: bool

text \<open>The environment of an invocation is the present one with \<open>PYTHONPATH\<close>, if it is given.\<close>

record command_invocation =
  ci_executable :: string
  ci_arguments :: "string list"
  ci_cwd :: "string option"
  ci_pythonpath :: "string option"

definition rstrip_slash :: "string \<Rightarrow> string" where
  "rstrip_slash s = rstrip_by (\<lambda>c. c = CHR ''/'') s"

definition migrate_legacy_wsl_bridge_command ::
  "ext \<Rightarrow> project_spec \<Rightarrow> string list \<Rightarrow> ('z io_scheme, exn, string list option) M" where
  "migrate_legacy_wsl_bridge_command X project argv =
     (case argv of
        [] \<Rightarrow> ret None
      | first # rest \<Rightarrow>
          andthen (fs_ask X ''is_file'' (join_path (join_path (p_root project) ''bridge'') ''pyproject.toml'')) (\<lambda>f.
          if \<not> f then ret None
          else
            (let executable = to_slashes first;
                 legacy_prefix = rstrip_slash (to_wsl_path (p_root project)) @ ''/.local/bridge-venv-wsl/bin/'';
                 uv = (\<lambda>tool. [''uv'', ''run'', ''--project'', join_path (p_root project) ''bridge'', tool] @ rest)
             in if executable = legacy_prefix @ ''python'' then ret (Some (uv ''python''))
                else if executable = legacy_prefix @ ''ruff'' then ret (Some (uv ''ruff''))
                else ret None)))"

text \<open>\<open>shutil.which\<close> and \<open>os.environ.get\<close>.\<close>

definition lookup :: "ext \<Rightarrow> string \<Rightarrow> string \<Rightarrow> ('z io_scheme, exn, string option) M" where
  "lookup X what name = andthen (ask (FsCall what name)) (\<lambda>h. ret (x_lookup X h))"

definition file_not_link :: "ext \<Rightarrow> string \<Rightarrow> string \<Rightarrow> ('z io_scheme, exn, bool) M" where
  "file_not_link X kind path =
     andthen (fs_ask X kind path) (\<lambda>b.
     if b then andthen (fs_ask X ''is_symlink'' path) (\<lambda>l. ret (\<not> l)) else ret False)"

definition python_argv ::
  "ext \<Rightarrow> project_spec \<Rightarrow> string \<Rightarrow> string list \<Rightarrow> ('z io_scheme, exn, string list) M" where
  "python_argv X project first rest =
     (let venv_python = join_path (join_path (join_path (p_root project) ''.venv'') ''Scripts'') ''python.exe'' in
      andthen (file_not_link X ''is_file'' venv_python) (\<lambda>venv.
      if venv then andthen (real_path X venv_python) (\<lambda>p. ret (p # rest))
      else
        andthen (lookup X ''which'' first) (\<lambda>resolved.
        case resolved of
          Some p \<Rightarrow> ret (p # rest)
        | None \<Rightarrow>
            andthen (lookup X ''which'' ''py'') (\<lambda>launcher.
            ret (case launcher of Some py \<Rightarrow> [py, ''-3''] @ rest | None \<Rightarrow> first # rest)))))"

text \<open>The argument vector on Windows; an empty one has no first element.\<close>

definition windows_argv :: "ext \<Rightarrow> project_spec \<Rightarrow> string list \<Rightarrow> ('z io_scheme, exn, string list) M" where
  "windows_argv X project argv =
     andthen (migrate_legacy_wsl_bridge_command X project argv) (\<lambda>migrated.
     case migrated of
       Some a \<Rightarrow> ret a
     | None \<Rightarrow>
         (case argv of
            [] \<Rightarrow> raise OtherErr
          | first # rest \<Rightarrow>
              if p_profile project = Some ''python'' \<and> lower first \<in> {''python'', ''python.exe''}
              then python_argv X project first rest
              else
                andthen (lookup X ''which'' first) (\<lambda>resolved.
                ret (case resolved of Some p \<Rightarrow> p # rest | None \<Rightarrow> argv))))"

definition pathsep :: "ext \<Rightarrow> string" where
  "pathsep X = (if x_windows X then '';'' else '':'')"

definition build_command_invocation ::
  "ext \<Rightarrow> bridge_settings \<Rightarrow> project_spec \<Rightarrow> command_spec \<Rightarrow> ('z io_scheme, exn, command_invocation) M" where
  "build_command_invocation X S project c =
     (let src_path = join_path (p_root project) ''src'' in
      andthen (if p_profile project = Some ''python'' \<and> cs_command_id c = ''test''
               then file_not_link X ''is_dir'' src_path else ret False) (\<lambda>python_src_test.
      if cm_worker_mode (bs_codemcp S) = ''wsl2'' \<and> x_windows X then
        ret \<lparr>ci_executable = ''wsl.exe'',
             ci_arguments = [''--distribution'', cm_wsl_distribution (bs_codemcp S), ''--cd'',
               to_wsl_path (p_root project), ''--'']
               @ (if python_src_test then [''/usr/bin/env'', ''PYTHONPATH=src''] else []) @ cs_argv c,
             ci_cwd = None, ci_pythonpath = None\<rparr>
      else
        andthen (if x_windows X then windows_argv X project (cs_argv c) else ret (cs_argv c)) (\<lambda>local_argv.
        andthen (if python_src_test then
                   andthen (lookup X ''environ'' ''PYTHONPATH'') (\<lambda>existing.
                   ret (Some (case existing of
                          None \<Rightarrow> src_path
                        | Some e \<Rightarrow> if e = [] then src_path else src_path @ pathsep X @ e)))
                 else ret None) (\<lambda>pythonpath.
        case local_argv of
          [] \<Rightarrow> raise OtherErr
        | executable # arguments \<Rightarrow>
            ret \<lparr>ci_executable = executable, ci_arguments = arguments, ci_cwd = Some (p_root project),
                 ci_pythonpath = pythonpath\<rparr>))))"

text \<open>\<open>_truncate_bytes\<close>: decoded with replacements when it fits, else cut and decoded without them.\<close>

definition truncate_bytes :: "bytes \<Rightarrow> nat \<Rightarrow> string \<times> bool" where
  "truncate_bytes v k =
     (if length v \<le> k then (map char_of (utf8_decode_with [65533] v), False)
      else (map char_of (utf8_decode_with [] (take k v)), True))"

text \<open>\<open>str.title\<close> of ASCII letters.\<close>

definition upper_char :: "char \<Rightarrow> char" where
  "upper_char c = (if 97 \<le> code c \<and> code c \<le> 122 then char_of (code c - 32) else c)"

fun title_from :: "bool \<Rightarrow> string \<Rightarrow> string" where
  "title_from inside [] = []"
| "title_from inside (c # cs) =
     (if is_alpha c then (if inside then lower_char c else upper_char c) # title_from True cs
      else c # title_from False cs)"

definition title :: "string \<Rightarrow> string" where
  "title s = title_from False s"

definition section_text :: "string \<Rightarrow> string \<Rightarrow> string" where
  "section_text name t = (if t \<noteq> [] then name @ '':'' @ [lf] @ t else name @ '': <empty>'')"

definition command_output ::
  "command_spec \<Rightarrow> nat \<Rightarrow> int \<Rightarrow> bytes \<Rightarrow> bytes \<Rightarrow> command_run_result" where
  "command_output c max_output returncode stdout_bytes stderr_bytes =
     (let (out, out_cut) = truncate_bytes stdout_bytes max_output;
          remaining = max_output - length (encode_str out);
          (err, err_cut) = truncate_bytes stderr_bytes remaining
      in if returncode \<noteq> 0 then
           \<lparr>cr_text = ''Error: '' @ title (cs_kind c) @ '' command failed with exit code ''
              @ decimal_int returncode @ '':'' @ [lf] @ section_text ''STDOUT'' out @ [lf]
              @ section_text ''STDERR'' err,
            cr_is_error = True, cr_truncated = (out_cut \<or> err_cut)\<rparr>
         else
           \<lparr>cr_text = ''Code '' @ cs_kind c @ '' successful:'' @ [lf]
              @ (if err = [] then out
                 else if out \<noteq> [] then out @ [lf] @ ''STDERR:'' @ [lf] @ err
                 else ''STDERR:'' @ [lf] @ err),
            cr_is_error = False, cr_truncated = (out_cut \<or> err_cut)\<rparr>)"

definition max_result :: "bridge_settings \<Rightarrow> nat" where
  "max_result S = nat (po_max_result_bytes (bs_policy S))"

definition run_command ::
  "ext \<Rightarrow> bridge_settings \<Rightarrow> project_spec \<Rightarrow> command_spec \<Rightarrow> ('z io_scheme, exn, command_run_result) M" where
  "run_command X S project c =
     andthen (build_command_invocation X S project c) (\<lambda>v.
     andthen (ask (RunCommand (ci_cwd v) (ci_executable v) (ci_arguments v) (ci_pythonpath v))) (\<lambda>h.
     ret (case x_run X h of
       RunSpawnFailed msg \<Rightarrow>
         \<lparr>cr_text = ''Error: '' @ title (cs_kind c) @ '' command could not be started: '' @ msg,
          cr_is_error = True, cr_truncated = False\<rparr>
     | RunTimedOut \<Rightarrow>
         \<lparr>cr_text = ''Error: '' @ title (cs_kind c) @ '' command timed out after ''
            @ x_format_g X (cs_timeout_seconds c) @ ''s'',
          cr_is_error = True, cr_truncated = False\<rparr>
     | RunExited rc out err \<Rightarrow> command_output c (max_result S) rc out err)))"

section \<open>Workers\<close>

record adapter_result =
  ar_text :: string
  ar_is_error :: bool
  ar_truncated :: bool

text \<open>\<open>_get_worker\<close>: the worker of a project is replaced when the project has changed; \<open>workers\<close> holds
  the project each worker was made for.\<close>

definition get_worker :: "ext \<Rightarrow> project_spec \<Rightarrow> ('z bridge_st_scheme, exn, unit) M" where
  "get_worker X project =
     andthen (gets (\<lambda>s. map_of (workers s) (p_project_id project))) (\<lambda>current.
     if current = Some project then ret ()
     else
       andthen (modify (\<lambda>s. s\<lparr>workers := AList.update (p_project_id project) project (workers s)\<rparr>)) (\<lambda>_.
       if current = None then ret ()
       else andthen (ask (FsCall ''close_worker'' (p_project_id project))) (\<lambda>_. ret ())))"

definition discard_worker :: "ext \<Rightarrow> string \<Rightarrow> ('z bridge_st_scheme, exn, unit) M" where
  "discard_worker X project_id =
     andthen (modify (\<lambda>s. s\<lparr>workers := AList.delete project_id (workers s)\<rparr>)) (\<lambda>_.
     andthen (ask (FsCall ''close_worker'' project_id)) (\<lambda>_. ret ()))"

definition worker_details :: "string \<Rightarrow> string \<Rightarrow> json" where
  "worker_details subtool project_id =
     JObj [(''subtool'', JStr subtool), (''project_id'', JStr project_id)]"

definition worker_call ::
  "ext \<Rightarrow> project_spec \<Rightarrow> string \<Rightarrow> json \<Rightarrow> bool \<Rightarrow> ('z bridge_st_scheme, exn, adapter_result) M" where
  "worker_call X project subtool arguments mutation =
     andthen (get_worker X project) (\<lambda>_.
     andthen (ask (WorkerCall (p_project_id project) subtool arguments)) (\<lambda>h.
     case x_worker X h of
       WorkerResult t e \<Rightarrow> ret \<lparr>ar_text = t, ar_is_error = e, ar_truncated = False\<rparr>
     | WorkerCancelled \<Rightarrow> andthen (discard_worker X (p_project_id project)) (\<lambda>_. raise Cancelled)
     | WorkerTimeout \<Rightarrow> andthen (discard_worker X (p_project_id project)) (\<lambda>_.
         raise (bridge_error (if mutation then ''UNKNOWN_SIDE_EFFECT'' else ''BACKEND_UNAVAILABLE'')
           ''codemcp worker timed out'' (worker_details subtool (p_project_id project)) (\<not> mutation)
           (if mutation then ''unknown'' else ''failed'')))
     | WorkerBridgeErr e \<Rightarrow> andthen (discard_worker X (p_project_id project)) (\<lambda>_. raise (BridgeErr e))
     | WorkerFailed \<Rightarrow> andthen (discard_worker X (p_project_id project)) (\<lambda>_.
         raise (bridge_error ''BACKEND_UNAVAILABLE'' ''codemcp worker is unavailable''
           (JObj [(''project_id'', JStr (p_project_id project)), (''subtool'', JStr subtool)]) True ''failed''))))"

text \<open>\<open>CodemcpAdapter.call\<close>; a path among the arguments is mapped for the worker.\<close>

definition adapter_call ::
  "ext \<Rightarrow> bridge_settings \<Rightarrow> project_spec \<Rightarrow> string \<Rightarrow> string \<Rightarrow> (string \<times> json) list \<Rightarrow> bool
   \<Rightarrow> ('z bridge_st_scheme, exn, adapter_result) M" where
  "adapter_call X S project subtool path arguments mutation =
     andthen (worker_call X project subtool
       (JObj ((''path'', JStr (worker_path X S path)) # arguments)) mutation) (\<lambda>r.
     case truncate_text (ar_text r) (max_result S) of
       (t, cut_off) \<Rightarrow> ret (r\<lparr>ar_text := t, ar_truncated := (ar_truncated r \<or> cut_off)\<rparr>))"

definition worker_active :: "ext \<Rightarrow> string \<Rightarrow> ('z bridge_st_scheme, exn, bool) M" where
  "worker_active X project_id =
     andthen (gets (\<lambda>s. map_of (workers s) project_id)) (\<lambda>w.
     if w = None then ret False else fs_ask X ''worker_alive'' project_id)"

definition close_workers :: "ext \<Rightarrow> ('z bridge_st_scheme, exn, unit) M" where
  "close_workers X =
     andthen (gets (\<lambda>s. map fst (workers s))) (\<lambda>ids.
     andthen (modify (\<lambda>s. s\<lparr>workers := []\<rparr>)) (\<lambda>_.
     for_each ids (\<lambda>pid. andthen (ask (FsCall ''close_worker'' pid)) (\<lambda>_. ret ()))))"

end
