(* ===== verification/Questions.thy ===== *)
theory Questions
  imports Policy Runner Calls
begin

text \<open>
  Methods that only ask.  An order on states that allows every question to the file system is
  respected by the configuration loader, the registry and the policy; the locale proves this once,
  for the orders that keep the tables and for the one that watches the mutation lock.
\<close>

text \<open>The questions to the platform that change something: a file, a directory or a child process.\<close>

definition WRITES :: "string list" where
  "WRITES = [''mkstemp'', ''replace'', ''unlink'', ''mkdir'', ''rmdir'', ''kill_child'']"

locale asking_order = call_order R P for R :: "'z io_scheme \<Rightarrow> 'z io_scheme \<Rightarrow> bool" and P +
  assumes questions: "what \<notin> set WRITES \<Longrightarrow> P (FsCall what p)"
begin

lemma question_obeys: "what \<notin> set WRITES \<Longrightarrow> obeys R (ask (FsCall what p))"
  by (rule asked_obeys) (rule questions)

lemma fs_question_obeys: "what \<notin> set WRITES \<Longrightarrow> obeys R (fs_ask X what p)"
  by (rule fs_ask_obeys) (rule questions)

lemma each_question_obeys:
  "obeys R (ask (FsCall ''resolve'' p))" "obeys R (ask (FsCall ''is_absolute'' p))"
  "obeys R (ask (FsCall ''load_toml'' p))" "obeys R (ask (FsCall ''stat'' p))"
  "obeys R (ask (FsCall ''lstat'' p))" "obeys R (ask (FsCall ''kind'' p))"
  "obeys R (ask (FsCall ''iterdir'' p))" "obeys R (ask (FsCall ''lstat_regular'' p))"
  "obeys R (ask (FsCall ''read_text'' p))" "obeys R (ask (FsCall ''read_text_ignore'' p))"
  "obeys R (ask (FsCall ''read_sample'' p))" "obeys R (ask (FsCall ''read_bytes'' p))"
  "obeys R (ask (FsCall ''which'' p))" "obeys R (ask (FsCall ''environ'' p))"
  "obeys R (ask (FsCall ''close_worker'' p))"
  "obeys R (fs_ask X ''exists'' p)" "obeys R (fs_ask X ''is_symlink'' p)"
  "obeys R (fs_ask X ''is_reparse_point'' p)" "obeys R (fs_ask X ''is_dir'' p)"
  "obeys R (fs_ask X ''is_file'' p)" "obeys R (fs_ask X ''worker_alive'' p)"
  by (rule question_obeys fs_question_obeys, simp add: WRITES_def)+

lemmas file_intros = obeys_intros each_question_obeys

lemma fs_text_obeys:
  "obeys R (fs_text X ''expanduser'' p)" "obeys R (fs_text X ''resolve'' p)" "obeys R (fs_text X ''parent'' p)"
  unfolding fs_text_def by (intro obeys_intros question_obeys; simp add: WRITES_def)+

lemma real_path_obeys: "obeys R (real_path X p)"
  unfolding real_path_def by (intro file_intros)

lemma read_toml_obeys: "obeys R (read_toml X path)"
  unfolding read_toml_def by (intro file_intros) (auto split: toml_file.split intro: file_intros)

lemma resolve_config_path_obeys: "obeys R (resolve_config_path X base v name)"
  unfolding resolve_config_path_def
  by (auto split: option.split toml.split intro!: file_intros fs_text_obeys)

lemma present_markers_obeys: "obeys R (present_markers X root ms)"
  by (induction ms) (auto simp: is_regular_marker_def intro!: file_intros)

lemma find_profiles_obeys: "obeys R (find_profiles X root need_all ms acc)"
  by (induction X root need_all ms acc rule: find_profiles.induct)
    (auto intro!: file_intros present_markers_obeys)

lemma resolve_project_profile_obeys: "obeys R (resolve_project_profile X root e)"
  unfolding resolve_project_profile_def detect_project_profile_def
  by (intro file_intros find_profiles_obeys)

lemma apply_defaults_obeys: "obeys R (apply_profile_root_command_defaults X root profile cs)"
  unfolding apply_profile_root_command_defaults_def Let_def is_regular_marker_def by (intro file_intros)

lemma parse_project_obeys: "obeys R (parse_project X base pid v)"
  unfolding parse_project_def Let_def
  by (intro file_intros resolve_config_path_obeys resolve_project_profile_obeys apply_defaults_obeys)

lemma parse_projects_obeys: "obeys R (parse_projects X base ps)"
  by (induction ps) (auto intro!: file_intros parse_project_obeys)

lemma load_projects_obeys: "obeys R (load_projects X path)"
  unfolding load_projects_def
  by (intro file_intros fs_text_obeys read_toml_obeys parse_projects_obeys)

lemma projects_config_fingerprint_obeys: "obeys R (projects_config_fingerprint X path)"
  unfolding projects_config_fingerprint_def by (intro file_intros)

lemma changed_root_obeys: "obeys R (changed_root X ps candidate)"
  by (induction ps) (auto split: option.split intro!: file_intros real_path_obeys)

lemma try_settings_obeys: "obeys R m \<Longrightarrow> obeys R (try_settings m)"
  unfolding try_settings_def by (intro file_intros) (auto split: exn.split intro: file_intros)

lemma link_below_obeys: "obeys R (link_below X current parts)"
  by (induction parts arbitrary: current) (auto simp: Let_def intro!: file_intros)

lemma link_on_path_obeys: "obeys R (link_on_path X root parts)"
  unfolding link_on_path_def by (intro file_intros link_below_obeys)

lemma path_kind_obeys: "obeys R (path_kind X p)"
  unfolding path_kind_def by (intro file_intros)

lemma relative_path_obeys: "obeys R (relative_path X project p)"
  unfolding relative_path_def by (intro file_intros real_path_obeys)

lemma safe_search_paths_obeys: "obeys R (safe_search_paths X project target)"
  unfolding safe_search_paths_def by (intro file_intros path_kind_obeys)

lemma safe_directory_tree_obeys: "obeys R (safe_directory_tree X project target k)"
  unfolding safe_directory_tree_def by (intro file_intros relative_path_obeys)


section \<open>Policy and commands\<close>

lemma inspect_project_obeys: "obeys R (inspect_project X project b)"
  unfolding inspect_project_def require_allowed_branch_def
  by (intro file_intros require_worktree_root_obeys git_status_obeys)

lemma require_mutation_preconditions_obeys: "obeys R (require_mutation_preconditions X S project b)"
  unfolding require_mutation_preconditions_def require_clean_workspace_def
  by (intro file_intros inspect_project_obeys)

lemma file_checks_obey:
  "obeys R (validate_file_size X S p)" "obeys R (require_text_file X p)" "obeys R (require_regular_file X p)"
  unfolding validate_file_size_def require_text_file_def require_regular_file_def by (intro file_intros)+

lemma inspect_development_readiness_obeys: "obeys R (inspect_development_readiness X project)"
  unfolding inspect_development_readiness_def detect_project_profile_def
  by (intro file_intros find_profiles_obeys)

lemma legacy_command_obeys: "obeys R (migrate_legacy_wsl_bridge_command X project argv)"
  unfolding migrate_legacy_wsl_bridge_command_def Let_def
  by (cases argv) (auto intro!: file_intros)

lemma lookup_obeys: "obeys R (lookup X ''which'' p)" "obeys R (lookup X ''environ'' p)"
  unfolding lookup_def by (intro file_intros)+

lemma file_not_link_obeys: "obeys R (file_not_link X ''is_file'' p)" "obeys R (file_not_link X ''is_dir'' p)"
  unfolding file_not_link_def by (intro file_intros)+

lemma python_argv_obeys: "obeys R (python_argv X project first rest)"
  unfolding python_argv_def Let_def
  by (intro file_intros file_not_link_obeys lookup_obeys real_path_obeys)

lemma windows_argv_obeys: "obeys R (windows_argv X project argv)"
  unfolding windows_argv_def
  by (cases argv) (auto intro!: file_intros legacy_command_obeys python_argv_obeys lookup_obeys)

lemma build_command_invocation_obeys: "obeys R (build_command_invocation X S project c)"
  unfolding build_command_invocation_def Let_def
  by (auto intro!: file_intros file_not_link_obeys windows_argv_obeys lookup_obeys split: list.split)

end

text \<open>An order that a longer log does not disturb allows every question.\<close>

sublocale log_order \<subseteq> asks: asking_order R "\<lambda>_. True"
  by unfold_locales simp

end
