(* ===== verification/RegistrySpec.thy ===== *)
theory RegistrySpec
  imports Questions SettingsSpec
begin

text \<open>
  What the registry promises: a reload installs a whole validated project file or nothing, an
  authorized path is inside its project and free of sensitive names and links, the bounded walk
  lists exactly the first entries of the visible tree, and a search never reaches an excluded entry
  and misses no safe file.
\<close>

section \<open>The visible tree\<close>

text \<open>The specification of the listing: the entries a client may see, each directory before what it
  holds, in the order of the names.\<close>

definition shown :: "string \<Rightarrow> string \<Rightarrow> string \<Rightarrow> node \<Rightarrow> bool" where
  "shown base name rel x \<longleftrightarrow> \<not> hidden name \<and> \<not> node_link x \<and> \<not> is_sensitive (child_of base rel)
     \<and> node_kind x \<in> {IsDir, IsFile}"

definition below :: "node \<Rightarrow> (string \<times> node) list" where
  "below x = (if node_kind x = IsDir then (case node_children x of None \<Rightarrow> [] | Some es \<Rightarrow> es) else [])"

lemma weight_below [simp]: "weight (below x) < node_weight x"
  by (cases x) (auto simp: below_def split: option.splits)

function (sequential) listing :: "string \<Rightarrow> string \<Rightarrow> (string \<times> node) list \<Rightarrow> (string \<times> bool) list" where
  "listing base up [] = []"
| "listing base up ((name, x) # rest) =
     (let rel = child_of up name in
      (if shown base name rel x
       then (rel, node_kind x = IsDir) # listing base rel (visit_order (below x)) else [])
      @ listing base up rest)"
  by pat_completeness auto
termination
  by (relation "measure (\<lambda>(base, up, es). weight es)")
    (auto simp: visit_order_def intro: less_le_trans [OF weight_below])

definition item_entries :: "string \<Rightarrow> string \<times> string \<times> node \<Rightarrow> (string \<times> bool) list" where
  "item_entries base item = (case item of (name, rel, x) \<Rightarrow>
     if shown base name rel x
     then (rel, node_kind x = IsDir) # listing base rel (visit_order (below x)) else [])"

lemma item_entries_shown:
  "shown base name rel x \<Longrightarrow>
     item_entries base (name, rel, x) = (rel, node_kind x = IsDir) # listing base rel (visit_order (below x))"
  by (simp add: item_entries_def)

lemma push_entries: "concat (map (item_entries base) (push up es)) = listing base up (visit_order es)"
proof -
  have "concat (map (item_entries base) (map (\<lambda>(name, x). (name, child_of up name, x)) xs))
      = listing base up xs" for xs
    by (induction base up xs rule: listing.induct) (auto simp: item_entries_def Let_def)
  then show ?thesis by (simp add: push_def)
qed

text \<open>The loop computes a prefix of the specification, and says whether anything is missing.\<close>

lemma walk_listing:
  "length entries \<le> k \<Longrightarrow>
   walk k base stack entries =
     (let all = entries @ concat (map (item_entries base) stack) in (take k all, k < length all))"
proof (induction k base stack entries rule: walk.induct)
  case (1 k base entries)
  then show ?case by simp
next
  case (2 k base name rel link kind children stack entries)
  let ?x = "Node link kind children"
  show ?case
  proof (cases "shown base name rel ?x")
    case False
    with 2 show ?thesis by (auto simp: shown_def item_entries_def)
  next
    case shown: True
    then have x: "\<not> hidden name" "\<not> link" "\<not> is_sensitive (child_of base rel)" "kind = IsDir \<or> kind = IsFile"
      by (auto simp: shown_def)
    show ?thesis
    proof (cases "k \<le> length entries")
      case True
      with 2(7) have k: "k = length entries" by linarith
      with x shown show ?thesis by (auto simp: item_entries_def)
    next
      case room: False
      show ?thesis
      proof (cases "kind = IsDir")
        case regular: False
        with x room 2 shown show ?thesis by (simp add: item_entries_def below_def visit_order_def by_name_reverse_def by_name_def Let_def)
      next
        case dir: True
        show ?thesis
        proof (cases children)
          case None
          with x room 2 shown dir show ?thesis
            by (simp add: item_entries_def below_def visit_order_def by_name_reverse_def by_name_def Let_def)
        next
          case (Some nested)
          with x room 2 shown dir show ?thesis
            by (simp add: item_entries_shown below_def push_entries Let_def)
        qed
      qed
    qed
  qed
qed

text \<open>The paths the specification lists, described without an order: an entry is reached through
  directories that are all shown.\<close>

inductive visible :: "string \<Rightarrow> string \<Rightarrow> (string \<times> node) list \<Rightarrow> string \<Rightarrow> node \<Rightarrow> bool" for base where
  here: "(name, x) \<in> set es \<Longrightarrow> shown base name (child_of up name) x \<Longrightarrow>
     visible base up es (child_of up name) x"
| inner: "(name, x) \<in> set es \<Longrightarrow> shown base name (child_of up name) x \<Longrightarrow>
     visible base (child_of up name) (below x) rel y \<Longrightarrow> visible base up es rel y"

inductive_simps visible_iff: "visible base up es rel y"

lemma set_visit_order [simp]: "set (visit_order es) = set es"
  by (simp add: visit_order_def)

lemma visible_cong: "set es = set fs \<Longrightarrow> visible base up es rel y = visible base up fs rel y"
  by (subst visible_iff, subst (2) visible_iff) simp

lemma visible_Nil [simp]: "\<not> visible base up [] rel y"
  by (subst visible_iff) simp

lemma visible_Cons:
  "visible base up ((name, x) # es) rel y \<longleftrightarrow>
     (shown base name (child_of up name) x
        \<and> (rel = child_of up name \<and> y = x \<or> visible base (child_of up name) (below x) rel y))
     \<or> visible base up es rel y"
  by (subst visible_iff, subst (2) visible_iff) auto

lemma set_listing:
  "set (listing base up es) = {(rel, node_kind y = IsDir) | rel y. visible base up es rel y}"
proof (induction base up es rule: listing.induct)
  case (1 base up)
  then show ?case by simp
next
  case (2 base up name x rest)
  let ?rel = "child_of up name"
  have inner: "set (listing base ?rel (visit_order (below x)))
      = {(rel, node_kind y = IsDir) | rel y. visible base ?rel (below x) rel y}"
    if "shown base name ?rel x"
    using 2(1) [OF refl that] visible_cong [of "visit_order (below x)" "below x"] by simp
  show ?case
    using 2(2) inner by (auto simp: visible_Cons Let_def)
qed

text \<open>C38: \<open>safe_directory_tree\<close> refines its specification.  When the target can be read it returns the
  first \<open>max_entries\<close> entries of the listing and says whether there are more, and the listing
  shows exactly the visible entries: those reached through directories, none of them hidden, sensitive,
  linked or unreadable as a kind, and themselves shown.  It fails only for a limit of zero or
  when the target cannot be listed.\<close>

theorem directory_tree_refines_listing:
  "case safe_directory_tree X project target k s of
     (Inr (entries, truncated), s') \<Rightarrow>
       \<exists>children. x_tree X (FsCall ''iterdir'' target # log s) = Some children
         \<and> (let base = lexical_relative (p_root project) target;
                all = listing base [] (visit_order children)
            in entries = take k all \<and> truncated = (k < length all)
               \<and> set all = {(rel, node_kind y = IsDir) | rel y. visible base [] children rel y})
   | (Inl e, s') \<Rightarrow> k = 0 \<or> x_tree X (FsCall ''iterdir'' target # log s) = None"
proof (cases "k = 0 \<or> x_tree X (FsCall ''iterdir'' target # log s) = None")
  case True
  then show ?thesis
    by (auto simp: safe_directory_tree_def relative_path_def andthen_def raise_def ret_def
        split: sum.split prod.split option.split)
next
  case False
  then obtain children where k: "0 < k" and
    children: "x_tree X (FsCall ''iterdir'' target # log s) = Some children" by auto
  let ?base = "lexical_relative (p_root project) target"
  have "set (listing ?base [] (visit_order children)) = {(rel, node_kind y = IsDir) | rel y. visible ?base [] children rel y}"
    using set_listing visible_cong [of "visit_order children" children] by simp
  with k children show ?thesis
    by (simp add: safe_directory_tree_def andthen_def ret_apply walk_listing push_entries Let_def)
qed

section \<open>Searching\<close>

text \<open>The entries a search below a directory can come to: everything but the metadata of Git.\<close>

inductive found :: "string \<Rightarrow> string \<Rightarrow> (string \<times> node) list \<Rightarrow> string \<Rightarrow> string \<Rightarrow> node \<Rightarrow> bool" where
  found_here: "(name, x) \<in> set es \<Longrightarrow> lower name \<noteq> ''.git'' \<Longrightarrow>
     found base target es (join_path target name) (child_of base name) x"
| found_inner: "(name, x) \<in> set es \<Longrightarrow> lower name \<noteq> ''.git'' \<Longrightarrow> \<not> node_link x \<Longrightarrow>
     \<not> is_sensitive (child_of base name) \<Longrightarrow>
     found (child_of base name) (join_path target name) (below x) p r y \<Longrightarrow> found base target es p r y"

inductive_simps found_iff: "found base target es p r y"

text \<open>An entry that must not be searched: a link, a sensitive name, something that is neither a file nor
  a directory, or a directory that cannot be listed.\<close>

definition excluded :: "string \<Rightarrow> node \<Rightarrow> bool" where
  "excluded r x \<longleftrightarrow> node_link x \<or> is_sensitive r \<or> node_kind x \<notin> {IsDir, IsFile}
     \<or> (node_kind x = IsDir \<and> node_children x = None)"

lemma found_Nil [simp]: "\<not> found base target [] p r y"
  by (subst found_iff) simp

lemma found_Cons:
  "found base target ((name, x) # es) p r y \<longleftrightarrow>
     (lower name \<noteq> ''.git''
        \<and> (p = join_path target name \<and> r = child_of base name \<and> y = x
           \<or> \<not> node_link x \<and> \<not> is_sensitive (child_of base name)
             \<and> found (child_of base name) (join_path target name) (below x) p r y))
     \<or> found base target es p r y"
  by (subst found_iff, subst (2) found_iff) auto

lemma found_cong: "set es = set fs \<Longrightarrow> found base target es p r y = found base target fs p r y"
  by (subst found_iff, subst (2) found_iff) simp

text \<open>A root of a search covers itself and what is found below it.\<close>

definition covers :: "string \<times> string \<times> node \<Rightarrow> string \<Rightarrow> string \<Rightarrow> node \<Rightarrow> bool" where
  "covers root p r y \<longleftrightarrow> (case root of (q, r', x) \<Rightarrow>
     (p, r, y) = (q, r', x) \<or> found r' q (below x) p r y)"

definition clean_below :: "string \<times> string \<times> node \<Rightarrow> bool" where
  "clean_below root \<longleftrightarrow> (case root of (q, r', x) \<Rightarrow>
     \<forall>p r y. found r' q (below x) p r y \<longrightarrow> \<not> excluded r y)"

definition roots_ok :: "string \<Rightarrow> string \<Rightarrow> (string \<times> node) list \<Rightarrow> (string \<times> string \<times> node) list \<Rightarrow> bool" where
  "roots_ok base target es roots \<longleftrightarrow>
     (\<forall>(q, r, x) \<in> set roots. clean_below (q, r, x) \<and> found base target es q r x \<and> \<not> excluded r x)
     \<and> (\<forall>p r y. found base target es p r y \<and> node_kind y = IsFile \<and> \<not> excluded r y
          \<longrightarrow> (\<exists>root \<in> set roots. covers root p r y))"

definition searched :: "string \<Rightarrow> string \<Rightarrow> (string \<times> node) list \<Rightarrow> string list \<Rightarrow> bool \<Rightarrow> bool" where
  "searched base target es paths ex \<longleftrightarrow>
     (ex \<longleftrightarrow> (\<exists>p r y. found base target es p r y \<and> excluded r y))
     \<and> (\<exists>roots. paths = map fst roots \<and> roots_ok base target es roots)"

lemma searched_permuted:
  assumes "set es = set fs"
  shows "searched base target es ps ex = searched base target fs ps ex"
proof -
  have "found base target es = found base target fs"
    using found_cong [OF assms] by (intro ext)
  then show ?thesis by (simp add: searched_def roots_ok_def)
qed

text \<open>Adding one entry to a searched list: skipped, left out, a file, or a directory.\<close>

lemma searched_skip:
  "searched base target rest ps ex \<Longrightarrow> lower name = ''.git'' \<Longrightarrow> searched base target ((name, x) # rest) ps ex"
  by (simp add: searched_def roots_ok_def found_Cons)

lemma found_below_none:
  "node_kind x \<noteq> IsDir \<or> node_children x = None \<Longrightarrow> \<not> found b t (below x) p r y"
  by (cases "node_children x") (auto simp: below_def)

lemma searched_out:
  assumes "searched base target rest ps ex" and "lower name \<noteq> ''.git''"
    and "excluded (child_of base name) x"
    and "node_kind x \<noteq> IsDir \<or> node_children x = None \<or> node_link x \<or> is_sensitive (child_of base name)"
  shows "searched base target ((name, x) # rest) ps True"
proof -
  have same: "found base target ((name, x) # rest) p r y \<longleftrightarrow>
      (p = join_path target name \<and> r = child_of base name \<and> y = x) \<or> found base target rest p r y" for p r y
    using assms(2,4) found_below_none [of x] unfolding found_Cons by blast
  show ?thesis
    using assms(1,3) unfolding searched_def roots_ok_def same by blast
qed

lemma searched_file:
  assumes "searched base target rest ps ex" and "lower name \<noteq> ''.git''"
    and "\<not> node_link x" "\<not> is_sensitive (child_of base name)" "node_kind x = IsFile"
  shows "searched base target ((name, x) # rest) (join_path target name # ps) ex"
proof -
  let ?r = "(join_path target name, child_of base name, x)"
  have good: "\<not> excluded (child_of base name) x" using assms by (simp add: excluded_def)
  have below: "below x = []" using assms by (simp add: below_def)
  have same: "found base target ((name, x) # rest) p r y \<longleftrightarrow>
      (p = join_path target name \<and> r = child_of base name \<and> y = x) \<or> found base target rest p r y" for p r y
    using assms(2) below by (auto simp: found_Cons)
  from assms(1) obtain roots where roots: "ps = map fst roots" "roots_ok base target rest roots"
    and ex: "ex \<longleftrightarrow> (\<exists>p r y. found base target rest p r y \<and> excluded r y)" by (auto simp: searched_def)
  have "roots_ok base target ((name, x) # rest) (?r # roots)"
    using roots(2) good below unfolding roots_ok_def same by (auto simp: clean_below_def covers_def)
  then show ?thesis using roots(1) ex good unfolding searched_def same
    by (intro conjI exI [of _ "?r # roots"]) auto
qed

lemma searched_dir:
  assumes "searched base target rest ps ex" and "lower name \<noteq> ''.git''"
    and "\<not> node_link x" "\<not> is_sensitive (child_of base name)" "node_kind x = IsDir" "node_children x = Some es"
    and inner: "searched (child_of base name) (join_path target name) es ps' ex'"
  shows "searched base target ((name, x) # rest)
    ((if ex' then ps' else [join_path target name]) @ ps) (ex' \<or> ex)"
proof -
  let ?p = "join_path target name" and ?b = "child_of base name"
  let ?r = "(?p, ?b, x)"
  have good: "\<not> excluded ?b x" using assms by (simp add: excluded_def)
  have below: "below x = es" using assms by (simp add: below_def)
  have same: "found base target ((name, x) # rest) p r y \<longleftrightarrow>
      (p = ?p \<and> r = ?b \<and> y = x) \<or> found ?b ?p es p r y \<or> found base target rest p r y" for p r y
    using assms(2,3,4) below by (auto simp: found_Cons)
  from assms(1) obtain roots where roots: "ps = map fst roots" "roots_ok base target rest roots"
    and ex: "ex \<longleftrightarrow> (\<exists>p r y. found base target rest p r y \<and> excluded r y)" by (auto simp: searched_def)
  from inner obtain iroots where iroots: "ps' = map fst iroots" "roots_ok ?b ?p es iroots"
    and ex': "ex' \<longleftrightarrow> (\<exists>p r y. found ?b ?p es p r y \<and> excluded r y)" by (auto simp: searched_def)
  define new where "new = (if ex' then iroots else [?r])"
  have "roots_ok base target ((name, x) # rest) (new @ roots)"
  proof (cases ex')
    case True
    have dir: "node_kind x \<noteq> IsFile" using assms(5) by simp
    show ?thesis using roots(2) iroots(2) True dir unfolding roots_ok_def same new_def
      by (simp add: ball_Un) blast
  next
    case False
    then have clean: "clean_below ?r" using ex' below by (auto simp: clean_below_def)
    show ?thesis using roots(2) False good clean assms(5) below unfolding roots_ok_def same new_def
      by (auto simp: covers_def)
  qed
  moreover have "(if ex' then ps' else [?p]) @ ps = map fst (new @ roots)"
    using roots(1) iroots(1) by (simp add: new_def)
  ultimately show ?thesis using ex ex' good unfolding searched_def same by blast
qed

lemma search_correct:
  "search_dir base target children = (ps, ex) \<Longrightarrow>
     case children of
       None \<Rightarrow> ps = [] \<and> ex
     | Some es \<Rightarrow> \<exists>qs. searched base target es qs ex \<and> ps = (if ex then qs else [target])"
  "search_entries base target es = (qs, ex') \<Longrightarrow> searched base target es qs ex'"
proof (induction base target children and base target es arbitrary: ps ex and qs ex' rule: search_dir_search_entries.induct)
  case (1 base target)
  then show ?case by simp
next
  case (2 base target entries)
  then obtain qs where run: "search_entries base target (by_name entries) = (qs, ex)"
    and ps: "ps = (if ex then qs else [target])" by (auto split: prod.splits if_splits)
  from 2(1) [OF run] have "searched base target entries qs ex"
    using searched_permuted [of "by_name entries" entries] by simp
  with ps show ?case by auto
next
  case (3 base target)
  then show ?case by (simp add: searched_def roots_ok_def)
next
  case (4 base target name link kind children rest)
  let ?x = "Node link kind children"
  obtain safe exc where rest: "search_entries base target rest = (safe, exc)" by fastforce
  note IH = 4(1) [OF rest]
  show ?case
  proof (cases "lower name = ''.git''")
    case True
    with 4(3) rest IH show ?thesis by (auto intro: searched_skip)
  next
    case name: False
    show ?thesis
    proof (cases "link \<or> is_sensitive (child_of base name)")
      case True
      then have "excluded (child_of base name) ?x" by (auto simp: excluded_def)
      with True 4(3) rest name IH show ?thesis by (auto intro!: searched_out)
    next
      case plain: False
      show ?thesis
      proof (cases kind)
        case IsDir
        obtain cs ce where dir: "search_dir (child_of base name) (join_path target name) children = (cs, ce)"
          by fastforce
        have run: "qs = cs @ safe" "ex' = (ce \<or> exc)"
          using 4(3) rest name plain IsDir dir by auto
        note IHd = 4(2) [OF rest [symmetric] name plain IsDir dir]
        show ?thesis
        proof (cases children)
          case None
          then have "excluded (child_of base name) ?x" using IsDir by (auto simp: excluded_def)
          moreover have "cs = []" "ce" using IHd None by auto
          ultimately show ?thesis using run IH name None IsDir by (auto intro!: searched_out)
        next
          case (Some es)
          with IHd obtain qs' where "searched (child_of base name) (join_path target name) es qs' ce"
            "cs = (if ce then qs' else [join_path target name])" by auto
          with searched_dir [of base target rest safe exc name ?x es qs' ce] IH name plain IsDir Some run
          show ?thesis by auto
        qed
      next
        case IsFile
        with 4(3) rest name plain IH show ?thesis by (auto intro!: searched_file)
      next
        case IsOther
        then have "excluded (child_of base name) ?x" by (auto simp: excluded_def)
        with IsOther 4(3) rest name plain IH show ?thesis by (auto intro!: searched_out)
      next
        case KindError
        then have "excluded (child_of base name) ?x" by (auto simp: excluded_def)
        with KindError 4(3) rest name plain IH show ?thesis by (auto intro!: searched_out)
      qed
    qed
  qed
qed

text \<open>C39: a code search never reaches an excluded entry and misses no safe file.  Whatever the directory
  holds, the search paths of a directory are the paths of roots such that nothing a search finds below a
  root is a link, sensitive, of another kind or unreadable, every root is either the whole target or an
  entry found below it that is not excluded itself, and every file found below the target that is not
  excluded is covered by some root.\<close>

theorem search_roots_exact:
  assumes "x_kind X (FsCall ''kind'' target # log s) = IsDir"
    and "x_tree X (FsCall ''iterdir'' target # FsCall ''kind'' target # log s) = Some es"
  shows "\<exists>paths s' roots. safe_search_paths X project target s = (Inr paths, s') \<and> paths = map fst roots
    \<and> (let base = lexical_relative (p_root project) target in
         (\<forall>root \<in> set roots. clean_below root)
       \<and> (roots = [(target, base, Node False IsDir (Some es))]
          \<or> (\<forall>(q, r, x) \<in> set roots. found base target es q r x \<and> \<not> excluded r x))
       \<and> (\<forall>p r y. found base target es p r y \<and> node_kind y = IsFile \<and> \<not> excluded r y
            \<longrightarrow> (\<exists>root \<in> set roots. covers root p r y)))"
proof -
  let ?base = "lexical_relative (p_root project) target"
  let ?top = "(target, ?base, Node False IsDir (Some es))"
  obtain ps ex where run: "search_dir ?base target (Some es) = (ps, ex)" by fastforce
  from search_correct(1) [OF this] obtain qs where qs: "searched ?base target es qs ex"
    and ps: "ps = (if ex then qs else [target])" by auto
  from qs obtain roots where roots: "qs = map fst roots" "roots_ok ?base target es roots"
    and ex: "ex \<longleftrightarrow> (\<exists>p r y. found ?base target es p r y \<and> excluded r y)" by (auto simp: searched_def)
  obtain s' where res: "safe_search_paths X project target s = (Inr ps, s')"
    using assms run ps by (simp add: safe_search_paths_def path_kind_def andthen_def ret_apply)
  show ?thesis
  proof (cases ex)
    case True
    with res ps roots show ?thesis unfolding Let_def roots_ok_def
      by (intro exI [of _ ps] exI [of _ s'] exI [of _ roots]) auto
  next
    case False
    have "below (Node False IsDir (Some es)) = es" by (simp add: below_def)
    with False ex have "clean_below ?top" "\<forall>p r y. found ?base target es p r y \<longrightarrow> covers ?top p r y"
      by (auto simp: clean_below_def covers_def)
    with res ps False show ?thesis unfolding Let_def
      by (intro exI [of _ ps] exI [of _ s'] exI [of _ "[?top]"]) auto
  qed
qed

section \<open>Reloading\<close>

definition same_projects :: "'z bridge_st_scheme \<Rightarrow> 'z bridge_st_scheme \<Rightarrow> bool" where
  "same_projects s t \<longleftrightarrow>
     rg_projects (registry t) = rg_projects (registry s)
     \<and> rg_generation (registry t) = rg_generation (registry s)
     \<and> rg_fingerprint (registry t) = rg_fingerprint (registry s)
     \<and> db t = db s"

interpretation same_projects: log_order same_projects
  by unfold_locales (auto simp: same_projects_def)


definition unchanged :: "'z bridge_st_scheme \<Rightarrow> 'z bridge_st_scheme \<Rightarrow> bool" where
  "unchanged s t \<longleftrightarrow> registry t = registry s \<and> db t = db s"

interpretation unchanged: log_order unchanged
  by unfold_locales (auto simp: unchanged_def)

text \<open>The roots of the projects that stay, when the file system resolves each path in one way.\<close>

definition roots_kept :: "(string \<Rightarrow> string) \<Rightarrow> projects \<Rightarrow> projects \<Rightarrow> bool" where
  "roots_kept f old new \<longleftrightarrow>
     (\<forall>(pid, p) \<in> set old. \<forall>q. map_of new pid = Some q \<longrightarrow> f (p_root p) = f (p_root q))"

lemma changed_root_none:
  assumes "\<And>h p. x_text X (FsCall ''resolve'' p # h) = f p"
  shows "returns (changed_root X old new) (s :: 'z io_scheme) (\<lambda>r _. r = None \<longrightarrow> roots_kept f old new)"
proof (induction old arbitrary: s)
  case (Cons x old)
  have "returns (changed_root X old new) t (\<lambda>r _. r = None \<longrightarrow> roots_kept f (x # old) new)"
    if "map_of new (fst x) = None \<or> (\<exists>q. map_of new (fst x) = Some q \<and> f (p_root (snd x)) = f (p_root q))"
    for t :: "'z io_scheme"
    by (rule returns_mono [OF Cons.IH]) (use that in \<open>auto simp: roots_kept_def\<close>)
  then show ?case
    by (cases x) (auto simp: real_path_def assms returns_def andthen_def ret_apply split: option.split)
qed (simp add: roots_kept_def)

lemma changed_root_returns: "\<exists>r s'. changed_root X old new s = (Inr r, s')"
proof (induction old arbitrary: s)
  case (Cons x old)
  then show ?case
    by (cases x) (auto simp: real_path_def andthen_def ret_apply split: option.split)
qed (simp add: ret_apply)

text \<open>How a reload ends: a whole new file, verified, or the projects as they were.\<close>

definition reloaded :: "ext \<Rightarrow> (string \<Rightarrow> string) \<Rightarrow> 'z bridge_st_scheme \<Rightarrow> exn + bool \<Rightarrow> 'z bridge_st_scheme \<Rightarrow> bool" where
  "reloaded X f s r t \<longleftrightarrow>
     (case r of
        Inl e \<Rightarrow> unchanged s t \<and> (\<forall>msg. e \<noteq> SettingsErr msg)
      | Inr False \<Rightarrow> same_projects s t
      | Inr True \<Rightarrow> db t = db s
          \<and> (\<forall>(k, p) \<in> set (rg_projects (registry t)). project_ok k p)
          \<and> roots_kept f (rg_projects (registry s)) (rg_projects (registry t))
          \<and> rg_generation (registry t) = rg_generation (registry s) + 1
          \<and> (\<exists>v. rg_fingerprint (registry t) = Some v \<and> \<not> seen v (registry s)))"

lemma unchanged_trans_reloaded: "unchanged s t \<Longrightarrow> reloaded X f t r u \<Longrightarrow> reloaded X f s r u"
  by (auto simp: reloaded_def unchanged_def same_projects_def split: sum.splits bool.splits)

lemma ends_reload_failed:
  assumes "unchanged s t" and "\<And>r. rg_projects (g r) = rg_projects r"
    "\<And>r. rg_generation (g r) = rg_generation r" "\<And>r. rg_fingerprint (g r) = rg_fingerprint r"
  shows "ends (reload_failed g) t (reloaded X f s)"
  using assms by (simp add: reload_failed_def reloaded_def same_projects_def unchanged_def)

lemma ends_try_settings:
  assumes "obeys unchanged m" and "unchanged s t"
    and "\<And>u msg. unchanged s u \<Longrightarrow> Q (Inr (Inl msg)) u"
    and "\<And>u x. unchanged s u \<Longrightarrow> m t = (Inr x, u) \<Longrightarrow> Q (Inr (Inr x)) u"
    and "\<And>u e. unchanged s u \<Longrightarrow> \<forall>msg. e \<noteq> SettingsErr msg \<Longrightarrow> Q (Inl e) u"
  shows "ends (try_settings m) t Q"
proof -
  obtain r u where run: "m t = (r, u)" by fastforce
  with assms(1, 2) have u: "unchanged s u" using unchanged.trans obeysD by metis
  show ?thesis
  proof (cases r)
    case (Inr x)
    with run assms(4) [OF u] show ?thesis by (simp add: try_settings_def) (simp add: ends_def ret_apply)
  next
    case (Inl e)
    have "ends (case e of SettingsErr msg \<Rightarrow> ret (Inl msg) | _ \<Rightarrow> raise e) u Q"
      using assms(3, 5) [OF u] by (cases e) auto
    with run Inl show ?thesis by (simp add: try_settings_def) (simp add: ends_def [of m] raise_apply ret_apply)
  qed
qed

lemma ends_reload_with:
  assumes "\<forall>(k, p) \<in> set candidate. project_ok k p" and "\<not> seen observed (registry s)"
    and "changed = None \<longrightarrow> roots_kept f (rg_projects (registry s)) candidate" and v: "unchanged s v"
  shows "ends (reload_with X path observed candidate changed) v (reloaded X f s)"
proof (cases changed)
  case (Some pid)
  then show ?thesis by (simp add: reload_with_def ends_reload_failed [OF v] note_failure_def)
next
  case None
  show ?thesis unfolding reload_with_def None option.case ends_andthen
  proof (rule ends_try_settings [OF unchanged.asks.projects_config_fingerprint_obeys v], goal_cases)
    case (2 w verified)
    with assms None show ?case
      by (cases observed) (auto simp: reloaded_def install_def unchanged_def same_projects_def reload_failed_def
          note_failure_def)
  qed (simp_all add: ends_reload_failed note_failure_def reloaded_def)
qed

lemma ends_reload:
  assumes f: "\<And>h p. x_text X (FsCall ''resolve'' p # h) = f p" and new: "\<not> seen observed (registry s)"
    and st: "unchanged s t"
  shows "ends (reload X path observed) t (reloaded X f s)"
  unfolding reload_def ends_andthen
proof (rule ends_try_settings [OF unchanged.asks.load_projects_obeys st], goal_cases)
  case (2 u candidate)
  then have ok: "\<forall>(k, p) \<in> set candidate. project_ok k p" using load_projects_returns by (blast dest: returnsD)
  obtain r v where run: "changed_root X (rg_projects (registry u)) candidate u = (Inr r, v)"
    using changed_root_returns by blast
  then have v: "unchanged s v" using unchanged.asks.changed_root_obeys 2(1) unchanged.trans obeysD by metis
  have "r = None \<longrightarrow> roots_kept f (rg_projects (registry s)) candidate"
    using returnsD [OF changed_root_none [of X f, OF f] run] 2(1) by (simp add: unchanged_def)
  from ends_reload_with [OF ok new this v] have "ends (reload_with X path observed candidate r) v (reloaded X f s)" .
  with run show ?case by simp (simp add: ends_def [of "changed_root X old new" for old new])
qed (simp_all add: ends_reload_failed note_failure_def reloaded_def)


section \<open>Authorized paths\<close>

text \<open>The paths of the components of \<open>parts\<close> below \<open>current\<close>.\<close>

fun components :: "string \<Rightarrow> string list \<Rightarrow> string list" where
  "components current [] = []"
| "components current (part # rest) = join_path current part # components (join_path current part) rest"

text \<open>A file system whose answers do not change between the checks of one request.\<close>

definition steady :: "ext \<Rightarrow> (string \<Rightarrow> string) \<Rightarrow> (string \<Rightarrow> string \<Rightarrow> bool) \<Rightarrow> bool" where
  "steady X f g \<longleftrightarrow> (\<forall>h p what. x_text X (FsCall ''resolve'' p # h) = f p \<and> x_ok X (FsCall what p # h) = g what p)"

text \<open>An entry that is there, possibly as a dangling link, and is a link or reparse point.\<close>

definition linked :: "(string \<Rightarrow> string \<Rightarrow> bool) \<Rightarrow> string \<Rightarrow> bool" where
  "linked g p \<longleftrightarrow> (g ''exists'' p \<or> g ''is_symlink'' p) \<and> g ''is_reparse_point'' p"

lemma steady_asks:
  "steady X f g \<Longrightarrow> fs_ask X what p s = (Inr (g what p), s\<lparr>log := FsCall what p # log s\<rparr>)"
  "steady X f g \<Longrightarrow> real_path X p s = (Inr (f p), s\<lparr>log := FsCall ''resolve'' p # log s\<rparr>)"
  by (simp_all add: fs_ask_def real_path_def steady_def andthen_def ret_apply)

lemma link_below_answer:
  assumes "steady X f g"
  shows "returns (link_below X current parts) s (\<lambda>b _. b \<longleftrightarrow> list_ex (linked g) (components current parts))"
proof (induction parts arbitrary: current s)
  case (Cons part rest)
  then show ?case
    by (auto simp: Let_def returns_def andthen_def ret_apply steady_asks [OF assms] linked_def split: if_splits)
qed simp

lemma link_on_path_answer:
  assumes "steady X f g"
  shows "returns (link_on_path X root parts) s
    (\<lambda>b _. b \<longleftrightarrow> g ''is_reparse_point'' root \<or> list_ex (linked g) (components root parts))"
  using link_below_answer [OF assms, of root parts]
  by (auto simp: link_on_path_def returns_def andthen_def ret_apply steady_asks [OF assms] split: if_splits)

lemma candidate_path_result:
  assumes "candidate_path root rel allow_root reject_sensitive = Inr (candidate, normalized)"
  shows "candidate = (if normalized = ''.'' then root else join_path root normalized)
    \<and> normalized \<noteq> [] \<and> take 1 normalized \<noteq> ''/'' \<and> nul \<notin> set normalized \<and> backslash \<notin> set normalized
    \<and> ''..'' \<notin> set (posix_parts normalized)
    \<and> (reject_sensitive \<longrightarrow> \<not> is_sensitive normalized)"
proof -
  have dot: "\<not> is_sensitive ''.''" "''..'' \<notin> set (posix_parts ''.'')"
    by (simp_all add: is_sensitive_def dot_parts)
  have no: "nul \<notin> set ''.''" "backslash \<notin> set ''.''" by (simp_all add: nul_def backslash_def)
  show ?thesis
  proof (cases "rel = None \<or> rel = Some [] \<or> rel = Some ''.''")
    case True
    with assms dot no show ?thesis by (auto simp: candidate_path_def split: if_splits)
  next
    case False
    with assms have "normalize_relative_path (the rel) = Inr normalized"
      by (auto simp: candidate_path_def split: sum.splits if_splits)
    with normalize_result [of "the rel"] False assms show ?thesis
      by (auto simp: candidate_path_def split: if_splits)
  qed
qed

text \<open>C15: an authorized path stays inside its project.  When \<open>resolve_path\<close> accepts a path of a client, the
  project is the one registered under that id, the target is the root or a path below it whose
  normal form is relative, has no \<open>..\<close> component, no backslash and no NUL, and is not sensitive when
  sensitive paths are refused; the resolved target lies in the resolved root, and neither the root nor
  any component down to the target that exists, even as a dangling link, is a link or reparse point.
  The call only asks the file system: registry and database are untouched.\<close>

theorem resolved_path_confined:
  assumes "steady X f g"
    and "resolve_path X pid rel allow_root reject_sensitive s = (Inr (project, target, normalized), t)"
  shows "map_of (rg_projects (registry s)) pid = Some project
    \<and> target = (if normalized = ''.'' then p_root project else join_path (p_root project) normalized)
    \<and> normalized \<noteq> [] \<and> take 1 normalized \<noteq> ''/'' \<and> nul \<notin> set normalized \<and> backslash \<notin> set normalized
    \<and> ''..'' \<notin> set (posix_parts normalized)
    \<and> (reject_sensitive \<longrightarrow> \<not> is_sensitive normalized)
    \<and> within (f (p_root project)) (f target)
    \<and> \<not> g ''is_reparse_point'' (p_root project)
    \<and> \<not> list_ex (linked g) (components (p_root project) (posix_parts normalized))
    \<and> unchanged s t"
proof -
  have "obeys unchanged (resolve_path X pid rel allow_root reject_sensitive)"
    unfolding resolve_path_def get_project_def
    by (intro unchanged.asks.file_intros unchanged.asks.real_path_obeys unchanged.asks.link_on_path_obeys)
  then have t: "unchanged s t" using assms(2) by (rule obeysD)
  from assms(2) obtain u link where proj: "map_of (rg_projects (registry s)) pid = Some project"
    and cand: "candidate_path (p_root project) rel allow_root reject_sensitive = Inr (target, normalized)"
    and inside: "within (f (p_root project)) (f target)"
    and link: "link_on_path X (p_root project) (posix_parts normalized) u = (Inr False, t)"
    by (auto simp: resolve_path_def get_project_def andthen_eq_Inr steady_asks [OF assms(1)]
        split: option.splits if_splits)
  from returnsD [OF link_on_path_answer [OF assms(1)] link] candidate_path_result [OF cand] proj inside t
  show ?thesis by simp
qed

section \<open>Concrete runs\<close>

definition demo_project :: project_spec where
  "demo_project = \<lparr>p_project_id = ''p'', p_root = ''/r'', p_allowed_branches = [''*''],
     p_require_clean_workspace = True, p_codemcp_config = ''/r/codemcp.toml'', p_commands = [],
     p_profile = None, p_profile_source = ''none''\<rparr>"

definition demo_bridge :: bridge_st where
  "demo_bridge = \<lparr>log = [], db = empty_dbase, is_open = True, versions = [],
     registry = \<lparr>rg_projects = [(''p'', demo_project)], rg_generation = 1, rg_last_status = ''initial'',
       rg_last_error = None, rg_last_error_code = None, rg_failed = None, rg_fingerprint = None\<rparr>,
     started = True, workers = []\<rparr>"

definition demo_disk :: ext where
  "demo_disk = demo_ext\<lparr>x_kind := \<lambda>_. IsDir, x_ok := \<lambda>_. False, x_text := \<lambda>h. case h of FsCall w p # _ \<Rightarrow> p | _ \<Rightarrow> [],
     x_tree := \<lambda>_. Some [(''a'', Node False IsFile None), (''k.pem'', Node False IsFile None)]\<rparr>"

theorem search_roots_exact_witness:
  "\<exists>s' roots. safe_search_paths demo_disk demo_project ''/r'' demo_bridge = (Inr (map fst roots), s')
     \<and> list_all clean_below roots"
proof -
  have "x_kind demo_disk (FsCall ''kind'' ''/r'' # log demo_bridge) = IsDir"
    "x_tree demo_disk (FsCall ''iterdir'' ''/r'' # FsCall ''kind'' ''/r'' # log demo_bridge)
       = Some [(''a'', Node False IsFile None), (''k.pem'', Node False IsFile None)]"
    by (simp_all add: demo_disk_def)
  from search_roots_exact [where project = demo_project, OF this] show ?thesis
    by (auto simp: list_all_iff Let_def)
qed


theorem resolved_path_confined_witness:
  "\<exists>t. resolve_path demo_disk ''p'' (Some ''./a'') False True demo_bridge
        = (Inr (demo_project, ''/r/a'', ''a''), t) \<and> unchanged demo_bridge t"
proof -
  have X: "steady demo_disk (\<lambda>p. p) (\<lambda>_ _. False)" by (simp add: steady_def demo_disk_def)
  have plain: "\<not> is_sensitive ''a''" by code_simp
  obtain t where "resolve_path demo_disk ''p'' (Some ''./a'') False True demo_bridge
        = (Inr (demo_project, ''/r/a'', ''a''), t)"
    by (simp add: plain steady_asks [OF X] within_def link_on_path_def join_path_def
      resolve_path_def get_project_def demo_bridge_def demo_project_def candidate_path_def
      normalize_relative_path_def has_drive_def to_slashes_def posix_parts_def posix_root_def
      nul_def backslash_def andthen_def raise_apply ret_apply Let_def)
  with resolved_path_confined [OF X this] show ?thesis by blast
qed

end
