(* ===== verification/Texts.thy ===== *)
theory Texts
  imports Registry Utf8
begin

text \<open>
  The text helpers of \<open>mcp_server.py\<close>: the exact replacement of one occurrence, the line ends of an
  existing file, and the filter that takes sensitive paths out of a search result.  The text of a
  file is a list of code points, since a file may hold any of them.
\<close>

section \<open>Finding and replacing\<close>

text \<open>\<open>s.partition(pattern)\<close>, as the text before and after the first occurrence.\<close>

fun find_sub :: "'a list \<Rightarrow> 'a list \<Rightarrow> ('a list \<times> 'a list) option" where
  "find_sub pat [] = (if pat = [] then Some ([], []) else None)"
| "find_sub pat (c # cs) =
     (if prefix pat (c # cs) then Some ([], drop (length pat) (c # cs))
      else map_option (\<lambda>(a, b). (c # a, b)) (find_sub pat cs))"

lemma find_sub_Some: "find_sub pat s = Some (a, b) \<Longrightarrow> s = a @ pat @ b"
proof (induction pat s arbitrary: a b rule: find_sub.induct)
  case (2 pat c cs)
  then show ?case by (auto simp: prefix_def split: if_splits)
qed (auto split: if_splits)

lemma find_sub_shorter: "pat \<noteq> [] \<Longrightarrow> find_sub pat s = Some (a, b) \<Longrightarrow> length b < length s"
  by (drule find_sub_Some) simp

text \<open>\<open>s.count(pattern)\<close>: occurrences that do not overlap, from the left.\<close>

function count_sub :: "'a list \<Rightarrow> 'a list \<Rightarrow> nat" where
  "count_sub pat s =
     (if pat = [] then length s + 1
      else (case find_sub pat s of None \<Rightarrow> 0 | Some (a, b) \<Rightarrow> Suc (count_sub pat b)))"
  by pat_completeness auto
termination
  by (relation "measure (\<lambda>(pat, s). length s)") (auto dest: find_sub_shorter)

declare count_sub.simps [simp del]

text \<open>\<open>s.replace(pattern, new)\<close> and \<open>s.replace(pattern, new, 1)\<close>, for a pattern that is not empty in the
  first case.\<close>

function replace_all :: "'a list \<Rightarrow> 'a list \<Rightarrow> 'a list \<Rightarrow> 'a list" where
  "replace_all pat new s =
     (if pat = [] then s
      else (case find_sub pat s of None \<Rightarrow> s | Some (a, b) \<Rightarrow> a @ new @ replace_all pat new b))"
  by pat_completeness auto
termination
  by (relation "measure (\<lambda>(pat, new, s). length s)") (auto dest: find_sub_shorter)

declare replace_all.simps [simp del]

definition replace_first :: "'a list \<Rightarrow> 'a list \<Rightarrow> 'a list \<Rightarrow> 'a list" where
  "replace_first pat new s = (case find_sub pat s of None \<Rightarrow> s | Some (a, b) \<Rightarrow> a @ new @ b)"

section \<open>Editing a file\<close>

definition decode_utf8_text :: "bytes \<Rightarrow> string \<Rightarrow> exn + utext" where
  "decode_utf8_text raw path =
     (case utf8_decode raw of
        Some t \<Rightarrow> Inr t
      | None \<Rightarrow> Inl (rejected_with ''BINARY_FILE'' ''file is not valid UTF-8 text'' (JObj [(''path'', JStr path)])))"

definition match_existing_line_endings :: "bytes \<Rightarrow> utext \<Rightarrow> utext" where
  "match_existing_line_endings raw v =
     (let normalized = replace_all [13] [10] (replace_all [13, 10] [10] v) in
      if count_sub [cr, lf] raw > 0 \<and> count_sub [lf] raw = count_sub [cr, lf] raw
      then replace_all [10] [13, 10] normalized
      else normalized)"

text \<open>\<open>str.encode("utf-8")\<close>; a lone surrogate is a \<open>UnicodeEncodeError\<close>.\<close>

definition encode_text :: "utext \<Rightarrow> exn + bytes" where
  "encode_text t = (case utf8_encode t of Some b \<Rightarrow> Inr b | None \<Rightarrow> Inl (ValueErr ''surrogates not allowed''))"

definition replace_exact_text :: "bytes \<Rightarrow> string \<Rightarrow> utext \<Rightarrow> utext \<Rightarrow> exn + bytes" where
  "replace_exact_text raw path old_string new_string =
     sum_bind (decode_utf8_text raw path) (\<lambda>text_of_file.
     let old_value = match_existing_line_endings raw old_string;
         new_value = match_existing_line_endings raw new_string;
         matches = count_sub old_value text_of_file
     in if matches = 0 then
          Inl (rejected_with ''CONFLICT'' ''old_string was not found in the file'' (JObj [(''path'', JStr path)]))
        else if matches > 1 then
          Inl (rejected_with ''CONFLICT'' ''old_string must match exactly one occurrence''
            (JObj [(''path'', JStr path), (''matches'', JInt (int matches))]))
        else encode_text (replace_first old_value new_value text_of_file))"

definition encode_existing_text :: "bytes \<Rightarrow> string \<Rightarrow> utext \<Rightarrow> exn + bytes" where
  "encode_existing_text raw path content =
     sum_bind (decode_utf8_text raw path) (\<lambda>_. encode_text (match_existing_line_endings raw content))"

section \<open>Search results\<close>

text \<open>\<open>str.casefold\<close> below code point 256, up to a renaming of the micro sign.\<close>

definition casefold :: "string \<Rightarrow> string" where
  "casefold s = concat (map (\<lambda>c. if code c = 223 then ''ss'' else [lower_char c]) s)"

definition trim_root :: "string \<Rightarrow> string" where
  "trim_root p = rstrip_by (\<lambda>c. c = CHR ''/'') (to_slashes p)"

text \<open>The loop over the two forms of the root; the set has no order, the model takes the resolved root
  first.\<close>

fun below_root :: "string list \<Rightarrow> string \<Rightarrow> string" where
  "below_root [] candidate = candidate"
| "below_root (root # roots) candidate =
     (if starts_with (casefold candidate) (casefold root @ ''/'') then drop (length root + 1) candidate
      else below_root roots candidate)"

definition is_sensitive_grep_line :: "string list \<Rightarrow> string \<Rightarrow> bool" where
  "is_sensitive_grep_line roots line =
     (let candidate = to_slashes (strip line) in
      candidate \<noteq> [] \<and> is_sensitive (below_root roots candidate))"

text \<open>\<open>Found \d+ files?\<close>.\<close>

definition grep_header_ok :: "string \<Rightarrow> bool" where
  "grep_header_ok h =
     (starts_with h ''Found ''
      \<and> (let rest = drop 6 h; digits = takeWhile is_digit rest; tail = dropWhile is_digit rest
         in digits \<noteq> [] \<and> tail \<in> {'' file'', '' files''}))"

definition grep_matches :: "string list \<Rightarrow> string list \<Rightarrow> string list" where
  "grep_matches roots lines =
     filter (\<lambda>line. strip line \<noteq> [] \<and> \<not> starts_with (strip line) ''('' \<and> \<not> is_sensitive_grep_line roots line)
       lines"

definition filter_sensitive_grep_result :: "string list \<Rightarrow> string \<Rightarrow> string" where
  "filter_sensitive_grep_result roots t =
     (case splitlines t of
        [] \<Rightarrow> t
      | first # rest \<Rightarrow>
          if grep_header_ok (strip first) then
            (let matches = grep_matches roots rest in
             if matches = [] then ''No files found''
             else ''Found '' @ decimal (length matches) @ '' file'' @ (if length matches \<noteq> 1 then ''s'' else [])
                  @ [lf] @ join_with [lf] matches)
          else join_with [lf] (filter (\<lambda>line. \<not> is_sensitive_grep_line roots line) (first # rest)))"

definition is_codemcp_error :: "bool \<Rightarrow> string \<Rightarrow> bool" where
  "is_codemcp_error flag t = (flag \<or> starts_with (lower (lstrip_by is_space t)) ''error'')"

end
