(* ===== verification/Server.thy ===== *)
theory Server
  imports Policy Runner Texts Checkpoints
begin

text \<open>
  \<open>mcp_server.py\<close>, class \<open>BridgeService\<close>, without its tools: the life of a request from the idempotency
  check to its recorded outcome, the ownership checks, the mutation lock and the bracket of a
  mutation.  \<open>who\<close> is the principal of the request, \<open>rid\<close> the id its transport gives it.  A request runs
  to its end before the next one starts; what other requests may do at an \<open>await\<close> is not modelled.
\<close>

section \<open>Registry and sessions\<close>

text \<open>\<open>_refresh_project_registry\<close>: the sessions of removed projects are blocked.\<close>

definition refresh_project_registry :: "ext \<Rightarrow> bridge_settings \<Rightarrow> ('z bridge_st_scheme, exn, bool) M" where
  "refresh_project_registry X S =
     andthen (gets (\<lambda>s. map fst (rg_projects (registry s)))) (\<lambda>before.
     andthen (refresh_if_changed X (bs_projects_config_path S)) (\<lambda>changed.
     if \<not> changed then ret False
     else
       andthen (gets (\<lambda>s. map fst (rg_projects (registry s)))) (\<lambda>after.
       andthen (for_each (filter (\<lambda>pid. pid \<notin> set after) before)
         (\<lambda>pid. andthen (block_active_sessions_for_project X pid ''project_removed'') (\<lambda>_. ret ())))
         (\<lambda>_. ret True))))"

definition request_id_of :: "ext \<Rightarrow> string option \<Rightarrow> ('z io_scheme, exn, string) M" where
  "request_id_of X rid = (case rid of Some r \<Rightarrow> ret r | None \<Rightarrow> uuid4_hex X)"

definition require_session ::
  "ext \<Rightarrow> bridge_settings \<Rightarrow> auth_context option \<Rightarrow> string \<Rightarrow> string option
   \<Rightarrow> ('z bridge_st_scheme, exn, session_rec) M" where
  "require_session X S who project_id session_id =
     andthen (refresh_project_registry X S) (\<lambda>_.
     andthen (get_project project_id) (\<lambda>_.
     require_active X who project_id session_id))"

definition not_available :: "string \<Rightarrow> exn" where
  "not_available operation_id =
     rejected_with ''OPERATION_NOT_FOUND'' ''operation_id is not available to this session''
       (JObj [(''operation_id'', JStr operation_id)])"

definition require_operation_for_session ::
  "ext \<Rightarrow> bridge_settings \<Rightarrow> auth_context option \<Rightarrow> string \<Rightarrow> string
   \<Rightarrow> ('z bridge_st_scheme, exn, operation_rec) M" where
  "require_operation_for_session X S who operation_id session_id =
     andthen (refresh_project_registry X S) (\<lambda>_.
     andthen (the_operation operation_id) (\<lambda>record.
     andthen (require (o_owner_id record = LOCAL_OWNER_ID \<and> o_session_id record = Some session_id)
       (not_available operation_id)) (\<lambda>_.
     andthen (require_active X who (o_project_id record) (Some session_id)) (\<lambda>_.
     ret record))))"

text \<open>How a session must have ended for another one to inherit its unknown operations.\<close>

definition ended_by_bridge :: "session_rec \<Rightarrow> bool" where
  "ended_by_bridge r =
     ((s_status r = SBlocked \<and> s_reason r = Some ''bridge_restart'')
      \<or> (s_status r = SClosed \<and> s_reason r = Some ''bridge_shutdown''))"

definition inherits ::
  "ext \<Rightarrow> operation_rec \<Rightarrow> session_rec \<Rightarrow> session_rec option \<Rightarrow> ('z store_st_scheme, exn, bool) M" where
  "inherits X record successor origin =
     (case origin of
        None \<Rightarrow> ret False
      | Some o' \<Rightarrow>
          if s_project_id o' \<noteq> o_project_id record \<or> s_owner_id o' \<noteq> s_owner_id successor
             \<or> \<not> ended_by_bridge o'
          then ret False
          else auth_contexts_match X (s_session_id o') (s_session_id successor))"

definition require_operation_for_reconcile ::
  "ext \<Rightarrow> bridge_settings \<Rightarrow> auth_context option \<Rightarrow> string \<Rightarrow> string
   \<Rightarrow> ('z bridge_st_scheme, exn, operation_rec) M" where
  "require_operation_for_reconcile X S who operation_id session_id =
     andthen (refresh_project_registry X S) (\<lambda>_.
     andthen (the_operation operation_id) (\<lambda>record.
     andthen (require (o_owner_id record = LOCAL_OWNER_ID) (not_available operation_id)) (\<lambda>_.
     andthen (require_active X who (o_project_id record) (Some session_id)) (\<lambda>successor.
     if o_session_id record = Some session_id then ret record
     else
       (case o_session_id record of
          None \<Rightarrow> raise (not_available operation_id)
        | Some origin_id \<Rightarrow>
            andthen (require (o_state record = Unknown) (not_available operation_id)) (\<lambda>_.
            andthen (get_session origin_id) (\<lambda>origin.
            andthen (inherits X record successor origin) (\<lambda>ok.
            andthen (require ok (not_available operation_id)) (\<lambda>_.
            ret record)))))))))"

section \<open>The bracket of a mutation\<close>

text \<open>\<open>async with self._mutation_lock(project_id): body\<close>.\<close>

definition with_lock :: "string \<Rightarrow> ('z io_scheme, exn, 'a) M \<Rightarrow> ('z io_scheme, exn, 'a) M" where
  "with_lock project_id body =
     andthen (ask (LockAcquire project_id)) (\<lambda>_.
     andthen (handle body (\<lambda>e. andthen (ask (LockRelease project_id)) (\<lambda>_. raise e))) (\<lambda>x.
     andthen (ask (LockRelease project_id)) (\<lambda>_. ret x)))"

definition begin_mutation ::
  "ext \<Rightarrow> bridge_settings \<Rightarrow> project_spec \<Rightarrow> string \<Rightarrow> string
   \<Rightarrow> ('z bridge_st_scheme, exn, checkpoint_rec \<times> commit_mode) M" where
  "begin_mutation X S project session_id operation_id =
     andthen (require_mutation_preconditions X S project True) (\<lambda>_.
     andthen (checkpoint_create X project (Some session_id) (Some operation_id) ''mutation'') (\<lambda>checkpoint.
     andthen (determine_commit_mode X project (Some session_id) checkpoint) (\<lambda>mode.
     ret (checkpoint, mode))))"

text \<open>\<open>BridgeError(\<dots>, status="unknown")\<close>.\<close>

definition unknown_effect :: "string \<Rightarrow> (string \<times> json) list \<Rightarrow> exn" where
  "unknown_effect msg details = bridge_error ''UNKNOWN_SIDE_EFFECT'' msg (JObj details) False ''unknown''"

definition failed_effect :: "string \<Rightarrow> (string \<times> json) list \<Rightarrow> exn" where
  "failed_effect msg details = bridge_error ''BACKEND_UNAVAILABLE'' msg (JObj details) False ''failed''"

definition finish_mutation ::
  "ext \<Rightarrow> bridge_settings \<Rightarrow> project_spec \<Rightarrow> checkpoint_rec \<Rightarrow> string
   \<Rightarrow> ('z bridge_st_scheme, exn, json) M" where
  "finish_mutation X S project checkpoint expected_after_head =
     andthen (handle
       (checkpoint_finalize X (max_result S) project checkpoint (Some expected_after_head)
          (Some (c_branch checkpoint)))
       (\<lambda>e. raise (case e of
          BridgeErr b \<Rightarrow> unknown_effect ''mutation completed but its Git result could not be recorded''
            [(''checkpoint_id'', JStr (c_checkpoint_id checkpoint)), (''cause'', JStr (be_code b))]
        | _ \<Rightarrow> e))) (\<lambda>finalized.
     lift_sum (summary finalized))"

text \<open>\<open>list(checkpoint_data["after"]["changed_files"])\<close>, a list of texts.\<close>

definition texts_of :: "json option \<Rightarrow> exn + string list" where
  "texts_of j =
     (case j of
        Some (JList xs) \<Rightarrow>
          if list_all (\<lambda>x. jstr_of (Some x) \<noteq> None) xs then Inr (map (\<lambda>x. the (jstr_of (Some x))) xs)
          else Inl OtherErr
      | _ \<Rightarrow> Inl OtherErr)"

definition after_files :: "json \<Rightarrow> exn + string list" where
  "after_files checkpoint_data =
     (case jget checkpoint_data ''after'' of
        Some a \<Rightarrow> texts_of (jget a ''changed_files'')
      | None \<Rightarrow> Inl OtherErr)"

section \<open>Running a request\<close>

record outcome =
  oc_data :: "(string \<times> json) list"
  oc_changed :: "string list"
  oc_truncated :: bool
  oc_status :: string

definition outcome_of :: "(string \<times> json) list \<Rightarrow> string list \<Rightarrow> bool \<Rightarrow> outcome" where
  "outcome_of data changed truncated =
     \<lparr>oc_data = data, oc_changed = changed, oc_truncated = truncated, oc_status = ''succeeded''\<rparr>"

text \<open>\<open>try: m  except BridgeError as exc\<close>.\<close>

definition try_bridge :: "('s, exn, 'a) M \<Rightarrow> ('s, exn, berror + 'a) M" where
  "try_bridge m =
     handle (andthen m (\<lambda>x. ret (Inr x))) (\<lambda>e. case e of BridgeErr b \<Rightarrow> ret (Inl b) | _ \<Rightarrow> raise e)"

definition bridge_start :: "ext \<Rightarrow> ('z bridge_st_scheme, exn, unit) M" where
  "bridge_start X =
     andthen (gets started) (\<lambda>already.
     if already then ret ()
     else
       andthen (initialize X) (\<lambda>_.
       andthen (recover_after_restart X) (\<lambda>_.
       modify (\<lambda>s. s\<lparr>started := True\<rparr>))))"

text \<open>What identifies a request: the fields of \<open>_execute\<close>.\<close>

record request =
  rq_project_id :: "string option"
  rq_session_id :: "string option"
  rq_kind :: string
  rq_input :: json
  rq_mutation :: bool
  rq_client_id :: "string option"
  rq_hash :: "string option"
  rq_action :: "string option"

definition given :: "string option \<Rightarrow> bool" where
  "given v = (v \<noteq> None \<and> v \<noteq> Some [])"

definition hash_value :: "ext \<Rightarrow> request \<Rightarrow> string" where
  "hash_value X q =
     (if given (rq_hash q) then the (rq_hash q)
      else if rq_mutation q then [] else request_hash X (rq_input q))"

definition client_id :: "request \<Rightarrow> string \<Rightarrow> string \<Rightarrow> string" where
  "client_id q request_id operation_id =
     (if given (rq_client_id q) then the (rq_client_id q)
      else if rq_mutation q then []
      else if request_id = ''0'' then rq_kind q @ ''-'' @ operation_id
      else request_id)"

definition bridge_project :: "string option \<Rightarrow> string" where
  "bridge_project p = (if given p then the p else ''__bridge__'')"

definition failure_payload :: "string \<Rightarrow> request \<Rightarrow> string \<Rightarrow> berror \<Rightarrow> json" where
  "failure_payload request_id q operation_id e =
     error_payload request_id (rq_session_id q) (rq_project_id q) operation_id e"

definition finish_with :: "ext \<Rightarrow> string \<Rightarrow> string \<Rightarrow> json \<Rightarrow> ('z store_st_scheme, exn, json) M" where
  "finish_with X operation_id state payload =
     andthen (finish X operation_id state payload) (\<lambda>_. ret payload)"

definition error_state :: "berror \<Rightarrow> string" where
  "error_state b = (if be_status b = ''unknown'' then ''unknown'' else ''failed'')"

definition as_berror :: "string \<Rightarrow> string \<Rightarrow> (string \<times> json) list \<Rightarrow> bool \<Rightarrow> string \<Rightarrow> berror" where
  "as_berror c msg details retryable status =
     \<lparr>be_code = c, be_message = msg, be_details = JObj details, be_retryable = retryable, be_status = status\<rparr>"

text \<open>The \<open>except\<close> clauses around the operation.  The code of a cancelled read is not a code of the
  bridge, so its constructor raises a \<open>ValueError\<close>.\<close>

definition recover_request ::
  "ext \<Rightarrow> request \<Rightarrow> string \<Rightarrow> string \<Rightarrow> exn \<Rightarrow> ('z store_st_scheme, exn, json) M" where
  "recover_request X q request_id operation_id e =
     (case e of
        BridgeErr b \<Rightarrow> finish_with X operation_id (error_state b) (failure_payload request_id q operation_id b)
      | Cancelled \<Rightarrow>
          if rq_mutation q then
            andthen (handle
              (finish_with X operation_id ''unknown'' (failure_payload request_id q operation_id
                 (as_berror ''UNKNOWN_SIDE_EFFECT''
                    ''mutation request was cancelled while the backend outcome may be unknown''
                    [(''operation_id'', JStr operation_id), (''cause'', JStr ''client_request_cancelled'')]
                    False ''unknown'')))
              (\<lambda>e'. if is_exception e' then ret JNull else raise e'))
              (\<lambda>_. raise Cancelled)
          else raise (bridge_error ''CLIENT_REQUEST_CANCELLED''
                 ''request was cancelled before a result could be returned''
                 (JObj [(''operation_id'', JStr operation_id)]) True ''failed'')
      | _ \<Rightarrow>
          finish_with X operation_id ''failed'' (failure_payload request_id q operation_id
            (as_berror ''BACKEND_UNAVAILABLE'' ''Bridge backend operation failed''
               [(''project_id'', jopt (rq_project_id q))] True ''failed'')))"

text \<open>The session a client sees in an answer: its own, or the one the operation has made.\<close>

definition response_session :: "request \<Rightarrow> outcome \<Rightarrow> string option" where
  "response_session q oc =
     (case rq_session_id q of
        Some sid \<Rightarrow> Some sid
      | None \<Rightarrow> jstr_of (map_of (oc_data oc) ''session_id''))"

definition run_operation ::
  "ext \<Rightarrow> request \<Rightarrow> string \<Rightarrow> string \<Rightarrow> ('z bridge_st_scheme, exn, outcome) M
   \<Rightarrow> ('z bridge_st_scheme, exn, json) M" where
  "run_operation X q request_id operation_id operation =
     handle
       (andthen (dispatch X operation_id ''validated'') (\<lambda>_.
        andthen operation (\<lambda>oc.
        finish_with X operation_id (if oc_status oc = ''failed'' then ''failed'' else ''succeeded'')
          (success_payload request_id (response_session q oc) (rq_project_id q) operation_id
             (JObj (oc_data oc)) (oc_changed oc) (oc_truncated oc) (oc_status oc)))))
       (recover_request X q request_id operation_id)"

definition ask_approval ::
  "ext \<Rightarrow> bridge_settings \<Rightarrow> request \<Rightarrow> string \<Rightarrow> operation_rec \<Rightarrow> ('z store_st_scheme, exn, json) M" where
  "ask_approval X S q request_id record =
     (let action = (if given (rq_action q) then the (rq_action q) else rq_kind q);
          operation_id = o_operation_id record
      in
      andthen (issue X (x_millis X (po_approval_ttl_seconds (bs_policy S))) record action) (\<lambda>grant.
      let e = as_berror ''APPROVAL_REQUIRED'' ''explicit approval is required before this operation can run''
                [(''operation_id'', JStr operation_id), (''approval_id'', JStr (g_approval_id grant)),
                 (''approval_token'', JStr (g_token grant)), (''expires_at'', JStr (g_expires_at grant)),
                 (''action'', JStr action)] False ''awaiting_approval''
      in andthen (await_approval X operation_id (as_payload e)) (\<lambda>_.
         ret (failure_payload request_id q operation_id e))))"

text \<open>\<open>_execute\<close>.  The check answers whether an approval is needed, and what it has prepared for the
  operation; the operation gets that and its id.\<close>

definition execute_request ::
  "ext \<Rightarrow> bridge_settings \<Rightarrow> auth_context option \<Rightarrow> string option \<Rightarrow> request
   \<Rightarrow> ('z bridge_st_scheme, exn, bool \<times> 'c) M \<Rightarrow> ('c \<Rightarrow> string \<Rightarrow> ('z bridge_st_scheme, exn, outcome) M)
   \<Rightarrow> ('z bridge_st_scheme, exn, json) M" where
  "execute_request X S who rid q approval_check operation =
     andthen (bridge_start X) (\<lambda>_.
     andthen (refresh_project_registry X S) (\<lambda>_.
     andthen (request_id_of X rid) (\<lambda>request_id.
     andthen (uuid4_hex X) (\<lambda>new_id.
     andthen (try_bridge (start X who new_id (bridge_project (rq_project_id q)) (rq_session_id q) (rq_kind q)
       (rq_mutation q) (client_id q request_id new_id) (hash_value X q) (rq_input q))) (\<lambda>begun.
     case begun of
       Inl b \<Rightarrow> ret (failure_payload request_id q new_id b)
     | Inr (record, Some answer) \<Rightarrow> ret answer
     | Inr (record, None) \<Rightarrow>
         andthen (try_bridge approval_check) (\<lambda>checked.
         case checked of
           Inl b \<Rightarrow> finish_with X (o_operation_id record) ''failed''
                      (failure_payload request_id q (o_operation_id record) b)
         | Inr (True, _) \<Rightarrow> ask_approval X S q request_id record
         | Inr (False, c) \<Rightarrow>
             run_operation X q request_id (o_operation_id record) (operation c (o_operation_id record))))))))"

text \<open>A tool without an approval check.\<close>

definition execute_plain ::
  "ext \<Rightarrow> bridge_settings \<Rightarrow> auth_context option \<Rightarrow> string option \<Rightarrow> request
   \<Rightarrow> (string \<Rightarrow> ('z bridge_st_scheme, exn, outcome) M) \<Rightarrow> ('z bridge_st_scheme, exn, json) M" where
  "execute_plain X S who rid q operation =
     execute_request X S who rid q (ret (False, ())) (\<lambda>_. operation)"

definition request_for :: "string \<Rightarrow> string option \<Rightarrow> string \<Rightarrow> (string \<times> json) list \<Rightarrow> request" where
  "request_for project_id session_id kind input =
     \<lparr>rq_project_id = Some project_id, rq_session_id = session_id, rq_kind = kind, rq_input = JObj input,
      rq_mutation = False, rq_client_id = None, rq_hash = None, rq_action = None\<rparr>"

definition mutation_request ::
  "string \<Rightarrow> string \<Rightarrow> string \<Rightarrow> (string \<times> json) list \<Rightarrow> string option \<Rightarrow> string option \<Rightarrow> request" where
  "mutation_request project_id session_id kind input client_request_id supplied =
     (request_for project_id (Some session_id) kind input)
       \<lparr>rq_mutation := True, rq_client_id := client_request_id, rq_hash := supplied\<rparr>"

end
