(* ===== verification/Tools.thy ===== *)
theory Tools
  imports Server
begin

text \<open>
  The tools of \<open>BridgeService\<close>: one definition per method, its operation first.  A text a client sends is
  a string; the texts of files are code points.
\<close>

section \<open>Reading\<close>

definition project_open ::
  "ext \<Rightarrow> bridge_settings \<Rightarrow> auth_context option \<Rightarrow> string option \<Rightarrow> string \<Rightarrow> ('z bridge_st_scheme, exn, json) M" where
  "project_open X S who rid project_id =
     andthen (uuid4_hex X) (\<lambda>cid.
     execute_plain X S who rid
       ((request_for project_id None ''project_open'' [(''project_id'', JStr project_id)])
          \<lparr>rq_client_id := Some cid,
           rq_hash := Some (request_hash X (JObj [(''project_id'', JStr project_id)]))\<rparr>)
       (\<lambda>_.
        andthen (get_project project_id) (\<lambda>project.
        andthen (inspect_project X project True) (\<lambda>status.
        andthen (session_create X who project_id) (\<lambda>session.
        andthen (worker_active X project_id) (\<lambda>active.
        ret (outcome_of
          [(''session_id'', JStr (s_session_id session)), (''root'', JStr (p_root project)),
           (''branch'', JStr (gs_branch status)), (''head'', JStr (gs_head status)),
           (''dirty'', JBool (gs_dirty status)), (''worker_active'', JBool active)]
          (gs_files status) False)))))))"

definition readiness_data :: "project_spec \<Rightarrow> git_status \<Rightarrow> bool \<Rightarrow> readiness \<Rightarrow> (string \<times> json) list" where
  "readiness_data project status active r =
     [(''root'', JStr (p_root project)), (''branch'', JStr (gs_branch status)),
      (''head'', JStr (gs_head status)), (''dirty'', JBool (gs_dirty status)),
      (''worker_active'', JBool active), (''profile'', jopt (rd_profile_id r)),
      (''profile_source'', JStr (rd_profile_source r)), (''profile_resolved'', JBool (rd_profile_id r \<noteq> None)),
      (''detection'', JObj [(''candidates'', jstrs (rd_candidates r)), (''ambiguous'', JBool (rd_ambiguous r))]),
      (''commands_resolved'', JBool (rd_available r \<noteq> [])), (''available_commands'', jstrs (rd_available r)),
      (''command_verification'', JObj [(''matched'', jstrs (rd_matched r)), (''missing'', jstrs (rd_missing r)),
         (''mismatched'', jstrs (rd_mismatched r))]),
      (''codemcp_config_source'', JStr (rd_config_source r)),
      (''codemcp_config_ready'', JBool (rd_config_ready r)),
      (''development_ready'', JBool (rd_development_ready r)), (''issues'', jstrs (rd_issues r))]"

definition project_status ::
  "ext \<Rightarrow> bridge_settings \<Rightarrow> auth_context option \<Rightarrow> string option \<Rightarrow> string \<Rightarrow> string option
   \<Rightarrow> ('z bridge_st_scheme, exn, json) M" where
  "project_status X S who rid project_id session_id =
     execute_plain X S who rid
       (request_for project_id session_id ''project_status''
          [(''project_id'', JStr project_id), (''session_id'', jopt session_id)])
       (\<lambda>_.
        andthen (get_project project_id) (\<lambda>project.
        andthen (if given session_id
                 then andthen (require_session X S who project_id session_id) (\<lambda>_. ret ()) else ret ()) (\<lambda>_.
        andthen (inspect_project X project True) (\<lambda>status.
        andthen (inspect_development_readiness X project) (\<lambda>r.
        andthen (worker_active X project_id) (\<lambda>active.
        ret (outcome_of (readiness_data project status active r) (gs_files status) False)))))))"

definition jint_opt :: "int option \<Rightarrow> json" where
  "jint_opt v = (case v of None \<Rightarrow> JNull | Some i \<Rightarrow> JInt i)"

text \<open>\<open>sha256(target.read_bytes())\<close>.\<close>

definition file_bytes :: "ext \<Rightarrow> string \<Rightarrow> ('z io_scheme, exn, bytes) M" where
  "file_bytes X target =
     andthen (ask (FsCall ''read_bytes'' target)) (\<lambda>h.
     case x_bytes X h of
       None \<Rightarrow> raise (rejected ''FILE_NOT_FOUND'' ''file cannot be read'')
     | Some b \<Rightarrow> ret b)"

definition file_read_operation ::
  "ext \<Rightarrow> bridge_settings \<Rightarrow> auth_context option \<Rightarrow> string \<Rightarrow> string \<Rightarrow> string \<Rightarrow> int option \<Rightarrow> int option
   \<Rightarrow> ('z bridge_st_scheme, exn, outcome) M" where
  "file_read_operation X S who project_id session_id path first_line limit =
     andthen (require_session X S who project_id (Some session_id)) (\<lambda>_.
     andthen (require (case first_line of None \<Rightarrow> True | Some i \<Rightarrow> i \<ge> 0)
       (rejected ''INVALID_REQUEST'' ''offset must not be negative'')) (\<lambda>_.
     andthen (require (case limit of None \<Rightarrow> True | Some i \<Rightarrow> 0 \<le> i \<and> i \<le> 10000)
       (rejected ''INVALID_REQUEST'' ''limit must be between 0 and 10000'')) (\<lambda>_.
     andthen (resolve_path X project_id (Some path) False True) (\<lambda>(project, target, _).
     andthen (require_regular_file X target) (\<lambda>_.
     andthen (validate_file_size X S target) (\<lambda>_.
     andthen (require_text_file X target) (\<lambda>_.
     andthen (file_bytes X target) (\<lambda>before.
     andthen (adapter_call X S project ''ReadFile'' target
       [(''offset'', jint_opt first_line), (''limit'', jint_opt limit), (''chat_id'', JStr session_id)] False) (\<lambda>result.
     andthen (require (\<not> is_codemcp_error (ar_is_error result) (ar_text result))
       (failed_effect ''codemcp rejected ReadFile'' [(''subtool'', JStr ''ReadFile'')])) (\<lambda>_.
     andthen (validate_file_size X S target) (\<lambda>after_size.
     andthen (file_bytes X target) (\<lambda>after.
     andthen (relative_path X project target) (\<lambda>rel.
     andthen (require (x_sha256 X after = x_sha256 X before)
       (rejected_with ''CONFLICT'' ''file content changed while it was being read'' (JObj [(''path'', JStr rel)]))) (\<lambda>_.
     ret (outcome_of
       [(''path'', JStr rel), (''text'', JStr (ar_text result)), (''sha256'', JStr (x_sha256 X after)),
        (''size_bytes'', JInt (int after_size))] [] (ar_truncated result))))))))))))))))"

definition file_read ::
  "ext \<Rightarrow> bridge_settings \<Rightarrow> auth_context option \<Rightarrow> string option \<Rightarrow> string \<Rightarrow> string \<Rightarrow> string \<Rightarrow> int option
   \<Rightarrow> int option \<Rightarrow> ('z bridge_st_scheme, exn, json) M" where
  "file_read X S who rid project_id session_id path first_line limit =
     execute_plain X S who rid
       (request_for project_id (Some session_id) ''file_read''
          [(''path'', JStr path), (''offset'', jint_opt first_line), (''limit'', jint_opt limit)])
       (\<lambda>_. file_read_operation X S who project_id session_id path first_line limit)"

text \<open>\<open>PurePosixPath(relative).name\<close>.\<close>

definition path_name :: "string \<Rightarrow> string" where
  "path_name p = (let parts = filter (\<lambda>w. w \<noteq> ''/'') (posix_parts p) in if parts = [] then [] else last parts)"

definition grep_roots :: "ext \<Rightarrow> bridge_settings \<Rightarrow> project_spec \<Rightarrow> ('z io_scheme, exn, string list) M" where
  "grep_roots X S project =
     andthen (real_path X (p_root project)) (\<lambda>root.
     ret [trim_root root, trim_root (worker_path X S (p_root project))])"

definition wanted :: "ext \<Rightarrow> project_spec \<Rightarrow> string \<Rightarrow> string option \<Rightarrow> string \<Rightarrow> ('z io_scheme, exn, bool) M" where
  "wanted X project target including search_path =
     (if search_path \<noteq> target \<and> given including then
        andthen (relative_path X project search_path) (\<lambda>rel.
        ret (fnmatchcase (path_name rel) (the including) \<or> fnmatchcase rel (the including)))
      else ret True)"

text \<open>One round of the loop over the search paths; the root is resolved once for a result, where the code
  resolves it again for each line.\<close>

definition search_one ::
  "ext \<Rightarrow> bridge_settings \<Rightarrow> project_spec \<Rightarrow> string \<Rightarrow> string \<Rightarrow> string option \<Rightarrow> string \<Rightarrow> string
   \<Rightarrow> string list \<times> bool \<Rightarrow> ('z bridge_st_scheme, exn, string list \<times> bool) M" where
  "search_one X S project session_id pattern including target search_path found =
     andthen (wanted X project target including search_path) (\<lambda>w.
     if \<not> w then ret found
     else
       andthen (adapter_call X S project ''Grep'' search_path
         [(''pattern'', JStr pattern), (''include'', jopt including), (''chat_id'', JStr session_id)] False) (\<lambda>result.
       andthen (require (\<not> is_codemcp_error (ar_is_error result) (ar_text result))
         (failed_effect ''codemcp rejected Grep'' [])) (\<lambda>_.
       andthen (grep_roots X S project) (\<lambda>roots.
       let filtered = filter_sensitive_grep_result roots (ar_text result) in
       ret (if filtered \<noteq> [] \<and> filtered \<noteq> ''No files found'' then fst found @ [filtered] else fst found,
            snd found \<or> ar_truncated result)))))"

definition code_search ::
  "ext \<Rightarrow> bridge_settings \<Rightarrow> auth_context option \<Rightarrow> string option \<Rightarrow> string \<Rightarrow> string \<Rightarrow> string \<Rightarrow> string option
   \<Rightarrow> string option \<Rightarrow> ('z bridge_st_scheme, exn, json) M" where
  "code_search X S who rid project_id session_id pattern path including =
     execute_plain X S who rid
       (request_for project_id (Some session_id) ''code_search''
          [(''pattern'', JStr pattern), (''path'', jopt path), (''include'', jopt including)])
       (\<lambda>_.
        andthen (require_session X S who project_id (Some session_id)) (\<lambda>_.
        andthen (validate_pattern pattern) (\<lambda>_.
        andthen (resolve_path X project_id path True True) (\<lambda>(project, target, _).
        andthen (safe_search_paths X project target) (\<lambda>paths.
        andthen (fold_each paths (search_one X S project session_id pattern including target) ([], False))
          (\<lambda>(results, truncated).
        andthen (relative_path X project target) (\<lambda>rel.
        ret (outcome_of
          [(''path'', JStr rel),
           (''text'', JStr (if results \<noteq> [] then join_with [lf] results else ''No files found''))]
          [] truncated))))))))"

definition tree_line :: "string \<times> bool \<Rightarrow> string" where
  "tree_line e =
     (let parts = posix_parts (fst e) in
      concat (replicate (length parts) ''  '') @ ''- '' @ last parts @ (if snd e then ''/'' else []))"

definition tree_text :: "string \<Rightarrow> (string \<times> bool) list \<Rightarrow> string" where
  "tree_text rel entries =
     join_with [lf] ((''- '' @ (if rel = ''.'' then ''./'' else rel @ ''/'')) # map tree_line entries)"

definition file_list ::
  "ext \<Rightarrow> bridge_settings \<Rightarrow> auth_context option \<Rightarrow> string option \<Rightarrow> string \<Rightarrow> string \<Rightarrow> string option
   \<Rightarrow> ('z bridge_st_scheme, exn, json) M" where
  "file_list X S who rid project_id session_id path =
     execute_plain X S who rid
       (request_for project_id (Some session_id) ''file_list'' [(''path'', jopt path)])
       (\<lambda>_.
        andthen (require_session X S who project_id (Some session_id)) (\<lambda>_.
        andthen (resolve_path X project_id path True True) (\<lambda>(project, target, _).
        andthen (fs_ask X ''is_dir'' target) (\<lambda>d.
        andthen (require d (rejected ''FILE_NOT_FOUND'' ''a directory is required'')) (\<lambda>_.
        andthen (safe_directory_tree X project target 1000) (\<lambda>(entries, cut_short).
        andthen (relative_path X project target) (\<lambda>rel.
        let (t, too_long) = truncate_text (tree_text rel entries) (max_result S) in
        ret (outcome_of [(''path'', JStr rel), (''text'', JStr t)] [] (cut_short \<or> too_long)))))))))"

definition git_status_tool ::
  "ext \<Rightarrow> bridge_settings \<Rightarrow> auth_context option \<Rightarrow> string option \<Rightarrow> string \<Rightarrow> string
   \<Rightarrow> ('z bridge_st_scheme, exn, json) M" where
  "git_status_tool X S who rid project_id session_id =
     execute_plain X S who rid
       (request_for project_id (Some session_id) ''git_status''
          [(''project_id'', JStr project_id), (''session_id'', JStr session_id)])
       (\<lambda>_.
        andthen (require_session X S who project_id (Some session_id)) (\<lambda>_.
        andthen (get_project project_id) (\<lambda>project.
        andthen (inspect_project X project True) (\<lambda>status.
        ret (outcome_of
          [(''branch'', JStr (gs_branch status)), (''head'', JStr (gs_head status)),
           (''dirty'', JBool (gs_dirty status)), (''changed_files'', jstrs (gs_files status))]
          (gs_files status) False)))))"

definition git_diff_tool ::
  "ext \<Rightarrow> bridge_settings \<Rightarrow> auth_context option \<Rightarrow> string option \<Rightarrow> string \<Rightarrow> string \<Rightarrow> string option
   \<Rightarrow> ('z bridge_st_scheme, exn, json) M" where
  "git_diff_tool X S who rid project_id session_id checkpoint_id =
     execute_plain X S who rid
       (request_for project_id (Some session_id) ''git_diff''
          [(''project_id'', JStr project_id), (''session_id'', JStr session_id),
           (''checkpoint_id'', jopt checkpoint_id)])
       (\<lambda>_.
        andthen (require_session X S who project_id (Some session_id)) (\<lambda>_.
        andthen (get_project project_id) (\<lambda>project.
        andthen (inspect_project X project True) (\<lambda>_.
        case checkpoint_id of
          None \<Rightarrow>
            andthen (git_diff X (max_result S) (p_root project)) (\<lambda>(diff, truncated).
            ret (outcome_of [(''text'', JStr diff)] [] truncated))
        | Some cid \<Rightarrow>
            andthen (get_for_session cid project_id session_id) (\<lambda>checkpoint.
            andthen (verify_ref X project checkpoint) (\<lambda>_.
            andthen (diff_names_from X (p_root project) (c_ref_name checkpoint)) (\<lambda>changed.
            andthen (diff_from X (max_result S) (p_root project) (c_ref_name checkpoint)) (\<lambda>(diff, truncated).
            andthen (lift_sum (summary checkpoint)) (\<lambda>sm.
            ret (outcome_of [(''text'', JStr diff), (''checkpoint'', sm)] changed truncated))))))))))"

end
