(* ===== verification/Mutations.thy ===== *)
theory Mutations
  imports Tools
begin

text \<open>
  The tools of \<open>BridgeService\<close> that change a project, and those that decide about a stored operation: each
  runs inside the mutation lock of its project, between the baseline and the recorded result.
\<close>

section \<open>Shared steps\<close>

definition description_given :: "string \<Rightarrow> ('s, exn, unit) M" where
  "description_given description =
     require (description \<noteq> [] \<and> length description \<le> 500)
       (rejected ''INVALID_REQUEST'' ''description must be 1-500 characters'')"

definition too_large :: "bridge_settings \<Rightarrow> bytes \<Rightarrow> bool" where
  "too_large S b = (int (length b) > po_max_file_bytes (bs_policy S))"

definition fits :: "bridge_settings \<Rightarrow> bytes \<Rightarrow> string \<Rightarrow> ('s, exn, unit) M" where
  "fits S b msg = require (\<not> too_large S b) (rejected ''FILE_TOO_LARGE'' msg)"

text \<open>\<open>str.encode("utf-8")\<close> of a text of the client.\<close>

definition client_bytes :: "string \<Rightarrow> bytes" where
  "client_bytes t = encode_str t"

definition text_target :: "ext \<Rightarrow> bridge_settings \<Rightarrow> string \<Rightarrow> ('z io_scheme, exn, unit) M" where
  "text_target X S target =
     andthen (require_regular_file X target) (\<lambda>_.
     andthen (validate_file_size X S target) (\<lambda>_.
     require_text_file X target))"

text \<open>\<open>parent.exists() and parent.is_dir()\<close> of the parent of a target.\<close>

definition parent_of :: "string \<Rightarrow> string" where
  "parent_of p = join_with ''/'' (butlast (split_on (CHR ''/'') p))"

definition require_parent :: "ext \<Rightarrow> string \<Rightarrow> string \<Rightarrow> string \<Rightarrow> ('z io_scheme, exn, unit) M" where
  "require_parent X target normalized msg =
     andthen (fs_ask X ''exists'' (parent_of target)) (\<lambda>e.
     andthen (if e then fs_ask X ''is_dir'' (parent_of target) else ret False) (\<lambda>d.
     require d (rejected_with ''FILE_NOT_FOUND'' msg (JObj [(''path'', JStr normalized)]))))"

definition require_absent :: "ext \<Rightarrow> string \<Rightarrow> string \<Rightarrow> string \<Rightarrow> ('z io_scheme, exn, unit) M" where
  "require_absent X target normalized msg =
     andthen (fs_ask X ''exists'' target) (\<lambda>e.
     require (\<not> e) (rejected_with ''CONFLICT'' msg (JObj [(''path'', JStr normalized)])))"

text \<open>The digest of a text in the input of an operation.\<close>

definition text_digest :: "ext \<Rightarrow> string \<Rightarrow> json" where
  "text_digest X t = JStr (request_hash X (JStr t))"

text \<open>Recording the result of a mutation, and its outcome.\<close>

definition mutation_outcome :: "(json \<Rightarrow> (string \<times> json) list) \<Rightarrow> json \<Rightarrow> ('s, exn, outcome) M" where
  "mutation_outcome data checkpoint_data =
     andthen (lift_sum (after_files checkpoint_data)) (\<lambda>changed.
     ret (outcome_of (data checkpoint_data) changed False))"

section \<open>Files\<close>

text \<open>A path below the root of its project, and an absolute one.\<close>

type_synonym rel_path = string
type_synonym abs_path = string

definition file_edit_locked ::
  "ext \<Rightarrow> bridge_settings \<Rightarrow> project_spec \<Rightarrow> string \<Rightarrow> string \<Rightarrow> string \<Rightarrow> string \<Rightarrow> utext \<Rightarrow> utext \<Rightarrow> string
   \<Rightarrow> ('z bridge_st_scheme, exn, string \<times> json) M" where
  "file_edit_locked X S project session_id operation_id target normalized old_string new_string description =
     andthen (begin_mutation X S project session_id operation_id) (\<lambda>(checkpoint, mode).
     andthen (text_target X S target) (\<lambda>_.
     andthen (file_bytes X target) (\<lambda>raw.
     andthen (lift_sum (replace_exact_text raw normalized old_string new_string)) (\<lambda>updated.
     andthen (fits S updated ''edited file exceeds the configured size limit'') (\<lambda>_.
     andthen (commit_file_bytes X (p_root project) normalized updated (c_head checkpoint) description
       (Some True) (Some mode) (Some session_id) (Some (c_branch checkpoint))) (\<lambda>new_head.
     andthen (finish_mutation X S project checkpoint new_head) (\<lambda>data. ret (new_head, data))))))))"

definition file_edit ::
  "ext \<Rightarrow> bridge_settings \<Rightarrow> auth_context option \<Rightarrow> string option \<Rightarrow> string \<Rightarrow> string \<Rightarrow> string \<Rightarrow> string \<Rightarrow> string
   \<Rightarrow> string \<Rightarrow> string option \<Rightarrow> string option \<Rightarrow> ('z bridge_st_scheme, exn, json) M" where
  "file_edit X S who rid project_id session_id path old_string new_string description client_request_id supplied =
     execute_plain X S who rid
       (mutation_request project_id session_id ''file_edit''
          [(''path'', JStr path), (''description'', JStr description),
           (''old_string_digest'', text_digest X old_string), (''new_string_digest'', text_digest X new_string)]
          client_request_id supplied)
       (\<lambda>operation_id.
        andthen (require_session X S who project_id (Some session_id)) (\<lambda>_.
        andthen (description_given description) (\<lambda>_.
        andthen (fits S (client_bytes old_string) ''old_string exceeds the configured size limit'') (\<lambda>_.
        andthen (fits S (client_bytes new_string) ''new_string exceeds the configured size limit'') (\<lambda>_.
        andthen (resolve_path X project_id (Some path) False True) (\<lambda>(project, target, normalized).
        andthen (text_target X S target) (\<lambda>_.
        andthen (with_lock project_id
          (file_edit_locked X S project session_id operation_id target normalized (codes old_string)
             (codes new_string) description)) (\<lambda>(new_head, data).
        mutation_outcome (\<lambda>d. [(''text'', JStr (''Bridge file edit committed at '' @ new_head)),
                                (''checkpoint'', d)]) data))))))))"

definition content_allowed :: "bridge_settings \<Rightarrow> string \<Rightarrow> ('s, exn, unit) M" where
  "content_allowed S content =
     andthen (fits S (client_bytes content) ''content exceeds the configured size limit'') (\<lambda>_.
     require (nul \<notin> set content) (rejected ''BINARY_FILE'' ''binary content is not exposed by the Bridge''))"

definition file_create_locked ::
  "ext \<Rightarrow> bridge_settings \<Rightarrow> project_spec \<Rightarrow> string \<Rightarrow> string \<Rightarrow> string \<Rightarrow> string \<Rightarrow> string \<Rightarrow> string
   \<Rightarrow> ('z bridge_st_scheme, exn, string \<times> json) M" where
  "file_create_locked X S project session_id operation_id target normalized content description =
     andthen (require_absent X target normalized ''file already exists'') (\<lambda>_.
     andthen (begin_mutation X S project session_id operation_id) (\<lambda>(checkpoint, mode).
     andthen (require_absent X target normalized
       ''file appeared after the mutation baseline was recorded'') (\<lambda>_.
     andthen (commit_file_bytes X (p_root project) normalized (client_bytes content) (c_head checkpoint)
       description (Some False) (Some mode) (Some session_id) (Some (c_branch checkpoint))) (\<lambda>new_head.
     andthen (finish_mutation X S project checkpoint new_head) (\<lambda>data. ret (new_head, data))))))"

definition file_create ::
  "ext \<Rightarrow> bridge_settings \<Rightarrow> auth_context option \<Rightarrow> string option \<Rightarrow> string \<Rightarrow> string \<Rightarrow> string \<Rightarrow> string \<Rightarrow> string
   \<Rightarrow> string option \<Rightarrow> string option \<Rightarrow> ('z bridge_st_scheme, exn, json) M" where
  "file_create X S who rid project_id session_id path content description client_request_id supplied =
     execute_plain X S who rid
       (mutation_request project_id session_id ''file_create''
          [(''path'', JStr path), (''description'', JStr description), (''content_digest'', text_digest X content)]
          client_request_id supplied)
       (\<lambda>operation_id.
        andthen (require_session X S who project_id (Some session_id)) (\<lambda>_.
        andthen (description_given description) (\<lambda>_.
        andthen (content_allowed S content) (\<lambda>_.
        andthen (resolve_path X project_id (Some path) False True) (\<lambda>(project, target, normalized).
        andthen (require_parent X target normalized ''parent directory does not exist'') (\<lambda>_.
        andthen (with_lock project_id
          (file_create_locked X S project session_id operation_id target normalized content description))
          (\<lambda>(new_head, data).
        mutation_outcome (\<lambda>d. [(''path'', JStr normalized),
          (''text'', JStr (''Bridge file create committed at '' @ new_head)), (''checkpoint'', d)]) data)))))))"

definition sha256_ok :: "string \<Rightarrow> bool" where
  "sha256_ok s = (length s = 64 \<and> list_all is_hexdigit s)"

definition file_write_locked ::
  "ext \<Rightarrow> bridge_settings \<Rightarrow> project_spec \<Rightarrow> string \<Rightarrow> string \<Rightarrow> string \<Rightarrow> string \<Rightarrow> string \<Rightarrow> string \<Rightarrow> string
   \<Rightarrow> ('z bridge_st_scheme, exn, string \<times> json) M" where
  "file_write_locked X S project session_id operation_id target normalized content expected description =
     andthen (begin_mutation X S project session_id operation_id) (\<lambda>(checkpoint, mode).
     andthen (text_target X S target) (\<lambda>_.
     andthen (file_bytes X target) (\<lambda>raw.
     andthen (require (x_sha256 X raw = expected)
       (rejected_with ''CONFLICT'' ''file content changed since it was read''
         (JObj [(''path'', JStr normalized), (''expected_sha256'', JStr expected),
                (''actual_sha256'', JStr (x_sha256 X raw))]))) (\<lambda>_.
     andthen (lift_sum (encode_existing_text raw normalized (codes content))) (\<lambda>prepared.
     andthen (fits S prepared ''replacement file exceeds the configured size limit'') (\<lambda>_.
     andthen (commit_file_bytes X (p_root project) normalized prepared (c_head checkpoint) description
       (Some True) (Some mode) (Some session_id) (Some (c_branch checkpoint))) (\<lambda>new_head.
     andthen (finish_mutation X S project checkpoint new_head) (\<lambda>data. ret (new_head, data)))))))))"

definition file_write ::
  "ext \<Rightarrow> bridge_settings \<Rightarrow> auth_context option \<Rightarrow> string option \<Rightarrow> string \<Rightarrow> string \<Rightarrow> string \<Rightarrow> string \<Rightarrow> string
   \<Rightarrow> string \<Rightarrow> string option \<Rightarrow> string option \<Rightarrow> ('z bridge_st_scheme, exn, json) M" where
  "file_write X S who rid project_id session_id path content expected_sha256 description client_request_id
       supplied =
     execute_plain X S who rid
       (mutation_request project_id session_id ''file_write''
          [(''path'', JStr path), (''description'', JStr description),
           (''expected_sha256'', JStr (lower expected_sha256)), (''content_digest'', text_digest X content)]
          client_request_id supplied)
       (\<lambda>operation_id.
        andthen (require_session X S who project_id (Some session_id)) (\<lambda>_.
        andthen (description_given description) (\<lambda>_.
        andthen (require (sha256_ok expected_sha256)
          (rejected ''INVALID_REQUEST'' ''expected_sha256 must be a SHA-256 hex digest'')) (\<lambda>_.
        andthen (content_allowed S content) (\<lambda>_.
        andthen (resolve_path X project_id (Some path) False True) (\<lambda>(project, target, normalized).
        andthen (text_target X S target) (\<lambda>_.
        andthen (with_lock project_id
          (file_write_locked X S project session_id operation_id target normalized content
             (lower expected_sha256) description)) (\<lambda>(new_head, data).
        mutation_outcome (\<lambda>d. [(''path'', JStr normalized),
          (''text'', JStr (''Bridge file write committed at '' @ new_head)), (''checkpoint'', d)]) data))))))))"

text \<open>\<open>checkpoint.before_data.get("file_hashes", {})\<close> holds the path.\<close>

definition tracked :: "checkpoint_rec \<Rightarrow> string \<Rightarrow> string \<Rightarrow> ('s, exn, unit) M" where
  "tracked checkpoint normalized msg =
     andthen (lift_sum (before_data checkpoint)) (\<lambda>before.
     andthen (require (is_jobj before) OtherErr) (\<lambda>_.
     require (jget (jget_or (JObj []) before ''file_hashes'') normalized \<noteq> None)
       (rejected_with ''CONFLICT'' msg (JObj [(''path'', JStr normalized)]))))"

definition file_move_locked ::
  "ext \<Rightarrow> bridge_settings \<Rightarrow> project_spec \<Rightarrow> string \<Rightarrow> string \<Rightarrow> string \<Rightarrow> rel_path \<Rightarrow> rel_path \<Rightarrow> rel_path
   \<Rightarrow> abs_path \<Rightarrow> rel_path \<Rightarrow> string \<Rightarrow> ('z bridge_st_scheme, exn, (string \<times> string) \<times> string \<times> json) M" where
  "file_move_locked X S project project_id session_id operation_id source_path destination_path
       normalized_source destination normalized_destination description =
     andthen (require_absent X destination normalized_destination ''destination file already exists'') (\<lambda>_.
     andthen (begin_mutation X S project session_id operation_id) (\<lambda>(checkpoint, mode).
     andthen (tracked checkpoint normalized_source ''source file must be tracked by the checkpoint HEAD'') (\<lambda>_.
     andthen (resolve_path X project_id (Some source_path) False True) (\<lambda>(_, source2, normalized_source2).
     andthen (resolve_path X project_id (Some destination_path) False True)
       (\<lambda>(_, destination2, normalized_destination2).
     andthen (require_regular_file X source2) (\<lambda>_.
     andthen (require_parent X destination2 normalized_destination2
       ''destination parent directory does not exist'') (\<lambda>_.
     andthen (require_absent X destination2 normalized_destination2
       ''destination file appeared after the mutation baseline was recorded'') (\<lambda>_.
     andthen (move_tracked_file X (p_root project) normalized_source2 normalized_destination2
       (c_head checkpoint) (Some description) mode (Some session_id) (Some (c_branch checkpoint))) (\<lambda>new_head.
     andthen (finish_mutation X S project checkpoint new_head) (\<lambda>data.
     ret ((normalized_source2, normalized_destination2), new_head, data)))))))))))"

definition file_move ::
  "ext \<Rightarrow> bridge_settings \<Rightarrow> auth_context option \<Rightarrow> string option \<Rightarrow> string \<Rightarrow> string \<Rightarrow> string \<Rightarrow> string \<Rightarrow> string
   \<Rightarrow> string option \<Rightarrow> string option \<Rightarrow> ('z bridge_st_scheme, exn, json) M" where
  "file_move X S who rid project_id session_id source_path destination_path description client_request_id
       supplied =
     execute_plain X S who rid
       (mutation_request project_id session_id ''file_move''
          [(''source_path'', JStr source_path), (''destination_path'', JStr destination_path),
           (''description'', JStr description)] client_request_id supplied)
       (\<lambda>operation_id.
        andthen (require_session X S who project_id (Some session_id)) (\<lambda>_.
        andthen (description_given description) (\<lambda>_.
        andthen (resolve_path X project_id (Some source_path) False True) (\<lambda>(project, source, normalized_source).
        andthen (resolve_path X project_id (Some destination_path) False True)
          (\<lambda>(_, destination, normalized_destination).
        andthen (require (source \<noteq> destination \<and> normalized_source \<noteq> normalized_destination)
          (rejected ''INVALID_REQUEST'' ''source_path and destination_path must be different'')) (\<lambda>_.
        andthen (require_regular_file X source) (\<lambda>_.
        andthen (require_parent X destination normalized_destination
          ''destination parent directory does not exist'') (\<lambda>_.
        andthen (with_lock project_id
          (file_move_locked X S project project_id session_id operation_id source_path destination_path
             normalized_source destination normalized_destination description))
          (\<lambda>((moved_from, moved_to), new_head, data).
        mutation_outcome (\<lambda>d. [(''source_path'', JStr moved_from), (''destination_path'', JStr moved_to),
          (''head'', JStr new_head), (''checkpoint'', d)]) data)))))))))"

definition file_delete_locked ::
  "ext \<Rightarrow> bridge_settings \<Rightarrow> project_spec \<Rightarrow> string \<Rightarrow> string \<Rightarrow> string \<Rightarrow> string \<Rightarrow> string \<Rightarrow> string
   \<Rightarrow> ('z bridge_st_scheme, exn, string \<times> string \<times> json) M" where
  "file_delete_locked X S project project_id session_id operation_id path normalized description =
     andthen (begin_mutation X S project session_id operation_id) (\<lambda>(checkpoint, mode).
     andthen (tracked checkpoint normalized
       ''file must be tracked by the checkpoint HEAD before deletion'') (\<lambda>_.
     andthen (resolve_path X project_id (Some path) False True) (\<lambda>(_, target, normalized2).
     andthen (require_regular_file X target) (\<lambda>_.
     andthen (delete_tracked_file X (p_root project) normalized2 (c_head checkpoint) (Some description)
       mode (Some session_id) (Some (c_branch checkpoint))) (\<lambda>new_head.
     andthen (finish_mutation X S project checkpoint new_head) (\<lambda>data.
     ret (normalized2, new_head, data)))))))"

definition file_delete ::
  "ext \<Rightarrow> bridge_settings \<Rightarrow> auth_context option \<Rightarrow> string option \<Rightarrow> string \<Rightarrow> string \<Rightarrow> string \<Rightarrow> string
   \<Rightarrow> string option \<Rightarrow> string option \<Rightarrow> ('z bridge_st_scheme, exn, json) M" where
  "file_delete X S who rid project_id session_id path description client_request_id supplied =
     execute_plain X S who rid
       (mutation_request project_id session_id ''file_delete''
          [(''path'', JStr path), (''description'', JStr description)] client_request_id supplied)
       (\<lambda>operation_id.
        andthen (require_session X S who project_id (Some session_id)) (\<lambda>_.
        andthen (description_given description) (\<lambda>_.
        andthen (resolve_path X project_id (Some path) False True) (\<lambda>(project, target, normalized).
        andthen (require_regular_file X target) (\<lambda>_.
        andthen (with_lock project_id
          (file_delete_locked X S project project_id session_id operation_id path normalized description))
          (\<lambda>(removed, new_head, data).
        mutation_outcome (\<lambda>d. [(''path'', JStr removed), (''head'', JStr new_head), (''checkpoint'', d)])
          data))))))"

section \<open>Directories\<close>

text \<open>\<open>except\<close> around the commit of the marker: the new directory is removed again unless the marker is
  there; when that fails the outcome is unknown, except that a cancellation stays one.\<close>

definition undo_directory :: "ext \<Rightarrow> string \<Rightarrow> string \<Rightarrow> string \<Rightarrow> exn \<Rightarrow> ('z io_scheme, exn, 'a) M" where
  "undo_directory X target marker normalized e =
     andthen (fs_ask X ''exists'' marker) (\<lambda>there.
     if there then raise e
     else
       andthen (fs_ask X ''rmdir'' target) (\<lambda>removed.
       if \<not> removed \<and> is_exception e
       then raise (unknown_effect ''directory creation outcome is unknown and requires reconciliation''
              [(''path'', JStr normalized)])
       else raise e))"

definition make_directory :: "ext \<Rightarrow> string \<Rightarrow> string \<Rightarrow> ('z io_scheme, exn, unit) M" where
  "make_directory X target normalized =
     andthen (ask (FsCall ''mkdir'' target)) (\<lambda>h.
     case x_create X h of
       Created \<Rightarrow> ret ()
     | AlreadyExists \<Rightarrow>
         raise (rejected_with ''CONFLICT'' ''path already exists'' (JObj [(''path'', JStr normalized)]))
     | CreateFailed \<Rightarrow>
         raise (failed_effect ''directory could not be created'' [(''path'', JStr normalized)]))"

definition directory_create_locked ::
  "ext \<Rightarrow> bridge_settings \<Rightarrow> project_spec \<Rightarrow> string \<Rightarrow> string \<Rightarrow> string \<Rightarrow> string \<Rightarrow> string
   \<Rightarrow> ('z bridge_st_scheme, exn, string \<times> string \<times> json) M" where
  "directory_create_locked X S project session_id operation_id target normalized description =
     andthen (require_absent X target normalized ''path already exists'') (\<lambda>_.
     andthen (begin_mutation X S project session_id operation_id) (\<lambda>(checkpoint, mode).
     andthen (require_absent X target normalized
       ''path appeared after the mutation baseline was recorded'') (\<lambda>_.
     andthen (make_directory X target normalized) (\<lambda>_.
     let marker = join_path target ''.gitkeep'' in
     andthen (relative_path X project marker) (\<lambda>marker_path.
     andthen (handle
       (commit_file_bytes X (p_root project) marker_path [] (c_head checkpoint)
          (description @ '' (directory marker)'') (Some False) (Some mode) (Some session_id)
          (Some (c_branch checkpoint)))
       (undo_directory X target marker normalized)) (\<lambda>new_head.
     andthen (finish_mutation X S project checkpoint new_head) (\<lambda>data.
     ret (marker_path, new_head, data))))))))"

definition directory_create ::
  "ext \<Rightarrow> bridge_settings \<Rightarrow> auth_context option \<Rightarrow> string option \<Rightarrow> string \<Rightarrow> string \<Rightarrow> string \<Rightarrow> string
   \<Rightarrow> string option \<Rightarrow> string option \<Rightarrow> ('z bridge_st_scheme, exn, json) M" where
  "directory_create X S who rid project_id session_id path description client_request_id supplied =
     execute_plain X S who rid
       (mutation_request project_id session_id ''directory_create''
          [(''path'', JStr path), (''description'', JStr description)] client_request_id supplied)
       (\<lambda>operation_id.
        andthen (require_session X S who project_id (Some session_id)) (\<lambda>_.
        andthen (description_given description) (\<lambda>_.
        andthen (resolve_path X project_id (Some path) False True) (\<lambda>(project, target, normalized).
        andthen (require_parent X target normalized ''parent directory does not exist'') (\<lambda>_.
        andthen (with_lock project_id
          (directory_create_locked X S project session_id operation_id target normalized description))
          (\<lambda>(marker_path, new_head, data).
        mutation_outcome (\<lambda>d. [(''path'', JStr normalized), (''marker_path'', JStr marker_path),
          (''text'', JStr (''Bridge directory create committed at '' @ new_head)), (''checkpoint'', d)])
          data))))))"

section \<open>Commands\<close>

definition resolve_command ::
  "ext \<Rightarrow> bridge_settings \<Rightarrow> project_spec \<Rightarrow> string \<Rightarrow> string option
   \<Rightarrow> ('z bridge_st_scheme, exn, command_spec) M" where
  "resolve_command X S project command_id expected_kind =
     (case expected_kind of
        None \<Rightarrow> registered_command X S project command_id False
      | Some k \<Rightarrow> command_of_kind X S project command_id k False)"

definition run_command_locked ::
  "ext \<Rightarrow> bridge_settings \<Rightarrow> project_spec \<Rightarrow> command_spec \<Rightarrow> string \<Rightarrow> string
   \<Rightarrow> ('z bridge_st_scheme, exn, command_run_result \<times> json) M" where
  "run_command_locked X S project c session_id operation_id =
     andthen (begin_mutation X S project session_id operation_id) (\<lambda>(checkpoint, _).
     andthen (run_command X S project c) (\<lambda>result.
     andthen (Git.git_status X (p_root project)) (\<lambda>after.
     andthen (require (gs_branch after = c_branch checkpoint \<and> lower (gs_head after) = lower (c_head checkpoint))
       (unknown_effect ''registered command changed Git HEAD or branch''
         [(''command_id'', JStr (cs_command_id c)), (''expected_branch'', JStr (c_branch checkpoint)),
          (''actual_branch'', JStr (gs_branch after)), (''expected_head'', JStr (c_head checkpoint)),
          (''actual_head'', JStr (gs_head after))])) (\<lambda>_.
     andthen (require (\<not> cr_is_error result)
       (failed_effect ''registered command failed''
         [(''command_id'', JStr (cs_command_id c)), (''output'', JStr (cr_text result)),
          (''truncated'', JBool (cr_truncated result))])) (\<lambda>_.
     andthen (finish_mutation X S project checkpoint (c_head checkpoint)) (\<lambda>data.
     ret (result, data)))))))"

definition run_command_body ::
  "ext \<Rightarrow> bridge_settings \<Rightarrow> project_spec \<Rightarrow> command_spec \<Rightarrow> string \<Rightarrow> string
   \<Rightarrow> ('z bridge_st_scheme, exn, outcome) M" where
  "run_command_body X S project c session_id operation_id =
     andthen (with_lock (p_project_id project) (run_command_locked X S project c session_id operation_id))
       (\<lambda>(result, data).
     andthen (lift_sum (after_files data)) (\<lambda>changed.
     ret (outcome_of [(''command_id'', JStr (cs_command_id c)), (''text'', JStr (cr_text result)),
       (''checkpoint'', data)] changed (cr_truncated result))))"

definition run_registered_command ::
  "ext \<Rightarrow> bridge_settings \<Rightarrow> auth_context option \<Rightarrow> string option \<Rightarrow> string \<Rightarrow> string \<Rightarrow> string
   \<Rightarrow> string option \<Rightarrow> string option \<Rightarrow> string option \<Rightarrow> ('z bridge_st_scheme, exn, json) M" where
  "run_registered_command X S who rid project_id session_id command_id expected_kind client_request_id supplied =
     execute_request X S who rid
       ((mutation_request project_id session_id
           (case expected_kind of None \<Rightarrow> ''registered_command_run'' | Some k \<Rightarrow> k @ ''_run'')
           ((''command_id'', JStr command_id)
              # (case expected_kind of None \<Rightarrow> [] | Some k \<Rightarrow> [(''expected_kind'', JStr k)]))
           client_request_id supplied)
          \<lparr>rq_action := Some ((case expected_kind of None \<Rightarrow> ''command'' | Some k \<Rightarrow> k) @ '':'' @ command_id)\<rparr>)
       (andthen (require_session X S who project_id (Some session_id)) (\<lambda>_.
        andthen (get_project project_id) (\<lambda>project.
        andthen (resolve_command X S project command_id expected_kind) (\<lambda>c.
        ret (cs_approval c = ''required'', (project, c))))))
       (\<lambda>(project, c) operation_id.
        andthen (require_session X S who project_id (Some session_id)) (\<lambda>_.
        run_command_body X S project c session_id operation_id))"

definition registered_command_run ::
  "ext \<Rightarrow> bridge_settings \<Rightarrow> auth_context option \<Rightarrow> string option \<Rightarrow> string \<Rightarrow> string \<Rightarrow> string
   \<Rightarrow> string option \<Rightarrow> string option \<Rightarrow> ('z bridge_st_scheme, exn, json) M" where
  "registered_command_run X S who rid project_id session_id command_id client_request_id supplied =
     run_registered_command X S who rid project_id session_id command_id None client_request_id supplied"

definition format_run ::
  "ext \<Rightarrow> bridge_settings \<Rightarrow> auth_context option \<Rightarrow> string option \<Rightarrow> string \<Rightarrow> string \<Rightarrow> string
   \<Rightarrow> string option \<Rightarrow> string option \<Rightarrow> ('z bridge_st_scheme, exn, json) M" where
  "format_run X S who rid project_id session_id command_id client_request_id supplied =
     run_registered_command X S who rid project_id session_id command_id (Some ''format'') client_request_id
       supplied"

definition test_run ::
  "ext \<Rightarrow> bridge_settings \<Rightarrow> auth_context option \<Rightarrow> string option \<Rightarrow> string \<Rightarrow> string \<Rightarrow> string
   \<Rightarrow> string option \<Rightarrow> string option \<Rightarrow> ('z bridge_st_scheme, exn, json) M" where
  "test_run X S who rid project_id session_id command_id client_request_id supplied =
     run_registered_command X S who rid project_id session_id command_id (Some ''test'') client_request_id
       supplied"

section \<open>Checkpoints\<close>

definition create_checkpoint_for_operation ::
  "ext \<Rightarrow> string \<Rightarrow> string \<Rightarrow> string \<Rightarrow> ('z bridge_st_scheme, exn, outcome) M" where
  "create_checkpoint_for_operation X project_id session_id operation_id =
     andthen (get_project project_id) (\<lambda>project.
     andthen (with_lock (p_project_id project)
       (checkpoint_create X project (Some session_id) (Some operation_id) ''manual'')) (\<lambda>checkpoint.
     andthen (lift_sum (summary checkpoint)) (\<lambda>sm.
     ret (outcome_of [(''checkpoint'', sm)] [] False))))"

definition checkpoint_create_tool ::
  "ext \<Rightarrow> bridge_settings \<Rightarrow> auth_context option \<Rightarrow> string option \<Rightarrow> string \<Rightarrow> string
   \<Rightarrow> string option \<Rightarrow> string option \<Rightarrow> ('z bridge_st_scheme, exn, json) M" where
  "checkpoint_create_tool X S who rid project_id session_id client_request_id supplied =
     execute_request X S who rid
       ((mutation_request project_id session_id ''checkpoint_create''
           [(''project_id'', JStr project_id), (''session_id'', JStr session_id)] client_request_id supplied)
          \<lparr>rq_action := Some ''checkpoint_create''\<rparr>)
       (andthen (require_session X S who project_id (Some session_id)) (\<lambda>_.
        andthen (get_project project_id) (\<lambda>project.
        andthen (require_mutation_preconditions X S project True) (\<lambda>_.
        ret (True, ())))))
       (\<lambda>_ operation_id.
        andthen (require_session X S who project_id (Some session_id)) (\<lambda>_.
        create_checkpoint_for_operation X project_id session_id operation_id))"

text \<open>The comparison of \<open>checkpoint_restore\<close>: the checkpoint of the session, its ref, and the present branch
  and head against the recorded branch and the head the client expects.\<close>

definition restore_baseline ::
  "ext \<Rightarrow> bridge_settings \<Rightarrow> project_spec \<Rightarrow> string \<Rightarrow> string \<Rightarrow> string \<Rightarrow> string
   \<Rightarrow> ('z bridge_st_scheme, exn, checkpoint_rec) M" where
  "restore_baseline X S project project_id session_id checkpoint_id expected_head =
     andthen (get_for_session checkpoint_id project_id session_id) (\<lambda>checkpoint.
     andthen (verify_ref X project checkpoint) (\<lambda>_.
     andthen (inspect_project X project False) (\<lambda>current.
     andthen (require (gs_branch current = c_branch checkpoint \<and> lower (gs_head current) = lower expected_head)
       (rejected_with ''CHECKPOINT_CONFLICT'' ''rollback compare-and-swap precondition failed''
         (JObj [(''checkpoint_id'', JStr checkpoint_id), (''expected_branch'', JStr (c_branch checkpoint)),
                (''actual_branch'', JStr (gs_branch current)), (''expected_head'', JStr expected_head),
                (''actual_head'', JStr (gs_head current))]))) (\<lambda>_.
     andthen (require_allowed_branch project (gs_branch current)) (\<lambda>_.
     andthen (require_clean_workspace S project current) (\<lambda>_.
     ret checkpoint))))))"

definition restore_preconditions ::
  "ext \<Rightarrow> bridge_settings \<Rightarrow> auth_context option \<Rightarrow> string \<Rightarrow> string \<Rightarrow> string \<Rightarrow> string
   \<Rightarrow> ('z bridge_st_scheme, exn, unit) M" where
  "restore_preconditions X S who project_id session_id checkpoint_id expected_head =
     andthen (validate_expected_head expected_head) (\<lambda>_.
     andthen (require_session X S who project_id (Some session_id)) (\<lambda>_.
     andthen (get_project project_id) (\<lambda>project.
     andthen (restore_baseline X S project project_id session_id checkpoint_id expected_head) (\<lambda>_.
     ret ()))))"

text \<open>The reset, and what may be said about it: after it nothing but success or an unknown outcome.\<close>

definition restore_confirmed ::
  "ext \<Rightarrow> bridge_settings \<Rightarrow> project_spec \<Rightarrow> string \<Rightarrow> checkpoint_rec \<Rightarrow> checkpoint_rec
   \<Rightarrow> ('z bridge_st_scheme, exn, checkpoint_rec) M" where
  "restore_confirmed X S project checkpoint_id checkpoint safety =
     handle
       (andthen (git_snapshot X (p_root project)) (\<lambda>after.
        andthen (require (gs_branch after = c_branch checkpoint
            \<and> lower (gs_head after) = lower (c_head checkpoint) \<and> \<not> gs_dirty after)
          (unknown_effect ''rollback completed but the restored Git state cannot be confirmed''
            [(''checkpoint_id'', JStr checkpoint_id), (''expected_branch'', JStr (c_branch checkpoint)),
             (''actual_branch'', JStr (gs_branch after)), (''expected_head'', JStr (c_head checkpoint)),
             (''actual_head'', JStr (gs_head after)), (''dirty'', JBool (gs_dirty after))])) (\<lambda>_.
        checkpoint_finalize X (max_result S) project safety (Some (c_head checkpoint))
          (Some (c_branch checkpoint)))))
       (\<lambda>e. raise (case e of
          BridgeErr b \<Rightarrow>
            if be_code b = ''UNKNOWN_SIDE_EFFECT'' then e
            else unknown_effect ''rollback completed but its Git result could not be recorded''
                   [(''checkpoint_id'', JStr checkpoint_id),
                    (''safety_checkpoint_id'', JStr (c_checkpoint_id safety)), (''cause'', JStr (be_code b))]
        | _ \<Rightarrow> e))"

definition restore_locked ::
  "ext \<Rightarrow> bridge_settings \<Rightarrow> project_spec \<Rightarrow> string \<Rightarrow> string \<Rightarrow> string \<Rightarrow> string \<Rightarrow> string
   \<Rightarrow> ('z bridge_st_scheme, exn, checkpoint_rec \<times> checkpoint_rec \<times> checkpoint_rec) M" where
  "restore_locked X S project project_id session_id checkpoint_id expected_head operation_id =
     andthen (restore_baseline X S project project_id session_id checkpoint_id expected_head) (\<lambda>checkpoint.
     andthen (checkpoint_create X project (Some session_id) (Some operation_id) ''rollback_safety'') (\<lambda>safety.
     andthen (handle (reset_to_checkpoint X (p_root project) (c_ref_name checkpoint))
       (\<lambda>e. raise (case e of
          BridgeErr b \<Rightarrow> unknown_effect ''rollback outcome is unknown and requires reconciliation''
            [(''checkpoint_id'', JStr checkpoint_id),
             (''safety_checkpoint_id'', JStr (c_checkpoint_id safety)), (''cause'', JStr (be_code b))]
        | _ \<Rightarrow> e))) (\<lambda>_.
     andthen (restore_confirmed X S project checkpoint_id checkpoint safety) (\<lambda>finalized.
     andthen (mark_restored X checkpoint_id) (\<lambda>restored.
     ret (checkpoint, restored, finalized))))))"

text \<open>\<open>safety.after_data.get("changed_files", []) if safety.after_data else []\<close>.\<close>

definition restored_files :: "json option \<Rightarrow> exn + string list" where
  "restored_files after =
     (case after of
        None \<Rightarrow> Inr []
      | Some a \<Rightarrow> if \<not> truthy a then Inr [] else texts_of (Some (jget_or (JList []) a ''changed_files'')))"

definition restore_checkpoint_for_operation ::
  "ext \<Rightarrow> bridge_settings \<Rightarrow> auth_context option \<Rightarrow> string \<Rightarrow> string \<Rightarrow> string \<Rightarrow> string \<Rightarrow> string
   \<Rightarrow> ('z bridge_st_scheme, exn, outcome) M" where
  "restore_checkpoint_for_operation X S who project_id session_id checkpoint_id expected_head operation_id =
     andthen (validate_expected_head expected_head) (\<lambda>_.
     andthen (require_session X S who project_id (Some session_id)) (\<lambda>_.
     andthen (get_project project_id) (\<lambda>project.
     andthen (with_lock project_id
       (restore_locked X S project project_id session_id checkpoint_id expected_head operation_id))
       (\<lambda>(checkpoint, restored, safety).
     andthen (lift_sum (summary restored)) (\<lambda>r.
     andthen (lift_sum (summary safety)) (\<lambda>sf.
     andthen (lift_sum (sum_bind (after_column safety) restored_files)) (\<lambda>changed.
     ret (outcome_of [(''checkpoint'', r), (''safety_checkpoint'', sf),
       (''restored_head'', JStr (c_head checkpoint)), (''branch'', JStr (c_branch checkpoint))]
       changed False))))))))"

definition checkpoint_restore ::
  "ext \<Rightarrow> bridge_settings \<Rightarrow> auth_context option \<Rightarrow> string option \<Rightarrow> string \<Rightarrow> string \<Rightarrow> string \<Rightarrow> string
   \<Rightarrow> string option \<Rightarrow> string option \<Rightarrow> ('z bridge_st_scheme, exn, json) M" where
  "checkpoint_restore X S who rid project_id session_id checkpoint_id expected_head client_request_id supplied =
     execute_request X S who rid
       ((mutation_request project_id session_id ''checkpoint_restore''
           [(''project_id'', JStr project_id), (''session_id'', JStr session_id),
            (''checkpoint_id'', JStr checkpoint_id), (''expected_head'', JStr expected_head)]
           client_request_id supplied)
          \<lparr>rq_action := Some (''checkpoint_restore:'' @ checkpoint_id)\<rparr>)
       (andthen (restore_preconditions X S who project_id session_id checkpoint_id expected_head)
          (\<lambda>_. ret (True, ())))
       (\<lambda>_ operation_id.
        restore_checkpoint_for_operation X S who project_id session_id checkpoint_id expected_head
          operation_id)"

end
