(* ===== verification/Decisions.thy ===== *)
theory Decisions
  imports Mutations
begin

text \<open>
  The tools that look at, approve, cancel and reconcile a stored operation, the health report, closing
  the service, and the table of tools that \<open>create_server\<close> registers.
\<close>

section \<open>Looking at an operation\<close>

definition jvalue :: "json option \<Rightarrow> json" where
  "jvalue v = (case v of None \<Rightarrow> JNull | Some j \<Rightarrow> j)"

definition audit_json :: "audit_rec \<times> json \<Rightarrow> json" where
  "audit_json p = (case p of (e, details) \<Rightarrow>
     JObj [(''event_id'', JStr (e_event_id e)), (''operation_id'', jopt (e_operation_id e)),
           (''project_id'', jopt (e_project_id e)), (''session_id'', jopt (e_session_id e)),
           (''owner_id'', JStr (e_owner_id e)), (''event_type'', JStr (e_event_type e)),
           (''from_state'', jopt (e_from_state e)), (''to_state'', jopt (e_to_state e)),
           (''details'', details), (''created_at'', JStr (e_created_at e))])"

definition audit_for_operation :: "string \<Rightarrow> ('z store_st_scheme, exn, json list) M" where
  "audit_for_operation operation_id =
     andthen (list_audit_events (Some operation_id)) (\<lambda>es. ret (map audit_json es))"

definition refused_payload ::
  "ext \<Rightarrow> string option \<Rightarrow> string \<Rightarrow> string \<Rightarrow> berror \<Rightarrow> ('z io_scheme, exn, json) M" where
  "refused_payload X rid session_id operation_id b =
     andthen (request_id_of X rid) (\<lambda>request_id.
     ret (error_payload request_id (Some session_id) None operation_id b))"

definition status_data :: "operation_rec \<Rightarrow> json option \<Rightarrow> json option \<Rightarrow> json list \<Rightarrow> json list \<Rightarrow> json" where
  "status_data r result err cks events =
     JObj [(''state'', JStr (op_state_name (o_state r))), (''kind'', JStr (o_kind r)),
           (''mutation'', JBool (o_mutation r)), (''client_request_id'', JStr (o_client_request_id r)),
           (''created_at'', JStr (o_created_at r)), (''updated_at'', JStr (o_updated_at r)),
           (''started_at'', jopt (o_started_at r)), (''finished_at'', jopt (o_finished_at r)),
           (''result'', jvalue result), (''error'', jvalue err), (''checkpoints'', JList cks),
           (''audit_events'', JList events)]"

definition operation_status ::
  "ext \<Rightarrow> bridge_settings \<Rightarrow> auth_context option \<Rightarrow> string option \<Rightarrow> string \<Rightarrow> string
   \<Rightarrow> ('z bridge_st_scheme, exn, json) M" where
  "operation_status X S who rid operation_id session_id =
     andthen (bridge_start X) (\<lambda>_.
     andthen (request_id_of X rid) (\<lambda>request_id.
     andthen (try_bridge
       (andthen (require_operation_for_reconcile X S who operation_id session_id) (\<lambda>r.
        andthen (lift_sum (json_column (o_result_json r))) (\<lambda>result.
        andthen (lift_sum (json_column (o_error_json r))) (\<lambda>err.
        andthen (for_operation (o_operation_id r)) (\<lambda>cks.
        andthen (audit_for_operation (o_operation_id r)) (\<lambda>events.
        ret (success_payload request_id (Some session_id) (Some (o_project_id r)) (o_operation_id r)
          (status_data r result err cks events) [] False ''succeeded'')))))))) (\<lambda>answer.
     case answer of
       Inl b \<Rightarrow> ret (error_payload request_id (Some session_id) None operation_id b)
     | Inr payload \<Rightarrow> ret payload)))"

section \<open>Approving\<close>

text \<open>\<open>operation.input_data.get(key)\<close>; a stored input that is no dict has no \<open>get\<close>.\<close>

definition input_of :: "operation_rec \<Rightarrow> exn + json" where
  "input_of r =
     (case o_input_json r of
        JMalformed _ \<Rightarrow> Inl JsonErr
      | JText j \<Rightarrow> if is_jobj j then Inr j else Inl OtherErr)"

definition run_checkpoint_create_for_operation ::
  "ext \<Rightarrow> operation_rec \<Rightarrow> ('z bridge_st_scheme, exn, outcome) M" where
  "run_checkpoint_create_for_operation X r =
     (case o_session_id r of
        None \<Rightarrow> raise (rejected ''SESSION_REQUIRED'' ''checkpoint operation has no session'')
      | Some sid \<Rightarrow> create_checkpoint_for_operation X (o_project_id r) sid (o_operation_id r))"

definition run_checkpoint_restore_for_operation ::
  "ext \<Rightarrow> bridge_settings \<Rightarrow> auth_context option \<Rightarrow> operation_rec \<Rightarrow> ('z bridge_st_scheme, exn, outcome) M" where
  "run_checkpoint_restore_for_operation X S who r =
     (case o_session_id r of
        None \<Rightarrow> raise (rejected ''SESSION_REQUIRED'' ''rollback operation has no session'')
      | Some sid \<Rightarrow>
          andthen (lift_sum (input_of r)) (\<lambda>input.
          case (jstr_of (jget input ''checkpoint_id''), jstr_of (jget input ''expected_head'')) of
            (Some checkpoint_id, Some expected_head) \<Rightarrow>
              restore_checkpoint_for_operation X S who (o_project_id r) sid checkpoint_id expected_head
                (o_operation_id r)
          | _ \<Rightarrow> raise (rejected ''INVALID_REQUEST'' ''stored rollback operation is malformed'')))"

text \<open>The command of a stored operation; a JSON null reads as no value.\<close>

definition stored_command ::
  "ext \<Rightarrow> bridge_settings \<Rightarrow> operation_rec \<Rightarrow> json \<Rightarrow> project_spec \<Rightarrow> string
   \<Rightarrow> ('z bridge_st_scheme, exn, command_spec) M" where
  "stored_command X S r input project command_id =
     (let expected_kind = jget input ''expected_kind'' in
      if (expected_kind = None \<or> expected_kind = Some JNull) \<and> o_kind r = ''registered_command_run''
      then registered_command X S project command_id False
      else
        (case jstr_of expected_kind of
           Some k \<Rightarrow> command_of_kind X S project command_id k False
         | None \<Rightarrow> raise (rejected ''INVALID_REQUEST'' ''stored command operation is malformed'')))"

definition run_command_for_operation ::
  "ext \<Rightarrow> bridge_settings \<Rightarrow> operation_rec \<Rightarrow> ('z bridge_st_scheme, exn, outcome) M" where
  "run_command_for_operation X S r =
     andthen (lift_sum (input_of r)) (\<lambda>input.
     case jstr_of (jget input ''command_id'') of
       None \<Rightarrow> raise (rejected ''INVALID_REQUEST'' ''stored command operation is malformed'')
     | Some command_id \<Rightarrow>
         andthen (get_project (o_project_id r)) (\<lambda>project.
         andthen (stored_command X S r input project command_id) (\<lambda>c.
         case o_session_id r of
           None \<Rightarrow> raise (rejected ''SESSION_REQUIRED'' ''approved operation has no session'')
         | Some sid \<Rightarrow> run_command_body X S project c sid (o_operation_id r))))"

definition run_approved_operation ::
  "ext \<Rightarrow> bridge_settings \<Rightarrow> auth_context option \<Rightarrow> operation_rec \<Rightarrow> ('z bridge_st_scheme, exn, outcome) M" where
  "run_approved_operation X S who r =
     (if o_kind r = ''checkpoint_create'' then run_checkpoint_create_for_operation X r
      else if o_kind r = ''checkpoint_restore'' then run_checkpoint_restore_for_operation X S who r
      else run_command_for_operation X S r)"

definition decided :: "string \<Rightarrow> json \<Rightarrow> string \<Rightarrow> outcome" where
  "decided name final status =
     \<lparr>oc_data = [(name, final)], oc_changed = [], oc_truncated = False, oc_status = status\<rparr>"

text \<open>The two \<open>except\<close> clauses around the approved operation: its error is recorded on it, and any other
  exception leaves it unknown.  A cancellation passes.\<close>

definition recover_approved ::
  "ext \<Rightarrow> string option \<Rightarrow> string \<Rightarrow> operation_rec \<Rightarrow> exn \<Rightarrow> ('z store_st_scheme, exn, outcome) M" where
  "recover_approved X rid session_id running e =
     (let record_failure = (\<lambda>b state.
            andthen (request_id_of X rid) (\<lambda>request_id.
            let final = error_payload request_id (Some session_id) (Some (o_project_id running))
                  (o_operation_id running) b
            in andthen (finish X (o_operation_id running) state final) (\<lambda>_.
               ret (decided ''approved_operation'' final ''failed''))))
      in case e of
           BridgeErr b \<Rightarrow> record_failure b (error_state b)
         | Cancelled \<Rightarrow> raise Cancelled
         | _ \<Rightarrow> record_failure
             (as_berror ''UNKNOWN_SIDE_EFFECT'' ''approved mutation outcome is unknown and requires reconciliation''
                [(''operation_id'', JStr (o_operation_id running))] False ''unknown'') ''unknown'')"

definition record_approved ::
  "ext \<Rightarrow> string option \<Rightarrow> string \<Rightarrow> operation_rec \<Rightarrow> outcome \<Rightarrow> ('z store_st_scheme, exn, outcome) M" where
  "record_approved X rid session_id running oc =
     andthen (request_id_of X rid) (\<lambda>request_id.
     let final = success_payload request_id (Some session_id) (Some (o_project_id running))
           (o_operation_id running) (JObj (oc_data oc)) (oc_changed oc) (oc_truncated oc) (oc_status oc)
     in andthen (finish X (o_operation_id running) ''succeeded'' final) (\<lambda>_.
        ret (oc\<lparr>oc_data := [(''approved_operation'', final)]\<rparr>)))"

definition awaiting :: "operation_rec \<Rightarrow> string \<Rightarrow> ('s, exn, unit) M" where
  "awaiting original msg =
     require (o_state original = AwaitingApproval)
       (rejected_with ''OPERATION_NOT_CANCELABLE'' msg
         (JObj [(''operation_id'', JStr (o_operation_id original)),
                (''state'', JStr (op_state_name (o_state original)))]))"

definition confirm_operation ::
  "ext \<Rightarrow> bridge_settings \<Rightarrow> auth_context option \<Rightarrow> string option \<Rightarrow> operation_rec \<Rightarrow> string \<Rightarrow> string
   \<Rightarrow> string \<Rightarrow> ('z bridge_st_scheme, exn, outcome) M" where
  "confirm_operation X S who rid original operation_id session_id approval_token =
     andthen (require_operation_for_session X S who operation_id session_id) (\<lambda>_.
     andthen (awaiting original ''operation is not awaiting approval'') (\<lambda>_.
     andthen (consume X operation_id approval_token) (\<lambda>approved.
     andthen (dispatch X (o_operation_id approved) ''awaiting_approval'') (\<lambda>running.
     andthen (handle (andthen (run_approved_operation X S who running) (\<lambda>oc. ret (Inr oc)))
       (\<lambda>e. andthen (recover_approved X rid session_id running e) (\<lambda>oc. ret (Inl oc)))) (\<lambda>ran.
     case ran of
       Inl oc \<Rightarrow> ret oc
     | Inr oc \<Rightarrow> record_approved X rid session_id running oc)))))"

definition decision_request ::
  "operation_rec \<Rightarrow> string \<Rightarrow> string \<Rightarrow> (string \<times> json) list \<Rightarrow> string option \<Rightarrow> string option \<Rightarrow> request" where
  "decision_request original session_id kind input client_request_id supplied =
     (request_for (o_project_id original) (Some session_id) kind input)
       \<lparr>rq_client_id := client_request_id, rq_hash := supplied\<rparr>"

text \<open>The ownership check that comes before the decision is stored.\<close>

definition deciding ::
  "ext \<Rightarrow> string option \<Rightarrow> string \<Rightarrow> string \<Rightarrow> ('z bridge_st_scheme, exn, operation_rec) M
   \<Rightarrow> (operation_rec \<Rightarrow> ('z bridge_st_scheme, exn, json) M) \<Rightarrow> ('z bridge_st_scheme, exn, json) M" where
  "deciding X rid operation_id session_id owned decide =
     andthen (bridge_start X) (\<lambda>_.
     andthen (try_bridge owned) (\<lambda>found.
     case found of
       Inl b \<Rightarrow> refused_payload X rid session_id operation_id b
     | Inr original \<Rightarrow> decide original))"

definition approval_confirm ::
  "ext \<Rightarrow> bridge_settings \<Rightarrow> auth_context option \<Rightarrow> string option \<Rightarrow> string \<Rightarrow> string \<Rightarrow> string
   \<Rightarrow> string option \<Rightarrow> string option \<Rightarrow> ('z bridge_st_scheme, exn, json) M" where
  "approval_confirm X S who rid operation_id session_id approval_token client_request_id supplied =
     deciding X rid operation_id session_id (require_operation_for_session X S who operation_id session_id)
       (\<lambda>original.
        execute_plain X S who rid
          (decision_request original session_id ''approval_confirm''
             [(''operation_id'', JStr operation_id), (''approval_token_digest'', text_digest X approval_token)]
             client_request_id supplied)
          (\<lambda>_. confirm_operation X S who rid original operation_id session_id approval_token))"

section \<open>Cancelling and reconciling\<close>

definition operation_cancel ::
  "ext \<Rightarrow> bridge_settings \<Rightarrow> auth_context option \<Rightarrow> string option \<Rightarrow> string \<Rightarrow> string
   \<Rightarrow> string option \<Rightarrow> string option \<Rightarrow> ('z bridge_st_scheme, exn, json) M" where
  "operation_cancel X S who rid operation_id session_id client_request_id supplied =
     deciding X rid operation_id session_id (require_operation_for_session X S who operation_id session_id)
       (\<lambda>original.
        execute_plain X S who rid
          (decision_request original session_id ''operation_cancel'' [(''operation_id'', JStr operation_id)]
             client_request_id supplied)
          (\<lambda>_.
           andthen (require_operation_for_session X S who operation_id session_id) (\<lambda>_.
           andthen (awaiting original ''only an operation awaiting approval can be cancelled'') (\<lambda>_.
           andthen (cancel_pending X operation_id ''client_cancelled'') (\<lambda>_.
           andthen (request_id_of X rid) (\<lambda>request_id.
           let final = success_payload request_id (Some session_id) (Some (o_project_id original)) operation_id
                 (JObj [(''state'', JStr ''cancelled'')]) [] False ''cancelled''
           in andthen (finish X operation_id ''cancelled'' final) (\<lambda>_.
              ret (decided ''cancelled_operation'' final ''cancelled''))))))))"

definition reconcile_failed ::
  "ext \<Rightarrow> string option \<Rightarrow> operation_rec \<Rightarrow> string \<Rightarrow> string \<Rightarrow> string
   \<Rightarrow> ('z bridge_st_scheme, exn, outcome) M" where
  "reconcile_failed X rid original operation_id session_id evidence =
     andthen (request_id_of X rid) (\<lambda>request_id.
     let final = error_payload request_id (Some session_id) (Some (o_project_id original)) operation_id
           (as_berror ''BRIDGE_RESTARTED'' ''operation was reconciled as not executed''
              [(''evidence'', JStr evidence), (''reconciled'', JBool True)] False ''failed'')
     in andthen (finish X operation_id ''failed'' final) (\<lambda>_.
        ret (decided ''reconciled_operation'' final ''failed'')))"

definition reconcile_needs :: "string \<Rightarrow> (string \<times> json) list \<Rightarrow> exn" where
  "reconcile_needs msg details = rejected_with ''RECONCILE_REQUIRED'' msg (JObj details)"

text \<open>\<open>list(checkpoint_data.get("after", {}).get("changed_files", []))\<close>.\<close>

definition reconciled_files :: "json \<Rightarrow> exn + string list" where
  "reconciled_files data =
     (let after = jget_or (JObj []) data ''after'' in
      if is_jobj after then texts_of (Some (jget_or (JList []) after ''changed_files'')) else Inl OtherErr)"

definition reconcile_succeeded_locked ::
  "ext \<Rightarrow> bridge_settings \<Rightarrow> string option \<Rightarrow> operation_rec \<Rightarrow> project_spec \<Rightarrow> string \<Rightarrow> string \<Rightarrow> string
   \<Rightarrow> ('z bridge_st_scheme, exn, json \<times> string list) M" where
  "reconcile_succeeded_locked X S rid original project operation_id session_id evidence =
     andthen (list_checkpoints None None (Some operation_id)) (\<lambda>cks.
     let found = filter (\<lambda>ck. c_kind ck = ''mutation'') cks in
     andthen (require (length found = 1)
       (reconcile_needs ''successful reconciliation requires exactly one mutation checkpoint''
         [(''checkpoint_count'', JInt (int (length found)))])) (\<lambda>_.
     let checkpoint = hd found in
     andthen (lift_sum (after_column checkpoint)) (\<lambda>after.
     andthen (require (after = None)
       (reconcile_needs ''successful reconciliation requires an unfinished mutation checkpoint''
         [(''checkpoint_id'', JStr (c_checkpoint_id checkpoint))])) (\<lambda>_.
     andthen (verify_ref X project checkpoint) (\<lambda>_.
     andthen (checkpoint_finalize X (max_result S) project checkpoint None None) (\<lambda>finalized.
     andthen (lift_sum (summary finalized)) (\<lambda>data.
     andthen (lift_sum (reconciled_files data)) (\<lambda>changed.
     andthen (request_id_of X rid) (\<lambda>request_id.
     let final = success_payload request_id (Some session_id) (Some (o_project_id original)) operation_id
           (JObj [(''reconciled'', JBool True), (''evidence'', JStr evidence), (''checkpoint'', data)])
           changed False ''succeeded''
     in andthen (finish X operation_id ''succeeded'' final) (\<lambda>_. ret (final, changed)))))))))))"

definition reconcile_operation ::
  "ext \<Rightarrow> bridge_settings \<Rightarrow> auth_context option \<Rightarrow> string option \<Rightarrow> operation_rec \<Rightarrow> string \<Rightarrow> string
   \<Rightarrow> string \<Rightarrow> string \<Rightarrow> ('z bridge_st_scheme, exn, outcome) M" where
  "reconcile_operation X S who rid original operation_id session_id decision evidence =
     andthen (require_operation_for_reconcile X S who operation_id session_id) (\<lambda>_.
     andthen (require (decision \<in> {''failed'', ''succeeded''})
       (rejected ''RECONCILE_REQUIRED''
         ''decision must explicitly confirm whether the unknown mutation failed or succeeded'')) (\<lambda>_.
     andthen (require (evidence \<noteq> [] \<and> length evidence \<le> 1000)
       (rejected ''INVALID_REQUEST'' ''evidence must be 1-1000 characters'')) (\<lambda>_.
     andthen (require (o_state original = Unknown)
       (reconcile_needs ''only unknown operations require reconciliation''
         [(''state'', JStr (op_state_name (o_state original)))])) (\<lambda>_.
     if decision = ''failed'' then reconcile_failed X rid original operation_id session_id evidence
     else
       andthen (get_project (o_project_id original)) (\<lambda>project.
       andthen (with_lock (p_project_id project)
         (reconcile_succeeded_locked X S rid original project operation_id session_id evidence))
         (\<lambda>(final, changed).
       ret (outcome_of [(''reconciled_operation'', final)] changed False)))))))"

definition operation_reconcile ::
  "ext \<Rightarrow> bridge_settings \<Rightarrow> auth_context option \<Rightarrow> string option \<Rightarrow> string \<Rightarrow> string \<Rightarrow> string \<Rightarrow> string
   \<Rightarrow> string option \<Rightarrow> string option \<Rightarrow> ('z bridge_st_scheme, exn, json) M" where
  "operation_reconcile X S who rid operation_id session_id decision evidence client_request_id supplied =
     deciding X rid operation_id session_id (require_operation_for_reconcile X S who operation_id session_id)
       (\<lambda>original.
        execute_plain X S who rid
          (decision_request original session_id ''operation_reconcile''
             [(''operation_id'', JStr operation_id), (''decision'', JStr decision),
              (''evidence_digest'', text_digest X evidence)] client_request_id supplied)
          (\<lambda>_. reconcile_operation X S who rid original operation_id session_id decision evidence))"

section \<open>The service\<close>

definition health :: "ext \<Rightarrow> bridge_settings \<Rightarrow> ('z bridge_st_scheme, exn, json) M" where
  "health X S =
     andthen (bridge_start X) (\<lambda>_.
     andthen (refresh_project_registry X S) (\<lambda>_.
     gets (\<lambda>s. let r = registry s; v = bs_server S in
       JObj [(''status'', JStr ''ok''), (''phase'', JStr ''5''), (''transport'', JStr (sv_transport v)),
             (''endpoint'', JStr (sv_host v @ '':'' @ decimal_int (sv_port v) @ sv_path v)),
             (''worker_mode'', JStr (cm_worker_mode (bs_codemcp S))),
             (''projects_registered'', JInt (int (length (rg_projects r)))),
             (''project_registry'', JObj [(''generation'', JInt (int (rg_generation r))),
                (''reload_status'', JStr (rg_last_status r)),
                (''last_reload_error'', jopt (rg_last_error_code r))]),
             (''model_egress'', JStr ''deny'')])))"

text \<open>\<open>close\<close>: the sessions are closed and the database too, whatever the workers do.\<close>

definition close_service :: "ext \<Rightarrow> ('z bridge_st_scheme, exn, unit) M" where
  "close_service X =
     andthen (gets started) (\<lambda>b.
     if \<not> b then ret ()
     else
       (let cleanup =
              andthen (close_active_sessions X ''bridge_shutdown'') (\<lambda>_.
              andthen close_store (\<lambda>_. modify (\<lambda>s. s\<lparr>started := False\<rparr>)))
        in andthen (handle (close_workers X) (\<lambda>e. andthen cleanup (\<lambda>_. raise e))) (\<lambda>_. cleanup)))"

section \<open>The registered tools\<close>

text \<open>The arguments \<open>create_server\<close> declares for each tool, in its order.  The client's arguments reach
  a tool after the schema check of the MCP library.\<close>

datatype reading_call =
    CallProjectOpen string
  | CallProjectStatus string "string option"
  | CallFileRead string string string "int option" "int option"
  | CallCodeSearch string string string "string option" "string option"
  | CallFileList string string "string option"

datatype editing_call =
    CallFileEdit string string string string string string string string
  | CallFileCreate string string string string string string string
  | CallFileWrite string string string string string string string string
  | CallFileMove string string string string string string string
  | CallFileDelete string string string string string string
  | CallDirectoryCreate string string string string string string

datatype command_call =
    CallRegisteredCommandRun string string string string string
  | CallFormatRun string string string string string
  | CallTestRun string string string string string

datatype repository_call =
    CallGitStatus string string
  | CallGitDiff string string "string option"
  | CallCheckpointCreate string string string string
  | CallCheckpointRestore string string string string string string

datatype decision_call =
    CallOperationStatus string string
  | CallApprovalConfirm string string string string string
  | CallOperationCancel string string string string
  | CallOperationReconcile string string string string string string

datatype tool_call =
    Reading reading_call
  | Editing editing_call
  | Commanding command_call
  | Repository repository_call
  | Deciding decision_call

fun serve_reading ::
  "ext \<Rightarrow> bridge_settings \<Rightarrow> auth_context option \<Rightarrow> string option \<Rightarrow> reading_call
   \<Rightarrow> ('z bridge_st_scheme, exn, json) M" where
  "serve_reading X S who rid (CallProjectOpen pid) = project_open X S who rid pid"
| "serve_reading X S who rid (CallProjectStatus pid sid) = project_status X S who rid pid sid"
| "serve_reading X S who rid (CallFileRead pid sid path first_line limit) =
     file_read X S who rid pid sid path first_line limit"
| "serve_reading X S who rid (CallCodeSearch pid sid pattern path including) =
     code_search X S who rid pid sid pattern path including"
| "serve_reading X S who rid (CallFileList pid sid path) = file_list X S who rid pid sid path"

fun serve_editing ::
  "ext \<Rightarrow> bridge_settings \<Rightarrow> auth_context option \<Rightarrow> string option \<Rightarrow> editing_call
   \<Rightarrow> ('z bridge_st_scheme, exn, json) M" where
  "serve_editing X S who rid (CallFileEdit pid sid path old_string new_string description cid hash) =
     file_edit X S who rid pid sid path old_string new_string description (Some cid) (Some hash)"
| "serve_editing X S who rid (CallFileCreate pid sid path content description cid hash) =
     file_create X S who rid pid sid path content description (Some cid) (Some hash)"
| "serve_editing X S who rid (CallFileWrite pid sid path content expected_sha256 description cid hash) =
     file_write X S who rid pid sid path content expected_sha256 description (Some cid) (Some hash)"
| "serve_editing X S who rid (CallFileMove pid sid source_path destination_path description cid hash) =
     file_move X S who rid pid sid source_path destination_path description (Some cid) (Some hash)"
| "serve_editing X S who rid (CallFileDelete pid sid path description cid hash) =
     file_delete X S who rid pid sid path description (Some cid) (Some hash)"
| "serve_editing X S who rid (CallDirectoryCreate pid sid path description cid hash) =
     directory_create X S who rid pid sid path description (Some cid) (Some hash)"

fun serve_commanding ::
  "ext \<Rightarrow> bridge_settings \<Rightarrow> auth_context option \<Rightarrow> string option \<Rightarrow> command_call
   \<Rightarrow> ('z bridge_st_scheme, exn, json) M" where
  "serve_commanding X S who rid (CallRegisteredCommandRun pid sid command_id cid hash) =
     registered_command_run X S who rid pid sid command_id (Some cid) (Some hash)"
| "serve_commanding X S who rid (CallFormatRun pid sid command_id cid hash) =
     format_run X S who rid pid sid command_id (Some cid) (Some hash)"
| "serve_commanding X S who rid (CallTestRun pid sid command_id cid hash) =
     test_run X S who rid pid sid command_id (Some cid) (Some hash)"

fun serve_repository ::
  "ext \<Rightarrow> bridge_settings \<Rightarrow> auth_context option \<Rightarrow> string option \<Rightarrow> repository_call
   \<Rightarrow> ('z bridge_st_scheme, exn, json) M" where
  "serve_repository X S who rid (CallGitStatus pid sid) = git_status_tool X S who rid pid sid"
| "serve_repository X S who rid (CallGitDiff pid sid checkpoint_id) =
     git_diff_tool X S who rid pid sid checkpoint_id"
| "serve_repository X S who rid (CallCheckpointCreate pid sid cid hash) =
     checkpoint_create_tool X S who rid pid sid (Some cid) (Some hash)"
| "serve_repository X S who rid (CallCheckpointRestore pid sid checkpoint_id expected_head cid hash) =
     checkpoint_restore X S who rid pid sid checkpoint_id expected_head (Some cid) (Some hash)"

fun serve_deciding ::
  "ext \<Rightarrow> bridge_settings \<Rightarrow> auth_context option \<Rightarrow> string option \<Rightarrow> decision_call
   \<Rightarrow> ('z bridge_st_scheme, exn, json) M" where
  "serve_deciding X S who rid (CallOperationStatus oid sid) = operation_status X S who rid oid sid"
| "serve_deciding X S who rid (CallApprovalConfirm oid sid token cid hash) =
     approval_confirm X S who rid oid sid token (Some cid) (Some hash)"
| "serve_deciding X S who rid (CallOperationCancel oid sid cid hash) =
     operation_cancel X S who rid oid sid (Some cid) (Some hash)"
| "serve_deciding X S who rid (CallOperationReconcile oid sid decision evidence cid hash) =
     operation_reconcile X S who rid oid sid decision evidence (Some cid) (Some hash)"

definition serve ::
  "ext \<Rightarrow> bridge_settings \<Rightarrow> auth_context option \<Rightarrow> string option \<Rightarrow> tool_call
   \<Rightarrow> ('z bridge_st_scheme, exn, json) M" where
  "serve X S who rid call =
     (case call of
        Reading c \<Rightarrow> serve_reading X S who rid c
      | Editing c \<Rightarrow> serve_editing X S who rid c
      | Commanding c \<Rightarrow> serve_commanding X S who rid c
      | Repository c \<Rightarrow> serve_repository X S who rid c
      | Deciding c \<Rightarrow> serve_deciding X S who rid c)"

end
