(* ===== verification/Orders.thy ===== *)
theory Orders
  imports Decisions Questions CheckpointSpec
begin

text \<open>
  What every request respects.  An order on the states of the bridge that allows the calls of a
  request outside the mutation lock, and one that allows those inside it: when both are kept by the
  store and the bracket of the lock leads from the second to the first, every tool keeps the first.
  The two locales prove this once, tool by tool.
\<close>

section \<open>Requests outside the lock\<close>

lemma try_bridge_Inr: "(try_bridge m s = (Inr (Inr x), t)) \<longleftrightarrow> m s = (Inr x, t)"
proof (cases "m s")
  case (Pair r u)
  show ?thesis
  proof (cases r)
    case (Inl e)
    with Pair show ?thesis
      by (cases e) (simp_all add: try_bridge_def handle_def andthen_def ret_def raise_def)
  qed (simp add: Pair try_bridge_def handle_def andthen_def ret_def)
qed

definition READ_TOOLS :: "string list" where
  "READ_TOOLS = [''ReadFile'', ''Grep'']"

text \<open>Methods that only ask, and read the registry.\<close>

locale looking_order = asking_order R P
  for R :: "'z bridge_st_scheme \<Rightarrow> 'z bridge_st_scheme \<Rightarrow> bool" and P
begin

lemma get_project_obeys: "obeys R (get_project pid)"
  unfolding get_project_def by (intro file_intros)

lemma resolve_path_obeys: "obeys R (resolve_path X pid path b c)"
  unfolding resolve_path_def
  by (intro file_intros get_project_obeys real_path_obeys link_on_path_obeys)

lemma verify_codemcp_command_obeys: "obeys R (verify_codemcp_command X project c)"
  unfolding verify_codemcp_command_def config_path_def
  by (intro file_intros resolve_path_obeys) (auto split: toml_file.split intro!: file_intros)

lemma command_checks_obey:
  "obeys R (registered_command X S project cid b)" "obeys R (command_of_kind X S project cid k b)"
  unfolding registered_command_def command_of_kind_def arbitrary_refused_def approval_settled_def Let_def
  by (intro file_intros verify_codemcp_command_obeys)+

lemma resolve_command_obeys: "obeys R (resolve_command X S project cid k)"
  unfolding resolve_command_def by (intro file_intros command_checks_obey)

end

text \<open>A reload changes the registry only; an order that does not look at it allows every reload.\<close>

locale memory_order = asking_order R P
  for R :: "'z bridge_st_scheme \<Rightarrow> 'z bridge_st_scheme \<Rightarrow> bool" and P +
  assumes memory: "log t = log s \<Longrightarrow> db t = db s \<Longrightarrow> R s t"
begin

lemma registry_obeys: "obeys R (modify (\<lambda>s. s\<lparr>registry := f s\<rparr>))"
  by (simp add: obeys_def memory)

lemma reload_obeys: "obeys R (reload X path observed)"
  unfolding reload_def reload_with_def reload_failed_def
  by (intro file_intros registry_obeys try_settings_obeys load_projects_obeys changed_root_obeys
      projects_config_fingerprint_obeys)

lemma refresh_if_changed_obeys: "obeys R (refresh_if_changed X path)"
  unfolding refresh_if_changed_def reload_failed_def
  by (intro file_intros registry_obeys try_settings_obeys projects_config_fingerprint_obeys reload_obeys)

end

text \<open>The contract of a request, for one behaviour \<open>X\<close> of the outside world and the settings \<open>S\<close>.\<close>

locale server_order = bridge_order R P + looking_order R P
  for R :: "'z bridge_st_scheme \<Rightarrow> 'z bridge_st_scheme \<Rightarrow> bool" and P +
  fixes X :: ext and S :: bridge_settings
  assumes quiet: "log t = log s \<Longrightarrow> db t = db s \<Longrightarrow> registry t = registry s \<Longrightarrow> R s t"
    and refresh_law: "obeys R (refresh_if_changed X (bs_projects_config_path S))"
    and worker_law: "subtool \<in> set READ_TOOLS \<Longrightarrow> P (WorkerCall pid subtool args)"
    and initialize_law: "obeys R (initialize X)"
    and close_store_law: "obeys R close_store"
begin

lemma field_obeys:
  "obeys R (modify (\<lambda>s. s\<lparr>workers := g s\<rparr>))" "obeys R (modify (\<lambda>s. s\<lparr>started := h s\<rparr>))"
  by (simp_all add: obeys_def quiet)

lemmas server_intros = file_intros store_laws field_obeys

lemma request_id_of_obeys: "obeys R (request_id_of X rid)"
  unfolding request_id_of_def by (intro server_intros)

lemma refresh_project_registry_obeys: "obeys R (refresh_project_registry X S)"
  unfolding refresh_project_registry_def by (intro server_intros refresh_law)

lemma require_session_obeys: "obeys R (require_session X S who pid sid)"
  unfolding require_session_def
  by (intro server_intros refresh_project_registry_obeys get_project_obeys service_obeys)

lemma require_operation_obeys:
  "obeys R (require_operation_for_session X S who oid sid)"
  "obeys R (require_operation_for_reconcile X S who oid sid)"
  unfolding require_operation_for_session_def require_operation_for_reconcile_def inherits_def
  by (intro server_intros refresh_project_registry_obeys service_obeys)+

lemma get_worker_obeys: "obeys R (get_worker X project)"
  unfolding get_worker_def by (intro server_intros)

lemma discard_worker_obeys: "obeys R (discard_worker X pid)"
  unfolding discard_worker_def by (intro server_intros)

lemma worker_call_obeys: "subtool \<in> set READ_TOOLS \<Longrightarrow> obeys R (worker_call X project subtool args b)"
  unfolding worker_call_def
  by (intro server_intros get_worker_obeys asked_obeys worker_law)
    (auto split: worker_answer.split intro!: server_intros discard_worker_obeys)

lemma adapter_call_obeys:
  "subtool \<in> set READ_TOOLS \<Longrightarrow> obeys R (adapter_call X S project subtool path args b)"
  unfolding adapter_call_def by (intro server_intros worker_call_obeys) (auto split: prod.split intro: ret_obeys)

lemma worker_table_obeys: "obeys R (worker_active X pid)" "obeys R (close_workers X)"
  unfolding worker_active_def close_workers_def by (intro server_intros)+

section \<open>The life of a request\<close>

lemma try_bridge_obeys: "obeys R m \<Longrightarrow> obeys R (try_bridge m)"
  unfolding try_bridge_def by (intro server_intros) (auto split: exn.split intro: server_intros)

lemma bridge_start_obeys: "obeys R (bridge_start X)"
  unfolding bridge_start_def by (intro server_intros initialize_law)

lemma finish_with_obeys: "obeys R (finish_with X oid st payload)"
  unfolding finish_with_def by (intro server_intros service_obeys)

lemma recover_request_obeys: "obeys R (recover_request X q rid oid e)"
  unfolding recover_request_def
  by (cases e) (auto intro!: server_intros finish_with_obeys)

lemma run_operation_obeys: "obeys R m \<Longrightarrow> obeys R (run_operation X q rid oid m)"
  unfolding run_operation_def
  by (intro server_intros service_obeys finish_with_obeys recover_request_obeys)

lemma ask_approval_obeys: "obeys R (ask_approval X S q rid r)"
  unfolding ask_approval_def Let_def by (intro server_intros service_obeys)

text \<open>The operation runs only after its check has answered that no approval is needed.\<close>

lemma execute_request_obeys:
  assumes check: "obeys R check" and answers: "\<And>s. returns check s (\<lambda>(b, c) t. b \<or> A c t)"
    and operation: "\<And>c t oid. A c t \<Longrightarrow> obeys R (operation c oid) \<or> (\<forall>u. R t u)"
  shows "obeys R (execute_request X S who rid q check operation)"
proof -
  have gate: "obeys R (andthen (try_bridge check) (\<lambda>checked.
         case checked of
           Inl b \<Rightarrow> finish_with X (o_operation_id row) ''failed''
                      (failure_payload request_id q (o_operation_id row) b)
         | Inr (True, _) \<Rightarrow> ask_approval X S q request_id row
         | Inr (False, c) \<Rightarrow>
             run_operation X q request_id (o_operation_id row) (operation c (o_operation_id row))))"
    for row request_id
  proof (rule obeys_ends)
    fix s
    show "ends (andthen (try_bridge check) (\<lambda>checked.
         case checked of
           Inl b \<Rightarrow> finish_with X (o_operation_id row) ''failed''
                      (failure_payload request_id q (o_operation_id row) b)
         | Inr (True, _) \<Rightarrow> ask_approval X S q request_id row
         | Inr (False, c) \<Rightarrow>
             run_operation X q request_id (o_operation_id row) (operation c (o_operation_id row))))
        s (\<lambda>_ t. R s t)"
    proof (simp only: ends_andthen, rule endsI)
      fix r t
      assume run: "try_bridge check s = (r, t)"
      have st: "R s t" using obeysD [OF try_bridge_obeys [OF check] run] .
      have settled: "A c t" if "r = Inr (Inr (False, c))" for c
      proof -
        from run that have "check s = (Inr (False, c), t)"
          by (simp add: try_bridge_Inr)
        with answers [of s] show ?thesis by (auto dest: returnsD)
      qed
      have on: "ends m t (\<lambda>_ u. R s u)" if "obeys R m \<or> (\<forall>u. R t u)"
        for m :: "('z bridge_st_scheme, exn, json) M"
        using that
      proof
        assume "obeys R m"
        then show ?thesis by (rule ends_obeys) (rule trans [OF st])
      next
        assume "\<forall>u. R t u"
        with st show ?thesis by (intro endsI) (blast intro: trans)
      qed
      have runs: "ends (run_operation X q request_id (o_operation_id row) (operation c (o_operation_id row)))
          t (\<lambda>_ u. R s u)" if "r = Inr (Inr (False, c))" for c
        using operation [OF settled [OF that]] by (intro on) (blast intro: run_operation_obeys)
      show "case r of Inl e \<Rightarrow> R s t
        | Inr checked \<Rightarrow> ends (case checked of
           Inl b \<Rightarrow> finish_with X (o_operation_id row) ''failed''
                      (failure_payload request_id q (o_operation_id row) b)
         | Inr (True, _) \<Rightarrow> ask_approval X S q request_id row
         | Inr (False, c) \<Rightarrow>
             run_operation X q request_id (o_operation_id row) (operation c (o_operation_id row)))
            t (\<lambda>_ u. R s u)"
        using st
        by (auto split: sum.split bool.split intro!: on runs finish_with_obeys ask_approval_obeys)
    qed
  qed
  show ?thesis
    unfolding execute_request_def
    by (intro gate server_intros bridge_start_obeys refresh_project_registry_obeys request_id_of_obeys
        try_bridge_obeys start_obeys)
qed

lemma checked_request_obeys:
  "obeys R check \<Longrightarrow> (\<And>c oid. obeys R (operation c oid)) \<Longrightarrow>
     obeys R (execute_request X S who rid q check operation)"
  by (rule execute_request_obeys [where A = "\<lambda>_ _. True"]) (auto simp: returns_def)

lemma execute_plain_obeys:
  "(\<And>oid. obeys R (operation oid)) \<Longrightarrow> obeys R (execute_plain X S who rid q operation)"
  unfolding execute_plain_def by (intro checked_request_obeys ret_obeys)

section \<open>Tools that read\<close>

lemmas request_intros = server_intros require_session_obeys get_project_obeys resolve_path_obeys
  inspect_project_obeys service_obeys

lemma require_parent_obeys: "obeys R (require_parent X target p msg)"
  unfolding require_parent_def by (intro request_intros)

lemma text_target_obeys: "obeys R (text_target X S p)"
  unfolding text_target_def by (intro request_intros file_checks_obey)

lemma file_bytes_obeys: "obeys R (file_bytes X p)"
  unfolding file_bytes_def by (intro server_intros)

lemma project_open_obeys: "obeys R (project_open X S who rid pid)"
  unfolding project_open_def by (intro request_intros execute_plain_obeys worker_table_obeys)

lemma project_status_obeys: "obeys R (project_status X S who rid pid sid)"
  unfolding project_status_def
  by (intro request_intros execute_plain_obeys inspect_development_readiness_obeys worker_table_obeys)

lemma file_read_obeys: "obeys R (file_read X S who rid pid sid path first limit)"
  unfolding file_read_def file_read_operation_def
  by (intro request_intros execute_plain_obeys file_checks_obey file_bytes_obeys adapter_call_obeys
      relative_path_obeys) (simp_all add: READ_TOOLS_def)

lemma code_search_obeys: "obeys R (code_search X S who rid pid sid pattern path incl)"
  unfolding code_search_def search_one_def wanted_def grep_roots_def validate_pattern_def Let_def
  by (intro request_intros execute_plain_obeys safe_search_paths_obeys adapter_call_obeys
      relative_path_obeys real_path_obeys) (simp_all add: READ_TOOLS_def)

lemma file_list_obeys: "obeys R (file_list X S who rid pid sid path)"
  unfolding file_list_def
  by (intro request_intros execute_plain_obeys safe_directory_tree_obeys relative_path_obeys)

lemma git_status_tool_obeys: "obeys R (git_status_tool X S who rid pid sid)"
  unfolding git_status_tool_def by (intro request_intros execute_plain_obeys)

lemma git_diff_tool_obeys: "obeys R (git_diff_tool X S who rid pid sid cid)"
  unfolding git_diff_tool_def
  by (intro request_intros execute_plain_obeys git_diff_obeys get_for_session_obeys verify_ref_obeys
      diff_names_from_obeys diff_from_obeys)

lemma serve_reading_obeys: "obeys R (serve_reading X S who rid c)"
  by (cases c) (simp_all add: project_open_obeys project_status_obeys file_read_obeys code_search_obeys
      file_list_obeys)

text \<open>What the two tools that need an approval check before they ask for it.\<close>

lemma restore_baseline_obeys: "obeys R (restore_baseline X S project pid sid cid head)"
  unfolding restore_baseline_def require_allowed_branch_def require_clean_workspace_def
  by (intro request_intros get_for_session_obeys verify_ref_obeys)

lemma restore_preconditions_obeys: "obeys R (restore_preconditions X S who pid sid cid head)"
  unfolding restore_preconditions_def validate_expected_head_def
  by (intro request_intros restore_baseline_obeys)

lemma checkpoint_create_asks: "obeys R (checkpoint_create_tool X S who rid pid sid cid hash)"
  unfolding checkpoint_create_tool_def
  by (intro execute_request_obeys [where A = "\<lambda>_ _. False"] request_intros
      require_mutation_preconditions_obeys) (simp_all add: returns_clean)

lemma checkpoint_restore_asks: "obeys R (checkpoint_restore X S who rid pid sid ck head cid hash)"
  unfolding checkpoint_restore_def
  by (intro execute_request_obeys [where A = "\<lambda>_ _. False"] request_intros restore_preconditions_obeys)
    (simp_all add: returns_clean)

lemma operation_status_obeys: "obeys R (operation_status X S who rid oid sid)"
  unfolding operation_status_def audit_for_operation_def
  by (intro server_intros bridge_start_obeys request_id_of_obeys try_bridge_obeys require_operation_obeys
      for_operation_obeys)

lemma deciding_obeys:
  "obeys R owned \<Longrightarrow> (\<And>r. obeys R (decide r)) \<Longrightarrow> obeys R (deciding X rid oid sid owned decide)"
  unfolding deciding_def refused_payload_def
  by (intro server_intros bridge_start_obeys try_bridge_obeys request_id_of_obeys)

lemma operation_cancel_obeys: "obeys R (operation_cancel X S who rid oid sid cid hash)"
  unfolding operation_cancel_def awaiting_def Let_def
  by (intro deciding_obeys request_intros execute_plain_obeys require_operation_obeys request_id_of_obeys)

lemma serve_repository_obeys: "obeys R (serve_repository X S who rid c)"
  by (cases c) (simp_all add: git_status_tool_obeys git_diff_tool_obeys checkpoint_create_asks
      checkpoint_restore_asks)

lemma health_obeys: "obeys R (health X S)"
  unfolding health_def by (intro server_intros bridge_start_obeys refresh_project_registry_obeys)

lemma close_service_obeys: "obeys R (close_service X)"
  unfolding close_service_def Let_def by (intro server_intros worker_table_obeys close_store_law)

end

section \<open>The sections under the lock\<close>

fun lock_call :: "call \<Rightarrow> bool" where
  "lock_call (LockAcquire p) = True"
| "lock_call (LockRelease p) = True"
| "lock_call c = False"

locale editing_order = server_order R P X S
  for R :: "'z bridge_st_scheme \<Rightarrow> 'z bridge_st_scheme \<Rightarrow> bool" and P and X and S +
  assumes edits: "\<not> lock_call c \<Longrightarrow> P c"
begin

lemma any_call_obeys: "\<not> lock_call c \<Longrightarrow> obeys R (ask c)"
  by (rule asked_obeys) (rule edits)

lemma any_git_obeys: "obeys R (git_run X root args)"
  by (rule git_run_obeys) (simp add: edits)

lemma any_fs_obeys: "obeys R (fs_ask X what p)"
  by (rule fs_ask_obeys) (simp add: edits)

lemma write_atomically_obeys: "obeys R (write_atomically X target content)"
  unfolding write_atomically_def by (intro request_intros any_call_obeys any_fs_obeys) simp_all

lemmas git_intros = request_intros any_git_obeys any_fs_obeys git_status_obeys git_snapshot_obeys
  verify_amend_target_obeys require_baseline_obeys target_holds_obeys new_baseline_obeys
  require_isolated_obeys write_atomically_obeys

lemma run_commit_obeys: "obeys R (run_commit X root mode h b args)"
  unfolding run_commit_def by (intro git_intros)

lemmas commit_intros = git_intros run_commit_obeys

lemma commit_file_bytes_obeys:
  "obeys R (commit_file_bytes X root path content h description exists mode sid b)"
  unfolding commit_file_bytes_def commit_new_content_def require_head_def
  by (intro commit_intros)

lemma move_tracked_file_obeys: "obeys R (move_tracked_file X root p q h description mode sid b)"
  unfolding move_tracked_file_def require_head_def by (intro commit_intros)

lemma delete_tracked_file_obeys: "obeys R (delete_tracked_file X root p h description mode sid b)"
  unfolding delete_tracked_file_def require_head_def by (intro commit_intros)

lemma any_checkpoint_obeys: "obeys R (checkpoint_create X project sid oid kind)"
  by (rule checkpoint_create_obeys) (simp add: edits)

lemma begin_mutation_obeys: "obeys R (begin_mutation X S project sid oid)"
  unfolding begin_mutation_def
  by (intro request_intros require_mutation_preconditions_obeys any_checkpoint_obeys
      determine_commit_mode_obeys)

lemma finish_mutation_obeys: "obeys R (finish_mutation X S project ck h)"
  unfolding finish_mutation_def by (intro request_intros checkpoint_finalize_obeys)

lemma require_absent_obeys: "obeys R (require_absent X target p msg)"
  unfolding require_absent_def by (intro request_intros)

lemmas mutation_intros = request_intros begin_mutation_obeys finish_mutation_obeys
  commit_file_bytes_obeys move_tracked_file_obeys delete_tracked_file_obeys text_target_obeys
  require_absent_obeys require_parent_obeys file_bytes_obeys file_checks_obey

lemma file_edit_locked_obeys: "obeys R (file_edit_locked X S project sid oid target p old new d)"
  unfolding file_edit_locked_def fits_def by (intro mutation_intros)

lemma file_create_locked_obeys: "obeys R (file_create_locked X S project sid oid target p content d)"
  unfolding file_create_locked_def by (intro mutation_intros)

lemma file_write_locked_obeys: "obeys R (file_write_locked X S project sid oid target p content expected d)"
  unfolding file_write_locked_def fits_def by (intro mutation_intros)

lemma file_move_locked_obeys: "obeys R (file_move_locked X S project pid sid oid a b na dst nb d)"
  unfolding file_move_locked_def tracked_def by (intro mutation_intros)

lemma file_delete_locked_obeys: "obeys R (file_delete_locked X S project pid sid oid a na d)"
  unfolding file_delete_locked_def tracked_def by (intro mutation_intros)

lemma directory_create_locked_obeys: "obeys R (directory_create_locked X S project sid oid target p d)"
  unfolding directory_create_locked_def make_directory_def undo_directory_def Let_def
  by (intro mutation_intros any_call_obeys any_fs_obeys relative_path_obeys)
    (auto split: create_answer.split intro!: mutation_intros)

lemma run_command_locked_obeys: "obeys R (run_command_locked X S project c sid oid)"
  unfolding run_command_locked_def run_command_def
  by (intro mutation_intros any_call_obeys git_status_obeys build_command_invocation_obeys) simp_all

lemma restore_locked_obeys: "obeys R (restore_locked X S project pid sid cid head oid)"
  unfolding restore_locked_def restore_confirmed_def reset_to_checkpoint_def require_checkpoint_ref_def
  by (intro mutation_intros any_git_obeys any_checkpoint_obeys restore_baseline_obeys git_snapshot_obeys
      checkpoint_finalize_obeys mark_restored_obeys)

lemma reconcile_succeeded_locked_obeys:
  "obeys R (reconcile_succeeded_locked X S rid original project oid sid evidence)"
  unfolding reconcile_succeeded_locked_def Let_def
  by (intro mutation_intros verify_ref_obeys checkpoint_finalize_obeys request_id_of_obeys)

end

section \<open>Every tool\<close>

locale lock_order = server_order R P X S + inner: editing_order K Q X S
  for R P and K :: "'z bridge_st_scheme \<Rightarrow> 'z bridge_st_scheme \<Rightarrow> bool" and Q and X and S +
  assumes bracket: "K (s\<lparr>log := LockAcquire pid # log s\<rparr>) t \<Longrightarrow> R s (t\<lparr>log := LockRelease pid # log t\<rparr>)"
begin

lemma lock_law:
  assumes "obeys K m"
  shows "obeys R (with_lock pid m)"
proof (rule obeysI)
  fix s r s'
  assume run: "with_lock pid m s = (r, s')"
  let ?s = "s\<lparr>log := LockAcquire pid # log s\<rparr>"
  obtain q t where m: "m ?s = (q, t)" by fastforce
  with assms have "K ?s t" by (rule obeysD)
  moreover from run m have "s' = t\<lparr>log := LockRelease pid # log t\<rparr>"
    by (cases q) (auto simp: with_lock_def andthen_def handle_def raise_def ret_def)
  ultimately show "R s s'" by (simp add: bracket)
qed

lemmas tool_intros = request_intros require_parent_obeys text_target_obeys lock_law execute_plain_obeys
  require_operation_obeys request_id_of_obeys

lemma mutation_outcome_obeys: "obeys R (mutation_outcome f data)"
  unfolding mutation_outcome_def by (intro server_intros)

lemma input_checks_obey:
  "obeys R (description_given d)" "obeys R (fits S b msg)" "obeys R (content_allowed S content)"
  unfolding description_given_def fits_def content_allowed_def by (intro server_intros)+

lemmas edit_intros = tool_intros mutation_outcome_obeys input_checks_obey file_checks_obey

lemma file_edit_obeys: "obeys R (file_edit X S who rid pid sid path old new d cid hash)"
  unfolding file_edit_def by (intro edit_intros inner.file_edit_locked_obeys)

lemma file_create_obeys: "obeys R (file_create X S who rid pid sid path content d cid hash)"
  unfolding file_create_def by (intro edit_intros inner.file_create_locked_obeys)

lemma file_write_obeys: "obeys R (file_write X S who rid pid sid path content expected d cid hash)"
  unfolding file_write_def by (intro edit_intros inner.file_write_locked_obeys)

lemma file_move_obeys: "obeys R (file_move X S who rid pid sid a b d cid hash)"
  unfolding file_move_def
  by (intro edit_intros inner.file_move_locked_obeys) (auto split: prod.split intro: mutation_outcome_obeys)

lemma file_delete_obeys: "obeys R (file_delete X S who rid pid sid a d cid hash)"
  unfolding file_delete_def by (intro edit_intros inner.file_delete_locked_obeys)

lemma directory_create_obeys: "obeys R (directory_create X S who rid pid sid a d cid hash)"
  unfolding directory_create_def by (intro edit_intros inner.directory_create_locked_obeys)

lemma serve_editing_obeys: "obeys R (serve_editing X S who rid c)"
  by (cases c) (simp_all add: file_edit_obeys file_create_obeys file_write_obeys file_move_obeys
      file_delete_obeys directory_create_obeys)

lemma run_command_body_obeys: "obeys R (run_command_body X S project c sid oid)"
  unfolding run_command_body_def by (intro tool_intros inner.run_command_locked_obeys)

lemma run_registered_command_obeys:
  "obeys R (run_registered_command X S who rid pid sid command_id k cid hash)"
  unfolding run_registered_command_def
  by (intro checked_request_obeys tool_intros resolve_command_obeys)
    (auto split: prod.split intro!: andthen_obeys require_session_obeys run_command_body_obeys)

lemma serve_commanding_obeys: "obeys R (serve_commanding X S who rid c)"
  by (cases c) (simp_all add: registered_command_run_def format_run_def test_run_def
      run_registered_command_obeys)

section \<open>Decisions\<close>

lemma restore_for_operation_obeys:
  "obeys R (restore_checkpoint_for_operation X S who pid sid ck head oid)"
  unfolding restore_checkpoint_for_operation_def validate_expected_head_def
  by (intro tool_intros inner.restore_locked_obeys)

lemma create_for_operation_obeys: "obeys R (create_checkpoint_for_operation X pid sid oid)"
  unfolding create_checkpoint_for_operation_def by (intro tool_intros inner.any_checkpoint_obeys)

lemma run_approved_operation_obeys: "obeys R (run_approved_operation X S who r)"
  unfolding run_approved_operation_def run_checkpoint_create_for_operation_def
    run_checkpoint_restore_for_operation_def run_command_for_operation_def stored_command_def Let_def
  by (intro tool_intros restore_for_operation_obeys create_for_operation_obeys run_command_body_obeys
      command_checks_obey)

lemma recover_approved_obeys: "obeys R (recover_approved X rid sid running e)"
  unfolding recover_approved_def Let_def
  by (cases e) (auto intro!: server_intros request_id_of_obeys service_obeys)

lemma confirm_operation_obeys: "obeys R (confirm_operation X S who rid original oid sid token)"
  unfolding confirm_operation_def record_approved_def awaiting_def Let_def
  by (intro tool_intros run_approved_operation_obeys recover_approved_obeys)

lemma approval_confirm_obeys: "obeys R (approval_confirm X S who rid oid sid token cid hash)"
  unfolding approval_confirm_def
  by (intro deciding_obeys require_operation_obeys execute_plain_obeys confirm_operation_obeys)

lemma reconcile_operation_obeys:
  "obeys R (reconcile_operation X S who rid original oid sid decision evidence)"
  unfolding reconcile_operation_def reconcile_failed_def Let_def
  by (intro tool_intros inner.reconcile_succeeded_locked_obeys)

lemma operation_reconcile_obeys:
  "obeys R (operation_reconcile X S who rid oid sid decision evidence cid hash)"
  unfolding operation_reconcile_def
  by (intro deciding_obeys require_operation_obeys execute_plain_obeys reconcile_operation_obeys)

lemma serve_deciding_obeys: "obeys R (serve_deciding X S who rid c)"
  by (cases c) (simp_all add: operation_status_obeys approval_confirm_obeys operation_cancel_obeys
      operation_reconcile_obeys)

lemma serve_obeys: "obeys R (serve X S who rid call)"
  by (cases call) (simp_all add: serve_def serve_reading_obeys serve_editing_obeys serve_commanding_obeys
      serve_repository_obeys serve_deciding_obeys)

end

end
