(* ===== verification/ServerSpec.thy ===== *)
theory ServerSpec
  imports Orders RegistrySpec ServiceSpec
begin

text \<open>
  What the whole server promises, whatever its clients ask and the outside world answers: the store
  only makes the moves of its specification, a project is only written to while its mutation lock is
  held, a lock that is taken is given back, and nothing that needs an approval runs without one.
\<close>

section \<open>The mutation lock\<close>

text \<open>The locks a history holds, and the calls that change a worktree, a ref or a file.\<close>

fun held :: "call list \<Rightarrow> string list" where
  "held [] = []"
| "held (LockAcquire p # h) = p # held h"
| "held (LockRelease p # h) = remove1 p (held h)"
| "held (c # h) = held h"

fun writing_call :: "call \<Rightarrow> bool" where
  "writing_call (GitRun root args) = (\<not> read_call (GitRun root args))"
| "writing_call (FsWrite p b) = True"
| "writing_call (FsCall what p) = (what \<in> set WRITES)"
| "writing_call (WorkerCall pid subtool args) = (subtool \<notin> set READ_TOOLS)"
| "writing_call (RunCommand cwd exe args path) = True"
| "writing_call (Spawn args) = True"
| "writing_call (KillGroup pgid sig) = True"
| "writing_call (TaskKill pid) = True"
| "writing_call c = False"

text \<open>A lock is only taken when none is held, since the locks are not reentrant and two of them could
  wait for each other; only a held lock is given back; nothing is written without one.\<close>

fun disciplined :: "call list \<Rightarrow> bool" where
  "disciplined [] = True"
| "disciplined (LockAcquire p # h) = (held h = [] \<and> disciplined h)"
| "disciplined (LockRelease p # h) = (held h = [p] \<and> disciplined h)"
| "disciplined (c # h) = ((writing_call c \<longrightarrow> held h \<noteq> []) \<and> disciplined h)"

definition holding :: "string list \<Rightarrow> 'z io_scheme \<Rightarrow> bool" where
  "holding ps s \<longleftrightarrow> held (log s) = ps \<and> disciplined (log s)"

definition outside_lock :: "'z io_scheme \<Rightarrow> 'z io_scheme \<Rightarrow> bool" where
  "outside_lock = stable (holding [])"

definition inside_lock :: "'z io_scheme \<Rightarrow> 'z io_scheme \<Rightarrow> bool" where
  "inside_lock s t \<longleftrightarrow> (\<forall>p. stable (holding [p]) s t)"

definition harmless :: "call \<Rightarrow> bool" where
  "harmless c \<longleftrightarrow> \<not> lock_call c \<and> \<not> writing_call c"

lemma other_call: "\<not> lock_call c \<Longrightarrow> held (c # h) = held h
    \<and> disciplined (c # h) = ((writing_call c \<longrightarrow> held h \<noteq> []) \<and> disciplined h)"
  by (cases c) auto

lemma read_harmless: "read_call c \<Longrightarrow> harmless c"
  by (cases c) (auto simp: harmless_def WRITES_def READ_QUESTIONS_def read_call.simps)

lemma store_harmless: "store_call c \<Longrightarrow> harmless c"
  by (cases c) (auto simp: harmless_def)

lemma question_harmless: "what \<notin> set WRITES \<Longrightarrow> harmless (FsCall what p)"
  by (simp add: harmless_def)

lemma tool_harmless: "subtool \<in> set READ_TOOLS \<Longrightarrow> harmless (WorkerCall pid subtool args)"
  by (simp add: harmless_def)

lemmas harmless_calls = read_harmless store_harmless question_harmless tool_harmless

lemma harmless_no_lock: "harmless c \<Longrightarrow> \<not> lock_call c"
  by (simp add: harmless_def)

lemma lock_steps:
  "harmless c \<Longrightarrow> outside_lock s (s\<lparr>log := c # log s\<rparr>)"
  "\<not> lock_call c \<Longrightarrow> inside_lock s (s\<lparr>log := c # log s\<rparr>)"
  "inside_lock (s\<lparr>log := LockAcquire pid # log s\<rparr>) t \<Longrightarrow>
     outside_lock s (t\<lparr>log := LockRelease pid # log t\<rparr>)"
  by (auto simp: outside_lock_def inside_lock_def stable_def holding_def harmless_def other_call)

interpretation outside: call_log_order outside_lock harmless
  by unfold_locales
    (auto simp: lock_steps harmless_calls, auto simp: outside_lock_def stable_def holding_def)

interpretation inside: call_log_order inside_lock "\<lambda>c. \<not> lock_call c"
  by unfold_locales
    (auto simp: lock_steps harmless_no_lock harmless_calls, auto simp: inside_lock_def stable_def holding_def)

interpretation outside: memory_order outside_lock harmless
  by unfold_locales (auto simp: harmless_calls outside_lock_def stable_def holding_def)

interpretation inside: memory_order inside_lock "\<lambda>c. \<not> lock_call c"
  by unfold_locales (auto simp: harmless_calls harmless_no_lock inside_lock_def stable_def holding_def)

interpretation locks: lock_order outside_lock harmless inside_lock "\<lambda>c. \<not> lock_call c" X S for X S
  by unfold_locales
    (auto simp: outside.memory inside.memory outside.initialize_logs inside.initialize_logs
      outside.close_store_logs inside.close_store_logs outside.refresh_if_changed_obeys
      inside.refresh_if_changed_obeys harmless_calls lock_steps harmless_no_lock)


lemma serve_lock: "obeys outside_lock (serve X S who rid call)"
  by (rule locks.serve_obeys)

lemma serve_holds: "holding [] s \<Longrightarrow> serve X S who rid call s = (r, s') \<Longrightarrow> holding [] s'"
  by (drule obeysD [OF serve_lock]) (simp add: outside_lock_def stable_def)

text \<open>C2: a project is written to only under the mutation lock.  Whatever a client asks, whatever the
  outside world answers, and however the request ends, every call that changes a worktree, a ref or
  a file is made while a mutation lock is held, a lock is taken only when none is held, and only a
  held lock is given back.\<close>

theorem writes_only_under_lock:
  assumes "holding [] s" and "serve X S who rid call s = (r, s')"
  shows "disciplined (log s')"
  using serve_holds [OF assms] by (simp add: holding_def)

lemma held_stays: "p \<in> set (held h) \<Longrightarrow> LockRelease p \<notin> set cs \<Longrightarrow> p \<in> set (held (cs @ h))"
proof (induction cs)
  case (Cons c cs)
  then show ?case by (cases c) (auto simp: in_set_remove1)
qed simp

text \<open>C12: a lock that is taken is given back.  For every lock in the history of a request that has ended,
  by returning a payload, by an error or by a cancellation, a later call gives that lock back.\<close>

theorem locks_given_back:
  assumes "holding [] s" and "serve X S who rid call s = (r, s')"
    and "log s' = later @ LockAcquire p # earlier"
  shows "LockRelease p \<in> set later"
proof (rule ccontr)
  assume "LockRelease p \<notin> set later"
  with held_stays [of p "LockAcquire p # earlier"] have "p \<in> set (held (log s'))"
    by (simp add: assms(3))
  with serve_holds [OF assms(1,2)] show False by (simp add: holding_def)
qed


section \<open>Every request keeps the guarantees of the store\<close>

interpretation store_memory: memory_order by_moves "\<lambda>_. True"
  by unfold_locales (simp add: by_moves_def)

interpretation requests: lock_order by_moves "\<lambda>_. True" by_moves "\<lambda>_. True" X S for X S
  by unfold_locales
    (auto simp: by_moves_def initialize_obeys close_store_obeys store_memory.refresh_if_changed_obeys)

text \<open>A history of the bridge: requests, health checks, orderly shutdowns, and crashes, after which a new
  process starts on the same database with no workers and a registry of its own.\<close>

datatype bridge_event =
    Request "auth_context option" "string option" tool_call
  | HealthCheck
  | Shutdown
  | Crash registry_st

fun react :: "ext \<Rightarrow> bridge_settings \<Rightarrow> bridge_event \<Rightarrow> bridge_st \<Rightarrow> bridge_st" where
  "react X S (Request who rid call) s = snd (serve X S who rid call s)"
| "react X S HealthCheck s = snd (health X S s)"
| "react X S Shutdown s = snd (close_service X s)"
| "react X S (Crash fresh) s = s\<lparr>is_open := False, started := False, workers := [], registry := fresh\<rparr>"

fun react_all :: "ext \<Rightarrow> bridge_settings \<Rightarrow> bridge_event list \<Rightarrow> bridge_st \<Rightarrow> bridge_st" where
  "react_all X S [] s = s"
| "react_all X S (e # es) s = react_all X S es (react X S e s)"

lemma obeys_run: "obeys R m \<Longrightarrow> R s (snd (m s))"
  by (simp add: obeys_def)

lemma react_moves: "by_moves s (react X S e s)"
proof (cases e)
  case (Crash fresh)
  then show ?thesis by (simp add: by_moves_def)
qed (simp_all add: obeys_run requests.serve_obeys requests.health_obeys requests.close_service_obeys)

lemma react_all_moves: "by_moves s (react_all X S es s)"
proof (induction es arbitrary: s)
  case Nil
  then show ?case by (simp add: by_moves_def)
next
  case (Cons e es)
  from store_order.trans [OF react_moves Cons] show ?case by simp
qed


section \<open>Concrete runs\<close>

text \<open>One project with one open session, on a disk where everything exists and nothing is a link.\<close>

definition demo_settings :: bridge_settings where
  "demo_settings = \<lparr>bs_repository_root = ''/b'', bs_bridge_config_path = ''/b/b.toml'',
     bs_projects_config_path = ''/b/p.toml'',
     bs_server = \<lparr>sv_host = ''127.0.0.1'', sv_port = 46200, sv_path = ''/mcp'', sv_transport = ''http''\<rparr>,
     bs_storage = \<lparr>st_data_dir = ''/d'', st_sqlite_file = ''/d/s'', st_log_dir = ''/l''\<rparr>,
     bs_policy = \<lparr>po_allow_arbitrary_paths = False, po_allow_arbitrary_commands = False,
       po_allow_model_calls = False, po_require_clean_workspace = True, po_max_file_bytes = 100,
       po_max_result_bytes = 100, po_mutation_lock = ''project'', po_approval_ttl_seconds = Fin 300 0\<rparr>,
     bs_codemcp = \<lparr>cm_worker_mode = ''native'', cm_wsl_distribution = ''u'', cm_wsl_python = None,
       cm_startup_timeout_seconds = Fin 20 0, cm_worker_timeout_seconds = Fin 180 0,
       cm_shutdown_timeout_seconds = Fin 10 0\<rparr>,
     bs_projects = [(''p'', demo_project)]\<rparr>"

definition demo_world :: ext where
  "demo_world = demo_ext\<lparr>x_stat := \<lambda>_. Some (1, 1),
     x_ok := \<lambda>h. case h of FsCall w p # _ \<Rightarrow> w \<in> {''exists'', ''is_dir''} | _ \<Rightarrow> True,
     x_text := \<lambda>h. case h of FsCall w p # _ \<Rightarrow> p | _ \<Rightarrow> map (\<lambda>_. CHR ''i'') h\<rparr>"

definition demo_served :: bridge_st where
  "demo_served = demo_bridge\<lparr>
     db := empty_dbase\<lparr>sessions := [\<lparr>s_session_id = ''s'', s_project_id = ''p'', s_owner_id = ''local-policy'',
       s_status = SActive, s_created_at = iso 0, s_updated_at = iso 0, s_closed_at = None, s_reason = None\<rparr>]\<rparr>,
     registry := (registry demo_bridge)\<lparr>rg_fingerprint := Some (1, 1)\<rparr>\<rparr>"

definition demo_create :: tool_call where
  "demo_create = Editing (CallFileCreate ''p'' ''s'' ''a'' ''x'' ''d'' ''c'' (replicate 64 (CHR ''0'')))"

lemma demo_holds: "holding [] demo_served"
  by (simp add: holding_def demo_served_def demo_bridge_def)

theorem writes_only_under_lock_witness:
  "disciplined (log (snd (serve demo_world demo_settings None None demo_create demo_served)))"
  by (rule writes_only_under_lock [OF demo_holds prod.collapse [symmetric]])


text \<open>The creation of a file that is there already takes the lock, finds the file and gives the lock back.\<close>

lemma demo_dispatched:
  "\<exists>r t. start demo_world None ''ii'' ''p'' (Some ''s'') ''file_create'' True ''c'' (replicate 64 (CHR ''0''))
       (JObj j) (demo_served\<lparr>log := [UuidHex, FsCall ''stat'' ''/b/p.toml'']\<rparr>) = (Inr (r, None), t)
     \<and> o_operation_id r = ''ii''
     \<and> (\<exists>r' u. dispatch demo_world ''ii'' ''validated'' t = (Inr r', u) \<and> is_open u
          \<and> registry u = registry demo_served \<and> sessions (db u) = sessions (db demo_served)
          \<and> filter (\<lambda>e. e_session_id e = Some ''s'' \<and> e_event_type e = ''auth.session.context'') (audits (db u)) = [])"
  by (simp add: service_eval TERMINAL_OPERATION_STATES_def demo_served_def demo_bridge_def demo_world_def
      dispatch_def)

lemma demo_refresh:
  "registry u = registry demo_served \<Longrightarrow>
     refresh_project_registry demo_world demo_settings u
       = (Inr False, u\<lparr>log := FsCall ''stat'' ''/b/p.toml'' # log u\<rparr>)"
  by (simp add: refresh_project_registry_def refresh_if_changed_def try_settings_def
      projects_config_fingerprint_def seen_def demo_served_def demo_settings_def demo_world_def andthen_def
      handle_def ret_apply)

lemma demo_active:
  assumes "is_open u" "sessions (db u) = sessions (db demo_served)"
    "filter (\<lambda>e. e_session_id e = Some ''s'' \<and> e_event_type e = ''auth.session.context'') (audits (db u)) = []"
  shows "\<exists>r. require_active demo_world None ''p'' (Some ''s'') u = (Inr r, u)"
  using assms
  by (simp add: require_active_def current_context_matches_def get_session_auth_context_def LOCAL_OWNER_ID_def
      get_session_def require_connection_def query_def andthen_def ret_apply session_row_def demo_served_def
      auth_event_details_def event_order_def)

lemma demo_resolve:
  assumes "registry u = registry demo_served"
  shows "\<exists>cs. resolve_path demo_world ''p'' (Some ''a'') False True u
    = (Inr (demo_project, ''/r/a'', ''a''), u\<lparr>log := cs @ log u\<rparr>)"
proof -
  have plain: "\<not> is_sensitive ''a''" by code_simp
  show ?thesis
    using assms
    by (simp add: plain within_def link_on_path_def join_path_def Let_def resolve_path_def get_project_def
        demo_served_def demo_bridge_def demo_project_def candidate_path_def normalize_relative_path_def
        has_drive_def to_slashes_def posix_parts_def posix_root_def nul_def backslash_def andthen_def raise_apply
        ret_apply real_path_def fs_ask_def fs_text_def demo_world_def)
      (rule exI [of _ "[_, _, _, _, _]"], simp)
qed

lemma demo_locked:
  "\<exists>b. with_lock ''p'' (file_create_locked demo_world demo_settings demo_project ''s'' oid ''/r/a'' ''a'' ''x'' ''d'') u
     = (Inl (BridgeErr b), u\<lparr>log := LockRelease ''p'' # FsCall ''exists'' ''/r/a'' # LockAcquire ''p'' # log u\<rparr>)"
  by (simp add: with_lock_def file_create_locked_def require_absent_def fs_ask_def demo_world_def andthen_def
      handle_def raise_apply ret_apply require_def rejected_with_def bridge_error_def)

lemma demo_checks:
  "content_allowed demo_settings ''x'' u = (Inr (), u)"
  "require_parent demo_world ''/r/a'' ''a'' m u
     = (Inr (), u\<lparr>log := FsCall ''is_dir'' ''/r'' # FsCall ''exists'' ''/r'' # log u\<rparr>)"
  "registry u = registry demo_served \<Longrightarrow> get_project ''p'' u = (Inr demo_project, u)"
  by (simp_all add: content_allowed_def fits_def too_large_def client_bytes_def encode_str_def code_def
      demo_settings_def require_def andthen_def ret_apply nul_def require_parent_def parent_of_def fs_ask_def
      demo_world_def get_project_def demo_served_def demo_bridge_def)

definition log_kept :: "'z io_scheme \<Rightarrow> 'z io_scheme \<Rightarrow> bool" where
  "log_kept s t \<longleftrightarrow> set (log s) \<subseteq> set (log t)"

interpretation kept: call_log_order log_kept "\<lambda>_. True"
  by unfold_locales (auto simp: log_kept_def)

lemma kept_finish: "obeys log_kept (finish_with X oid what payload)"
  unfolding finish_with_def by (intro kept.andthen_obeys kept.ret_obeys kept.operation_service_obeys)

lemma serve_demo_create:
  "LockAcquire ''p'' \<in> set (log (snd (serve demo_world demo_settings None (Some ''q'') demo_create demo_served)))"
proof -
  define q where "q = mutation_request ''p'' ''s'' ''file_create''
      [(''path'', JStr ''a''), (''description'', JStr ''d''), (''content_digest'', text_digest demo_world ''x'')]
      (Some ''c'') (Some (replicate 64 (CHR ''0'')))"
  define m where "m = (\<lambda>operation_id.
        andthen (require_session demo_world demo_settings None ''p'' (Some ''s'')) (\<lambda>_.
        andthen (description_given ''d'') (\<lambda>_.
        andthen (content_allowed demo_settings ''x'') (\<lambda>_.
        andthen (resolve_path demo_world ''p'' (Some ''a'') False True) (\<lambda>(project, target, normalized).
        andthen (require_parent demo_world target normalized ''parent directory does not exist'') (\<lambda>_.
        andthen (with_lock ''p''
          (file_create_locked demo_world demo_settings project ''s'' operation_id target normalized ''x'' ''d''))
          (\<lambda>(new_head, data).
        mutation_outcome (\<lambda>d. [(''path'', JStr normalized),
          (''text'', JStr (''Bridge file create committed at '' @ new_head)), (''checkpoint'', d)]) data)))))) :: (bridge_st, exn, outcome) M)"
  have serve: "serve demo_world demo_settings None (Some ''q'') demo_create demo_served
      = execute_plain demo_world demo_settings None (Some ''q'') q m demo_served"
    by (simp add: serve_def demo_create_def file_create_def q_def m_def)
  obtain r t r' u where st: "start demo_world None ''ii'' ''p'' (Some ''s'') ''file_create'' True ''c'' (replicate 64 (CHR ''0''))
       (rq_input q) (demo_served\<lparr>log := [UuidHex, FsCall ''stat'' ''/b/p.toml'']\<rparr>) = (Inr (r, None), t)"
     and id: "o_operation_id r = ''ii''" and di: "dispatch demo_world ''ii'' ''validated'' t = (Inr r', u)"
     and u: "is_open u" "registry u = registry demo_served" "sessions (db u) = sessions (db demo_served)"
       "filter (\<lambda>e. e_session_id e = Some ''s'' \<and> e_event_type e = ''auth.session.context'') (audits (db u)) = []"
    using demo_dispatched unfolding q_def mutation_request_def request_for_def by simp blast
  have "\<exists>b v. m ''ii'' u = (Inl (BridgeErr b), v) \<and> LockAcquire ''p'' \<in> set (log v)"
  proof -
    let ?u = "u\<lparr>log := FsCall ''stat'' ''/b/p.toml'' # log u\<rparr>"
    obtain a where a: "require_active demo_world None ''p'' (Some ''s'') ?u = (Inr a, ?u)"
      using demo_active [of ?u] u by auto
    obtain cs where c: "resolve_path demo_world ''p'' (Some ''a'') False True ?u = (Inr (demo_project, ''/r/a'', ''a''), ?u\<lparr>log := cs @ log ?u\<rparr>)"
      using demo_resolve [of ?u] u by auto
    let ?w = "?u\<lparr>log := FsCall ''is_dir'' ''/r'' # FsCall ''exists'' ''/r'' # cs @ log ?u\<rparr>"
    obtain b where b: "with_lock ''p'' (file_create_locked demo_world demo_settings demo_project ''s'' ''ii'' ''/r/a''
        ''a'' ''x'' ''d'') ?w
      = (Inl (BridgeErr b), ?w\<lparr>log := LockRelease ''p'' # FsCall ''exists'' ''/r/a'' # LockAcquire ''p'' # log ?w\<rparr>)"
      using demo_locked [of "''ii''" ?w] by blast
    show ?thesis
      using u a c b by (simp add: m_def andthen_def require_session_def demo_refresh demo_checks description_given_def require_def ret_apply)
  qed
  then obtain b v where mv: "m ''ii'' u = (Inl (BridgeErr b), v)" "LockAcquire ''p'' \<in> set (log v)" by blast
  obtain x w where f: "finish_with demo_world ''ii'' (error_state b) (failure_payload ''q'' q ''ii'' b) v = (x, w)" by fastforce
  have kept: "log_kept v w"
    using obeysD [where R = log_kept, OF kept_finish f] .
  have fields: "started demo_served" "log demo_served = []" "x_text demo_world [UuidHex, c] = ''ii''"
    "bridge_project (rq_project_id q) = ''p''" "rq_session_id q = Some ''s''" "rq_kind q = ''file_create''"
    "rq_mutation q" "client_id q i o' = ''c''" "hash_value X q = replicate 64 (CHR ''0'')" for c i o' X
    by (simp_all add: demo_served_def demo_bridge_def demo_world_def q_def mutation_request_def request_for_def
        bridge_project_def given_def client_id_def hash_value_def)
  have "execute_plain demo_world demo_settings None (Some ''q'') q m demo_served = (x, w)"
    using st id di mv f 
    by (simp add: execute_plain_def execute_request_def andthen_def bridge_start_def ret_apply handle_def
       demo_refresh request_id_of_def try_bridge_def fields run_operation_def recover_request_def)
  with kept mv(2) show ?thesis by (auto simp: serve log_kept_def)
qed

theorem locks_given_back_witness:
  "\<exists>later earlier. log (snd (serve demo_world demo_settings None (Some ''q'') demo_create demo_served))
      = later @ LockAcquire ''p'' # earlier \<and> LockRelease ''p'' \<in> set later"
proof -
  from split_list [OF serve_demo_create] obtain later earlier where
    run: "log (snd (serve demo_world demo_settings None (Some ''q'') demo_create demo_served))
      = later @ LockAcquire ''p'' # earlier" by blast
  from locks_given_back [OF demo_holds prod.collapse [symmetric] run] run show ?thesis by blast
qed

end
