(* ===== verification/ApprovalSpec.thy ===== *)
theory ApprovalSpec
  imports ServerSpec
begin

text \<open>
  Approvals, end to end: a request for something that needs an approval only looks and asks for it, an
  operation that waits for approval runs only after a token has been accepted for it, and a request
  that is repeated is answered from its record and runs nothing.
\<close>

section \<open>Asking first\<close>

definition only_harmless :: "'z io_scheme \<Rightarrow> 'z io_scheme \<Rightarrow> bool" where
  "only_harmless s t \<longleftrightarrow> (\<exists>cs. log t = cs @ log s \<and> list_all harmless cs)"

lemma only_harmless_refl: "only_harmless s s"
  unfolding only_harmless_def by (rule exI [of _ "[]"]) simp

lemma only_harmless_trans: "only_harmless s t \<Longrightarrow> only_harmless t u \<Longrightarrow> only_harmless s u"
  unfolding only_harmless_def by (elim exE, rule_tac x = "csa @ cs" in exI) simp

lemma only_harmless_call: "harmless c \<Longrightarrow> only_harmless s (s\<lparr>log := c # log s\<rparr>)"
  unfolding only_harmless_def by (rule exI [of _ "[c]"]) simp

lemma only_harmless_log: "log t = log s \<Longrightarrow> only_harmless s t"
  unfolding only_harmless_def by (rule exI [of _ "[]"]) simp

text \<open>The project file is the one the registry was loaded from, as far as its time and size tell.\<close>

definition file_unchanged :: "ext \<Rightarrow> bridge_settings \<Rightarrow> registry_st \<Rightarrow> bool" where
  "file_unchanged X S reg \<longleftrightarrow>
     (\<exists>f. rg_fingerprint reg = Some f
        \<and> (\<forall>h. x_stat X (FsCall ''stat'' (bs_projects_config_path S) # h) = Some f))"

definition looks_only ::
  "ext \<Rightarrow> bridge_settings \<Rightarrow> registry_st \<Rightarrow> 'z bridge_st_scheme \<Rightarrow> 'z bridge_st_scheme \<Rightarrow> bool" where
  "looks_only X S reg s t \<longleftrightarrow>
     (file_unchanged X S reg \<and> registry s = reg \<longrightarrow> registry t = reg \<and> only_harmless s t)"

lemma more_registry: "store_st.more t = store_st.more s \<Longrightarrow> registry t = registry s"
  by (cases s; cases t) simp

lemma looks_only_steps:
  "looks_only X S reg s s"
  "looks_only X S reg s t \<Longrightarrow> looks_only X S reg t u \<Longrightarrow> looks_only X S reg s u"
  "harmless c \<Longrightarrow> looks_only X S reg s (s\<lparr>log := c # log s\<rparr>)"
  "log t = log s \<Longrightarrow> registry t = registry s \<Longrightarrow> looks_only X S reg s t"
  by (auto simp: looks_only_def only_harmless_refl only_harmless_call only_harmless_log
      dest: only_harmless_trans)

interpretation looking: call_log_order "looks_only X S reg" harmless for X S reg
  by unfold_locales
    (rule looks_only_steps(1), erule (1) looks_only_steps(2), erule looks_only_steps(3), erule read_harmless,
     erule looks_only_steps(4), erule more_registry, erule store_harmless)

lemma refresh_unchanged:
  assumes "file_unchanged X S (registry s)"
  shows "refresh_if_changed X (bs_projects_config_path S) s
    = (Inr False, s\<lparr>log := FsCall ''stat'' (bs_projects_config_path S) # log s\<rparr>)"
  using assms
  by (auto simp: file_unchanged_def refresh_if_changed_def try_settings_def projects_config_fingerprint_def
      andthen_def handle_def ret_apply seen_def)

lemma refresh_looks_only: "obeys (looks_only X S reg) (refresh_if_changed X (bs_projects_config_path S))"
proof (rule obeysI)
  fix s :: "'a bridge_st_scheme" and r s'
  assume run: "refresh_if_changed X (bs_projects_config_path S) s = (r, s')"
  show "looks_only X S reg s s'"
  proof (cases "file_unchanged X S reg \<and> registry s = reg")
    case True
    with run have "s' = s\<lparr>log := FsCall ''stat'' (bs_projects_config_path S) # log s\<rparr>"
      by (auto simp: refresh_unchanged)
    then show ?thesis by (simp add: looks_only_steps(3) question_harmless WRITES_def)
  qed (auto simp: looks_only_def)
qed

interpretation looking: server_order "looks_only X S reg" harmless X S for X S reg
  by unfold_locales
    (erule question_harmless, erule (1) looks_only_steps(4), rule refresh_looks_only, erule tool_harmless,
     rule looking.initialize_logs, rule looking.close_store_logs)

text \<open>The requests that may write: edits, commands that need no approval, a confirmation and a
  reconciliation.\<close>

fun command_target :: "command_call \<Rightarrow> string \<times> string" where
  "command_target (CallRegisteredCommandRun pid sid command_id cid hash) = (pid, command_id)"
| "command_target (CallFormatRun pid sid command_id cid hash) = (pid, command_id)"
| "command_target (CallTestRun pid sid command_id cid hash) = (pid, command_id)"

definition command_needs_approval :: "registry_st \<Rightarrow> string \<Rightarrow> string \<Rightarrow> bool" where
  "command_needs_approval reg pid command_id \<longleftrightarrow>
     (\<exists>project c. map_of (rg_projects reg) pid = Some project
        \<and> map_of (p_commands project) command_id = Some c \<and> cs_approval c = ''required'')"

fun may_write :: "registry_st \<Rightarrow> tool_call \<Rightarrow> bool" where
  "may_write reg (Reading c) = False"
| "may_write reg (Repository c) = False"
| "may_write reg (Commanding c) = (case command_target c of (pid, command_id) \<Rightarrow>
     \<not> command_needs_approval reg pid command_id)"
| "may_write reg (Deciding (CallOperationStatus oid sid)) = False"
| "may_write reg (Deciding (CallOperationCancel oid sid cid hash)) = False"
| "may_write reg c = True"

lemma returns_resolve_command:
  "returns (resolve_command X S project command_id k) s
     (\<lambda>c _. map_of (p_commands project) command_id = Some c)"
  unfolding resolve_command_def registered_command_def command_of_kind_def arbitrary_refused_def
    approval_settled_def Let_def
  by (cases k; cases "map_of (p_commands project) command_id") (auto simp: returns_clean)

lemma returns_get_project:
  "returns (get_project pid) s (\<lambda>p t. t = s \<and> map_of (rg_projects (registry s)) pid = Some p)"
  unfolding get_project_def by simp


interpretation unchanged: looking_order unchanged "\<lambda>_. True"
  by unfold_locales

lemma returns_obeyed: "obeys R m \<Longrightarrow> returns m s Q \<Longrightarrow> returns m s (\<lambda>x t. Q x t \<and> R s t)"
  by (auto simp: returns_def dest: obeysD)

text \<open>What the check of a command answers, where the registry is the given one.\<close>

lemma command_check_returns:
  assumes "command_needs_approval reg pid command_id"
  shows "returns (andthen (require_session X S who pid sid) (\<lambda>_.
       andthen (get_project pid) (\<lambda>project.
       andthen (resolve_command X S project command_id k) (\<lambda>c.
       ret (cs_approval c = ''required'', (project, c)))))) s
     (\<lambda>(b, _) t. b \<or> registry t \<noteq> reg)"
proof -
  have resolve: "returns (resolve_command X S project command_id k) u
      (\<lambda>c t. cs_approval c = ''required'' \<or> registry t \<noteq> reg)"
    if "map_of (rg_projects (registry u)) pid = Some project" for project and u :: "'a bridge_st_scheme"
    by (rule returns_mono [OF returns_obeyed [OF unchanged.resolve_command_obeys returns_resolve_command]])
      (use that assms in \<open>auto simp: command_needs_approval_def unchanged_def\<close>)
  show ?thesis
    unfolding returns_andthen
    by (rule returns_any, rule returns_mono [OF returns_get_project], elim conjE, hypsubst,
        rule returns_mono [OF resolve]) auto
qed

lemma command_looks_only:
  assumes "command_needs_approval reg pid command_id"
  shows "obeys (looks_only X S reg) (run_registered_command X S who rid pid sid command_id k cid hash)"
  unfolding run_registered_command_def
proof (rule looking.execute_request_obeys [where A = "\<lambda>_ t. registry t \<noteq> reg"], goal_cases)
  case 1
  show ?case by (intro looking.request_intros looking.resolve_command_obeys)
next
  case (2 s)
  show ?case by (rule command_check_returns [OF assms])
next
  case (3 c t oid)
  then show ?case by (simp add: looks_only_def)
qed

text \<open>C3: what needs an approval does not run before it, and what reads does not write.  A request for a
  checkpoint, for a rollback, for a registered command that needs approval, to read, to search, to
  list, to show a status, a diff or an operation, or to cancel makes only calls that look: no command
  is run, no file is written, no ref is moved and no lock is taken, whatever the outside world
  answers, as long as the project file stays the one the registry was loaded from.\<close>

theorem approval_comes_first:
  assumes "serve X S who rid call s = (r, s')" and "\<not> may_write (registry s) call"
    and "file_unchanged X S (registry s)"
  shows "\<exists>cs. log s' = cs @ log s \<and> list_all harmless cs"
proof -
  have "obeys (looks_only X S (registry s)) (serve X S who rid call)"
  proof (cases call)
    case (Commanding c)
    with assms(2) show ?thesis
      by (cases c) (simp_all add: serve_def registered_command_run_def format_run_def test_run_def
          command_looks_only)
  next
    case (Deciding c)
    with assms(2) show ?thesis
      by (cases c) (simp_all add: serve_def looking.operation_status_obeys looking.operation_cancel_obeys)
  qed (use assms(2) in \<open>simp_all add: serve_def looking.serve_repository_obeys looking.serve_reading_obeys\<close>)
  from obeysD [OF this assms(1)] assms(3) show ?thesis
    by (simp add: looks_only_def only_harmless_def)
qed

section \<open>Confirming takes a token\<close>

interpretation plain: call_log_order only_harmless harmless
  by unfold_locales
    (rule only_harmless_refl, erule (1) only_harmless_trans, erule only_harmless_call, erule read_harmless,
     erule only_harmless_log, erule store_harmless)

definition token_accepted ::
  "ext \<Rightarrow> string \<Rightarrow> string \<Rightarrow> 'z store_st_scheme \<Rightarrow> 'z store_st_scheme \<Rightarrow> bool" where
  "token_accepted X oid token s t \<longleftrightarrow>
     (\<exists>u v q. by_moves s u \<and> consume X oid token u = (Inr q, v) \<and> by_moves v t)"

definition confirmed ::
  "ext \<Rightarrow> string \<Rightarrow> string \<Rightarrow> 'z store_st_scheme \<Rightarrow> 'z store_st_scheme \<Rightarrow> bool" where
  "confirmed X oid token s t \<longleftrightarrow> by_moves s t \<and> (only_harmless s t \<or> token_accepted X oid token s t)"

lemma confirmed_trans:
  assumes "confirmed X oid token s t" and "confirmed X oid token t u"
  shows "confirmed X oid token s u"
  using assms store_order.trans only_harmless_trans
  unfolding confirmed_def token_accepted_def by meson

lemma confirmed_obeys: "obeys by_moves m \<Longrightarrow> obeys only_harmless m \<Longrightarrow> obeys (confirmed X oid token) m"
  by (simp add: obeys_def confirmed_def)

interpretation confirming: bridge_order "confirmed X oid token" harmless for X oid token
  by unfold_locales
    (simp add: confirmed_def store_order.refl only_harmless_refl, erule (1) confirmed_trans,
     simp add: confirmed_def store_order.log_step only_harmless_call, erule read_harmless,
     (rule confirmed_obeys, rule moves.store_laws, rule plain.store_laws)+)


interpretation plain: memory_order only_harmless harmless
  by unfold_locales (erule question_harmless, erule only_harmless_log)

interpretation confirming: server_order "confirmed X' oid token" harmless X S for X' oid token X S
  by unfold_locales
    (erule question_harmless, simp add: confirmed_def by_moves_def only_harmless_log,
     (rule confirmed_obeys, rule store_memory.refresh_if_changed_obeys, rule plain.refresh_if_changed_obeys),
     erule tool_harmless, (rule confirmed_obeys, rule initialize_obeys, rule plain.initialize_logs),
     (rule confirmed_obeys, rule close_store_obeys, rule plain.close_store_logs))

text \<open>What follows an accepted token may do anything to the project.\<close>

lemma consume_then:
  assumes "\<And>q. obeys by_moves (f q)"
  shows "obeys (confirmed X oid token) (andthen (consume X oid token) f)"
proof (rule obeysI)
  fix s r s'
  assume run: "andthen (consume X oid token) f s = (r, s')"
  obtain p t where c: "consume X oid token s = (p, t)" by fastforce
  have look: "confirmed X oid token s t"
    using obeysD [OF confirming.approval_service_obeys(2) c] .
  show "confirmed X oid token s s'"
  proof (cases p)
    case (Inl e)
    with run c look show ?thesis by (simp add: andthen_def)
  next
    case (Inr q)
    with run c have "f q t = (r, s')" by (simp add: andthen_def)
    with assms have "by_moves t s'" by (rule obeysD)
    moreover have "token_accepted X oid token s s'"
      unfolding token_accepted_def using c Inr store_order.refl calculation by blast
    moreover have "by_moves s t" using look by (simp add: confirmed_def)
    ultimately show ?thesis using store_order.trans unfolding confirmed_def by blast
  qed
qed

lemma confirm_operation_confirmed:
  "obeys (confirmed X oid token) (confirm_operation X S who rid original oid sid token)"
  unfolding confirm_operation_def awaiting_def
  by (intro confirming.andthen_obeys confirming.require_operation_obeys confirming.require_obeys consume_then
      requests.tool_intros requests.run_approved_operation_obeys requests.recover_approved_obeys)
    (simp add: record_approved_def Let_def requests.tool_intros)

lemma approval_confirm_confirmed:
  "obeys (confirmed X oid token) (approval_confirm X S who rid oid sid token cid hash)"
  unfolding approval_confirm_def
  by (intro confirming.deciding_obeys confirming.require_operation_obeys confirming.execute_plain_obeys
      confirm_operation_confirmed)

text \<open>C4: an operation that waits for approval runs only after a token for it has been accepted.  A
  confirmation either makes only calls that look, or the store, in a state its moves led to, held a
  pending and unexpired approval of that operation whose token hash is the hash of the token the
  client sent, and accepted it.\<close>

theorem confirmation_needs_token:
  assumes "serve X S who rid (Deciding (CallApprovalConfirm oid sid token cid hash)) s = (r, s')"
  shows "(\<exists>cs. log s' = cs @ log s \<and> list_all harmless cs)
    \<or> (\<exists>u a. by_moves s u \<and> approval_row oid (db u) = Some a \<and> a_status a = Pending
         \<and> a_token_hash a = token_hash X token \<and> iso (consume_time X u) < a_expires_at a
         \<and> (\<exists>q v. consume X oid token u = (Inr q, v) \<and> by_moves v s'))"
proof -
  from assms have "approval_confirm X S who rid oid sid token (Some cid) (Some hash) s = (r, s')"
    by (simp add: serve_def)
  from obeysD [OF approval_confirm_confirmed this]
  consider "only_harmless s s'" | u v q where "by_moves s u" "consume X oid token u = (Inr q, v)" "by_moves v s'"
    unfolding confirmed_def token_accepted_def by blast
  then show ?thesis
  proof cases
    case 1
    then show ?thesis by (simp add: only_harmless_def)
  next
    case 2
    from returnsD [OF consume_returns 2(2)] 2 show ?thesis by blast
  qed
qed

section \<open>Repeating a request\<close>

lemma replay_from_record:
  assumes "o_request_hash r = canonical" and "o_result_json r = Some (JText j)" and "j \<noteq> JNull"
    and "identity_of X details = identity_of X (map_option (auth_audit_details (x_sha256 X)) who)"
  shows "replay_existing X who canonical (operation_of_row r) details = Inr (operation_of_row r, Some j)"
  using assms by (simp add: replay_existing_def json_column_def Let_def)

lemma start_replays:
  assumes "is_open s" and "check_request X mutation cid supplied input = Inr canonical"
    and "encode_replay_key (map_option (auth_replay_namespace (x_sha256 X)) who) cid = Inr key"
    and "find (same_request pid sid key) (operations (db s)) = Some r"
    and "stored_auth_details (db s) (o_operation_id r) = Inr details"
    and "replay_existing X who canonical (operation_of_row r) details = Inr (record_of, Some j)"
  shows "start X who oid pid sid kind mutation cid supplied input s = (Inr (record_of, Some j), s)"
  using assms
  by (simp add: start_def obtain_record_def settle_def get_operation_by_client_request_id_def
      get_operation_auth_context_def stored_auth_details_def require_connection_def query_def andthen_def
      handle_def ret_apply)

text \<open>C14: a request that is repeated is answered from its record.  When the store holds, under the key of
  the client's request id, an operation with the same input hash, the same security identity and a
  stored result, then executing the request returns that result, leaves the database as it was, and
  neither checks nor runs the operation: only calls that look are made.\<close>

theorem repeated_request_replays:
  assumes "started s" and "is_open s" and "file_unchanged X S (registry s)"
    and "rq_client_id q = Some cid" and "rq_hash q = Some supplied" and "cid \<noteq> []" and "supplied \<noteq> []"
    and "check_request X (rq_mutation q) cid supplied (rq_input q) = Inr canonical"
    and "encode_replay_key (map_option (auth_replay_namespace (x_sha256 X)) who) cid = Inr key"
    and "find (same_request (bridge_project (rq_project_id q)) (rq_session_id q) key) (operations (db s)) = Some r"
    and "stored_auth_details (db s) (o_operation_id r) = Inr details"
    and "identity_of X details = identity_of X (map_option (auth_audit_details (x_sha256 X)) who)"
    and "o_request_hash r = canonical" and "o_result_json r = Some (JText j)" and "j \<noteq> JNull"
  shows "\<exists>s'. execute_request X S who rid q check operation s = (Inr j, s') \<and> db s' = db s
    \<and> (\<exists>cs. log s' = cs @ log s \<and> list_all harmless cs)"
proof -
  let ?stat = "FsCall ''stat'' (bs_projects_config_path S)"
  let ?s = "s\<lparr>log := ?stat # log s\<rparr>"
  have refresh: "refresh_project_registry X S s = (Inr False, ?s)"
    using assms(3) by (simp add: refresh_project_registry_def refresh_unchanged andthen_def ret_apply)
  obtain request_id cs where rid: "request_id_of X rid ?s = (Inr request_id, s\<lparr>log := cs @ log s\<rparr>)"
    and cs: "list_all harmless cs"
  proof (cases rid)
    case None
    then show ?thesis
      using that [of _ "[UuidHex, ?stat]"] by (simp add: request_id_of_def harmless_def WRITES_def)
  next
    case (Some a)
    then show ?thesis
      using that [of a "[?stat]"] by (simp add: request_id_of_def ret_apply harmless_def WRITES_def)
  qed
  note replay = replay_from_record [OF assms(13-15) assms(12)]
  have given: "client_id q request_id oid = cid" "hash_value X q = supplied" for oid
    using assms(4-7) by (simp_all add: client_id_def hash_value_def given_def)
  let ?u = "s\<lparr>log := UuidHex # cs @ log s\<rparr>"
  have "start X who oid (bridge_project (rq_project_id q)) (rq_session_id q) (rq_kind q) (rq_mutation q)
      (client_id q request_id oid) (hash_value X q) (rq_input q) ?u = (Inr (operation_of_row r, Some j), ?u)"
    for oid
    unfolding given
    by (rule start_replays [OF _ assms(8,9) _ _ replay]) (use assms in simp_all)
  then have "execute_request X S who rid q check operation s = (Inr j, ?u)"
    using assms(1) refresh rid
    by (simp add: execute_request_def bridge_start_def andthen_def ret_apply try_bridge_def handle_def)
  moreover have "list_all harmless (UuidHex # cs)" using cs by (simp add: store_harmless)
  ultimately show ?thesis by (auto intro!: exI [of _ ?u] exI [of _ "UuidHex # cs"])
qed

section \<open>Concrete runs\<close>

lemma demo_unchanged: "file_unchanged demo_world demo_settings (registry demo_served)"
  by (simp add: file_unchanged_def demo_served_def demo_world_def)

theorem approval_comes_first_witness:
  "\<exists>cs. log (snd (serve demo_world demo_settings None None
        (Repository (CallCheckpointCreate ''p'' ''s'' ''c'' (replicate 64 (CHR ''0'')))) demo_served)) = cs
     \<and> list_all harmless cs"
proof -
  let ?call = "Repository (CallCheckpointCreate ''p'' ''s'' ''c'' (replicate 64 (CHR ''0'')))"
  have "\<not> may_write (registry demo_served) ?call" by simp
  from approval_comes_first [OF prod.collapse [symmetric] this demo_unchanged]
  show ?thesis by (simp add: demo_served_def demo_bridge_def)
qed

theorem confirmation_needs_token_witness:
  "\<exists>s'. s' = snd (serve demo_world demo_settings None None
        (Deciding (CallApprovalConfirm ''o'' ''s'' ''t'' ''c'' (replicate 64 (CHR ''0'')))) demo_served)
     \<and> (list_all harmless (log s')
        \<or> (\<exists>u a. approval_row ''o'' (db u) = Some a \<and> a_token_hash a = token_hash demo_world ''t''
             \<and> by_moves demo_served u))"
proof -
  let ?call = "Deciding (CallApprovalConfirm ''o'' ''s'' ''t'' ''c'' (replicate 64 (CHR ''0'')))"
  have "log demo_served = []" by (simp add: demo_served_def demo_bridge_def)
  with confirmation_needs_token [OF prod.collapse [symmetric], of demo_world demo_settings None None "''o''" "''s''"
      "''t''" "''c''" "replicate 64 (CHR ''0'')" demo_served]
  show ?thesis by auto
qed

definition demo_answered :: bridge_st where
  "demo_answered = demo_served\<lparr>db := (db demo_served)\<lparr>operations := [demo_row\<lparr>o_session_id := Some ''s'',
     o_client_request_id := ''c'', o_request_hash := replicate 64 (CHR ''0''), o_state := Succeeded,
     o_result_json := Some (JText (JObj []))\<rparr>]\<rparr>\<rparr>"

definition demo_request :: request where
  "demo_request = mutation_request ''p'' ''s'' ''k'' [] (Some ''c'') (Some (replicate 64 (CHR ''0'')))"

theorem repeated_request_replays_witness:
  "\<exists>s'. execute_request demo_world demo_settings None None demo_request (ret (False, ())) (\<lambda>_ _. raise Cancelled)
        demo_answered = (Inr (JObj []), s') \<and> db s' = db demo_answered"
proof -
  let ?zeros = "replicate 64 (CHR ''0'')"
  have check: "check_request demo_world (rq_mutation demo_request) ''c'' ?zeros (rq_input demo_request) = Inr ?zeros"
    by (simp add: service_eval demo_world_def demo_request_def mutation_request_def request_for_def)
  have key: "encode_replay_key (map_option (auth_replay_namespace (x_sha256 demo_world)) None) ''c'' = Inr ''c''"
    by (simp add: encode_replay_key_def)
  note demo = demo_answered_def demo_request_def mutation_request_def request_for_def demo_served_def
    demo_bridge_def demo_row_def
  have "\<exists>s'. execute_request demo_world demo_settings None None demo_request (ret (False, ()))
        (\<lambda>_ _. raise Cancelled) demo_answered = (Inr (JObj []), s') \<and> db s' = db demo_answered
      \<and> (\<exists>cs. log s' = cs @ log demo_answered \<and> list_all harmless cs)"
    by (rule repeated_request_replays [OF _ _ _ _ _ _ _ check key, where details = None],
      simp_all add: demo demo_unchanged [unfolded demo_served_def demo_bridge_def, simplified]
        bridge_project_def given_def same_request_def empty_dbase_def stored_auth_details_def auth_event_details_def event_order_def identity_of_def) simp_all
  then show ?thesis by blast
qed

end
