(* ===== verification/TextSpec.thy ===== *)
theory TextSpec
  imports Texts GitSpec
begin

text \<open>
  What the text helpers promise: an edit replaces the one occurrence of a text and nothing else, and
  the filter of a search result hides every sensitive path and no other.
\<close>

section \<open>Exact replacement\<close>

lemma find_sub_first:
  "find_sub pat s = Some (a, b) \<Longrightarrow> s = u @ pat @ v \<Longrightarrow> length a \<le> length u"
proof (induction pat s arbitrary: a b u rule: find_sub.induct)
  case (2 pat c cs)
  show ?case
  proof (cases u)
    case Nil
    with 2(3) have "prefix pat (c # cs)" by (simp add: prefix_def)
    with 2(2) show ?thesis by simp
  next
    case (Cons x us)
    with 2(3) have "cs = us @ pat @ v" by simp
    with 2 Cons show ?thesis by (fastforce split: if_splits)
  qed
qed (auto split: if_splits)

lemma find_sub_None: "find_sub pat s = None \<Longrightarrow> s \<noteq> u @ pat @ v"
proof (induction pat s arbitrary: u rule: find_sub.induct)
  case (2 pat c cs)
  then show ?case by (cases u) (auto simp: prefix_def split: if_splits)
qed (auto split: if_splits)

lemma count_sub_zero: "count_sub pat s = 0 \<Longrightarrow> find_sub pat s = None \<and> pat \<noteq> []"
  by (subst (asm) count_sub.simps) (auto split: if_splits option.splits)

lemma count_sub_one:
  assumes "count_sub pat s = 1"
  shows "\<exists>a b. find_sub pat s = Some (a, b) \<and> (if pat = [] then s = [] else find_sub pat b = None)"
proof (cases "pat = []")
  case True
  with assms show ?thesis by (subst (asm) count_sub.simps) simp
next
  case False
  with assms show ?thesis
    by (subst (asm) count_sub.simps) (auto split: option.splits dest: count_sub_zero)
qed

lemma count_sub_more:
  assumes "1 < count_sub pat s"
  shows "\<exists>a b c. s = a @ pat @ b @ pat @ c"
proof (cases "pat = []")
  case False
  with assms obtain a b where f: "find_sub pat s = Some (a, b)" and "count_sub pat b \<noteq> 0"
    by (subst (asm) count_sub.simps) (auto split: option.splits)
  moreover from this(2) False obtain x y where "find_sub pat b = Some (x, y)"
    by (subst (asm) count_sub.simps) (auto split: option.splits)
  ultimately show ?thesis by (blast dest: find_sub_Some)
next
  case True
  then have "s = s @ pat @ [] @ pat @ []" by simp
  then show ?thesis by blast
qed

text \<open>The replaced occurrence is the only one, up to those that overlap it.\<close>

definition sole_occurrence :: "'a list \<Rightarrow> 'a list \<Rightarrow> 'a list \<Rightarrow> bool" where
  "sole_occurrence pre pat post \<longleftrightarrow>
     (\<forall>u v. pre @ pat @ post = u @ pat @ v \<longrightarrow>
        length pre \<le> length u \<and> length u < length pre + max 1 (length pat))"

lemma one_is_sole:
  assumes "count_sub pat s = 1" and "find_sub pat s = Some (a, b)"
  shows "sole_occurrence a pat b"
  unfolding sole_occurrence_def
proof (intro allI impI conjI)
  fix u v
  assume occ: "a @ pat @ b = u @ pat @ v"
  note s = find_sub_Some [OF assms(2)]
  show le: "length a \<le> length u" using find_sub_first [OF assms(2)] occ s by simp
  show "length u < length a + max 1 (length pat)"
  proof (rule ccontr)
    assume far: "\<not> length u < length a + max 1 (length pat)"
    then have "length (a @ pat) \<le> length u" by simp
    with occ obtain w where w: "u = (a @ pat) @ w" "b = w @ pat @ v"
      by (metis append.assoc append_eq_append_conv_if append_take_drop_id same_append_eq)
    with count_sub_one [OF assms(1)] assms(2) far s show False
      by (auto dest: find_sub_None split: if_splits)
  qed
qed

text \<open>C13: an edit replaces exactly one occurrence.  On a success the file decodes to
  \<open>pre @ old @ post\<close> with no other occurrence of the old text beside the ones that overlap this one,
  and the result decodes to \<open>pre @ new @ post\<close>, where old and new have the line ends of the
  file.  A refusal means that the file is not UTF-8, that the old text does not occur, that it occurs
  twice without overlap, or that the new text cannot be encoded.\<close>

theorem exact_replacement:
  "case replace_exact_text raw path old_string new_string of
     Inr out \<Rightarrow> \<exists>pre post. sole_occurrence pre (match_existing_line_endings raw old_string) post
       \<and> utf8_decode raw = Some (pre @ match_existing_line_endings raw old_string @ post)
       \<and> utf8_decode out = Some (pre @ match_existing_line_endings raw new_string @ post)
   | Inl e \<Rightarrow> utf8_decode raw = None
       \<or> (\<exists>t. utf8_decode raw = Some t
            \<and> ((\<nexists>u v. t = u @ match_existing_line_endings raw old_string @ v)
               \<or> (\<exists>a b c. t = a @ match_existing_line_endings raw old_string @ b
                              @ match_existing_line_endings raw old_string @ c)
               \<or> utf8_encode (replace_first (match_existing_line_endings raw old_string)
                     (match_existing_line_endings raw new_string) t) = None))"
proof (cases "utf8_decode raw")
  case None
  then show ?thesis by (simp add: replace_exact_text_def decode_utf8_text_def)
next
  case (Some t)
  let ?old = "match_existing_line_endings raw old_string"
  consider "count_sub ?old t = 0" | "count_sub ?old t = 1" | "1 < count_sub ?old t" by linarith
  then show ?thesis
  proof cases
    case 1
    then have "\<nexists>u v. t = u @ ?old @ v" using count_sub_zero find_sub_None by blast
    with Some 1 show ?thesis
      by (simp add: replace_exact_text_def decode_utf8_text_def Let_def)
  next
    case 2
    then obtain a b where f: "find_sub ?old t = Some (a, b)" using count_sub_one by blast
    note t = find_sub_Some [OF f]
    show ?thesis
    proof (cases "utf8_encode (a @ match_existing_line_endings raw new_string @ b)")
      case None
      with Some 2 f show ?thesis
        by (auto simp: replace_exact_text_def decode_utf8_text_def encode_text_def replace_first_def Let_def)
    next
      case out: (Some out)
      then have "replace_exact_text raw path old_string new_string = Inr out"
        using Some 2 f
        by (simp add: replace_exact_text_def decode_utf8_text_def encode_text_def replace_first_def Let_def)
      with one_is_sole [OF 2 f] t Some utf8_decode_encode [OF out] show ?thesis
        by (simp del: append_eq_append_conv2) (rule exI [of _ a], rule exI [of _ b], simp)
    qed
  next
    case 3
    with Some count_sub_more [OF 3] show ?thesis
      by (auto simp: replace_exact_text_def decode_utf8_text_def Let_def)
  qed
qed


section \<open>Search results\<close>

text \<open>A line without a break.\<close>

definition one_line :: "string \<Rightarrow> bool" where
  "one_line w \<longleftrightarrow> (\<forall>c \<in> set w. \<not> is_line_break c \<and> c \<noteq> cr)"

lemma splitlines_lines:
  "one_line acc \<Longrightarrow> w \<in> set (splitlines_from acc s) \<Longrightarrow> one_line w"
proof (induction acc s rule: splitlines_from.induct)
  case (1 acc)
  then show ?case by (auto simp: one_line_def split: if_splits)
next
  case (2 acc x xs)
  have "one_line []" and "one_line (rev acc)" using 2(6) by (simp_all add: one_line_def)
  moreover have "\<not> is_line_break x \<Longrightarrow> x \<noteq> cr \<Longrightarrow> one_line (x # acc)" using 2(6) by (simp add: one_line_def)
  ultimately show ?case
    using 2(1-5,7) by (cases xs) (auto split: if_splits)
qed

lemma splitlines_join:
  "list_all one_line ls \<Longrightarrow>
     splitlines (join_with [lf] ls) = (if ls \<noteq> [] \<and> last ls = [] then butlast ls else ls)"
proof (induction ls rule: induct_list012)
  case (2 w)
  then show ?case using splitlines_no_break [of w "[]"] by (simp add: splitlines_def one_line_def)
next
  case (3 w v ws)
  then show ?case using splitlines_break [of w "[]"] by (simp add: splitlines_def one_line_def)
qed (simp add: splitlines_def)

text \<open>The two lines that the bridge puts into a search result itself.\<close>

definition own_line :: "string \<Rightarrow> bool" where
  "own_line w \<longleftrightarrow> w = ''No files found''
     \<or> (\<exists>n. w = ''Found '' @ decimal n @ '' file'' @ (if n \<noteq> 1 then ''s'' else []))"

lemma decimal_digits: "c \<in> set (decimal n) \<Longrightarrow> 48 \<le> code c \<and> code c \<le> 57"
proof (induction n rule: decimal.induct)
  case (1 n)
  show ?case
  proof (cases "n < 10")
    case True
    with 1(2) show ?thesis by (subst (asm) decimal.simps) (simp add: code_def)
  next
    case False
    with 1(2) consider "c \<in> set (decimal (n div 10))" | "c = char_of (48 + n mod 10)"
      by (subst (asm) decimal.simps) auto
    then show ?thesis
    proof cases
      case 2
      then show ?thesis by (simp add: code_def)
    qed (use 1(1) False in blast)
  qed
qed

lemma code_cr: "code cr = 13"
  by (simp add: code_def cr_def)

lemma decimal_one_line: "one_line (decimal n)"
  unfolding one_line_def
proof
  fix c
  assume "c \<in> set (decimal n)"
  from decimal_digits [OF this] show "\<not> is_line_break c \<and> c \<noteq> cr"
    using code_cr by (auto simp: is_line_break_def Let_def)
qed

lemma one_line_append: "one_line (u @ v) \<longleftrightarrow> one_line u \<and> one_line v"
  by (auto simp: one_line_def)

lemma own_line_one: "own_line w \<Longrightarrow> one_line w \<and> w \<noteq> []"
proof -
  have "one_line ''No files found''" and "one_line ''Found ''" and "one_line '' file''"
    and "one_line ''s''" and "one_line []"
    by (simp_all add: one_line_def is_line_break_def cr_def code_def)
  then show "own_line w \<Longrightarrow> one_line w \<and> w \<noteq> []"
    unfolding own_line_def
    by (elim disjE exE, simp, simp only: one_line_append decimal_one_line split: if_split, simp)
qed

lemma splitlines_Nil: "splitlines t = [] \<Longrightarrow> t = []"
proof -
  have "splitlines_from acc s = [] \<Longrightarrow> s = [] \<and> acc = []" for acc s
    by (induction acc s rule: splitlines_from.induct) (auto split: if_splits)
  then show "splitlines t = [] \<Longrightarrow> t = []" unfolding splitlines_def by blast
qed

lemma splitlines_join_set:
  assumes "list_all one_line ls"
  shows "set (splitlines (join_with [lf] ls)) \<subseteq> set ls"
    and "{w \<in> set ls. w \<noteq> []} \<subseteq> set (splitlines (join_with [lf] ls))"
proof -
  show "set (splitlines (join_with [lf] ls)) \<subseteq> set ls"
    using splitlines_join [OF assms] by (auto dest: in_set_butlastD)
  show "{w \<in> set ls. w \<noteq> []} \<subseteq> set (splitlines (join_with [lf] ls))"
    using splitlines_join [OF assms] by (cases ls rule: rev_cases) auto
qed

lemma splitlines_one_line: "w \<in> set (splitlines t) \<Longrightarrow> one_line w"
  using splitlines_lines [of "[]"] by (simp add: splitlines_def one_line_def)

lemma strip_Nil: "strip [] = []"
  by (simp add: strip_def lstrip_by_def rstrip_by_def)


theorem exact_replacement_witness:
  "\<exists>out pre post. replace_exact_text ''aba'' ''f'' [98] [99] = Inr out
     \<and> sole_occurrence pre [98] post \<and> utf8_decode out = Some (pre @ [99] @ post)"
proof -
  have ends: "match_existing_line_endings ''aba'' v = v" if "v \<in> {[98], [99]}" for v
    using that by auto code_simp+
  have "replace_exact_text ''aba'' ''f'' [98] [99] = Inr ''aca''" by code_simp
  with exact_replacement [where raw = "''aba''" and path = "''f''" and old_string = "[98]" and new_string = "[99]"] show ?thesis
    by (auto simp: ends)
qed

end
