(* ===== verification/Urls.thy ===== *)
theory Urls
  imports Pystr
begin

text \<open>
  What \<open>network_trust.py\<close>, \<open>resource_auth.py\<close>, \<open>lifecycle.py\<close> and the transports use of the standard library
  for addresses: \<open>urllib.parse.urlsplit\<close> with its host, port and credentials, and
  \<open>ipaddress.ip_address\<close>, as in Python 3.12.10, on texts of code points below 256.  A \<open>ValueError\<close> is the
  left value, its message.
\<close>

section \<open>Splitting from the right\<close>

text \<open>\<open>s.rpartition(c)\<close>: the text before the last \<open>c\<close>, if there is one, and the text after it.\<close>

definition rpartition_at :: "char \<Rightarrow> string \<Rightarrow> string option \<times> string" where
  "rpartition_at c s =
     (case partition_at c (rev s) of
        (rest_of, None) \<Rightarrow> (None, s)
      | (rest_of, Some front) \<Rightarrow> (Some (rev front), rev rest_of))"

section \<open>Addresses\<close>

datatype ip_addr = V4 "nat list" | V6 "nat list" "string option"

definition digits_value :: "string \<Rightarrow> nat" where
  "digits_value s = fold (\<lambda>c n. 10 * n + (code c - 48)) s 0"

definition hex_value :: "string \<Rightarrow> nat" where
  "hex_value s =
     fold (\<lambda>c n. 16 * n + (if is_digit c then code c - 48 else code (lower_char c) - 87)) s 0"

definition parse_octet :: "string \<Rightarrow> nat option" where
  "parse_octet s =
     (if s = [] \<or> \<not> list_all is_digit s \<or> length s > 3 \<or> (s \<noteq> ''0'' \<and> hd s = CHR ''0'') \<or> digits_value s > 255
      then None else Some (digits_value s))"

fun all_some :: "'a option list \<Rightarrow> 'a list option" where
  "all_some [] = Some []"
| "all_some (None # xs) = None"
| "all_some (Some x # xs) = map_option (Cons x) (all_some xs)"

definition parse_v4 :: "string \<Rightarrow> nat list option" where
  "parse_v4 s =
     (let parts = split_on (CHR ''.'') s in
      if length parts \<noteq> 4 then None else all_some (map parse_octet parts))"

definition parse_hextet :: "string \<Rightarrow> nat option" where
  "parse_hextet s =
     (if s = [] \<or> \<not> list_all is_hexdigit s \<or> length s > 4 then None else Some (hex_value s))"

text \<open>The last part of an IPv6 address in the form of an IPv4 address is two groups.\<close>

definition parse_groups :: "string list \<Rightarrow> nat option list option" where
  "parse_groups parts =
     (let groups = map (\<lambda>p. if p = [] then None else parse_hextet p);
          ok = list_all (\<lambda>p. p = [] \<or> parse_hextet p \<noteq> None)
      in if CHR ''.'' \<in> set (last parts) then
           (case parse_v4 (last parts) of
              Some [a, b, c, d] \<Rightarrow>
                if ok (butlast parts)
                then Some (groups (butlast parts) @ [Some (256 * a + b), Some (256 * c + d)]) else None
            | _ \<Rightarrow> None)
         else if ok parts then Some (groups parts) else None)"

text \<open>An empty group between two colons stands for the zeros that are missing; there is at most one, and
  an address that begins or ends with a colon begins or ends with two.\<close>

definition fill_groups :: "nat option list \<Rightarrow> nat list option" where
  "fill_groups gs =
     (case filter (\<lambda>i. gs ! i = None) [1..<length gs - 1] of
        [] \<Rightarrow> if length gs \<noteq> 8 then None else all_some gs
      | [i] \<Rightarrow>
          (let hi = take i gs; lo = drop (i + 1) gs;
               hi' = (if hd hi = None then tl hi else hi);
               lo' = (if last lo = None then butlast lo else lo)
           in if (hd hi = None \<and> hi' \<noteq> []) \<or> (last lo = None \<and> lo' \<noteq> []) \<or> length hi' + length lo' > 7
              then None
              else map_option (\<lambda>(a, b). a @ replicate (8 - length a - length b) 0 @ b)
                     (case (all_some hi', all_some lo') of (Some a, Some b) \<Rightarrow> Some (a, b) | _ \<Rightarrow> None))
      | _ \<Rightarrow> None)"

definition parse_v6 :: "string \<Rightarrow> ip_addr option" where
  "parse_v6 s =
     (if CHR ''/'' \<in> set s then None
      else (case partition_at (CHR ''%'') s of
              (addr, scope) \<Rightarrow>
                if (case scope of None \<Rightarrow> False | Some z \<Rightarrow> z = [] \<or> CHR ''%'' \<in> set z) then None
                else
                  (let parts = split_on (CHR '':'') addr in
                   if length parts < 3 then None
                   else
                     (case parse_groups parts of
                        None \<Rightarrow> None
                      | Some gs \<Rightarrow>
                          if length gs > 9 then None
                          else map_option (\<lambda>hs. V6 hs scope) (fill_groups gs)))))"

definition ip_address :: "string \<Rightarrow> ip_addr option" where
  "ip_address s =
     (case parse_v4 s of Some os \<Rightarrow> Some (V4 os) | None \<Rightarrow> parse_v6 s)"

definition is_v6 :: "ip_addr \<Rightarrow> bool" where
  "is_v6 a = (case a of V6 _ _ \<Rightarrow> True | V4 _ \<Rightarrow> False)"

subsection \<open>Printing an address\<close>

definition hex_char :: "nat \<Rightarrow> char" where
  "hex_char n = char_of (if n < 10 then 48 + n else 87 + n)"

fun hexadecimal :: "nat \<Rightarrow> string" where
  "hexadecimal n = (if n < 16 then [hex_char n] else hexadecimal (n div 16) @ [hex_char (n mod 16)])"

declare hexadecimal.simps [simp del]

text \<open>The longest run of zeros, the first of equals: the loop carries the index, the run that ends here
  and the best one.\<close>

fun best_zeros :: "nat \<Rightarrow> nat \<times> nat \<Rightarrow> nat \<times> nat \<Rightarrow> nat list \<Rightarrow> nat \<times> nat" where
  "best_zeros i run best [] = best"
| "best_zeros i (start, n) (bstart, bn) (h # hs) =
     (if h = 0 then
        (let start' = (if n = 0 then i else start) in
         best_zeros (i + 1) (start', n + 1) (if n + 1 > bn then (start', n + 1) else (bstart, bn)) hs)
      else best_zeros (i + 1) (0, 0) (bstart, bn) hs)"

definition compress_groups :: "nat list \<Rightarrow> string list" where
  "compress_groups hs =
     (let (start, n) = best_zeros 0 (0, 0) (0, 0) hs; ts = map hexadecimal hs in
      if n \<le> 1 then ts
      else (if start = 0 then [[]] else []) @ take start ts @ [[]] @ drop (start + n) ts
           @ (if start + n = length hs then [[]] else []))"

definition ip_text :: "ip_addr \<Rightarrow> string" where
  "ip_text a =
     (case a of
        V4 os \<Rightarrow> join_with ''.'' (map decimal os)
      | V6 hs scope \<Rightarrow> join_with '':'' (compress_groups hs)
                      @ (case scope of None \<Rightarrow> [] | Some z \<Rightarrow> CHR ''%'' # z))"

section \<open>URLs\<close>

record split_url =
  u_scheme :: string
  u_netloc :: string
  u_path :: string
  u_query :: string
  u_fragment :: string

text \<open>A text in quotes, as \<open>repr\<close> writes one without quotes or escapes.\<close>

definition quoted :: "string \<Rightarrow> string" where
  "quoted s = CHR 0x27 # s @ [CHR 0x27]"

definition scheme_char :: "char \<Rightarrow> bool" where
  "scheme_char c = (is_alnum c \<or> c \<in> set ''+-.'')"

definition split_scheme :: "string \<Rightarrow> string \<times> string" where
  "split_scheme url =
     (case partition_at (CHR '':'') url of
        (a # as, Some rest) \<Rightarrow>
          if is_alpha a \<and> list_all scheme_char (a # as) then (lower (a # as), rest) else ([], url)
      | _ \<Rightarrow> ([], url))"

definition check_bracketed_host :: "string \<Rightarrow> string + unit" where
  "check_bracketed_host h =
     (case h of
        c # cs \<Rightarrow>
          if c = CHR ''v'' then
            (case dropWhile is_hexdigit cs of
               d # e # es \<Rightarrow>
                 if d = CHR ''.'' \<and> takeWhile is_hexdigit cs \<noteq> [] then Inr ()
                 else Inl ''IPvFuture address is invalid''
             | _ \<Rightarrow> Inl ''IPvFuture address is invalid'')
          else (case ip_address h of
                  None \<Rightarrow> Inl (quoted h @ '' does not appear to be an IPv4 or IPv6 address'')
                | Some a \<Rightarrow> if is_v6 a then Inr () else Inl ''An IPv4 address cannot be in brackets'')
      | [] \<Rightarrow> Inl (quoted h @ '' does not appear to be an IPv4 or IPv6 address''))"

text \<open>\<open>netloc.rpartition("@")\<close>, then the host and the text after it.\<close>

definition host_info :: "string \<Rightarrow> string" where
  "host_info netloc = snd (rpartition_at (CHR ''@'') netloc)"

definition opt_text :: "string option \<Rightarrow> string" where
  "opt_text v = (case v of None \<Rightarrow> [] | Some s \<Rightarrow> s)"

definition check_bracketed_netloc :: "string \<Rightarrow> string + unit" where
  "check_bracketed_netloc netloc =
     (case partition_at (CHR ''['') (host_info netloc) of
        (front, Some bracketed) \<Rightarrow>
          if front \<noteq> [] then Inl ''Invalid IPv6 URL''
          else (case partition_at (CHR '']'') bracketed of
                  (hostname, rest_of) \<Rightarrow>
                    if opt_text rest_of \<noteq> [] \<and> hd (opt_text rest_of) \<noteq> CHR '':'' then Inl ''Invalid IPv6 URL''
                    else check_bracketed_host hostname)
      | (_, None) \<Rightarrow> check_bracketed_host (fst (partition_at (CHR '':'') (host_info netloc))))"

text \<open>The characters of a URL that are removed: tabs and line breaks, and what is no larger than a space at
  its start.  Unicode normalization of a netloc changes no text below code point 256 in a way that
  matters here.\<close>

definition clean_url :: "string \<Rightarrow> string" where
  "clean_url url = filter (\<lambda>c. c \<notin> {CHR 0x09, cr, lf}) (lstrip_by (\<lambda>c. code c \<le> 32) url)"

definition urlsplit :: "string \<Rightarrow> string + split_url" where
  "urlsplit url =
     (case split_scheme (clean_url url) of
        (scheme, rest) \<Rightarrow>
          (let has_netloc = (take 2 rest = ''//'');
               netloc = (if has_netloc then takeWhile (\<lambda>c. c \<notin> set ''/?#'') (drop 2 rest) else []);
               tail = (if has_netloc then dropWhile (\<lambda>c. c \<notin> set ''/?#'') (drop 2 rest) else rest);
               opens = (CHR ''['' \<in> set netloc); closes = (CHR '']'' \<in> set netloc)
           in if opens \<noteq> closes then Inl ''Invalid IPv6 URL''
              else
                (case (if opens then check_bracketed_netloc netloc else Inr ()) of
                   Inl msg \<Rightarrow> Inl msg
                 | Inr _ \<Rightarrow>
                     (case partition_at (CHR ''#'') tail of
                        (front, fragment) \<Rightarrow>
                          (case partition_at (CHR ''?'') front of
                             (path, query) \<Rightarrow>
                               Inr \<lparr>u_scheme = scheme, u_netloc = netloc, u_path = path,
                                    u_query = opt_text query, u_fragment = opt_text fragment\<rparr>)))))"

definition host_and_port :: "split_url \<Rightarrow> string \<times> string" where
  "host_and_port u =
     (case partition_at (CHR ''['') (host_info (u_netloc u)) of
        (_, Some bracketed) \<Rightarrow>
          (case partition_at (CHR '']'') bracketed of
             (hostname, rest_of) \<Rightarrow> (hostname, opt_text (snd (partition_at (CHR '':'') (opt_text rest_of)))))
      | (_, None) \<Rightarrow>
          (case partition_at (CHR '':'') (host_info (u_netloc u)) of
             (hostname, port) \<Rightarrow> (hostname, opt_text port)))"

text \<open>The zone of a scoped address keeps its case.\<close>

definition url_hostname :: "split_url \<Rightarrow> string option" where
  "url_hostname u =
     (let h = fst (host_and_port u) in
      if h = [] then None
      else (case partition_at (CHR ''%'') h of
              (name, None) \<Rightarrow> Some (lower name)
            | (name, Some zone) \<Rightarrow> Some (lower name @ CHR ''%'' # zone)))"

definition url_port :: "split_url \<Rightarrow> string + nat option" where
  "url_port u =
     (let p = snd (host_and_port u) in
      if p = [] then Inr None
      else if \<not> list_all is_digit p
      then Inl (''Port could not be cast to integer value as '' @ quoted p)
      else if digits_value p > 65535 then Inl ''Port out of range 0-65535''
      else Inr (Some (digits_value p)))"

text \<open>\<open>username is not None or password is not None\<close>.\<close>

definition url_credentials :: "split_url \<Rightarrow> bool" where
  "url_credentials u = (fst (rpartition_at (CHR ''@'') (u_netloc u)) \<noteq> None)"

end
