(* ===== verification/NetworkTrust.thy ===== *)
theory NetworkTrust
  imports Urls Auth Toml
begin

text \<open>
  \<open>network_trust.py\<close>: the policy of network-trusted access, and the middleware that lets a request pass
  only when its host, and its origin if it has one, are on the list.  A \<open>NetworkTrustConfigError\<close> is the
  left value, its message.
\<close>

section \<open>Canonical hosts and origins\<close>

definition NETWORK_TRUST_MODE :: string where
  "NETWORK_TRUST_MODE = ''cloudflare-chatgpt''"

definition is_control :: "char \<Rightarrow> bool" where
  "is_control c = (code c < 32 \<or> code c = 127)"

text \<open>A value that is no string is \<open>None\<close>.\<close>

definition require_text :: "string \<Rightarrow> string option \<Rightarrow> string + string" where
  "require_text field value =
     (case value of
        None \<Rightarrow> Inl (field @ '' must be a non-empty string'')
      | Some v \<Rightarrow>
          if v = [] then Inl (field @ '' must be a non-empty string'')
          else if v \<noteq> strip v then Inl (field @ '' must not contain leading or trailing whitespace'')
          else if list_ex is_control v then Inl (field @ '' must not contain control characters'')
          else Inr v)"

definition host_label_ok :: "string \<Rightarrow> bool" where
  "host_label_ok l =
     (l \<noteq> [] \<and> length l \<le> 63 \<and> is_alnum (hd l) \<and> is_alnum (last l)
      \<and> list_all (\<lambda>c. is_alnum c \<or> c = CHR ''-'') l)"

definition canonicalize_hostname :: "string \<Rightarrow> bool \<Rightarrow> string option \<Rightarrow> string + string" where
  "canonicalize_hostname field allow_ip value =
     sum_bind (require_text field value) (\<lambda>hostname.
     if CHR ''*'' \<in> set hostname then Inl (field @ '' must not contain wildcard characters'')
     else if length hostname > 253 then Inl (field @ '' exceeds the maximum hostname length'')
     else
       (case ip_address hostname of
          Some a \<Rightarrow>
            if allow_ip then Inr (ip_text a) else Inl (field @ '' must be a hostname, not an IP address'')
        | None \<Rightarrow>
            if list_all host_label_ok (split_on (CHR ''.'') hostname) then Inr (lower hostname)
            else Inl (field @ '' must be a valid hostname'')))"

definition canonicalize_allowed_host :: "string option \<Rightarrow> string + string" where
  "canonicalize_allowed_host value =
     sum_bind (require_text ''allowed_hosts entry'' value) (\<lambda>hostname.
     if list_ex (\<lambda>c. c \<in> set '':/?#@'') hostname
     then Inl ''allowed_hosts entries must be hostnames without scheme, port, path, query, fragment, or credentials''
     else canonicalize_hostname ''allowed_hosts entry'' False (Some hostname))"

definition origin_text :: "string \<Rightarrow> string \<Rightarrow> nat option \<Rightarrow> string" where
  "origin_text hostname canonical port =
     ''https://''
     @ (case ip_address hostname of
          Some a \<Rightarrow> if is_v6 a then ''['' @ canonical @ '']'' else canonical
        | None \<Rightarrow> canonical)
     @ (case port of None \<Rightarrow> [] | Some p \<Rightarrow> if p = 443 then [] else '':'' @ decimal p)"

definition origin_parts :: "string \<Rightarrow> string + split_url \<times> string option \<times> nat option" where
  "origin_parts origin =
     (case urlsplit origin of
        Inl msg \<Rightarrow> Inl (''allowed_origins entry is malformed: '' @ msg)
      | Inr u \<Rightarrow>
          (case url_port u of
             Inl msg \<Rightarrow> Inl (''allowed_origins entry is malformed: '' @ msg)
           | Inr port \<Rightarrow> Inr (u, url_hostname u, port)))"

definition canonicalize_allowed_origin :: "string option \<Rightarrow> string + string" where
  "canonicalize_allowed_origin value =
     sum_bind (require_text ''allowed_origins entry'' value) (\<lambda>origin.
     if lower origin = ''null'' then Inl ''allowed_origins entries must not be the null origin''
     else if CHR ''*'' \<in> set origin
     then Inl ''allowed_origins entries must not contain wildcard characters''
     else
       sum_bind (origin_parts origin) (\<lambda>(u, host, port).
       if lower (u_scheme u) \<noteq> ''https'' then Inl ''allowed_origins entries must use HTTPS''
       else if u_netloc u = [] \<or> host = None
       then Inl ''allowed_origins entries must contain a hostname''
       else if url_credentials u then Inl ''allowed_origins entries must not contain credentials''
       else if u_path u \<noteq> [] \<or> CHR ''?'' \<in> set origin \<or> CHR ''#'' \<in> set origin
       then Inl ''allowed_origins entries must not contain a path, query, or fragment''
       else if \<not> (case port of None \<Rightarrow> True | Some p \<Rightarrow> 1 \<le> p \<and> p \<le> 65535)
       then Inl ''allowed_origins port must be between 1 and 65535''
       else
         sum_bind (canonicalize_hostname ''allowed_origins hostname'' True host) (\<lambda>canonical.
         Inr (origin_text (the host) canonical port))))"

section \<open>The policy\<close>

text \<open>The loop over the entries; \<open>seen\<close> holds the ones accepted so far.\<close>

fun canonicalize_loop ::
  "string \<Rightarrow> (string option \<Rightarrow> string + string) \<Rightarrow> string list \<Rightarrow> toml list \<Rightarrow> string + string list" where
  "canonicalize_loop field canonicalizer seen [] = Inr seen"
| "canonicalize_loop field canonicalizer seen (entry # entries) =
     sum_bind (canonicalizer (tstr entry)) (\<lambda>c.
     if c \<in> set seen then Inl (field @ '' contains a duplicate entry: '' @ c)
     else canonicalize_loop field canonicalizer (seen @ [c]) entries)"

definition canonicalize_entries ::
  "string \<Rightarrow> (string option \<Rightarrow> string + string) \<Rightarrow> bool \<Rightarrow> toml \<Rightarrow> string + string list" where
  "canonicalize_entries field canonicalizer require_nonempty value =
     (case value of
        TArr entries \<Rightarrow>
          if require_nonempty \<and> entries = [] then Inl (field @ '' must contain at least one entry'')
          else canonicalize_loop field canonicalizer [] entries
      | _ \<Rightarrow> Inl (field @ '' must be an array of strings''))"

record network_trust_config =
  nt_mode :: string
  nt_allowed_hosts :: "string list"
  nt_allowed_origins :: "string list"

text \<open>\<open>NetworkTrustConfig\<close> of values that are not checked yet; a missing mode is \<open>None\<close>.  The message about
  an unsupported mode is given without the value it ends with.\<close>

definition make_network_trust_config :: "toml option \<Rightarrow> toml \<Rightarrow> toml \<Rightarrow> string + network_trust_config" where
  "make_network_trust_config mode allowed_hosts allowed_origins =
     (if mode \<noteq> Some (TStr NETWORK_TRUST_MODE) then Inl ''unsupported network trust mode''
      else
        sum_bind (canonicalize_entries ''allowed_hosts'' canonicalize_allowed_host True allowed_hosts) (\<lambda>hosts.
        sum_bind (canonicalize_entries ''allowed_origins'' canonicalize_allowed_origin False allowed_origins)
          (\<lambda>origins.
        Inr \<lparr>nt_mode = NETWORK_TRUST_MODE, nt_allowed_hosts = hosts, nt_allowed_origins = origins\<rparr>)))"

definition unexpected_fields :: "string list \<Rightarrow> (string \<times> toml) list \<Rightarrow> string list" where
  "unexpected_fields allowed raw = sort (filter (\<lambda>k. k \<notin> set allowed) (map fst raw))"

definition network_trust_from_mapping :: "(string \<times> toml) list \<Rightarrow> string + network_trust_config" where
  "network_trust_from_mapping raw =
     (let unexpected = unexpected_fields [''mode'', ''allowed_hosts'', ''allowed_origins''] raw in
      if unexpected \<noteq> []
      then Inl (''network_trust configuration contains unsupported fields: '' @ join_with '', '' unexpected)
      else make_network_trust_config (tget raw ''mode'') (tget_or raw ''allowed_hosts'' (TArr []))
             (tget_or raw ''allowed_origins'' (TArr [])))"

section \<open>Requests\<close>

text \<open>An ASGI scope: the headers, each a name and a value as text or something else, \<open>None\<close> for an item
  that is no pair; the authority of the connection; and the principal \<open>scope[AUTH_SCOPE_KEY]\<close>.\<close>

record http_scope =
  sc_http :: bool
  sc_headers :: "(string option \<times> string option) option list"
  sc_authority :: "string option"
  sc_principal :: "auth_context option"

definition header_values :: "http_scope \<Rightarrow> string \<Rightarrow> string option list" where
  "header_values scope name =
     concat (map (\<lambda>item. case item of
         None \<Rightarrow> [None]
       | Some (None, _) \<Rightarrow> []
       | Some (Some n, v) \<Rightarrow> if lower n = name then [v] else []) (sc_headers scope))"

definition sum_option :: "'e + 'a \<Rightarrow> 'a option" where
  "sum_option r = (case r of Inl _ \<Rightarrow> None | Inr x \<Rightarrow> Some x)"

definition canonicalize_request_host :: "string option \<Rightarrow> string option" where
  "canonicalize_request_host value =
     (case value of
        None \<Rightarrow> None
      | Some v \<Rightarrow>
          if v = [] \<or> v \<noteq> strip v then None
          else if count_list v (CHR '':'') = 0 then sum_option (canonicalize_allowed_host (Some v))
          else if count_list v (CHR '':'') = 1 then
            (case rpartition_at (CHR '':'') v of
               (hostname, port) \<Rightarrow>
                 if port \<noteq> ''443'' then None else sum_option (canonicalize_allowed_host hostname))
          else None)"

definition request_host :: "http_scope \<Rightarrow> string option" where
  "request_host scope =
     (let hosts = header_values scope ''host'';
          authorities = header_values scope '':authority''
            @ (case sc_authority scope of None \<Rightarrow> [] | Some a \<Rightarrow> [Some a]);
          host = (if hosts = [] then None else canonicalize_request_host (hd hosts));
          authority = (if authorities = [] then None else canonicalize_request_host (hd authorities))
      in if length hosts > 1 \<or> length authorities > 1 then None
         else if hosts = [] \<and> authorities = [] then None
         else if hosts \<noteq> [] \<and> host = None then None
         else if authorities \<noteq> [] \<and> authority = None then None
         else if host \<noteq> None \<and> authority \<noteq> None \<and> host \<noteq> authority then None
         else if host \<noteq> None then host else authority)"

definition request_origin_allowed :: "http_scope \<Rightarrow> string list \<Rightarrow> bool" where
  "request_origin_allowed scope allowed_origins =
     (case header_values scope ''origin'' of
        [] \<Rightarrow> True
      | [Some v] \<Rightarrow>
          (case canonicalize_allowed_origin (Some v) of
             Inl _ \<Rightarrow> False
           | Inr canonical \<Rightarrow> canonical \<in> set allowed_origins)
      | _ \<Rightarrow> False)"

text \<open>The middleware: the scope the application sees, or the status and error of the answer.\<close>

definition network_trust_gate ::
  "network_trust_config \<Rightarrow> string option \<Rightarrow> http_scope \<Rightarrow> int \<times> string + http_scope" where
  "network_trust_gate config resource scope =
     (if \<not> sc_http scope then Inr scope
      else
        (case request_host scope of
           None \<Rightarrow> Inl (403, ''host_not_allowed'')
         | Some h \<Rightarrow>
             if h \<notin> set (nt_allowed_hosts config) then Inl (403, ''host_not_allowed'')
             else if \<not> request_origin_allowed scope (nt_allowed_origins config)
             then Inl (403, ''origin_not_allowed'')
             else Inr (scope\<lparr>sc_principal := Some (NetworkTrusted resource)\<rparr>)))"

end
