(* ===== verification/ResourceAuth.thy ===== *)
theory ResourceAuth
  imports External NetworkTrust
begin

text \<open>
  The rest of \<open>resource_auth.py\<close>: the contract with the validation endpoint, the check of its answers,
  the bearer token of a request, and the authenticator in front of the MCP transport.  The HTTP
  exchange with the endpoint is a call of the outside world; its time limit and the version of the
  contract have one value each, which every caller passes.
\<close>

section \<open>Configuration\<close>

definition CONTRACT_VERSION :: string where "CONTRACT_VERSION = ''1''"
definition CONTRACT_ID :: string where "CONTRACT_ID = ''mcp-rs-verification-v1''"
definition VALIDATION_PATH :: string where "VALIDATION_PATH = ''/mcp/resource-server/validate''"

definition PROTECTED_RESOURCE_METADATA_PATH :: string where
  "PROTECTED_RESOURCE_METADATA_PATH = ''/.well-known/oauth-protected-resource''"

record validation_config =
  vc_issuer :: string
  vc_resource :: string
  vc_resource_id :: string
  vc_secret :: string

definition split_or_raise :: "string \<Rightarrow> exn + split_url" where
  "split_or_raise v = (case urlsplit v of Inl msg \<Rightarrow> Inl (ValueErr msg) | Inr u \<Rightarrow> Inr u)"

definition checked :: "bool \<Rightarrow> string \<Rightarrow> exn + unit" where
  "checked ok msg = (if ok then Inr () else Inl (ValueErr msg))"

definition validate_issuer :: "string \<Rightarrow> exn + unit" where
  "validate_issuer v =
     sum_bind (split_or_raise v) (\<lambda>u.
     checked (u_scheme u = ''https'' \<and> url_hostname u \<noteq> None \<and> \<not> url_credentials u \<and> u_path u \<in> {[], ''/''}
              \<and> u_query u = [] \<and> u_fragment u = [] \<and> \<not> ends_with v ''/'')
       ''authorization_server_issuer must be a canonical HTTPS origin without a trailing slash'')"

definition validate_resource :: "string \<Rightarrow> exn + unit" where
  "validate_resource v =
     sum_bind (split_or_raise v) (\<lambda>u.
     checked (u_scheme u = ''https'' \<and> url_hostname u \<noteq> None \<and> \<not> url_credentials u
              \<and> starts_with (u_path u) ''/'' \<and> u_query u = [] \<and> u_fragment u = []
              \<and> list_all (\<lambda>c. 33 \<le> code c \<and> code c < 127) v \<and> CHR 0x22 \<notin> set v \<and> backslash \<notin> set v)
       ''canonical_resource_uri must be an absolute HTTPS URI without query or fragment'')"

definition make_validation_config ::
  "string \<Rightarrow> string \<Rightarrow> string \<Rightarrow> string \<Rightarrow> exn + validation_config" where
  "make_validation_config issuer resource resource_id secret =
     sum_bind (validate_issuer issuer) (\<lambda>_.
     sum_bind (validate_resource resource) (\<lambda>_.
     sum_bind (checked (resource_id \<noteq> [] \<and> CHR '':'' \<notin> set resource_id \<and> list_all (\<lambda>c. 32 \<le> code c) resource_id)
       (''validation_resource_id must be a non-empty Basic-auth username without '' @ quoted '':'')) (\<lambda>_.
     sum_bind (checked (secret \<noteq> [] \<and> list_all (\<lambda>c. 32 \<le> code c) secret)
       ''validation_secret must be a non-empty value without control characters'') (\<lambda>_.
     Inr \<lparr>vc_issuer = issuer, vc_resource = resource, vc_resource_id = resource_id, vc_secret = secret\<rparr>))))"

definition validation_endpoint :: "validation_config \<Rightarrow> string" where
  "validation_endpoint c = vc_issuer c @ VALIDATION_PATH"

text \<open>The URL of a resource whose validation has succeeded: it has a scheme, a host and a path.\<close>

definition protected_resource_metadata_url :: "string \<Rightarrow> exn + string" where
  "protected_resource_metadata_url resource =
     sum_bind (validate_resource resource) (\<lambda>_.
     sum_bind (split_or_raise resource) (\<lambda>u.
     Inr (u_scheme u @ ''://'' @ u_netloc u @ PROTECTED_RESOURCE_METADATA_PATH
          @ (if u_path u = ''/'' then [] else u_path u))))"

definition protected_resource_metadata :: "validation_config \<Rightarrow> json" where
  "protected_resource_metadata c =
     JObj [(''resource'', JStr (vc_resource c)), (''authorization_servers'', jstrs [vc_issuer c]),
           (''bearer_methods_supported'', jstrs [''header''])]"

section \<open>The answer of the validation endpoint\<close>

definition header_of :: "http_response \<Rightarrow> string \<Rightarrow> string" where
  "header_of r name = opt_text (map_of (hr_headers r) name)"

definition content_type_of :: "http_response \<Rightarrow> string" where
  "content_type_of r = lower (strip (fst (partition_at (CHR '';'') (header_of r ''content-type''))))"

definition cache_directives :: "http_response \<Rightarrow> string list" where
  "cache_directives r =
     map (\<lambda>item. lower (strip item))
       (filter (\<lambda>item. strip item \<noteq> []) (split_on (CHR '','') (header_of r ''cache-control'')))"

definition unavailable :: "string \<Rightarrow> exn" where
  "unavailable msg = VerificationUnavailable msg"

definition ensure :: "bool \<Rightarrow> string \<Rightarrow> exn + unit" where
  "ensure ok msg = (if ok then Inr () else Inl (unavailable msg))"

definition jint_of :: "json option \<Rightarrow> int option" where
  "jint_of j = (case j of Some (JInt i) \<Rightarrow> Some i | _ \<Rightarrow> None)"

definition jstrs_of :: "json option \<Rightarrow> string list option" where
  "jstrs_of j =
     (case j of
        Some (JList xs) \<Rightarrow>
          if list_all (\<lambda>x. jstr_of (Some x) \<noteq> None) xs then Some (map (\<lambda>x. the (jstr_of (Some x))) xs) else None
      | _ \<Rightarrow> None)"

definition given_str :: "json option \<Rightarrow> bool" where
  "given_str j = (case jstr_of j of None \<Rightarrow> False | Some s \<Rightarrow> s \<noteq> [])"

text \<open>The head of the answer: status, content type, no caching, a JSON object of the contract.\<close>

definition response_payload :: "http_response \<Rightarrow> exn + json" where
  "response_payload r =
     sum_bind (ensure (hr_status r = 200) ''validation service returned a non-200 response'') (\<lambda>_.
     sum_bind (ensure (content_type_of r = ''application/json'')
       ''validation service returned an unexpected content type'') (\<lambda>_.
     sum_bind (ensure (''no-store'' \<in> set (cache_directives r))
       ''validation response is missing Cache-Control: no-store'') (\<lambda>_.
     case hr_body r of
       None \<Rightarrow> Inl (unavailable ''validation service returned malformed JSON'')
     | Some payload \<Rightarrow>
         sum_bind (ensure (is_jobj payload) ''validation response must be a JSON object'') (\<lambda>_.
         sum_bind (ensure (jget payload ''contract_version'' = Some (JStr CONTRACT_VERSION))
           ''validation response contract version is unsupported'') (\<lambda>_.
         Inr payload)))))"

definition is_jint :: "json option \<Rightarrow> bool" where
  "is_jint j = (jint_of j \<noteq> None)"

text \<open>The principal of an active token at the time \<open>now\<close>, in seconds.\<close>

definition active_principal :: "validation_config \<Rightarrow> nat \<Rightarrow> json \<Rightarrow> exn + oauth_principal" where
  "active_principal c now payload =
     sum_bind (ensure (jget payload ''issuer'' = Some (JStr (vc_issuer c))
         \<and> jget payload ''resource'' = Some (JStr (vc_resource c)))
       ''validation response identity does not match local configuration'') (\<lambda>_.
     sum_bind (ensure (given_str (jget payload ''subject'')) ''validation response subject is invalid'') (\<lambda>_.
     sum_bind (ensure (given_str (jget payload ''client_id'')) ''validation response client_id is invalid'') (\<lambda>_.
     sum_bind (ensure (case jstrs_of (jget payload ''scopes'') of
           None \<Rightarrow> False | Some scopes \<Rightarrow> list_all (\<lambda>x. x \<noteq> []) scopes \<and> distinct scopes)
       ''validation response scopes are invalid'') (\<lambda>_.
     sum_bind (ensure (is_jint (jget payload ''issued_at'') \<and> is_jint (jget payload ''expires_at''))
       ''validation response token timestamps are invalid'') (\<lambda>_.
     sum_bind (ensure (int now < the (jint_of (jget payload ''expires_at'')))
       ''validation response token is already expired'') (\<lambda>_.
     Inr \<lparr>p_contract_version = CONTRACT_VERSION, p_issuer = vc_issuer c, p_resource = vc_resource c,
          p_subject = the (jstr_of (jget payload ''subject'')),
          p_client_id = the (jstr_of (jget payload ''client_id'')),
          p_scopes = the (jstrs_of (jget payload ''scopes'')),
          p_issued_at = the (jint_of (jget payload ''issued_at'')),
          p_expires_at = the (jint_of (jget payload ''expires_at''))\<rparr>))))))"

definition validate_response ::
  "ext \<Rightarrow> validation_config \<Rightarrow> http_response \<Rightarrow> ('z io_scheme, exn, oauth_principal option) M" where
  "validate_response X c r =
     andthen (lift_sum (response_payload r)) (\<lambda>payload.
     case jget payload ''active'' of
       Some (JBool False) \<Rightarrow> ret None
     | Some (JBool True) \<Rightarrow>
         andthen (now_ms X) (\<lambda>t.
         andthen (lift_sum (active_principal c (t div 1000) payload)) (\<lambda>p. ret (Some p)))
     | _ \<Rightarrow> raise (unavailable ''validation response active field is invalid''))"

definition validate ::
  "ext \<Rightarrow> validation_config \<Rightarrow> string \<Rightarrow> ('z io_scheme, exn, oauth_principal option) M" where
  "validate X c token =
     (if token = [] then raise (InvalidBearer ''bearer credential is empty'')
      else
        andthen (ask (ValidateToken (validation_endpoint c) (vc_resource_id c) (vc_secret c) token (vc_resource c)))
          (\<lambda>h.
           case x_validation X h of
             Unavailable msg \<Rightarrow> raise (unavailable msg)
           | RequestFailed \<Rightarrow> raise (unavailable ''validation service is unavailable'')
           | Answered r \<Rightarrow> validate_response X c r))"

section \<open>The authenticator\<close>

text \<open>The headers of a scope as an ASGI server passes them: pairs of byte strings.\<close>

definition byte_headers :: "http_scope \<Rightarrow> bool" where
  "byte_headers scope =
     list_all (\<lambda>item. case item of Some (Some _, Some _) \<Rightarrow> True | _ \<Rightarrow> False) (sc_headers scope)"

definition bearer_ok :: "string \<Rightarrow> string \<Rightarrow> bool" where
  "bearer_ok scheme token =
     (lower scheme = ''bearer'' \<and> token \<noteq> [] \<and> strip token = token
      \<and> \<not> list_ex (\<lambda>c. code c < 33 \<or> code c = 127) token)"

definition extract_bearer :: "http_scope \<Rightarrow> string option" where
  "extract_bearer scope =
     (case header_values scope ''authorization'' of
        [Some v] \<Rightarrow>
          (case partition_at (CHR '' '') v of
             (scheme, Some token) \<Rightarrow> if bearer_ok scheme token then Some token else None
           | _ \<Rightarrow> None)
      | _ \<Rightarrow> None)"

text \<open>An answer of the authenticator: its status, its body and its challenge.\<close>

definition auth_response :: "validation_config \<Rightarrow> int \<Rightarrow> bool \<Rightarrow> exn + int \<times> string \<times> string option" where
  "auth_response c status challenge =
     (let body = (if status = 401 then ''unauthorized'' else ''authorization_service_unavailable'') in
      if challenge then
        sum_bind (protected_resource_metadata_url (vc_resource c)) (\<lambda>url.
        Inr (status, body, Some (''Bearer resource_metadata='' @ [CHR 0x22] @ url @ [CHR 0x22])))
      else Inr (status, body, None))"

text \<open>The request passes with its principal, or the answer is sent.\<close>

definition authenticate ::
  "ext \<Rightarrow> validation_config \<Rightarrow> http_scope \<Rightarrow> ('z io_scheme, exn, (int \<times> string \<times> string option) + http_scope) M" where
  "authenticate X c scope =
     (let refuse = (\<lambda>status challenge. andthen (lift_sum (auth_response c status challenge)) (\<lambda>a. ret (Inl a))) in
      if \<not> byte_headers scope then raise OtherErr
      else
        (case extract_bearer scope of
           None \<Rightarrow> refuse 401 True
         | Some token \<Rightarrow>
             andthen (handle (andthen (validate X c token) (\<lambda>p. ret (Inr p)))
               (\<lambda>e. case e of
                  InvalidBearer _ \<Rightarrow> ret (Inl (401, True))
                | VerificationUnavailable _ \<Rightarrow> ret (Inl (503, False))
                | _ \<Rightarrow> raise e)) (\<lambda>verdict.
             case verdict of
               Inl (status, challenge) \<Rightarrow> refuse status challenge
             | Inr None \<Rightarrow> refuse 401 True
             | Inr (Some p) \<Rightarrow> ret (Inr (scope\<lparr>sc_principal := Some (OAuth p)\<rparr>)))))"

end
