(* ===== verification/Lifecycle.thy ===== *)
theory Lifecycle
  imports ResourceAuth Registry
begin

text \<open>
  The configuration half of \<open>lifecycle.py\<close>: the runtime home and its paths, \<open>remote.toml\<close> with the
  authentication and network-trust profiles, and the secrets.  A \<open>LifecycleError\<close> is \<open>LifecycleErr\<close>; a
  message that ends with the \<open>repr\<close> of a value that was read is given without it.
\<close>

section \<open>Runtime paths\<close>

record runtime_paths =
  rt_runtime_root :: string
  rt_bundled_runtime_root :: string
  rt_app_root :: string
  rt_config_dir :: string
  rt_data_dir :: string
  rt_log_dir :: string
  rt_run_dir :: string
  rt_tunnel_dir :: string
  rt_secret_dir :: string
  rt_bridge_config :: string
  rt_projects_config :: string
  rt_tunnel_env :: string
  rt_state_file :: string
  rt_secret_file :: string
  rt_layout :: string

definition checkpoint_dir :: "runtime_paths \<Rightarrow> string" where
  "checkpoint_dir paths = join_path (rt_data_dir paths) ''checkpoints''"

definition home_option :: "runtime_paths \<Rightarrow> string" where
  "home_option paths = (if rt_layout paths = ''home'' then ''--home'' else ''--app-root'')"

definition environ :: "ext \<Rightarrow> string \<Rightarrow> ('z io_scheme, exn, string option) M" where
  "environ X name = andthen (ask (FsCall ''environ'' name)) (\<lambda>h. ret (x_lookup X h))"

definition absolute_path :: "ext \<Rightarrow> string \<Rightarrow> string \<Rightarrow> ('z io_scheme, exn, string) M" where
  "absolute_path X label v =
     andthen (require (strip v \<noteq> [] \<and> nul \<notin> set v)
       (LifecycleErr (label @ '' must be a non-empty absolute path''))) (\<lambda>_.
     andthen (fs_text X ''expanduser'' v) (\<lambda>candidate.
     andthen (ask (FsCall ''is_absolute'' candidate)) (\<lambda>h.
     andthen (require (x_ok X h)
       (LifecycleErr (label @ '' must be absolute; relative paths are not allowed''))) (\<lambda>_.
     fs_text X ''resolve'' candidate))))"

definition app_data_root :: "ext \<Rightarrow> ('z io_scheme, exn, string) M" where
  "app_data_root X =
     andthen (environ X ''LOCALAPPDATA'') (\<lambda>local.
     case local of
       Some (c # cs) \<Rightarrow>
         andthen (fs_text X ''expanduser'' (c # cs)) (\<lambda>p.
         andthen (fs_text X ''resolve'' p) (\<lambda>q. ret (join_path q ''codemcp-remote'')))
     | _ \<Rightarrow>
         andthen (fs_text X ''home'' []) (\<lambda>p.
         andthen (fs_text X ''resolve'' p) (\<lambda>q. ret (join_path q ''.codemcp-remote''))))"

definition labelled :: "string \<Rightarrow> ('s, exn, string) M \<Rightarrow> ('s, exn, string \<times> string) M" where
  "labelled kind_of m = andthen m (\<lambda>p. ret (p, kind_of))"

definition resolve_runtime_home ::
  "ext \<Rightarrow> string option \<Rightarrow> string option \<Rightarrow> string option \<Rightarrow> ('z io_scheme, exn, string \<times> string) M" where
  "resolve_runtime_home X explicit_home legacy_app_root default_home =
     (case (explicit_home, legacy_app_root) of
        (Some _, Some _) \<Rightarrow> raise (LifecycleErr ''--home and --app-root cannot be used together'')
      | (Some h, None) \<Rightarrow> labelled ''home'' (absolute_path X ''--home'' h)
      | (None, Some r) \<Rightarrow> labelled ''legacy-app-root'' (absolute_path X ''--app-root'' r)
      | (None, None) \<Rightarrow>
          andthen (environ X ''CODEMCP_HOME'') (\<lambda>configured.
          case (configured, default_home) of
            (Some h, _) \<Rightarrow>
              if strip h \<noteq> [] then labelled ''home'' (absolute_path X ''CODEMCP_HOME'' h)
              else (case default_home of
                      Some d \<Rightarrow> labelled ''home'' (absolute_path X ''runtime default home'' d)
                    | None \<Rightarrow> labelled ''legacy-default'' (app_data_root X))
          | (None, Some d) \<Rightarrow> labelled ''home'' (absolute_path X ''runtime default home'' d)
          | (None, None) \<Rightarrow> labelled ''legacy-default'' (app_data_root X)))"

definition paths_below :: "string \<Rightarrow> string \<Rightarrow> string \<Rightarrow> runtime_paths" where
  "paths_below runtime root kind_of =
     (let config = join_path root ''config''; data = join_path root ''data'';
          is_home = (kind_of = ''home'');
          run = (if is_home then join_path data ''runtime'' else join_path root ''run'');
          secrets = join_path root ''secrets''
      in \<lparr>rt_runtime_root = runtime, rt_bundled_runtime_root = join_path runtime ''.codemcp-runtime'',
          rt_app_root = root, rt_config_dir = config, rt_data_dir = data,
          rt_log_dir = (if is_home then join_path data ''logs'' else join_path root ''logs''), rt_run_dir = run,
          rt_tunnel_dir = (if is_home then join_path run ''tunnel'' else join_path root ''tunnel''),
          rt_secret_dir = secrets, rt_bridge_config = join_path config ''bridge.toml'',
          rt_projects_config = join_path config ''projects.toml'', rt_tunnel_env = join_path config ''tunnel.env'',
          rt_state_file = join_path run ''state.json'',
          rt_secret_file = join_path secrets ''control-plane-api-key.dpapi'',
          rt_layout = (if is_home then ''home'' else ''legacy'')\<rparr>)"

definition resolve_runtime_paths ::
  "ext \<Rightarrow> string \<Rightarrow> string option \<Rightarrow> string option \<Rightarrow> string option \<Rightarrow> ('z io_scheme, exn, runtime_paths) M" where
  "resolve_runtime_paths X runtime_root home app_root default_home =
     andthen (absolute_path X ''runtime root'' runtime_root) (\<lambda>runtime.
     andthen (resolve_runtime_home X home app_root default_home) (\<lambda>(root, kind_of).
     ret (paths_below runtime root kind_of)))"

text \<open>\<open>path.mkdir(parents=True, exist_ok=True)\<close> of each directory.\<close>

definition make_dir :: "ext \<Rightarrow> string \<Rightarrow> ('z io_scheme, exn, unit) M" where
  "make_dir X p = andthen (fs_ask X ''mkdir'' p) (\<lambda>ok. require ok OsErr)"

definition ensure_runtime_dirs :: "ext \<Rightarrow> runtime_paths \<Rightarrow> ('z io_scheme, exn, unit) M" where
  "ensure_runtime_dirs X paths =
     for_each [rt_config_dir paths, rt_data_dir paths, rt_log_dir paths, rt_run_dir paths,
               rt_tunnel_dir paths, rt_secret_dir paths] (make_dir X)"

section \<open>Remote configuration\<close>

datatype provider = OpenAITunnel | Cloudflare

definition provider_id :: "provider \<Rightarrow> string" where
  "provider_id p = (case p of OpenAITunnel \<Rightarrow> ''openai-tunnel'' | Cloudflare \<Rightarrow> ''cloudflare'')"

definition get_transport_provider :: "string \<Rightarrow> exn + provider" where
  "get_transport_provider name =
     (if name = provider_id OpenAITunnel then Inr OpenAITunnel
      else if name = provider_id Cloudflare then Inr Cloudflare
      else Inl (LifecycleErr (''unsupported remote transport: '' @ name)))"

definition REMOTE_CONFIG_VERSION :: int where "REMOTE_CONFIG_VERSION = 1"
definition RESOURCE_AUTH_CONFIG_VERSION :: int where "RESOURCE_AUTH_CONFIG_VERSION = 1"
definition AUTH_MODE_NONE :: string where "AUTH_MODE_NONE = ''none''"
definition RESOURCE_AUTH_MODE :: string where "RESOURCE_AUTH_MODE = ''oauth-resource-server''"
definition RESOURCE_AUTH_SECRET_ENV_NAME :: string where
  "RESOURCE_AUTH_SECRET_ENV_NAME = ''CODEMCP_RS_VERIFICATION_SECRET''"
definition RESOURCE_AUTH_SECRET_FILE_NAME :: string where
  "RESOURCE_AUTH_SECRET_FILE_NAME = ''mcp-rs-verification-secret.dpapi''"
definition RESOURCE_AUTH_TIMEOUT_MS :: int where "RESOURCE_AUTH_TIMEOUT_MS = 2000"

text \<open>\<open>v == n\<close>, where a bool and a float may equal an integer too.\<close>

fun float_equals :: "pyfloat \<Rightarrow> int \<Rightarrow> bool" where
  "float_equals (Fin m e) n = (if 0 \<le> e then m * 2 ^ nat e = n else m = n * 2 ^ nat (- e))"
| "float_equals _ n = False"

definition equals_int :: "toml option \<Rightarrow> int \<Rightarrow> bool" where
  "equals_int v n =
     (case v of
        None \<Rightarrow> False
      | Some (TFloat f) \<Rightarrow> float_equals f n
      | Some w \<Rightarrow> tint w = Some n)"

text \<open>\<open>ResourceAuthSettings\<close>; its mode, contract and time limit are always the defaults.\<close>

record auth_settings =
  ra_issuer :: string
  ra_resource :: string
  ra_resource_id :: string

definition validation_config_of :: "auth_settings \<Rightarrow> string \<Rightarrow> exn + validation_config" where
  "validation_config_of a secret = make_validation_config (ra_issuer a) (ra_resource a) (ra_resource_id a) secret"

record security_settings =
  se_auth_mode :: "string option"
  se_resource_auth :: "auth_settings option"
  se_network_trust :: "network_trust_config option"
  se_auth_source :: string
  se_network_trust_source :: string

definition remote_config_path :: "runtime_paths \<Rightarrow> string" where
  "remote_config_path paths = join_path (rt_config_dir paths) ''remote.toml''"

text \<open>A document that is not UTF-8 is outside the model: its \<open>UnicodeDecodeError\<close> is not caught.\<close>

definition read_remote_config ::
  "ext \<Rightarrow> runtime_paths \<Rightarrow> ('z io_scheme, exn, (string \<times> toml) list option) M" where
  "read_remote_config X paths =
     andthen (fs_ask X ''is_file'' (remote_config_path paths)) (\<lambda>b.
     if \<not> b then ret None
     else
       andthen (ask (FsCall ''load_toml'' (remote_config_path paths))) (\<lambda>h.
       case x_toml X h of
         Parsed t \<Rightarrow> ret (Some t)
       | BadToml m \<Rightarrow> raise (LifecycleErr (''remote transport configuration is invalid: '' @ m))
       | _ \<Rightarrow> raise (LifecycleErr ''remote transport configuration is invalid: '')))"

text \<open>\<open>_read_remote_config(paths) or {}\<close>.\<close>

definition remote_document ::
  "ext \<Rightarrow> runtime_paths \<Rightarrow> ('z io_scheme, exn, (string \<times> toml) list) M" where
  "remote_document X paths =
     andthen (read_remote_config X paths) (\<lambda>d. ret (case d of None \<Rightarrow> [] | Some t \<Rightarrow> t))"

definition provider_of_config :: "(string \<times> toml) list \<Rightarrow> exn + provider" where
  "provider_of_config parsed =
     (case tget parsed ''remote'' of
        Some (TTab remote) \<Rightarrow>
          if \<not> equals_int (tget remote ''version'') REMOTE_CONFIG_VERSION
          then Inl (LifecycleErr ''unsupported remote transport configuration version'')
          else (case tget remote ''transport'' of
                  Some (TStr (c # cs)) \<Rightarrow> get_transport_provider (c # cs)
                | _ \<Rightarrow> Inl (LifecycleErr ''remote.transport must be a non-empty string''))
      | _ \<Rightarrow> Inl (LifecycleErr ''remote transport configuration must contain [remote]''))"

definition load_transport_provider ::
  "ext \<Rightarrow> runtime_paths \<Rightarrow> ('z io_scheme, exn, provider \<times> string) M" where
  "load_transport_provider X paths =
     andthen (read_remote_config X paths) (\<lambda>d.
     case d of
       None \<Rightarrow> ret (OpenAITunnel, ''legacy-default'')
     | Some parsed \<Rightarrow>
         andthen (lift_sum (provider_of_config parsed)) (\<lambda>p. ret (p, ''config'')))"

definition lifecycle_error :: "string \<Rightarrow> exn + 'a \<Rightarrow> exn + 'a" where
  "lifecycle_error prefix_text r =
     (case r of Inl (ValueErr msg) \<Rightarrow> Inl (LifecycleErr (prefix_text @ msg)) | _ \<Rightarrow> r)"

definition build_resource_auth_settings :: "string \<Rightarrow> string \<Rightarrow> string \<Rightarrow> exn + auth_settings" where
  "build_resource_auth_settings issuer resource resource_id =
     (let a = \<lparr>ra_issuer = issuer, ra_resource = resource, ra_resource_id = resource_id\<rparr> in
      sum_bind (lifecycle_error ''OAuth Resource Server configuration is invalid: ''
        (validation_config_of a ''structural-validation-only'')) (\<lambda>_. Inr a))"

definition fields_ok :: "string list \<Rightarrow> (string \<times> toml) list \<Rightarrow> exn + unit" where
  "fields_ok allowed table =
     (let unexpected = unexpected_fields allowed table in
      if unexpected \<noteq> []
      then Inl (LifecycleErr (''remote auth configuration contains unsupported fields: ''
                              @ join_with '', '' unexpected))
      else Inr ())"

definition refuse_unless :: "bool \<Rightarrow> string \<Rightarrow> exn + unit" where
  "refuse_unless ok msg = (if ok then Inr () else Inl (LifecycleErr msg))"

definition given_text :: "toml option \<Rightarrow> string option" where
  "given_text v = (case v of Some (TStr (c # cs)) \<Rightarrow> Some (c # cs) | _ \<Rightarrow> None)"

definition parse_resource_auth :: "(string \<times> toml) list \<Rightarrow> exn + auth_settings" where
  "parse_resource_auth auth =
     sum_bind (fields_ok [''version'', ''mode'', ''verification_contract'', ''authorization_server_issuer'',
         ''canonical_resource_uri'', ''validation_resource_id'', ''validation_timeout_ms''] auth) (\<lambda>_.
     sum_bind (refuse_unless (equals_int (tget auth ''version'') RESOURCE_AUTH_CONFIG_VERSION)
       ''unsupported remote auth configuration version'') (\<lambda>_.
     sum_bind (refuse_unless (tget auth ''verification_contract'' = Some (TStr CONTRACT_ID))
       ''remote auth verification_contract must be mcp-rs-verification-v1'') (\<lambda>_.
     sum_bind (refuse_unless (equals_int (tget auth ''validation_timeout_ms'') RESOURCE_AUTH_TIMEOUT_MS)
       ''remote auth validation_timeout_ms must be exactly 2000'') (\<lambda>_.
     case (given_text (tget auth ''authorization_server_issuer''), given_text (tget auth ''canonical_resource_uri''),
           given_text (tget auth ''validation_resource_id'')) of
       (Some issuer, Some resource, Some resource_id) \<Rightarrow>
         build_resource_auth_settings issuer resource resource_id
     | _ \<Rightarrow> Inl (LifecycleErr
         ''remote auth issuer, canonical resource URI, and validation resource id are required'')))))"

definition parse_auth_configuration ::
  "(string \<times> toml) list \<Rightarrow> exn + string option \<times> auth_settings option \<times> string" where
  "parse_auth_configuration parsed =
     (case tget parsed ''auth'' of
        None \<Rightarrow> Inr (None, None, ''disabled'')
      | Some (TTab auth) \<Rightarrow>
          if tget auth ''mode'' = Some (TStr AUTH_MODE_NONE) then
            sum_bind (fields_ok [''version'', ''mode''] auth) (\<lambda>_.
            sum_bind (refuse_unless (tget auth ''version'' = None
                \<or> equals_int (tget auth ''version'') RESOURCE_AUTH_CONFIG_VERSION)
              ''unsupported remote auth configuration version'') (\<lambda>_.
            Inr (Some AUTH_MODE_NONE, None, ''config'')))
          else if tget auth ''mode'' \<noteq> Some (TStr RESOURCE_AUTH_MODE)
          then Inl (LifecycleErr ''unsupported remote auth mode'')
          else sum_bind (parse_resource_auth auth) (\<lambda>a. Inr (Some RESOURCE_AUTH_MODE, Some a, ''config''))
      | _ \<Rightarrow> Inl (LifecycleErr ''remote auth configuration must be a TOML table''))"

definition trust_error :: "string + 'a \<Rightarrow> exn + 'a" where
  "trust_error r =
     (case r of Inl msg \<Rightarrow> Inl (LifecycleErr (''network trust configuration is invalid: '' @ msg))
      | Inr x \<Rightarrow> Inr x)"

definition parse_network_trust_configuration ::
  "(string \<times> toml) list \<Rightarrow> exn + network_trust_config option \<times> string" where
  "parse_network_trust_configuration parsed =
     (case tget parsed ''network_trust'' of
        None \<Rightarrow> Inr (None, ''disabled'')
      | Some (TTab table) \<Rightarrow>
          sum_bind (trust_error (network_trust_from_mapping table)) (\<lambda>c. Inr (Some c, ''config''))
      | _ \<Rightarrow> Inl (LifecycleErr ''remote network_trust configuration must be a TOML table''))"

definition NONE_REQUIRES_TRUST :: string where
  "NONE_REQUIRES_TRUST =
     ''auth.mode = none requires network_trust.mode = '' @ NETWORK_TRUST_MODE @ '' with non-empty allowed_hosts''"

definition security_of_config :: "(string \<times> toml) list \<Rightarrow> exn + security_settings" where
  "security_of_config parsed =
     sum_bind (parse_auth_configuration parsed) (\<lambda>(auth_mode, resource_auth, auth_source).
     sum_bind (parse_network_trust_configuration parsed) (\<lambda>(network_trust, network_trust_source).
     sum_bind (refuse_unless (auth_mode \<noteq> Some AUTH_MODE_NONE \<or> network_trust \<noteq> None) NONE_REQUIRES_TRUST) (\<lambda>_.
     Inr \<lparr>se_auth_mode = auth_mode, se_resource_auth = resource_auth, se_network_trust = network_trust,
          se_auth_source = auth_source, se_network_trust_source = network_trust_source\<rparr>)))"

definition load_remote_security_settings ::
  "ext \<Rightarrow> runtime_paths \<Rightarrow> ('z io_scheme, exn, security_settings) M" where
  "load_remote_security_settings X paths =
     andthen (read_remote_config X paths) (\<lambda>d.
     case d of
       None \<Rightarrow> ret \<lparr>se_auth_mode = None, se_resource_auth = None, se_network_trust = None,
                     se_auth_source = ''disabled'', se_network_trust_source = ''disabled''\<rparr>
     | Some parsed \<Rightarrow> lift_sum (security_of_config parsed))"

definition load_resource_auth_settings ::
  "ext \<Rightarrow> runtime_paths \<Rightarrow> ('z io_scheme, exn, auth_settings option \<times> string) M" where
  "load_resource_auth_settings X paths =
     andthen (load_remote_security_settings X paths) (\<lambda>s. ret (se_resource_auth s, se_auth_source s))"

section \<open>Writing the configuration\<close>

definition toml_string_array :: "string list \<Rightarrow> string" where
  "toml_string_array values = ''['' @ join_with '', '' (map quote values) @ '']''"

definition toml_line :: "string \<Rightarrow> string \<Rightarrow> string" where
  "toml_line key value = key @ '' = '' @ value @ [lf]"

definition remote_section :: "provider \<Rightarrow> string" where
  "remote_section p =
     ''[remote]'' @ [lf] @ toml_line ''version'' (decimal_int REMOTE_CONFIG_VERSION)
     @ toml_line ''transport'' (quote (provider_id p))"

definition auth_section :: "auth_settings option \<Rightarrow> string option \<Rightarrow> exn + string" where
  "auth_section auth auth_mode =
     (case (case auth of Some _ \<Rightarrow> Some RESOURCE_AUTH_MODE | None \<Rightarrow> auth_mode) of
        None \<Rightarrow> Inr []
      | Some mode \<Rightarrow>
          if mode \<notin> {AUTH_MODE_NONE, RESOURCE_AUTH_MODE}
          then Inl (LifecycleErr ''unsupported remote auth mode'')
          else if mode = RESOURCE_AUTH_MODE \<and> auth = None
          then Inl (LifecycleErr ''OAuth Resource Server configuration is incomplete'')
          else Inr ([lf] @ ''[auth]'' @ [lf] @ toml_line ''version'' (decimal_int RESOURCE_AUTH_CONFIG_VERSION)
                    @ toml_line ''mode'' (quote mode)
                    @ (case auth of
                         None \<Rightarrow> []
                       | Some a \<Rightarrow>
                           toml_line ''verification_contract'' (quote CONTRACT_ID)
                           @ toml_line ''authorization_server_issuer'' (quote (ra_issuer a))
                           @ toml_line ''canonical_resource_uri'' (quote (ra_resource a))
                           @ toml_line ''validation_resource_id'' (quote (ra_resource_id a))
                           @ toml_line ''validation_timeout_ms'' (decimal_int RESOURCE_AUTH_TIMEOUT_MS))))"

definition network_trust_section :: "network_trust_config option \<Rightarrow> string" where
  "network_trust_section c =
     (case c of
        None \<Rightarrow> []
      | Some t \<Rightarrow>
          [lf] @ ''[network_trust]'' @ [lf] @ toml_line ''mode'' (quote (nt_mode t))
          @ toml_line ''allowed_hosts'' (toml_string_array (nt_allowed_hosts t))
          @ toml_line ''allowed_origins'' (toml_string_array (nt_allowed_origins t)))"

definition write_remote_config ::
  "ext \<Rightarrow> runtime_paths \<Rightarrow> provider \<Rightarrow> auth_settings option \<Rightarrow> string option \<Rightarrow> network_trust_config option
   \<Rightarrow> ('z io_scheme, exn, string) M" where
  "write_remote_config X paths p auth auth_mode trust =
     andthen (make_dir X (rt_config_dir paths)) (\<lambda>_.
     andthen (lift_sum (auth_section auth auth_mode)) (\<lambda>authentication.
     andthen (ask (FsWrite (join_path (rt_config_dir paths) ''remote.toml.tmp'')
         (encode_str (remote_section p @ authentication @ network_trust_section trust)))) (\<lambda>h.
     andthen (require (x_ok X h) OsErr) (\<lambda>_.
     andthen (fs_ask X ''replace'' (remote_config_path paths)) (\<lambda>ok.
     andthen (require ok OsErr) (\<lambda>_.
     ret (remote_config_path paths)))))))"

text \<open>The profile \<open>configure_resource_auth\<close> selects: its mode and, for OAuth, its settings.\<close>

definition selected_auth ::
  "string \<Rightarrow> string option \<Rightarrow> string option \<Rightarrow> string option \<Rightarrow> network_trust_config option
   \<Rightarrow> exn + string \<times> auth_settings option" where
  "selected_auth mode issuer resource resource_id trust =
     (if mode = AUTH_MODE_NONE then
        (if issuer \<noteq> None \<or> resource \<noteq> None \<or> resource_id \<noteq> None
         then Inl (LifecycleErr ''auth fields must not be supplied when --auth-mode none is selected'')
         else if trust = None then Inl (LifecycleErr NONE_REQUIRES_TRUST)
         else Inr (AUTH_MODE_NONE, None))
      else if mode = RESOURCE_AUTH_MODE then
        (case (issuer, resource, resource_id) of
           (Some i, Some r, Some v) \<Rightarrow>
             if i = [] \<or> r = [] \<or> v = []
             then Inl (LifecycleErr ''OAuth Resource Server auth requires issuer, canonical resource URI, and validation resource id'')
             else sum_bind (build_resource_auth_settings i r v) (\<lambda>a. Inr (RESOURCE_AUTH_MODE, Some a))
         | _ \<Rightarrow> Inl (LifecycleErr ''OAuth Resource Server auth requires issuer, canonical resource URI, and validation resource id''))
      else Inl (LifecycleErr ''unsupported remote auth mode''))"

definition configure_resource_auth ::
  "ext \<Rightarrow> runtime_paths \<Rightarrow> string \<Rightarrow> string option \<Rightarrow> string option \<Rightarrow> string option
   \<Rightarrow> ('z io_scheme, exn, json) M" where
  "configure_resource_auth X paths mode issuer resource resource_id =
     andthen (ensure_runtime_dirs X paths) (\<lambda>_.
     andthen (load_transport_provider X paths) (\<lambda>(p, _).
     andthen (remote_document X paths) (\<lambda>parsed.
     andthen (lift_sum (parse_network_trust_configuration parsed)) (\<lambda>(trust, _).
     andthen (lift_sum (selected_auth mode issuer resource resource_id trust)) (\<lambda>(auth_mode, auth).
     andthen (write_remote_config X paths p auth (Some auth_mode) trust) (\<lambda>_.
     ret (JObj [(''status'', JStr ''ok''), (''auth_mode'', JStr auth_mode),
                (''auth_config'', JStr (remote_config_path paths))])))))))"

definition configure_network_trust ::
  "ext \<Rightarrow> runtime_paths \<Rightarrow> string \<Rightarrow> string list \<Rightarrow> string list \<Rightarrow> ('z io_scheme, exn, json) M" where
  "configure_network_trust X paths mode allowed_hosts allowed_origins =
     andthen (ensure_runtime_dirs X paths) (\<lambda>_.
     andthen (load_transport_provider X paths) (\<lambda>(p, _).
     andthen (remote_document X paths) (\<lambda>parsed.
     andthen (lift_sum (parse_auth_configuration parsed)) (\<lambda>(auth_mode, auth, _).
     andthen (lift_sum (trust_error (make_network_trust_config (Some (TStr mode)) (TArr (map TStr allowed_hosts))
         (TArr (map TStr allowed_origins))))) (\<lambda>trust.
     andthen (write_remote_config X paths p auth auth_mode (Some trust)) (\<lambda>_.
     ret (JObj [(''status'', JStr ''ok''), (''network_trust_mode'', JStr (nt_mode trust)),
                (''network_trust_config'', JStr (remote_config_path paths))])))))))"

section \<open>Secrets\<close>

text \<open>\<open>secret_store.py\<close>.  The keychain and DPAPI are answers of the platform; their failures become
  \<open>LifecycleError\<close>s, here without the text of the exception.\<close>

type_synonym secret_value = "string option \<times> string"

definition canonical_home_identity :: "ext \<Rightarrow> string \<Rightarrow> ('z io_scheme, exn, string) M" where
  "canonical_home_identity X home =
     andthen (fs_text X ''expanduser'' home) (\<lambda>p.
     andthen (fs_text X ''resolve'' p) (\<lambda>canonical.
     ret (sha256_hex X (x_normcase X canonical))))"

definition keychain_account :: "ext \<Rightarrow> string \<Rightarrow> string \<Rightarrow> ('z io_scheme, exn, string) M" where
  "keychain_account X home logical =
     andthen (require (logical \<noteq> [] \<and> set logical \<inter> {cr, lf, nul} = {})
       (LifecycleErr ''logical secret id is invalid'')) (\<lambda>_.
     andthen (canonical_home_identity X home) (\<lambda>identity. ret (logical @ '':'' @ identity)))"

definition keychain_backend :: "ext \<Rightarrow> ('z io_scheme, exn, unit) M" where
  "keychain_backend X =
     andthen (fs_ask X ''keyring_import'' []) (\<lambda>imported.
     andthen (require imported (LifecycleErr ''macOS Keychain backend is unavailable'')) (\<lambda>_.
     andthen (fs_ask X ''keyring_open'' []) (\<lambda>opened.
     require opened (LifecycleErr ''macOS Keychain backend initialization failed: ''))))"

definition read_keychain :: "ext \<Rightarrow> string \<Rightarrow> string \<Rightarrow> ('z io_scheme, exn, secret_value) M" where
  "read_keychain X home logical =
     andthen (keychain_backend X) (\<lambda>_.
     andthen (handle (keychain_account X home logical)
       (\<lambda>e. raise (LifecycleErr ''macOS Keychain read failed: ''))) (\<lambda>account.
     andthen (ask (FsCall ''keychain_read'' account)) (\<lambda>h.
     andthen (require (x_ok X h) (LifecycleErr ''macOS Keychain read failed: '')) (\<lambda>_.
     ret (case x_lookup X h of None \<Rightarrow> (None, ''none'') | Some v \<Rightarrow> (Some v, ''macos-keychain''))))))"

definition read_dpapi :: "ext \<Rightarrow> string \<Rightarrow> ('z io_scheme, exn, secret_value) M" where
  "read_dpapi X path =
     andthen (fs_ask X ''is_file'' path) (\<lambda>b.
     if \<not> b then ret (None, ''none'')
     else
       andthen (ask (FsCall ''dpapi_read'' path)) (\<lambda>h.
       andthen (require (x_ok X h) (LifecycleErr ''Windows DPAPI secret read failed: '')) (\<lambda>_.
       ret (Some (x_text X h), ''windows-dpapi''))))"

definition read_secret ::
  "ext \<Rightarrow> runtime_paths \<Rightarrow> string \<Rightarrow> string \<Rightarrow> string \<Rightarrow> ('z io_scheme, exn, secret_value) M" where
  "read_secret X paths env_name logical path =
     andthen (environ X env_name) (\<lambda>v.
     case v of
       Some (c # cs) \<Rightarrow> ret (Some (c # cs), ''environment'')
     | _ \<Rightarrow>
         if x_darwin X then read_keychain X (rt_app_root paths) logical
         else if x_windows X then read_dpapi X path
         else ret (None, ''none''))"

definition write_keychain :: "ext \<Rightarrow> string \<Rightarrow> string \<Rightarrow> string \<Rightarrow> ('z io_scheme, exn, string) M" where
  "write_keychain X home logical v =
     andthen (require (v \<noteq> []) (LifecycleErr ''secret value must not be empty'')) (\<lambda>_.
     andthen (keychain_backend X) (\<lambda>_.
     andthen (handle (keychain_account X home logical)
       (\<lambda>e. raise (LifecycleErr ''macOS Keychain write failed: ''))) (\<lambda>account.
     andthen (ask (FsWrite (''keychain:'' @ account) (encode_str v))) (\<lambda>h.
     andthen (require (x_ok X h) (LifecycleErr ''macOS Keychain write failed: '')) (\<lambda>_.
     ret ''macos-keychain'')))))"

definition write_dpapi :: "ext \<Rightarrow> string \<Rightarrow> string \<Rightarrow> string \<Rightarrow> ('z io_scheme, exn, string) M" where
  "write_dpapi X directory path v =
     andthen (require (v \<noteq> []) (LifecycleErr ''secret value must not be empty'')) (\<lambda>_.
     andthen (fs_ask X ''mkdir'' directory) (\<lambda>made.
     andthen (require made (LifecycleErr ''Windows DPAPI secret write failed: '')) (\<lambda>_.
     andthen (ask (FsCall ''dpapi_protect'' v)) (\<lambda>h.
     andthen (require (x_bytes X h \<noteq> None) (LifecycleErr ''Windows DPAPI secret write failed: '')) (\<lambda>_.
     andthen (ask (FsWrite path (the (x_bytes X h)))) (\<lambda>h'.
     andthen (require (x_ok X h') (LifecycleErr ''Windows DPAPI secret write failed: '')) (\<lambda>_.
     ret ''windows-dpapi'')))))))"

definition store_secret_from_environment ::
  "ext \<Rightarrow> runtime_paths \<Rightarrow> string \<Rightarrow> string \<Rightarrow> string \<Rightarrow> ('z io_scheme, exn, string) M" where
  "store_secret_from_environment X paths env_name logical path =
     andthen (environ X env_name) (\<lambda>v.
     case v of
       Some (c # cs) \<Rightarrow>
         andthen (require (x_darwin X \<or> x_windows X)
           (LifecycleErr ''secure native secret storage is unavailable on this platform'')) (\<lambda>_.
         andthen (ensure_runtime_dirs X paths) (\<lambda>_.
         if x_darwin X then write_keychain X (rt_app_root paths) logical (c # cs)
         else write_dpapi X (rt_secret_dir paths) path (c # cs)))
     | _ \<Rightarrow> raise (LifecycleErr (env_name @ '' is not set in the current process'')))"

definition secret_env_name :: "provider \<Rightarrow> string" where
  "secret_env_name p = (case p of OpenAITunnel \<Rightarrow> ''CONTROL_PLANE_API_KEY'' | Cloudflare \<Rightarrow> ''TUNNEL_TOKEN'')"

definition secret_file_name :: "provider \<Rightarrow> string" where
  "secret_file_name p =
     (case p of OpenAITunnel \<Rightarrow> ''control-plane-api-key.dpapi'' | Cloudflare \<Rightarrow> ''cloudflare-tunnel-token.dpapi'')"

definition provider_secret_path :: "runtime_paths \<Rightarrow> provider \<Rightarrow> string" where
  "provider_secret_path paths p = join_path (rt_secret_dir paths) (secret_file_name p)"

definition transport_secret_id :: "provider \<Rightarrow> string" where
  "transport_secret_id p = ''transport:'' @ provider_id p @ '':'' @ secret_env_name p"

definition transport_secret_value :: "ext \<Rightarrow> runtime_paths \<Rightarrow> provider \<Rightarrow> ('z io_scheme, exn, secret_value) M" where
  "transport_secret_value X paths p =
     read_secret X paths (secret_env_name p) (transport_secret_id p) (provider_secret_path paths p)"

definition store_transport_secret_from_environment ::
  "ext \<Rightarrow> runtime_paths \<Rightarrow> provider \<Rightarrow> ('z io_scheme, exn, string) M" where
  "store_transport_secret_from_environment X paths p =
     store_secret_from_environment X paths (secret_env_name p) (transport_secret_id p) (provider_secret_path paths p)"

definition RESOURCE_AUTH_SECRET_ID :: string where
  "RESOURCE_AUTH_SECRET_ID = ''resource-auth:verification-secret''"

definition resource_auth_secret_path :: "runtime_paths \<Rightarrow> string" where
  "resource_auth_secret_path paths = join_path (rt_secret_dir paths) RESOURCE_AUTH_SECRET_FILE_NAME"

definition resource_auth_secret_value :: "ext \<Rightarrow> runtime_paths \<Rightarrow> ('z io_scheme, exn, secret_value) M" where
  "resource_auth_secret_value X paths =
     read_secret X paths RESOURCE_AUTH_SECRET_ENV_NAME RESOURCE_AUTH_SECRET_ID (resource_auth_secret_path paths)"

definition store_resource_auth_secret_from_environment ::
  "ext \<Rightarrow> runtime_paths \<Rightarrow> ('z io_scheme, exn, string) M" where
  "store_resource_auth_secret_from_environment X paths =
     andthen (load_resource_auth_settings X paths) (\<lambda>(auth, _).
     andthen (require (auth \<noteq> None) (LifecycleErr ''OAuth Resource Server auth is not configured'')) (\<lambda>_.
     store_secret_from_environment X paths RESOURCE_AUTH_SECRET_ENV_NAME RESOURCE_AUTH_SECRET_ID
       (resource_auth_secret_path paths)))"

text \<open>An authenticator is its validation configuration.\<close>

definition load_request_authenticator ::
  "ext \<Rightarrow> runtime_paths \<Rightarrow> ('z io_scheme, exn, validation_config option) M" where
  "load_request_authenticator X paths =
     andthen (load_resource_auth_settings X paths) (\<lambda>(auth, _).
     case auth of
       None \<Rightarrow> ret None
     | Some a \<Rightarrow>
         andthen (resource_auth_secret_value X paths) (\<lambda>(secret, _).
         case secret of
           Some (c # cs) \<Rightarrow>
             andthen (lift_sum (lifecycle_error ''OAuth Resource Server configuration is invalid: ''
               (validation_config_of a (c # cs)))) (\<lambda>cfg. ret (Some cfg))
         | _ \<Rightarrow> raise (LifecycleErr (RESOURCE_AUTH_SECRET_ENV_NAME
                 @ '' is unavailable; set it in the environment or store it securely''))))"

section \<open>Security profile\<close>

definition try_lifecycle :: "('s, exn, 'a) M \<Rightarrow> ('s, exn, string + 'a) M" where
  "try_lifecycle m =
     handle (andthen m (\<lambda>x. ret (Inr x)))
       (\<lambda>e. case e of LifecycleErr msg \<Rightarrow> ret (Inl msg) | _ \<Rightarrow> raise e)"

definition auth_contract :: "auth_settings \<Rightarrow> string \<Rightarrow> (string \<times> json) list" where
  "auth_contract a source =
     [(''mode'', JStr RESOURCE_AUTH_MODE), (''source'', JStr source), (''verification_contract'', JStr CONTRACT_ID),
      (''issuer'', JStr (ra_issuer a)), (''resource'', JStr (ra_resource a)),
      (''validation_endpoint'', JStr (ra_issuer a @ VALIDATION_PATH))]"

definition is_given :: "string option \<Rightarrow> bool" where
  "is_given v = (opt_text v \<noteq> [])"

definition resource_auth_status :: "ext \<Rightarrow> runtime_paths \<Rightarrow> ('z io_scheme, exn, (string \<times> json) list) M" where
  "resource_auth_status X paths =
     andthen (try_lifecycle (load_resource_auth_settings X paths)) (\<lambda>loaded.
     case loaded of
       Inl msg \<Rightarrow> ret [(''status'', JStr ''invalid''), (''mode'', JStr ''unknown''), (''error'', JStr msg)]
     | Inr (None, source) \<Rightarrow>
         ret [(''status'', JStr ''disabled''), (''mode'', JStr ''none''), (''source'', JStr source)]
     | Inr (Some a, source) \<Rightarrow>
         andthen (try_lifecycle (resource_auth_secret_value X paths)) (\<lambda>secret.
         ret (case secret of
                Inl msg \<Rightarrow>
                  (''status'', JStr ''invalid'') # auth_contract a source
                  @ [(''secret_source'', JStr ''none''), (''error'', JStr msg)]
              | Inr (v, secret_source) \<Rightarrow>
                  (''status'', JStr (if is_given v then ''ready'' else ''missing'')) # auth_contract a source
                  @ [(''validation_resource_id'', JStr (ra_resource_id a)),
                     (''validation_timeout_ms'', JInt RESOURCE_AUTH_TIMEOUT_MS),
                     (''secret_available'', JBool (is_given v)), (''secret_source'', JStr secret_source),
                     (''oauth_secret_required'', JBool True)])))"

definition trust_boundary :: "string \<times> json" where
  "trust_boundary = (''boundary'', JStr ''network trust boundary'')"

definition network_trust_status :: "network_trust_config option \<Rightarrow> string \<Rightarrow> json" where
  "network_trust_status settings source =
     (case settings of
        None \<Rightarrow> JObj [(''status'', JStr ''disabled''), (''mode'', JNull), (''source'', JStr source), trust_boundary]
      | Some t \<Rightarrow>
          JObj [(''status'', JStr ''ready''), (''mode'', JStr (nt_mode t)), (''source'', JStr source),
                (''allowed_hosts'', jstrs (nt_allowed_hosts t)), (''allowed_origins'', jstrs (nt_allowed_origins t)),
                trust_boundary])"

record profile_status =
  ps_status :: string
  ps_profile :: string
  ps_auth_mode :: "string option"
  ps_auth :: "(string \<times> json) list"
  ps_network_trust :: json
  ps_identity_level :: string
  ps_error :: "string option"

text \<open>What can still be said of a configuration that is invalid as a whole.\<close>

definition invalid_profile :: "string \<Rightarrow> (string \<times> toml) list option \<Rightarrow> profile_status" where
  "invalid_profile msg parsed =
     (let auth_mode = (case parsed of
            None \<Rightarrow> None
          | Some t \<Rightarrow> (case parse_auth_configuration t of Inr (m, _) \<Rightarrow> m | Inl _ \<Rightarrow> None));
          trust = (case parsed of
            None \<Rightarrow> (None, ''invalid'')
          | Some t \<Rightarrow> (case parse_network_trust_configuration t of Inr r \<Rightarrow> r | Inl _ \<Rightarrow> (None, ''invalid'')))
      in \<lparr>ps_status = ''invalid'', ps_profile = ''invalid'', ps_auth_mode = auth_mode,
          ps_auth = [(''status'', JStr ''failed''),
                     (''mode'', JStr (case auth_mode of None \<Rightarrow> ''unknown'' | Some m \<Rightarrow> m)),
                     (''source'', JStr ''invalid''),
                     (''oauth_secret_required'', JBool (auth_mode = Some RESOURCE_AUTH_MODE)), (''error'', JStr msg)],
          ps_network_trust =
            (case trust of
               (Some t, source) \<Rightarrow> network_trust_status (Some t) source
             | (None, source) \<Rightarrow>
                 JObj [(''status'', JStr ''failed''), (''mode'', JNull), (''source'', JStr source), trust_boundary,
                       (''error'', JStr msg)]),
          ps_identity_level = ''unknown'', ps_error = Some msg\<rparr>)"

text \<open>\<open>{**status, "oauth_secret_required": True}\<close>.\<close>

definition with_field :: "(string \<times> json) list \<Rightarrow> string \<Rightarrow> json \<Rightarrow> (string \<times> json) list" where
  "with_field kvs k v =
     (if map_of kvs k = None then kvs @ [(k, v)] else map (\<lambda>(k', v'). (k', if k' = k then v else v')) kvs)"

definition security_profile_status :: "ext \<Rightarrow> runtime_paths \<Rightarrow> ('z io_scheme, exn, profile_status) M" where
  "security_profile_status X paths =
     andthen (try_lifecycle (load_remote_security_settings X paths)) (\<lambda>loaded.
     case loaded of
       Inl msg \<Rightarrow>
         andthen (try_lifecycle (remote_document X paths)) (\<lambda>again.
         ret (invalid_profile msg (case again of Inl _ \<Rightarrow> None | Inr t \<Rightarrow> Some t)))
     | Inr s \<Rightarrow>
         andthen (if se_auth_mode s = Some AUTH_MODE_NONE \<or> se_resource_auth s = None then ret []
                  else resource_auth_status X paths) (\<lambda>oauth.
         ret (let result = (\<lambda>profile auth level.
                \<lparr>ps_status = ''ready'', ps_profile = profile, ps_auth_mode = se_auth_mode s, ps_auth = auth,
                 ps_network_trust = network_trust_status (se_network_trust s) (se_network_trust_source s),
                 ps_identity_level = level, ps_error = None\<rparr>)
              in if se_auth_mode s = Some AUTH_MODE_NONE then
                   result ''network-trusted''
                     [(''status'', JStr ''ready''), (''mode'', JStr AUTH_MODE_NONE), (''source'', JStr (se_auth_source s)),
                      (''oauth_secret_required'', JBool False), (''identity_level'', JStr ''network-only'')]
                     ''network-only''
                 else if se_resource_auth s \<noteq> None then
                   result ''oauth-resource-server'' (with_field oauth ''oauth_secret_required'' (JBool True))
                     ''subject-client-scopes''
                 else
                   result ''legacy''
                     [(''status'', JStr ''disabled''), (''mode'', JNull), (''source'', JStr (se_auth_source s)),
                      (''oauth_secret_required'', JBool False)]
                     ''local-only'')))"

definition runtime_path_status :: "runtime_paths \<Rightarrow> json" where
  "runtime_path_status paths =
     JObj [(''home'', JStr (rt_app_root paths)), (''config'', JStr (rt_config_dir paths)),
           (''bridge_config'', JStr (rt_bridge_config paths)), (''projects_config'', JStr (rt_projects_config paths)),
           (''data'', JStr (rt_data_dir paths)), (''checkpoints'', JStr (checkpoint_dir paths)),
           (''logs'', JStr (rt_log_dir paths)), (''runtime'', JStr (rt_run_dir paths)),
           (''secrets'', JStr (rt_secret_dir paths)), (''layout'', JStr (rt_layout paths))]"

end
