(* ===== verification/Regex.thy ===== *)
theory Regex
  imports Pystr
begin

text \<open>
  The part of Python's \<open>re\<close> the program uses: sequences of literal texts, character classes with \<open>*\<close>,
  \<open>+\<close> and \<open>?\<close>, an optional sequence, an alternative of literals and one captured group.  A pattern gives all its
  matches at the front of a text in the order of Python's backtracking, so the first of them is the one
  Python takes.
\<close>

section \<open>Matching at the front\<close>

datatype rx =
    Lit string
  | LitI string
  | OneOfI "string list"
  | Star "char \<Rightarrow> bool"
  | One "char \<Rightarrow> bool"
  | AtLeast nat "char \<Rightarrow> bool"
  | Perhaps "char \<Rightarrow> bool"
  | Grab "char \<Rightarrow> bool"
  | Opt "rx list"

text \<open>The remainders after \<open>n, n - 1, \<dots>, m\<close> characters.\<close>

definition remainders :: "nat \<Rightarrow> nat \<Rightarrow> string \<Rightarrow> string list" where
  "remainders m n s = map (\<lambda>k. drop k s) (rev [m..<Suc n])"

definition run_length :: "(char \<Rightarrow> bool) \<Rightarrow> string \<Rightarrow> nat" where
  "run_length P s = length (takeWhile P s)"

definition front_is :: "bool \<Rightarrow> string \<Rightarrow> string \<Rightarrow> bool" where
  "front_is ignore_case t s =
     (let front = take (length t) s in
      if ignore_case then length front = length t \<and> lower front = lower t else front = t)"

fun matches :: "rx list \<Rightarrow> string \<Rightarrow> (string \<times> string) list" where
  "matches [] s = [([], s)]"
| "matches (Lit t # rs) s = (if front_is False t s then matches rs (drop (length t) s) else [])"
| "matches (LitI t # rs) s = (if front_is True t s then matches rs (drop (length t) s) else [])"
| "matches (OneOfI ts # rs) s =
     concat (map (\<lambda>t. if front_is True t s then matches rs (drop (length t) s) else []) ts)"
| "matches (Star P # rs) s = concat (map (matches rs) (remainders 0 (run_length P s) s))"
| "matches (One P # rs) s = (case s of [] \<Rightarrow> [] | c # cs \<Rightarrow> if P c then matches rs cs else [])"
| "matches (AtLeast n P # rs) s = concat (map (matches rs) (remainders n (run_length P s) s))"
| "matches (Perhaps P # rs) s = concat (map (matches rs) (remainders 0 (min 1 (run_length P s)) s))"
| "matches (Grab P # rs) s =
     concat (map (\<lambda>r. map (\<lambda>m. (take (length s - length r) s, snd m)) (matches rs r))
       (remainders 1 (run_length P s) s))"
| "matches (Opt ps # rs) s = concat (map (\<lambda>m. matches rs (snd m)) (matches ps s)) @ matches rs s"

definition at_line_end :: "string \<Rightarrow> bool" where
  "at_line_end s = (case s of [] \<Rightarrow> True | c # _ \<Rightarrow> c = lf)"

text \<open>\<open>(?m)^\<dots>$\<close> at the front of \<open>s\<close>, which begins a line; \<open>whole\<close> asks for the \<open>$\<close>.\<close>

definition first_match :: "bool \<Rightarrow> rx list \<Rightarrow> string \<Rightarrow> (string \<times> string) option" where
  "first_match whole rs s = find (\<lambda>m. \<not> whole \<or> at_line_end (snd m)) (matches rs s)"

section \<open>Searching\<close>

text \<open>\<open>re.findall\<close> of a pattern that begins with \<open>^\<close>: the groups of the matches.  A match that consumes
  nothing does not occur with the patterns used.\<close>

function find_all :: "bool \<Rightarrow> rx list \<Rightarrow> bool \<Rightarrow> string \<Rightarrow> string list" where
  "find_all whole rs starts s =
     (case (if starts then first_match whole rs s else None) of
        Some (g, r) \<Rightarrow>
          if length r < length s then g # find_all whole rs (s ! (length s - length r - 1) = lf) r else []
      | None \<Rightarrow>
          (case s of [] \<Rightarrow> [] | c # cs \<Rightarrow> find_all whole rs (c = lf) cs))"
  by pat_completeness auto

termination by (relation "measure (\<lambda>(whole, rs, starts, s). length s)") auto

declare find_all.simps [simp del]

definition search_lines :: "bool \<Rightarrow> rx list \<Rightarrow> string \<Rightarrow> bool" where
  "search_lines whole rs s = (find_all whole rs True s \<noteq> [])"

definition word_char :: "char \<Rightarrow> bool" where
  "word_char c = (is_alnum c \<or> c = CHR ''_'' \<or> code c \<in> {170, 178, 179, 181, 185, 186, 188, 189, 190}
     \<or> (192 \<le> code c \<and> code c \<noteq> 215 \<and> code c \<noteq> 247))"

text \<open>\<open>pattern.sub\<close>: \<open>bounded\<close> asks for a word boundary in front; \<open>keep\<close> are the patterns in front of the one
  that is replaced, whose text stays.  \<open>previous\<close> tells whether the character in front is one of a word.\<close>

function sub_all :: "bool \<Rightarrow> rx list \<Rightarrow> rx list \<Rightarrow> string \<Rightarrow> bool \<Rightarrow> string \<Rightarrow> string" where
  "sub_all bounded keep rs replacement previous s =
     (case (if bounded \<and> (previous \<or> s = [] \<or> \<not> word_char (hd s)) then []
            else concat (map (\<lambda>(_, r). map (\<lambda>(_, r'). (r, r')) (matches rs r)) (matches keep s))) of
        (r, r') # _ \<Rightarrow>
          if length r' < length s
          then take (length s - length r) s @ replacement
               @ sub_all bounded keep rs replacement (word_char (s ! (length s - length r' - 1))) r'
          else s
      | [] \<Rightarrow>
          (case s of
             [] \<Rightarrow> []
           | c # cs \<Rightarrow> c # sub_all bounded keep rs replacement (word_char c) cs))"
  by pat_completeness auto

termination by (relation "measure (\<lambda>(bounded, keep, rs, replacement, previous, s). length s)") auto

declare sub_all.simps [simp del]

end
