(* ===== verification/Transports.thy ===== *)
theory Transports
  imports Lifecycle Regex
begin

text \<open>
  The two transport providers (\<open>transports/openai_tunnel.py\<close>, \<open>transports/cloudflare.py\<close>): their
  environment files, the settings read from them, the checks on URLs and addresses, the profile of the
  OpenAI client, the client executables, the files \<open>init\<close> writes, and the redaction of their logs.  The
  text of a file is what Python reads, with line ends translated; a port of more than 4300 digits is
  outside the model.
\<close>

section \<open>Environment files\<close>

definition is_quote :: "char \<Rightarrow> bool" where
  "is_quote c = (c = CHR 0x22 \<or> c = CHR 0x27)"

definition allowed_env_names :: "provider \<Rightarrow> string list" where
  "allowed_env_names p =
     (case p of
        OpenAITunnel \<Rightarrow>
          [''CONTROL_PLANE_TUNNEL_ID'', ''TUNNEL_CLIENT_PROFILE'', ''TUNNEL_CLIENT_PROFILE_DIR'', ''BRIDGE_MCP_URL'',
           ''HEALTH_LISTEN_ADDR'', ''TUNNEL_HEALTH_URL'', ''CONTROL_PLANE_ORGANIZATION_ID'']
      | Cloudflare \<Rightarrow> [''CLOUDFLARE_PUBLIC_URL'', ''CLOUDFLARE_ORIGIN_URL'', ''CLOUDFLARE_METRICS_ADDR''])"

definition env_label :: "provider \<Rightarrow> string" where
  "env_label p = (case p of OpenAITunnel \<Rightarrow> ''tunnel'' | Cloudflare \<Rightarrow> ''Cloudflare transport'')"

text \<open>A line: nothing, or a name and a value without its quotes.\<close>

definition parse_env_line :: "provider \<Rightarrow> string \<Rightarrow> nat \<Rightarrow> string \<Rightarrow> exn + (string \<times> string) option" where
  "parse_env_line p path number line =
     (let stripped = strip line in
      if stripped = [] \<or> hd stripped = CHR ''#'' then Inr None
      else
        (case partition_at (CHR ''='') stripped of
           (_, None) \<Rightarrow> Inl (LifecycleErr (''invalid environment assignment at line '' @ decimal number))
         | (raw_name, Some raw_value) \<Rightarrow>
             (let name = strip raw_name; v = strip raw_value in
              if name = secret_env_name p
              then Inl (LifecycleErr (secret_env_name p @ '' must never be stored in '' @ path))
              else if name \<notin> set (allowed_env_names p)
              then Inl (LifecycleErr (name @ '' is not an allowed '' @ env_label p @ '' setting''))
              else if length v \<ge> 2 \<and> hd v = last v \<and> is_quote (hd v) then Inr (Some (name, butlast (tl v)))
              else if list_ex is_quote v
              then Inl (LifecycleErr (''unterminated quoted value at line '' @ decimal number))
              else Inr (Some (name, v)))))"

text \<open>The loop over the lines; the newest assignment is first.\<close>

fun parse_env_lines ::
  "ext \<Rightarrow> provider \<Rightarrow> string \<Rightarrow> nat \<Rightarrow> string list \<Rightarrow> (string \<times> string) list
   \<Rightarrow> ('z io_scheme, exn, (string \<times> string) list) M" where
  "parse_env_lines X p path number [] values = ret values"
| "parse_env_lines X p path number (line # lines) values =
     andthen (lift_sum (parse_env_line p path number line)) (\<lambda>entry.
     case entry of
       Some (name, c # cs) \<Rightarrow>
         andthen (fs_text X ''expandvars'' (c # cs)) (\<lambda>v.
         parse_env_lines X p path (number + 1) lines ((name, v) # values))
     | _ \<Rightarrow> parse_env_lines X p path (number + 1) lines values)"

definition read_text :: "ext \<Rightarrow> string \<Rightarrow> ('z io_scheme, exn, string) M" where
  "read_text X path =
     andthen (ask (FsCall ''read_text'' path)) (\<lambda>h.
     case x_lookup X h of None \<Rightarrow> raise OsErr | Some content \<Rightarrow> ret content)"

definition parse_env_file :: "ext \<Rightarrow> provider \<Rightarrow> string \<Rightarrow> ('z io_scheme, exn, (string \<times> string) list) M" where
  "parse_env_file X p path =
     andthen (fs_ask X ''is_file'' path) (\<lambda>b.
     andthen (require b (LifecycleErr (env_label p @ '' environment file not found: '' @ path))) (\<lambda>_.
     andthen (read_text X path) (\<lambda>content.
     parse_env_lines X p path 1 (splitlines content) [])))"

definition env_value :: "(string \<times> string) list \<Rightarrow> string \<Rightarrow> string \<Rightarrow> string" where
  "env_value values name fallback = (case map_of values name of None \<Rightarrow> fallback | Some v \<Rightarrow> v)"

section \<open>Checks\<close>

definition mcp_path :: "split_url \<Rightarrow> bool" where
  "mcp_path u = (rstrip_by (\<lambda>c. c = CHR ''/'') (u_path u) = ''/mcp'' \<and> u_query u = [] \<and> u_fragment u = [])"

definition loopback_http :: "split_url \<Rightarrow> bool" where
  "loopback_http u = (u_scheme u \<in> {''http'', ''https''} \<and> url_hostname u = Some ''127.0.0.1'')"

definition validate_url :: "(split_url \<Rightarrow> bool) \<Rightarrow> string \<Rightarrow> string \<Rightarrow> exn + unit" where
  "validate_url good msg v = sum_bind (split_or_raise v) (\<lambda>u. refuse_unless (good u) msg)"

definition validate_bridge_url :: "string \<Rightarrow> exn + unit" where
  "validate_bridge_url =
     validate_url (\<lambda>u. loopback_http u \<and> mcp_path u)
       ''Bridge MCP URL must be an HTTP(S) /mcp endpoint on 127.0.0.1''"

definition validate_health_url :: "string \<Rightarrow> exn + unit" where
  "validate_health_url =
     validate_url (\<lambda>u. loopback_http u \<and> u_path u \<in> {[], ''/''} \<and> u_query u = [] \<and> u_fragment u = [])
       ''Tunnel health URL must be a loopback HTTP(S) base URL''"

definition validate_public_url :: "string \<Rightarrow> exn + unit" where
  "validate_public_url =
     validate_url (\<lambda>u. u_scheme u = ''https'' \<and> url_hostname u \<noteq> None \<and> \<not> url_credentials u \<and> mcp_path u)
       ''Cloudflare public MCP URL must be an HTTPS /mcp endpoint''"

definition validate_origin_url :: "string \<Rightarrow> exn + unit" where
  "validate_origin_url =
     validate_url (\<lambda>u. loopback_http u \<and> \<not> url_credentials u \<and> mcp_path u)
       ''Cloudflare origin URL must be an HTTP(S) /mcp endpoint on 127.0.0.1''"

definition loopback_port :: "string \<Rightarrow> nat option" where
  "loopback_port v =
     (let port = drop 10 v in
      if take 10 v = ''127.0.0.1:'' \<and> port \<noteq> [] \<and> list_all is_digit port then Some (digits_value port) else None)"

definition validate_addr :: "nat \<Rightarrow> string \<Rightarrow> string \<Rightarrow> exn + unit" where
  "validate_addr least msg v =
     refuse_unless (case loopback_port v of None \<Rightarrow> False | Some n \<Rightarrow> least \<le> n \<and> n \<le> 65535) msg"

definition validate_metrics_addr :: "string \<Rightarrow> exn + unit" where
  "validate_metrics_addr = validate_addr 1 ''Cloudflare metrics address must bind to 127.0.0.1:<port>''"

definition validate_health_listen_addr :: "string \<Rightarrow> exn + unit" where
  "validate_health_listen_addr = validate_addr 0 ''HEALTH_LISTEN_ADDR must bind to 127.0.0.1:<port>''"

definition id_char :: "char \<Rightarrow> bool" where
  "id_char c = (is_alnum c \<or> c = CHR ''_'' \<or> c = CHR ''-'')"

definition contains :: "string \<Rightarrow> string \<Rightarrow> bool" where
  "contains t s = list_ex (\<lambda>r. prefix t r) (suffixes s)"

definition validate_tunnel_id :: "string \<Rightarrow> exn + unit" where
  "validate_tunnel_id v =
     refuse_unless
       (take 7 v = ''tunnel_'' \<and> length v \<ge> 15 \<and> list_all id_char (drop 7 v)
        \<and> \<not> contains ''replace'' (lower v) \<and> \<not> contains ''example'' (lower v) \<and> \<not> contains ''placeholder'' (lower v))
       ''CONTROL_PLANE_TUNNEL_ID must be a real OpenAI tunnel_id''"

definition validate_profile_name :: "string \<Rightarrow> exn + unit" where
  "validate_profile_name v =
     refuse_unless
       (v \<noteq> [] \<and> is_alnum (hd v) \<and> length v \<le> 64 \<and> list_all (\<lambda>c. id_char c \<or> c = CHR ''.'') v)
       ''profile name contains unsupported characters''"

section \<open>Settings\<close>

record openai_settings =
  oa_tunnel_id :: string
  oa_profile_name :: string
  oa_profile_dir :: string
  oa_bridge_url :: string
  oa_tunnel_health_url :: string
  oa_health_listen_addr :: string
  oa_env_file :: string

record cloudflare_settings =
  cf_public_url :: string
  cf_origin_url :: string
  cf_metrics_addr :: string
  cf_env_file :: string

datatype tunnel_settings = OpenAISettings openai_settings | CloudflareSettings cloudflare_settings

definition DEFAULT_PROFILE :: string where "DEFAULT_PROFILE = ''codemcp-bridge''"
definition DEFAULT_BRIDGE_URL :: string where "DEFAULT_BRIDGE_URL = ''http://127.0.0.1:46200/mcp''"
definition DEFAULT_TUNNEL_HEALTH_URL :: string where "DEFAULT_TUNNEL_HEALTH_URL = ''http://127.0.0.1:46201''"
definition DEFAULT_HEALTH_LISTEN_ADDR :: string where "DEFAULT_HEALTH_LISTEN_ADDR = ''127.0.0.1:46201''"
definition DEFAULT_METRICS_ADDR :: string where "DEFAULT_METRICS_ADDR = ''127.0.0.1:46202''"

definition check_openai :: "openai_settings \<Rightarrow> exn + unit" where
  "check_openai s =
     sum_bind (validate_tunnel_id (oa_tunnel_id s)) (\<lambda>_.
     sum_bind (validate_profile_name (oa_profile_name s)) (\<lambda>_.
     sum_bind (validate_bridge_url (oa_bridge_url s)) (\<lambda>_.
     sum_bind (validate_health_url (oa_tunnel_health_url s)) (\<lambda>_.
     validate_health_listen_addr (oa_health_listen_addr s)))))"

definition check_cloudflare :: "cloudflare_settings \<Rightarrow> exn + unit" where
  "check_cloudflare c =
     sum_bind (validate_public_url (cf_public_url c)) (\<lambda>_.
     sum_bind (validate_origin_url (cf_origin_url c)) (\<lambda>_.
     validate_metrics_addr (cf_metrics_addr c)))"
text \<open>\<open>Path.parent\<close> of an absolute path below the root.\<close>

definition parent_dir :: "string \<Rightarrow> string" where
  "parent_dir p = opt_text (fst (rpartition_at (CHR ''/'') p))"

definition env_source :: "ext \<Rightarrow> runtime_paths \<Rightarrow> string option \<Rightarrow> ('z io_scheme, exn, string) M" where
  "env_source X paths env_file =
     (case env_file of
        None \<Rightarrow> ret (rt_tunnel_env paths)
      | Some f \<Rightarrow> andthen (fs_text X ''expanduser'' f) (\<lambda>p. fs_text X ''resolve'' p))"

definition openai_profile_dir ::
  "ext \<Rightarrow> runtime_paths \<Rightarrow> string \<Rightarrow> string \<Rightarrow> ('z io_scheme, exn, string) M" where
  "openai_profile_dir X paths source v =
     (if v = [] then ret (rt_tunnel_dir paths)
      else
        andthen (fs_text X ''expanduser'' v) (\<lambda>p.
        andthen (fs_ask X ''is_absolute'' p) (\<lambda>absolute.
        fs_text X ''resolve'' (if absolute then p else join_path (parent_dir (parent_dir source)) p))))"

definition load_openai_settings ::
  "ext \<Rightarrow> runtime_paths \<Rightarrow> string option \<Rightarrow> ('z io_scheme, exn, openai_settings) M" where
  "load_openai_settings X paths env_file =
     andthen (env_source X paths env_file) (\<lambda>source.
     andthen (parse_env_file X OpenAITunnel source) (\<lambda>values.
     andthen (if env_value values ''CONTROL_PLANE_TUNNEL_ID'' [] \<noteq> []
              then ret (env_value values ''CONTROL_PLANE_TUNNEL_ID'' [])
              else andthen (environ X ''CONTROL_PLANE_TUNNEL_ID'') (\<lambda>v. ret (opt_text v))) (\<lambda>tunnel_id.
     andthen (openai_profile_dir X paths source (env_value values ''TUNNEL_CLIENT_PROFILE_DIR'' [])) (\<lambda>dir.
     let s = \<lparr>oa_tunnel_id = tunnel_id, oa_profile_name = env_value values ''TUNNEL_CLIENT_PROFILE'' DEFAULT_PROFILE,
              oa_profile_dir = dir, oa_bridge_url = env_value values ''BRIDGE_MCP_URL'' DEFAULT_BRIDGE_URL,
              oa_tunnel_health_url = env_value values ''TUNNEL_HEALTH_URL'' DEFAULT_TUNNEL_HEALTH_URL,
              oa_health_listen_addr = env_value values ''HEALTH_LISTEN_ADDR'' DEFAULT_HEALTH_LISTEN_ADDR,
              oa_env_file = source\<rparr>
     in andthen (lift_sum (check_openai s)) (\<lambda>_. ret s)))))"

definition load_cloudflare_settings ::
  "ext \<Rightarrow> runtime_paths \<Rightarrow> string option \<Rightarrow> ('z io_scheme, exn, cloudflare_settings) M" where
  "load_cloudflare_settings X paths env_file =
     andthen (env_source X paths env_file) (\<lambda>source.
     andthen (parse_env_file X Cloudflare source) (\<lambda>values.
     let s = \<lparr>cf_public_url = env_value values ''CLOUDFLARE_PUBLIC_URL'' [],
              cf_origin_url = env_value values ''CLOUDFLARE_ORIGIN_URL'' DEFAULT_BRIDGE_URL,
              cf_metrics_addr = env_value values ''CLOUDFLARE_METRICS_ADDR'' DEFAULT_METRICS_ADDR,
              cf_env_file = source\<rparr>
     in andthen (lift_sum (check_cloudflare s)) (\<lambda>_. ret s)))"

definition load_provider_settings ::
  "ext \<Rightarrow> runtime_paths \<Rightarrow> provider \<Rightarrow> string option \<Rightarrow> ('z io_scheme, exn, tunnel_settings) M" where
  "load_provider_settings X paths p env_file =
     (case p of
        OpenAITunnel \<Rightarrow> andthen (load_openai_settings X paths env_file) (\<lambda>s. ret (OpenAISettings s))
      | Cloudflare \<Rightarrow> andthen (load_cloudflare_settings X paths env_file) (\<lambda>s. ret (CloudflareSettings s)))"

definition settings_env_file :: "tunnel_settings \<Rightarrow> string" where
  "settings_env_file t = (case t of OpenAISettings s \<Rightarrow> oa_env_file s | CloudflareSettings s \<Rightarrow> cf_env_file s)"

definition settings_bridge_url :: "tunnel_settings \<Rightarrow> string" where
  "settings_bridge_url t = (case t of OpenAISettings s \<Rightarrow> oa_bridge_url s | CloudflareSettings s \<Rightarrow> cf_origin_url s)"

definition settings_ready_url :: "tunnel_settings \<Rightarrow> string" where
  "settings_ready_url t =
     (case t of
        OpenAISettings s \<Rightarrow> rstrip_by (\<lambda>c. c = CHR ''/'') (oa_tunnel_health_url s) @ ''/readyz''
      | CloudflareSettings s \<Rightarrow> ''http://'' @ cf_metrics_addr s @ ''/ready'')"

section \<open>The client profile\<close>

definition quoted_line :: "string \<Rightarrow> rx list \<Rightarrow> rx list" where
  "quoted_line key body =
     [Star is_space, Lit key, Star is_space, Perhaps is_quote] @ body @ [Perhaps is_quote, Star is_space]"

definition profile_path :: "ext \<Rightarrow> openai_settings \<Rightarrow> ('z io_scheme, exn, string) M" where
  "profile_path X s =
     (let yaml = join_path (oa_profile_dir s) (oa_profile_name s @ ''.yaml'');
          yml = join_path (oa_profile_dir s) (oa_profile_name s @ ''.yml'')
      in andthen (fs_ask X ''is_file'' yaml) (\<lambda>b.
         if b then ret yaml else andthen (fs_ask X ''is_file'' yml) (\<lambda>b'. ret (if b' then yml else yaml))))"

definition profile_urls :: "string \<Rightarrow> string list" where
  "profile_urls content =
     find_all True ([Star is_space, Opt [Lit ''-'', Star is_space], Lit ''url:'', Star is_space, Perhaps is_quote,
       Grab (\<lambda>c. \<not> is_space c \<and> \<not> is_quote c), Perhaps is_quote, Star is_space]) True content"

definition check_profile :: "openai_settings \<Rightarrow> string \<Rightarrow> exn + unit" where
  "check_profile s content =
     sum_bind (refuse_unless (search_lines True (quoted_line ''tunnel_id:'' [Lit (oa_tunnel_id s)]) content)
       ''Tunnel profile tunnel_id does not match configured tunnel_id'') (\<lambda>_.
     sum_bind (refuse_unless
         (list_ex (\<lambda>host. search_lines True (quoted_line ''base_url:'' [Lit (''https://'' @ host @ ''.openai.com'')]) content)
           [''api'', ''mtls''])
       ''Tunnel profile control plane is not an allowed OpenAI endpoint'') (\<lambda>_.
     sum_bind (refuse_unless
         (search_lines True (quoted_line ''api_key:'' [Lit ''env:CONTROL_PLANE_API_KEY'']) content)
       ''Tunnel profile must reference env:CONTROL_PLANE_API_KEY'') (\<lambda>_.
     sum_bind (refuse_unless (\<not> search_lines True [Star is_space, Lit ''commands:'', Star is_space] content)
       ''stdio tunnel commands are not allowed'') (\<lambda>_.
     refuse_unless (profile_urls content = [oa_bridge_url s])
       ''Tunnel profile must contain exactly the configured Bridge MCP URL''))))"

definition validate_openai_config :: "ext \<Rightarrow> openai_settings \<Rightarrow> ('z io_scheme, exn, string) M" where
  "validate_openai_config X s =
     andthen (profile_path X s) (\<lambda>profile.
     andthen (fs_ask X ''is_file'' profile) (\<lambda>b.
     andthen (require b (LifecycleErr (''Tunnel profile not found: '' @ profile @ ''; run '' @ quoted ''codemcp-remote init''))) (\<lambda>_.
     andthen (read_text X profile) (\<lambda>content.
     andthen (lift_sum (check_profile s content)) (\<lambda>_. ret profile)))))"

definition validate_cloudflare_config :: "ext \<Rightarrow> cloudflare_settings \<Rightarrow> ('z io_scheme, exn, string) M" where
  "validate_cloudflare_config X s =
     andthen (lift_sum (check_cloudflare s)) (\<lambda>_.
     andthen (fs_ask X ''is_file'' (cf_env_file s)) (\<lambda>b.
     andthen (require b (LifecycleErr (''Cloudflare transport environment file not found: '' @ cf_env_file s))) (\<lambda>_.
     andthen (read_text X (cf_env_file s)) (\<lambda>content.
     andthen (require (\<not> search_lines False [Star is_space, LitI ''TUNNEL_TOKEN'', Star is_space, Lit ''=''] content)
       (LifecycleErr (''TUNNEL_TOKEN must never be stored in '' @ cf_env_file s))) (\<lambda>_.
     ret (cf_env_file s))))))"

definition validate_provider_config :: "ext \<Rightarrow> tunnel_settings \<Rightarrow> ('z io_scheme, exn, string) M" where
  "validate_provider_config X t =
     (case t of
        OpenAISettings s \<Rightarrow> validate_openai_config X s
      | CloudflareSettings s \<Rightarrow> validate_cloudflare_config X s)"

section \<open>Clients\<close>

fun first_client :: "ext \<Rightarrow> string \<Rightarrow> string list \<Rightarrow> ('z io_scheme, exn, string) M" where
  "first_client X msg [] = raise (LifecycleErr msg)"
| "first_client X msg (c # cs) =
     andthen (fs_ask X ''is_file'' c) (\<lambda>b. if b then fs_text X ''resolve'' c else first_client X msg cs)"

definition find_client :: "ext \<Rightarrow> runtime_paths \<Rightarrow> provider \<Rightarrow> ('z io_scheme, exn, string) M" where
  "find_client X paths p =
     (let beside = (\<lambda>name. join_path (rt_runtime_root paths) name);
          bundled = (\<lambda>name. join_path (join_path (rt_bundled_runtime_root paths) ''bin'') name)
      in case p of
           OpenAITunnel \<Rightarrow>
             andthen (ask (FsCall ''which'' ''tunnel-client'')) (\<lambda>h.
             first_client X ''tunnel-client was not found beside the executable or on PATH''
               ([beside ''tunnel-client.exe'', beside ''tunnel-client'']
                @ (if is_given (x_lookup X h) then [opt_text (x_lookup X h)] else [])))
         | Cloudflare \<Rightarrow>
             (let executable = (if x_windows X then ''cloudflared.exe'' else ''cloudflared'') in
              andthen (ask (FsCall ''which'' ''cloudflared'')) (\<lambda>h.
              first_client X ''cloudflared was not found in the bundled runtime, beside the executable, or on PATH''
                ([bundled executable, beside executable]
                 @ (if x_windows X then [beside ''cloudflared''] else [])
                 @ (if is_given (x_lookup X h) then [opt_text (x_lookup X h)] else [])))))"

section \<open>Initial configuration\<close>

definition env_line :: "string \<times> string \<Rightarrow> string" where
  "env_line kv = fst kv @ ''='' @ snd kv"

definition write_env_file ::
  "ext \<Rightarrow> runtime_paths \<Rightarrow> bool \<Rightarrow> (string \<times> string) list \<Rightarrow> ('z io_scheme, exn, string list) M" where
  "write_env_file X paths force entries =
     andthen (if force then ret False else fs_ask X ''exists'' (rt_tunnel_env paths)) (\<lambda>present.
     if present then ret []
     else
       andthen (ask (FsWrite (rt_tunnel_env paths)
         (encode_str (join_with [lf] (map env_line entries @ [[]]))))) (\<lambda>h.
       andthen (require (x_ok X h) OsErr) (\<lambda>_. ret [rt_tunnel_env paths])))"

definition initialize_openai ::
  "ext \<Rightarrow> runtime_paths \<Rightarrow> openai_settings \<Rightarrow> bool \<Rightarrow> ('z io_scheme, exn, string list) M" where
  "initialize_openai X paths s force =
     andthen (lift_sum (check_openai s)) (\<lambda>_.
     write_env_file X paths force
       [(''CONTROL_PLANE_TUNNEL_ID'', oa_tunnel_id s), (''TUNNEL_CLIENT_PROFILE'', oa_profile_name s),
        (''TUNNEL_CLIENT_PROFILE_DIR'', rt_tunnel_dir paths), (''BRIDGE_MCP_URL'', oa_bridge_url s),
        (''HEALTH_LISTEN_ADDR'', oa_health_listen_addr s), (''TUNNEL_HEALTH_URL'', oa_tunnel_health_url s)])"

definition initialize_cloudflare ::
  "ext \<Rightarrow> runtime_paths \<Rightarrow> cloudflare_settings \<Rightarrow> bool \<Rightarrow> ('z io_scheme, exn, string list) M" where
  "initialize_cloudflare X paths s force =
     andthen (lift_sum (check_cloudflare s)) (\<lambda>_.
     write_env_file X paths force
       [(''CLOUDFLARE_PUBLIC_URL'', cf_public_url s), (''CLOUDFLARE_ORIGIN_URL'', cf_origin_url s),
        (''CLOUDFLARE_METRICS_ADDR'', cf_metrics_addr s)])"

section \<open>Redaction\<close>

definition bearer_char :: "char \<Rightarrow> bool" where
  "bearer_char c = (is_alnum c \<or> c \<in> set ''._~+/=-'')"

definition key_char :: "char \<Rightarrow> bool" where
  "key_char c = (\<not> is_space c \<and> c \<noteq> CHR '','' \<and> c \<noteq> CHR '';'')"

definition redact_bearer :: "string \<Rightarrow> string" where
  "redact_bearer = sub_all True [] [LitI ''bearer'', AtLeast 1 is_space, AtLeast 1 bearer_char] ''Bearer <redacted>'' False"

definition redact_assignment :: "string list \<Rightarrow> string \<Rightarrow> string" where
  "redact_assignment names =
     sub_all False [OneOfI names, Star is_space, One (\<lambda>c. c = CHR '':'' \<or> c = CHR ''=''), Star is_space] [AtLeast 1 key_char]
       ''<redacted>'' False"

definition redact_sk :: "string \<Rightarrow> string" where
  "redact_sk = sub_all True [] [LitI ''sk-'', AtLeast 8 id_char] ''<redacted-api-key>'' False"

definition redact :: "provider \<Rightarrow> string \<Rightarrow> string" where
  "redact p v =
     (case p of
        OpenAITunnel \<Rightarrow>
          redact_sk (redact_assignment [''CONTROL_PLANE_API_KEY'', ''OPENAI_API_KEY'', ''API_KEY'', ''AUTHORIZATION'',
            ''ACCESS_TOKEN'', ''REFRESH_TOKEN'', ''TOKEN''] (redact_bearer v))
      | Cloudflare \<Rightarrow>
          redact_assignment [''TUNNEL_TOKEN'', ''CLOUDFLARE_TUNNEL_TOKEN'', ''AUTHORIZATION'', ''ACCESS_TOKEN'',
            ''REFRESH_TOKEN'', ''TOKEN''] (redact_bearer v))"

end
