(* ===== verification/Processes.thy ===== *)
theory Processes
  imports Transports
begin

text \<open>
  The processes of \<open>lifecycle.py\<close>: how a process is recognised again, what is recorded of it in the state
  file, how it is stopped, and the commands \<open>status\<close> and \<open>stop\<close>.  The recorded state is the JSON object of
  the state file.  A question to \<open>ps\<close> or to the Windows process table is a question to the file system here; a
  \<open>UnicodeDecodeError\<close> of a file is outside the model.
\<close>

section \<open>Values of the state file\<close>

definition digit_groups_ok :: "string \<Rightarrow> bool" where
  "digit_groups_ok s = list_all (\<lambda>g. g \<noteq> [] \<and> list_all is_digit g) (split_on (CHR ''_'') s)"

text \<open>\<open>int(s)\<close> of a text.\<close>

definition int_of_text :: "string \<Rightarrow> exn + int" where
  "int_of_text s =
     (let t = strip s; sign = take 1 t; body = (if sign = ''-'' \<or> sign = ''+'' then tl t else t) in
      if \<not> digit_groups_ok body then Inl (ValueErr ''invalid literal for int() with base 10'')
      else (let n = int (digits_value (filter (\<lambda>c. c \<noteq> CHR ''_'') body)) in Inr (if sign = ''-'' then - n else n)))"

text \<open>\<open>int(state.get(key, 0))\<close>.\<close>

definition state_int :: "json \<Rightarrow> string \<Rightarrow> exn + int" where
  "state_int state key =
     (case jget state key of
        None \<Rightarrow> Inr 0
      | Some (JInt i) \<Rightarrow> Inr i
      | Some (JBool b) \<Rightarrow> Inr (if b then 1 else 0)
      | Some (JStr s) \<Rightarrow> int_of_text s
      | _ \<Rightarrow> Inl (TypeErr ''int() argument must be a string or a number''))"

text \<open>\<open>str(current) == str(marker)\<close>; no other value prints as a marker does.\<close>

definition same_marker :: "string \<Rightarrow> json \<Rightarrow> bool" where
  "same_marker current marker =
     (case marker of JStr s \<Rightarrow> s = current | JInt i \<Rightarrow> decimal_int i = current | _ \<Rightarrow> False)"

definition field_of :: "string \<Rightarrow> string \<Rightarrow> string" where
  "field_of category name = category @ ''_'' @ name"

section \<open>Recognising a process\<close>

definition ps_value :: "ext \<Rightarrow> int \<Rightarrow> string \<Rightarrow> ('z io_scheme, exn, string option) M" where
  "ps_value X pid field =
     andthen (ask (FsCall (''ps '' @ field) (decimal_int pid))) (\<lambda>h.
     ret (case x_proc X h of
            Exited c out err \<Rightarrow>
              if c \<noteq> 0 then None
              else (let v = join_with '' '' (words out) in if v = [] then None else Some v)
          | _ \<Rightarrow> None))"

definition stat_field :: "string \<Rightarrow> string option" where
  "stat_field content =
     (case rpartition_at (CHR '')'') content of
        (Some _, rest_of) \<Rightarrow>
          if length (words rest_of) > 19 then Some (''proc-start:'' @ words rest_of ! 19) else None
      | (None, _) \<Rightarrow> None)"

definition labelled_start :: "string \<Rightarrow> string option \<Rightarrow> string option" where
  "labelled_start label v = map_option (\<lambda>s. label @ s) v"

definition process_marker :: "ext \<Rightarrow> int \<Rightarrow> ('z io_scheme, exn, string option) M" where
  "process_marker X pid =
     (if x_windows X then
        andthen (ask (FsCall ''process_times'' (decimal_int pid))) (\<lambda>h. ret (x_lookup X h))
      else if pid \<le> 0 then ret None
      else if x_darwin X then
        andthen (ps_value X pid ''lstart'') (\<lambda>v. ret (labelled_start ''darwin-lstart:'' v))
      else
        andthen (ask (FsCall ''read_text'' (''/proc/'' @ decimal_int pid @ ''/stat''))) (\<lambda>h.
        case (case x_lookup X h of None \<Rightarrow> None | Some content \<Rightarrow> stat_field content) of
          Some m \<Rightarrow> ret (Some m)
        | None \<Rightarrow> andthen (ps_value X pid ''lstart'') (\<lambda>v. ret (labelled_start ''posix-lstart:'' v))))"

definition process_executable_identity :: "ext \<Rightarrow> int \<Rightarrow> ('z io_scheme, exn, string option) M" where
  "process_executable_identity X pid =
     (if pid \<le> 0 \<or> x_windows X then ret None
      else
        (let exe = ''/proc/'' @ decimal_int pid @ ''/exe'' in
         andthen (fs_ask X ''exists'' exe) (\<lambda>present.
         andthen (if present
                  then andthen (ask (FsCall ''resolve_strict'' exe)) (\<lambda>h. ret (x_lookup X h))
                  else ret None) (\<lambda>resolved.
         case resolved of
           Some p \<Rightarrow> ret (Some p)
         | None \<Rightarrow>
             andthen (ps_value X pid ''comm'') (\<lambda>executable.
             case executable of
               None \<Rightarrow> ret None
             | Some c \<Rightarrow>
                 andthen (fs_ask X ''is_absolute'' c) (\<lambda>absolute.
                 if absolute then andthen (fs_text X ''resolve'' c) (\<lambda>r. ret (Some r)) else ret (Some c)))))))"

definition process_group_id :: "ext \<Rightarrow> int \<Rightarrow> ('z io_scheme, exn, int option) M" where
  "process_group_id X pid =
     (if x_windows X \<or> pid \<le> 0 then ret None
      else andthen (ask (ProcessGroup pid)) (\<lambda>h. ret (x_int X h)))"

definition safe_group :: "ext \<Rightarrow> int \<Rightarrow> bool" where
  "safe_group X g = (1 < g \<and> g \<noteq> x_own_group X)"

definition set_field :: "json \<Rightarrow> string \<Rightarrow> json \<Rightarrow> json" where
  "set_field j k v = (case j of JObj kvs \<Rightarrow> JObj (with_field kvs k v) | _ \<Rightarrow> j)"

text \<open>The state with the process recorded; a process that cannot be recognised again is refused.\<close>

definition capture_process_state ::
  "ext \<Rightarrow> json \<Rightarrow> string \<Rightarrow> int \<Rightarrow> ('z io_scheme, exn, json) M" where
  "capture_process_state X state category pid =
     andthen (process_marker X pid) (\<lambda>marker.
     case marker of
       None \<Rightarrow> raise (LifecycleErr (''cannot establish '' @ category @ '' process start marker for PID '' @ decimal_int pid))
     | Some m \<Rightarrow>
         let recorded = set_field (set_field state (field_of category ''pid'') (JInt pid))
               (field_of category ''process_marker'') (JStr m)
         in if x_windows X then ret recorded
            else
              andthen (process_group_id X pid) (\<lambda>pgid.
              andthen (process_executable_identity X pid) (\<lambda>executable.
              case pgid of
                None \<Rightarrow> raise (LifecycleErr (''cannot establish a safe '' @ category @ '' process group for PID '' @ decimal_int pid))
              | Some g \<Rightarrow>
                  if \<not> safe_group X g
                  then raise (LifecycleErr (''cannot establish a safe '' @ category @ '' process group for PID '' @ decimal_int pid))
                  else
                    (case executable of
                       None \<Rightarrow> raise (LifecycleErr (''cannot establish '' @ category @ '' executable identity for PID '' @ decimal_int pid))
                     | Some e \<Rightarrow>
                         ret (set_field (set_field recorded (field_of category ''pgid'') (JInt g))
                               (field_of category ''executable_identity'') (JStr e))))))"

definition matches_process_marker :: "ext \<Rightarrow> int \<Rightarrow> json option \<Rightarrow> ('z io_scheme, exn, bool) M" where
  "matches_process_marker X pid marker =
     (case marker of
        None \<Rightarrow> ret False
      | Some m \<Rightarrow>
          if pid \<le> 0 \<or> m = JNull then ret False
          else
            andthen (process_marker X pid) (\<lambda>current.
            ret (case current of None \<Rightarrow> False | Some c \<Rightarrow> same_marker c m)))"

text \<open>The version and group that are recorded; a value that is no number counts as none.\<close>

definition recorded_group :: "json \<Rightarrow> string \<Rightarrow> (int \<times> int) option" where
  "recorded_group state category =
     (case (state_int state ''version'', state_int state (field_of category ''pgid'')) of
        (Inr v, Inr g) \<Rightarrow> Some (v, g)
      | _ \<Rightarrow> None)"

definition state_process_owned :: "ext \<Rightarrow> json \<Rightarrow> string \<Rightarrow> ('z io_scheme, exn, bool) M" where
  "state_process_owned X state category =
     andthen (lift_sum (state_int state (field_of category ''pid''))) (\<lambda>pid.
     andthen (matches_process_marker X pid (jget state (field_of category ''process_marker''))) (\<lambda>same.
     if \<not> same then ret False
     else if x_windows X then ret True
     else
       (case recorded_group state category of
          None \<Rightarrow> ret False
        | Some (version, pgid) \<Rightarrow>
            if version \<noteq> 2 \<or> \<not> safe_group X pgid then ret False
            else
              andthen (process_group_id X pid) (\<lambda>actual.
              if actual \<noteq> Some pgid then ret False
              else
                (case jstr_of (jget state (field_of category ''executable_identity'')) of
                   None \<Rightarrow> ret False
                 | Some expected \<Rightarrow>
                     if expected = [] then ret False
                     else
                       andthen (process_executable_identity X pid) (\<lambda>identity.
                       ret (identity = Some expected)))))))"

section \<open>Stopping a process\<close>

definition SIGTERM :: int where "SIGTERM = 15"
definition SIGKILL :: int where "SIGKILL = 9"

definition monotonic :: "ext \<Rightarrow> ('z io_scheme, exn, nat) M" where
  "monotonic X = andthen (ask Monotonic) (\<lambda>h. ret (x_time X h))"

text \<open>\<open>os.killpg\<close>: whether the group is still there.\<close>

definition kill_group :: "ext \<Rightarrow> int \<Rightarrow> int \<Rightarrow> ('z io_scheme, exn, bool) M" where
  "kill_group X pgid sig =
     andthen (ask (KillGroup pgid sig)) (\<lambda>h.
     case x_kill X h of
       Signalled \<Rightarrow> ret True
     | NoSuchProcess \<Rightarrow> ret False
     | KillRefused \<Rightarrow> raise OsErr)"

text \<open>The loop that waits for the process to go: \<open>True\<close> when it has gone, \<open>False\<close> at the deadline.\<close>

fun wait_gone :: "nat \<Rightarrow> ext \<Rightarrow> json \<Rightarrow> string \<Rightarrow> nat \<Rightarrow> ('z io_scheme, exn, bool) M" where
  "wait_gone 0 X state category deadline = raise Stuck"
| "wait_gone (Suc n) X state category deadline =
     andthen (monotonic X) (\<lambda>now.
     if now \<ge> deadline then ret False
     else
       andthen (state_process_owned X state category) (\<lambda>owned.
       if \<not> owned then ret True
       else andthen (ask Sleep) (\<lambda>_. wait_gone n X state category deadline)))"

text \<open>Milliseconds; a round takes at least one of them.\<close>

definition TERMINATE_TIMEOUT_MS :: nat where "TERMINATE_TIMEOUT_MS = 5000"

definition terminate_windows :: "ext \<Rightarrow> int \<Rightarrow> ('z io_scheme, exn, bool) M" where
  "terminate_windows X pid =
     andthen (ask (TaskKill pid)) (\<lambda>h.
     case x_proc X h of
       Exited c out err \<Rightarrow>
         if c \<noteq> 0 \<and> c \<noteq> 128
         then raise (LifecycleErr (''failed to stop PID '' @ decimal_int pid @ '': '' @ strip err))
         else ret True
     | SpawnFailed \<Rightarrow> raise OsErr
     | TimedOut \<Rightarrow> raise OtherErr)"

text \<open>After \<open>SIGTERM\<close>: the wait, the last check, and \<open>SIGKILL\<close>.\<close>

definition terminate_posix :: "ext \<Rightarrow> json \<Rightarrow> string \<Rightarrow> int \<Rightarrow> ('z io_scheme, exn, unit) M" where
  "terminate_posix X state category pgid =
     andthen (kill_group X pgid SIGTERM) (\<lambda>present.
     if \<not> present then ret ()
     else
       andthen (monotonic X) (\<lambda>now.
       andthen (wait_gone (TERMINATE_TIMEOUT_MS + 2) X state category (now + TERMINATE_TIMEOUT_MS)) (\<lambda>gone.
       if gone then ret ()
       else
         andthen (state_process_owned X state category) (\<lambda>owned.
         if \<not> owned then ret ()
         else andthen (kill_group X pgid SIGKILL) (\<lambda>_. ret ())))))"

definition terminate_state_process :: "ext \<Rightarrow> json \<Rightarrow> string \<Rightarrow> ('z io_scheme, exn, bool) M" where
  "terminate_state_process X state category =
     andthen (lift_sum (state_int state (field_of category ''pid''))) (\<lambda>pid.
     andthen (state_process_owned X state category) (\<lambda>owned.
     if \<not> owned then ret False
     else if x_windows X then terminate_windows X pid
     else
       andthen (lift_sum (state_int state (field_of category ''pgid''))) (\<lambda>pgid.
       andthen (state_process_owned X state category) (\<lambda>again.
       if \<not> again then ret False
       else andthen (terminate_posix X state category pgid) (\<lambda>_. ret True)))))"

definition terminate_tree :: "ext \<Rightarrow> int \<Rightarrow> ('z io_scheme, exn, unit) M" where
  "terminate_tree X pid =
     andthen (try_lifecycle (capture_process_state X
       (JObj [(''version'', JInt (if x_windows X then 1 else 2))]) ''process'' pid)) (\<lambda>captured.
     case captured of
       Inl _ \<Rightarrow> ret ()
     | Inr state \<Rightarrow> andthen (terminate_state_process X state ''process'') (\<lambda>_. ret ()))"

section \<open>Stopping the services\<close>

definition read_state :: "ext \<Rightarrow> runtime_paths \<Rightarrow> ('z io_scheme, exn, json option) M" where
  "read_state X paths = andthen (ask (FsCall ''load_json'' (rt_state_file paths))) (\<lambda>h. ret (x_json X h))"

text \<open>\<open>state.get\<close> of a document that is no object is an \<open>AttributeError\<close>.\<close>

definition require_object :: "json \<Rightarrow> ('z io_scheme, exn, unit) M" where
  "require_object state = require (is_jobj state) OtherErr"

definition stop_action :: "string \<Rightarrow> json \<Rightarrow> string \<Rightarrow> json" where
  "stop_action category pid status =
     JObj [(''service'', JStr category), (''pid'', pid), (''status'', JStr status)]"

definition stop_service :: "ext \<Rightarrow> json \<Rightarrow> string \<Rightarrow> ('z io_scheme, exn, json) M" where
  "stop_service X state category =
     andthen (lift_sum (state_int state (field_of category ''pid''))) (\<lambda>pid.
     andthen (if pid \<le> 0 then ret False else state_process_owned X state category) (\<lambda>owned.
     if \<not> owned then ret (stop_action category (if pid = 0 then JNull else JInt pid) ''not_owned'')
     else
       andthen (terminate_state_process X state category) (\<lambda>stopped.
       ret (stop_action category (JInt pid) (if stopped then ''stopped'' else ''not_owned'')))))"

definition stop_services :: "ext \<Rightarrow> runtime_paths \<Rightarrow> ('z io_scheme, exn, json) M" where
  "stop_services X paths =
     andthen (fs_ask X ''is_file'' (rt_state_file paths)) (\<lambda>present.
     if \<not> present
     then ret (JObj [(''status'', JStr ''ok''), (''actions'', JList []), (''note'', JStr ''already stopped'')])
     else
       andthen (read_state X paths) (\<lambda>loaded.
       case loaded of
         None \<Rightarrow> raise (LifecycleErr ''cannot read lifecycle state: '')
       | Some state \<Rightarrow>
           andthen (require_object state) (\<lambda>_.
           andthen (stop_service X state ''tunnel'') (\<lambda>tunnel.
           andthen (stop_service X state ''bridge'') (\<lambda>bridge.
           andthen (fs_ask X ''unlink'' (rt_state_file paths)) (\<lambda>ok.
           andthen (require ok OsErr) (\<lambda>_.
           ret (JObj [(''status'', JStr ''ok''), (''actions'', JList [tunnel, bridge])]))))))))"

section \<open>Waiting for an endpoint\<close>

text \<open>A check of an endpoint: whether it answers, and the report.  The text of an error is left out.\<close>

definition http_check :: "ext \<Rightarrow> string \<Rightarrow> string option \<Rightarrow> ('z io_scheme, exn, bool \<times> json) M" where
  "http_check X url host =
     andthen (ask (HttpGet url host)) (\<lambda>h.
     ret (if x_ok X h
          then (True, JObj [(''status'', JStr ''ok''), (''status_code'', (case x_int X h of None \<Rightarrow> JNull | Some c \<Rightarrow> JInt c)),
                            (''url'', JStr url)])
          else (False, JObj [(''status'', JStr ''unreachable''), (''status_code'', JNull), (''url'', JStr url)])))"

text \<open>\<open>_http_json_check(url).get("data")\<close>: the object the endpoint answers, if it does.\<close>

definition http_json_data :: "ext \<Rightarrow> string \<Rightarrow> string option \<Rightarrow> ('z io_scheme, exn, json option) M" where
  "http_json_data X url host =
     andthen (ask (HttpGet url host)) (\<lambda>h.
     ret (case x_http X h of Some d \<Rightarrow> if is_jobj d then Some d else None | None \<Rightarrow> None))"

fun wait_loop ::
  "nat \<Rightarrow> ext \<Rightarrow> string \<Rightarrow> string option \<Rightarrow> int \<Rightarrow> nat \<Rightarrow> json \<Rightarrow> ('z io_scheme, exn, bool \<times> json) M" where
  "wait_loop 0 X url host pid deadline last_check = raise Stuck"
| "wait_loop (Suc n) X url host pid deadline last_check =
     andthen (monotonic X) (\<lambda>now.
     if now \<ge> deadline
     then ret (False, JObj [(''status'', JStr ''timeout''), (''url'', JStr url), (''last_check'', last_check)])
     else
       andthen (ask (PollProcess pid)) (\<lambda>h.
       case x_int X h of
         Some c \<Rightarrow>
           ret (False, JObj [(''status'', JStr ''failed''), (''url'', JStr url),
             (''error'', JStr ''process exited before endpoint became healthy''), (''exit_code'', JInt c),
             (''last_check'', last_check)])
       | None \<Rightarrow>
           andthen (http_check X url host) (\<lambda>(ok, check).
           if ok then ret (True, check)
           else andthen (ask Sleep) (\<lambda>_. wait_loop n X url host pid deadline check))))"

definition wait_endpoint ::
  "ext \<Rightarrow> string \<Rightarrow> string option \<Rightarrow> int \<Rightarrow> nat \<Rightarrow> ('z io_scheme, exn, bool \<times> json) M" where
  "wait_endpoint X url host pid timeout =
     andthen (monotonic X) (\<lambda>now. wait_loop (timeout + 2) X url host pid (now + timeout) JNull)"

end
