(* ===== verification/Startup.thy ===== *)
theory Startup
  imports Processes
begin

text \<open>
  Starting the services: \<open>status_services\<close> and \<open>start_services\<close> of \<open>lifecycle.py\<close>, with the recovery of a
  half-running installation, the check that a public tunnel has an authenticated or a trusted origin, and
  the clean-up after a failure.  A message that ends with the report of a check is given without it.
\<close>

section \<open>Files and children\<close>

definition indent :: "nat \<Rightarrow> string" where
  "indent n = lf # replicate n (CHR '' '')"

text \<open>\<open>json.dumps(v, ensure_ascii=False, indent=2)\<close>.\<close>

fun render_indent :: "nat \<Rightarrow> json \<Rightarrow> string" where
  "render_indent d (JList (x # xs)) =
     ''['' @ indent (d + 2) @ join_with ('','' @ indent (d + 2)) (map (render_indent (d + 2)) (x # xs)) @ indent d @ '']''"
| "render_indent d (JObj (kv # kvs)) =
     ''{'' @ indent (d + 2)
     @ join_with ('','' @ indent (d + 2)) (map (\<lambda>(k, v). quote k @ '': '' @ render_indent (d + 2) v) (kv # kvs))
     @ indent d @ ''}''"
| "render_indent d j = render j"

definition write_json_atomic :: "ext \<Rightarrow> string \<Rightarrow> string \<Rightarrow> json \<Rightarrow> ('z io_scheme, exn, unit) M" where
  "write_json_atomic X directory path v =
     andthen (make_dir X directory) (\<lambda>_.
     andthen (ask (FsWrite (path @ ''.tmp'') (encode_str (render_indent 0 v)))) (\<lambda>h.
     andthen (require (x_ok X h) OsErr) (\<lambda>_.
     andthen (fs_ask X ''replace'' path) (\<lambda>ok. require ok OsErr))))"

definition self_command :: "ext \<Rightarrow> ('z io_scheme, exn, string list) M" where
  "self_command X =
     andthen (fs_ask X ''is_frozen'' []) (\<lambda>frozen.
     andthen (fs_text X ''sys_executable'' []) (\<lambda>executable.
     ret (executable # (if frozen then [] else [''-m'', ''codemcp_bridge.main'']))))"

text \<open>The process id of the new child; every child runs in the runtime home with its log appended.\<close>

definition popen_background ::
  "ext \<Rightarrow> runtime_paths \<Rightarrow> string list \<Rightarrow> string \<Rightarrow> ('z io_scheme, exn, int) M" where
  "popen_background X paths args log_name =
     andthen (make_dir X (rt_log_dir paths)) (\<lambda>_.
     andthen (fs_ask X ''open_append'' (join_path (rt_log_dir paths) log_name)) (\<lambda>opened.
     andthen (require opened OsErr) (\<lambda>_.
     andthen (ask (Spawn args)) (\<lambda>h.
     case x_int X h of None \<Rightarrow> raise OsErr | Some pid \<Rightarrow> ret pid))))"

definition bridge_health_url :: "string \<Rightarrow> exn + string" where
  "bridge_health_url url =
     sum_bind (split_or_raise url) (\<lambda>u. Inr (u_scheme u @ ''://'' @ u_netloc u @ ''/healthz''))"

definition bridge_probe_host :: "string list \<Rightarrow> string option" where
  "bridge_probe_host hosts = (case hosts of h # _ \<Rightarrow> if h = [] then None else Some h | [] \<Rightarrow> None)"

section \<open>Status\<close>

record service =
  sv_pid :: json
  sv_owned :: bool
  sv_healthy :: bool
  sv_health :: json

record services_status =
  st_status :: string
  st_bridge :: "service option"
  st_tunnel :: "service option"
  st_report :: "(string \<times> json) list"

definition or_null :: "json option \<Rightarrow> json" where
  "or_null j = (case j of None \<Rightarrow> JNull | Some v \<Rightarrow> v)"

definition service_json :: "service \<Rightarrow> json" where
  "service_json s = JObj [(''pid'', sv_pid s), (''owned'', JBool (sv_owned s)), (''health'', sv_health s)]"

text \<open>\<open>str(state.get(key, default))\<close>; a list or an object there is outside the model.\<close>

definition state_text :: "json \<Rightarrow> string \<Rightarrow> string \<Rightarrow> string" where
  "state_text state key fallback =
     (case jget state key of
        None \<Rightarrow> fallback
      | Some (JStr s) \<Rightarrow> s
      | Some (JInt i) \<Rightarrow> decimal_int i
      | Some (JBool b) \<Rightarrow> (if b then ''True'' else ''False'')
      | _ \<Rightarrow> ''None'')"

definition no_registry :: "(string \<times> json) list" where
  "no_registry =
     [(''status'', JStr ''unavailable''), (''generation'', JNull), (''reload_status'', JNull),
      (''last_reload_error'', JNull), (''projects_registered'', JNull)]"

definition registry_report :: "json option \<Rightarrow> (string \<times> json) list" where
  "registry_report live =
     (case live of
        None \<Rightarrow> no_registry
      | Some d \<Rightarrow>
          (case jget d ''project_registry'' of
             Some (JObj kvs) \<Rightarrow>
               [(''status'', JStr ''ok''), (''generation'', or_null (map_of kvs ''generation'')),
                (''reload_status'', or_null (map_of kvs ''reload_status'')),
                (''last_reload_error'', or_null (map_of kvs ''last_reload_error'')),
                (''projects_registered'',
                   (case jget d ''projects_registered'' of Some (JInt n) \<Rightarrow> JInt n | _ \<Rightarrow> JNull))]
           | _ \<Rightarrow> no_registry))"

definition profile_fields :: "profile_status \<Rightarrow> (string \<times> json) list" where
  "profile_fields ps =
     [(''auth'', JObj (ps_auth ps)), (''network_trust'', ps_network_trust ps),
      (''identity_level'', JStr (ps_identity_level ps)), (''security_profile'', JStr (ps_profile ps))]"

definition location_fields :: "runtime_paths \<Rightarrow> (string \<times> json) list" where
  "location_fields paths =
     [(''state_file'', JStr (rt_state_file paths)), (''paths'', runtime_path_status paths)]"

definition not_running :: "string \<Rightarrow> (string \<times> json) list \<Rightarrow> services_status" where
  "not_running status entries =
     \<lparr>st_status = status, st_bridge = None, st_tunnel = None, st_report = (''status'', JStr status) # entries\<rparr>"

definition stopped_report ::
  "ext \<Rightarrow> runtime_paths \<Rightarrow> profile_status \<Rightarrow> provider \<Rightarrow> string \<Rightarrow> ('z io_scheme, exn, services_status) M" where
  "stopped_report X paths ps p source =
     andthen (try_settings (load_settings X (rt_bridge_config paths) (rt_projects_config paths))) (\<lambda>loaded.
     ret (not_running ''stopped''
       ([(''transport'', JStr (provider_id p)), (''transport_source'', JStr source)] @ profile_fields ps
        @ [(''project_registry'', JObj
             [(''status'', JStr ''stopped''), (''generation'', JNull), (''reload_status'', JStr ''stopped''),
              (''last_reload_error'', JNull),
              (''projects_registered'',
                 (case loaded of Inl _ \<Rightarrow> JNull | Inr S \<Rightarrow> JInt (int (length (bs_projects S)))))])]
        @ location_fields paths)))"

text \<open>The host a probe names: the first allowed one, when the profile relies on the network alone.\<close>

definition status_probe_host :: "profile_status \<Rightarrow> string option" where
  "status_probe_host ps =
     (if ps_identity_level ps = ''network-only'' then
        (case jget (ps_network_trust ps) ''allowed_hosts'' of
           Some (JList (JStr h # _)) \<Rightarrow> if h = [] then None else Some h
         | _ \<Rightarrow> None)
      else None)"

definition live_report ::
  "ext \<Rightarrow> runtime_paths \<Rightarrow> profile_status \<Rightarrow> provider \<Rightarrow> string \<Rightarrow> json \<Rightarrow> ('z io_scheme, exn, services_status) M" where
  "live_report X paths ps p source state =
     andthen (state_process_owned X state ''bridge'') (\<lambda>bridge_owned.
     andthen (state_process_owned X state ''tunnel'') (\<lambda>tunnel_owned.
     let host = status_probe_host ps; url = state_text state ''bridge_health_url'' DEFAULT_BRIDGE_URL in
     andthen (http_check X url host) (\<lambda>(bridge_ok, bridge_health).
     andthen (if bridge_owned \<and> bridge_ok then http_json_data X url host else ret None) (\<lambda>live.
     andthen (http_check X (state_text state ''tunnel_ready_url'' (DEFAULT_TUNNEL_HEALTH_URL @ ''/readyz'')) None)
       (\<lambda>(tunnel_ok, tunnel_health).
     let running = (bridge_owned \<and> tunnel_owned \<and> bridge_ok \<and> tunnel_ok \<and> ps_status ps \<noteq> ''invalid'');
         status = (if running then ''running'' else ''degraded'');
         bridge = \<lparr>sv_pid = or_null (jget state ''bridge_pid''), sv_owned = bridge_owned, sv_healthy = bridge_ok,
                   sv_health = bridge_health\<rparr>;
         tunnel = \<lparr>sv_pid = or_null (jget state ''tunnel_pid''), sv_owned = tunnel_owned, sv_healthy = tunnel_ok,
                   sv_health = tunnel_health\<rparr>
     in ret \<lparr>st_status = status, st_bridge = Some bridge, st_tunnel = Some tunnel,
             st_report =
               [(''status'', JStr status),
                (''transport'', (case jget state ''transport'' of None \<Rightarrow> JStr (provider_id p) | Some t \<Rightarrow> t)),
                (''transport_source'', JStr source)] @ profile_fields ps
               @ [(''project_registry'', JObj (registry_report live)), (''bridge'', service_json bridge),
                  (''tunnel'', service_json tunnel)] @ location_fields paths\<rparr>)))))"

definition status_services :: "ext \<Rightarrow> runtime_paths \<Rightarrow> ('z io_scheme, exn, services_status) M" where
  "status_services X paths =
     andthen (security_profile_status X paths) (\<lambda>ps.
     andthen (try_lifecycle (load_transport_provider X paths)) (\<lambda>loaded.
     case loaded of
       Inl msg \<Rightarrow> ret (not_running ''unknown'' ((''error'', JStr msg) # location_fields paths))
     | Inr (p, source) \<Rightarrow>
         andthen (fs_ask X ''is_file'' (rt_state_file paths)) (\<lambda>present.
         if \<not> present then stopped_report X paths ps p source
         else
           andthen (read_state X paths) (\<lambda>state.
           case state of
             None \<Rightarrow> ret (not_running ''unknown'' [(''error'', JStr ''cannot read lifecycle state: '')])
           | Some s \<Rightarrow> andthen (require_object s) (\<lambda>_. live_report X paths ps p source s)))))"

section \<open>What may be started\<close>

definition PUBLIC_NO_AUTH_REQUIRES_NETWORK_TRUST :: string where
  "PUBLIC_NO_AUTH_REQUIRES_NETWORK_TRUST = ''PUBLIC_NO_AUTH_REQUIRES_NETWORK_TRUST''"

definition load_security_for :: "ext \<Rightarrow> runtime_paths \<Rightarrow> provider \<Rightarrow> ('z io_scheme, exn, security_settings) M" where
  "load_security_for X paths p =
     handle (load_remote_security_settings X paths)
       (\<lambda>e. case e of
          LifecycleErr msg \<Rightarrow>
            if p = Cloudflare \<and> contains ''auth.mode = none requires'' msg
            then raise (LifecycleErr PUBLIC_NO_AUTH_REQUIRES_NETWORK_TRUST) else raise e
        | _ \<Rightarrow> raise e)"

text \<open>A public tunnel needs OAuth with its secret at hand, or no authentication behind a trusted network.\<close>

definition check_exposure ::
  "ext \<Rightarrow> runtime_paths \<Rightarrow> provider \<Rightarrow> security_settings \<Rightarrow> ('z io_scheme, exn, unit) M" where
  "check_exposure X paths p s =
     (let refuse = raise (LifecycleErr PUBLIC_NO_AUTH_REQUIRES_NETWORK_TRUST) in
      andthen
        (if se_auth_mode s = Some RESOURCE_AUTH_MODE
         then andthen (load_request_authenticator X paths) (\<lambda>_. ret ())
         else if p = Cloudflare \<and> se_auth_mode s \<noteq> Some AUTH_MODE_NONE then refuse else ret ()) (\<lambda>_.
      if p = Cloudflare \<and> se_network_trust s = None
         \<and> (se_auth_mode s = Some AUTH_MODE_NONE \<or> se_auth_mode s = None)
      then refuse else ret ()))"

text \<open>What a start works with.\<close>

record launch =
  la_bridge_path :: string
  la_projects_path :: string
  la_provider :: provider
  la_tunnel :: tunnel_settings
  la_bridge_health :: string
  la_tunnel_ready :: string
  la_probe_host :: "string option"
  la_timeout :: nat

definition given_path :: "ext \<Rightarrow> string option \<Rightarrow> string \<Rightarrow> ('z io_scheme, exn, string) M" where
  "given_path X given fallback = (case given of None \<Rightarrow> ret fallback | Some p \<Rightarrow> fs_text X ''resolve'' p)"

definition prepare_launch ::
  "ext \<Rightarrow> runtime_paths \<Rightarrow> string option \<Rightarrow> string option \<Rightarrow> string option \<Rightarrow> nat \<Rightarrow> ('z io_scheme, exn, launch) M" where
  "prepare_launch X paths bridge_config projects_config env_file timeout =
     andthen (ensure_runtime_dirs X paths) (\<lambda>_.
     andthen (given_path X bridge_config (rt_bridge_config paths)) (\<lambda>bridge_path.
     andthen (given_path X projects_config (rt_projects_config paths)) (\<lambda>projects_path.
     andthen (try_settings (load_settings X bridge_path projects_path)) (\<lambda>loaded.
     case loaded of
       Inl msg \<Rightarrow> raise (LifecycleErr (''Bridge configuration is invalid: '' @ msg))
     | Inr _ \<Rightarrow>
         andthen (load_transport_provider X paths) (\<lambda>(p, _).
         andthen (load_provider_settings X paths p env_file) (\<lambda>tunnel.
         andthen (validate_provider_config X tunnel) (\<lambda>_.
         andthen (load_security_for X paths p) (\<lambda>s.
         andthen (check_exposure X paths p s) (\<lambda>_.
         andthen (transport_secret_value X paths p) (\<lambda>(secret, _).
         andthen (require (is_given secret) (LifecycleErr (secret_env_name p
           @ '' is unavailable; set it in the environment or store it securely''))) (\<lambda>_.
         andthen (lift_sum (bridge_health_url (settings_bridge_url tunnel))) (\<lambda>health.
         ret \<lparr>la_bridge_path = bridge_path, la_projects_path = projects_path, la_provider = p, la_tunnel = tunnel,
              la_bridge_health = health, la_tunnel_ready = settings_ready_url tunnel,
              la_probe_host =
                (if se_auth_mode s = Some AUTH_MODE_NONE
                 then (case se_network_trust s of None \<Rightarrow> None | Some t \<Rightarrow> bridge_probe_host (nt_allowed_hosts t))
                 else None),
              la_timeout = timeout\<rparr>))))))))))))"
section \<open>Starting\<close>

definition serve_args :: "runtime_paths \<Rightarrow> launch \<Rightarrow> string list" where
  "serve_args paths la =
     [''serve'', ''--bridge-config'', la_bridge_path la, ''--projects-config'', la_projects_path la,
      home_option paths, rt_app_root paths]"

definition tunnel_args :: "runtime_paths \<Rightarrow> launch \<Rightarrow> string list" where
  "tunnel_args paths la =
     [''_tunnel'', ''--env-file'', settings_env_file (la_tunnel la), home_option paths, rt_app_root paths]"

definition spawn_self :: "ext \<Rightarrow> runtime_paths \<Rightarrow> string list \<Rightarrow> string \<Rightarrow> ('z io_scheme, exn, int) M" where
  "spawn_self X paths args log_name =
     andthen (self_command X) (\<lambda>self. popen_background X paths (self @ args) log_name)"

definition terminate_if_running :: "ext \<Rightarrow> int \<Rightarrow> ('z io_scheme, exn, unit) M" where
  "terminate_if_running X pid =
     andthen (ask (PollProcess pid)) (\<lambda>h. if x_int X h = None then terminate_tree X pid else ret ())"

text \<open>\<open>except Exception:\<close> stop the children that are still running and raise again.\<close>

definition stopping :: "ext \<Rightarrow> int list \<Rightarrow> ('z io_scheme, exn, 'a) M \<Rightarrow> ('z io_scheme, exn, 'a) M" where
  "stopping X pids m =
     handle m (\<lambda>e. if is_exception e then andthen (for_each pids (terminate_if_running X)) (\<lambda>_. raise e) else raise e)"

definition await_health ::
  "ext \<Rightarrow> string \<Rightarrow> string \<Rightarrow> string option \<Rightarrow> int \<Rightarrow> nat \<Rightarrow> ('z io_scheme, exn, json) M" where
  "await_health X failure url host pid timeout =
     andthen (wait_endpoint X url host pid timeout) (\<lambda>(ok, report).
     andthen (require ok (LifecycleErr failure)) (\<lambda>_. ret report))"

definition await_bridge :: "ext \<Rightarrow> launch \<Rightarrow> int \<Rightarrow> ('z io_scheme, exn, json) M" where
  "await_bridge X la pid =
     await_health X ''Bridge startup failed: '' (la_bridge_health la) (la_probe_host la) pid (la_timeout la)"

definition await_tunnel :: "ext \<Rightarrow> launch \<Rightarrow> int \<Rightarrow> ('z io_scheme, exn, json) M" where
  "await_tunnel X la pid =
     await_health X ''Tunnel startup failed: '' (la_tunnel_ready la) None pid (la_timeout la)"

definition refuse_if_occupied :: "ext \<Rightarrow> string \<Rightarrow> string \<Rightarrow> string option \<Rightarrow> ('z io_scheme, exn, unit) M" where
  "refuse_if_occupied X label url host =
     andthen (http_check X url host) (\<lambda>(ok, _).
     require (\<not> ok) (LifecycleErr (label @ '' health endpoint is already occupied; refusing unsafe takeover'')))"

definition service_started :: "int \<Rightarrow> json \<Rightarrow> json" where
  "service_started pid health =
     JObj [(''status'', JStr ''started''), (''pid'', JInt pid), (''health'', health)]"

definition service_reused :: "service \<Rightarrow> json" where
  "service_reused s = JObj [(''status'', JStr ''reused''), (''pid'', sv_pid s), (''health'', sv_health s)]"

definition started_report :: "json \<Rightarrow> json \<Rightarrow> json" where
  "started_report bridge tunnel =
     JObj [(''status'', JStr ''ok''), (''services'', JObj [(''bridge'', bridge), (''tunnel'', tunnel)])]"

definition store_state :: "ext \<Rightarrow> runtime_paths \<Rightarrow> json \<Rightarrow> ('z io_scheme, exn, unit) M" where
  "store_state X paths state = write_json_atomic X (rt_run_dir paths) (rt_state_file paths) state"

definition fresh_state :: "ext \<Rightarrow> launch \<Rightarrow> json" where
  "fresh_state X la =
     JObj [(''version'', JInt (if x_windows X then 1 else 2)), (''transport'', JStr (provider_id (la_provider la))),
           (''bridge_config'', JStr (la_bridge_path la)), (''projects_config'', JStr (la_projects_path la)),
           (''env_file'', JStr (settings_env_file (la_tunnel la))), (''bridge_health_url'', JStr (la_bridge_health la)),
           (''tunnel_ready_url'', JStr (la_tunnel_ready la))]"

definition start_fresh :: "ext \<Rightarrow> runtime_paths \<Rightarrow> launch \<Rightarrow> ('z io_scheme, exn, json) M" where
  "start_fresh X paths la =
     andthen (refuse_if_occupied X ''Bridge'' (la_bridge_health la) (la_probe_host la)) (\<lambda>_.
     andthen (refuse_if_occupied X ''Tunnel'' (la_tunnel_ready la) None) (\<lambda>_.
     andthen (spawn_self X paths (serve_args paths la) ''bridge-supervisor.log'') (\<lambda>bridge.
     andthen (stopping X [bridge]
       (andthen (await_bridge X la bridge) (\<lambda>bridge_health.
        andthen (spawn_self X paths (tunnel_args paths la) ''tunnel-supervisor.log'') (\<lambda>tunnel.
        ret (bridge_health, tunnel))))) (\<lambda>(bridge_health, tunnel).
     stopping X [tunnel, bridge]
       (andthen (await_tunnel X la tunnel) (\<lambda>tunnel_health.
        andthen (capture_process_state X (fresh_state X la) ''bridge'' bridge) (\<lambda>state.
        andthen (capture_process_state X state ''tunnel'' tunnel) (\<lambda>state'.
        andthen (store_state X paths state') (\<lambda>_.
        ret (started_report (service_started bridge bridge_health) (service_started tunnel tunnel_health)))))))))))"

text \<open>\<open>json.loads(paths.state_file.read_text())\<close>.\<close>

definition load_state :: "ext \<Rightarrow> runtime_paths \<Rightarrow> ('z io_scheme, exn, json) M" where
  "load_state X paths =
     andthen (read_state X paths) (\<lambda>loaded. case loaded of None \<Rightarrow> raise JsonErr | Some s \<Rightarrow> ret s)"

definition old_pid :: "json \<Rightarrow> string \<Rightarrow> ('z io_scheme, exn, int) M" where
  "old_pid state category =
     andthen (require_object state) (\<lambda>_. lift_sum (state_int state (field_of category ''pid'')))"

text \<open>What is left of an owned service is stopped; an endpoint held by another process is not touched.\<close>

definition release :: "ext \<Rightarrow> json \<Rightarrow> string \<Rightarrow> bool \<Rightarrow> ('z io_scheme, exn, unit) M" where
  "release X state category owned =
     andthen (old_pid state category) (\<lambda>pid.
     if owned \<and> 0 < pid then andthen (terminate_state_process X state category) (\<lambda>_. ret ()) else ret ())"

definition refuse_foreign :: "string \<Rightarrow> service \<Rightarrow> ('z io_scheme, exn, unit) M" where
  "refuse_foreign label s =
     require (sv_owned s \<or> \<not> sv_healthy s)
       (LifecycleErr (label @ '' health endpoint is occupied by an unowned process; refusing unsafe takeover''))"

definition reusable :: "service option \<Rightarrow> bool" where
  "reusable s = (case s of None \<Rightarrow> False | Some v \<Rightarrow> sv_owned v \<and> sv_healthy v)"

definition recover_tunnel ::
  "ext \<Rightarrow> runtime_paths \<Rightarrow> launch \<Rightarrow> service \<Rightarrow> service \<Rightarrow> ('z io_scheme, exn, json) M" where
  "recover_tunnel X paths la bridge old =
     andthen (refuse_foreign ''Tunnel'' old) (\<lambda>_.
     andthen (require (\<not> (sv_owned old \<and> sv_healthy old)) (LifecycleErr
       ''Runtime services are owned and healthy but lifecycle status is degraded; refusing unsafe recovery'')) (\<lambda>_.
     andthen (load_state X paths) (\<lambda>state.
     andthen (release X state ''tunnel'' (sv_owned old)) (\<lambda>_.
     andthen (refuse_if_occupied X ''Tunnel'' (la_tunnel_ready la) None) (\<lambda>_.
     andthen (spawn_self X paths (tunnel_args paths la) ''tunnel-supervisor.log'') (\<lambda>tunnel.
     stopping X [tunnel]
       (andthen (await_tunnel X la tunnel) (\<lambda>health.
        andthen (capture_process_state X (set_field state ''transport'' (JStr (provider_id (la_provider la))))
          ''tunnel'' tunnel) (\<lambda>state'.
        andthen (store_state X paths (set_field state' ''tunnel_ready_url'' (JStr (la_tunnel_ready la)))) (\<lambda>_.
        ret (started_report (service_reused bridge) (service_started tunnel health))))))))))))"

definition recover_bridge ::
  "ext \<Rightarrow> runtime_paths \<Rightarrow> launch \<Rightarrow> service \<Rightarrow> service \<Rightarrow> ('z io_scheme, exn, json) M" where
  "recover_bridge X paths la old tunnel =
     andthen (refuse_foreign ''Bridge'' old) (\<lambda>_.
     andthen (load_state X paths) (\<lambda>state.
     andthen (release X state ''bridge'' (sv_owned old)) (\<lambda>_.
     andthen (refuse_if_occupied X ''Bridge'' (la_bridge_health la) (la_probe_host la)) (\<lambda>_.
     andthen (spawn_self X paths (serve_args paths la) ''bridge-supervisor.log'') (\<lambda>bridge.
     stopping X [bridge]
       (andthen (await_bridge X la bridge) (\<lambda>health.
        andthen (capture_process_state X state ''bridge'' bridge) (\<lambda>state'.
        andthen (store_state X paths (set_field state' ''bridge_health_url'' (JStr (la_bridge_health la)))) (\<lambda>_.
        ret (started_report (service_started bridge health) (service_reused tunnel)))))))))))"

definition clear_old :: "ext \<Rightarrow> string \<Rightarrow> string \<Rightarrow> json \<Rightarrow> service option \<Rightarrow> ('z io_scheme, exn, unit) M" where
  "clear_old X label category state s =
     (case s of
        None \<Rightarrow> ret ()
      | Some v \<Rightarrow> andthen (refuse_foreign label v) (\<lambda>_. release X state category (sv_owned v)))"

definition start_over ::
  "ext \<Rightarrow> runtime_paths \<Rightarrow> launch \<Rightarrow> service option \<Rightarrow> service option \<Rightarrow> ('z io_scheme, exn, json) M" where
  "start_over X paths la bridge tunnel =
     andthen (load_state X paths) (\<lambda>state.
     andthen (clear_old X ''Bridge'' ''bridge'' state bridge) (\<lambda>_.
     andthen (clear_old X ''Tunnel'' ''tunnel'' state tunnel) (\<lambda>_.
     andthen (fs_ask X ''unlink'' (rt_state_file paths)) (\<lambda>ok.
     andthen (require ok OsErr) (\<lambda>_. start_fresh X paths la)))))"

definition start_services ::
  "ext \<Rightarrow> runtime_paths \<Rightarrow> string option \<Rightarrow> string option \<Rightarrow> string option \<Rightarrow> nat \<Rightarrow> ('z io_scheme, exn, json) M" where
  "start_services X paths bridge_config projects_config env_file timeout =
     andthen (prepare_launch X paths bridge_config projects_config env_file timeout) (\<lambda>la.
     andthen (fs_ask X ''exists'' (rt_state_file paths)) (\<lambda>present.
     if \<not> present then start_fresh X paths la
     else
       andthen (status_services X paths) (\<lambda>st.
       if st_status st = ''running'' then ret (JObj (st_report st))
       else
         (case (st_bridge st, st_tunnel st) of
            (Some bridge, Some tunnel) \<Rightarrow>
              if reusable (Some bridge) then recover_tunnel X paths la bridge tunnel
              else if reusable (Some tunnel) then recover_bridge X paths la bridge tunnel
              else start_over X paths la (Some bridge) (Some tunnel)
          | (bridge, tunnel) \<Rightarrow> start_over X paths la bridge tunnel))))"

end
