(* ===== verification/Launching.thy ===== *)
theory Launching
  imports Startup Questions
begin

text \<open>
  The runtime configuration, the transports and the start of the services under an order on states that
  allows every call but those that create or signal a process: the locale proves once, method by method,
  what the claims about processes share.
\<close>

fun process_call :: "call \<Rightarrow> bool" where
  "process_call (Spawn args) = True"
| "process_call (KillGroup pgid sig) = True"
| "process_call (TaskKill pid) = True"
| "process_call c = False"

locale launching_order = asking_order R P
  for R :: "'z io_scheme \<Rightarrow> 'z io_scheme \<Rightarrow> bool" and P +
  assumes plain: "\<not> process_call c \<Longrightarrow> P c"
begin

lemma plain_obeys: "\<not> process_call c \<Longrightarrow> obeys R (ask c)"
  by (rule asked_obeys) (rule plain)

lemma plain_intros:
  "obeys R (ask (FsCall w p))" "obeys R (ask (FsWrite p bs))" "obeys R (ask Monotonic)" "obeys R (ask Sleep)"
  "obeys R (ask (HttpGet url host))" "obeys R (ask (PollProcess pid))" "obeys R (ask (ProcessGroup pid))"
  by (rule plain_obeys, simp)+

lemma fs_plain_obeys: "obeys R (fs_ask X w p)" "obeys R (fs_text X w p)"
  unfolding fs_ask_def fs_text_def by (intro obeys_intros plain_intros)+

lemmas launch_intros = obeys_intros plain_intros fs_plain_obeys

lemma for_each_launch: "(\<And>x. obeys R (f x)) \<Longrightarrow> obeys R (for_each xs f)"
  by (rule for_each_obeys)

lemma try_lifecycle_obeys: "obeys R m \<Longrightarrow> obeys R (try_lifecycle m)"
  unfolding try_lifecycle_def by (intro launch_intros) (auto split: exn.split intro: launch_intros)

section \<open>Configuration\<close>

lemma environ_obeys: "obeys R (environ X name)"
  unfolding environ_def by (intro launch_intros)

lemma ensure_runtime_dirs_obeys: "obeys R (ensure_runtime_dirs X paths)"
  unfolding ensure_runtime_dirs_def make_dir_def by (intro for_each_launch launch_intros)

lemma make_dir_obeys: "obeys R (make_dir X p)"
  unfolding make_dir_def by (intro launch_intros)

lemma load_settings_obeys: "obeys R (load_settings X b p)"
  unfolding load_settings_def Let_def
  by (intro launch_intros read_toml_obeys resolve_config_path_obeys parse_projects_obeys load_projects_obeys;
      auto intro!: launch_intros read_toml_obeys resolve_config_path_obeys parse_projects_obeys load_projects_obeys
        split: option.split sum.split prod.split)

lemma read_remote_config_obeys: "obeys R (read_remote_config X paths)"
  unfolding read_remote_config_def by (intro launch_intros) (auto split: toml_file.split intro: launch_intros)

lemma load_transport_provider_obeys: "obeys R (load_transport_provider X paths)"
  unfolding load_transport_provider_def by (intro launch_intros read_remote_config_obeys)

lemma load_remote_security_settings_obeys: "obeys R (load_remote_security_settings X paths)"
  unfolding load_remote_security_settings_def by (intro launch_intros read_remote_config_obeys)

lemma read_secret_obeys: "obeys R (read_secret X paths name logical path)"
  unfolding read_secret_def read_keychain_def read_dpapi_def keychain_backend_def keychain_account_def
    canonical_home_identity_def
  by (auto split: option.split list.split intro!: launch_intros environ_obeys)

lemma load_request_authenticator_obeys: "obeys R (load_request_authenticator X paths)"
  unfolding load_request_authenticator_def load_resource_auth_settings_def resource_auth_secret_value_def
  by (auto split: option.split list.split prod.split
      intro!: launch_intros load_remote_security_settings_obeys read_secret_obeys)

lemma resource_auth_status_obeys: "obeys R (resource_auth_status X paths)"
  unfolding resource_auth_status_def load_resource_auth_settings_def resource_auth_secret_value_def
  by (auto split: option.split sum.split prod.split
      intro!: launch_intros try_lifecycle_obeys load_remote_security_settings_obeys read_secret_obeys)

lemma security_profile_status_obeys: "obeys R (security_profile_status X paths)"
  unfolding security_profile_status_def remote_document_def Let_def
  by (auto split: option.split sum.split
      intro!: launch_intros try_lifecycle_obeys load_remote_security_settings_obeys read_remote_config_obeys
        resource_auth_status_obeys)

section \<open>Transports\<close>

lemma read_text_obeys: "obeys R (read_text X p)"
  unfolding read_text_def by (intro launch_intros)

lemma parse_env_lines_obeys: "obeys R (parse_env_lines X p path n lines vs)"
  by (induction lines arbitrary: n vs) (auto split: option.split list.split prod.split intro!: launch_intros)

lemma parse_env_file_obeys: "obeys R (parse_env_file X p path)"
  unfolding parse_env_file_def by (intro launch_intros read_text_obeys parse_env_lines_obeys)

lemma load_provider_settings_obeys: "obeys R (load_provider_settings X paths p env_file)"
  unfolding load_provider_settings_def load_openai_settings_def load_cloudflare_settings_def env_source_def
    openai_profile_dir_def Let_def
  by (cases p) (auto split: option.split intro!: launch_intros parse_env_file_obeys environ_obeys)

lemma validate_provider_config_obeys: "obeys R (validate_provider_config X t)"
  unfolding validate_provider_config_def validate_openai_config_def validate_cloudflare_config_def profile_path_def
    Let_def
  by (cases t) (auto intro!: launch_intros read_text_obeys)

section \<open>Processes\<close>

lemma ps_value_obeys: "obeys R (ps_value X pid field)"
  unfolding ps_value_def by (intro launch_intros)

lemma process_marker_obeys: "obeys R (process_marker X pid)"
  unfolding process_marker_def by (auto split: option.split intro!: launch_intros ps_value_obeys)

lemma process_executable_identity_obeys: "obeys R (process_executable_identity X pid)"
  unfolding process_executable_identity_def Let_def
  by (auto split: option.split intro!: launch_intros ps_value_obeys)

lemma process_group_id_obeys: "obeys R (process_group_id X pid)"
  unfolding process_group_id_def by (intro launch_intros)

lemma capture_process_state_obeys: "obeys R (capture_process_state X state category pid)"
  unfolding capture_process_state_def Let_def
  by (auto split: option.split
      intro!: launch_intros process_marker_obeys process_group_id_obeys process_executable_identity_obeys)

lemma state_process_owned_obeys: "obeys R (state_process_owned X state category)"
  unfolding state_process_owned_def matches_process_marker_def
  by (auto split: option.split prod.split
      intro!: launch_intros process_marker_obeys process_group_id_obeys process_executable_identity_obeys)

lemma monotonic_obeys: "obeys R (monotonic X)"
  unfolding monotonic_def by (intro launch_intros)

lemma wait_gone_obeys: "obeys R (wait_gone n X state category deadline)"
  by (induction n) (auto intro!: launch_intros monotonic_obeys state_process_owned_obeys)

lemma http_check_obeys: "obeys R (http_check X url host)"
  unfolding http_check_def by (intro launch_intros)

lemma http_json_data_obeys: "obeys R (http_json_data X url host)"
  unfolding http_json_data_def by (intro launch_intros)

lemma wait_loop_obeys: "obeys R (wait_loop n X url host pid deadline check)"
  by (induction n arbitrary: check)
    (auto split: option.split prod.split intro!: launch_intros monotonic_obeys http_check_obeys)

lemma wait_endpoint_obeys: "obeys R (wait_endpoint X url host pid timeout)"
  unfolding wait_endpoint_def by (intro launch_intros monotonic_obeys wait_loop_obeys)

lemma read_state_obeys: "obeys R (read_state X paths)"
  unfolding read_state_def by (intro launch_intros)

lemma require_object_obeys: "obeys R (require_object state)"
  unfolding require_object_def by (intro launch_intros)

section \<open>Starting\<close>

lemma write_json_atomic_obeys: "obeys R (write_json_atomic X d p v)"
  unfolding write_json_atomic_def by (intro launch_intros make_dir_obeys)

lemma live_report_obeys: "obeys R (live_report X paths ps p source state)"
  unfolding live_report_def Let_def
  by (intro launch_intros state_process_owned_obeys http_check_obeys http_json_data_obeys)

lemma stopped_report_obeys: "obeys R (stopped_report X paths ps p source)"
  unfolding stopped_report_def by (intro launch_intros try_settings_obeys load_settings_obeys)

lemma status_services_obeys: "obeys R (status_services X paths)"
  unfolding status_services_def
  by (intro launch_intros security_profile_status_obeys try_lifecycle_obeys load_transport_provider_obeys
      stopped_report_obeys read_state_obeys require_object_obeys live_report_obeys)

lemma load_security_for_obeys: "obeys R (load_security_for X paths p)"
  unfolding load_security_for_def
  by (intro launch_intros load_remote_security_settings_obeys) (auto split: exn.split intro!: launch_intros)

lemma check_exposure_obeys: "obeys R (check_exposure X paths p s)"
  unfolding check_exposure_def Let_def by (intro launch_intros load_request_authenticator_obeys)

lemma given_path_obeys: "obeys R (given_path X given fallback)"
  unfolding given_path_def by (intro launch_intros)

lemma prepare_launch_obeys: "obeys R (prepare_launch X paths b p e timeout)"
  unfolding prepare_launch_def transport_secret_value_def
  by (intro launch_intros ensure_runtime_dirs_obeys given_path_obeys try_settings_obeys load_settings_obeys
      load_transport_provider_obeys load_provider_settings_obeys validate_provider_config_obeys
      load_security_for_obeys check_exposure_obeys read_secret_obeys)

lemma self_command_obeys: "obeys R (self_command X)"
  unfolding self_command_def by (intro launch_intros)

lemma load_state_obeys: "obeys R (load_state X paths)"
  unfolding load_state_def by (intro launch_intros read_state_obeys)

lemma await_obeys: "obeys R (await_bridge X la pid)" "obeys R (await_tunnel X la pid)"
  unfolding await_bridge_def await_tunnel_def await_health_def by (intro launch_intros wait_endpoint_obeys)+

lemma refuse_if_occupied_obeys: "obeys R (refuse_if_occupied X label url host)"
  unfolding refuse_if_occupied_def by (intro launch_intros http_check_obeys)

lemma old_pid_obeys: "obeys R (old_pid state category)"
  unfolding old_pid_def by (intro launch_intros require_object_obeys)

end

end
