(* ===== verification/Gate.thy ===== *)
theory Gate
  imports Transports Decisions
begin

text \<open>
  The way of a request to the server: what \<open>main.py serve\<close> installs in front of the application
  (\<open>load_gate\<close>), the network-trust middleware around every route (\<open>mcp_server.py\<close>), the authenticator in
  front of the MCP route (\<open>mcp_transport.py\<close>), and the identity the tool then sees.
\<close>

section \<open>What serve installs\<close>

record gate =
  ga_trust :: "network_trust_config option"
  ga_resource :: "string option"
  ga_authenticator :: "validation_config option"

text \<open>\<open>load_tunnel_settings(paths).public_url\<close>; the settings of the other provider have no such field.\<close>

definition public_url_of :: "ext \<Rightarrow> runtime_paths \<Rightarrow> ('z io_scheme, exn, string) M" where
  "public_url_of X paths =
     andthen (load_transport_provider X paths) (\<lambda>(p, _).
     andthen (load_provider_settings X paths p None) (\<lambda>t.
     case t of CloudflareSettings c \<Rightarrow> ret (cf_public_url c) | OpenAISettings _ \<Rightarrow> raise OtherErr))"

definition network_resource :: "ext \<Rightarrow> runtime_paths \<Rightarrow> ('z io_scheme, exn, string option) M" where
  "network_resource X paths =
     andthen (load_transport_provider X paths) (\<lambda>(p, _).
     if p = Cloudflare then andthen (public_url_of X paths) (\<lambda>u. ret (Some u)) else ret None)"

definition load_gate :: "ext \<Rightarrow> runtime_paths \<Rightarrow> ('z io_scheme, exn, gate) M" where
  "load_gate X paths =
     andthen (load_remote_security_settings X paths) (\<lambda>security.
     andthen (load_request_authenticator X paths) (\<lambda>authenticator.
     let trust = (if se_auth_mode security = Some AUTH_MODE_NONE then se_network_trust security else None) in
     andthen (if trust = None then ret None else network_resource X paths) (\<lambda>resource.
     andthen (require (trust = None \<or> authenticator = None) OtherErr) (\<lambda>_.
     ret \<lparr>ga_trust = trust, ga_resource = resource, ga_authenticator = authenticator\<rparr>))))"

section \<open>Admission\<close>

datatype route = McpRoute | OtherRoute

datatype answer = HttpError int string "string option" | Answer json

definition trust_boundary_gate :: "gate \<Rightarrow> http_scope \<Rightarrow> answer + http_scope" where
  "trust_boundary_gate g scope =
     (case ga_trust g of
        None \<Rightarrow> Inr scope
      | Some c \<Rightarrow>
          (case network_trust_gate c (ga_resource g) scope of
             Inl (status, err) \<Rightarrow> Inl (HttpError status err None)
           | Inr scope' \<Rightarrow> Inr scope'))"

definition admit ::
  "ext \<Rightarrow> gate \<Rightarrow> route \<Rightarrow> http_scope \<Rightarrow> ('z io_scheme, exn, answer + http_scope) M" where
  "admit X g route scope =
     (case trust_boundary_gate g scope of
        Inl a \<Rightarrow> ret (Inl a)
      | Inr scope' \<Rightarrow>
          (case ga_authenticator g of
             None \<Rightarrow> ret (Inr scope')
           | Some c \<Rightarrow>
               if route \<noteq> McpRoute then ret (Inr scope')
               else
                 andthen (authenticate X c scope') (\<lambda>r.
                 ret (case r of
                        Inl (status, body, challenge) \<Rightarrow> Inl (HttpError status body challenge)
                      | Inr scope'' \<Rightarrow> Inr scope''))))"

text \<open>A tool call that arrives at the MCP route: the identity in the scope is the one it runs under.\<close>

definition handle_request ::
  "ext \<Rightarrow> bridge_settings \<Rightarrow> gate \<Rightarrow> http_scope \<Rightarrow> string option \<Rightarrow> tool_call
   \<Rightarrow> ('z bridge_st_scheme, exn, answer) M" where
  "handle_request X S g scope rid call =
     andthen (admit X g McpRoute scope) (\<lambda>r.
     case r of
       Inl a \<Rightarrow> ret a
     | Inr scope' \<Rightarrow> andthen (serve X S (sc_principal scope') rid call) (\<lambda>j. ret (Answer j)))"

end
