(* ===== verification/GateSpec.thy ===== *)
theory GateSpec
  imports Gate ServerSpec
begin

text \<open>
  What the gate in front of the server promises: who a request that is let through acts as, which hosts
  and origins it may name, that a policy that has been accepted admits the hosts it lists, that a request
  that is turned away reaches nothing, and that \<open>serve\<close> installs the gate its configuration asks for.
\<close>

section \<open>Hosts and origins\<close>

lemma require_text_Inr: "require_text field v = Inr t \<longleftrightarrow>
    v = Some t \<and> t \<noteq> [] \<and> t = strip t \<and> \<not> list_ex is_control t"
  by (auto simp: require_text_def split: option.splits if_splits)

lemma canonicalize_hostname_Inr:
  "canonicalize_hostname field False v = Inr h \<longleftrightarrow>
     (\<exists>t. require_text field v = Inr t \<and> CHR ''*'' \<notin> set t \<and> length t \<le> 253 \<and> ip_address t = None
        \<and> list_all host_label_ok (split_on (CHR ''.'') t) \<and> h = lower t)"
  by (cases "require_text field v")
    (simp_all add: canonicalize_hostname_def split: option.split, auto)

lemma canonicalize_allowed_host_Inr:
  "canonicalize_allowed_host v = Inr h \<longleftrightarrow>
     (\<exists>t. v = Some t \<and> t \<noteq> [] \<and> t = strip t \<and> \<not> list_ex is_control t
        \<and> \<not> list_ex (\<lambda>c. c \<in> set '':/?#@'') t \<and> CHR ''*'' \<notin> set t \<and> length t \<le> 253 \<and> ip_address t = None
        \<and> list_all host_label_ok (split_on (CHR ''.'') t) \<and> h = lower t)"
  unfolding canonicalize_allowed_host_def
  by (simp only: sum_bind_eq_Inr require_text_Inr) (auto simp: canonicalize_hostname_Inr require_text_Inr)

lemma sum_option_Some [simp]: "sum_option r = Some x \<longleftrightarrow> r = Inr x"
  by (cases r) (simp_all add: sum_option_def)

lemma rpartition_at_split: "rpartition_at c s = (Some a, b) \<Longrightarrow> s = a @ c # b"
  using partition_at_split [of c "rev s"]
  by (auto simp: rpartition_at_def split: prod.splits option.splits) (metis append.assoc append_Cons append_Nil rev.simps(2) rev_append rev_rev_ident)

text \<open>A host of a request is an allowed name, in any case, alone or with the port 443.\<close>

definition names_host :: "string \<Rightarrow> string option \<Rightarrow> bool" where
  "names_host h v = (case v of None \<Rightarrow> False | Some t \<Rightarrow> lower t = h \<or> lower t = h @ '':443'')"

lemma lower_port: "lower '':443'' = '':443''"
  by code_simp

lemma request_host_names: "canonicalize_request_host v = Some h \<Longrightarrow> names_host h v"
  by (auto simp: canonicalize_request_host_def names_host_def canonicalize_allowed_host_Inr lower_port
      split: option.splits if_splits prod.splits dest!: rpartition_at_split)

definition authority_values :: "http_scope \<Rightarrow> string option list" where
  "authority_values scope =
     header_values scope '':authority'' @ (case sc_authority scope of None \<Rightarrow> [] | Some a \<Rightarrow> [Some a])"

lemma request_host_Some:
  assumes "request_host scope = Some h"
  shows "length (header_values scope ''host'') \<le> 1" "length (authority_values scope) \<le> 1"
    and "\<forall>v \<in> set (header_values scope ''host'' @ authority_values scope). names_host h v"
    and "header_values scope ''host'' @ authority_values scope \<noteq> []"
proof -
  have one: "xs = [] \<or> (\<exists>x. xs = [x])" if "\<not> length xs > 1" for xs :: "string option list"
    using that by (cases xs) auto
  note h = assms [unfolded request_host_def Let_def, folded authority_values_def]
  from h have hs: "\<not> length (header_values scope ''host'') > 1" and as: "\<not> length (authority_values scope) > 1"
    by (auto split: if_splits)
  then show "length (header_values scope ''host'') \<le> 1" "length (authority_values scope) \<le> 1" by simp_all
  from h one [OF hs] one [OF as]
  show "\<forall>v \<in> set (header_values scope ''host'' @ authority_values scope). names_host h v"
    by (auto split: if_splits intro: request_host_names)
  from h show "header_values scope ''host'' @ authority_values scope \<noteq> []"
    by (auto split: if_splits)
qed

lemma request_origin_allowed_iff:
  "request_origin_allowed scope allowed \<longleftrightarrow>
     header_values scope ''origin'' = []
     \<or> (\<exists>v o'. header_values scope ''origin'' = [Some v] \<and> canonicalize_allowed_origin (Some v) = Inr o' \<and> o' \<in> set allowed)"
proof (cases "header_values scope ''origin''")
  case (Cons v vs)
  then show ?thesis
    by (cases v; cases vs) (auto simp: request_origin_allowed_def split: sum.split)
qed (simp add: request_origin_allowed_def)

text \<open>What the boundary asks of a request: the hosts and the authorities it names are one allowed host, and
  the origin it names, if it does, is an allowed one.\<close>

definition within_boundary :: "network_trust_config \<Rightarrow> http_scope \<Rightarrow> bool" where
  "within_boundary c scope \<longleftrightarrow>
     (\<exists>h \<in> set (nt_allowed_hosts c).
        header_values scope ''host'' @ authority_values scope \<noteq> []
        \<and> length (header_values scope ''host'') \<le> 1 \<and> length (authority_values scope) \<le> 1
        \<and> (\<forall>v \<in> set (header_values scope ''host'' @ authority_values scope). names_host h v))
     \<and> length (header_values scope ''origin'') \<le> 1
     \<and> (\<forall>v \<in> set (header_values scope ''origin''). 
          \<exists>u \<in> set (nt_allowed_origins c). canonicalize_allowed_origin v = Inr u)"

lemma network_trust_gate_Inr:
  assumes "network_trust_gate c resource scope = Inr scope'" "sc_http scope"
  shows "within_boundary c scope" "scope' = scope\<lparr>sc_principal := Some (NetworkTrusted resource)\<rparr>"
proof -
  from assms obtain h where h: "request_host scope = Some h" "h \<in> set (nt_allowed_hosts c)"
      "request_origin_allowed scope (nt_allowed_origins c)"
      and scope': "scope' = scope\<lparr>sc_principal := Some (NetworkTrusted resource)\<rparr>"
    by (auto simp: network_trust_gate_def split: option.splits if_splits)
  with request_host_Some [OF h(1)] show "within_boundary c scope"
    by (auto simp: within_boundary_def request_origin_allowed_iff)
  show "scope' = scope\<lparr>sc_principal := Some (NetworkTrusted resource)\<rparr>" by (fact scope')
qed

section \<open>Bearer tokens\<close>

lemma extract_bearer_Some:
  assumes "extract_bearer scope = Some token"
  obtains v scheme where "header_values scope ''authorization'' = [Some v]"
    and "v = scheme @ CHR '' '' # token" and "lower scheme = ''bearer''" and "token \<noteq> []"
proof -
  from assms obtain v scheme where v: "header_values scope ''authorization'' = [Some v]"
      "partition_at (CHR '' '') v = (scheme, Some token)" "bearer_ok scheme token"
    by (auto simp: extract_bearer_def split: list.splits option.splits prod.splits if_splits)
  moreover from partition_at_split [of "CHR '' ''" v] v(2) have "v = scheme @ CHR '' '' # token" by simp
  ultimately show thesis using that by (auto simp: bearer_ok_def)
qed

text \<open>What the validator has seen when it accepts a token: an answer of the endpoint, asked for this token and
  this resource, that is fresh, calls the token active, names the configured issuer and resource, and has not
  expired.\<close>

definition vouched :: "ext \<Rightarrow> validation_config \<Rightarrow> string \<Rightarrow> call list \<Rightarrow> oauth_principal \<Rightarrow> nat \<Rightarrow> bool" where
  "vouched X c token h p now \<longleftrightarrow>
     (\<exists>r payload. x_validation X (ValidateToken (validation_endpoint c) (vc_resource_id c) (vc_secret c) token
          (vc_resource c) # h) = Answered r
        \<and> hr_status r = 200 \<and> ''no-store'' \<in> set (cache_directives r) \<and> hr_body r = Some payload
        \<and> jget payload ''active'' = Some (JBool True)
        \<and> jget payload ''issuer'' = Some (JStr (p_issuer p)) \<and> jget payload ''resource'' = Some (JStr (p_resource p))
        \<and> jget payload ''subject'' = Some (JStr (p_subject p)) \<and> jget payload ''client_id'' = Some (JStr (p_client_id p))
        \<and> jget payload ''expires_at'' = Some (JInt (p_expires_at p)))
     \<and> p_issuer p = vc_issuer c \<and> p_resource p = vc_resource c \<and> p_subject p \<noteq> [] \<and> p_client_id p \<noteq> []
     \<and> distinct (p_scopes p) \<and> int now < p_expires_at p"

lemma ensure_Inr [simp]: "ensure ok msg = Inr u \<longleftrightarrow> ok"
  by (simp add: ensure_def)

lemma jstr_of_the: "given_str j \<Longrightarrow> j = Some (JStr (the (jstr_of j))) \<and> the (jstr_of j) \<noteq> []"
  by (auto simp: given_str_def jstr_of_def split: option.splits json.splits)

lemma jint_of_the: "is_jint j \<Longrightarrow> j = Some (JInt (the (jint_of j)))"
  by (auto simp: is_jint_def jint_of_def split: option.splits json.splits)

lemma response_payload_Inr:
  "response_payload r = Inr payload \<Longrightarrow>
     hr_status r = 200 \<and> ''no-store'' \<in> set (cache_directives r) \<and> hr_body r = Some payload"
  by (auto simp: response_payload_def split: option.splits)

lemma active_principal_Inr:
  assumes "active_principal c now payload = Inr p"
  shows "jget payload ''issuer'' = Some (JStr (p_issuer p)) \<and> jget payload ''resource'' = Some (JStr (p_resource p))
     \<and> jget payload ''subject'' = Some (JStr (p_subject p)) \<and> jget payload ''client_id'' = Some (JStr (p_client_id p))
     \<and> jget payload ''expires_at'' = Some (JInt (p_expires_at p))
     \<and> p_issuer p = vc_issuer c \<and> p_resource p = vc_resource c \<and> p_subject p \<noteq> [] \<and> p_client_id p \<noteq> []
     \<and> distinct (p_scopes p) \<and> int now < p_expires_at p"
  using assms jstr_of_the [of "jget payload ''subject''"] jstr_of_the [of "jget payload ''client_id''"]
    jint_of_the [of "jget payload ''expires_at''"]
  by (auto simp: active_principal_def split: option.splits)

lemma validate_response_accepts:
  assumes "validate_response X c r s = (Inr (Some p), s')"
  obtains payload where "response_payload r = Inr payload" and "jget payload ''active'' = Some (JBool True)"
    and "active_principal c (x_time X (log s') div 1000) payload = Inr p"
proof -
  from assms obtain payload where payload: "response_payload r = Inr payload"
    by (auto simp: validate_response_def andthen_eq_Inr)
  with assms have run: "(case jget payload ''active'' of
       Some (JBool False) \<Rightarrow> ret None
     | Some (JBool True) \<Rightarrow>
         andthen (now_ms X) (\<lambda>t.
         andthen (lift_sum (active_principal c (t div 1000) payload)) (\<lambda>p. ret (Some p)))
     | _ \<Rightarrow> raise (unavailable ''validation response active field is invalid'')) s = (Inr (Some p), s')"
    by (simp add: validate_response_def)
  then have active: "jget payload ''active'' = Some (JBool True)"
    by (simp split: option.splits json.splits bool.splits)
  with run have "active_principal c (x_time X (log s') div 1000) payload = Inr p"
    by (auto simp: andthen_eq_Inr)
  with payload active show thesis by (rule that)
qed

lemma validate_accepts:
  assumes "validate X c token s = (Inr (Some p), s')"
  shows "vouched X c token (log s) p (x_time X (log s') div 1000)"
proof -
  let ?q = "ValidateToken (validation_endpoint c) (vc_resource_id c) (vc_secret c) token (vc_resource c)"
  let ?s = "s\<lparr>log := ?q # log s\<rparr>"
  have "validate X c token s = (case x_validation X (?q # log s) of
        Unavailable msg \<Rightarrow> raise (unavailable msg)
      | RequestFailed \<Rightarrow> raise (unavailable ''validation service is unavailable'')
      | Answered r \<Rightarrow> validate_response X c r) ?s" if "token \<noteq> []"
    using that by (simp add: validate_def andthen_def)
  moreover from assms have "token \<noteq> []" by (auto simp: validate_def)
  ultimately obtain r where r: "x_validation X (?q # log s) = Answered r"
      "validate_response X c r ?s = (Inr (Some p), s')"
    using assms by (cases "x_validation X (?q # log s)") (simp_all add: raise_apply)
  obtain payload where payload: "response_payload r = Inr payload" "jget payload ''active'' = Some (JBool True)"
      "active_principal c (x_time X (log s') div 1000) payload = Inr p"
    by (rule validate_response_accepts [OF r(2)])
  from r(1) payload(2) response_payload_Inr [OF payload(1)] active_principal_Inr [OF payload(3)] show ?thesis
    unfolding vouched_def by blast
qed

text \<open>The verdict on a token: a principal comes from the validator only.\<close>

definition verdict ::
  "ext \<Rightarrow> validation_config \<Rightarrow> string \<Rightarrow> ('z io_scheme, exn, int \<times> bool + oauth_principal option) M" where
  "verdict X c token =
     handle (andthen (validate X c token) (\<lambda>p. ret (Inr p)))
       (\<lambda>e. case e of
          InvalidBearer _ \<Rightarrow> ret (Inl (401, True))
        | VerificationUnavailable _ \<Rightarrow> ret (Inl (503, False))
        | _ \<Rightarrow> raise e)"

lemma verdict_accepts:
  assumes "verdict X c token s = (Inr (Inr (Some p)), s')"
  shows "validate X c token s = (Inr (Some p), s')"
proof -
  have "(case e of InvalidBearer _ \<Rightarrow> ret (Inl (401, True)) | VerificationUnavailable _ \<Rightarrow> ret (Inl (503, False))
        | _ \<Rightarrow> raise e) t \<noteq> (Inr (Inr (Some p)), s')" for e t
    by (cases e) simp_all
  with assms show ?thesis by (auto simp: verdict_def handle_eq_Inr andthen_eq_Inr)
qed

lemma authenticate_admits:
  assumes "authenticate X c scope s = (Inr (Inr scope'), s')"
  obtains token p where "extract_bearer scope = Some token"
    and "scope' = scope\<lparr>sc_principal := Some (OAuth p)\<rparr>"
    and "vouched X c token (log s) p (x_time X (log s') div 1000)"
proof -
  from assms obtain token where t: "extract_bearer scope = Some token"
    by (auto simp: authenticate_def Let_def andthen_eq_Inr split: if_splits option.splits)
  from assms t obtain v s1 where v: "verdict X c token s = (Inr v, s1)"
      and rest: "(case v of Inl (status, challenge) \<Rightarrow>
             andthen (lift_sum (auth_response c status challenge)) (\<lambda>a. ret (Inl a))
           | Inr None \<Rightarrow> andthen (lift_sum (auth_response c 401 True)) (\<lambda>a. ret (Inl a))
           | Inr (Some p) \<Rightarrow> ret (Inr (scope\<lparr>sc_principal := Some (OAuth p)\<rparr>))) s1 = (Inr (Inr scope'), s')"
    unfolding authenticate_def Let_def verdict_def [symmetric]
    by (auto simp: andthen_eq_Inr split: if_splits)
  from rest obtain p where p: "v = Inr (Some p)" "scope' = scope\<lparr>sc_principal := Some (OAuth p)\<rparr>" "s1 = s'"
    by (auto simp: andthen_eq_Inr split: sum.splits option.splits prod.splits)
  from validate_accepts [OF verdict_accepts [OF v [unfolded p]]]
  show thesis by (intro that [OF t p(2)])
qed

section \<open>Accepted policies\<close>

lemma code_lower_char: "code (lower_char c) =
    (if (65 \<le> code c \<and> code c \<le> 90) \<or> (192 \<le> code c \<and> code c \<le> 222 \<and> code c \<noteq> 215) then code c + 32 else code c)"
  by (auto simp: lower_char_def code_def Let_def)

lemma is_digit_lower [simp]: "is_digit (lower_char c) = is_digit c"
  by (auto simp: is_digit_def code_lower_char)

lemma is_alnum_lower [simp]: "is_alnum (lower_char c) = is_alnum c"
  by (auto simp: is_alnum_def is_alpha_def code_lower_char)

lemma lower_char_fixed: "code c < 65 \<Longrightarrow> lower_char c = c"
  by (simp add: lower_char_def code_def Let_def)

lemma lower_char_eq: "code d < 65 \<Longrightarrow> (lower_char c = d) = (c = d)"
proof -
  assume d: "code d < 65"
  have "code (lower_char c) = code d \<longleftrightarrow> code c = code d" using d by (auto simp: code_lower_char)
  then show ?thesis by (metis code_def of_char_eq_iff)
qed

lemma split_on_lower: "code d < 65 \<Longrightarrow> split_on d (lower s) = map lower (split_on d s)"
  by (induction s) (auto simp: lower_def lower_char_eq split: list.split)

lemma in_lower: "code d < 65 \<Longrightarrow> d \<in> set (lower s) \<longleftrightarrow> d \<in> set s"
proof (induction s)
  case (Cons a s)
  have "d = lower_char a \<longleftrightarrow> d = a" using lower_char_eq [OF Cons.prems, of a] by auto
  with Cons show ?case by (simp add: lower_def)
qed (simp add: lower_def)

text \<open>The characters of a host name.\<close>

definition host_char :: "char \<Rightarrow> bool" where
  "host_char c = (is_alnum c \<or> c = CHR ''-'' \<or> c = CHR ''.'')"

lemma split_on_chars: "(\<forall>p \<in> set (split_on d s). list_all P p) \<Longrightarrow> list_all (\<lambda>c. P c \<or> c = d) s"
  by (induction s) (auto split: if_splits list.splits)

lemma host_labels_chars: "list_all host_label_ok (split_on (CHR ''.'') t) \<Longrightarrow> list_all host_char t"
proof -
  assume "list_all host_label_ok (split_on (CHR ''.'') t)"
  then have "\<forall>p \<in> set (split_on (CHR ''.'') t). list_all (\<lambda>c. is_alnum c \<or> c = CHR ''-'') p"
    by (auto simp: list_all_iff host_label_ok_def)
  from split_on_chars [OF this] show ?thesis by (simp add: host_char_def list_all_iff)
qed

lemma host_label_lower: "host_label_ok (lower l) = host_label_ok l"
proof -
  have "list_all (\<lambda>c. is_alnum c \<or> c = CHR ''-'') (lower l) = list_all (\<lambda>c. is_alnum c \<or> c = CHR ''-'') l"
    by (induction l) (simp_all add: lower_def lower_char_eq code_def)
  then show ?thesis
    by (cases "l = []") (simp_all add: host_label_ok_def, simp add: lower_def hd_map last_map)
qed

lemma colon_no_host_char [simp]: "\<not> host_char (CHR '':'')"
  by (simp add: host_char_def is_alnum_def is_digit_def is_alpha_def code_def)

lemma host_char_plain: "host_char c \<Longrightarrow> \<not> is_space c \<and> \<not> is_control c \<and> c \<notin> set '':/?#@*''"
  by (auto simp: host_char_def is_alnum_def is_digit_def is_alpha_def is_space_def is_control_def code_def Let_def)

lemma parse_octet_lower: "parse_octet (lower s) = parse_octet s"
proof (cases "list_all is_digit s")
  case True
  then have "lower s = s"
    by (induction s) (auto simp: lower_def is_digit_def intro: lower_char_fixed)
  then show ?thesis by simp
next
  case False
  moreover have "list_all is_digit (lower s) = list_all is_digit s"
    by (induction s) (simp_all add: lower_def)
  ultimately show ?thesis by (simp add: parse_octet_def)
qed

lemma split_on_absent: "d \<notin> set s \<Longrightarrow> split_on d s = [s]"
  by (induction s) auto

lemma parse_v6_needs_colon: "CHR '':'' \<notin> set s \<Longrightarrow> parse_v6 s = None"
proof -
  assume s: "CHR '':'' \<notin> set s"
  obtain a b where ab: "partition_at (CHR ''%'') s = (a, b)" by fastforce
  with partition_at_split [of "CHR ''%''" s] s have "CHR '':'' \<notin> set a"
    by (auto split: option.splits)
  with ab show ?thesis by (auto simp: parse_v6_def split_on_absent)
qed

lemma ip_address_lower: "CHR '':'' \<notin> set s \<Longrightarrow> ip_address (lower s) = None \<longleftrightarrow> ip_address s = None"
proof -
  assume s: "CHR '':'' \<notin> set s"
  then have "CHR '':'' \<notin> set (lower s)" by (simp add: in_lower code_def)
  moreover have "parse_v4 (lower s) = parse_v4 s"
    by (simp add: parse_v4_def split_on_lower code_def parse_octet_lower comp_def Let_def)
  ultimately show ?thesis using s by (simp add: ip_address_def parse_v6_needs_colon split: option.split)
qed

lemma dropWhile_unchanged: "t \<noteq> [] \<Longrightarrow> \<not> P (hd t) \<Longrightarrow> dropWhile P t = t"
  by (cases t) auto

lemma strip_unchanged: "\<not> is_space (hd t) \<Longrightarrow> \<not> is_space (last t) \<Longrightarrow> strip t = t"
  by (cases "t = []") (simp_all add: strip_def lstrip_by_def rstrip_by_def dropWhile_unchanged hd_rev)

lemma host_chars_strip: "list_all host_char t \<Longrightarrow> strip t = t"
  by (cases "t = []") (simp add: strip_def lstrip_by_def rstrip_by_def,
    auto simp: list_all_iff host_char_plain intro!: strip_unchanged)

text \<open>An accepted name is accepted again in any case, alone or with the port.\<close>

lemma canonical_host_any_case:
  assumes "canonicalize_allowed_host v = Inr h" and "lower t = h"
  shows "canonicalize_allowed_host (Some t) = Inr h" and "list_all host_char t" and "t \<noteq> []"
proof -
  from assms obtain u where u: "u \<noteq> []" "length u \<le> 253" "ip_address u = None"
      "list_all host_label_ok (split_on (CHR ''.'') u)" and h: "lower t = lower u"
    unfolding canonicalize_allowed_host_Inr by metis
  have labels: "list_all host_label_ok (split_on (CHR ''.'') (lower x)) = list_all host_label_ok (split_on (CHR ''.'') x)" for x
    by (simp add: split_on_lower code_def list_all_iff host_label_lower)
  from u(4) labels [of u] labels [of t] h have t: "list_all host_label_ok (split_on (CHR ''.'') t)" by simp
  from host_labels_chars [OF this] show chars: "list_all host_char t" .
  from host_labels_chars [OF u(4)] chars have "CHR '':'' \<notin> set u" "CHR '':'' \<notin> set t"
    by (auto simp: list_all_iff)
  with u(3) h ip_address_lower [of u] ip_address_lower [of t] have ip: "ip_address t = None" by simp
  from arg_cong [OF h, of length] u(1,2) have len: "length t \<le> 253" and ne: "t \<noteq> []" by auto
  from chars have plain: "\<forall>c \<in> set t. \<not> is_control c \<and> c \<notin> set '':/?#@*''"
    using host_char_plain unfolding list_all_iff by blast
  then have clean: "\<not> list_ex is_control t" "\<not> list_ex (\<lambda>c. c \<in> set '':/?#@'') t" "CHR ''*'' \<notin> set t"
    unfolding list_ex_iff by auto
  show "canonicalize_allowed_host (Some t) = Inr h"
    unfolding canonicalize_allowed_host_Inr
    by (intro exI [of _ t] conjI refl ne host_chars_strip [OF chars, symmetric] clean len ip t assms(2) [symmetric])
  show "t \<noteq> []" by (fact ne)
qed

lemma lower_port_split:
  assumes "lower t = h @ '':443''"
  obtains u where "t = u @ '':443''" and "lower u = h"
proof -
  from assms [unfolded lower_def map_eq_append_conv] obtain u q where
    t: "t = u @ q" "h = map lower_char u" "'':443'' = map lower_char q"
    by (elim exE conjE)
  from arg_cong [OF t(3), of length] have "length q = Suc (Suc (Suc (Suc 0)))" by simp
  then obtain x1 x2 x3 x4 where q: "q = [x1, x2, x3, x4]"
    by (auto simp: length_Suc_conv)
  have same: "d = lower_char x \<Longrightarrow> code d < 65 \<Longrightarrow> x = d" for x d using lower_char_eq [of d x] by blast
  note x = t(3) [unfolded q list.map list.inject]
  have "x1 = CHR '':''" by (rule same [OF conjunct1 [OF x]]) (simp add: code_def)
  moreover have "x2 = CHR ''4''" by (rule same [OF conjunct1 [OF conjunct2 [OF x]]]) (simp add: code_def)
  moreover have "x3 = CHR ''4''"
    by (rule same [OF conjunct1 [OF conjunct2 [OF conjunct2 [OF x]]]]) (simp add: code_def)
  moreover have "x4 = CHR ''3''"
    by (rule same [OF conjunct1 [OF conjunct2 [OF conjunct2 [OF conjunct2 [OF x]]]]]) (simp add: code_def)
  ultimately have "q = '':443''" by (simp only: q)
  with t(1) have "t = u @ '':443''" by simp
  moreover have "lower u = h" by (simp add: t(2) lower_def)
  ultimately show thesis by (rule that)
qed

lemma names_host_canonical:
  assumes "canonicalize_allowed_host v = Inr h" and "names_host h w"
  shows "canonicalize_request_host w = Some h"
proof -
  from assms(2) obtain t where w: "w = Some t" "lower t = h \<or> lower t = h @ '':443''"
    by (auto simp: names_host_def split: option.splits)
  have no_colon: "count_list u (CHR '':'') = 0" if "list_all host_char u" for u
    using that by (auto simp: count_list_0_iff list_all_iff)
  from w(2) show ?thesis
  proof
    assume "lower t = h"
    note u = canonical_host_any_case [OF assms(1) this]
    with w(1) no_colon host_chars_strip show ?thesis by (simp add: canonicalize_request_host_def)
  next
    assume "lower t = h @ '':443''"
    then obtain u where t: "t = u @ '':443''" "lower u = h" by (rule lower_port_split)
    note u = canonical_host_any_case [OF assms(1) t(2)]
    have "\<not> is_space (hd u)" using u(2,3) host_char_plain hd_in_set unfolding list_all_iff by blast
    moreover have "\<not> is_space (CHR ''3'')" by code_simp
    ultimately have "strip (u @ '':443'') = u @ '':443''"
      using u(3) by (intro strip_unchanged) simp_all
    moreover have "rpartition_at (CHR '':'') (u @ '':443'') = (Some u, ''443'')"
      by (simp add: rpartition_at_def)
    ultimately show ?thesis
      using w(1) u no_colon [OF u(2)] by (simp add: t(1) canonicalize_request_host_def)
  qed
qed

lemma request_host_complete:
  assumes "canonicalize_allowed_host v = Inr h"
    and "header_values scope ''host'' @ authority_values scope \<noteq> []"
    and "length (header_values scope ''host'') \<le> 1" "length (authority_values scope) \<le> 1"
    and "\<forall>w \<in> set (header_values scope ''host'' @ authority_values scope). names_host h w"
  shows "request_host scope = Some h"
proof -
  have one: "xs = [] \<or> (\<exists>x. xs = [x])" if "length xs \<le> 1" for xs :: "string option list"
    using that by (cases xs) auto
  have "\<forall>w \<in> set (header_values scope ''host'' @ authority_values scope). canonicalize_request_host w = Some h"
    using assms(5) names_host_canonical [OF assms(1)] by blast
  with one [OF assms(3)] one [OF assms(4)] assms(2) show ?thesis
    unfolding request_host_def Let_def authority_values_def [symmetric] by auto
qed

lemma canonicalize_loop_Inr:
  assumes "canonicalize_loop field cano sofar entries = Inr out" "distinct sofar"
  shows "distinct out \<and> length out = length sofar + length entries
    \<and> (\<forall>x \<in> set out. x \<in> set sofar \<or> (\<exists>v. cano v = Inr x))"
  using assms
proof (induction entries arbitrary: sofar)
  case (Cons e es)
  from Cons.prems obtain c where c: "cano (tstr e) = Inr c" "c \<notin> set sofar"
      "canonicalize_loop field cano (sofar @ [c]) es = Inr out"
    by (auto split: if_splits)
  with Cons.IH [OF c(3)] Cons.prems(2) show ?case by auto
qed simp

definition policy_ok :: "network_trust_config \<Rightarrow> bool" where
  "policy_ok c \<longleftrightarrow> nt_allowed_hosts c \<noteq> [] \<and> distinct (nt_allowed_hosts c) \<and> distinct (nt_allowed_origins c)
     \<and> (\<forall>h \<in> set (nt_allowed_hosts c). canonicalize_allowed_host (Some h) = Inr h)
     \<and> (\<forall>u \<in> set (nt_allowed_origins c). \<exists>v. canonicalize_allowed_origin v = Inr u)"

lemma canonical_again: "canonicalize_allowed_host v = Inr h \<Longrightarrow> canonicalize_allowed_host (Some h) = Inr h"
proof -
  assume c: "canonicalize_allowed_host v = Inr h"
  then obtain u where "h = lower u" unfolding canonicalize_allowed_host_Inr by metis
  then show ?thesis by (intro canonical_host_any_case(1) [OF c]) simp
qed

lemma accepted_policy_ok:
  assumes "make_network_trust_config mode hosts origins = Inr c"
  shows "policy_ok c"
proof -
  from assms obtain hs us where c: "canonicalize_entries ''allowed_hosts'' canonicalize_allowed_host True hosts = Inr hs"
      "canonicalize_entries ''allowed_origins'' canonicalize_allowed_origin False origins = Inr us"
      "nt_allowed_hosts c = hs" "nt_allowed_origins c = us"
    by (auto simp: make_network_trust_config_def split: if_splits)
  from c(1) obtain es where es: "es \<noteq> []"
      "canonicalize_loop ''allowed_hosts'' canonicalize_allowed_host [] es = Inr hs"
    by (auto simp: canonicalize_entries_def split: toml.splits if_splits)
  from c(2) obtain fs where fs:
      "canonicalize_loop ''allowed_origins'' canonicalize_allowed_origin [] fs = Inr us"
    by (auto simp: canonicalize_entries_def split: toml.splits if_splits)
  from canonicalize_loop_Inr [OF es(2)] canonicalize_loop_Inr [OF fs] es(1) show ?thesis
    by (auto simp: policy_ok_def c(3,4) intro: canonical_again)
qed

lemma gate_exact:
  assumes "policy_ok c" and "sc_http scope"
  shows "(\<exists>scope'. network_trust_gate c resource scope = Inr scope') \<longleftrightarrow> within_boundary c scope"
proof
  assume "\<exists>scope'. network_trust_gate c resource scope = Inr scope'"
  with assms(2) show "within_boundary c scope" by (blast dest: network_trust_gate_Inr)
next
  assume w: "within_boundary c scope"
  then obtain h where h: "h \<in> set (nt_allowed_hosts c)"
      "header_values scope ''host'' @ authority_values scope \<noteq> []"
      "length (header_values scope ''host'') \<le> 1" "length (authority_values scope) \<le> 1"
      "\<forall>v \<in> set (header_values scope ''host'' @ authority_values scope). names_host h v"
    by (auto simp: within_boundary_def)
  from assms(1) h(1) have "canonicalize_allowed_host (Some h) = Inr h" by (simp add: policy_ok_def)
  from request_host_complete [OF this h(2-5)] have "request_host scope = Some h" .
  moreover have "request_origin_allowed scope (nt_allowed_origins c)"
  proof (cases "header_values scope ''origin''")
    case (Cons v vs)
    with w have "vs = []" and "\<exists>u. canonicalize_allowed_origin v = Inr u \<and> u \<in> set (nt_allowed_origins c)"
      by (auto simp: within_boundary_def)
    with Cons show ?thesis
      by (cases v) (auto simp: request_origin_allowed_iff canonicalize_allowed_origin_def require_text_def)
  qed (simp add: request_origin_allowed_iff)
  ultimately show "\<exists>scope'. network_trust_gate c resource scope = Inr scope'"
    using h(1) assms(2) by (simp add: network_trust_gate_def)
qed

text \<open>C17: The boundary of an accepted configuration is exact.  Such a configuration lists at least one host and no
  host or origin twice.  A request passes if and only if the host headers and authorities it has (at
  least one, at most one of each kind) all name one listed host, in any case, alone or with port 443, and
  it names at most one origin, a listed one; it then acts as the trusted network.  Any other request is
  answered 403.\<close>

theorem boundary_exact:
  assumes "network_trust_from_mapping raw = Inr c" and "sc_http scope"
  shows "policy_ok c
    \<and> (if within_boundary c scope
       then network_trust_gate c resource scope = Inr (scope\<lparr>sc_principal := Some (NetworkTrusted resource)\<rparr>)
       else network_trust_gate c resource scope \<in> {Inl (403, ''host_not_allowed''), Inl (403, ''origin_not_allowed'')})"
proof -
  from assms(1) have ok: "policy_ok c"
    by (auto simp: network_trust_from_mapping_def Let_def split: if_splits dest: accepted_policy_ok)
  have "network_trust_gate c resource scope \<in> {Inl (403, ''host_not_allowed''), Inl (403, ''origin_not_allowed'')}"
    if "\<nexists>scope'. network_trust_gate c resource scope = Inr scope'"
    using that assms(2) by (auto simp: network_trust_gate_def split: option.splits if_splits)
  with gate_exact [OF ok assms(2), of resource] ok network_trust_gate_Inr(2) [OF _ assms(2)] show ?thesis
    by (auto split: if_splits)
qed

definition demo_policy :: "(string \<times> toml) list" where
  "demo_policy = [(''mode'', TStr ''cloudflare-chatgpt''), (''allowed_hosts'', TArr [TStr ''MCP.example.com'']),
     (''allowed_origins'', TArr [TStr ''https://chatgpt.com''])]"

definition demo_trust :: network_trust_config where
  "demo_trust = \<lparr>nt_mode = ''cloudflare-chatgpt'', nt_allowed_hosts = [''mcp.example.com''],
     nt_allowed_origins = [''https://chatgpt.com'']\<rparr>"

definition demo_scope :: "string \<Rightarrow> http_scope" where
  "demo_scope host = \<lparr>sc_http = True, sc_headers = [Some (Some ''Host'', Some host)], sc_authority = None,
     sc_principal = None\<rparr>"

lemma demo_policy_accepted: "network_trust_from_mapping demo_policy = Inr demo_trust"
  by code_simp

theorem boundary_exact_witness:
  "network_trust_gate demo_trust None (demo_scope ''Mcp.Example.com:443'')
     = Inr ((demo_scope ''Mcp.Example.com:443'')\<lparr>sc_principal := Some (NetworkTrusted None)\<rparr>)"
proof -
  have "within_boundary demo_trust (demo_scope ''Mcp.Example.com:443'')" by code_simp
  moreover have "sc_http (demo_scope ''Mcp.Example.com:443'')" by (simp add: demo_scope_def)
  ultimately show ?thesis using boundary_exact [OF demo_policy_accepted] by (simp add: demo_scope_def)
qed

section \<open>Who is served\<close>

text \<open>Methods that only make calls of one kind and change nothing else.\<close>

definition asked :: "(call \<Rightarrow> bool) \<Rightarrow> 'z io_scheme \<Rightarrow> 'z io_scheme \<Rightarrow> bool" where
  "asked P s t \<longleftrightarrow> (\<exists>cs. list_all P cs \<and> t = s\<lparr>log := cs @ log s\<rparr>)"

lemma asked_trans: "asked P s t \<Longrightarrow> asked P t u \<Longrightarrow> asked P s u"
proof -
  assume "asked P s t" "asked P t u"
  then obtain cs ds where "list_all P cs" "t = s\<lparr>log := cs @ log s\<rparr>" "list_all P ds" "u = t\<lparr>log := ds @ log t\<rparr>"
    by (auto simp: asked_def)
  then show ?thesis unfolding asked_def by (intro exI [of _ "ds @ cs"]) simp
qed

interpretation asked: state_order "asked P" for P
proof unfold_locales
  show "asked P s s" for s
    unfolding asked_def by (intro exI [of _ "[]"]) simp
qed (rule asked_trans)

lemma asked_ask: "P c \<Longrightarrow> obeys (asked P) (ask c)"
  unfolding obeys_def asked_def by (auto intro!: exI [of _ "[c]"])

fun auth_call :: "call \<Rightarrow> bool" where
  "auth_call Now = True"
| "auth_call (ValidateToken endpoint user secret token resource) = True"
| "auth_call c = False"

lemma now_ms_asked: "obeys (asked auth_call) (now_ms X)"
  unfolding now_ms_def by (intro asked.obeys_intros asked_ask) simp

lemma validate_asked: "obeys (asked auth_call) (validate X c token)"
  unfolding validate_def validate_response_def
  by (auto split: validation_answer.split option.split json.split bool.split
      intro!: asked.obeys_intros asked_ask now_ms_asked)

lemma authenticate_asked: "obeys (asked auth_call) (authenticate X c scope)"
  unfolding authenticate_def Let_def
  by (auto split: exn.split sum.split option.split prod.split intro!: asked.obeys_intros validate_asked)

lemma admit_asked: "obeys (asked auth_call) (admit X g route scope)"
  unfolding admit_def
  by (auto split: sum.split option.split intro!: asked.obeys_intros authenticate_asked)

text \<open>The identity a request has shown: the trusted network, within its boundary; the holder of a bearer token
  the validation endpoint has vouched for; or, on a server without either gate, nobody.\<close>

definition shown_identity ::
  "ext \<Rightarrow> gate \<Rightarrow> http_scope \<Rightarrow> call list \<Rightarrow> call list \<Rightarrow> auth_context option \<Rightarrow> bool" where
  "shown_identity X g scope h h' who \<longleftrightarrow>
     (case (ga_trust g, ga_authenticator g) of
        (Some c, _) \<Rightarrow> within_boundary c scope \<and> who = Some (NetworkTrusted (ga_resource g))
      | (None, Some c) \<Rightarrow>
          (\<exists>scheme token p. header_values scope ''authorization'' = [Some (scheme @ CHR '' '' # token)]
             \<and> lower scheme = ''bearer'' \<and> who = Some (OAuth p)
             \<and> vouched X c token h p (x_time X h' div 1000))
      | (None, None) \<Rightarrow> who = None)"

lemma admitted_shown:
  assumes "admit X g McpRoute scope s = (Inr (Inr scope'), s')"
    and "sc_http scope" and "sc_principal scope = None"
    and "ga_trust g = None \<or> ga_authenticator g = None"
  shows "shown_identity X g scope (log s) (log s') (sc_principal scope')"
proof (cases "ga_trust g")
  case (Some c)
  with assms(1,4) have "network_trust_gate c (ga_resource g) scope = Inr scope'"
    by (auto simp: admit_def trust_boundary_gate_def split: sum.splits option.splits)
  with Some network_trust_gate_Inr [OF this assms(2)] show ?thesis by (simp add: shown_identity_def)
next
  case None
  show ?thesis
  proof (cases "ga_authenticator g")
    case (Some c)
    with None assms(1) obtain r where "authenticate X c scope s = (Inr r, s')"
        "(case r of Inl (status, body, challenge) \<Rightarrow> Inl (HttpError status body challenge) | Inr x \<Rightarrow> Inr x)
         = Inr scope'"
      by (auto simp: admit_def trust_boundary_gate_def andthen_eq_Inr)
    then have "authenticate X c scope s = (Inr (Inr scope'), s')" by (cases r) auto
    then obtain token p where t: "extract_bearer scope = Some token"
        "scope' = scope\<lparr>sc_principal := Some (OAuth p)\<rparr>"
        "vouched X c token (log s) p (x_time X (log s') div 1000)"
      by (rule authenticate_admits)
    obtain v scheme where "header_values scope ''authorization'' = [Some v]"
        "v = scheme @ CHR '' '' # token" "lower scheme = ''bearer''"
      by (rule extract_bearer_Some [OF t(1)])
    with None Some t(2,3) show ?thesis by (auto simp: shown_identity_def)
  next
    case None': None
    with None assms(1,3) show ?thesis by (simp add: admit_def trust_boundary_gate_def shown_identity_def)
  qed
qed

text \<open>C9: A request that is answered by a tool has shown who it is, and the tool has run as this identity and
  nobody else: behind a network boundary the request names one allowed host and no origin but
  an allowed one, and acts as the trusted network; behind an authenticator it carries exactly one bearer token, the
  validation endpoint has vouched for this very token on this request with a fresh, active, unexpired
  answer for the configured issuer and resource, and it acts as the subject and client of that answer.
  A request that is turned away, with an HTTP error or an exception of the gate, has reached nothing: the
  only calls made are questions to the validation endpoint and the clock.\<close>

theorem only_shown_identities_are_served:
  assumes "handle_request X S g scope rid call s = (r, s')"
    and "sc_http scope" and "sc_principal scope = None"
    and "ga_trust g = None \<or> ga_authenticator g = None"
  shows "asked auth_call s s'
    \<or> (\<exists>who s1 j. asked auth_call s s1 \<and> shown_identity X g scope (log s) (log s1) who
         \<and> serve X S who rid call s1 = (j, s') \<and> r = map_sum (\<lambda>e. e) Answer j)"
proof -
  obtain a s1 where a: "admit X g McpRoute scope s = (a, s1)" by fastforce
  from obeysD [OF admit_asked a] have asked: "asked auth_call s s1" .
  show ?thesis
  proof (cases a)
    case (Inl e)
    with assms(1) a asked show ?thesis by (simp add: handle_request_def andthen_Inl)
  next
    case (Inr b)
    show ?thesis
    proof (cases b)
      case (Inl x)
      with Inr assms(1) a asked show ?thesis by (simp add: handle_request_def andthen_Inr)
    next
      case (Inr scope')
      with \<open>a = Inr b\<close> a have adm: "admit X g McpRoute scope s = (Inr (Inr scope'), s1)" by simp
      obtain j t where j: "serve X S (sc_principal scope') rid call s1 = (j, t)" by fastforce
      from assms(1) adm j have "t = s'" "r = map_sum (\<lambda>e. e) Answer j"
        by (cases j; simp add: handle_request_def andthen_def ret_apply)+
      with admitted_shown [OF adm assms(2-4)] asked j show ?thesis by blast
    qed
  qed
qed

definition open_gate :: gate where
  "open_gate = \<lparr>ga_trust = None, ga_resource = None, ga_authenticator = None\<rparr>"

lemma open_gate_serves:
  "snd (handle_request X S open_gate scope rid call s) = snd (serve X S (sc_principal scope) rid call s)"
proof -
  have "admit X open_gate McpRoute scope s = (Inr (Inr scope), s)"
    by (simp add: admit_def trust_boundary_gate_def open_gate_def)
  then show ?thesis
    by (cases "serve X S (sc_principal scope) rid call s"; cases "fst (serve X S (sc_principal scope) rid call s)")
      (simp_all add: handle_request_def andthen_def ret_apply)
qed

theorem only_shown_identities_are_served_witness:
  "\<exists>who s1 j. asked auth_call demo_served s1
     \<and> shown_identity demo_world open_gate (demo_scope ''h'') (log demo_served) (log s1) who
     \<and> serve demo_world demo_settings who (Some ''q'') demo_create s1
       = (j, snd (handle_request demo_world demo_settings open_gate (demo_scope ''h'') (Some ''q'') demo_create demo_served))"
proof -
  let ?m = "handle_request demo_world demo_settings open_gate (demo_scope ''h'') (Some ''q'') demo_create demo_served"
  have principal: "sc_principal (demo_scope ''h'') = None" by (simp add: demo_scope_def)
  have "LockAcquire ''p'' \<in> set (log (snd ?m))"
    using serve_demo_create by (simp add: open_gate_serves principal)
  moreover have "log demo_served = []" by (simp add: demo_served_def demo_bridge_def)
  ultimately have "\<not> asked auth_call demo_served (snd ?m)"
    by (auto simp: asked_def list_all_iff dest!: bspec [of _ _ "LockAcquire ''p''"])
  with only_shown_identities_are_served [where X = demo_world and S = demo_settings and g = open_gate
      and scope = "demo_scope ''h''" and rid = "Some ''q''" and call = demo_create and s = demo_served,
      OF prod.collapse [symmetric]] principal
  show ?thesis by (auto simp: open_gate_def demo_scope_def)
qed

section \<open>The gate that is installed\<close>

text \<open>\<open>remote.toml\<close> is there and every read of it gives the same document.\<close>

definition stable_document :: "ext \<Rightarrow> runtime_paths \<Rightarrow> (string \<times> toml) list \<Rightarrow> bool" where
  "stable_document X paths doc \<longleftrightarrow>
     (\<forall>h. x_ok X (FsCall ''is_file'' (remote_config_path paths) # h)
        \<and> x_toml X (FsCall ''load_toml'' (remote_config_path paths) # h) = Parsed doc)"

lemma read_stable:
  "stable_document X paths doc \<Longrightarrow>
     \<exists>t. read_remote_config X paths s = (Inr (Some doc), t)"
  by (simp add: read_remote_config_def stable_document_def fs_ask_def andthen_def ret_apply)

lemma load_security_stable:
  assumes "stable_document X paths doc" "load_remote_security_settings X paths s = (Inr sec, t)"
  shows "security_of_config doc = Inr sec"
  using read_stable [OF assms(1), of s] assms(2)
  by (auto simp: load_remote_security_settings_def andthen_eq_Inr)

lemma security_of_config_cases:
  assumes "security_of_config doc = Inr sec"
  obtains (absent) "tget doc ''auth'' = None" "se_auth_mode sec = None" "se_resource_auth sec = None"
  | (trusted) c where "se_auth_mode sec = Some AUTH_MODE_NONE" "se_resource_auth sec = None"
      "se_network_trust sec = Some c" "policy_ok c"
  | (oauth) a where "se_auth_mode sec = Some RESOURCE_AUTH_MODE" "se_resource_auth sec = Some a"
proof -
  from assms obtain m a src tr tsrc where parsed: "parse_auth_configuration doc = Inr (m, a, src)"
      "parse_network_trust_configuration doc = Inr (tr, tsrc)" "m = Some AUTH_MODE_NONE \<longrightarrow> tr \<noteq> None"
      and sec: "se_auth_mode sec = m" "se_resource_auth sec = a" "se_network_trust sec = tr"
    by (auto simp: security_of_config_def refuse_unless_def split: if_splits)
  from parsed(2) have trust: "policy_ok c" if "tr = Some c" for c
    using that accepted_policy_ok
    by (auto simp: parse_network_trust_configuration_def trust_error_def network_trust_from_mapping_def Let_def
        split: option.splits toml.splits sum.splits if_splits)
  have modes: "AUTH_MODE_NONE \<noteq> RESOURCE_AUTH_MODE" by (simp add: AUTH_MODE_NONE_def RESOURCE_AUTH_MODE_def)
  consider "tget doc ''auth'' = None" "m = None" "a = None"
    | "m = Some AUTH_MODE_NONE" "a = None"
    | x where "m = Some RESOURCE_AUTH_MODE" "a = Some x"
    using parsed(1) by (auto simp: parse_auth_configuration_def split: option.splits toml.splits if_splits)
  then show thesis
  proof cases
    case 1
    with sec absent show thesis by simp
  next
    case 2
    with parsed(3) obtain c where "tr = Some c" by auto
    with 2 sec trust trusted show thesis by simp
  next
    case 3
    with sec oauth show thesis by simp
  qed
qed

lemma lifecycle_error_Inr [simp]: "lifecycle_error msg r = Inr x \<longleftrightarrow> r = Inr x"
  by (auto simp: lifecycle_error_def split: sum.split exn.split)

lemma load_authenticator_stable:
  assumes "stable_document X paths doc" "security_of_config doc = Inr sec"
    and "load_request_authenticator X paths s = (Inr r, t)"
  shows "case se_resource_auth sec of
      None \<Rightarrow> r = None
    | Some a \<Rightarrow> \<exists>cfg. r = Some cfg \<and> vc_issuer cfg = ra_issuer a \<and> vc_resource cfg = ra_resource a
        \<and> vc_resource_id cfg = ra_resource_id a \<and> vc_secret cfg \<noteq> []"
proof -
  from assms(3) obtain sec' u where u: "load_remote_security_settings X paths s = (Inr sec', u)"
      and rest: "(case se_resource_auth sec' of
          None \<Rightarrow> ret None
        | Some a \<Rightarrow>
            andthen (resource_auth_secret_value X paths) (\<lambda>(secret, _).
            case secret of
              Some (c # cs) \<Rightarrow>
                andthen (lift_sum (lifecycle_error ''OAuth Resource Server configuration is invalid: ''
                  (validation_config_of a (c # cs)))) (\<lambda>cfg. ret (Some cfg))
            | _ \<Rightarrow> raise (LifecycleErr (RESOURCE_AUTH_SECRET_ENV_NAME
                    @ '' is unavailable; set it in the environment or store it securely'')))) u = (Inr r, t)"
    by (auto simp: load_request_authenticator_def load_resource_auth_settings_def andthen_eq_Inr)
  from load_security_stable [OF assms(1) u] assms(2) have "sec' = sec" by simp
  show ?thesis
  proof (cases "se_resource_auth sec")
    case None
    with rest \<open>sec' = sec\<close> show ?thesis by simp
  next
    case (Some a)
    with rest \<open>sec' = sec\<close> obtain secret v where v: "(case secret of
              Some (c # cs) \<Rightarrow>
                andthen (lift_sum (lifecycle_error ''OAuth Resource Server configuration is invalid: ''
                  (validation_config_of a (c # cs)))) (\<lambda>cfg. ret (Some cfg))
            | _ \<Rightarrow> raise (LifecycleErr (RESOURCE_AUTH_SECRET_ENV_NAME
                    @ '' is unavailable; set it in the environment or store it securely''))) v = (Inr r, t)"
      by (auto simp: andthen_eq_Inr split: prod.splits)
    then obtain c cs cfg where "validation_config_of a (c # cs) = Inr cfg" "r = Some cfg"
    proof (cases secret)
      case (Some x)
      with v that show thesis by (cases x) (auto simp: andthen_eq_Inr)
    qed simp
    with Some show ?thesis by (auto simp: validation_config_of_def make_validation_config_def)
  qed
qed

text \<open>C18: While its configuration does not change, \<open>serve\<close> installs exactly the gate that \<open>remote.toml\<close> asks for,
  or does not start.  With \<open>auth.mode = none\<close> the network boundary of an accepted policy stands around
  the application and no authenticator; with the OAuth mode an authenticator for the configured issuer
  and resource, with a non-empty secret, stands in front of the MCP route; without an \<open>[auth]\<close> table, and
  only then, there is neither.\<close>

theorem installed_gate_matches_configuration:
  assumes "stable_document X paths doc" and "load_gate X paths s = (Inr g, s')"
  shows "\<exists>sec. security_of_config doc = Inr sec
    \<and> (case (se_auth_mode sec, se_resource_auth sec) of
         (None, _) \<Rightarrow> tget doc ''auth'' = None \<and> ga_trust g = None \<and> ga_authenticator g = None
       | (Some m, None) \<Rightarrow>
           m = AUTH_MODE_NONE \<and> ga_authenticator g = None
           \<and> (\<exists>c. se_network_trust sec = Some c \<and> policy_ok c \<and> ga_trust g = Some c)
       | (Some m, Some a) \<Rightarrow>
           m = RESOURCE_AUTH_MODE \<and> ga_trust g = None
           \<and> (\<exists>cfg. ga_authenticator g = Some cfg \<and> vc_issuer cfg = ra_issuer a \<and> vc_resource cfg = ra_resource a
                \<and> vc_resource_id cfg = ra_resource_id a \<and> vc_secret cfg \<noteq> []))"
proof -
  from assms(2) obtain sec t r u where t: "load_remote_security_settings X paths s = (Inr sec, t)"
      and u: "load_request_authenticator X paths t = (Inr r, u)"
      and g: "ga_trust g = (if se_auth_mode sec = Some AUTH_MODE_NONE then se_network_trust sec else None)"
        "ga_authenticator g = r"
    by (auto simp: load_gate_def Let_def andthen_eq_Inr split: if_splits)
  note sec = load_security_stable [OF assms(1) t]
  note r = load_authenticator_stable [OF assms(1) sec u]
  have modes: "AUTH_MODE_NONE \<noteq> RESOURCE_AUTH_MODE" by (simp add: AUTH_MODE_NONE_def RESOURCE_AUTH_MODE_def)
  from sec show ?thesis
  proof (cases rule: security_of_config_cases)
    case absent
    with sec g r show ?thesis by auto
  next
    case (trusted c)
    with sec g r show ?thesis by auto
  next
    case (oauth a)
    with sec g r modes show ?thesis by auto
  qed
qed

definition demo_document :: "(string \<times> toml) list" where
  "demo_document =
     [(''remote'', TTab [(''version'', TInt 1), (''transport'', TStr ''openai-tunnel'')]),
      (''auth'', TTab [(''version'', TInt 1), (''mode'', TStr ''none'')]), (''network_trust'', TTab demo_policy)]"

definition gate_world :: ext where
  "gate_world = demo_ext\<lparr>x_toml := \<lambda>h. Parsed demo_document\<rparr>"

definition demo_paths :: runtime_paths where
  "demo_paths = paths_below ''/opt/codemcp'' ''/home/u/codemcp'' ''home''"

lemma demo_security: "security_of_config demo_document = Inr \<lparr>se_auth_mode = Some ''none'', se_resource_auth = None,
    se_network_trust = Some demo_trust, se_auth_source = ''config'', se_network_trust_source = ''config''\<rparr>"
  by code_simp

lemma demo_document_stable: "stable_document gate_world demo_paths demo_document"
  by (simp add: stable_document_def gate_world_def demo_ext_def)

theorem installed_gate_matches_configuration_witness:
  "\<exists>g. fst (load_gate gate_world demo_paths demo_start) = Inr g
     \<and> ga_trust g = Some demo_trust \<and> ga_authenticator g = None"
proof -
  have "case fst (load_gate gate_world demo_paths demo_start) of Inl _ \<Rightarrow> False | Inr _ \<Rightarrow> True"
    by code_simp
  then obtain g t where g: "load_gate gate_world demo_paths demo_start = (Inr g, t)"
    by (cases "load_gate gate_world demo_paths demo_start") (auto split: sum.splits)
  from installed_gate_matches_configuration [OF demo_document_stable g] demo_security
  have "ga_trust g = Some demo_trust \<and> ga_authenticator g = None" by auto
  with g show ?thesis by simp
qed

end
