(* ===== verification/ProcessSpec.thy ===== *)
theory ProcessSpec
  imports Launching GateSpec
begin

text \<open>
  What stopping and starting the services promises about processes: a signal only ever reaches a process that
  has just been recognised as the bridge's own.
\<close>

section \<open>Steps from one state\<close>

context state_order
begin

lemma andthen_at:
  assumes "\<And>r t. m s = (r, t) \<Longrightarrow> R s t" and "\<And>x t. m s = (Inr x, t) \<Longrightarrow> R t (snd (f x t))"
  shows "R s (snd (andthen m f s))"
proof (cases "m s")
  case (Pair r t)
  with assms(1) have st: "R s t" .
  show ?thesis
  proof (cases r)
    case (Inl e)
    with Pair st show ?thesis by (simp add: andthen_def)
  next
    case (Inr x)
    with Pair assms(2) [of x t] st trans show ?thesis by (simp add: andthen_def)
  qed
qed

lemma andthen_then_at:
  assumes "obeys R m" and "\<And>x t. m s = (Inr x, t) \<Longrightarrow> R t (snd (f x t))"
  shows "R s (snd (andthen m f s))"
  by (rule andthen_at [OF obeysD [OF assms(1)] assms(2)])

lemma then_obeys_at:
  assumes "R s (snd (m s))" and "\<And>x. obeys R (f x)"
  shows "R s (snd (andthen m f s))"
proof (rule andthen_at)
  show "R s t" if "m s = (r, t)" for r t using assms(1) that by simp
  show "R t (snd (f x t))" for x t using assms(2) by (simp add: obeys_def)
qed

lemma handle_at:
  assumes "R s (snd (m s))" and "\<And>e t. m s = (Inl e, t) \<Longrightarrow> R t (snd (h e t))"
  shows "R s (snd (handle m h s))"
proof (cases "m s")
  case (Pair r t)
  with assms(1) have st: "R s t" by simp
  show ?thesis
  proof (cases r)
    case (Inl e)
    with Pair assms(2) [of e t] st trans show ?thesis by (simp add: handle_def)
  qed (use Pair st in \<open>simp add: handle_def\<close>)
qed

end

section \<open>Recognised processes\<close>

text \<open>The process \<open>pid\<close> of the recorded state has just been recognised: the last calls of the history have read its
  start marker, which is the recorded one, and, where there are process groups, its group, which is the
  recorded one and safe to signal, and its executable, which is the recorded one.\<close>

definition recognised :: "ext \<Rightarrow> json \<Rightarrow> string \<Rightarrow> int \<Rightarrow> call list \<Rightarrow> bool" where
  "recognised X state category pid h \<longleftrightarrow>
     state_int state (field_of category ''pid'') = Inr pid \<and> 0 < pid
     \<and> (\<exists>m c (u :: io) v. jget state (field_of category ''process_marker'') = Some m \<and> same_marker c m
          \<and> process_marker X pid u = (Inr (Some c), v)
          \<and> (if x_windows X then log v = h
             else (\<exists>g e w. recorded_group state category = Some (2, g) \<and> safe_group X g
                  \<and> x_int X (ProcessGroup pid # log v) = Some g
                  \<and> jget state (field_of category ''executable_identity'') = Some (JStr e) \<and> e \<noteq> []
                  \<and> process_executable_identity X pid (v\<lparr>log := ProcessGroup pid # log v\<rparr>) = (Inr (Some e), w)
                  \<and> log w = h)))"

definition spawned :: "ext \<Rightarrow> int \<Rightarrow> call list \<Rightarrow> bool" where
  "spawned X pid h \<longleftrightarrow> (\<exists>args h1 h2. h = h1 @ Spawn args # h2 \<and> x_int X (Spawn args # h2) = Some pid)"

text \<open>The state is the one of the state file, or records a child the bridge has just started.\<close>

definition ours :: "ext \<Rightarrow> runtime_paths \<Rightarrow> json \<Rightarrow> string \<Rightarrow> call list \<Rightarrow> bool" where
  "ours X paths state category h \<longleftrightarrow>
     (\<exists>h1 h2. h = h1 @ FsCall ''load_json'' (rt_state_file paths) # h2
        \<and> x_json X (FsCall ''load_json'' (rt_state_file paths) # h2) = Some state)
     \<or> (\<exists>pid. state_int state (field_of category ''pid'') = Inr pid \<and> spawned X pid h)"

fun kill_ok :: "ext \<Rightarrow> runtime_paths \<Rightarrow> call \<Rightarrow> call list \<Rightarrow> bool" where
  "kill_ok X paths (KillGroup g sig) h =
     (\<not> x_windows X \<and> (sig = SIGTERM \<or> sig = SIGKILL \<and> KillGroup g SIGTERM \<in> set h)
      \<and> (\<exists>state category pid. ours X paths state category h \<and> recognised X state category pid h
           \<and> recorded_group state category = Some (2, g)))"
| "kill_ok X paths (TaskKill pid) h =
     (x_windows X \<and> (\<exists>state category. ours X paths state category h \<and> recognised X state category pid h))"
| "kill_ok X paths c h = True"

fun kills_ok :: "ext \<Rightarrow> runtime_paths \<Rightarrow> call list \<Rightarrow> call list \<Rightarrow> bool" where
  "kills_ok X paths [] h = True"
| "kills_ok X paths (c # cs) h = (kill_ok X paths c (cs @ h) \<and> kills_ok X paths cs h)"

fun kill_call :: "call \<Rightarrow> bool" where
  "kill_call (KillGroup g sig) = True"
| "kill_call (TaskKill pid) = True"
| "kill_call c = False"

lemma not_kill_ok: "\<not> kill_call c \<Longrightarrow> kill_ok X paths c h"
  by (cases c) simp_all

lemma kills_ok_append: "kills_ok X paths (a @ b) h \<longleftrightarrow> kills_ok X paths a (b @ h) \<and> kills_ok X paths b h"
  by (induction a) auto

lemma spawned_append: "spawned X pid h \<Longrightarrow> spawned X pid (cs @ h)"
  unfolding spawned_def by (metis append.assoc)

lemma ours_append: "ours X paths state category h \<Longrightarrow> ours X paths state category (cs @ h)"
  unfolding ours_def using spawned_append by (metis append.assoc)

text \<open>The states reached when every signal sent on the way has gone to a recognised process.\<close>

definition grows :: "ext \<Rightarrow> runtime_paths \<Rightarrow> io \<Rightarrow> io \<Rightarrow> bool" where
  "grows X paths s t \<longleftrightarrow> (\<exists>cs. log t = cs @ log s \<and> kills_ok X paths cs (log s))"

lemma grows_call: "kill_ok X paths c (log s) \<Longrightarrow> grows X paths s (s\<lparr>log := c # log s\<rparr>)"
  unfolding grows_def by (intro exI [of _ "[c]"]) simp

lemma grows_trans: "grows X paths s t \<Longrightarrow> grows X paths t u \<Longrightarrow> grows X paths s u"
  unfolding grows_def by (metis append.assoc kills_ok_append)

interpretation grows: launching_order "grows X paths" "\<lambda>c. \<not> kill_call c" for X paths
proof unfold_locales
  show "grows X paths s s" for s unfolding grows_def by (intro exI [of _ "[]"]) simp
  show "grows X paths s t \<Longrightarrow> grows X paths t u \<Longrightarrow> grows X paths s u" for s t u by (rule grows_trans)
  show "\<not> kill_call c \<Longrightarrow> grows X paths s (s\<lparr>log := c # log s\<rparr>)" for c s
    by (intro grows_call not_kill_ok)
  show "read_call c \<Longrightarrow> \<not> kill_call c" for c by (cases c) (simp_all add: read_call.simps)
  show "\<not> kill_call (FsCall what p)" for what p by simp
  show "\<not> process_call c \<Longrightarrow> \<not> kill_call c" for c by (cases c) simp_all
qed

lemma grows_ours: "grows X paths s t \<Longrightarrow> ours X paths state category (log s) \<Longrightarrow> ours X paths state category (log t)"
  by (auto simp: grows_def ours_append)

lemma grows_spawned: "grows X paths s t \<Longrightarrow> spawned X pid (log s) \<Longrightarrow> spawned X pid (log t)"
  by (auto simp: grows_def spawned_append)

lemma grows_member: "grows X paths s t \<Longrightarrow> c \<in> set (log s) \<Longrightarrow> c \<in> set (log t)"
  by (auto simp: grows_def)

lemma jstr_of_Some: "jstr_of j = Some v \<longleftrightarrow> j = Some (JStr v)"
  by (auto simp: jstr_of_def split: option.splits json.splits)

lemma owned_recognised:
  fixes s :: io
  assumes "state_process_owned X state category s = (Inr True, t)"
  shows "\<exists>pid. recognised X state category pid (log t)"
proof -
  from assms obtain pid v where pid: "state_int state (field_of category ''pid'') = Inr pid"
    and m: "matches_process_marker X pid (jget state (field_of category ''process_marker'')) s = (Inr True, v)"
    and rest: "(if x_windows X then ret True
     else
       (case recorded_group state category of
          None \<Rightarrow> ret False
        | Some (version, pgid) \<Rightarrow>
            if version \<noteq> 2 \<or> \<not> safe_group X pgid then ret False
            else
              andthen (process_group_id X pid) (\<lambda>actual.
              if actual \<noteq> Some pgid then ret False
              else
                (case jstr_of (jget state (field_of category ''executable_identity'')) of
                   None \<Rightarrow> ret False
                 | Some expected \<Rightarrow>
                     if expected = [] then ret False
                     else
                       andthen (process_executable_identity X pid) (\<lambda>identity.
                       ret (identity = Some expected)))))) v = (Inr True, t)"
    by (auto simp: state_process_owned_def andthen_eq_Inr split: if_splits)
  from m obtain mk c where mk: "jget state (field_of category ''process_marker'') = Some mk" "0 < pid"
      "process_marker X pid s = (Inr (Some c), v)" "same_marker c mk"
    by (auto simp: matches_process_marker_def andthen_eq_Inr split: option.splits if_splits)
  show ?thesis
  proof (cases "x_windows X")
    case True
    with rest pid mk show ?thesis unfolding recognised_def by auto
  next
    case False
    with rest obtain g where g: "recorded_group state category = Some (2, g)" "safe_group X g"
      by (auto split: option.splits prod.splits if_splits)
    with False rest mk(2) obtain e w where e: "jget state (field_of category ''executable_identity'') = Some (JStr e)"
        "e \<noteq> []" "x_int X (ProcessGroup pid # log v) = Some g"
        "process_executable_identity X pid (v\<lparr>log := ProcessGroup pid # log v\<rparr>) = (Inr (Some e), w)" "w = t"
      by (auto simp: andthen_eq_Inr process_group_id_def jstr_of_Some split: option.splits if_splits)
    from False pid mk g e show ?thesis unfolding recognised_def by auto
  qed
qed

section \<open>Stopping a process\<close>

lemma recorded_group_int: "recorded_group state category = Some (v, g) \<Longrightarrow> state_int state (field_of category ''pgid'') = Inr g"
  by (auto simp: recorded_group_def split: sum.splits)

lemma recognised_group:
  "recognised X state category pid h \<Longrightarrow> \<not> x_windows X \<Longrightarrow>
     \<exists>g. recorded_group state category = Some (2, g) \<and> state_int state (field_of category ''pgid'') = Inr g"
  by (auto simp: recognised_def dest: recorded_group_int)

lemma kill_group_at:
  assumes "kill_ok X paths (KillGroup g sig) (log s)"
  shows "grows X paths s (snd (kill_group X g sig s))"
  using grows_call [OF assms] by (simp add: kill_group_def andthen_def ret_apply raise_apply split: kill_answer.split)

lemma terminate_posix_at:
  assumes "\<not> x_windows X" "ours X paths state category (log s)" "recognised X state category pid (log s)"
    and "state_int state (field_of category ''pgid'') = Inr g"
  shows "grows X paths s (snd (terminate_posix X state category g s))"
proof -
  from recognised_group [OF assms(3,1)] assms(4) have g: "recorded_group state category = Some (2, g)" by auto
  have first: "grows X paths s (snd (kill_group X g SIGTERM s))"
    using assms(1-3) g by (intro kill_group_at) auto
  show ?thesis
    unfolding terminate_posix_def
  proof (rule grows.andthen_at)
    show "grows X paths s t" if "kill_group X g SIGTERM s = (r, t)" for r t using first that by simp
  next
    fix present t
    assume run: "kill_group X g SIGTERM s = (Inr present, t)"
    with first have st: "grows X paths s t" by simp
    from run have sent: "KillGroup g SIGTERM \<in> set (log t)"
      by (auto simp: kill_group_def andthen_eq_Inr split: kill_answer.splits)
    have kill: "grows X paths u (snd (kill_group X g SIGKILL u))"
      if "state_process_owned X state category v = (Inr True, u)" "grows X paths t v" for u v
    proof (rule kill_group_at)
      from obeysD [OF grows.state_process_owned_obeys that(1)] that(2) st
      have su: "grows X paths t u" "grows X paths s u" by (blast intro: grows_trans)+
      from owned_recognised [OF that(1)] grows_ours [OF su(2) assms(2)] grows_member [OF su(1) sent] assms(1) g
      show "kill_ok X paths (KillGroup g SIGKILL) (log u)" by auto
    qed
    let ?last = "andthen (state_process_owned X state category) (\<lambda>owned.
         if \<not> owned then ret () else andthen (kill_group X g SIGKILL) (\<lambda>_. ret ()))"
    have last: "grows X paths v (snd (?last v))" if "grows X paths t v" for v
      using that kill
      by (intro grows.andthen_then_at [OF grows.state_process_owned_obeys])
        (auto intro!: grows.then_obeys_at grows.ret_obeys grows.refl)
    show "grows X paths t (snd ((if \<not> present then ret ()
     else
       andthen (monotonic X) (\<lambda>now.
       andthen (wait_gone (TERMINATE_TIMEOUT_MS + 2) X state category (now + TERMINATE_TIMEOUT_MS)) (\<lambda>gone.
       if gone then ret () else ?last))) t))"
    proof (cases present)
      case True
      have "grows X paths t (snd (andthen (monotonic X) (\<lambda>now.
          andthen (wait_gone (TERMINATE_TIMEOUT_MS + 2) X state category (now + TERMINATE_TIMEOUT_MS)) (\<lambda>gone.
          if gone then ret () else ?last)) t))"
      proof (rule grows.andthen_then_at [OF grows.monotonic_obeys])
        fix now t1
        assume m: "monotonic X t = (Inr now, t1)"
        show "grows X paths t1 (snd (andthen (wait_gone (TERMINATE_TIMEOUT_MS + 2) X state category
            (now + TERMINATE_TIMEOUT_MS)) (\<lambda>gone. if gone then ret () else ?last) t1))"
        proof (rule grows.andthen_then_at [OF grows.wait_gone_obeys])
          fix gone t2
          assume w: "wait_gone (TERMINATE_TIMEOUT_MS + 2) X state category (now + TERMINATE_TIMEOUT_MS) t1 = (Inr gone, t2)"
          have "grows X paths t t2"
            by (rule grows_trans [OF obeysD [OF grows.monotonic_obeys m] obeysD [OF grows.wait_gone_obeys w]])
          with last show "grows X paths t2 (snd ((if gone then ret () else ?last) t2))" by (simp add: grows.refl)
        qed
      qed
      with True show ?thesis by simp
    qed (simp add: grows.refl)
  qed
qed

lemma terminate_windows_at:
  assumes "x_windows X" "ours X paths state category (log s)" "recognised X state category pid (log s)"
  shows "grows X paths s (snd (terminate_windows X pid s))"
proof -
  have "grows X paths s (s\<lparr>log := TaskKill pid # log s\<rparr>)"
    using assms by (intro grows_call) auto
  then show ?thesis
    by (simp add: terminate_windows_def andthen_def ret_apply raise_apply split: proc.split)
qed

lemma recognised_pid: "recognised X state category pid h \<Longrightarrow> state_int state (field_of category ''pid'') = Inr pid"
  by (simp add: recognised_def)

lemma terminate_state_process_at:
  assumes "ours X paths state category (log s)"
  shows "grows X paths s (snd (terminate_state_process X state category s))"
proof (cases "state_int state (field_of category ''pid'')")
  case (Inr pid)
  let ?rest = "\<lambda>owned. if \<not> owned then ret False
     else if x_windows X then terminate_windows X pid
     else
       andthen (lift_sum (state_int state (field_of category ''pgid''))) (\<lambda>pgid.
       andthen (state_process_owned X state category) (\<lambda>again.
       if \<not> again then ret False
       else andthen (terminate_posix X state category pgid) (\<lambda>_. ret True)))"
  have "grows X paths s (snd (andthen (state_process_owned X state category) ?rest s))"
  proof (rule grows.andthen_then_at [OF grows.state_process_owned_obeys])
    fix owned t
    assume o: "state_process_owned X state category s = (Inr owned, t)"
    have st: "grows X paths s t" by (rule obeysD [OF grows.state_process_owned_obeys o])
    show "grows X paths t (snd (?rest owned t))"
    proof (cases owned)
      case True
      with o have "state_process_owned X state category s = (Inr True, t)" by simp
      from owned_recognised [OF this] obtain q where q: "recognised X state category q (log t)" by blast
      with recognised_pid Inr have qp: "q = pid" by fastforce
      show ?thesis
      proof (cases "x_windows X")
        case True
        with \<open>owned\<close> terminate_windows_at [OF True grows_ours [OF st assms]] q qp show ?thesis by simp
      next
        case posix: False
        from recognised_group [OF q this] obtain g where g: "state_int state (field_of category ''pgid'') = Inr g" by blast
        have "grows X paths t (snd (andthen (state_process_owned X state category) (\<lambda>again.
            if \<not> again then ret False else andthen (terminate_posix X state category g) (\<lambda>_. ret True)) t))"
        proof (rule grows.andthen_then_at [OF grows.state_process_owned_obeys])
          fix again u
          assume a: "state_process_owned X state category t = (Inr again, u)"
          have tu: "grows X paths t u" by (rule obeysD [OF grows.state_process_owned_obeys a])
          show "grows X paths u (snd ((if \<not> again then ret False
              else andthen (terminate_posix X state category g) (\<lambda>_. ret True)) u))"
          proof (cases again)
            case True
            with a have "state_process_owned X state category t = (Inr True, u)" by simp
            from owned_recognised [OF this] obtain q' where "recognised X state category q' (log u)" by blast
            from terminate_posix_at [OF posix grows_ours [OF tu grows_ours [OF st assms]] this g] True
            show ?thesis by (simp add: grows.then_obeys_at grows.ret_obeys)
          qed (simp add: grows.refl)
        qed
        with posix \<open>owned\<close> g show ?thesis by simp
      qed
    qed (simp add: grows.refl)
  qed
  with Inr show ?thesis by (simp add: terminate_state_process_def)
qed (simp add: terminate_state_process_def raise_apply grows.refl)

section \<open>Children\<close>

lemma returns_all: "(\<And>x t. Q x t) \<Longrightarrow> returns m s Q"
  by (simp add: returns_def)

lemma captured_pid:
  "returns (capture_process_state X (JObj [(''version'', v)]) ''process'' pid) s
     (\<lambda>state t. state_int state (field_of ''process'' ''pid'') = Inr pid)"
  unfolding capture_process_state_def Let_def
  by (auto simp: set_field_def with_field_def field_of_def state_int_def intro!: returns_all)

lemma try_lifecycle_Inr:
  "try_lifecycle m s = (Inr (Inr x), t) \<longleftrightarrow> m s = (Inr x, t)"
proof -
  have "(case e of LifecycleErr msg \<Rightarrow> ret (Inl msg) | _ \<Rightarrow> raise e) u \<noteq> (Inr (Inr x), t)" for e u
    by (cases e) simp_all
  then show ?thesis by (auto simp: try_lifecycle_def handle_eq_Inr andthen_eq_Inr)
qed

lemma terminate_tree_at:
  assumes "spawned X pid (log s)"
  shows "grows X paths s (snd (terminate_tree X pid s))"
  unfolding terminate_tree_def
proof (rule grows.andthen_then_at [OF grows.try_lifecycle_obeys [OF grows.capture_process_state_obeys]])
  fix captured t
  assume c: "try_lifecycle (capture_process_state X
      (JObj [(''version'', JInt (if x_windows X then 1 else 2))]) ''process'' pid) s = (Inr captured, t)"
  have st: "grows X paths s t"
    by (rule obeysD [OF grows.try_lifecycle_obeys [OF grows.capture_process_state_obeys] c])
  show "grows X paths t (snd ((case captured of Inl _ \<Rightarrow> ret ()
     | Inr state \<Rightarrow> andthen (terminate_state_process X state ''process'') (\<lambda>_. ret ())) t))"
  proof (cases captured)
    case (Inr state)
    with c have "state_int state (field_of ''process'' ''pid'') = Inr pid"
      by (intro returnsD [OF captured_pid]) (simp add: try_lifecycle_Inr)
    with grows_spawned [OF st assms] have "ours X paths state ''process'' (log t)" unfolding ours_def by blast
    from terminate_state_process_at [OF this] Inr show ?thesis
      by (simp add: grows.then_obeys_at grows.ret_obeys)
  qed (simp add: grows.refl)
qed

lemma terminate_if_running_at:
  assumes "spawned X pid (log s)"
  shows "grows X paths s (snd (terminate_if_running X pid s))"
  unfolding terminate_if_running_def
proof (rule grows.andthen_then_at [OF grows.plain_intros(6)])
  fix h t
  assume a: "ask (PollProcess pid) s = (Inr h, t)"
  from grows_spawned [OF obeysD [OF grows.plain_intros(6) a] assms] terminate_tree_at
  show "grows X paths t (snd ((if x_int X h = None then terminate_tree X pid else ret ()) t))"
    by (simp add: grows.refl)
qed

lemma terminate_all_at:
  assumes "\<forall>pid \<in> set pids. spawned X pid (log s)"
  shows "grows X paths s (snd (for_each pids (terminate_if_running X) s))"
  using assms
proof (induction pids arbitrary: s)
  case (Cons pid pids)
  from Cons.prems have one: "grows X paths s (snd (terminate_if_running X pid s))"
    by (intro terminate_if_running_at) simp
  have "grows X paths s (snd (andthen (terminate_if_running X pid) (\<lambda>_. for_each pids (terminate_if_running X)) s))"
  proof (rule grows.andthen_at)
    show st: "grows X paths s t" if "terminate_if_running X pid s = (r, t)" for r t using one that by simp
    show "grows X paths t (snd (for_each pids (terminate_if_running X) t))"
      if "terminate_if_running X pid s = (Inr x, t)" for x t
      using Cons.prems grows_spawned [OF st [OF that]] by (intro Cons.IH) auto
  qed
  then show ?case by simp
qed (simp add: grows.refl)

lemma stopping_at:
  assumes "\<forall>pid \<in> set pids. spawned X pid (log s)" and "grows X paths s (snd (m s))"
  shows "grows X paths s (snd (stopping X pids m s))"
  unfolding stopping_def
proof (rule grows.handle_at)
  fix e t
  assume "m s = (Inl e, t)"
  with assms have "\<forall>pid \<in> set pids. spawned X pid (log t)" using grows_spawned by fastforce
  from terminate_all_at [OF this]
  show "grows X paths t (snd ((if is_exception e then andthen (for_each pids (terminate_if_running X)) (\<lambda>_. raise e)
      else raise e) t))"
    by (simp add: grows.then_obeys_at grows.raise_obeys grows.refl)
qed (fact assms(2))

lemma stopping_Inr: "stopping X pids m s = (Inr x, t) \<Longrightarrow> m s = (Inr x, t)"
  by (auto simp: stopping_def handle_eq_Inr andthen_eq_Inr split: if_splits)

lemma popen_grows: "obeys (grows X paths) (popen_background X ps args name)"
  unfolding popen_background_def
  by (intro grows.launch_intros grows.make_dir_obeys grows.asked_obeys) simp

lemma spawn_self_grows: "obeys (grows X paths) (spawn_self X ps args name)"
  unfolding spawn_self_def by (intro grows.launch_intros grows.self_command_obeys popen_grows)

lemma spawn_self_spawned:
  fixes s :: io
  shows "spawn_self X ps args name s = (Inr pid, t) \<Longrightarrow> spawned X pid (log t)"
proof -
  have last: "x_int X (Spawn a # h) = Some pid \<Longrightarrow> spawned X pid (Spawn a # h)" for a h
    unfolding spawned_def by (intro exI [of _ "[]"] exI [of _ a] exI [of _ h]) simp
  show "spawn_self X ps args name s = (Inr pid, t) \<Longrightarrow> spawned X pid (log t)"
    by (auto simp: spawn_self_def popen_background_def andthen_eq_Inr split: if_splits option.splits intro: last)
qed

section \<open>Starting and stopping the services\<close>

lemma stored_grows: "obeys (grows X paths) (store_state X ps state)"
  unfolding store_state_def by (rule grows.write_json_atomic_obeys)

lemma loaded_ours:
  fixes s :: io
  assumes "read_state X paths s = (Inr (Some state), t)"
  shows "ours X paths state category (log t)"
proof -
  let ?c = "FsCall ''load_json'' (rt_state_file paths)"
  from assms have "log t = [] @ ?c # log s" "x_json X (?c # log s) = Some state"
    by (auto simp: read_state_def andthen_eq_Inr)
  then show ?thesis unfolding ours_def by blast
qed

lemma load_state_ours:
  fixes s :: io
  assumes "load_state X paths s = (Inr state, t)"
  shows "ours X paths state category (log t)"
  using assms by (auto simp: load_state_def andthen_eq_Inr split: option.splits intro: loaded_ours)

lemma release_at:
  assumes "ours X paths state category (log s)"
  shows "grows X paths s (snd (release X state category owned s))"
  unfolding release_def
proof (rule grows.andthen_then_at [OF grows.old_pid_obeys])
  fix pid t
  assume p: "old_pid state category s = (Inr pid, t)"
  from terminate_state_process_at [OF grows_ours [OF obeysD [OF grows.old_pid_obeys p] assms]]
  show "grows X paths t (snd ((if owned \<and> 0 < pid
      then andthen (terminate_state_process X state category) (\<lambda>_. ret ()) else ret ()) t))"
    by (simp add: grows.then_obeys_at grows.ret_obeys grows.refl)
qed

lemma release_then_at:
  assumes "ours X paths state category (log s)" and "\<And>x. obeys (grows X paths) (f x)"
  shows "grows X paths s (snd (andthen (release X state category owned) f s))"
  by (rule grows.then_obeys_at) (intro release_at assms)+

lemma clear_old_at:
  assumes "ours X paths state category (log s)"
  shows "grows X paths s (snd (clear_old X label category state v s))"
proof (cases v)
  case (Some w)
  have r: "obeys (grows X paths) (refuse_foreign label w)"
    unfolding refuse_foreign_def by (intro grows.launch_intros)
  have "grows X paths s (snd (andthen (refuse_foreign label w) (\<lambda>_. release X state category (sv_owned w)) s))"
    by (rule grows.andthen_then_at [OF r]) (intro release_at grows_ours [OF obeysD [OF r] assms])
  with Some show ?thesis by (simp add: clear_old_def)
qed (simp add: clear_old_def grows.refl)

text \<open>A child is started and what follows is guarded by the clean-up.\<close>

lemma guarded_grows:
  assumes "\<And>pid. obeys (grows X paths) (body pid)"
  shows "obeys (grows X paths) (andthen (spawn_self X ps args name) (\<lambda>pid. stopping X [pid] (body pid)))"
proof -
  have "grows X paths s (snd (andthen (spawn_self X ps args name) (\<lambda>pid. stopping X [pid] (body pid)) s))" for s
  proof (rule grows.andthen_then_at [OF spawn_self_grows])
    fix pid t
    assume "spawn_self X ps args name s = (Inr pid, t)"
    then have "\<forall>q \<in> set [pid]. spawned X q (log t)" by (simp add: spawn_self_spawned)
    then show "grows X paths t (snd (stopping X [pid] (body pid) t))"
      by (rule stopping_at) (use assms in \<open>simp add: obeys_def\<close>)
  qed
  then show ?thesis by (simp add: obeys_def)
qed

lemma start_fresh_grows: "obeys (grows X paths) (start_fresh X ps la)"
proof -
  let ?bridge = "\<lambda>bridge. andthen (await_bridge X la bridge) (\<lambda>bridge_health.
        andthen (spawn_self X ps (tunnel_args ps la) ''tunnel-supervisor.log'') (\<lambda>tunnel.
        ret (bridge_health, tunnel)))"
  let ?tunnel = "\<lambda>bridge bridge_health tunnel. andthen (await_tunnel X la tunnel) (\<lambda>tunnel_health.
        andthen (capture_process_state X (fresh_state X la) ''bridge'' bridge) (\<lambda>state.
        andthen (capture_process_state X state ''tunnel'' tunnel) (\<lambda>state'.
        andthen (store_state X ps state') (\<lambda>_.
        ret (started_report (service_started bridge bridge_health) (service_started tunnel tunnel_health))))))"
  have b: "obeys (grows X paths) (?bridge bridge)" for bridge
    by (intro grows.launch_intros grows.await_obeys spawn_self_grows)
  have t: "obeys (grows X paths) (?tunnel bridge h tunnel)" for bridge h tunnel
    by (intro grows.launch_intros grows.await_obeys grows.capture_process_state_obeys stored_grows)
  have "grows X paths s (snd (andthen (spawn_self X ps (serve_args ps la) ''bridge-supervisor.log'') (\<lambda>bridge.
      andthen (stopping X [bridge] (?bridge bridge)) (\<lambda>(h, tunnel).
      stopping X [tunnel, bridge] (?tunnel bridge h tunnel))) s))" for s
  proof (rule grows.andthen_then_at [OF spawn_self_grows])
    fix bridge s1
    assume "spawn_self X ps (serve_args ps la) ''bridge-supervisor.log'' s = (Inr bridge, s1)"
    then have sb: "spawned X bridge (log s1)" by (rule spawn_self_spawned)
    have one: "grows X paths s1 (snd (stopping X [bridge] (?bridge bridge) s1))"
      using sb b by (intro stopping_at) (simp_all add: obeys_def)
    show "grows X paths s1 (snd (andthen (stopping X [bridge] (?bridge bridge)) (\<lambda>(h, tunnel).
        stopping X [tunnel, bridge] (?tunnel bridge h tunnel)) s1))"
    proof (rule grows.andthen_at)
      show "grows X paths s1 s2" if "stopping X [bridge] (?bridge bridge) s1 = (r, s2)" for r s2
        using one that by simp
      fix x s2
      assume run: "stopping X [bridge] (?bridge bridge) s1 = (Inr x, s2)"
      obtain h tunnel where x: "x = (h, tunnel)" by fastforce
      from stopping_Inr [OF run] x have "spawned X tunnel (log s2)"
        by (auto simp: andthen_eq_Inr intro: spawn_self_spawned)
      moreover from one run sb have "spawned X bridge (log s2)" by (simp add: grows_spawned)
      ultimately show "grows X paths s2 (snd ((case x of (h, tunnel) \<Rightarrow>
          stopping X [tunnel, bridge] (?tunnel bridge h tunnel)) s2))"
        using t unfolding x by simp (intro stopping_at; simp add: obeys_def)
    qed
  qed
  then have "obeys (grows X paths) (andthen (spawn_self X ps (serve_args ps la) ''bridge-supervisor.log'') (\<lambda>bridge.
      andthen (stopping X [bridge] (?bridge bridge)) (\<lambda>(h, tunnel).
      stopping X [tunnel, bridge] (?tunnel bridge h tunnel))))"
    by (simp add: obeys_def)
  then show ?thesis
    unfolding start_fresh_def
    by (intro grows.andthen_obeys [OF grows.refuse_if_occupied_obeys])
qed

lemma loaded_then_grows:
  assumes "\<And>state s. (\<And>category. ours X paths state category (log s)) \<Longrightarrow> grows X paths s (snd (f state s))"
  shows "obeys (grows X paths) (andthen (load_state X paths) f)"
proof -
  have "grows X paths s (snd (andthen (load_state X paths) f s))" for s
    by (rule grows.andthen_then_at [OF grows.load_state_obeys]) (intro assms load_state_ours)
  then show ?thesis by (simp add: obeys_def)
qed

lemma refuse_foreign_grows: "obeys (grows X paths) (refuse_foreign label v)"
  unfolding refuse_foreign_def by (intro grows.launch_intros)

lemma recover_grows:
  "obeys (grows X paths) (recover_tunnel X paths la bridge old)"
  "obeys (grows X paths) (recover_bridge X paths la old tunnel)"
  unfolding recover_tunnel_def recover_bridge_def
  by (intro grows.andthen_obeys refuse_foreign_grows grows.require_obeys loaded_then_grows release_then_at
      grows.refuse_if_occupied_obeys guarded_grows grows.await_obeys grows.capture_process_state_obeys stored_grows
      grows.ret_obeys; assumption)+

lemma start_over_grows: "obeys (grows X paths) (start_over X paths la bridge tunnel)"
proof -
  let ?finish = "andthen (fs_ask X ''unlink'' (rt_state_file paths)) (\<lambda>ok.
     andthen (require ok OsErr) (\<lambda>_. start_fresh X paths la))"
  have e: "obeys (grows X paths) ?finish"
    by (intro grows.launch_intros start_fresh_grows)
  have c: "grows X paths s (snd (andthen (clear_old X ''Bridge'' ''bridge'' state bridge) (\<lambda>_.
      andthen (clear_old X ''Tunnel'' ''tunnel'' state tunnel) (\<lambda>_. ?finish)) s))"
    if o: "\<And>category. ours X paths state category (log s)" for state s
  proof (rule grows.andthen_at)
    show st: "grows X paths s t" if "clear_old X ''Bridge'' ''bridge'' state bridge s = (r, t)" for r t
      using clear_old_at [OF o, where label = "''Bridge''" and v = bridge and category = "''bridge''"] that by simp
    show "grows X paths t (snd (andthen (clear_old X ''Tunnel'' ''tunnel'' state tunnel) (\<lambda>_. ?finish) t))"
      if "clear_old X ''Bridge'' ''bridge'' state bridge s = (Inr x, t)" for x t
      by (rule grows.then_obeys_at) (intro clear_old_at grows_ours [OF st [OF that]] o e)+
  qed
  show ?thesis unfolding start_over_def by (rule loaded_then_grows) (rule c)
qed

lemma start_services_grows: "obeys (grows X paths) (start_services X paths b p e timeout)"
  unfolding start_services_def
  by (intro grows.launch_intros grows.prepare_launch_obeys start_fresh_grows grows.status_services_obeys
      recover_grows start_over_grows)

lemma stop_service_at:
  assumes "ours X paths state category (log s)"
  shows "grows X paths s (snd (stop_service X state category s))"
proof -
  have o: "obeys (grows X paths) (if pid \<le> 0 then ret False else state_process_owned X state category)" for pid :: int
    by (intro grows.launch_intros grows.state_process_owned_obeys)
  show ?thesis
    unfolding stop_service_def
  proof (rule grows.andthen_then_at [OF grows.lift_sum_obeys], rule grows.andthen_then_at [OF o])
    fix pid t owned u
    assume p: "lift_sum (state_int state (field_of category ''pid'')) s = (Inr pid, t)"
      and r: "(if pid \<le> 0 then ret False else state_process_owned X state category) t = (Inr owned, u)"
    from p obeysD [OF o r] have "grows X paths s u" by simp
    from terminate_state_process_at [OF grows_ours [OF this assms]]
    show "grows X paths u (snd ((if \<not> owned then ret (stop_action category (if pid = 0 then JNull else JInt pid) ''not_owned'')
       else andthen (terminate_state_process X state category) (\<lambda>stopped.
         ret (stop_action category (JInt pid) (if stopped then ''stopped'' else ''not_owned'')))) u))"
      by (simp add: grows.then_obeys_at grows.ret_obeys grows.refl)
  qed
qed

lemma stop_services_grows: "obeys (grows X paths) (stop_services X paths)"
proof -
  let ?finish = "\<lambda>tunnel bridge. andthen (fs_ask X ''unlink'' (rt_state_file paths)) (\<lambda>ok.
      andthen (require ok OsErr) (\<lambda>_.
      ret (JObj [(''status'', JStr ''ok''), (''actions'', JList [tunnel, bridge])])))"
  let ?actions = "\<lambda>state. andthen (stop_service X state ''tunnel'') (\<lambda>tunnel.
      andthen (stop_service X state ''bridge'') (\<lambda>bridge. ?finish tunnel bridge))"
  have acts: "grows X paths s (snd (?actions state s))" if o: "\<And>category. ours X paths state category (log s)" for state s
  proof (rule grows.andthen_at)
    show st: "grows X paths s t" if "stop_service X state ''tunnel'' s = (r, t)" for r t
      using stop_service_at [OF o, of "''tunnel''"] that by simp
    show "grows X paths t (snd (andthen (stop_service X state ''bridge'') (\<lambda>bridge. ?finish x bridge) t))"
      if "stop_service X state ''tunnel'' s = (Inr x, t)" for x t
      by (rule grows.then_obeys_at) (intro stop_service_at grows_ours [OF st [OF that]] o grows.launch_intros)+
  qed
  have "grows X paths s (snd (andthen (read_state X paths) (\<lambda>loaded.
      case loaded of None \<Rightarrow> raise (LifecycleErr ''cannot read lifecycle state: '')
      | Some state \<Rightarrow> andthen (require_object state) (\<lambda>_. ?actions state)) s))" for s
  proof (rule grows.andthen_then_at [OF grows.read_state_obeys])
    fix loaded t
    assume l: "read_state X paths s = (Inr loaded, t)"
    show "grows X paths t (snd ((case loaded of None \<Rightarrow> raise (LifecycleErr ''cannot read lifecycle state: '')
      | Some state \<Rightarrow> andthen (require_object state) (\<lambda>_. ?actions state)) t))"
    proof (cases loaded)
      case (Some state)
      with l have "ours X paths state category (log t)" for category by (simp add: loaded_ours)
      from acts [OF this] Some show ?thesis by (simp add: require_object_def grows.refl)
    qed (simp add: grows.refl)
  qed
  then have "obeys (grows X paths) (andthen (read_state X paths) (\<lambda>loaded.
      case loaded of None \<Rightarrow> raise (LifecycleErr ''cannot read lifecycle state: '')
      | Some state \<Rightarrow> andthen (require_object state) (\<lambda>_. ?actions state)))"
    by (simp add: obeys_def)
  then show ?thesis
    unfolding stop_services_def by (intro grows.andthen_obeys [OF grows.fs_plain_obeys(1)] grows.if_obeys grows.ret_obeys)
qed

lemma kills_ok_each: "kills_ok X paths (cs1 @ c # cs2) h \<Longrightarrow> kill_ok X paths c (cs2 @ h)"
  by (simp add: kills_ok_append)

text \<open>C10: Whatever \<open>start\<close> and \<open>stop\<close> meet, a signal only ever reaches a process of the bridge.  Right before every
  signal to a process group the process has been recognised: its start marker, its group and its
  executable are the recorded ones, the group is not the one of the bridge itself nor \<open>0\<close> or \<open>1\<close>, and what is
  recorded comes from the state file or from a child this very command has started.  \<open>SIGKILL\<close> follows an earlier \<open>SIGTERM\<close> to
  the group, and the process has been recognised again.  On Windows a process is only killed right after its
  creation time has been found to be the recorded one.\<close>

theorem kills_only_owned:
  fixes s :: io
  assumes "start_services X paths b p e timeout s = (r, t) \<or> stop_services X paths s = (r, t)"
  shows "\<exists>cs. log t = cs @ log s
    \<and> (\<forall>cs1 c cs2. cs = cs1 @ c # cs2 \<longrightarrow> kill_ok X paths c (cs2 @ log s))"
proof -
  from assms obeysD [OF start_services_grows] obeysD [OF stop_services_grows] have "grows X paths s t" by blast
  then show ?thesis unfolding grows_def by (metis kills_ok_each)
qed

definition stop_state :: json where
  "stop_state = JObj [(''version'', JInt 2), (''tunnel_pid'', JInt 41), (''tunnel_process_marker'', JStr ''darwin-lstart:t''),
     (''tunnel_pgid'', JInt 77), (''tunnel_executable_identity'', JStr ''python'')]"

definition stop_world :: ext where
  "stop_world = demo_ext\<lparr>x_darwin := True, x_json := \<lambda>h. Some stop_state, x_int := \<lambda>h. Some 77, x_kill := \<lambda>h. NoSuchProcess,
     x_ok := \<lambda>h. case h of FsCall w p # _ \<Rightarrow> w = ''is_file'' \<or> w = ''unlink'' | _ \<Rightarrow> False,
     x_proc := \<lambda>h. Exited 0 (case h of FsCall w p # _ \<Rightarrow> if w = ''ps lstart'' then ''t'' else ''python'' | _ \<Rightarrow> []) []\<rparr>"

definition idle :: io where
  "idle = \<lparr>log = []\<rparr>"

definition stop_checks :: "call list" where
  "stop_checks = [FsCall ''is_absolute'' ''python'', FsCall ''ps comm'' ''41'', FsCall ''exists'' ''/proc/41/exe'',
     ProcessGroup 41, FsCall ''ps lstart'' ''41'']"

lemma stop_owned: "state_process_owned stop_world stop_state ''tunnel'' \<lparr>log = h\<rparr> = (Inr True, \<lparr>log = stop_checks @ h\<rparr>)"
  by code_simp

lemma stop_fields:
  "state_int stop_state (field_of ''tunnel'' ''pid'') = Inr 41" "state_int stop_state (field_of ''tunnel'' ''pgid'') = Inr 77"
  "x_windows stop_world = False" "x_kill stop_world h = NoSuchProcess" "is_jobj stop_state"
  "x_json stop_world h = Some stop_state" "x_ok stop_world (FsCall ''is_file'' p # h)"
  "x_ok stop_world (FsCall ''unlink'' p # h)" "state_int stop_state (field_of ''bridge'' ''pid'') = Inr 0"
  by (code_simp, code_simp, (simp add: stop_world_def demo_ext_def stop_state_def)+, code_simp)

lemma stop_signals:
  "stop_service stop_world stop_state ''tunnel'' \<lparr>log = h\<rparr>
     = (Inr (stop_action ''tunnel'' (JInt 41) ''stopped''),
        \<lparr>log = KillGroup 77 SIGTERM # stop_checks @ stop_checks @ stop_checks @ h\<rparr>)"
  by (simp add: stop_service_def terminate_state_process_def terminate_posix_def kill_group_def stop_fields andthen_def
      stop_owned ret_apply)

lemma stopped_log: "KillGroup 77 SIGTERM \<in> set (log (snd (stop_services stop_world demo_paths idle)))"
  by (simp add: stop_services_def read_state_def require_object_def fs_ask_def idle_def stop_fields stop_signals
      stop_service_def [of _ _ "''bridge''"] andthen_def ret_apply)

theorem kills_only_owned_witness:
  "\<exists>cs1 cs2. log (snd (stop_services stop_world demo_paths idle)) = cs1 @ KillGroup 77 SIGTERM # cs2
     \<and> kill_ok stop_world demo_paths (KillGroup 77 SIGTERM) cs2"
proof -
  have "KillGroup 77 SIGTERM \<in> set (log (snd (stop_services stop_world demo_paths idle)))"
    by (rule stopped_log)
  then obtain cs1 cs2 where split: "log (snd (stop_services stop_world demo_paths idle)) = cs1 @ KillGroup 77 SIGTERM # cs2"
    by (meson split_list)
  have "\<exists>cs. log (snd (stop_services stop_world demo_paths idle)) = cs @ log idle
    \<and> (\<forall>cs1 c cs2. cs = cs1 @ c # cs2 \<longrightarrow> kill_ok stop_world demo_paths c (cs2 @ log idle))"
    by (rule kills_only_owned [OF disjI2 [OF prod.collapse [symmetric]]])
  then have "\<forall>cs1 c cs2. cs = cs1 @ c # cs2 \<longrightarrow> kill_ok stop_world demo_paths c cs2"
    if "log (snd (stop_services stop_world demo_paths idle)) = cs" for cs
    using that by (simp add: idle_def)
  from this [OF split] split show ?thesis by blast
qed

end
