(* ===== verification/LaunchSpec.thy ===== *)
theory LaunchSpec
  imports ProcessSpec
begin

text \<open>
  What starting the services promises: a public tunnel is only started in front of a protected origin, and every
  wait for a process or an endpoint ends while the clock runs.
\<close>

section \<open>What a public tunnel is started in front of\<close>

interpretation unspawned: launching_order "asked (\<lambda>c. \<not> process_call c)" "\<lambda>c. \<not> process_call c"
proof unfold_locales
  show "\<not> process_call c \<Longrightarrow> asked (\<lambda>c. \<not> process_call c) s (s\<lparr>log := c # log s\<rparr>)" for c and s :: "'z io_scheme"
    unfolding asked_def by (intro exI [of _ "[c]"]) simp
  show "read_call c \<Longrightarrow> \<not> process_call c" for c by (cases c) (simp_all add: read_call.simps)
qed simp_all

lemma transport_stable:
  assumes "stable_document X paths doc" "provider_of_config doc = Inr q"
    and "load_transport_provider X paths s = (Inr (p, source), t)"
  shows "p = q"
  using read_stable [OF assms(1), of s] assms(2,3)
  by (auto simp: load_transport_provider_def andthen_eq_Inr)

lemma load_security_for_Inr:
  assumes "load_security_for X paths p s = (Inr sec, t)"
  shows "load_remote_security_settings X paths s = (Inr sec, t)"
proof -
  have "(case e of
          LifecycleErr msg \<Rightarrow>
            if p = Cloudflare \<and> contains ''auth.mode = none requires'' msg
            then raise (LifecycleErr PUBLIC_NO_AUTH_REQUIRES_NETWORK_TRUST) else raise e
        | _ \<Rightarrow> raise e) u \<noteq> (Inr sec, t)" for e u
    by (cases e) simp_all
  with assms show ?thesis by (auto simp: load_security_for_def handle_eq_Inr)
qed

lemma returns_intro: "(\<And>x t. m s = (Inr x, t) \<Longrightarrow> Q x t) \<Longrightarrow> returns m s Q"
  by (simp add: returns_def)

lemma returns_case_sum:
  "returns (case x of Inl a \<Rightarrow> f a | Inr b \<Rightarrow> g b) s Q =
     ((\<forall>a. x = Inl a \<longrightarrow> returns (f a) s Q) \<and> (\<forall>b. x = Inr b \<longrightarrow> returns (g b) s Q))"
  by (cases x) auto

lemma checked_exposure:
  assumes "stable_document X paths doc" "provider_of_config doc = Inr Cloudflare"
    and "load_transport_provider X paths u = (Inr (q, source), u')"
    and "load_security_for X paths q v = (Inr sec, v')" and "check_exposure X paths q sec v' = (Inr (), w)"
  shows "\<exists>sec. security_of_config doc = Inr sec \<and> se_auth_mode sec \<noteq> None"
proof -
  from transport_stable [OF assms(1-3)] have "q = Cloudflare" .
  with assms(5) have "se_auth_mode sec \<noteq> None"
    by (auto simp: check_exposure_def Let_def andthen_eq_Inr split: if_splits)
  with load_security_stable [OF assms(1) load_security_for_Inr [OF assms(4)]] show ?thesis by blast
qed

lemma prepared_exposure:
  assumes "stable_document X paths doc" "provider_of_config doc = Inr Cloudflare"
  shows "returns (prepare_launch X paths b p e timeout) s
    (\<lambda>la t. \<exists>sec. security_of_config doc = Inr sec \<and> se_auth_mode sec \<noteq> None)"
  unfolding prepare_launch_def
  by (auto simp: returns_case_sum intro!: returns_intro) (rule checked_exposure [OF assms, simplified]; assumption)

lemma gate_guarded:
  assumes "stable_document X paths doc" "security_of_config doc = Inr sec" "se_auth_mode sec \<noteq> None"
    and "load_gate X paths s = (Inr g, t)"
  shows "ga_trust g \<noteq> None \<or> ga_authenticator g \<noteq> None"
proof -
  from assms(4) obtain sec' t r u where t: "load_remote_security_settings X paths s = (Inr sec', t)"
      and u: "load_request_authenticator X paths t = (Inr r, u)"
      and g: "ga_trust g = (if se_auth_mode sec' = Some AUTH_MODE_NONE then se_network_trust sec' else None)"
        "ga_authenticator g = r"
    by (auto simp: load_gate_def Let_def andthen_eq_Inr split: if_splits)
  from load_security_stable [OF assms(1) t] assms(2) have "sec' = sec" by simp
  from assms(2) show ?thesis
  proof (cases rule: security_of_config_cases)
    case (oauth a)
    with load_authenticator_stable [OF assms(1,2) u] g show ?thesis by auto
  qed (use assms(3) g \<open>sec' = sec\<close> in auto)
qed

text \<open>C11: A public tunnel is only ever started in front of a protected origin.  When the configuration, while it does
  not change, selects the Cloudflare tunnel and \<open>start\<close> creates any process at all, the configuration asks for
  OAuth with a resource server, or for no authentication behind an accepted network policy; and every server that
  \<open>serve\<close> brings up under this configuration has the authenticator or the network boundary in front of it.\<close>

theorem public_start_guarded:
  assumes "stable_document X paths doc" and "provider_of_config doc = Inr Cloudflare"
    and "start_services X paths b p e timeout s = (r, t)" and "log t = cs @ log s" and "Spawn args \<in> set cs"
  shows "\<exists>sec. security_of_config doc = Inr sec
    \<and> (se_auth_mode sec = Some RESOURCE_AUTH_MODE \<and> se_resource_auth sec \<noteq> None
       \<or> se_auth_mode sec = Some AUTH_MODE_NONE \<and> (\<exists>c. se_network_trust sec = Some c \<and> policy_ok c))
    \<and> (\<forall>u g v. load_gate X paths (u :: 'y io_scheme) = (Inr g, v) \<longrightarrow> ga_trust g \<noteq> None \<or> ga_authenticator g \<noteq> None)"
proof -
  obtain q u where q: "prepare_launch X paths b p e timeout s = (q, u)" by fastforce
  have "\<exists>la. q = Inr la"
  proof (cases q)
    case (Inl err)
    with q assms(3) have "t = u" by (simp add: start_services_def andthen_def)
    with obeysD [OF unspawned.prepare_launch_obeys q] assms(4) have "\<forall>c \<in> set cs. \<not> process_call c"
      by (auto simp: asked_def list_all_iff)
    with assms(5) have "\<not> process_call (Spawn args)" by blast
    then show ?thesis by simp
  qed simp
  then obtain la where "prepare_launch X paths b p e timeout s = (Inr la, u)" using q by blast
  from returnsD [OF prepared_exposure [OF assms(1,2)] this]
  obtain sec where sec: "security_of_config doc = Inr sec" "se_auth_mode sec \<noteq> None" by blast
  from sec(1) have "se_auth_mode sec = Some RESOURCE_AUTH_MODE \<and> se_resource_auth sec \<noteq> None
       \<or> se_auth_mode sec = Some AUTH_MODE_NONE \<and> (\<exists>c. se_network_trust sec = Some c \<and> policy_ok c)"
    by (cases rule: security_of_config_cases) (use sec(2) in auto)
  with sec gate_guarded [OF assms(1) sec] show ?thesis by blast
qed

definition start_document :: "(string \<times> toml) list" where
  "start_document =
     [(''policy'', TTab (map (\<lambda>k. (k, TBool False)) POLICY_BOOL_KEYS)),
      (''remote'', TTab [(''version'', TInt 1), (''transport'', TStr ''cloudflare'')]),
      (''auth'', TTab [(''version'', TInt 1), (''mode'', TStr ''none'')]), (''network_trust'', TTab demo_policy)]"

definition start_env_file :: string where
  "start_env_file = ''CLOUDFLARE_PUBLIC_URL=https://mcp.example.com/mcp'' @ lf # ''CLOUDFLARE_METRICS_ADDR=127.0.0.1:9''"

definition start_world :: ext where
  "start_world = demo_ext\<lparr>x_toml := \<lambda>h. Parsed start_document,
     x_text := \<lambda>h. case h of FsCall w p # _ \<Rightarrow> if w = ''expandvars'' then p else ''/t'' | _ \<Rightarrow> [],
     x_int := \<lambda>h. Some 7,
     x_ok := \<lambda>h. case h of HttpGet u v # _ \<Rightarrow> False | FsCall w p # _ \<Rightarrow> w \<noteq> ''exists'' | _ \<Rightarrow> True,
     x_lookup := \<lambda>h. Some (case h of FsCall w p # _ \<Rightarrow>
         if w = ''read_text'' then start_env_file else ''token'' | _ \<Rightarrow> [])\<rparr>"

lemma start_document_stable: "stable_document start_world demo_paths start_document"
  by (simp add: stable_document_def start_world_def demo_ext_def)

lemma start_provider: "provider_of_config start_document = Inr Cloudflare"
  by code_simp

definition start_cloudflare :: cloudflare_settings where
  "start_cloudflare = \<lparr>cf_public_url = ''https://mcp.example.com/mcp'', cf_origin_url = DEFAULT_BRIDGE_URL,
     cf_metrics_addr = ''127.0.0.1:9'', cf_env_file = rt_tunnel_env demo_paths\<rparr>"

definition returned :: "exn + 'a \<Rightarrow> bool" where
  "returned r = (case r of Inl _ \<Rightarrow> False | Inr _ \<Rightarrow> True)"

lemma start_answers:
  "x_ok start_world (FsCall w p # h) \<longleftrightarrow> w \<noteq> ''exists''" "\<not> x_ok start_world (HttpGet u v # h)"
  "x_int start_world h = Some 7" "x_time start_world h = 0" "x_toml start_world h = Parsed start_document"
  "x_text start_world (FsCall w p # h) = (if w = ''expandvars'' then p else ''/t'')"
  "x_lookup start_world (FsCall ''read_text'' p # h) = Some start_env_file"
  by (simp_all add: start_world_def demo_ext_def)

lemma start_dirs: "\<exists>t. ensure_runtime_dirs start_world demo_paths s = (Inr (), t)"
  by (simp add: ensure_runtime_dirs_def make_dir_def fs_ask_def start_answers andthen_def ret_apply)

lemma start_metrics: "validate_metrics_addr ''127.0.0.1:9'' = Inr ()"
proof -
  have "loopback_port ''127.0.0.1:9'' = Some 9"
    by code_simp
  then show ?thesis by (simp add: validate_metrics_addr_def validate_addr_def refuse_unless_def)
qed

lemma start_urls:
  "validate_public_url ''https://mcp.example.com/mcp'' = Inr ()" "validate_origin_url DEFAULT_BRIDGE_URL = Inr ()"
  by code_simp+

lemma start_checks: "check_cloudflare start_cloudflare = Inr ()"
  "search_lines False [Star is_space, LitI ''TUNNEL_TOKEN'', Star is_space, Lit ''=''] start_env_file = False"
  by (simp add: check_cloudflare_def start_cloudflare_def start_urls start_metrics, code_simp)

lemma start_lines:
  "splitlines start_env_file = [''CLOUDFLARE_PUBLIC_URL=https://mcp.example.com/mcp'', ''CLOUDFLARE_METRICS_ADDR=127.0.0.1:9'']"
  "parse_env_line Cloudflare p (Suc 0) ''CLOUDFLARE_PUBLIC_URL=https://mcp.example.com/mcp''
     = Inr (Some (''CLOUDFLARE_PUBLIC_URL'', ''https://mcp.example.com/mcp''))"
  "parse_env_line Cloudflare p (Suc (Suc 0)) ''CLOUDFLARE_METRICS_ADDR=127.0.0.1:9''
     = Inr (Some (''CLOUDFLARE_METRICS_ADDR'', ''127.0.0.1:9''))"
  by code_simp+

lemma start_env:
  "\<exists>t. load_provider_settings start_world demo_paths Cloudflare None s = (Inr (CloudflareSettings start_cloudflare), t)"
  using start_checks(1)
  by (simp add: load_provider_settings_def load_cloudflare_settings_def env_source_def parse_env_file_def fs_ask_def
      fs_text_def read_text_def start_answers start_lines env_value_def andthen_def ret_apply start_cloudflare_def)

lemma start_valid: "\<exists>p t. validate_provider_config start_world (CloudflareSettings start_cloudflare) s = (Inr p, t)"
  by (simp add: validate_provider_config_def validate_cloudflare_config_def start_checks read_text_def fs_ask_def
      start_answers andthen_def ret_apply)

lemma start_security: "case security_of_config start_document of
    Inr sec \<Rightarrow> se_auth_mode sec = Some AUTH_MODE_NONE \<and> se_network_trust sec = Some demo_trust | _ \<Rightarrow> False"
  by code_simp

lemma start_health: "bridge_health_url (settings_bridge_url (CloudflareSettings start_cloudflare))
    = Inr ''http://127.0.0.1:46200/healthz''"
  by code_simp

lemma start_sections:
  "section_of start_document ''server'' = Inr []" "section_of start_document ''storage'' = Inr []"
  "section_of start_document ''policy'' = Inr (map (\<lambda>k. (k, TBool False)) POLICY_BOOL_KEYS)"
  "section_of start_document ''codemcp'' = Inr []"
  by (simp_all add: section_of_def as_mapping_def start_document_def tget_or_def tget_def ttab_def)

lemma start_groups: "returned (server_of [])" "returned (codemcp_of [])"
  "returned (policy_of (map (\<lambda>k. (k, TBool False)) POLICY_BOOL_KEYS))"
  by (simp_all add: returned_def server_of_def starts_with_def policy_of_def POLICY_BOOL_KEYS_def positive_int_def
      positive_float_def codemcp_of_def unhashable_def tget_or_def tget_def tstr_def tint_def tfloat_def tbool_def)

lemma start_settings: "\<exists>S t. load_settings start_world b p s = (Inr S, t)"
proof -
  have answer: "fs_text start_world w p t = (Inr (if w = ''expandvars'' then p else ''/t''), t\<lparr>log := FsCall w p # log t\<rparr>)"
    for w p and t :: "'a io_scheme" by (simp add: fs_text_def start_answers andthen_def ret_apply)
  have toml: "read_toml start_world p t = (Inr start_document, t\<lparr>log := FsCall ''load_toml'' p # log t\<rparr>)"
    for p and t :: "'a io_scheme" by (simp add: read_toml_def start_answers andthen_def ret_apply)
  have path: "resolve_config_path start_world base (Some (TStr v)) name t =
      (Inr ''/t'', t\<lparr>log := FsCall ''resolve'' ''/t'' # FsCall ''is_absolute'' ''/t'' # FsCall ''expanduser'' v # log t\<rparr>)"
    if "strip v \<noteq> []" for base v name and t :: "'a io_scheme"
    using that by (simp add: resolve_config_path_def answer start_answers andthen_def)
  have strips: "strip ''.local'' \<noteq> []" "strip ''.local/bridge.sqlite3'' \<noteq> []" "strip ''.local/logs'' \<noteq> []"
    by code_simp+
  have projects: "\<exists>u. load_projects start_world q t = (Inr [], u)" for q and t :: "'a io_scheme"
    by (simp add: load_projects_def answer toml andthen_def as_mapping_def tget_or_def tget_def start_document_def ttab_def ret_apply)
  then obtain after_projects where projects: "load_projects start_world q t = (Inr [], after_projects q t)" for q and t :: "'a io_scheme"
    by metis
  from start_groups obtain sv cm po where "server_of [] = Inr sv" "codemcp_of [] = Inr cm"
      "policy_of (map (\<lambda>k. (k, TBool False)) POLICY_BOOL_KEYS) = Inr po"
    by (auto simp: returned_def split: sum.splits)
  then show ?thesis
    unfolding load_settings_def
    by (simp add: andthen_eq_Inr projects start_sections strips answer toml path tget_or_def tget_def Let_def)
qed

lemma start_prepared:
  "\<exists>la t. prepare_launch start_world demo_paths None None None 0 s = (Inr la, t) \<and> la_timeout la = 0"
proof -
  obtain f1 where f1: "ensure_runtime_dirs start_world demo_paths t = (Inr (), f1 t)" for t :: "'a io_scheme"
    using start_dirs by metis
  obtain S f2 where f2: "load_settings start_world b p t = (Inr (S b p t), f2 b p t)" for b p and t :: "'a io_scheme"
    using start_settings by metis
  obtain f3 where f3: "load_provider_settings start_world demo_paths Cloudflare None t
      = (Inr (CloudflareSettings start_cloudflare), f3 t)" for t :: "'a io_scheme"
    using start_env by metis
  obtain p f4 where f4: "validate_provider_config start_world (CloudflareSettings start_cloudflare) t = (Inr (p t), f4 t)"
    for t :: "'a io_scheme" using start_valid by metis
  obtain f5 where f5: "read_remote_config start_world demo_paths t = (Inr (Some start_document), f5 t)" for t :: "'a io_scheme"
    using read_stable [OF start_document_stable] by metis
  obtain sec where sec: "security_of_config start_document = Inr sec" "se_auth_mode sec = Some AUTH_MODE_NONE"
      "se_network_trust sec = Some demo_trust"
    using start_security by (auto split: sum.splits)
  have "\<exists>t'. transport_secret_value start_world demo_paths Cloudflare t = (Inr (Some ''token'', ''environment''), t')"
    for t :: "'a io_scheme"
    by (simp add: transport_secret_value_def read_secret_def environ_def start_world_def andthen_def ret_apply)
  then obtain f6 where f6: "transport_secret_value start_world demo_paths Cloudflare t
      = (Inr (Some ''token'', ''environment''), f6 t)" for t :: "'a io_scheme"
    by metis
  have modes: "AUTH_MODE_NONE \<noteq> RESOURCE_AUTH_MODE" by (simp add: AUTH_MODE_NONE_def RESOURCE_AUTH_MODE_def)
  show ?thesis
    by (simp add: prepare_launch_def given_path_def try_settings_def load_transport_provider_def load_security_for_def
        load_remote_security_settings_def check_exposure_def handle_def andthen_def ret_apply f1 f2 f3 f4 f5 f6 sec modes
        start_provider start_health is_given_def opt_text_def)
qed

lemma start_fresh_spawns:
  fixes s :: io
  assumes "la_timeout la = 0"
  shows "\<exists>r t args cs. start_fresh start_world demo_paths la s = (r, t) \<and> log t = cs @ log s \<and> Spawn args \<in> set cs"
proof -
  have "\<exists>e. stopping start_world [7] (andthen (await_bridge start_world la 7) f) t
      = (Inl e, t\<lparr>log := PollProcess 7 # Monotonic # Monotonic # log t\<rparr>)"
    for f :: "json \<Rightarrow> (io, exn, json \<times> int) M" and t :: io
    by (simp add: stopping_def await_bridge_def await_health_def wait_endpoint_def monotonic_def assms start_answers
        is_exception_def terminate_if_running_def handle_def andthen_def ret_apply raise_apply numeral_2_eq_2)
  then obtain e where wait: "stopping start_world [7] (andthen (await_bridge start_world la 7) f) t
      = (Inl (e f t), t\<lparr>log := PollProcess 7 # Monotonic # Monotonic # log t\<rparr>)"
    for f :: "json \<Rightarrow> (io, exn, json \<times> int) M" and t :: io
    by metis
  let ?tail = "\<lambda>bridge. andthen (stopping start_world [bridge]
       (andthen (await_bridge start_world la bridge) (\<lambda>bridge_health.
        andthen (spawn_self start_world demo_paths (tunnel_args demo_paths la) ''tunnel-supervisor.log'') (\<lambda>tunnel.
        ret (bridge_health, tunnel))))) (\<lambda>(bridge_health, tunnel).
     stopping start_world [tunnel, bridge]
       (andthen (await_tunnel start_world la tunnel) (\<lambda>tunnel_health.
        andthen (capture_process_state start_world (fresh_state start_world la) ''bridge'' bridge) (\<lambda>state.
        andthen (capture_process_state start_world state ''tunnel'' tunnel) (\<lambda>state'.
        andthen (store_state start_world demo_paths state') (\<lambda>_.
        ret (started_report (service_started bridge bridge_health) (service_started tunnel tunnel_health))))))))"
  have tail: "\<exists>e. ?tail 7 t = (Inl e, t\<lparr>log := PollProcess 7 # Monotonic # Monotonic # log t\<rparr>)" for t :: io
    by (simp add: andthen_Inl [OF wait])
  let ?pre = "[FsCall ''open_append'' (join_path (rt_log_dir demo_paths) ''bridge-supervisor.log''),
      FsCall ''mkdir'' (rt_log_dir demo_paths), FsCall ''sys_executable'' [], FsCall ''is_frozen'' []]"
  let ?s = "s\<lparr>log := HttpGet (la_tunnel_ready la) None # HttpGet (la_bridge_health la) (la_probe_host la) # log s\<rparr>"
  let ?t = "?s\<lparr>log := Spawn (''/t'' # serve_args demo_paths la) # ?pre @ log ?s\<rparr>"
  have spawn: "andthen (spawn_self start_world demo_paths (serve_args demo_paths la) ''bridge-supervisor.log'') f ?s = f 7 ?t"
    for f :: "int \<Rightarrow> (io, exn, json) M"
    by (simp add: spawn_self_def self_command_def popen_background_def make_dir_def fs_ask_def fs_text_def start_answers
        andthen_def ret_apply)
  from tail obtain e' where "?tail 7 ?t = (Inl e', ?t\<lparr>log := PollProcess 7 # Monotonic # Monotonic # log ?t\<rparr>)" by blast
  moreover have "start_fresh start_world demo_paths la s
      = andthen (spawn_self start_world demo_paths (serve_args demo_paths la) ''bridge-supervisor.log'') ?tail ?s"
    by (simp add: start_fresh_def refuse_if_occupied_def http_check_def start_answers andthen_def ret_apply)
  ultimately have "start_fresh start_world demo_paths la s
      = (Inl e', ?t\<lparr>log := PollProcess 7 # Monotonic # Monotonic # log ?t\<rparr>)" by (simp only: spawn)
  then show ?thesis
    by (intro exI [of _ "PollProcess 7 # Monotonic # Monotonic # Spawn (''/t'' # serve_args demo_paths la) # ?pre
        @ [HttpGet (la_tunnel_ready la) None, HttpGet (la_bridge_health la) (la_probe_host la)]"] exI) auto
qed

theorem public_start_guarded_witness:
  "\<exists>sec. security_of_config start_document = Inr sec
    \<and> (\<forall>u g v. load_gate start_world demo_paths (u :: io) = (Inr g, v) \<longrightarrow> ga_trust g \<noteq> None \<or> ga_authenticator g \<noteq> None)"
proof -
  obtain la u where p: "prepare_launch start_world demo_paths None None None 0 idle = (Inr la, u)" "la_timeout la = 0"
    using start_prepared by blast
  obtain r t args cs where f: "start_fresh start_world demo_paths la
      (u\<lparr>log := FsCall ''exists'' (rt_state_file demo_paths) # log u\<rparr>) = (r, t)"
      "log t = cs @ FsCall ''exists'' (rt_state_file demo_paths) # log u" "Spawn args \<in> set cs"
    using start_fresh_spawns [OF p(2)] by fastforce
  have run: "start_services start_world demo_paths None None None 0 idle = (r, t)"
    by (simp add: start_services_def p(1) fs_ask_def start_answers andthen_def ret_apply f(1))
  have "log t = (cs @ FsCall ''exists'' (rt_state_file demo_paths) # log u) @ log idle"
    using f(2) by (simp add: idle_def)
  from public_start_guarded [OF start_document_stable start_provider run this, of args] f(3) show ?thesis by auto
qed

section \<open>Every wait ends\<close>

text \<open>The monotonic clock does not go back, and advances by at least a millisecond while the bridge sleeps.\<close>

definition ticking :: "ext \<Rightarrow> bool" where
  "ticking X \<longleftrightarrow>
     (\<forall>h mid. x_time X (Monotonic # h) \<le> x_time X (Monotonic # mid @ Monotonic # h)
        \<and> (Sleep \<in> set mid \<longrightarrow> x_time X (Monotonic # h) < x_time X (Monotonic # mid @ Monotonic # h)))"

lemma ticks: "ticking X \<Longrightarrow> x_time X (Monotonic # h) \<le> x_time X (Monotonic # mid @ Monotonic # h)"
  and ticks_sleep: "ticking X \<Longrightarrow> Sleep \<in> set mid \<Longrightarrow> x_time X (Monotonic # h) < x_time X (Monotonic # mid @ Monotonic # h)"
  by (simp_all add: ticking_def)

text \<open>How the wait for an endpoint ends: with the endpoint answering while the process runs, with the exit of the
  process, or at the deadline.\<close>

definition waited :: "ext \<Rightarrow> string \<Rightarrow> string option \<Rightarrow> int \<Rightarrow> nat \<Rightarrow> bool \<Rightarrow> call list \<Rightarrow> bool" where
  "waited X url host pid deadline ok h \<longleftrightarrow>
     (if ok then \<exists>h'. h = HttpGet url host # PollProcess pid # h' \<and> x_ok X h \<and> x_int X (PollProcess pid # h') = None
      else (\<exists>h'. h = PollProcess pid # h' \<and> x_int X h \<noteq> None) \<or> (\<exists>h'. h = Monotonic # h' \<and> deadline \<le> x_time X h))"

lemma wait_loop_ends:
  assumes "ticking X" and "deadline - x_time X (Monotonic # log s) < n"
  shows "\<exists>ok report t cs. wait_loop n X url host pid deadline prior s = (Inr (ok, report), t)
    \<and> waited X url host pid deadline ok (log t)
    \<and> log t = cs @ log s \<and> count_list cs Sleep \<le> deadline - x_time X (Monotonic # log s)"
  using assms(2)
proof (induction n arbitrary: prior s)
  case (Suc n)
  let ?now = "x_time X (Monotonic # log s)"
  let ?h1 = "Monotonic # log s"
  let ?h2 = "PollProcess pid # ?h1"
  let ?h3 = "HttpGet url host # ?h2"
  let ?check = "JObj [(''status'', JStr ''unreachable''), (''status_code'', JNull), (''url'', JStr url)]"
  consider (late) "deadline \<le> ?now" | (gone) c where "?now < deadline" "x_int X ?h2 = Some c"
    | (up) "?now < deadline" "x_int X ?h2 = None" "x_ok X ?h3"
    | (again) "?now < deadline" "x_int X ?h2 = None" "\<not> x_ok X ?h3"
    by (cases "x_int X ?h2"; cases "deadline \<le> ?now"; auto simp: not_le)
  then show ?case
  proof cases
    case late
    then show ?thesis
      by (simp add: monotonic_def andthen_def ret_apply waited_def ex_bool_eq)
  next
    case gone
    then show ?thesis
      by (simp add: monotonic_def andthen_def ret_apply waited_def ex_bool_eq)
  next
    case up
    then show ?thesis
      by (simp add: monotonic_def andthen_def ret_apply waited_def http_check_def ex_bool_eq)
  next
    case again
    let ?t = "s\<lparr>log := Sleep # ?h3\<rparr>"
    have step: "wait_loop (Suc n) X url host pid deadline prior s = wait_loop n X url host pid deadline ?check ?t"
      using again by (simp add: monotonic_def andthen_def ret_apply http_check_def)
    have tick: "?now < x_time X (Monotonic # log ?t)"
      using ticks_sleep [OF assms(1), of "[Sleep, HttpGet url host, PollProcess pid]" "log s"] by simp
    with again(1) Suc.prems have "deadline - x_time X (Monotonic # log ?t) < n" by linarith
    from Suc.IH [OF this, of ?check] obtain ok report t cs where IH:
      "wait_loop n X url host pid deadline ?check ?t = (Inr (ok, report), t)"
      "waited X url host pid deadline ok (log t)" "log t = cs @ log ?t"
      "count_list cs Sleep \<le> deadline - x_time X (Monotonic # log ?t)" by blast
    show ?thesis
    proof (intro exI conjI)
      show "wait_loop (Suc n) X url host pid deadline prior s = (Inr (ok, report), t)" using step IH(1) by simp
      show "waited X url host pid deadline ok (log t)" by (fact IH(2))
      show "log t = (cs @ [Sleep, HttpGet url host, PollProcess pid, Monotonic]) @ log s" using IH(3) by simp
      show "count_list (cs @ [Sleep, HttpGet url host, PollProcess pid, Monotonic]) Sleep \<le> deadline - ?now"
        using IH(4) tick again(1) by (simp; linarith)
    qed
  qed
qed simp

definition never_stuck :: "('s, exn, 'a) M \<Rightarrow> 's \<Rightarrow> bool" where
  "never_stuck m s \<longleftrightarrow> fst (m s) \<noteq> Inl Stuck"

lemma never_stuck_andthen:
  "never_stuck m s \<Longrightarrow> (\<And>x t. m s = (Inr x, t) \<Longrightarrow> never_stuck (f x) t) \<Longrightarrow> never_stuck (andthen m f) s"
  by (cases "m s") (auto simp: never_stuck_def andthen_def split: sum.split)

lemma never_stuck_simps [simp]:
  "never_stuck (ret x) s" "never_stuck (raise e) s \<longleftrightarrow> e \<noteq> Stuck" "never_stuck (ask c) s'"
  "never_stuck (lift_sum r) s \<longleftrightarrow> r \<noteq> Inl Stuck" "never_stuck (require b e) s \<longleftrightarrow> b \<or> e \<noteq> Stuck"
  by (auto simp: never_stuck_def) (cases r; auto simp: never_stuck_def)+

lemma never_stuck_cases:
  "(x = None \<Longrightarrow> never_stuck m s) \<Longrightarrow> (\<And>y. x = Some y \<Longrightarrow> never_stuck (f y) s) \<Longrightarrow>
    never_stuck (case x of None \<Rightarrow> m | Some y \<Rightarrow> f y) s"
  "(b \<Longrightarrow> never_stuck m s) \<Longrightarrow> (\<not> b \<Longrightarrow> never_stuck m' s) \<Longrightarrow> never_stuck (if b then m else m') s"
  "(\<And>p q. y = (p, q) \<Longrightarrow> never_stuck (g p q) s) \<Longrightarrow> never_stuck (case y of (p, q) \<Rightarrow> g p q) s"
  by (auto split: option.split prod.split)

lemma state_int_not_stuck [simp]: "state_int state key \<noteq> Inl Stuck"
  by (auto simp: state_int_def int_of_text_def Let_def split: option.split json.split)

lemmas never_stuck_intros = never_stuck_andthen never_stuck_cases

lemma ps_value_never_stuck [simp]: "never_stuck (ps_value X pid field) s"
  unfolding ps_value_def by (intro never_stuck_intros) simp_all

lemma fs_never_stuck [simp]: "never_stuck (fs_ask X w p) s" "never_stuck (fs_text X w p) s'"
  unfolding fs_ask_def fs_text_def by (intro never_stuck_intros; simp)+

lemma recognising_never_stuck [simp]:
  "never_stuck (process_marker X pid) s" "never_stuck (process_executable_identity X pid) s"
  "never_stuck (process_group_id X pid) s"
  unfolding process_marker_def process_executable_identity_def process_group_id_def Let_def
  by (intro never_stuck_intros; simp)+

lemma owned_never_stuck [simp]: "never_stuck (state_process_owned X state category) s"
  unfolding state_process_owned_def matches_process_marker_def by (intro never_stuck_intros; simp)

lemma owned_log:
  "state_process_owned X state category s = (r, t) \<Longrightarrow> \<exists>cs. log t = cs @ log s"
  by (drule obeysD [OF unspawned.state_process_owned_obeys]) (auto simp: asked_def)

lemma wait_gone_ends:
  assumes "ticking X" and "deadline - x_time X (Monotonic # log s) < n"
  shows "never_stuck (wait_gone n X state category deadline) s"
  using assms(2)
proof (induction n arbitrary: s)
  case (Suc n)
  show ?case
    unfolding wait_gone.simps
  proof (rule never_stuck_andthen)
    show "never_stuck (monotonic X) s" unfolding monotonic_def by (intro never_stuck_intros) simp_all
    fix now s1
    assume "monotonic X s = (Inr now, s1)"
    then have now: "now = x_time X (Monotonic # log s)" "log s1 = Monotonic # log s"
      by (auto simp: monotonic_def andthen_eq_Inr)
    show "never_stuck (if now \<ge> deadline then ret False
     else
       andthen (state_process_owned X state category) (\<lambda>owned.
       if \<not> owned then ret True
       else andthen (ask Sleep) (\<lambda>_. wait_gone n X state category deadline))) s1"
    proof (intro never_stuck_cases never_stuck_andthen)
      fix owned s2 h s3
      assume early: "\<not> now \<ge> deadline" and o: "state_process_owned X state category s1 = (Inr owned, s2)"
        and sl: "ask Sleep s2 = (Inr h, s3)"
      from owned_log [OF o] obtain cs where cs: "log s2 = cs @ log s1" by blast
      from sl cs now have "log s3 = Sleep # cs @ Monotonic # log s" by auto
      then have "now < x_time X (Monotonic # log s3)"
        using ticks_sleep [OF assms(1), of "Sleep # cs" "log s"] now by simp
      with early Suc.prems now show "never_stuck (wait_gone n X state category deadline) s3"
        by (intro Suc.IH) linarith
    qed simp_all
  qed
qed simp

lemma terminate_never_stuck:
  assumes "ticking X"
  shows "never_stuck (terminate_state_process X state category) s"
proof -
  have kill: "never_stuck (kill_group X g sig) t" for g sig and t :: "'a io_scheme"
    unfolding kill_group_def
    by (intro never_stuck_intros) (simp_all split: kill_answer.split)
  have wait: "never_stuck (wait_gone (TERMINATE_TIMEOUT_MS + 2) X state category (now + TERMINATE_TIMEOUT_MS)) t"
    if "monotonic X u = (Inr now, t)" for now and u t :: "'a io_scheme"
  proof (rule wait_gone_ends [OF assms])
    from that have "now = x_time X (Monotonic # log u)" "log t = Monotonic # log u"
      by (auto simp: monotonic_def andthen_eq_Inr)
    with ticks [OF assms, of "log u" "[]"]
    show "now + TERMINATE_TIMEOUT_MS - x_time X (Monotonic # log t) < TERMINATE_TIMEOUT_MS + 2" by simp
  qed
  have mono: "never_stuck (monotonic X) t" for t :: "'a io_scheme"
    unfolding monotonic_def by (intro never_stuck_intros) simp_all
  have windows: "never_stuck (terminate_windows X pid) t" for pid and t :: "'a io_scheme"
    unfolding terminate_windows_def by (intro never_stuck_intros) (simp_all split: proc.split)
  have posix: "never_stuck (terminate_posix X state category g) t" for g and t :: "'a io_scheme"
    unfolding terminate_posix_def by (intro never_stuck_intros kill mono wait) simp_all
  show ?thesis
    unfolding terminate_state_process_def by (intro never_stuck_intros windows posix) simp_all
qed


definition clock_world :: ext where
  "clock_world = demo_ext\<lparr>x_time := length\<rparr>"


end
