(* ===== verification/Installing.thy ===== *)
theory Installing
  imports Startup
begin

text \<open>
  The files an operator's commands write (\<open>lifecycle.py\<close>): the first installation with the rewriting of the
  shipped \<open>bridge.toml\<close>, and the registration and removal of a project in \<open>projects.toml\<close>.  The text of a file is
  what Python reads, with line ends translated.
\<close>

section \<open>Rewriting the shipped configuration\<close>

text \<open>The first match of a pattern that begins with \<open>(?m)^\<close>: the text in front of it and the text behind it.\<close>

definition line_match :: "bool \<Rightarrow> rx list \<Rightarrow> bool \<Rightarrow> string \<Rightarrow> string option" where
  "line_match whole rs starts s = (if starts then map_option snd (first_match whole rs s) else None)"

fun find_line :: "bool \<Rightarrow> rx list \<Rightarrow> bool \<Rightarrow> string \<Rightarrow> (string \<times> string) option" where
  "find_line whole rs starts [] = map_option (Pair []) (line_match whole rs starts [])"
| "find_line whole rs starts (c # cs) =
     (case line_match whole rs starts (c # cs) of
        Some r \<Rightarrow> Some ([], r)
      | None \<Rightarrow> map_option (\<lambda>(front, r). (c # front, r)) (find_line whole rs (c = lf) cs))"

text \<open>\<open>re.sub\<close> of such a pattern with \<open>$\<close> at its end; a match that consumes nothing does not occur.\<close>

function sub_lines :: "rx list \<Rightarrow> string \<Rightarrow> bool \<Rightarrow> string \<Rightarrow> string" where
  "sub_lines rs replacement starts s =
     (case find_line True rs starts s of
        Some (front, r) \<Rightarrow>
          if length r < length s
          then front @ replacement @ sub_lines rs replacement (s ! (length s - length r - 1) = lf) r else s
      | None \<Rightarrow> s)"
  by pat_completeness auto

termination by (relation "measure (\<lambda>(rs, replacement, starts, s). length s)") auto

declare sub_lines.simps [simp del]

definition quoted_setting :: "string \<Rightarrow> rx list" where
  "quoted_setting key =
     [Lit key, Star is_space, Lit ''='', Star is_space, One is_quote, Star (\<lambda>c. \<not> is_quote c), One is_quote, Star is_space]"

definition setting_line :: "string \<Rightarrow> string \<Rightarrow> string" where
  "setting_line key value = key @ '' = '' @ value"

definition rewrite_bridge_storage :: "string \<Rightarrow> runtime_paths \<Rightarrow> string" where
  "rewrite_bridge_storage template paths =
     fold (\<lambda>(key, p) updated. sub_lines (quoted_setting key) (setting_line key (quote p)) True updated)
       [(''data_dir'', rt_data_dir paths), (''sqlite_file'', join_path (rt_data_dir paths) ''bridge.sqlite3''),
        (''log_dir'', rt_log_dir paths)] template"

text \<open>The body of \<open>[server]\<close>: up to the next line that begins with a bracket, or to the end.\<close>

fun table_body :: "bool \<Rightarrow> string \<Rightarrow> string" where
  "table_body starts [] = []"
| "table_body starts (c # cs) = (if starts \<and> c = CHR ''['' then [] else c # table_body (c = lf) cs)"

definition server_header :: "rx list" where
  "server_header = [Lit ''[server]'', Star is_space, Lit [lf]]"

text \<open>\<open>re.subn\<close> with \<open>count=1\<close>; the setting must be there.\<close>

definition replace_setting :: "string \<Rightarrow> string \<Rightarrow> string \<Rightarrow> exn + string" where
  "replace_setting key value body =
     (case find_line True [Lit key, Star is_space, Lit ''='', Star (\<lambda>c. c \<noteq> lf)] True body of
        None \<Rightarrow> Inl (LifecycleErr (''bridge template [server] is missing '' @ key))
      | Some (front, r) \<Rightarrow> Inr (front @ setting_line key value @ r))"

definition endpoint_port :: "string \<Rightarrow> exn + split_url \<times> nat" where
  "endpoint_port endpoint_url =
     sum_bind (case urlsplit endpoint_url of
                 Inl msg \<Rightarrow> Inl (LifecycleErr (''Bridge MCP endpoint is invalid: '' @ msg))
               | Inr u \<Rightarrow>
                   (case url_port u of
                      Inl msg \<Rightarrow> Inl (LifecycleErr (''Bridge MCP endpoint is invalid: '' @ msg))
                    | Inr port \<Rightarrow> Inr (u, port))) (\<lambda>(u, port).
     sum_bind (refuse_unless (loopback_http u \<and> \<not> url_credentials u \<and> mcp_path u)
       ''Bridge MCP endpoint must be an HTTP(S) /mcp endpoint on 127.0.0.1'') (\<lambda>_.
     Inr (u, case port of Some n \<Rightarrow> n | None \<Rightarrow> if u_scheme u = ''https'' then 443 else 80)))"

definition rewrite_bridge_endpoint :: "string \<Rightarrow> string \<Rightarrow> exn + string" where
  "rewrite_bridge_endpoint template endpoint_url =
     sum_bind (endpoint_port endpoint_url) (\<lambda>(u, port).
     case find_line False server_header True template of
       None \<Rightarrow>
         if endpoint_url = DEFAULT_BRIDGE_URL then Inr template
         else Inl (LifecycleErr ''bridge template is missing the [server] table'')
     | Some (front, r) \<Rightarrow>
         (let body = table_body True r; path = rstrip_by (\<lambda>c. c = CHR ''/'') (u_path u) in
          sum_bind (replace_setting ''host'' (quote (opt_text (url_hostname u))) body) (\<lambda>body1.
          sum_bind (replace_setting ''port'' (decimal port) body1) (\<lambda>body2.
          sum_bind (replace_setting ''path'' (quote (if path = [] then ''/'' else path)) body2) (\<lambda>body3.
          Inr (take (length template - length r) template @ body3 @ drop (length body) r))))))"

section \<open>The first installation\<close>

record init_options =
  in_tunnel_id :: string
  in_profile_name :: string
  in_bridge_url :: string
  in_tunnel_health_url :: string
  in_health_listen_addr :: string
  in_transport :: "string option"
  in_public_url :: string
  in_origin_url :: string
  in_metrics_addr :: string
  in_force :: bool

definition write_file :: "ext \<Rightarrow> string \<Rightarrow> string \<Rightarrow> ('z io_scheme, exn, unit) M" where
  "write_file X path content =
     andthen (ask (FsWrite path (encode_str content))) (\<lambda>h. require (x_ok X h) OsErr)"

text \<open>\<open>force or not path.exists()\<close>.\<close>

definition may_create :: "ext \<Rightarrow> bool \<Rightarrow> string \<Rightarrow> ('z io_scheme, exn, bool) M" where
  "may_create X force path =
     (if force then ret True else andthen (fs_ask X ''exists'' path) (\<lambda>present. ret (\<not> present)))"

definition create_bridge_config ::
  "ext \<Rightarrow> runtime_paths \<Rightarrow> provider \<Rightarrow> string \<Rightarrow> init_options \<Rightarrow> ('z io_scheme, exn, string list) M" where
  "create_bridge_config X paths p template options =
     andthen (may_create X (in_force options) (rt_bridge_config paths)) (\<lambda>due.
     if \<not> due then ret []
     else
       andthen (read_text X template) (\<lambda>content.
       andthen (lift_sum (rewrite_bridge_endpoint (rewrite_bridge_storage content paths)
         (if p = Cloudflare then in_origin_url options else in_bridge_url options))) (\<lambda>bridge_text.
       andthen (write_file X (rt_bridge_config paths) bridge_text) (\<lambda>_.
       ret [rt_bridge_config paths]))))"

definition create_projects_config ::
  "ext \<Rightarrow> runtime_paths \<Rightarrow> init_options \<Rightarrow> ('z io_scheme, exn, string list) M" where
  "create_projects_config X paths options =
     andthen (may_create X (in_force options) (rt_projects_config paths)) (\<lambda>due.
     if \<not> due then ret []
     else andthen (write_file X (rt_projects_config paths) (''# Managed by codemcp-remote'' @ [lf])) (\<lambda>_.
          ret [rt_projects_config paths]))"

text \<open>\<open>provider.initialize_config\<close>; the directory of the profile is always the tunnel directory.\<close>

definition create_transport_config ::
  "ext \<Rightarrow> runtime_paths \<Rightarrow> provider \<Rightarrow> init_options \<Rightarrow> ('z io_scheme, exn, string list) M" where
  "create_transport_config X paths p options =
     (case p of
        OpenAITunnel \<Rightarrow>
          initialize_openai X paths
            \<lparr>oa_tunnel_id = in_tunnel_id options, oa_profile_name = in_profile_name options,
             oa_profile_dir = rt_tunnel_dir paths, oa_bridge_url = in_bridge_url options,
             oa_tunnel_health_url = in_tunnel_health_url options,
             oa_health_listen_addr = in_health_listen_addr options, oa_env_file = rt_tunnel_env paths\<rparr> (in_force options)
      | Cloudflare \<Rightarrow>
          initialize_cloudflare X paths
            \<lparr>cf_public_url = in_public_url options, cf_origin_url = in_origin_url options,
             cf_metrics_addr = in_metrics_addr options, cf_env_file = rt_tunnel_env paths\<rparr> (in_force options))"

definition refuse_transport_change ::
  "ext \<Rightarrow> runtime_paths \<Rightarrow> string \<Rightarrow> provider \<Rightarrow> provider \<Rightarrow> bool \<Rightarrow> ('z io_scheme, exn, unit) M" where
  "refuse_transport_change X paths source old new force =
     (if old = new \<or> force then ret ()
      else
        andthen (if source = ''config'' then ret True else fs_ask X ''exists'' (rt_tunnel_env paths)) (\<lambda>configured.
        require (\<not> configured) (LifecycleErr
          ''remote transport change requires --force so provider configuration is replaced safely'')))"

definition initialize_runtime ::
  "ext \<Rightarrow> runtime_paths \<Rightarrow> init_options \<Rightarrow> ('z io_scheme, exn, (string \<times> json) list) M" where
  "initialize_runtime X paths options =
     andthen (ensure_runtime_dirs X paths) (\<lambda>_.
     andthen (load_transport_provider X paths) (\<lambda>(old, source).
     andthen (remote_document X paths) (\<lambda>parsed.
     andthen (lift_sum (parse_auth_configuration parsed)) (\<lambda>(auth_mode, auth, _).
     andthen (lift_sum (parse_network_trust_configuration parsed)) (\<lambda>(trust, _).
     andthen (case in_transport options of
                None \<Rightarrow> ret old | Some name \<Rightarrow> lift_sum (get_transport_provider name)) (\<lambda>p.
     andthen (refuse_transport_change X paths source old p (in_force options)) (\<lambda>_.
     let template = join_path (join_path (rt_runtime_root paths) ''config'') ''bridge.example.toml'' in
     andthen (fs_ask X ''is_file'' template) (\<lambda>shipped.
     andthen (require shipped (LifecycleErr (''bridge template not found: '' @ template))) (\<lambda>_.
     andthen (create_bridge_config X paths p template options) (\<lambda>created1.
     andthen (create_projects_config X paths options) (\<lambda>created2.
     andthen (create_transport_config X paths p options) (\<lambda>created3.
     andthen (if in_force options then ret True
              else andthen (fs_ask X ''is_file'' (remote_config_path paths)) (\<lambda>present. ret (\<not> present \<or> old \<noteq> p))) (\<lambda>due.
     andthen (if due then andthen (write_remote_config X paths p auth auth_mode trust) (\<lambda>f. ret [f]) else ret []) (\<lambda>created4.
     ret [(''status'', JStr ''ok''), (''app_root'', JStr (rt_app_root paths)), (''home'', JStr (rt_app_root paths)),
          (''config_dir'', JStr (rt_config_dir paths)), (''data_dir'', JStr (rt_data_dir paths)),
          (''secret_dir'', JStr (rt_secret_dir paths)), (''transport'', JStr (provider_id p)),
          (''created'', jstrs (created1 @ created2 @ created3 @ created4))]))))))))))))))"

section \<open>Projects\<close>

text \<open>\<open>paths.projects_config.with_suffix(".toml.tmp")\<close>; the file is called \<open>projects.toml\<close>.\<close>

definition projects_temporary :: "runtime_paths \<Rightarrow> string" where
  "projects_temporary paths = rt_projects_config paths @ ''.tmp''"

definition check_project_id :: "string \<Rightarrow> ('z io_scheme, exn, unit) M" where
  "check_project_id project_id =
     require (project_id_ok project_id)
       (LifecycleErr (''project id must contain only letters, digits, '' @ quoted ''.'' @ '', '' @ quoted ''_'' @ '' or ''
          @ quoted ''-''))"

definition expanded_path :: "ext \<Rightarrow> string \<Rightarrow> ('z io_scheme, exn, string) M" where
  "expanded_path X p = andthen (fs_text X ''expanduser'' p) (\<lambda>q. fs_text X ''resolve'' q)"

text \<open>The text of the registry, and the tables \<open>tomllib.loads\<close> finds in it.\<close>

definition read_projects_text ::
  "ext \<Rightarrow> runtime_paths \<Rightarrow> ('z io_scheme, exn, string \<times> toml) M" where
  "read_projects_text X paths =
     andthen (fs_ask X ''is_file'' (rt_projects_config paths)) (\<lambda>present.
     andthen (require present (LifecycleErr
       (''projects.toml is missing; run '' @ quoted ''codemcp-remote init'' @ '' first''))) (\<lambda>_.
     andthen (read_text X (rt_projects_config paths)) (\<lambda>raw.
     andthen (ask (FsCall ''loads_toml'' raw)) (\<lambda>h.
     case x_toml X h of
       Parsed t \<Rightarrow> ret (raw, tget_or t ''projects'' (TTab []))
     | BadToml msg \<Rightarrow> raise (LifecycleErr (''projects.toml is invalid: '' @ msg))
     | _ \<Rightarrow> raise (LifecycleErr ''projects.toml is invalid: '')))))"

text \<open>The new text is written beside the registry, loaded with the settings, and only then moved in its place.\<close>

definition replace_projects ::
  "ext \<Rightarrow> runtime_paths \<Rightarrow> string \<Rightarrow> string \<Rightarrow> ('z io_scheme, exn, unit) M" where
  "replace_projects X paths candidate refusal =
     andthen (write_file X (projects_temporary paths) candidate) (\<lambda>_.
     andthen (try_settings (load_settings X (rt_bridge_config paths) (projects_temporary paths))) (\<lambda>loaded.
     case loaded of
       Inl msg \<Rightarrow>
         andthen (fs_ask X ''unlink'' (projects_temporary paths)) (\<lambda>ok.
         andthen (require ok OsErr) (\<lambda>_. raise (LifecycleErr (refusal @ msg))))
     | Inr _ \<Rightarrow>
         andthen (fs_ask X ''replace'' (rt_projects_config paths)) (\<lambda>ok. require ok OsErr)))"

definition project_entry :: "string \<Rightarrow> string \<Rightarrow> string" where
  "project_entry project_id root =
     [lf] @ ''[projects.'' @ project_id @ '']'' @ [lf] @ ''root = '' @ quote root @ [lf]
     @ ''codemcp_config = '' @ quote ''codemcp.toml'' @ [lf]"

definition add_project ::
  "ext \<Rightarrow> runtime_paths \<Rightarrow> string \<Rightarrow> string \<Rightarrow> ('z io_scheme, exn, (string \<times> json) list) M" where
  "add_project X paths project_id root =
     andthen (check_project_id project_id) (\<lambda>_.
     andthen (expanded_path X root) (\<lambda>project_root.
     andthen (fs_ask X ''is_dir'' project_root) (\<lambda>directory.
     andthen (require directory (LifecycleErr (''project root is not a directory: '' @ project_root))) (\<lambda>_.
     andthen (read_projects_text X paths) (\<lambda>(raw, projects).
     andthen (require (case projects of TTab ps \<Rightarrow> tget ps project_id = None | _ \<Rightarrow> True)
       (LifecycleErr (''project already exists: '' @ project_id))) (\<lambda>_.
     andthen (replace_projects X paths (raw @ project_entry project_id project_root)
       ''project configuration is invalid: '') (\<lambda>_.
     ret [(''status'', JStr ''ok''), (''project_id'', JStr project_id), (''root'', JStr project_root),
          (''reload'', JStr ''automatic''), (''restart_required'', JBool False)])))))))"

text \<open>\<open>raw.splitlines(keepends=True)\<close>.\<close>

fun lines_with_ends :: "string \<Rightarrow> string \<Rightarrow> string list" where
  "lines_with_ends acc [] = (if acc = [] then [] else [rev acc])"
| "lines_with_ends acc (c # cs) =
     (if c = cr \<and> take 1 cs = [lf] then rev (lf # c # acc) # lines_with_ends [] (drop 1 cs)
      else if is_line_break c then rev (c # acc) # lines_with_ends [] cs
      else lines_with_ends (c # acc) cs)"

text \<open>\<open>re.match(r"^\s*\[([^\]]+)\]", line)\<close>.\<close>

definition table_name :: "string \<Rightarrow> string option" where
  "table_name line =
     (case matches [Star is_space, Lit ''['', Grab (\<lambda>c. c \<noteq> CHR '']''), Lit '']''] line of
        [] \<Rightarrow> None | (name, _) # _ \<Rightarrow> Some (strip name))"

definition begins_table :: "string \<Rightarrow> string \<Rightarrow> bool" where
  "begins_table base line = (table_name line = Some base)"

definition leaves_table :: "string \<Rightarrow> string \<Rightarrow> bool" where
  "leaves_table base line =
     (case table_name line of
        None \<Rightarrow> False | Some name \<Rightarrow> name \<noteq> base \<and> \<not> starts_with name (base @ ''.''))"

text \<open>The loop over the lines: what is in front of the section, the section, and what is behind it.\<close>

definition table_section :: "string \<Rightarrow> string list \<Rightarrow> (string list \<times> string list \<times> string list) option" where
  "table_section base lines =
     (case dropWhile (\<lambda>line. \<not> begins_table base line) lines of
        [] \<Rightarrow> None
      | header # rest \<Rightarrow>
          Some (takeWhile (\<lambda>line. \<not> begins_table base line) lines,
                header # takeWhile (\<lambda>line. \<not> leaves_table base line) rest,
                dropWhile (\<lambda>line. \<not> leaves_table base line) rest))"

definition registered_root ::
  "ext \<Rightarrow> runtime_paths \<Rightarrow> string \<Rightarrow> toml \<Rightarrow> ('z io_scheme, exn, string) M" where
  "registered_root X paths project_id entry =
     (case entry of
        TTab project \<Rightarrow>
          (case tget project ''root'' of
             Some (TStr root) \<Rightarrow>
               if strip root = [] then raise (LifecycleErr (''project registration has no valid root: '' @ project_id))
               else
                 andthen (fs_text X ''expanduser'' root) (\<lambda>p.
                 andthen (fs_ask X ''is_absolute'' p) (\<lambda>absolute.
                 fs_text X ''resolve'' (if absolute then p else join_path (parent_dir (rt_projects_config paths)) p)))
           | _ \<Rightarrow> raise (LifecycleErr (''project registration has no valid root: '' @ project_id)))
      | _ \<Rightarrow> raise (LifecycleErr (''project registration is invalid: '' @ project_id)))"

definition remove_registered ::
  "ext \<Rightarrow> runtime_paths \<Rightarrow> string \<Rightarrow> string \<Rightarrow> string \<Rightarrow> toml \<Rightarrow> ('z io_scheme, exn, (string \<times> json) list) M" where
  "remove_registered X paths project_id expected_root raw entry =
     andthen (registered_root X paths project_id entry) (\<lambda>root.
     andthen (expanded_path X expected_root) (\<lambda>expected.
     andthen (require (x_normcase X root = x_normcase X expected)
       (LifecycleErr (''project root ownership mismatch for '' @ project_id @ '': registered='' @ root
          @ '' expected='' @ expected))) (\<lambda>_.
     case table_section (''projects.'' @ project_id) (lines_with_ends [] raw) of
       None \<Rightarrow> raise (LifecycleErr
         (''project registration section not found for '' @ project_id @ ''; refusing removal''))
     | Some (front, section, behind) \<Rightarrow>
         andthen (replace_projects X paths (concat (front @ behind))
           ''project configuration is invalid after removal: '') (\<lambda>_.
         ret [(''status'', JStr ''ok''), (''project_id'', JStr project_id), (''root'', JStr root),
              (''removed'', JBool True), (''reload'', JStr ''automatic''), (''restart_required'', JBool False)]))))"

definition remove_project ::
  "ext \<Rightarrow> runtime_paths \<Rightarrow> string \<Rightarrow> string \<Rightarrow> ('z io_scheme, exn, (string \<times> json) list) M" where
  "remove_project X paths project_id expected_root =
     andthen (check_project_id project_id) (\<lambda>_.
     andthen (read_projects_text X paths) (\<lambda>(raw, projects).
     case projects of
       TTab ps \<Rightarrow>
         (case tget ps project_id of
            None \<Rightarrow>
              ret [(''status'', JStr ''not-found''), (''project_id'', JStr project_id),
                   (''reload'', JStr ''automatic''), (''restart_required'', JBool False)]
          | Some entry \<Rightarrow> remove_registered X paths project_id expected_root raw entry)
     | _ \<Rightarrow> raise (LifecycleErr ''projects.toml [projects] must be a table'')))"

end
