(* ===== verification/InstallSpec.thy ===== *)
theory InstallSpec
  imports ProcessSpec SettingsSpec Installing
begin

text \<open>
  What the commands that write configuration promise: the registry of projects is only ever replaced as a
  whole, by a text the settings loader has just accepted and that differs from the text that was read by the
  one entry the command is about; and \<open>init\<close> creates files, it does not overwrite them.
\<close>

section \<open>Judging every call by what came before it\<close>

fun all_ok :: "(call \<Rightarrow> call list \<Rightarrow> bool) \<Rightarrow> call list \<Rightarrow> call list \<Rightarrow> bool" where
  "all_ok K [] h = True"
| "all_ok K (c # cs) h = (K c (cs @ h) \<and> all_ok K cs h)"

text \<open>The states reached when every new call was in order at its time.\<close>

definition guarded :: "(call \<Rightarrow> call list \<Rightarrow> bool) \<Rightarrow> io \<Rightarrow> io \<Rightarrow> bool" where
  "guarded K s t \<longleftrightarrow> (\<exists>cs. log t = cs @ log s \<and> all_ok K cs (log s))"

lemma all_ok_append: "all_ok K (a @ b) h \<longleftrightarrow> all_ok K a (b @ h) \<and> all_ok K b h"
  by (induction a) auto

lemma guarded_call: "K c (log s) \<Longrightarrow> guarded K s (s\<lparr>log := c # log s\<rparr>)"
  unfolding guarded_def by (intro exI [of _ "[c]"]) simp

interpretation guarded: state_order "guarded K" for K
proof unfold_locales
  show "guarded K s s" for s unfolding guarded_def by (intro exI [of _ "[]"]) simp
  show "guarded K s t \<Longrightarrow> guarded K t u \<Longrightarrow> guarded K s u" for s t u
    unfolding guarded_def by (metis append.assoc all_ok_append)
qed

lemma guarded_ask: "K c (log s) \<Longrightarrow> guarded K s (snd (ask c s))"
  by (simp add: guarded_call)

lemma guarded_fs_ask: "K (FsCall w p) (log s) \<Longrightarrow> guarded K s (snd (fs_ask X w p s))"
  by (simp add: fs_ask_def andthen_def ret_apply guarded_call)

lemma guarded_require: "guarded K s (snd (require b e s))"
  by (simp add: guarded.refl)

context state_order
begin

lemma require_then_at: "(b \<Longrightarrow> R s (snd (f () s))) \<Longrightarrow> R s (snd (andthen (require b e) f s))"
  by (simp add: refl)

lemma obeys_at: "obeys R m \<Longrightarrow> R s (snd (m s))"
  by (simp add: obeys_def)

text \<open>A step that remembers where the run has come from.\<close>

lemma onward:
  assumes "R s0 s" and "R s (snd (m s))" and "\<And>x t. R s0 t \<Longrightarrow> m s = (Inr x, t) \<Longrightarrow> R t (snd (f x t))"
  shows "R s (snd (andthen m f s))"
proof (rule andthen_at)
  show "R s t" if "m s = (r, t)" for r t using assms(2) that by simp
  show "R t (snd (f x t))" if "m s = (Inr x, t)" for x t
    using assms that trans [OF assms(1), of t] by auto
qed

end

section \<open>Projects\<close>

text \<open>The settings have just been loaded from the temporary file, right after it was written.\<close>

definition accepted :: "ext \<Rightarrow> runtime_paths \<Rightarrow> call list \<Rightarrow> bool" where
  "accepted X paths h \<longleftrightarrow>
     (\<exists>settings (u :: io) v bs h'.
        load_settings X (rt_bridge_config paths) (projects_temporary paths) u = (Inr settings, v)
        \<and> log u = FsWrite (projects_temporary paths) bs # h' \<and> x_ok X (log u) \<and> log v = h)"

text \<open>Only the temporary file is written or removed; it is written with a text that is due and takes the place
  of the registry when it has been accepted.  No other file or directory is changed.\<close>

fun edit_ok :: "ext \<Rightarrow> runtime_paths \<Rightarrow> (string \<Rightarrow> call list \<Rightarrow> bool) \<Rightarrow> call \<Rightarrow> call list \<Rightarrow> bool" where
  "edit_ok X paths proper (FsWrite p bs) h =
     (p = projects_temporary paths \<and> (\<exists>content. bs = encode_str content \<and> proper content h))"
| "edit_ok X paths proper (FsCall w p) h =
     (if w = ''replace'' then p = rt_projects_config paths \<and> accepted X paths h
      else if w = ''unlink'' then p = projects_temporary paths
      else w \<notin> set WRITES)"
| "edit_ok X paths proper c h = (\<not> process_call c)"

text \<open>Registration: the text that has just been read, with the entry at its end; the project was not there.\<close>

definition registration :: "ext \<Rightarrow> runtime_paths \<Rightarrow> string \<Rightarrow> string \<Rightarrow> string \<Rightarrow> call list \<Rightarrow> bool" where
  "registration X paths project_id root content h \<longleftrightarrow>
     project_id_ok project_id
     \<and> (\<exists>(s0 :: io) s1 s2 s3 project_root raw projects.
          expanded_path X root s0 = (Inr project_root, s1)
          \<and> fs_ask X ''is_dir'' project_root s1 = (Inr True, s2)
          \<and> read_projects_text X paths s2 = (Inr (raw, projects), s3) \<and> log s3 = h
          \<and> (\<forall>ps. projects = TTab ps \<longrightarrow> tget ps project_id = None)
          \<and> content = raw @ project_entry project_id project_root)"

text \<open>A section: it begins with the first line that names the table, runs to the next line that leaves the
  table, and no line within it does.\<close>

definition is_section :: "string \<Rightarrow> string list \<Rightarrow> string list \<Rightarrow> string list \<Rightarrow> bool" where
  "is_section base front section behind \<longleftrightarrow>
     section \<noteq> [] \<and> begins_table base (hd section)
     \<and> list_all (\<lambda>line. \<not> begins_table base line) front
     \<and> list_all (\<lambda>line. \<not> leaves_table base line) (tl section)
     \<and> (behind = [] \<or> leaves_table base (hd behind))"

text \<open>Removal: the text that has been read without the one section of the project, whose registered root has
  just been compared with the expected one.\<close>

definition removal :: "ext \<Rightarrow> runtime_paths \<Rightarrow> string \<Rightarrow> string \<Rightarrow> string \<Rightarrow> call list \<Rightarrow> bool" where
  "removal X paths project_id expected_root content h \<longleftrightarrow>
     project_id_ok project_id
     \<and> (\<exists>(s0 :: io) s1 s2 s3 raw ps entry root expected front section behind.
          read_projects_text X paths s0 = (Inr (raw, TTab ps), s1) \<and> tget ps project_id = Some entry
          \<and> registered_root X paths project_id entry s1 = (Inr root, s2)
          \<and> expanded_path X expected_root s2 = (Inr expected, s3)
          \<and> x_normcase X root = x_normcase X expected \<and> log s3 = h
          \<and> raw = concat (front @ section @ behind) \<and> content = concat (front @ behind)
          \<and> is_section (''projects.'' @ project_id) front section behind)"

interpretation edits: asking_order "guarded (edit_ok X paths proper)" "\<lambda>c. \<forall>h. edit_ok X paths proper c h" for X paths proper
proof unfold_locales
  show "\<forall>h. edit_ok X paths proper c h \<Longrightarrow> guarded (edit_ok X paths proper) s (s\<lparr>log := c # log s\<rparr>)" for c s
    by (rule guarded_call) blast
  show "read_call c \<Longrightarrow> \<forall>h. edit_ok X paths proper c h" for c
    by (cases c) (auto simp: read_call.simps READ_QUESTIONS_def WRITES_def)
  show "what \<notin> set WRITES \<Longrightarrow> \<forall>h. edit_ok X paths proper (FsCall what p) h" for what p
    by (auto simp: WRITES_def)
qed

text \<open>The report says that the command is done only when the registry has been replaced.\<close>

definition replaced :: "ext \<Rightarrow> runtime_paths \<Rightarrow> io \<Rightarrow> bool" where
  "replaced X paths t \<longleftrightarrow> (\<exists>h. log t = FsCall ''replace'' (rt_projects_config paths) # h) \<and> x_ok X (log t)"

lemma loads_guarded: "obeys (guarded (edit_ok X paths proper)) (load_settings X b p)"
  unfolding load_settings_def Let_def
  by (intro edits.file_intros edits.fs_text_obeys edits.read_toml_obeys edits.resolve_config_path_obeys
      edits.load_projects_obeys)

lemma try_settings_Inr:
  "try_settings m s = (Inr (Inr x), t) \<Longrightarrow> m s = (Inr x, t)"
  by (auto simp: try_settings_def handle_def andthen_def raise_apply ret_apply split: prod.splits sum.splits exn.splits)

lemma replace_projects_guarded:
  fixes s :: io
  assumes "proper new_text (log s)"
  shows "guarded (edit_ok X paths proper) s (snd (replace_projects X paths new_text refusal s))"
proof -
  let ?G = "guarded (edit_ok X paths proper)"
  let ?w = "FsWrite (projects_temporary paths) (encode_str new_text)"
  let ?u = "s\<lparr>log := ?w # log s\<rparr>"
  have written: "write_file X (projects_temporary paths) new_text s =
      ((if x_ok X (log ?u) then Inr () else Inl OsErr), ?u)"
    by (simp add: write_file_def andthen_def ret_apply raise_apply)
  have step: "?G s ?u" by (rule guarded_call) (use assms in auto)
  show ?thesis
  proof (cases "x_ok X (log ?u)")
    case True
    let ?load = "try_settings (load_settings X (rt_bridge_config paths) (projects_temporary paths))"
    let ?rest = "\<lambda>loaded. case loaded of
        Inl msg \<Rightarrow> andthen (fs_ask X ''unlink'' (projects_temporary paths)) (\<lambda>ok.
          andthen (require ok OsErr) (\<lambda>_. raise (LifecycleErr (refusal @ msg))))
      | Inr _ \<Rightarrow> andthen (fs_ask X ''replace'' (rt_projects_config paths)) (\<lambda>ok. require ok OsErr)"
    have "?G ?u (snd (andthen ?load ?rest ?u))"
    proof (rule guarded.andthen_then_at [OF edits.try_settings_obeys [OF loads_guarded]])
      fix loaded t
      assume run: "?load ?u = (Inr loaded, t)"
      show "?G t (snd (?rest loaded t))"
      proof (cases loaded)
        case (Inl msg)
        then show ?thesis
          by (auto simp: fs_ask_def andthen_def ret_apply raise_apply intro!: guarded_call)
      next
        case (Inr settings)
        with run have "load_settings X (rt_bridge_config paths) (projects_temporary paths) ?u = (Inr settings, t)"
          by (auto dest: try_settings_Inr)
        with True have "accepted X paths (log t)" unfolding accepted_def by fastforce
        then have "?G t (t\<lparr>log := FsCall ''replace'' (rt_projects_config paths) # log t\<rparr>)"
          by (intro guarded_call) simp
        with Inr show ?thesis by (simp add: fs_ask_def andthen_def ret_apply)
      qed
    qed
    with step have "?G s (snd (andthen ?load ?rest ?u))" by (rule guarded.trans)
    with True written show ?thesis by (simp add: replace_projects_def andthen_def)
  next
    case False
    with written step show ?thesis by (simp add: replace_projects_def andthen_def)
  qed
qed

lemma replace_projects_replaced:
  "returns (replace_projects X paths new_text refusal) s (\<lambda>_ t. replaced X paths t)"
proof (unfold returns_def, intro allI impI)
  fix r t
  assume "replace_projects X paths new_text refusal s = (Inr r, t)"
  then obtain loaded :: "string + bridge_settings" and u where "(case loaded of
        Inl msg \<Rightarrow> andthen (fs_ask X ''unlink'' (projects_temporary paths)) (\<lambda>ok.
          andthen (require ok OsErr) (\<lambda>_. raise (LifecycleErr (refusal @ msg))))
      | Inr _ \<Rightarrow> andthen (fs_ask X ''replace'' (rt_projects_config paths)) (\<lambda>ok. require ok OsErr)) u = (Inr r, t)"
    unfolding replace_projects_def andthen_eq_Inr by blast
  then show "replaced X paths t"
    by (cases loaded) (auto simp: andthen_eq_Inr fs_ask_def replaced_def split: if_splits)
qed

lemma expanded_path_guarded: "obeys (guarded (edit_ok X paths proper)) (expanded_path X p)"
  unfolding expanded_path_def by (intro edits.file_intros edits.fs_text_obeys)

lemma read_projects_guarded: "obeys (guarded (edit_ok X paths proper)) (read_projects_text X paths')"
  unfolding read_projects_text_def read_text_def
  by (intro edits.file_intros edits.question_obeys; auto simp: WRITES_def split: toml_file.split option.split intro!: edits.file_intros edits.question_obeys)

lemma registered_root_guarded: "obeys (guarded (edit_ok X paths proper)) (registered_root X paths' project_id entry)"
  unfolding registered_root_def
  by (auto split: toml.split option.split intro!: edits.file_intros edits.fs_text_obeys edits.fs_question_obeys simp: WRITES_def)

text \<open>A look at the file system, and what it answered.\<close>

lemma question_then_at:
  fixes s :: io
  assumes "w \<notin> set WRITES" and "\<And>b t. fs_ask X w p s = (Inr b, t) \<Longrightarrow> guarded (edit_ok X paths proper) t (snd (f b t))"
  shows "guarded (edit_ok X paths proper) s (snd (andthen (fs_ask X w p) f s))"
  using edits.fs_question_obeys [OF assms(1)] assms(2) by (rule guarded.andthen_then_at)

lemma add_project_guarded:
  fixes s :: io
  shows "guarded (edit_ok X paths (registration X paths project_id root)) s (snd (add_project X paths project_id root s))"
  unfolding add_project_def check_project_id_def
proof (rule guarded.require_then_at, rule guarded.andthen_then_at [OF expanded_path_guarded],
    rule question_then_at, simp add: WRITES_def, rule guarded.require_then_at,
    rule guarded.andthen_then_at [OF read_projects_guarded], goal_cases)
  case (1 project_root s1 directory s2 found s3)
  then show ?case
  proof (cases found, simp only: prod.case, intro guarded.require_then_at guarded.then_obeys_at guarded.ret_obeys, goal_cases)
    case (1 raw projects)
    then have "registration X paths project_id root (raw @ project_entry project_id project_root) (log s3)"
      unfolding registration_def by (auto intro!: exI)
    then show ?case by (rule replace_projects_guarded)
  qed
qed

section \<open>Removing a section\<close>

lemma concat_lines_with_ends: "concat (lines_with_ends acc s) = rev acc @ s"
proof (induction acc s rule: lines_with_ends.induct)
  case (2 acc c cs)
  then show ?case by (cases cs) auto
qed simp

lemma table_section_parts:
  assumes "table_section base lines = Some (front, section, behind)"
  shows "lines = front @ section @ behind" and "is_section base front section behind"
proof -
  let ?front = "takeWhile (\<lambda>line. \<not> begins_table base line) lines"
  from assms obtain header rest where d: "dropWhile (\<lambda>line. \<not> begins_table base line) lines = header # rest"
    and parts: "front = ?front" "section = header # takeWhile (\<lambda>line. \<not> leaves_table base line) rest"
      "behind = dropWhile (\<lambda>line. \<not> leaves_table base line) rest"
    by (auto simp: table_section_def split: list.splits)
  have "lines = ?front @ header # rest" using d takeWhile_dropWhile_id by metis
  then show "lines = front @ section @ behind" by (simp add: parts)
  have "begins_table base header" using d hd_dropWhile [of "\<lambda>line. \<not> begins_table base line" lines] by auto
  moreover have "behind = [] \<or> leaves_table base (hd behind)"
    using hd_dropWhile [of "\<lambda>line. \<not> leaves_table base line" rest] by (auto simp: parts)
  ultimately show "is_section base front section behind"
    by (auto simp: is_section_def parts list_all_iff dest: set_takeWhileD)
qed

lemma remove_registered_guarded:
  fixes s :: io
  assumes "project_id_ok project_id" and "read_projects_text X paths s0 = (Inr (raw, TTab ps), s)"
    and "tget ps project_id = Some entry"
  shows "guarded (edit_ok X paths (removal X paths project_id expected_root)) s
    (snd (remove_registered X paths project_id expected_root raw entry s))"
  unfolding remove_registered_def
proof (rule guarded.andthen_then_at [OF registered_root_guarded], rule guarded.andthen_then_at [OF expanded_path_guarded],
    rule guarded.require_then_at, goal_cases)
  case (1 root s1 expected s2)
  show ?case
  proof (cases "table_section (''projects.'' @ project_id) (lines_with_ends [] raw)")
    case None
    then show ?thesis by (simp add: guarded.refl)
  next
    case (Some parts)
    obtain front cut_lines behind where p: "parts = (front, cut_lines, behind)" by (cases parts) auto
    note cut_out = table_section_parts [OF Some [unfolded p]]
    have "raw = concat (front @ cut_lines @ behind)"
      using concat_lines_with_ends [of "[]" raw] by (simp add: cut_out(1) [symmetric])
    then have "removal X paths project_id expected_root (concat (front @ behind)) (log s2)"
      unfolding removal_def using assms 1 cut_out(2) by blast
    then show ?thesis
      unfolding Some p option.case prod.case
      by (intro guarded.then_obeys_at replace_projects_guarded guarded.ret_obeys)
  qed
qed

lemma remove_project_guarded:
  fixes s :: io
  shows "guarded (edit_ok X paths (removal X paths project_id expected_root)) s
    (snd (remove_project X paths project_id expected_root s))"
  unfolding remove_project_def check_project_id_def
proof (rule guarded.require_then_at, rule guarded.andthen_then_at [OF read_projects_guarded], goal_cases)
  case (1 found s1)
  obtain raw projects where f: "found = (raw, projects)" by fastforce
  show ?case
  proof (cases projects)
    case (TTab ps)
    with 1 f show ?thesis
      by (cases "tget ps project_id") (auto simp: guarded.refl intro: remove_registered_guarded)
  qed (simp_all add: f guarded.refl)
qed

text \<open>C20: The registry of projects is edited safely.  In every run of \<open>project add\<close> and \<open>project remove\<close>, whatever the file
  system holds and does meanwhile: the only file written is the temporary one beside the registry, and its text is
  the one just read with the entry of a new project at its end, or without the one section of a project whose
  registered root has just been found equal to the expected one; the only other change is the move of that file onto the
  registry, right after the settings have been loaded from it, or its removal; and a report that a project was
  added is given only after that move.\<close>

theorem project_edits_guarded:
  fixes s :: io
  shows "guarded (edit_ok X paths (registration X paths project_id root)) s (snd (add_project X paths project_id root s))
    \<and> guarded (edit_ok X paths (removal X paths project_id root)) s (snd (remove_project X paths project_id root s))
    \<and> returns (add_project X paths project_id root) s (\<lambda>_ t. replaced X paths t)
    \<and> returns (remove_project X paths project_id root) s
        (\<lambda>report t. map_of report ''status'' = Some (JStr ''not-found'') \<or> replaced X paths t)"
proof (intro conjI add_project_guarded remove_project_guarded)
  note replacing = replace_projects_replaced [THEN returns_mono]
  show "returns (add_project X paths project_id root) s (\<lambda>_ t. replaced X paths t)"
    unfolding add_project_def check_project_id_def by (auto intro!: returns_any replacing)
  have removing: "returns (remove_registered X paths project_id root raw entry) s'
      (\<lambda>report t. map_of report ''status'' = Some (JStr ''not-found'') \<or> replaced X paths t)" for raw entry s'
    unfolding remove_registered_def by (auto intro!: returns_any replacing)
  show "returns (remove_project X paths project_id root) s
        (\<lambda>report t. map_of report ''status'' = Some (JStr ''not-found'') \<or> replaced X paths t)"
    unfolding remove_project_def check_project_id_def
    by (simp, intro impI returns_any) (auto split: toml.split simp: removing)
qed

text \<open>A section with a table of its own, in front of another project.\<close>

lemma section_demo:
  "table_section ''projects.a'' [''[projects.a]'' @ [lf], ''root = 1'' @ [lf], ''[projects.a.commands]'' @ [lf], ''[projects.ab]'' @ [lf]]
     = Some ([], [''[projects.a]'' @ [lf], ''root = 1'' @ [lf], ''[projects.a.commands]'' @ [lf]], [''[projects.ab]'' @ [lf]])"
  by code_simp

section \<open>The first installation\<close>

text \<open>A file has been found missing, and nothing has been written since.\<close>

fun writing :: "call \<Rightarrow> bool" where
  "writing (FsWrite p bs) = True"
| "writing (FsCall w p) = (w \<in> set WRITES)"
| "writing c = process_call c"

definition found_missing :: "ext \<Rightarrow> string \<Rightarrow> call list \<Rightarrow> bool" where
  "found_missing X p h \<longleftrightarrow>
     (\<exists>h1 h2. h = h1 @ FsCall ''exists'' p # h2 \<and> \<not> x_ok X (FsCall ''exists'' p # h2) \<and> list_all (\<lambda>c. \<not> writing c) h1)"

text \<open>The security tables of \<open>remote.toml\<close>, as they were read.\<close>

definition keeps_security :: "ext \<Rightarrow> runtime_paths \<Rightarrow> bytes \<Rightarrow> call list \<Rightarrow> bool" where
  "keeps_security X paths bs h \<longleftrightarrow>
     (\<exists>(u :: io) v parsed auth_mode auth source trust trust_source p text_of_auth h1.
        remote_document X paths u = (Inr parsed, v) \<and> h = h1 @ log v
        \<and> parse_auth_configuration parsed = Inr (auth_mode, auth, source)
        \<and> parse_network_trust_configuration parsed = Inr (trust, trust_source)
        \<and> auth_section auth auth_mode = Inr text_of_auth
        \<and> bs = encode_str (remote_section p @ text_of_auth @ network_trust_section trust))"

fun init_ok :: "ext \<Rightarrow> runtime_paths \<Rightarrow> call \<Rightarrow> call list \<Rightarrow> bool" where
  "init_ok X paths (FsWrite p bs) h =
     ((p \<in> {rt_bridge_config paths, rt_projects_config paths, rt_tunnel_env paths} \<and> found_missing X p h)
      \<or> (p = join_path (rt_config_dir paths) ''remote.toml.tmp'' \<and> keeps_security X paths bs h))"
| "init_ok X paths (FsCall w p) h =
     (if w = ''replace'' then p = remote_config_path paths \<and> (\<exists>bs h'. h = FsWrite (join_path (rt_config_dir paths) ''remote.toml.tmp'') bs # h')
      else w \<notin> {''mkstemp'', ''unlink'', ''rmdir''})"
| "init_ok X paths c h = (\<not> process_call c)"

interpretation inits: asking_order "guarded (init_ok X paths)" "\<lambda>c. \<forall>h. init_ok X paths c h" for X paths
proof unfold_locales
  show "\<forall>h. init_ok X paths c h \<Longrightarrow> guarded (init_ok X paths) s (s\<lparr>log := c # log s\<rparr>)" for c s
    by (rule guarded_call) blast
  show "read_call c \<Longrightarrow> \<forall>h. init_ok X paths c h" for c
    by (cases c) (auto simp: read_call.simps READ_QUESTIONS_def)
  show "what \<notin> set WRITES \<Longrightarrow> \<forall>h. init_ok X paths (FsCall what p) h" for what p
    by (auto simp: WRITES_def)
qed

lemma make_dir_inits: "obeys (guarded (init_ok X paths)) (make_dir X p)"
  unfolding make_dir_def fs_ask_def by (intro inits.file_intros inits.asked_obeys) simp

lemma ensure_dirs_inits: "obeys (guarded (init_ok X paths)) (ensure_runtime_dirs X paths')"
  unfolding ensure_runtime_dirs_def by (intro guarded.for_each_obeys make_dir_inits)

lemma read_remote_inits: "obeys (guarded (init_ok X paths)) (read_remote_config X paths')"
  unfolding read_remote_config_def by (intro inits.file_intros) (auto split: toml_file.split intro: inits.file_intros)

lemma provider_inits: "obeys (guarded (init_ok X paths)) (load_transport_provider X paths')"
  unfolding load_transport_provider_def by (intro inits.file_intros read_remote_inits)

lemma document_inits: "obeys (guarded (init_ok X paths)) (remote_document X paths')"
  unfolding remote_document_def by (intro inits.file_intros read_remote_inits)

lemma change_inits: "obeys (guarded (init_ok X paths)) (refuse_transport_change X paths' source old new force)"
  unfolding refuse_transport_change_def by (intro inits.file_intros)

text \<open>A file that is created after it has been found missing.\<close>

lemma write_new_file:
  assumes "found_missing X p (log s)" and "p \<in> {rt_bridge_config paths, rt_projects_config paths, rt_tunnel_env paths}"
  shows "guarded (init_ok X paths) s (snd (write_file X p content s))"
  unfolding write_file_def
  by (rule guarded.then_obeys_at [OF _ guarded.require_obeys], rule guarded_ask) (use assms in auto)

lemma found_missing_now:
  "\<not> x_ok X (FsCall ''exists'' p # h) \<Longrightarrow> found_missing X p (FsCall ''exists'' p # h)"
  unfolding found_missing_def by (rule exI [of _ "[]"], rule exI [of _ h]) simp

lemma found_missing_later:
  assumes "found_missing X p h" and "list_all (\<lambda>c. \<not> writing c) cs"
  shows "found_missing X p (cs @ h)"
proof -
  from assms(1) obtain h1 h2 where "h = h1 @ FsCall ''exists'' p # h2" "\<not> x_ok X (FsCall ''exists'' p # h2)"
    "list_all (\<lambda>c. \<not> writing c) h1" unfolding found_missing_def by blast
  with assms(2) show ?thesis unfolding found_missing_def by (intro exI [of _ "cs @ h1"] exI [of _ h2]) simp
qed

lemma may_create_missing:
  "may_create X False p s = (Inr True, t) \<Longrightarrow> found_missing X p (log t)"
  by (auto simp: may_create_def andthen_eq_Inr fs_ask_def intro: found_missing_now)

lemma may_create_inits: "obeys (guarded (init_ok X paths)) (may_create X force p)"
  unfolding may_create_def by (intro inits.file_intros)

lemma create_projects_inits:
  fixes s :: io
  assumes "\<not> in_force options"
  shows "guarded (init_ok X paths) s (snd (create_projects_config X paths options s))"
  unfolding create_projects_config_def
proof (rule guarded.andthen_then_at [OF may_create_inits], goal_cases)
  case (1 absent t)
  show ?case
  proof (cases absent)
    case True
    with 1 assms have "found_missing X (rt_projects_config paths) (log t)" by (auto dest: may_create_missing)
    with True show ?thesis by (auto intro!: guarded.then_obeys_at write_new_file guarded.ret_obeys)
  qed (simp add: guarded.refl)
qed

lemma create_bridge_inits:
  fixes s :: io
  assumes "\<not> in_force options"
  shows "guarded (init_ok X paths) s (snd (create_bridge_config X paths p template options s))"
  unfolding create_bridge_config_def
proof (rule guarded.andthen_then_at [OF may_create_inits], goal_cases)
  case (1 absent t)
  show ?case
  proof (cases absent)
    case True
    with 1 assms have missing: "found_missing X (rt_bridge_config paths) (log t)" by (auto dest: may_create_missing)
    have reads: "obeys (guarded (init_ok X paths)) (read_text X template)"
      unfolding read_text_def by (intro inits.file_intros)
    show ?thesis
    proof (simp only: True if_False not_True_eq_False, rule guarded.andthen_then_at [OF reads], rule guarded.andthen_then_at [OF guarded.lift_sum_obeys], goal_cases)
      case (1 content u bridge_text v)
      then have "log v = FsCall ''read_text'' template # log t"
        by (auto simp: read_text_def andthen_eq_Inr lift_sum_eq_Inr split: option.splits)
      then have "found_missing X (rt_bridge_config paths) (log v)"
        using found_missing_later [OF missing, of "[FsCall ''read_text'' template]"] by (simp add: WRITES_def)
      then show ?case by (intro guarded.then_obeys_at write_new_file guarded.ret_obeys) auto
    qed
  qed (simp add: guarded.refl)
qed

lemma write_env_inits:
  fixes s :: io
  shows "guarded (init_ok X paths) s (snd (write_env_file X paths False entries s))"
proof -
  let ?p = "rt_tunnel_env paths"
  have "obeys (guarded (init_ok X paths)) (fs_ask X ''exists'' ?p)" by (intro inits.file_intros)
  then show ?thesis
    unfolding write_env_file_def if_False
  proof (rule guarded.andthen_then_at, goal_cases)
    case (1 present t)
    show ?case
    proof (cases present)
      case False
      with 1 have "found_missing X ?p (log t)"
        by (auto simp: andthen_eq_Inr fs_ask_def intro: found_missing_now)
      with False show ?thesis
        by (auto intro!: guarded.then_obeys_at guarded_ask guarded.andthen_obeys guarded.require_obeys guarded.ret_obeys)
    qed (simp add: guarded.refl)
  qed
qed

lemma create_transport_inits:
  fixes s :: io
  assumes "\<not> in_force options"
  shows "guarded (init_ok X paths) s (snd (create_transport_config X paths p options s))"
  unfolding create_transport_config_def initialize_openai_def initialize_cloudflare_def
  using assms by (cases p) (auto intro!: guarded.andthen_then_at [OF guarded.lift_sum_obeys] write_env_inits)

text \<open>The security tables that are written back are the ones that were read.\<close>

lemma write_remote_inits:
  fixes s s1 :: io
  assumes "remote_document X paths s0 = (Inr parsed, s1)" and "guarded (init_ok X paths) s1 s"
    and "parse_auth_configuration parsed = Inr (auth_mode, auth, source)"
    and "parse_network_trust_configuration parsed = Inr (trust, trust_source)"
  shows "guarded (init_ok X paths) s (snd (write_remote_config X paths p auth auth_mode trust s))"
  unfolding write_remote_config_def
proof (rule guarded.andthen_then_at [OF make_dir_inits], rule guarded.andthen_then_at [OF guarded.lift_sum_obeys], goal_cases)
  case (1 u s2 text_of_auth s3)
  then have made: "log s3 = FsCall ''mkdir'' (rt_config_dir paths) # log s"
    by (auto simp: make_dir_def fs_ask_def andthen_eq_Inr lift_sum_eq_Inr split: if_splits)
  let ?w = "FsWrite (join_path (rt_config_dir paths) ''remote.toml.tmp'')
    (encode_str (remote_section p @ text_of_auth @ network_trust_section trust))"
  have "auth_section auth auth_mode = Inr text_of_auth" using 1 by (auto simp: lift_sum_eq_Inr)
  moreover obtain cs where "log s = cs @ log s1" using assms(2) by (auto simp: guarded_def)
  with made have "log s3 = (FsCall ''mkdir'' (rt_config_dir paths) # cs) @ log s1" by simp
  ultimately have "keeps_security X paths (encode_str (remote_section p @ text_of_auth @ network_trust_section trust)) (log s3)"
    unfolding keeps_security_def using assms(1,3,4) by blast
  then have step: "guarded (init_ok X paths) s3 (s3\<lparr>log := ?w # log s3\<rparr>)" by (intro guarded_call) simp
  have rest: "guarded (init_ok X paths) (s3\<lparr>log := ?w # log s3\<rparr>)
      (snd (andthen (fs_ask X ''replace'' (remote_config_path paths)) (\<lambda>ok.
        andthen (require ok OsErr) (\<lambda>_. ret (remote_config_path paths))) (s3\<lparr>log := ?w # log s3\<rparr>)))"
    by (rule guarded.then_obeys_at [OF guarded_fs_ask]) (auto intro!: guarded.andthen_obeys guarded.require_obeys guarded.ret_obeys)
  show ?case
  proof (rule guarded.andthen_at, goal_cases)
    case (1 r t)
    then have "t = s3\<lparr>log := ?w # log s3\<rparr>" by simp
    with step show ?case by (simp only:)
  next
    case (2 h t)
    then have "t = s3\<lparr>log := ?w # log s3\<rparr>" by auto
    with rest have "guarded (init_ok X paths) t (snd (andthen (fs_ask X ''replace'' (remote_config_path paths)) (\<lambda>ok.
        andthen (require ok OsErr) (\<lambda>_. ret (remote_config_path paths))) t))" by (simp only:)
    then show ?case by (rule guarded.require_then_at)
  qed
qed

lemma init_files_inits:
  fixes s s1 s2 :: io
  assumes read: "remote_document X paths s1 = (Inr parsed, s2)"
      "parse_auth_configuration parsed = Inr (auth_mode, auth, auth_source)"
      "parse_network_trust_configuration parsed = Inr (trust, trust_source)"
    and here: "guarded (init_ok X paths) s2 s"
  shows "guarded (init_ok X paths) s (snd (andthen
     (case in_transport (options\<lparr>in_force := False\<rparr>) of None \<Rightarrow> ret old | Some name \<Rightarrow> lift_sum (get_transport_provider name)) (\<lambda>p.
     andthen (refuse_transport_change X paths source old p (in_force (options\<lparr>in_force := False\<rparr>))) (\<lambda>_.
     andthen (fs_ask X ''is_file'' template) (\<lambda>shipped.
     andthen (require shipped refusal) (\<lambda>_.
     andthen (create_bridge_config X paths p template (options\<lparr>in_force := False\<rparr>)) (\<lambda>created1.
     andthen (create_projects_config X paths (options\<lparr>in_force := False\<rparr>)) (\<lambda>created2.
     andthen (create_transport_config X paths p (options\<lparr>in_force := False\<rparr>)) (\<lambda>created3.
     andthen (if in_force (options\<lparr>in_force := False\<rparr>) then ret True
              else andthen (fs_ask X ''is_file'' (remote_config_path paths)) (\<lambda>present. ret (\<not> present \<or> old \<noteq> p))) (\<lambda>absent.
     andthen (if absent then andthen (write_remote_config X paths p auth auth_mode trust) (\<lambda>f. ret [f]) else ret []) (\<lambda>created4.
     ret (report p created1 created2 created3 created4)))))))))) s))"
proof (rule guarded.onward [OF here], goal_cases)
  case 1
  show ?case by (rule guarded.obeys_at) (intro guarded.case_option_obeys guarded.ret_obeys guarded.lift_sum_obeys)
next
  case (2 p t)
  note steps = guarded.onward [of _ s2]
  show ?case
  proof (rule steps [OF 2(1)], rule guarded.obeys_at [OF change_inits],
      rule steps, assumption, rule guarded.obeys_at, intro inits.file_intros,
      rule steps, assumption, rule guarded_require, rule steps, assumption, rule create_bridge_inits, simp,
      rule steps, assumption, rule create_projects_inits, simp, rule steps, assumption, rule create_transport_inits, simp,
      rule steps, assumption, rule guarded.obeys_at, intro inits.file_intros, goal_cases)
    case (1 u t1 shipped t2 v t3 created1 t4 created2 t5 created3 t6 absent t7)
    have "guarded (init_ok X paths) t7 (snd ((if absent
        then andthen (write_remote_config X paths p auth auth_mode trust) (\<lambda>f. ret [f]) else ret []) t7))"
    proof (cases absent)
      case True
      have "guarded (init_ok X paths) t7 (snd (andthen (write_remote_config X paths p auth auth_mode trust) (\<lambda>f. ret [f]) t7))"
        by (rule guarded.then_obeys_at, rule write_remote_inits [OF read(1) 1(13) read(2,3)], rule guarded.ret_obeys)
      with True show ?thesis by simp
    qed (simp add: guarded.refl)
    then show ?case by (rule guarded.then_obeys_at) (rule guarded.ret_obeys)
  qed
qed

text \<open>C21: Without \<open>--force\<close>, \<open>init\<close> creates files and never overwrites one: whatever the file system holds and does, every
  configuration file that is written has been found missing, with nothing written or removed since; \<open>remote.toml\<close> is
  only ever replaced as a whole, by a text with the authentication and network tables the command has read from
  it; nothing else is changed, apart from directories that are made, and no process is created or signalled.\<close>

theorem init_keeps_files:
  fixes s :: io
  shows "guarded (init_ok X paths) s (snd (initialize_runtime X paths (options\<lparr>in_force := False\<rparr>) s))"
  unfolding initialize_runtime_def Let_def
proof (rule guarded.andthen_then_at [OF ensure_dirs_inits], rule guarded.andthen_then_at [OF provider_inits], goal_cases)
  case (1 u s0 found s1)
  obtain old source where f: "found = (old, source)" by fastforce
  show ?case
    unfolding f prod.case
  proof (rule guarded.andthen_then_at [OF document_inits], rule guarded.andthen_then_at [OF guarded.lift_sum_obeys], goal_cases)
    case (1 parsed s2 auth_found s3)
    note reading = 1
    obtain auth_mode auth auth_source where af: "auth_found = (auth_mode, auth, auth_source)" by (cases auth_found) auto
    show ?case
      unfolding af prod.case
    proof (rule guarded.andthen_then_at [OF guarded.lift_sum_obeys], goal_cases)
      case (1 trust_found s4)
      obtain trust trust_source where tf: "trust_found = (trust, trust_source)" by fastforce
      show ?case
        unfolding tf prod.case
      proof (rule init_files_inits)
        show "remote_document X paths s1 = (Inr parsed, s2)" using reading by (simp add: f)
        show "parse_auth_configuration parsed = Inr (auth_mode, auth, auth_source)" using reading by (auto simp: lift_sum_eq_Inr af)
        show "parse_network_trust_configuration parsed = Inr (trust, trust_source)" using 1 by (auto simp: lift_sum_eq_Inr tf)
        show "guarded (init_ok X paths) s2 s4" using reading 1 by (auto simp: lift_sum_eq_Inr guarded.refl)
      qed
    qed
  qed
qed

end
