(* ===== verification/WorkerLogs.thy ===== *)
theory WorkerLogs
  imports Regex Utf8 Processes
begin

text \<open>
  \<open>logging_utils.py\<close>: the redaction of the bridge's own log, the rotation of a worker's log, and the
  forwarder that writes what a worker prints on its standard error, UTF-8 or the UTF-16 of
  \<open>wsl.exe\<close>, as UTF-8 lines.  The handler of the bridge's log is the library's.
\<close>

section \<open>Redaction\<close>

definition KEY_NAMES :: "string list" where
  "KEY_NAMES = [''CONTROL_PLANE_API_KEY'', ''OPENAI_API_KEY'', ''API_KEY'', ''AUTHORIZATION'', ''ACCESS_TOKEN'',
     ''REFRESH_TOKEN'', ''TOKEN'']"

text \<open>\<open>_KEY_VALUE_PATTERN\<close> at the front of a text: what is left behind the key, and behind the value.  The
  key begins and ends at a word boundary, which a quote in front of it always gives.\<close>

definition key_remainders :: "bool \<Rightarrow> string \<Rightarrow> string list" where
  "key_remainders previous s =
     concat (map (\<lambda>(_, r).
         concat (map (\<lambda>(_, r1).
             if r1 \<noteq> [] \<and> word_char (hd r1) then []
             else map snd (matches [Perhaps is_quote, Star is_space, One (\<lambda>c. c = CHR '':'' \<or> c = CHR ''=''), Star is_space] r1))
           (matches [OneOfI KEY_NAMES] r)))
       (matches [One is_quote] s @ (if previous then [] else [([], s)])))"

definition value_forms :: "rx list list" where
  "value_forms =
     [[Lit [CHR 0x22], Star (\<lambda>c. c \<noteq> CHR 0x22), Lit [CHR 0x22]],
      [Lit [CHR 0x27], Star (\<lambda>c. c \<noteq> CHR 0x27), Lit [CHR 0x27]],
      [AtLeast 1 key_char]]"

definition key_value_at :: "bool \<Rightarrow> string \<Rightarrow> (string \<times> string) list" where
  "key_value_at previous s =
     concat (map (\<lambda>r. concat (map (\<lambda>rs. map (\<lambda>(_, r'). (r, r')) (matches rs r)) value_forms))
       (key_remainders previous s))"

function redact_key_values :: "bool \<Rightarrow> string \<Rightarrow> string" where
  "redact_key_values previous s =
     (case key_value_at previous s of
        (r, r') # _ \<Rightarrow>
          if length r' < length s
          then take (length s - length r) s @ ''<redacted>''
               @ redact_key_values (word_char (s ! (length s - length r' - 1))) r'
          else s
      | [] \<Rightarrow> (case s of [] \<Rightarrow> [] | c # cs \<Rightarrow> c # redact_key_values (word_char c) cs))"
  by pat_completeness auto

termination by (relation "measure (\<lambda>(previous, s). length s)") auto

declare redact_key_values.simps [simp del]

definition redact_text :: "string \<Rightarrow> string" where
  "redact_text v = redact_sk (redact_key_values False (redact_bearer v))"

section \<open>Rotation\<close>

definition LOG_MAX_BYTES :: nat where "LOG_MAX_BYTES = 5 * 1024 * 1024"
definition LOG_BACKUP_COUNT :: nat where "LOG_BACKUP_COUNT = 3"

definition backup_name :: "string \<Rightarrow> nat \<Rightarrow> string" where
  "backup_name path n = path @ ''.'' @ decimal n"

text \<open>The size of an existing file; a file that has gone is an \<open>OSError\<close>.\<close>

definition file_size :: "ext \<Rightarrow> string \<Rightarrow> ('z io_scheme, exn, nat) M" where
  "file_size X path =
     andthen (ask (FsCall ''stat'' path)) (\<lambda>h.
     case x_stat X h of None \<Rightarrow> raise OsErr | Some (_, n) \<Rightarrow> ret n)"

text \<open>\<open>a.replace(b)\<close>; the call names the target.\<close>

definition move_to :: "ext \<Rightarrow> string \<Rightarrow> ('z io_scheme, exn, unit) M" where
  "move_to X target = andthen (fs_ask X ''replace'' target) (\<lambda>ok. require ok OsErr)"

definition unlink_existing :: "ext \<Rightarrow> string \<Rightarrow> ('z io_scheme, exn, unit) M" where
  "unlink_existing X path =
     andthen (fs_ask X ''exists'' path) (\<lambda>present.
     if \<not> present then ret () else andthen (fs_ask X ''unlink'' path) (\<lambda>ok. require ok OsErr))"

text \<open>\<open>range(LOG_BACKUP_COUNT - 1, 0, -1)\<close>.\<close>

definition backup_numbers :: "nat list" where
  "backup_numbers = rev [1..<LOG_BACKUP_COUNT]"

definition rotate_worker_log :: "ext \<Rightarrow> string \<Rightarrow> bool \<Rightarrow> ('z io_scheme, exn, unit) M" where
  "rotate_worker_log X path force =
     andthen (fs_ask X ''is_file'' path) (\<lambda>present.
     if \<not> present then ret ()
     else
       andthen (if force then ret True else andthen (file_size X path) (\<lambda>n. ret (LOG_MAX_BYTES \<le> n))) (\<lambda>due.
       if \<not> due then ret ()
       else
         andthen (for_each backup_numbers (\<lambda>n.
           andthen (fs_ask X ''is_file'' (backup_name path n)) (\<lambda>there.
           if \<not> there then ret ()
           else andthen (unlink_existing X (backup_name path (n + 1))) (\<lambda>_. move_to X (backup_name path (n + 1)))))) (\<lambda>_.
         andthen (unlink_existing X (backup_name path 1)) (\<lambda>_. move_to X (backup_name path 1)))))"

text \<open>\<open>_rotate_log\<close> of \<open>lifecycle.py\<close>, for the log of a tunnel client.\<close>

definition rotate_log :: "ext \<Rightarrow> string \<Rightarrow> ('z io_scheme, exn, unit) M" where
  "rotate_log X path =
     andthen (fs_ask X ''is_file'' path) (\<lambda>present.
     if \<not> present then ret ()
     else
       andthen (file_size X path) (\<lambda>n.
       if n < LOG_MAX_BYTES then ret ()
       else
         andthen (for_each backup_numbers (\<lambda>i.
           andthen (fs_ask X ''exists'' (backup_name path i)) (\<lambda>there.
           if there then move_to X (backup_name path (i + 1)) else ret ()))) (\<lambda>_.
         move_to X (backup_name path 1))))"

section \<open>Decoding\<close>

text \<open>\<open>b.decode("utf-16-le", errors="replace")\<close>: a lone surrogate and what is cut off at the end become
  U+FFFD.\<close>

definition unit_of :: "char \<Rightarrow> char \<Rightarrow> nat" where
  "unit_of a b = code a + 256 * code b"

definition is_high :: "nat \<Rightarrow> bool" where "is_high u = (55296 \<le> u \<and> u \<le> 56319)"
definition is_low :: "nat \<Rightarrow> bool" where "is_low u = (56320 \<le> u \<and> u \<le> 57343)"

fun utf16_decode :: "bytes \<Rightarrow> utext" where
  "utf16_decode [] = []"
| "utf16_decode [a] = [65533]"
| "utf16_decode (a # b # r) =
     (let u = unit_of a b in
      if is_low u then 65533 # utf16_decode r
      else if is_high u then
        (case r of
           c # d # r' \<Rightarrow>
             if is_low (unit_of c d)
             then (65536 + (u - 55296) * 1024 + (unit_of c d - 56320)) # utf16_decode r'
             else 65533 # utf16_decode (c # d # r')
         | _ \<Rightarrow> [65533])
      else u # utf16_decode r)"

definition looks_like_utf16le :: "bytes \<Rightarrow> bool" where
  "looks_like_utf16le v = (4 \<le> length v \<and> max 1 (length v div 8) \<le> length (filter (\<lambda>c. c = nul) v))"

definition without_cr :: "utext \<Rightarrow> utext" where
  "without_cr t = rev (dropWhile (\<lambda>n. n = 13) (rev t))"

definition decode_worker_stderr_line :: "bytes \<Rightarrow> utext \<times> bool" where
  "decode_worker_stderr_line v =
     (if looks_like_utf16le v then (without_cr (utf16_decode (lstrip_by (\<lambda>c. c = nul) v)), True)
      else (without_cr (utf8_decode_with [65533] v), False))"

text \<open>\<open>_contains_utf16le_output\<close>, on the bytes of the log, if it can be read.\<close>

definition contains_pair :: "char \<Rightarrow> char \<Rightarrow> bytes \<Rightarrow> bool" where
  "contains_pair a b v = list_ex (\<lambda>(c, d). c = a \<and> d = b) (zip v (tl v))"

definition contains_utf16le_output :: "bytes option \<Rightarrow> bool" where
  "contains_utf16le_output content =
     (case content of
        None \<Rightarrow> False
      | Some v \<Rightarrow>
          (let sample = take (64 * 1024) v
           in nul \<in> set sample \<and> (contains_pair lf nul sample \<or> contains_pair cr nul sample)))"

section \<open>Forwarding\<close>

text \<open>\<open>_forward\<close>: the lines a chunk completes, and what is kept for the next one.  The second byte of a
  UTF-16 line feed is dropped when it has arrived.\<close>

definition behind_line :: "bool \<Rightarrow> bytes \<Rightarrow> bytes" where
  "behind_line wide r = (if wide \<and> r \<noteq> [] \<and> hd r = nul then tl r else r)"

lemma behind_line_within: "length (behind_line wide r) \<le> length r" "set (behind_line wide r) \<subseteq> set r"
  by (auto simp: behind_line_def dest: list.set_sel(2))

lemma length_after_line: "lf \<in> set s \<Longrightarrow> length (tl (dropWhile (\<lambda>c. c \<noteq> lf) s)) < length s"
  by (induction s) auto

function drain :: "bytes \<Rightarrow> utext list \<times> bytes" where
  "drain pending =
     (if lf \<notin> set pending then ([], pending)
      else
        (let line = takeWhile (\<lambda>c. c \<noteq> lf) pending;
             rest = tl (dropWhile (\<lambda>c. c \<noteq> lf) pending);
             (t, wide) = decode_worker_stderr_line line;
             (ts, left) = drain (behind_line wide rest)
         in (t # ts, left)))"
  by pat_completeness auto

termination
  by (relation "measure length") (auto intro: le_less_trans [OF behind_line_within(1) length_after_line])

declare drain.simps [simp del]

fun forward_from :: "bytes \<Rightarrow> bytes list \<Rightarrow> utext list" where
  "forward_from pending [] = (if pending = [] then [] else [fst (decode_worker_stderr_line pending)])"
| "forward_from pending (chunk # chunks) =
     (let (ts, left) = drain (pending @ chunk) in ts @ forward_from left chunks)"

definition forward :: "bytes list \<Rightarrow> utext list" where
  "forward chunks = forward_from [] chunks"

text \<open>What is appended to the log.\<close>

definition forwarded_log :: "bytes list \<Rightarrow> bytes option" where
  "forwarded_log chunks = utf8_encode (concat (map (\<lambda>t. t @ [10]) (forward chunks)))"

text \<open>\<open>open_worker_stderr\<close>: the path that is opened for appending, and whether the forwarder stands in
  front of it.\<close>

definition open_worker_stderr ::
  "ext \<Rightarrow> string \<Rightarrow> string \<Rightarrow> bool \<Rightarrow> ('z io_scheme, exn, string \<times> bool) M" where
  "open_worker_stderr X log_dir project_id normalizing =
     (let directory = join_path log_dir ''workers'';
          path = join_path directory (project_id @ ''.stderr.log'')
      in andthen (require (project_id_ok project_id) (ValueErr ''invalid project_id for worker log'')) (\<lambda>_.
         andthen (make_dir X directory) (\<lambda>_.
         andthen (rotate_worker_log X path False) (\<lambda>_.
         andthen (if \<not> normalizing then ret ()
                  else
                    andthen (ask (FsCall ''read_bytes'' path)) (\<lambda>h.
                    if contains_utf16le_output (x_bytes X h) then rotate_worker_log X path True else ret ())) (\<lambda>_.
         andthen (fs_ask X ''open_append'' path) (\<lambda>opened.
         andthen (require opened OsErr) (\<lambda>_. ret (path, normalizing))))))))"

section \<open>What the forwarder writes\<close>

text \<open>The lines of a stream: the text behind the last line feed is one when it is not empty.\<close>

definition terminated_lines :: "bytes \<Rightarrow> bytes list" where
  "terminated_lines s = (let ls = split_on lf s in if last ls = [] then butlast ls else ls)"

definition plain_line :: "bytes \<Rightarrow> utext" where
  "plain_line v = without_cr (utf8_decode_with [65533] v)"

lemma plain_decode: "nul \<notin> set v \<Longrightarrow> decode_worker_stderr_line v = (plain_line v, False)"
proof -
  assume "nul \<notin> set v"
  then have "filter (\<lambda>c. c = nul) v = []" by (auto simp: filter_empty_conv)
  then show ?thesis by (simp add: decode_worker_stderr_line_def looks_like_utf16le_def plain_line_def)
qed

lemma drain_done: "lf \<notin> set s \<Longrightarrow> drain s = ([], s)"
  by (simp add: drain.simps)

lemma drain_line:
  "lf \<notin> set line \<Longrightarrow>
   drain (line @ lf # rest) =
     (let (t, wide) = decode_worker_stderr_line line; (ts, left) = drain (behind_line wide rest) in (t # ts, left))"
proof -
  assume "lf \<notin> set line"
  then have "takeWhile (\<lambda>c. c \<noteq> lf) (line @ lf # rest) = line"
    and "dropWhile (\<lambda>c. c \<noteq> lf) (line @ lf # rest) = lf # rest"
    by (auto simp: takeWhile_append dropWhile_append)
  then show ?thesis by (subst drain.simps) simp
qed

lemma split_first_line:
  assumes "lf \<in> set s"
  obtains line rest where "s = line @ lf # rest" and "lf \<notin> set line"
  using split_list_first [OF assms] by blast

lemma behind_line_shorter: "length (behind_line wide r) < length (line @ lf # r)"
  using behind_line_within(1) [of wide r] by simp

lemma drain_left: "set (snd (drain s)) \<subseteq> set s - {lf}"
proof (induction s rule: measure_induct_rule [of length])
  case (less s)
  show ?case
  proof (cases "lf \<in> set s")
    case True
    then obtain line rest where s: "s = line @ lf # rest" "lf \<notin> set line" by (rule split_first_line)
    obtain u wide where d: "decode_worker_stderr_line line = (u, wide)" by fastforce
    have "length (behind_line wide rest) < length s" unfolding s by (rule behind_line_shorter)
    from less.IH [OF this] show ?thesis
      using behind_line_within(2) [of wide rest] by (auto simp: s drain_line d split: prod.split)
  qed (auto simp: drain_done)
qed

text \<open>Bytes that have arrived together or one after the other make no difference, when the first part does
  not end in a line feed.\<close>

lemma drain_append:
  "s = [] \<or> last s \<noteq> lf \<or> nul \<notin> set (s @ t) \<Longrightarrow>
   drain (s @ t) = (let (ts, left) = drain s; (us, left') = drain (left @ t) in (ts @ us, left'))"
proof (induction s rule: measure_induct_rule [of length])
  case (less s)
  show ?case
  proof (cases "lf \<in> set s")
    case True
    then obtain line rest where s: "s = line @ lf # rest" "lf \<notin> set line" by (rule split_first_line)
    obtain u wide where d: "decode_worker_stderr_line line = (u, wide)" by fastforce
    have same: "behind_line wide (rest @ t) = behind_line wide rest @ t"
    proof (cases "rest = []")
      case True
      with less.prems s have "nul \<notin> set line" by auto
      with d have "\<not> wide" by (simp add: plain_decode)
      then show ?thesis by (simp add: behind_line_def)
    qed (simp add: behind_line_def)
    have "length (behind_line wide rest) < length s" unfolding s by (rule behind_line_shorter)
    moreover have "behind_line wide rest = [] \<or> last (behind_line wide rest) \<noteq> lf \<or> nul \<notin> set (behind_line wide rest @ t)"
      using less.prems s by (cases rest) (auto simp: behind_line_def split: if_splits)
    ultimately have "drain (behind_line wide rest @ t) =
        (let (ts, left) = drain (behind_line wide rest); (us, left') = drain (left @ t) in (ts @ us, left'))"
      by (rule less.IH)
    with same show ?thesis by (simp add: s drain_line d split: prod.split)
  qed (simp add: drain_done)
qed

text \<open>Therefore the stream matters and not the chunks it comes in.\<close>

definition steady_chunk :: "bytes \<Rightarrow> bool" where
  "steady_chunk c = (c = [] \<or> last c \<noteq> lf)"

lemma forward_from_whole:
  "nul \<notin> set (pending @ concat chunks) \<or> list_all steady_chunk (butlast chunks) \<Longrightarrow>
   lf \<notin> set pending \<Longrightarrow> forward_from pending chunks = forward_from pending [concat chunks]"
proof (induction chunks arbitrary: pending)
  case (Cons c chunks)
  show ?case
  proof (cases "chunks = []")
    case False
    obtain ts left where d: "drain (pending @ c) = (ts, left)" by fastforce
    then have left: "set left \<subseteq> set (pending @ c) - {lf}" using drain_left [of "pending @ c"] by simp
    have steady: "pending @ c = [] \<or> last (pending @ c) \<noteq> lf \<or> nul \<notin> set ((pending @ c) @ concat chunks)"
    proof (cases "c = []")
      case True
      with Cons.prems(2) show ?thesis by (metis append_Nil2 last_in_set)
    next
      case False
      with Cons.prems \<open>chunks \<noteq> []\<close> show ?thesis by (auto simp: steady_chunk_def)
    qed
    have "nul \<notin> set (left @ concat chunks) \<or> list_all steady_chunk (butlast chunks)"
      using Cons.prems(1) left \<open>chunks \<noteq> []\<close> by auto
    then have "forward_from left chunks = forward_from left [concat chunks]"
      by (rule Cons.IH) (use left in auto)
    with drain_append [OF steady] d show ?thesis by (simp split: prod.split)
  qed simp
qed (simp add: drain_done)

lemma forward_whole:
  "nul \<notin> set (concat chunks) \<or> list_all steady_chunk (butlast chunks) \<Longrightarrow> forward chunks = forward [concat chunks]"
  unfolding forward_def by (rule forward_from_whole) simp_all

lemma terminated_lines_line:
  "lf \<notin> set line \<Longrightarrow> terminated_lines (line @ lf # rest) = line # terminated_lines rest"
  by (simp add: terminated_lines_def split_on_append_sep Let_def)

lemma forward_plain: "nul \<notin> set s \<Longrightarrow> forward_from [] [s] = map plain_line (terminated_lines s)"
proof (induction s rule: measure_induct_rule [of length])
  case (less s)
  show ?case
  proof (cases "lf \<in> set s")
    case True
    then obtain line rest where s: "s = line @ lf # rest" "lf \<notin> set line" by (rule split_first_line)
    with less.prems have "decode_worker_stderr_line line = (plain_line line, False)" by (simp add: plain_decode)
    moreover have "forward_from [] [rest] = map plain_line (terminated_lines rest)"
      by (rule less.IH) (use less.prems s in auto)
    ultimately show ?thesis
      by (cases "drain rest") (auto simp: s drain_line terminated_lines_line behind_line_def)
  next
    case False
    with less.prems show ?thesis
      by (auto simp: drain_done terminated_lines_def split_on_no_sep plain_decode)
  qed
qed


lemma decode_ascii: "list_all (\<lambda>c. code c < 128) s \<Longrightarrow> utf8_decode_with r s = map code s"
  by (induction s) (simp_all add: utf8_step.simps)


text \<open>The condition is needed: when a chunk ends between the two bytes of a UTF-16 line feed, the byte that is
  left over turns the UTF-8 line behind it into UTF-16.\<close>

definition wide_line :: bytes where
  "wide_line = [CHR ''a'', nul, CHR ''b'', nul]"

lemma chunk_boundary_matters:
  "forward [wide_line @ [lf], nul # ''warning'' @ [lf]] \<noteq> forward [wide_line @ [lf] @ nul # ''warning'' @ [lf]]"
proof -
  note bytes_are = wide_line_def lf_def nul_def
  have wide: "decode_worker_stderr_line wide_line = ([97, 98], True)"
    by (simp add: decode_worker_stderr_line_def looks_like_utf16le_def bytes_are lstrip_by_def unit_of_def code_def
        is_low_def is_high_def without_cr_def)
  have garbled: "fst (decode_worker_stderr_line (nul # ''warning'')) \<noteq> plain_line ''warning''"
    by (simp add: decode_worker_stderr_line_def looks_like_utf16le_def bytes_are lstrip_by_def unit_of_def code_def
        is_low_def is_high_def without_cr_def plain_line_def decode_ascii del: utf8_decode_with.simps)
  have "forward [wide_line @ [lf], nul # ''warning'' @ [lf]] = [[97, 98], fst (decode_worker_stderr_line (nul # ''warning''))]"
    using drain_line [of wide_line "[]"] drain_line [of "nul # ''warning''" "[]"] wide
    by (simp add: forward_def behind_line_def drain_done bytes_are split: prod.splits)
  moreover have "forward [wide_line @ [lf] @ nul # ''warning'' @ [lf]] = [[97, 98], plain_line ''warning'']"
    using drain_line [of wide_line "nul # ''warning'' @ [lf]"] drain_line [of "''warning''" "[]"] wide
      plain_decode [of "''warning''"]
    by (simp add: forward_def behind_line_def drain_done bytes_are split: prod.splits)
  ultimately show ?thesis using garbled by simp
qed

end
