(* ===== verification/Clients.thy ===== *)
theory Clients
  imports WorkerLogs
begin

text \<open>
  The external tunnel clients (\<open>transports/openai_tunnel.py\<close>, \<open>transports/cloudflare.py\<close> and the two functions
  of \<open>lifecycle.py\<close> that call them): the check of a client's version, the initialisation of a profile, the
  supervised run with its redacted log, and the checks of \<open>doctor\<close>.  The secret reaches a client through its
  environment, which is not part of a call.  The functions of the Windows kernel are questions to the platform.
\<close>

section \<open>Calling a client\<close>

definition call_client :: "ext \<Rightarrow> runtime_paths \<Rightarrow> string \<Rightarrow> string list \<Rightarrow> ('z io_scheme, exn, proc) M" where
  "call_client X paths client args =
     andthen (ask (RunCommand (Some (rt_app_root paths)) client args None)) (\<lambda>h. ret (x_proc X h))"

definition both_outputs :: "string \<Rightarrow> string \<Rightarrow> string" where
  "both_outputs out err = out @ [lf] @ err"

section \<open>The version of cloudflared\<close>

definition BUNDLED_VERSION :: string where "BUNDLED_VERSION = ''2026.7.3''"

definition BUNDLED_WINDOWS_AMD64_SHA256 :: string where
  "BUNDLED_WINDOWS_AMD64_SHA256 = ''8635da433b6df8194746e88ed9d2589566c20e38bfc2a80e431a348b7c765841''"

text \<open>\<open>(\d{4}\.\d+\.\d+)\b\<close> at the front of a text; a shorter run of digits is never followed by a word boundary.\<close>

definition version_text :: "string \<Rightarrow> string option" where
  "version_text s =
     (let r = drop 4 s; minor = takeWhile is_digit (tl r); r2 = dropWhile is_digit (tl r);
          patch = takeWhile is_digit (tl r2); r3 = dropWhile is_digit (tl r2)
      in if length (take 4 s) = 4 \<and> list_all is_digit (take 4 s) \<and> take 1 r = ''.'' \<and> minor \<noteq> []
            \<and> take 1 r2 = ''.'' \<and> patch \<noteq> [] \<and> (r3 = [] \<or> \<not> word_char (hd r3))
         then Some (take 4 s @ ''.'' @ minor @ ''.'' @ patch) else None)"

text \<open>\<open>_VERSION_PATTERN.search\<close>.\<close>

fun find_version :: "bool \<Rightarrow> string \<Rightarrow> string option" where
  "find_version previous [] = None"
| "find_version previous (c # cs) =
     (case (if \<not> previous \<and> front_is True ''cloudflared version '' (c # cs) then version_text (drop 20 (c # cs)) else None) of
        Some v \<Rightarrow> Some v
      | None \<Rightarrow> find_version (word_char c) cs)"

definition is_resolved :: "ext \<Rightarrow> bool \<Rightarrow> string \<Rightarrow> string \<Rightarrow> ('z io_scheme, exn, bool) M" where
  "is_resolved X applies client p =
     (if applies then andthen (fs_text X ''resolve'' p) (\<lambda>q. ret (client = q)) else ret False)"

definition check_digest :: "ext \<Rightarrow> string \<Rightarrow> ('z io_scheme, exn, unit) M" where
  "check_digest X client =
     andthen (ask (FsCall ''read_bytes'' client)) (\<lambda>h.
     case x_bytes X h of
       None \<Rightarrow> raise OsErr
     | Some content \<Rightarrow>
         require (lower (x_sha256 X content) = BUNDLED_WINDOWS_AMD64_SHA256)
           (LifecycleErr ''bundled cloudflared SHA-256 does not match the pinned release''))"

definition reported_version :: "ext \<Rightarrow> runtime_paths \<Rightarrow> string \<Rightarrow> ('z io_scheme, exn, string) M" where
  "reported_version X paths client =
     andthen (call_client X paths client [''--version'']) (\<lambda>answer.
     case answer of
       Exited status out err \<Rightarrow>
         if status \<noteq> 0
         then raise (LifecycleErr (''cloudflared version check failed with exit code '' @ decimal_int status @ '': ''
                @ strip (redact Cloudflare (both_outputs out err))))
         else
           (case find_version False (both_outputs out err) of
              None \<Rightarrow> raise (LifecycleErr ''cloudflared version output is not recognized'')
            | Some version \<Rightarrow> ret version)
     | _ \<Rightarrow> raise (LifecycleErr ''cloudflared version check failed: ''))"

definition client_version :: "ext \<Rightarrow> runtime_paths \<Rightarrow> ('z io_scheme, exn, string) M" where
  "client_version X paths =
     (let bundled = (\<lambda>name. join_path (join_path (rt_bundled_runtime_root paths) ''bin'') name) in
      andthen (find_client X paths Cloudflare) (\<lambda>client.
      andthen (is_resolved X (x_windows X) client (bundled ''cloudflared.exe'')) (\<lambda>bundled_windows.
      andthen (is_resolved X (x_windows X) client (join_path (rt_runtime_root paths) ''cloudflared.exe'')) (\<lambda>legacy_windows.
      andthen (is_resolved X (x_darwin X) client (bundled ''cloudflared'')) (\<lambda>bundled_macos.
      andthen (if bundled_windows \<or> legacy_windows then check_digest X client else ret ()) (\<lambda>_.
      andthen (reported_version X paths client) (\<lambda>version.
      andthen (require (bundled_windows \<or> legacy_windows \<or> bundled_macos \<longrightarrow> version = BUNDLED_VERSION)
        (LifecycleErr ''bundled cloudflared version does not match the pinned release'')) (\<lambda>_.
      ret version))))))))"

section \<open>Initialisation\<close>

definition openai_init_args :: "openai_settings \<Rightarrow> bool \<Rightarrow> string list" where
  "openai_init_args s force =
     [''init'', ''--sample'', ''sample_mcp_remote_no_auth'', ''--profile'', oa_profile_name s,
      ''--profile-dir'', oa_profile_dir s, ''--tunnel-id'', oa_tunnel_id s, ''--mcp-server-url'', oa_bridge_url s,
      ''--health-listen-addr'', oa_health_listen_addr s, ''--control-plane-api-key-ref'', ''env:CONTROL_PLANE_API_KEY'']
     @ (if force then [''--force''] else [])"

definition initialize_openai_profile ::
  "ext \<Rightarrow> runtime_paths \<Rightarrow> openai_settings \<Rightarrow> bool \<Rightarrow> ('z io_scheme, exn, string) M" where
  "initialize_openai_profile X paths s force =
     andthen (find_client X paths OpenAITunnel) (\<lambda>client.
     andthen (make_dir X (oa_profile_dir s)) (\<lambda>_.
     andthen (call_client X paths client (openai_init_args s force)) (\<lambda>answer.
     case answer of
       SpawnFailed \<Rightarrow> raise OsErr
     | TimedOut \<Rightarrow> raise OtherErr
     | Exited status out err \<Rightarrow>
         andthen (require (status = 0) (LifecycleErr (''tunnel-client init failed: ''
           @ strip (redact OpenAITunnel (both_outputs out err))))) (\<lambda>_.
         validate_openai_config X s))))"

definition initialize_cloudflare_client ::
  "ext \<Rightarrow> runtime_paths \<Rightarrow> cloudflare_settings \<Rightarrow> ('z io_scheme, exn, string) M" where
  "initialize_cloudflare_client X paths s =
     andthen (validate_cloudflare_config X s) (\<lambda>config.
     andthen (client_version X paths) (\<lambda>_. ret config))"

text \<open>The settings have been loaded before; when they are those of the other provider, an attribute that is used
  is missing.\<close>

definition initialize_tunnel_profile ::
  "ext \<Rightarrow> runtime_paths \<Rightarrow> tunnel_settings \<Rightarrow> bool \<Rightarrow> ('z io_scheme, exn, string) M" where
  "initialize_tunnel_profile X paths t force =
     andthen (load_transport_provider X paths) (\<lambda>(p, _).
     andthen (transport_secret_value X paths p) (\<lambda>(secret, _).
     andthen (require (is_given secret) (LifecycleErr
       (secret_env_name p @ '' is not available; set it for init or store it securely''))) (\<lambda>_.
     case (p, t) of
       (OpenAITunnel, OpenAISettings s) \<Rightarrow> initialize_openai_profile X paths s force
     | (Cloudflare, CloudflareSettings s) \<Rightarrow> initialize_cloudflare_client X paths s
     | (OpenAITunnel, CloudflareSettings _) \<Rightarrow> andthen (find_client X paths OpenAITunnel) (\<lambda>_. raise OtherErr)
     | (Cloudflare, OpenAISettings _) \<Rightarrow> raise OtherErr)))"

section \<open>Running a client\<close>

definition client_args :: "tunnel_settings \<Rightarrow> string list" where
  "client_args t =
     (case t of
        OpenAISettings s \<Rightarrow>
          [''run'', ''--profile'', oa_profile_name s, ''--profile-dir'', oa_profile_dir s,
           ''--health.listen-addr'', oa_health_listen_addr s]
      | CloudflareSettings s \<Rightarrow>
          [''tunnel'', ''--no-autoupdate'', ''--loglevel'', ''info'', ''--metrics'', cf_metrics_addr s, ''run''])"

definition client_log :: "runtime_paths \<Rightarrow> provider \<Rightarrow> string" where
  "client_log paths p =
     join_path (rt_log_dir paths) (case p of OpenAITunnel \<Rightarrow> ''tunnel-client.log'' | Cloudflare \<Rightarrow> ''cloudflared.log'')"

text \<open>\<open>time.strftime("%Y-%m-%dT%H:%M:%SZ", time.gmtime())\<close>.\<close>

definition log_time :: "nat \<Rightarrow> string" where
  "log_time ms = take 19 (iso ms) @ ''Z''"

definition log_line :: "provider \<Rightarrow> nat \<Rightarrow> string \<Rightarrow> string" where
  "log_line p ms line = log_time ms @ '' '' @ redact p (rstrip_by is_space line) @ [lf]"

text \<open>The lines of a stream that is read in text mode, its line ends already translated.\<close>

definition output_lines :: "string \<Rightarrow> string list" where
  "output_lines s = (let ls = split_on lf s in if last ls = [] then butlast ls else ls)"

text \<open>The loop over the output of the child, all of which is one answer; every line is appended to the log.\<close>

definition copy_output :: "ext \<Rightarrow> provider \<Rightarrow> string \<Rightarrow> int \<Rightarrow> ('z io_scheme, exn, unit) M" where
  "copy_output X p path pid =
     andthen (fs_ask X ''open_append'' path) (\<lambda>opened.
     andthen (require opened OsErr) (\<lambda>_.
     andthen (ask (FsCall ''child_output'' (decimal_int pid))) (\<lambda>h.
     case x_lookup X h of
       None \<Rightarrow> raise OsErr
     | Some content \<Rightarrow>
         for_each (output_lines content) (\<lambda>line.
           andthen (now_ms X) (\<lambda>t.
           andthen (ask (FsWrite path (encode_str (log_line p t line)))) (\<lambda>h'. require (x_ok X h') OsErr))))))"

definition wait_child :: "ext \<Rightarrow> int \<Rightarrow> ('z io_scheme, exn, int) M" where
  "wait_child X pid =
     andthen (ask (FsCall ''wait_child'' (decimal_int pid))) (\<lambda>h.
     case x_int X h of None \<Rightarrow> raise OtherErr | Some status \<Rightarrow> ret status)"

definition spawn_client :: "ext \<Rightarrow> string list \<Rightarrow> ('z io_scheme, exn, int) M" where
  "spawn_client X args =
     andthen (ask (Spawn args)) (\<lambda>h. case x_int X h of None \<Rightarrow> raise OsErr | Some pid \<Rightarrow> ret pid)"

definition run_openai :: "ext \<Rightarrow> runtime_paths \<Rightarrow> openai_settings \<Rightarrow> ('z io_scheme, exn, int) M" where
  "run_openai X paths s =
     andthen (validate_openai_config X s) (\<lambda>_.
     andthen (find_client X paths OpenAITunnel) (\<lambda>client.
     andthen (make_dir X (rt_log_dir paths)) (\<lambda>_.
     andthen (rotate_log X (client_log paths OpenAITunnel)) (\<lambda>_.
     andthen (spawn_client X (client # client_args (OpenAISettings s))) (\<lambda>pid.
     andthen (copy_output X OpenAITunnel (client_log paths OpenAITunnel) pid) (\<lambda>_.
     wait_child X pid))))))"

definition close_job :: "ext \<Rightarrow> int option \<Rightarrow> ('z io_scheme, exn, unit) M" where
  "close_job X job =
     (case job of
        None \<Rightarrow> ret ()
      | Some handle_of \<Rightarrow> andthen (ask (FsCall ''close_job'' (decimal_int handle_of))) (\<lambda>_. ret ()))"

text \<open>A refusal of the platform, with the number of its last error.\<close>

definition job_error :: "ext \<Rightarrow> int option \<Rightarrow> string \<Rightarrow> ('z io_scheme, exn, 'a) M" where
  "job_error X job msg =
     andthen (fs_text X ''last_error'' []) (\<lambda>number.
     andthen (close_job X job) (\<lambda>_. raise (LifecycleErr (msg @ '': winerror='' @ number))))"

text \<open>\<open>_attach_kill_on_close_job\<close>: a job object that ends its processes when its handle is closed.\<close>

definition bind_job :: "ext \<Rightarrow> int \<Rightarrow> ('z io_scheme, exn, int option) M" where
  "bind_job X pid =
     (if \<not> x_windows X then ret None
      else
        andthen (ask (FsCall ''create_job'' [])) (\<lambda>h.
        case x_int X h of
          None \<Rightarrow> job_error X None ''failed to create Windows Job Object''
        | Some job \<Rightarrow>
            andthen (fs_ask X ''configure_job'' (decimal_int job)) (\<lambda>configured.
            if \<not> configured then job_error X (Some job) ''failed to configure Windows Job Object''
            else
              andthen (fs_ask X ''assign_job'' (decimal_int job @ '' '' @ decimal_int pid)) (\<lambda>assigned.
              if assigned then ret (Some job)
              else job_error X (Some job) ''failed to bind cloudflared to the supervisor Job Object''))))"

text \<open>The child is killed when the supervision fails; that it does not end within five seconds is ignored.\<close>

definition kill_child :: "ext \<Rightarrow> int \<Rightarrow> ('z io_scheme, exn, unit) M" where
  "kill_child X pid =
     andthen (ask (PollProcess pid)) (\<lambda>h.
     if x_int X h \<noteq> None then ret ()
     else
       andthen (ask (FsCall ''kill_child'' (decimal_int pid))) (\<lambda>_.
       andthen (ask (FsCall ''wait_child'' (decimal_int pid))) (\<lambda>_. ret ())))"

definition or_kill :: "ext \<Rightarrow> int \<Rightarrow> ('z io_scheme, exn, 'a) M \<Rightarrow> ('z io_scheme, exn, 'a) M" where
  "or_kill X pid m = handle m (\<lambda>e. andthen (kill_child X pid) (\<lambda>_. raise e))"

definition supervise_cloudflare :: "ext \<Rightarrow> runtime_paths \<Rightarrow> int \<Rightarrow> ('z io_scheme, exn, int) M" where
  "supervise_cloudflare X paths pid =
     andthen (or_kill X pid (bind_job X pid)) (\<lambda>job.
     andthen
       (handle
         (or_kill X pid (andthen (copy_output X Cloudflare (client_log paths Cloudflare) pid) (\<lambda>_. wait_child X pid)))
         (\<lambda>e. andthen (close_job X job) (\<lambda>_. raise e)))
       (\<lambda>status. andthen (close_job X job) (\<lambda>_. ret status)))"

definition run_cloudflare :: "ext \<Rightarrow> runtime_paths \<Rightarrow> cloudflare_settings \<Rightarrow> ('z io_scheme, exn, int) M" where
  "run_cloudflare X paths s =
     andthen (validate_cloudflare_config X s) (\<lambda>_.
     andthen (find_client X paths Cloudflare) (\<lambda>client.
     andthen (client_version X paths) (\<lambda>_.
     andthen (make_dir X (rt_log_dir paths)) (\<lambda>_.
     andthen (rotate_log X (client_log paths Cloudflare)) (\<lambda>_.
     andthen (spawn_client X (client # client_args (CloudflareSettings s))) (\<lambda>pid.
     supervise_cloudflare X paths pid))))))"

definition run_tunnel_proxy :: "ext \<Rightarrow> runtime_paths \<Rightarrow> tunnel_settings \<Rightarrow> ('z io_scheme, exn, int) M" where
  "run_tunnel_proxy X paths t =
     andthen (load_transport_provider X paths) (\<lambda>(p, _).
     andthen (transport_secret_value X paths p) (\<lambda>(secret, _).
     andthen (require (is_given secret) (LifecycleErr (secret_env_name p @ '' is unavailable''))) (\<lambda>_.
     case (p, t) of
       (OpenAITunnel, OpenAISettings s) \<Rightarrow> run_openai X paths s
     | (Cloudflare, CloudflareSettings s) \<Rightarrow> run_cloudflare X paths s
     | _ \<Rightarrow> raise OtherErr)))"

section \<open>Doctor\<close>

definition failed_check :: "string \<Rightarrow> json" where
  "failed_check msg = JObj [(''status'', JStr ''failed''), (''error'', JStr msg)]"

definition checked :: "string + (string \<times> json) list \<Rightarrow> json" where
  "checked r = (case r of Inl msg \<Rightarrow> failed_check msg | Inr fields_of \<Rightarrow> JObj ((''status'', JStr ''ok'') # fields_of))"

definition secret_check :: "bool \<Rightarrow> string \<Rightarrow> json" where
  "secret_check available source =
     JObj [(''status'', JStr (if available then ''ok'' else ''missing'')), (''source'', JStr source)]"

definition doctor_openai ::
  "ext \<Rightarrow> runtime_paths \<Rightarrow> string option \<Rightarrow> bool \<Rightarrow> string \<Rightarrow> ('z io_scheme, exn, (string \<times> json) list) M" where
  "doctor_openai X paths env_file available source =
     andthen (try_lifecycle (load_openai_settings X paths env_file)) (\<lambda>loaded.
     andthen (case loaded of
                Inl msg \<Rightarrow> ret [(''tunnel_settings'', failed_check msg)]
              | Inr s \<Rightarrow>
                  andthen (try_lifecycle (validate_openai_config X s)) (\<lambda>profile.
                  ret [(''tunnel_settings'', checked (Inr [(''profile'', JStr (oa_profile_name s))])),
                       (''tunnel_profile'', checked (map_sum id (\<lambda>p. [(''path'', JStr p)]) profile))])) (\<lambda>settings.
     andthen (try_lifecycle (find_client X paths OpenAITunnel)) (\<lambda>client.
     ret (settings @ [(''tunnel_client'', checked (map_sum id (\<lambda>c. [(''path'', JStr c)]) client)),
                      (''api_key'', secret_check available source)]))))"

definition doctor_cloudflare ::
  "ext \<Rightarrow> runtime_paths \<Rightarrow> string option \<Rightarrow> bool \<Rightarrow> string \<Rightarrow> ('z io_scheme, exn, (string \<times> json) list) M" where
  "doctor_cloudflare X paths env_file available source =
     andthen (try_lifecycle
       (andthen (load_cloudflare_settings X paths env_file) (\<lambda>s.
        andthen (validate_cloudflare_config X s) (\<lambda>config.
        ret [(''path'', JStr config), (''public_url'', JStr (cf_public_url s)), (''origin_url'', JStr (cf_origin_url s)),
             (''metrics_addr'', JStr (cf_metrics_addr s))])))) (\<lambda>settings.
     andthen (try_lifecycle
       (andthen (find_client X paths Cloudflare) (\<lambda>client.
        andthen (client_version X paths) (\<lambda>version.
        ret [(''path'', JStr client), (''version'', JStr version)])))) (\<lambda>client.
     ret [(''cloudflare_settings'', checked settings), (''cloudflared'', checked client),
          (''tunnel_token'', secret_check available source)]))"

definition provider_doctor ::
  "ext \<Rightarrow> runtime_paths \<Rightarrow> provider \<Rightarrow> string option \<Rightarrow> bool \<Rightarrow> string \<Rightarrow> ('z io_scheme, exn, (string \<times> json) list) M" where
  "provider_doctor X paths p env_file available source =
     (case p of
        OpenAITunnel \<Rightarrow> doctor_openai X paths env_file available source
      | Cloudflare \<Rightarrow> doctor_cloudflare X paths env_file available source)"

end
