(* ===== verification/ClientSpec.thy ===== *)
theory ClientSpec
  imports InstallSpec Clients
begin

text \<open>
  What the supervised run of a tunnel client promises: the client is started after everything that is to be
  checked has been checked, what it prints reaches the disk redacted, and only the child is ever killed.
\<close>

text \<open>A run of \<open>m\<close> with the result \<open>x\<close> is a part of the history.\<close>

definition has_run :: "(io, exn, 'a) M \<Rightarrow> 'a \<Rightarrow> call list \<Rightarrow> bool" where
  "has_run m x h \<longleftrightarrow> (\<exists>s t h'. m s = (Inr x, t) \<and> h = h' @ log t)"

text \<open>The arguments are those of the settings, which have been validated; the client has been found, its secret is there,
  and the version of a Cloudflare client has been accepted.\<close>

definition vetted :: "ext \<Rightarrow> runtime_paths \<Rightarrow> tunnel_settings \<Rightarrow> string list \<Rightarrow> call list \<Rightarrow> bool" where
  "vetted X paths t args h \<longleftrightarrow>
     (\<exists>client config secret source.
        args = client # client_args t
        \<and> has_run (validate_provider_config X t) config h \<and> is_given secret
        \<and> (case t of
             OpenAISettings _ \<Rightarrow>
               has_run (find_client X paths OpenAITunnel) client h
               \<and> has_run (transport_secret_value X paths OpenAITunnel) (secret, source) h
           | CloudflareSettings _ \<Rightarrow>
               has_run (find_client X paths Cloudflare) client h
               \<and> has_run (transport_secret_value X paths Cloudflare) (secret, source) h
               \<and> (\<exists>version. has_run (client_version X paths) version h)))"

definition settings_provider :: "tunnel_settings \<Rightarrow> provider" where
  "settings_provider t = (case t of OpenAISettings _ \<Rightarrow> OpenAITunnel | CloudflareSettings _ \<Rightarrow> Cloudflare)"

text \<open>The calls a run makes: questions; the version of a client; the client, once vetted; redacted lines and the rotation of
  its log; and the end of the child that was started and has just been seen alive.\<close>

fun client_ok :: "ext \<Rightarrow> runtime_paths \<Rightarrow> tunnel_settings \<Rightarrow> call \<Rightarrow> call list \<Rightarrow> bool" where
  "client_ok X paths t (Spawn args) h = vetted X paths t args h"
| "client_ok X paths t (RunCommand cwd cmd args input) h = (args = [''--version''])"
| "client_ok X paths t (FsWrite p bs) h =
     (p = client_log paths (settings_provider t)
      \<and> (\<exists>ms line. bs = encode_str (log_line (settings_provider t) ms line)))"
| "client_ok X paths t (FsCall w p) h =
     (if w = ''kill_child''
      then (\<exists>pid. p = decimal_int pid \<and> spawned X pid h \<and> x_int X h = None \<and> (\<exists>h'. h = PollProcess pid # h'))
      else if w = ''replace'' then (\<exists>n. p = backup_name (client_log paths (settings_provider t)) n)
      else if w = ''mkdir'' then p = rt_log_dir paths
      else w \<notin> set WRITES)"
| "client_ok X paths t c h = (\<not> process_call c)"

interpretation clients: asking_order "guarded (client_ok X paths t)" "\<lambda>c. \<forall>h. client_ok X paths t c h" for X paths t
proof unfold_locales
  show "\<forall>h. client_ok X paths t c h \<Longrightarrow> guarded (client_ok X paths t) s (s\<lparr>log := c # log s\<rparr>)" for c s
    by (rule guarded_call) blast
  show "read_call c \<Longrightarrow> \<forall>h. client_ok X paths t c h" for c
    by (cases c) (auto simp: read_call.simps READ_QUESTIONS_def WRITES_def)
  show "what \<notin> set WRITES \<Longrightarrow> \<forall>h. client_ok X paths t (FsCall what p) h" for what p
    by (auto simp: WRITES_def)
qed

section \<open>What has been in the history stays there\<close>

definition later :: "io \<Rightarrow> io \<Rightarrow> bool" where
  "later s t \<longleftrightarrow> (\<exists>cs. log t = cs @ log s)"

lemma later_trans: "later s t \<Longrightarrow> later t u \<Longrightarrow> later s u"
  unfolding later_def by auto

lemma guarded_later: "guarded K s t \<Longrightarrow> later s t"
  unfolding guarded_def later_def by blast

lemma has_run_now: "m s = (Inr x, t) \<Longrightarrow> has_run m x (log t)"
  unfolding has_run_def by (metis append_Nil)

lemma has_run_later: "has_run m x (log s) \<Longrightarrow> later s t \<Longrightarrow> has_run m x (log t)"
  unfolding has_run_def later_def by (metis append.assoc)

lemma spawned_later: "spawned X pid (log s) \<Longrightarrow> later s t \<Longrightarrow> spawned X pid (log t)"
  unfolding later_def by (auto intro: spawned_append)

text \<open>A step whose run is remembered.\<close>

lemma run_step:
  assumes "obeys (guarded K) m"
    and "\<And>x t. has_run m x (log t) \<Longrightarrow> later s t \<Longrightarrow> guarded K t (snd (f x t))"
  shows "guarded K s (snd (andthen m f s))"
  using assms(1)
proof (rule guarded.andthen_then_at)
  fix x t
  assume run: "m s = (Inr x, t)"
  with assms(1) have "guarded K s t" by (rule obeysD)
  with run show "guarded K t (snd (f x t))" by (intro assms(2) has_run_now guarded_later)
qed

section \<open>The checks\<close>

lemma text_questions:
  "obeys (guarded (client_ok X paths t)) (fs_text X ''last_error'' p)"
  unfolding fs_text_def by (intro clients.file_intros clients.question_obeys) (simp add: WRITES_def)

lemma environ_clients: "obeys (guarded (client_ok X paths t)) (environ X name)"
  unfolding environ_def by (intro clients.file_intros)

lemma provider_clients: "obeys (guarded (client_ok X paths t)) (load_transport_provider X paths')"
  unfolding load_transport_provider_def read_remote_config_def
  by (auto split: toml_file.split option.split intro!: clients.file_intros)

lemma secret_clients: "obeys (guarded (client_ok X paths t)) (transport_secret_value X paths' p)"
proof -
  have "obeys (guarded (client_ok X paths t)) (ask (FsCall ''keychain_read'' q))" "obeys (guarded (client_ok X paths t)) (ask (FsCall ''dpapi_read'' q))"
    "obeys (guarded (client_ok X paths t)) (fs_ask X ''keyring_import'' q)" "obeys (guarded (client_ok X paths t)) (fs_ask X ''keyring_open'' q)" for q
    by (rule clients.question_obeys clients.fs_question_obeys, simp add: WRITES_def)+
  then show ?thesis
    unfolding transport_secret_value_def read_secret_def read_keychain_def read_dpapi_def keychain_backend_def
      keychain_account_def canonical_home_identity_def
    by (auto split: option.split list.split intro!: clients.file_intros clients.fs_text_obeys environ_clients)
qed

lemma validate_clients: "obeys (guarded (client_ok X paths t)) (validate_provider_config X t')"
  unfolding validate_provider_config_def validate_openai_config_def validate_cloudflare_config_def profile_path_def
    read_text_def Let_def
  by (cases t') (auto split: option.split intro!: clients.file_intros)

lemma find_client_clients: "obeys (guarded (client_ok X paths t)) (find_client X paths' p)"
proof -
  have "obeys (guarded (client_ok X paths t)) (first_client X msg cs)" for msg cs
    by (induction cs) (auto intro!: clients.file_intros clients.fs_text_obeys)
  then show ?thesis
    unfolding find_client_def Let_def
    by (cases p) (auto simp del: first_client.simps intro!: clients.file_intros)
qed

lemma version_clients: "obeys (guarded (client_ok X paths t)) (client_version X paths')"
proof -
  have call: "obeys (guarded (client_ok X paths t)) (ask (RunCommand cwd cmd [''--version''] input))" for cwd cmd input
    by (rule clients.asked_obeys) simp
  have "obeys (guarded (client_ok X paths t)) (reported_version X paths' client)" for client
    unfolding reported_version_def call_client_def
    by (auto split: proc.split option.split intro!: clients.file_intros call)
  then show ?thesis
    unfolding client_version_def is_resolved_def check_digest_def Let_def
    by (auto split: option.split intro!: clients.file_intros clients.fs_text_obeys find_client_clients)
qed

section \<open>The log\<close>

lemma log_dir_clients: "obeys (guarded (client_ok X paths t)) (make_dir X (rt_log_dir paths))"
  unfolding make_dir_def fs_ask_def by (intro clients.file_intros clients.asked_obeys) simp

lemma rotate_clients:
  "p = settings_provider t \<Longrightarrow> obeys (guarded (client_ok X paths t)) (rotate_log X (client_log paths p))"
  unfolding rotate_log_def file_size_def move_to_def fs_ask_def
  by (auto simp: WRITES_def split: option.split intro!: clients.file_intros clients.asked_obeys)

lemma copy_clients:
  assumes "p = settings_provider t"
  shows "obeys (guarded (client_ok X paths t)) (copy_output X p (client_log paths p) pid)"
proof -
  have "obeys (guarded (client_ok X paths t)) (ask (FsCall ''child_output'' q))"
    "obeys (guarded (client_ok X paths t)) (fs_ask X ''open_append'' q)" for q
    by (rule clients.question_obeys clients.fs_question_obeys, simp add: WRITES_def)+
  moreover have "obeys (guarded (client_ok X paths t)) (ask (FsWrite (client_log paths p) (encode_str (log_line p ms line))))"
    for ms line by (rule clients.asked_obeys) (use assms in auto)
  moreover have "obeys (guarded (client_ok X paths t)) (now_ms X)"
    unfolding now_ms_def by (intro clients.file_intros clients.asked_obeys) simp
  ultimately show ?thesis
    unfolding copy_output_def by (auto split: option.split intro!: clients.file_intros)
qed

lemma wait_clients: "obeys (guarded (client_ok X paths t)) (wait_child X pid)"
proof -
  have "obeys (guarded (client_ok X paths t)) (ask (FsCall ''wait_child'' q))" for q
    by (rule clients.question_obeys) (simp add: WRITES_def)
  then show ?thesis unfolding wait_child_def by (auto split: option.split intro!: clients.file_intros)
qed

section \<open>The child\<close>

lemma spawn_client_at:
  fixes s :: io
  assumes "vetted X paths t args (log s)"
    and "\<And>pid u. spawned X pid (log u) \<Longrightarrow> guarded (client_ok X paths t) u (snd (f pid u))"
  shows "guarded (client_ok X paths t) s (snd (andthen (spawn_client X args) f s))"
proof -
  let ?u = "s\<lparr>log := Spawn args # log s\<rparr>"
  have su: "guarded (client_ok X paths t) s ?u" by (rule guarded_call) (simp add: assms(1))
  show ?thesis
  proof (cases "x_int X (Spawn args # log s)")
    case None
    with su show ?thesis by (simp add: spawn_client_def andthen_def raise_apply)
  next
    case (Some pid)
    then have "spawned X pid (log ?u)" unfolding spawned_def by (intro exI [of _ args] exI [of _ "[]"] exI [of _ "log s"]) simp
    then have "guarded (client_ok X paths t) ?u (snd (f pid ?u))" by (rule assms(2))
    with su Some show ?thesis by (simp add: spawn_client_def andthen_def ret_apply guarded.trans)
  qed
qed

lemma kill_child_at:
  fixes s :: io
  assumes "spawned X pid (log s)"
  shows "guarded (client_ok X paths t) s (snd (kill_child X pid s))"
proof -
  let ?h = "PollProcess pid # log s"
  have poll: "guarded (client_ok X paths t) s (s\<lparr>log := ?h\<rparr>)" by (rule guarded_call) simp
  show ?thesis
  proof (cases "x_int X ?h")
    case None
    have "spawned X pid ?h" using spawned_append [OF assms, of "[PollProcess pid]"] by simp
    with None have kill: "guarded (client_ok X paths t) (s\<lparr>log := ?h\<rparr>) (s\<lparr>log := FsCall ''kill_child'' (decimal_int pid) # ?h\<rparr>)"
      using guarded_call [of "client_ok X paths t" "FsCall ''kill_child'' (decimal_int pid)" "s\<lparr>log := ?h\<rparr>"] by auto
    let ?u = "s\<lparr>log := FsCall ''kill_child'' (decimal_int pid) # ?h\<rparr>"
    have wait: "guarded (client_ok X paths t) ?u (?u\<lparr>log := FsCall ''wait_child'' (decimal_int pid) # log ?u\<rparr>)"
      by (rule guarded_call) (simp add: WRITES_def)
    from guarded.trans [OF guarded.trans [OF poll kill] wait] None show ?thesis
      by (simp add: kill_child_def andthen_def ret_apply)
  next
    case (Some v)
    with poll show ?thesis by (simp add: kill_child_def andthen_def ret_apply)
  qed
qed

lemma or_kill_at:
  assumes "obeys (guarded (client_ok X paths t)) m" and "spawned X pid (log s)"
  shows "guarded (client_ok X paths t) s (snd (or_kill X pid m s))"
  unfolding or_kill_def
proof (rule guarded.handle_at)
  show "guarded (client_ok X paths t) s (snd (m s))" using assms(1) by (simp add: obeys_def)
  fix e u
  assume "m s = (Inl e, u)"
  with assms(1) have "guarded (client_ok X paths t) s u" by (rule obeysD)
  with assms(2) have "spawned X pid (log u)" by (blast intro: spawned_later guarded_later)
  then show "guarded (client_ok X paths t) u (snd (andthen (kill_child X pid) (\<lambda>_. raise e) u))"
    by (intro guarded.then_obeys_at kill_child_at guarded.raise_obeys)
qed

section \<open>Supervision\<close>

lemma job_clients:
  "obeys (guarded (client_ok X paths t)) (close_job X job)" "obeys (guarded (client_ok X paths t)) (bind_job X pid)"
proof -
  have q: "obeys (guarded (client_ok X paths t)) (ask (FsCall ''close_job'' p))" "obeys (guarded (client_ok X paths t)) (ask (FsCall ''create_job'' p))"
    "obeys (guarded (client_ok X paths t)) (fs_ask X ''configure_job'' p)" "obeys (guarded (client_ok X paths t)) (fs_ask X ''assign_job'' p)" for p
    by (rule clients.question_obeys clients.fs_question_obeys, simp add: WRITES_def)+
  show close: "obeys (guarded (client_ok X paths t)) (close_job X job)" for job
    unfolding close_job_def by (intro clients.file_intros q)
  show "obeys (guarded (client_ok X paths t)) (bind_job X pid)"
    unfolding bind_job_def job_error_def by (intro clients.file_intros q close text_questions)
qed

lemma supervise_at:
  assumes "spawned X pid (log s)" and "settings_provider t = Cloudflare"
  shows "guarded (client_ok X paths t) s (snd (supervise_cloudflare X paths pid s))"
  unfolding supervise_cloudflare_def
proof (rule guarded.andthen_at)
  fix r u
  assume "or_kill X pid (bind_job X pid) s = (r, u)"
  with or_kill_at [OF job_clients(2) [where pid = pid] assms(1), of paths t] show "guarded (client_ok X paths t) s u" by simp
next
  fix job u
  assume "or_kill X pid (bind_job X pid) s = (Inr job, u)"
  with or_kill_at [OF job_clients(2) [where pid = pid] assms(1), of paths t] have "guarded (client_ok X paths t) s u" by simp
  with assms(1) have child: "spawned X pid (log u)" by (blast intro: spawned_later guarded_later)
  have "obeys (guarded (client_ok X paths t))
      (andthen (copy_output X Cloudflare (client_log paths Cloudflare) pid) (\<lambda>_. wait_child X pid))"
    by (intro guarded.andthen_obeys copy_clients wait_clients) (simp add: assms(2))
  from or_kill_at [OF this child]
  show "guarded (client_ok X paths t) u (snd (andthen
      (handle (or_kill X pid (andthen (copy_output X Cloudflare (client_log paths Cloudflare) pid) (\<lambda>_. wait_child X pid)))
         (\<lambda>e. andthen (close_job X job) (\<lambda>_. raise e)))
      (\<lambda>status. andthen (close_job X job) (\<lambda>_. ret status)) u))"
  proof (rule guarded.then_obeys_at [OF guarded.handle_at])
    show "guarded (client_ok X paths t) v (snd (andthen (close_job X job) (\<lambda>_. raise e) v))" for e v
      by (rule guarded.obeys_at) (intro guarded.andthen_obeys job_clients(1) guarded.raise_obeys)
  qed (intro guarded.andthen_obeys job_clients(1) guarded.ret_obeys)
qed

lemma run_openai_at:
  assumes "has_run (transport_secret_value X paths OpenAITunnel) (secret, source) (log s)" and "is_given secret"
  shows "guarded (client_ok X paths (OpenAISettings c)) s (snd (run_openai X paths c s))"
proof -
  let ?t = "OpenAISettings c"
  have config: "obeys (guarded (client_ok X paths ?t)) (validate_openai_config X c)"
    using validate_clients [where t' = ?t] by (simp add: validate_provider_config_def)
  have same: "OpenAITunnel = settings_provider ?t" by (simp add: settings_provider_def)
  show ?thesis
    unfolding run_openai_def
  proof (rule run_step [OF config], rule run_step [OF find_client_clients], rule run_step [OF log_dir_clients],
      rule run_step [OF rotate_clients [OF same]], rule spawn_client_at, goal_cases)
    case (1 config s1 client s2 u s3 w s4)
    then have "later s s4" "later s1 s4" "later s2 s4" by (blast intro: later_trans)+
    with 1 assms show ?case
      unfolding vetted_def validate_provider_config_def by (auto intro: has_run_later)
  next
    case (2 config s1 client s2 u s3 w s4 pid s5)
    have "obeys (guarded (client_ok X paths ?t))
        (andthen (copy_output X OpenAITunnel (client_log paths OpenAITunnel) pid) (\<lambda>_. wait_child X pid))"
      by (intro guarded.andthen_obeys copy_clients [OF same] wait_clients)
    then show ?case by (simp add: obeys_def)
  qed
qed

lemma run_cloudflare_at:
  assumes "has_run (transport_secret_value X paths Cloudflare) (secret, source) (log s)" and "is_given secret"
  shows "guarded (client_ok X paths (CloudflareSettings c)) s (snd (run_cloudflare X paths c s))"
proof -
  let ?t = "CloudflareSettings c"
  have config: "obeys (guarded (client_ok X paths ?t)) (validate_cloudflare_config X c)"
    using validate_clients [where t' = ?t] by (simp add: validate_provider_config_def)
  have same: "Cloudflare = settings_provider ?t" by (simp add: settings_provider_def)
  show ?thesis
    unfolding run_cloudflare_def
  proof (rule run_step [OF config], rule run_step [OF find_client_clients], rule run_step [OF version_clients],
      rule run_step [OF log_dir_clients], rule run_step [OF rotate_clients [OF same]], rule spawn_client_at, goal_cases)
    case (1 config s1 client s2 version s3 u s4 w s5)
    then have "later s s5" "later s1 s5" "later s2 s5" "later s3 s5" by (blast intro: later_trans)+
    with 1 assms show ?case
      unfolding vetted_def validate_provider_config_def by (auto intro: has_run_later)
  next
    case 2
    then show ?case by (intro supervise_at same [symmetric])
  qed
qed

text \<open>C22: A tunnel client is started only after every check.  In every run of the supervised client, whatever the
  platform answers: a process is started only with the arguments of the settings, after these settings have been
  validated, the client has been found, the secret of the transport is there and, for Cloudflare, the version of the client
  has been accepted (with its digest, where one is pinned); the only other command run asks for a version; the only
  file written is the log of the client, line by line as redacted, and its backups are the only files replaced; and the
  only process killed is the child just started, when it has just been seen to be alive.\<close>

theorem tunnel_client_supervised:
  "guarded (client_ok X paths t) s (snd (run_tunnel_proxy X paths t s))"
  unfolding run_tunnel_proxy_def
proof (rule run_step [OF provider_clients], goal_cases)
  case (1 found s1)
  obtain p origin where f: "found = (p, origin)" by fastforce
  show ?case
    unfolding f prod.case
  proof (rule run_step [OF secret_clients], goal_cases)
    case (1 answer s2)
    obtain secret source where a: "answer = (secret, source)" by fastforce
    show ?case
      unfolding a prod.case
    proof (rule guarded.require_then_at, goal_cases)
      case 1
      note given = this
      show ?case
        using run_openai_at [OF _ given] run_cloudflare_at [OF _ given] \<open>has_run _ answer _\<close>
        by (cases p; cases t) (auto simp: a guarded.refl)
    qed
  qed
qed

end
