(* ===== verification/Commands.thy ===== *)
theory Commands
  imports Clients Installing Gate
begin

text \<open>
  The command line of \<open>main.py\<close>, behind its argument parser, with \<open>doctor_report\<close> of \<open>lifecycle.py\<close>: which
  functions a command calls and in which order, what it prints and its exit status.  The module constant
  \<open>RUNTIME_ROOT\<close> is an argument.  A time limit is given in whole milliseconds.
\<close>

section \<open>Doctor\<close>

definition with_status :: "(string \<times> json) list \<Rightarrow> string \<Rightarrow> (string \<times> json) list" where
  "with_status kvs status = with_field kvs ''status'' (JStr status)"

definition configuration_check :: "ext \<Rightarrow> string \<Rightarrow> string \<Rightarrow> ('z io_scheme, exn, json) M" where
  "configuration_check X bridge_path projects_path =
     andthen (try_settings (load_settings X bridge_path projects_path)) (\<lambda>loaded.
     ret (case loaded of
            Inl msg \<Rightarrow> failed_check msg
          | Inr S \<Rightarrow>
              JObj [(''status'', JStr ''ok''), (''projects'', JInt (int (length (bs_projects S)))),
                    (''worker_mode'', JStr (cm_worker_mode (bs_codemcp S))),
                    (''bridge_url'', JStr (''http://'' @ sv_host (bs_server S) @ '':'' @ decimal_int (sv_port (bs_server S))
                       @ sv_path (bs_server S)))]))"

definition auth_check :: "provider \<Rightarrow> profile_status \<Rightarrow> json" where
  "auth_check p ps =
     (let auth = ps_auth ps; status = map_of auth ''status'' in
      if p = Cloudflare then
        if ps_auth_mode ps = Some RESOURCE_AUTH_MODE then
          if status = Some (JStr ''ready'') then JObj (with_status auth ''ok'')
          else JObj (with_field (with_status auth ''failed'') ''error''
                 (if status = Some (JStr ''missing'') then JStr (RESOURCE_AUTH_SECRET_ENV_NAME @ '' is unavailable'')
                  else or_null (map_of auth ''error'')))
        else if ps_profile ps = ''network-trusted'' then JObj auth
        else JObj (with_field (with_field (with_status auth ''failed'') ''mode''
               (case map_of auth ''mode'' of Some (JStr (c # cs)) \<Rightarrow> JStr (c # cs) | _ \<Rightarrow> JStr ''none''))
               ''error'' (JStr PUBLIC_NO_AUTH_REQUIRES_NETWORK_TRUST))
      else if status = Some (JStr ''ready'') then JObj (with_status auth ''ok'') else JObj auth)"

text \<open>The names of the checks that have not gone well.\<close>

definition failing :: "(string \<times> json) list \<Rightarrow> string list" where
  "failing checks =
     map fst (filter (\<lambda>(name, v). jget v ''status'' \<in> {Some (JStr ''failed''), Some (JStr ''missing''), Some (JStr ''unknown'')}) checks)"

definition git_check :: "ext \<Rightarrow> ('z io_scheme, exn, json) M" where
  "git_check X =
     andthen (ask (FsCall ''which'' ''git'')) (\<lambda>h.
     andthen (ask (FsCall ''which'' ''git'')) (\<lambda>h'.
     ret (JObj [(''status'', JStr (if is_given (x_lookup X h) then ''ok'' else ''failed'')),
                (''path'', jopt (x_lookup X h'))])))"

definition secret_checks ::
  "ext \<Rightarrow> runtime_paths \<Rightarrow> provider \<Rightarrow> ('z io_scheme, exn, bool \<times> string \<times> (string \<times> json) list) M" where
  "secret_checks X paths p =
     andthen (try_lifecycle (transport_secret_value X paths p)) (\<lambda>r.
     ret (case r of
            Inl msg \<Rightarrow> (False, ''none'',
              [(''secret_store'', JObj [(''status'', JStr ''failed''), (''source'', JStr ''none''), (''error'', JStr msg)])])
          | Inr (v, source) \<Rightarrow> (is_given v, source, [])))"

definition doctor_report ::
  "ext \<Rightarrow> runtime_paths \<Rightarrow> string option \<Rightarrow> string option \<Rightarrow> string option \<Rightarrow> ('z io_scheme, exn, (string \<times> json) list) M" where
  "doctor_report X paths bridge_config projects_config env_file =
     andthen (given_path X bridge_config (rt_bridge_config paths)) (\<lambda>bridge_path.
     andthen (given_path X projects_config (rt_projects_config paths)) (\<lambda>projects_path.
     andthen (configuration_check X bridge_path projects_path) (\<lambda>configuration.
     andthen (load_transport_provider X paths) (\<lambda>(p, source).
     andthen (security_profile_status X paths) (\<lambda>ps.
     andthen (secret_checks X paths p) (\<lambda>(available, secret_source, store_checks).
     andthen (provider_doctor X paths p env_file available secret_source) (\<lambda>client_checks.
     andthen (git_check X) (\<lambda>git.
     andthen (status_services X paths) (\<lambda>services.
     let checks =
       [(''configuration'', configuration),
        (''transport'', JObj [(''status'', JStr ''ok''), (''provider'', JStr (provider_id p)), (''source'', JStr source),
                             (''config'', JStr (remote_config_path paths))]),
        (''paths'', runtime_path_status paths), (''network_trust'', ps_network_trust ps),
        (''identity_level'', JStr (ps_identity_level ps)), (''auth'', auth_check p ps)]
       @ store_checks @ client_checks @ [(''git'', git), (''services'', JObj (st_report services))]
       @ (case map_of (st_report services) ''project_registry'' of
            Some (JObj kvs) \<Rightarrow> [(''project_registry'', JObj kvs)] | _ \<Rightarrow> [])
     in ret [(''status'', JStr (if failing checks = [] then ''ok'' else ''attention'')),
             (''home'', JStr (rt_app_root paths)), (''config'', JStr (rt_config_dir paths)),
             (''checks'', JObj checks)])))))))))"

section \<open>Arguments\<close>

datatype command =
    Serve | Check | Init | Configure | Project | Start | Status | Stop | Doctor | Worker | Tunnel

record arguments =
  ar_command :: command
  ar_subcommand :: "string option"
  ar_project_id :: "string option"
  ar_project_root :: "string option"
  ar_expected_root :: "string option"
  ar_bridge_config :: "string option"
  ar_projects_config :: "string option"
  ar_env_file :: "string option"
  ar_home :: "string option"
  ar_app_root :: "string option"
  ar_transport :: "string option"
  ar_tunnel_id :: "string option"
  ar_profile_name :: string
  ar_bridge_url :: string
  ar_tunnel_health_url :: string
  ar_health_listen_addr :: string
  ar_public_url :: "string option"
  ar_origin_url :: string
  ar_metrics_addr :: string
  ar_startup_timeout :: nat
  ar_store_api_key :: bool
  ar_store_transport_secret :: bool
  ar_auth_mode :: "string option"
  ar_network_trust :: "string option"
  ar_allowed_hosts :: "string list option"
  ar_allowed_origins :: "string list option"
  ar_issuer :: "string option"
  ar_resource :: "string option"
  ar_resource_id :: "string option"
  ar_store_auth_secret :: bool
  ar_force :: bool

definition bundled_runtime_root :: "ext \<Rightarrow> string \<Rightarrow> ('z io_scheme, exn, string) M" where
  "bundled_runtime_root X root = andthen (fs_text X ''resolve'' root) (\<lambda>p. ret (join_path p ''.codemcp-runtime''))"

definition default_cli_command :: "ext \<Rightarrow> ('z io_scheme, exn, command) M" where
  "default_cli_command X = andthen (fs_ask X ''is_frozen'' []) (\<lambda>frozen. ret (if frozen then Start else Serve))"

definition default_runtime_home :: "ext \<Rightarrow> string \<Rightarrow> ('z io_scheme, exn, string option) M" where
  "default_runtime_home X root =
     andthen (fs_ask X ''is_frozen'' []) (\<lambda>frozen.
     if \<not> frozen then ret None
     else if x_darwin X then
       andthen (fs_text X ''home'' []) (\<lambda>base.
       andthen (fs_text X ''expanduser'' base) (\<lambda>p.
       andthen (fs_text X ''resolve'' p) (\<lambda>q.
       ret (Some (join_path (join_path (join_path q ''Library'') ''Application Support'') ''codemcp-remote'')))))
     else andthen (fs_text X ''resolve'' root) (\<lambda>p. ret (Some p)))"

text \<open>\<open>result.update(added)\<close>.\<close>

definition update_report :: "(string \<times> json) list \<Rightarrow> json \<Rightarrow> (string \<times> json) list" where
  "update_report result added =
     (case added of JObj kvs \<Rightarrow> fold (\<lambda>(k, v) r. with_field r k v) kvs result | _ \<Rightarrow> result)"

section \<open>Configuration commands\<close>

definition given_list :: "string list option \<Rightarrow> string list" where
  "given_list v = (case v of None \<Rightarrow> [] | Some xs \<Rightarrow> xs)"

definition configure_profiles ::
  "ext \<Rightarrow> runtime_paths \<Rightarrow> arguments \<Rightarrow> (string \<times> json) list \<Rightarrow> ('z io_scheme, exn, (string \<times> json) list) M" where
  "configure_profiles X paths args result =
     andthen (require (ar_network_trust args \<noteq> None \<or> (ar_allowed_hosts args = None \<and> ar_allowed_origins args = None))
       (LifecycleErr ''--network-trust is required when --allowed-host/--allowed-origin is supplied'')) (\<lambda>_.
     andthen (case ar_network_trust args of
                None \<Rightarrow> ret result
              | Some mode \<Rightarrow>
                  andthen (require (given_list (ar_allowed_hosts args) \<noteq> [])
                    (LifecycleErr ''--network-trust requires at least one --allowed-host'')) (\<lambda>_.
                  andthen (configure_network_trust X paths mode (given_list (ar_allowed_hosts args))
                    (given_list (ar_allowed_origins args))) (\<lambda>added. ret (update_report result added)))) (\<lambda>result1.
     andthen (require (ar_auth_mode args \<noteq> None
         \<or> (ar_issuer args = None \<and> ar_resource args = None \<and> ar_resource_id args = None))
       (LifecycleErr ''--auth-mode is required when OAuth auth fields are supplied'')) (\<lambda>_.
     case ar_auth_mode args of
       None \<Rightarrow> ret result1
     | Some mode \<Rightarrow>
         andthen (configure_resource_auth X paths mode (ar_issuer args) (ar_resource args) (ar_resource_id args)) (\<lambda>added.
         ret (update_report result1 added)))))"

definition store_secrets ::
  "ext \<Rightarrow> runtime_paths \<Rightarrow> arguments \<Rightarrow> provider \<Rightarrow> (string \<times> json) list \<Rightarrow> ('z io_scheme, exn, (string \<times> json) list) M" where
  "store_secrets X paths args p result =
     andthen (if ar_store_api_key args then
                andthen (require (p = OpenAITunnel) (LifecycleErr
                  ''--store-api-key is only valid for the openai-tunnel transport; use --store-transport-secret'')) (\<lambda>_.
                andthen (store_transport_secret_from_environment X paths OpenAITunnel) (\<lambda>v.
                ret (with_field result ''api_key'' (JStr v))))
              else ret result) (\<lambda>result1.
     andthen (if ar_store_transport_secret args then
                andthen (store_transport_secret_from_environment X paths p) (\<lambda>v.
                ret (with_field result1 ''transport_secret'' (JStr v)))
              else ret result1) (\<lambda>result2.
     if ar_store_auth_secret args then
       andthen (store_resource_auth_secret_from_environment X paths) (\<lambda>v.
       ret (with_field result2 ''auth_secret'' (JStr v)))
     else ret result2))"

definition load_tunnel_settings ::
  "ext \<Rightarrow> runtime_paths \<Rightarrow> string option \<Rightarrow> ('z io_scheme, exn, tunnel_settings) M" where
  "load_tunnel_settings X paths env_file =
     andthen (load_transport_provider X paths) (\<lambda>(p, _). load_provider_settings X paths p env_file)"

definition init_command :: "ext \<Rightarrow> runtime_paths \<Rightarrow> arguments \<Rightarrow> ('z io_scheme, exn, (string \<times> json) list) M" where
  "init_command X paths args =
     andthen (if opt_text (ar_tunnel_id args) \<noteq> [] then ret (opt_text (ar_tunnel_id args))
              else andthen (environ X ''CONTROL_PLANE_TUNNEL_ID'') (\<lambda>v. ret (opt_text v))) (\<lambda>tunnel_id.
     andthen (initialize_runtime X paths
       \<lparr>in_tunnel_id = tunnel_id, in_profile_name = ar_profile_name args, in_bridge_url = ar_bridge_url args,
        in_tunnel_health_url = ar_tunnel_health_url args, in_health_listen_addr = ar_health_listen_addr args,
        in_transport = ar_transport args, in_public_url = opt_text (ar_public_url args),
        in_origin_url = ar_origin_url args, in_metrics_addr = ar_metrics_addr args, in_force = ar_force args\<rparr>) (\<lambda>result.
     andthen (configure_profiles X paths args result) (\<lambda>result1.
     andthen (load_transport_provider X paths) (\<lambda>(p, _).
     andthen (store_secrets X paths args p result1) (\<lambda>result2.
     andthen (load_tunnel_settings X paths None) (\<lambda>tunnel.
     andthen (initialize_tunnel_profile X paths tunnel (ar_force args)) (\<lambda>config.
     let result3 = with_field result2 ''transport_config'' (JStr config)
     in ret (if p = OpenAITunnel then with_field result3 ''tunnel_profile'' (JStr config) else result3))))))))"

definition configure_command :: "ext \<Rightarrow> runtime_paths \<Rightarrow> arguments \<Rightarrow> ('z io_scheme, exn, (string \<times> json) list) M" where
  "configure_command X paths args =
     andthen (configure_profiles X paths args []) (\<lambda>result.
     andthen (require (result \<noteq> []) (LifecycleErr ''configure requires --network-trust or --auth-mode'')) (\<lambda>_.
     ret result))"

definition project_command :: "ext \<Rightarrow> runtime_paths \<Rightarrow> arguments \<Rightarrow> ('z io_scheme, exn, (string \<times> json) list) M" where
  "project_command X paths args =
     (if ar_subcommand args = Some ''add'' then
        (if opt_text (ar_project_id args) = [] \<or> opt_text (ar_project_root args) = []
         then raise (LifecycleErr ''usage: codemcp-remote project add <project-id> <project-root>'')
         else add_project X paths (opt_text (ar_project_id args)) (opt_text (ar_project_root args)))
      else if ar_subcommand args = Some ''remove'' then
        (case ar_expected_root args of
           Some expected \<Rightarrow>
             if opt_text (ar_project_id args) = []
             then raise (LifecycleErr ''usage: codemcp-remote project remove <project-id> --expected-root <project-root>'')
             else remove_project X paths (opt_text (ar_project_id args)) expected
         | None \<Rightarrow>
             raise (LifecycleErr ''usage: codemcp-remote project remove <project-id> --expected-root <project-root>''))
      else raise (LifecycleErr (''usage: codemcp-remote project add <project-id> <project-root> ''
             @ ''or project remove <project-id> --expected-root <project-root>'')))"

section \<open>Main\<close>

text \<open>A JSON document or a line that is printed, with the exit status; the status of a tunnel client; a native
  worker; and a server that is run with its settings behind its gate.\<close>

datatype outcome =
    Report json nat
  | ConfigurationError string
  | ClientStatus int
  | NativeWorker
  | Serving bridge_settings gate

definition report_of_json :: "json \<Rightarrow> (string \<times> json) list" where
  "report_of_json j = (case j of JObj kvs \<Rightarrow> kvs | _ \<Rightarrow> [])"

text \<open>The commands of the life cycle; the other commands are handled before and behind them.\<close>

definition managed_command :: "ext \<Rightarrow> runtime_paths \<Rightarrow> arguments \<Rightarrow> ('z io_scheme, exn, (string \<times> json) list) M" where
  "managed_command X paths args =
     (case ar_command args of
        Init \<Rightarrow> init_command X paths args
      | Configure \<Rightarrow> configure_command X paths args
      | Project \<Rightarrow> project_command X paths args
      | Start \<Rightarrow>
          andthen (start_services X paths (ar_bridge_config args) (ar_projects_config args) (ar_env_file args)
            (ar_startup_timeout args)) (\<lambda>j. ret (report_of_json j))
      | Status \<Rightarrow> andthen (status_services X paths) (\<lambda>st. ret (st_report st))
      | Stop \<Rightarrow> andthen (stop_services X paths) (\<lambda>j. ret (report_of_json j))
      | _ \<Rightarrow> doctor_report X paths (ar_bridge_config args) (ar_projects_config args) (ar_env_file args))"

definition failed_report :: "string \<Rightarrow> outcome" where
  "failed_report msg = Report (JObj [(''status'', JStr ''failed''), (''error'', JStr msg)]) 1"

definition exit_status :: "(string \<times> json) list \<Rightarrow> nat" where
  "exit_status result =
     (if map_of result ''status''
         \<in> {Some (JStr ''failed''), Some (JStr ''attention''), Some (JStr ''unknown''), Some (JStr ''degraded'')}
      then 1 else 0)"

definition tunnel_command :: "ext \<Rightarrow> runtime_paths \<Rightarrow> arguments \<Rightarrow> ('z io_scheme, exn, outcome) M" where
  "tunnel_command X paths args =
     andthen (try_lifecycle
       (andthen (load_tunnel_settings X paths (ar_env_file args)) (\<lambda>tunnel. run_tunnel_proxy X paths tunnel))) (\<lambda>r.
     ret (case r of Inl msg \<Rightarrow> failed_report msg | Inr status \<Rightarrow> ClientStatus status))"

definition lifecycle_command :: "ext \<Rightarrow> runtime_paths \<Rightarrow> arguments \<Rightarrow> ('z io_scheme, exn, outcome) M" where
  "lifecycle_command X paths args =
     andthen (try_lifecycle (managed_command X paths args)) (\<lambda>r.
     ret (case r of Inl msg \<Rightarrow> failed_report msg | Inr result \<Rightarrow> Report (JObj result) (exit_status result)))"

definition default_projects_config :: "ext \<Rightarrow> string \<Rightarrow> ('z io_scheme, exn, string) M" where
  "default_projects_config X root =
     (let config = join_path root ''config'' in
      andthen (fs_ask X ''is_file'' (join_path config ''projects.toml'')) (\<lambda>present.
      ret (join_path config (if present then ''projects.toml'' else ''projects.example.toml''))))"

definition check_report :: "bridge_settings \<Rightarrow> json" where
  "check_report S =
     JObj [(''status'', JStr ''ok''), (''phase'', JStr ''5''), (''host'', JStr (sv_host (bs_server S))),
           (''port'', JInt (sv_port (bs_server S))), (''path'', JStr (sv_path (bs_server S))),
           (''worker_mode'', JStr (cm_worker_mode (bs_codemcp S))),
           (''projects_registered'', JInt (int (length (bs_projects S)))), (''model_egress'', JStr ''deny'')]"

definition serve_command ::
  "ext \<Rightarrow> string \<Rightarrow> string \<Rightarrow> runtime_paths \<Rightarrow> arguments \<Rightarrow> ('z io_scheme, exn, outcome) M" where
  "serve_command X root default_projects paths args =
     andthen (try_settings (load_settings X
       (case ar_bridge_config args of
          Some p \<Rightarrow> p | None \<Rightarrow> join_path (join_path root ''config'') ''bridge.example.toml'')
       (case ar_projects_config args of Some p \<Rightarrow> p | None \<Rightarrow> default_projects))) (\<lambda>loaded.
     case loaded of
       Inl msg \<Rightarrow> ret (ConfigurationError msg)
     | Inr S \<Rightarrow>
         if ar_command args = Check then ret (Report (check_report S) 0)
         else
           andthen (try_lifecycle (load_gate X paths)) (\<lambda>g.
           ret (case g of Inl msg \<Rightarrow> ConfigurationError msg | Inr installed \<Rightarrow> Serving S installed)))"

definition is_managed :: "command \<Rightarrow> bool" where
  "is_managed c = (c \<in> {Init, Configure, Project, Start, Status, Stop, Doctor})"

definition main_command :: "ext \<Rightarrow> string \<Rightarrow> arguments \<Rightarrow> ('z io_scheme, exn, outcome) M" where
  "main_command X root args =
     andthen (default_projects_config X root) (\<lambda>default_projects.
     if ar_command args = Worker then ret NativeWorker
     else
       andthen (default_runtime_home X root) (\<lambda>default_home.
       andthen (try_lifecycle (resolve_runtime_paths X root (ar_home args) (ar_app_root args) default_home)) (\<lambda>resolved.
       case resolved of
         Inl msg \<Rightarrow> ret (failed_report msg)
       | Inr paths \<Rightarrow>
           if ar_command args = Tunnel then tunnel_command X paths args
           else if is_managed (ar_command args) then lifecycle_command X paths args
           else serve_command X root default_projects paths args)))"

text \<open>A refusal of the life cycle ends a command with a report and the status 1; it never leaves \<open>main\<close>.\<close>

lemma try_lifecycle_contains: "try_lifecycle m s = (Inl e, t) \<Longrightarrow> e \<noteq> LifecycleErr msg"
  by (auto simp: try_lifecycle_def handle_def andthen_def ret_apply raise_apply split: prod.splits sum.splits exn.splits)

lemma lifecycle_command_contains: "lifecycle_command X paths args s = (Inl e, t) \<Longrightarrow> e \<noteq> LifecycleErr msg"
  by (auto simp: lifecycle_command_def andthen_def [of "try_lifecycle _"] ret_apply split: prod.splits sum.splits
      dest: try_lifecycle_contains)

lemma tunnel_command_contains: "tunnel_command X paths args s = (Inl e, t) \<Longrightarrow> e \<noteq> LifecycleErr msg"
  by (auto simp: tunnel_command_def andthen_def [of "try_lifecycle _"] ret_apply split: prod.splits sum.splits
      dest: try_lifecycle_contains)

text \<open>A check that found an invalid or degraded state does not count as failing.\<close>

lemma invalid_is_not_failing:
  "failing [(''auth'', JObj [(''status'', JStr ''invalid'')]), (''services'', JObj [(''status'', JStr ''degraded'')])] = []"
  by code_simp

end
